(* ===== verification/Prelude.thy ===== *)
theory Prelude
  imports Main "HOL-Library.AList" "HOL-Library.Multiset" "HOL-Library.Product_Lexorder"
begin

section \<open>Shared library\<close>

text \<open>
  What every component of the model shares: the representation of Rust's \<open>HashMap\<close> as
  an association list with distinct keys, the iterator methods the source uses
  (\<open>min_by_key\<close>, \<open>VecDeque::remove\<close>), the result type of fallible code, and the
  generic argument that an invariant kept by every step holds in every reachable state.
\<close>

named_theorems model_defs \<open>definitions that automation may unfold in component proofs\<close>
named_theorems step_invs \<open>one-step preservation facts\<close>

subsection \<open>Results\<close>

text \<open>
  \<open>Result<T, E>\<close> is a sum: \<open>Inl\<close> the error, \<open>Inr\<close> the value. \<open>and_then\<close>
  is the \<open>?\<close> operator: the first error is the result.
\<close>

definition and_then :: "'e + 'a \<Rightarrow> ('a \<Rightarrow> 'e + 'b) \<Rightarrow> 'e + 'b" where
  "and_then r f = (case r of Inl e \<Rightarrow> Inl e | Inr x \<Rightarrow> f x)"

definition res_map :: "('a \<Rightarrow> 'b) \<Rightarrow> 'e + 'a \<Rightarrow> 'e + 'b" where
  "res_map f r = (case r of Inl e \<Rightarrow> Inl e | Inr x \<Rightarrow> Inr (f x))"

definition ok_or :: "'e \<Rightarrow> 'a option \<Rightarrow> 'e + 'a" where
  "ok_or e m = (case m of None \<Rightarrow> Inl e | Some x \<Rightarrow> Inr x)"

definition ensure :: "bool \<Rightarrow> 'e \<Rightarrow> 'e + unit" where
  "ensure b e = (if b then Inr () else Inl e)"

fun is_ok :: "'e + 'a \<Rightarrow> bool" where
  "is_ok (Inl e) = False"
| "is_ok (Inr x) = True"

lemma and_then_simps [simp]:
  "and_then (Inl e) f = Inl e"
  "and_then (Inr x) f = f x"
  by (simp_all add: and_then_def)

lemma and_then_Inr_iff:
  "and_then r f = Inr y \<longleftrightarrow> (\<exists>x. r = Inr x \<and> f x = Inr y)"
  by (cases r) auto

lemma res_map_simps [simp]:
  "res_map f (Inl e) = Inl e"
  "res_map f (Inr x) = Inr (f x)"
  by (simp_all add: res_map_def)

lemma res_map_Inr_iff: "res_map f r = Inr y \<longleftrightarrow> (\<exists>x. r = Inr x \<and> y = f x)"
  by (cases r) auto

lemma res_map_comp: "res_map f (res_map g r) = res_map (\<lambda>x. f (g x)) r"
  by (cases r) simp_all

lemma and_then_res_map: "and_then (res_map f r) g = and_then r (\<lambda>x. g (f x))"
  by (cases r) simp_all

lemma res_map_and_then: "res_map f (and_then r g) = and_then r (\<lambda>x. res_map f (g x))"
  by (cases r) simp_all

lemma and_then_cong: "(\<And>x. r = Inr x \<Longrightarrow> f x = g x) \<Longrightarrow> and_then r f = and_then r g"
  by (cases r) simp_all

lemma ok_or_simps [simp]:
  "ok_or e None = Inl e"
  "ok_or e (Some x) = Inr x"
  by (simp_all add: ok_or_def)

lemma ok_or_Inr_iff: "ok_or e m = Inr x \<longleftrightarrow> m = Some x"
  by (cases m) auto

lemma ensure_Inr_iff [simp]: "ensure b e = Inr u \<longleftrightarrow> b"
  by (simp add: ensure_def)

lemma is_ok_iff: "is_ok r \<longleftrightarrow> (\<exists>x. r = Inr x)"
  by (cases r) auto

text \<open>Running a list of checks in order: the first failing one is the result.\<close>

fun first_error :: "('e + unit) list \<Rightarrow> 'e + unit" where
  "first_error [] = Inr ()"
| "first_error (c # cs) = (case c of Inl e \<Rightarrow> Inl e | Inr _ \<Rightarrow> first_error cs)"

lemma first_error_ok_iff: "first_error cs = Inr () \<longleftrightarrow> (\<forall>c\<in>set cs. is_ok c)"
  by (induction cs) (auto split: sum.splits)

text \<open>A fallible function on every element; the first error ends it.\<close>

fun each_res :: "('a \<Rightarrow> 'e + 'b) \<Rightarrow> 'a list \<Rightarrow> 'e + 'b list" where
  "each_res f [] = Inr []"
| "each_res f (x # xs) = and_then (f x) (\<lambda>y. res_map ((#) y) (each_res f xs))"

lemma each_res_Cons:
  "each_res f (x # xs) = Inr zs \<longleftrightarrow> (\<exists>y ys. f x = Inr y \<and> each_res f xs = Inr ys \<and> zs = y # ys)"
  by (cases "f x"; cases "each_res f xs") (auto simp: res_map_def)

fun fold_res :: "('a \<Rightarrow> 'b \<Rightarrow> 'e + 'b) \<Rightarrow> 'a list \<Rightarrow> 'b \<Rightarrow> 'e + 'b" where
  "fold_res f [] acc = Inr acc"
| "fold_res f (x # xs) acc = and_then (f x acc) (fold_res f xs)"

subsection \<open>Hash maps as association lists\<close>

text \<open>
  \<open>HashMap<K, V>\<close> is an association list with distinct keys; the list order stands
  for the iteration order, which the standard library leaves unspecified.
\<close>

type_synonym ('k, 'v) hmap = "('k \<times> 'v) list"

abbreviation hget :: "('k, 'v) hmap \<Rightarrow> 'k \<Rightarrow> 'v option" where
  "hget m k \<equiv> map_of m k"

abbreviation hput :: "'k \<Rightarrow> 'v \<Rightarrow> ('k, 'v) hmap \<Rightarrow> ('k, 'v) hmap" where
  "hput k v m \<equiv> AList.update k v m"

abbreviation hdel :: "'k \<Rightarrow> ('k, 'v) hmap \<Rightarrow> ('k, 'v) hmap" where
  "hdel k m \<equiv> AList.delete k m"

abbreviation hkeys :: "('k, 'v) hmap \<Rightarrow> 'k list" where
  "hkeys m \<equiv> map fst m"

abbreviation hvals :: "('k, 'v) hmap \<Rightarrow> 'v list" where
  "hvals m \<equiv> map snd m"

definition hwf :: "('k, 'v) hmap \<Rightarrow> bool" where
  "hwf m \<longleftrightarrow> distinct (hkeys m)"

definition hcount :: "('k, nat) hmap \<Rightarrow> 'k \<Rightarrow> nat" where
  "hcount m k = (case hget m k of None \<Rightarrow> 0 | Some n \<Rightarrow> n)"

lemma hwf_simps [simp]:
  "hwf []"
  "hwf m \<Longrightarrow> hwf (hput k v m)"
  "hwf m \<Longrightarrow> hwf (hdel k m)"
  by (simp_all add: hwf_def distinct_update distinct_delete)

lemma hget_hput [simp]: "hget (hput k v m) k' = (if k' = k then Some v else hget m k')"
  by (simp add: update_conv')

lemma hget_hdel [simp]: "hget (hdel k m) k' = (if k' = k then None else hget m k')"
  by (simp add: delete_conv')

lemma hget_Some_mem: "hget m k = Some v \<Longrightarrow> (k, v) \<in> set m"
  by (rule map_of_SomeD)

lemma hget_mem_iff: "hwf m \<Longrightarrow> hget m k = Some v \<longleftrightarrow> (k, v) \<in> set m"
  by (simp add: hwf_def map_of_eq_Some_iff)

lemma hvals_iff: "hwf m \<Longrightarrow> v \<in> set (hvals m) \<longleftrightarrow> (\<exists>k. hget m k = Some v)"
  by (force simp: hget_mem_iff)

lemma hkeys_iff: "k \<in> set (hkeys m) \<longleftrightarrow> (\<exists>v. hget m k = Some v)"
  by (metis map_of_eq_None_iff image_set not_None_eq)

lemma set_hkeys_hput [simp]: "fst ` set (hput k v m) = insert k (fst ` set m)"
  using dom_update [of k v m] by (simp add: dom_map_of_conv_image_fst)

lemma set_hkeys_hdel [simp]: "fst ` set (hdel k m) = fst ` set m - {k}"
proof -
  have "dom (map_of (hdel k m)) = dom ((map_of m)(k := None))"
    by (simp add: delete_conv')
  then show ?thesis by (simp add: dom_map_of_conv_image_fst)
qed

lemma hcount_hput [simp]: "hcount (hput k v m) k' = (if k' = k then v else hcount m k')"
  by (simp add: hcount_def)

text \<open>Sums over the values, as in \<open>inflight.values().sum()\<close>.\<close>

lemma sum_hput:
  assumes "hwf m"
  shows "sum_list (hvals (hput k v m)) + hcount m k = sum_list (hvals m) + v"
  using assms
proof (induction m)
  case Nil
  then show ?case by (simp add: hcount_def)
next
  case (Cons p m)
  then show ?case by (cases p) (auto simp: hcount_def hwf_def map_of_eq_None_iff)
qed

lemma hcount_le_sum: "hcount m k \<le> sum_list (hvals m)"
proof (cases "hget m k")
  case (Some n)
  then have "n \<in> set (hvals m)" by (force dest: map_of_SomeD)
  with Some show ?thesis by (simp add: hcount_def member_le_sum_list)
qed (simp add: hcount_def)

subsection \<open>Iterator methods\<close>

text \<open>
  \<open>min_by_key\<close> returns the first element with the least key; \<open>VecDeque::remove\<close>
  drops the element at an index in range.
\<close>

fun min_by_key :: "('a \<Rightarrow> 'k::linorder) \<Rightarrow> 'a list \<Rightarrow> 'a option" where
  "min_by_key f [] = None"
| "min_by_key f (x # xs) =
     (case min_by_key f xs of
        None \<Rightarrow> Some x
      | Some y \<Rightarrow> if f x \<le> f y then Some x else Some y)"

lemma min_by_key_None [simp]: "min_by_key f xs = None \<longleftrightarrow> xs = []"
  by (cases xs) (auto split: option.splits)

lemma min_by_key_Some:
  "min_by_key f xs = Some x \<Longrightarrow> x \<in> set xs \<and> (\<forall>y\<in>set xs. f x \<le> f y)"
  by (induction xs arbitrary: x) (fastforce split: option.splits if_splits)+

text \<open>
  With an injective key the result depends on the set of elements only, so the
  unspecified iteration order of a hash map does not show.
\<close>

lemma min_by_key_perm:
  assumes "set xs = set ys" and "inj_on f (set xs)"
  shows "min_by_key f xs = min_by_key f ys"
proof (cases "min_by_key f xs")
  case None
  with assms(1) show ?thesis by (cases ys) auto
next
  case (Some x)
  then have x: "x \<in> set xs \<and> (\<forall>y\<in>set xs. f x \<le> f y)" by (rule min_by_key_Some)
  then obtain y where y: "min_by_key f ys = Some y"
    using assms(1) by (cases "min_by_key f ys") auto
  then have z: "y \<in> set ys \<and> (\<forall>z\<in>set ys. f y \<le> f z)" by (rule min_by_key_Some)
  with x assms have "f x = f y" by (simp add: order_antisym)
  with x z assms have "x = y" by (auto dest: inj_onD)
  with Some y show ?thesis by simp
qed

text \<open>\<open>find_map\<close>: the first result that is \<open>Some\<close>.\<close>

fun find_map :: "('a \<Rightarrow> 'b option) \<Rightarrow> 'a list \<Rightarrow> 'b option" where
  "find_map f [] = None"
| "find_map f (x # xs) = (case f x of None \<Rightarrow> find_map f xs | Some y \<Rightarrow> Some y)"

lemma find_map_None_iff: "find_map f xs = None \<longleftrightarrow> (\<forall>x\<in>set xs. f x = None)"
  by (induction xs) (auto split: option.splits)

lemma find_map_Some:
  "find_map f xs = Some y \<Longrightarrow>
     \<exists>us x vs. xs = us @ x # vs \<and> f x = Some y \<and> (\<forall>u\<in>set us. f u = None)"
proof (induction xs)
  case (Cons x xs)
  show ?case
  proof (cases "f x")
    case None
    with Cons obtain us z vs where
      "xs = us @ z # vs" "f z = Some y" "\<forall>u\<in>set us. f u = None" by auto
    with None show ?thesis by (intro exI [of _ "x # us"]) auto
  next
    case (Some z)
    with Cons.prems show ?thesis by (intro exI [of _ "[]"]) auto
  qed
qed simp

lemma find_map_mem: "find_map f xs = Some y \<Longrightarrow> \<exists>x\<in>set xs. f x = Some y"
  by (induction xs) (auto split: option.splits)

definition remove_at :: "nat \<Rightarrow> 'a list \<Rightarrow> 'a list" where
  "remove_at n xs = take n xs @ drop (Suc n) xs"

lemma remove_at_simps [simp]:
  "remove_at n [] = []"
  "remove_at 0 (x # xs) = xs"
  "remove_at (Suc n) (x # xs) = x # remove_at n xs"
  by (simp_all add: remove_at_def)

lemma mset_remove_at:
  "n < length xs \<Longrightarrow> add_mset (xs ! n) (mset (remove_at n xs)) = mset xs"
proof (induction n arbitrary: xs)
  case 0
  then show ?case by (cases xs) auto
next
  case (Suc n)
  then show ?case by (cases xs) (auto simp: add_mset_commute)
qed

lemma set_remove_at: "n < length xs \<Longrightarrow> set xs = insert (xs ! n) (set (remove_at n xs))"
  using mset_remove_at [of n xs] by (metis set_mset_add_mset_insert set_mset_mset)

lemma length_remove_at: "n < length xs \<Longrightarrow> length (remove_at n xs) = length xs - 1"
  by (simp add: remove_at_def)

lemma distinct_concat_map:
  "distinct xs \<Longrightarrow> (\<forall>x\<in>set xs. distinct (f x)) \<Longrightarrow>
     (\<forall>x\<in>set xs. \<forall>y\<in>set xs. x \<noteq> y \<longrightarrow> set (f x) \<inter> set (f y) = {}) \<Longrightarrow> distinct (concat (map f xs))"
  by (induction xs) fastforce+

subsection \<open>Invariants of step relations\<close>

text \<open>
  Every stateful component is a step relation. \<open>invariant_system\<close> is what the
  components promise of theirs: the invariant holds at the start and every step keeps
  it; then it holds in every reachable state.
\<close>

inductive reach :: "('s \<Rightarrow> bool) \<Rightarrow> ('s \<Rightarrow> 's \<Rightarrow> bool) \<Rightarrow> 's \<Rightarrow> bool"
  for init :: "'s \<Rightarrow> bool" and step :: "'s \<Rightarrow> 's \<Rightarrow> bool" where
  reach_init: "init s \<Longrightarrow> reach init step s"
| reach_step: "reach init step s \<Longrightarrow> step s t \<Longrightarrow> reach init step t"

locale invariant_system =
  fixes init :: "'s \<Rightarrow> bool"
    and step :: "'s \<Rightarrow> 's \<Rightarrow> bool"
    and inv :: "'s \<Rightarrow> bool"
  assumes inv_init: "init s \<Longrightarrow> inv s"
    and inv_step: "inv s \<Longrightarrow> step s t \<Longrightarrow> inv t"
begin

lemma reach_inv: "reach init step s \<Longrightarrow> inv s"
  by (induction rule: reach.induct) (auto intro: inv_init inv_step)

lemma steps_inv: "inv s \<Longrightarrow> step\<^sup>*\<^sup>* s t \<Longrightarrow> inv t"
  by (rotate_tac 1, induction rule: rtranclp_induct) (auto intro: inv_step)

end

end
