(* ===== verification/Rust_Text.thy ===== *)
theory Rust_Text
  imports Prelude
begin

section \<open>Rust strings\<close>

text \<open>
  A \<open>String\<close> or \<open>&str\<close> is its UTF-8 byte sequence, an Isabelle \<open>string\<close> whose
  characters are bytes; \<open>len()\<close> is \<open>length\<close>, equality, order and prefixes are
  bytewise as in Rust. What the source reads by Unicode scalar value (\<open>chars()\<close>,
  \<open>trim()\<close>, \<open>char::is_control\<close>) goes through \<open>str_chars\<close>, which groups the
  bytes of each scalar value.
\<close>

abbreviation byte :: "char \<Rightarrow> nat" where
  "byte c \<equiv> of_char c"

definition utf8_tail :: "char \<Rightarrow> nat" where
  "utf8_tail c = (if byte c < 192 then 0 else if byte c < 224 then 1 else if byte c < 240 then 2 else 3)"

function str_chars :: "string \<Rightarrow> string list" where
  "str_chars [] = []"
| "str_chars (c # cs) = (c # take (utf8_tail c) cs) # str_chars (drop (utf8_tail c) cs)"
  by pat_completeness auto
termination
  by (relation "measure length") auto

lemma concat_str_chars [simp]: "concat (str_chars s) = s"
  by (induction s rule: str_chars.induct) auto

text \<open>Literal text outside ASCII, by the code points U+0800 to U+FFFF of its characters.\<close>

definition utf8_3 :: "nat \<Rightarrow> string" where
  "utf8_3 n = [char_of (224 + n div 4096), char_of (128 + n div 64 mod 64), char_of (128 + n mod 64)]"

definition uni :: "nat list \<Rightarrow> string" where
  "uni ns = concat (map utf8_3 ns)"

text \<open>\<open>char::is_control\<close>: U+0000 to U+001F and U+007F to U+009F.\<close>

fun is_control :: "string \<Rightarrow> bool" where
  "is_control [c] = (byte c < 32 \<or> byte c = 127)"
| "is_control [c, d] = (byte c = 194 \<and> 128 \<le> byte d \<and> byte d < 160)"
| "is_control _ = False"

text \<open>\<open>char::is_whitespace\<close>: the code points of property White_Space.\<close>

fun is_whitespace :: "string \<Rightarrow> bool" where
  "is_whitespace [c] = ((9 \<le> byte c \<and> byte c \<le> 13) \<or> byte c = 32)"
| "is_whitespace [c, d] = (byte c = 194 \<and> (byte d = 133 \<or> byte d = 160))"
| "is_whitespace [c, d, e] =
     ((byte c = 225 \<and> byte d = 154 \<and> byte e = 128)
      \<or> (byte c = 226 \<and> byte d = 128
          \<and> ((128 \<le> byte e \<and> byte e \<le> 138) \<or> byte e = 168 \<or> byte e = 169 \<or> byte e = 175))
      \<or> (byte c = 226 \<and> byte d = 129 \<and> byte e = 159)
      \<or> (byte c = 227 \<and> byte d = 128 \<and> byte e = 128))"
| "is_whitespace _ = False"

definition has_control :: "string \<Rightarrow> bool" where
  "has_control s \<longleftrightarrow> (\<exists>c\<in>set (str_chars s). is_control c)"

definition str_trim :: "string \<Rightarrow> string" where
  "str_trim s = concat (rev (dropWhile is_whitespace (rev (dropWhile is_whitespace (str_chars s)))))"

definition blank :: "string \<Rightarrow> bool" where
  "blank s \<longleftrightarrow> str_trim s = []"

definition take_chars :: "nat \<Rightarrow> string \<Rightarrow> string" where
  "take_chars n s = concat (take n (str_chars s))"

lemma concat_take_prefix: "\<exists>r. concat xs = concat (take n xs) @ r"
  by (metis append_take_drop_id concat_append)

lemma length_take_chars_le: "length (take_chars n s) \<le> length s"
proof -
  obtain r where "concat (str_chars s) = take_chars n s @ r"
    using concat_take_prefix [of "str_chars s" n] by (auto simp: take_chars_def)
  then have "s = take_chars n s @ r" by simp
  then have "length s = length (take_chars n s @ r)" by (rule arg_cong)
  then show ?thesis by simp
qed

lemma concat_dropWhile_suffix: "\<exists>r. concat xs = r @ concat (dropWhile p xs)"
  by (metis concat_append takeWhile_dropWhile_id)

lemma length_str_trim_le: "length (str_trim s) \<le> length s"
proof -
  let ?d = "dropWhile is_whitespace (str_chars s)"
  have sum_le: "sum_list (map length (dropWhile p xs)) \<le> sum_list (map length xs)"
    for p and xs :: "string list"
    by (induction xs) auto
  have "length (str_trim s) = sum_list (map length (dropWhile is_whitespace (rev ?d)))"
    by (simp add: str_trim_def length_concat flip: rev_map)
  also have "\<dots> \<le> sum_list (map length (rev ?d))" by (rule sum_le)
  also have "\<dots> = sum_list (map length ?d)" by (simp flip: rev_map)
  also have "\<dots> \<le> sum_list (map length (str_chars s))" by (rule sum_le)
  also have "\<dots> = length s" by (simp flip: length_concat)
  finally show ?thesis .
qed

text \<open>Cutting a text between characters does not change its characters; trimming does that.\<close>

lemma str_chars_take: "str_chars (concat (take n (str_chars s))) = take n (str_chars s)"
proof (induction s arbitrary: n rule: str_chars.induct)
  case (2 c cs)
  then show ?case
    by (cases n; cases "length cs < utf8_tail c") (simp_all add: take_append)
qed simp

lemma str_chars_drop: "str_chars (concat (drop n (str_chars s))) = drop n (str_chars s)"
proof (induction s arbitrary: n rule: str_chars.induct)
  case (2 c cs)
  show ?case
  proof (cases n)
    case 0
    then show ?thesis by (simp only: drop_0 concat_str_chars)
  next
    case (Suc m)
    with 2 [of m] show ?thesis by simp
  qed
qed simp

lemma dropWhile_drop: "\<exists>n. dropWhile p xs = drop n xs"
  by (metis dropWhile_eq_drop)

lemma rev_dropWhile_take: "\<exists>n. rev (dropWhile p (rev xs)) = take n xs"
proof -
  obtain n where "dropWhile p (rev xs) = drop n (rev xs)" using dropWhile_drop by blast
  then show ?thesis by (auto simp: rev_drop)
qed

lemma str_chars_trim:
  "str_chars (str_trim s) = rev (dropWhile is_whitespace (rev (dropWhile is_whitespace (str_chars s))))"
proof -
  obtain n where d: "dropWhile is_whitespace (str_chars s) = drop n (str_chars s)" using dropWhile_drop by blast
  then have chars: "drop n (str_chars s) = str_chars (concat (drop n (str_chars s)))" by (simp add: str_chars_drop)
  obtain m where "rev (dropWhile is_whitespace (rev (drop n (str_chars s)))) = take m (drop n (str_chars s))"
    using rev_dropWhile_take by blast
  with d chars show ?thesis by (metis str_trim_def str_chars_take)
qed

lemma trim_has_control: "\<not> has_control s \<Longrightarrow> \<not> has_control (str_trim s)"
  by (auto simp: has_control_def str_chars_trim dest!: set_dropWhileD)

lemma dropWhile_snoc_keep: "\<not> p x \<Longrightarrow> dropWhile p (xs @ [x]) = dropWhile p xs @ [x]"
  by (induction xs) auto

lemma dropWhile_rev_dropWhile:
  "dropWhile p (rev (dropWhile p (rev (dropWhile p xs)))) = rev (dropWhile p (rev (dropWhile p xs)))"
proof (cases "dropWhile p xs")
  case (Cons y ys)
  then have "\<not> p y" by (metis dropWhile_eq_Cons_conv)
  with Cons show ?thesis by (simp add: dropWhile_snoc_keep)
next
  case Nil
  then show ?thesis by (simp only: rev.simps dropWhile.simps)
qed

lemma str_trim_trim: "str_trim (str_trim s) = str_trim s"
  unfolding str_trim_def [of "str_trim s"] str_chars_trim dropWhile_rev_dropWhile
  by (simp add: dropWhile_idem str_trim_def)

subsection \<open>ASCII classes and splitting\<close>

definition is_digit :: "char \<Rightarrow> bool" where
  "is_digit c \<longleftrightarrow> 48 \<le> byte c \<and> byte c \<le> 57"

definition is_alnum :: "char \<Rightarrow> bool" where
  "is_alnum c \<longleftrightarrow> is_digit c \<or> (65 \<le> byte c \<and> byte c \<le> 90) \<or> (97 \<le> byte c \<and> byte c \<le> 122)"

definition starts_with :: "string \<Rightarrow> string \<Rightarrow> bool" where
  "starts_with p s \<longleftrightarrow> take (length p) s = p"

definition strip_prefix :: "string \<Rightarrow> string \<Rightarrow> string option" where
  "strip_prefix p s = (if starts_with p s then Some (drop (length p) s) else None)"

definition ends_with :: "string \<Rightarrow> string \<Rightarrow> bool" where
  "ends_with p s \<longleftrightarrow> starts_with (rev p) (rev s)"

definition strip_suffix :: "string \<Rightarrow> string \<Rightarrow> string option" where
  "strip_suffix p s = (if ends_with p s then Some (take (length s - length p) s) else None)"

text \<open>\<open>split_once\<close> on an ASCII separator, and \<open>split\<close>, which always yields a part.\<close>

fun split_once :: "char \<Rightarrow> string \<Rightarrow> (string \<times> string) option" where
  "split_once c [] = None"
| "split_once c (x # xs) =
     (if x = c then Some ([], xs)
      else case split_once c xs of None \<Rightarrow> None | Some (a, b) \<Rightarrow> Some (x # a, b))"

fun split_on :: "char \<Rightarrow> string \<Rightarrow> string list" where
  "split_on c [] = [[]]"
| "split_on c (x # xs) =
     (if x = c then [] # split_on c xs
      else case split_on c xs of [] \<Rightarrow> [[x]] | p # ps \<Rightarrow> (x # p) # ps)"

definition rsplit_once :: "char \<Rightarrow> string \<Rightarrow> (string \<times> string) option" where
  "rsplit_once c s =
     (case split_once c (rev s) of None \<Rightarrow> None | Some (a, b) \<Rightarrow> Some (rev b, rev a))"

definition trim_end_char :: "char \<Rightarrow> string \<Rightarrow> string" where
  "trim_end_char c s = rev (dropWhile (\<lambda>x. x = c) (rev s))"

definition ascii_lower :: "char \<Rightarrow> char" where
  "ascii_lower c = (if 65 \<le> byte c \<and> byte c \<le> 90 then char_of (byte c + 32) else c)"

lemma split_once_Some: "split_once c s = Some (a, b) \<Longrightarrow> s = a @ c # b \<and> c \<notin> set a"
  by (induction s arbitrary: a b) (auto split: if_splits option.splits)

lemma split_once_None: "split_once c s = None \<longleftrightarrow> c \<notin> set s"
  by (induction s) (auto split: option.splits)

lemma split_on_nonempty [simp]: "split_on c s \<noteq> []"
  by (induction s) (auto split: list.splits)

lemma starts_with_append [simp]: "starts_with p (p @ s)"
  by (simp add: starts_with_def)

lemma strip_prefix_Some: "strip_prefix p s = Some r \<longleftrightarrow> s = p @ r"
  by (auto simp: strip_prefix_def starts_with_def) (metis append_take_drop_id)

text \<open>Unsigned decimal text, as \<open>format!\<close> prints an integer.\<close>

definition digit_char :: "nat \<Rightarrow> char" where
  "digit_char d = char_of (48 + d)"

fun show_nat :: "nat \<Rightarrow> string" where
  "show_nat n = (if n < 10 then [digit_char n] else show_nat (n div 10) @ [digit_char (n mod 10)])"

declare show_nat.simps [simp del]

text \<open>
  \<open>str::parse\<close> of an unsigned integer below a bound: an optional \<open>+\<close>, then decimal
  digits; an empty text, a non-digit or an overflow fails.
\<close>

definition digits_value :: "string \<Rightarrow> nat" where
  "digits_value s = foldl (\<lambda>n c. 10 * n + (byte c - 48)) 0 s"

definition parse_nat_below :: "nat \<Rightarrow> string \<Rightarrow> nat option" where
  "parse_nat_below bound t =
     (let s = (case t of c # cs \<Rightarrow> if c = CHR ''+'' then cs else t | [] \<Rightarrow> []) in
      if s \<noteq> [] \<and> (\<forall>c\<in>set s. is_digit c) \<and> digits_value s < bound
      then Some (digits_value s) else None)"

lemma digits_value_snoc [simp]:
  "digits_value (s @ [c]) = 10 * digits_value s + (byte c - 48)"
  by (simp add: digits_value_def)

lemma byte_digit_char: "d < 10 \<Longrightarrow> byte (digit_char d) = 48 + d"
  by (simp add: digit_char_def)

lemma show_nat_digits: "\<forall>c\<in>set (show_nat n). is_digit c"
proof (induction n rule: show_nat.induct)
  case (1 n)
  then show ?case
    by (subst show_nat.simps) (auto simp: is_digit_def byte_digit_char)
qed

lemma show_nat_nonempty: "show_nat n \<noteq> []"
  by (subst show_nat.simps) simp

lemma digits_value_show_nat: "digits_value (show_nat n) = n"
proof (induction n rule: show_nat.induct)
  case (1 n)
  show ?case
  proof (cases "n < 10")
    case True
    then show ?thesis
      by (subst show_nat.simps) (simp add: digits_value_def byte_digit_char)
  next
    case False
    then have "digits_value (show_nat n) = 10 * digits_value (show_nat (n div 10)) + n mod 10"
      by (subst show_nat.simps) (simp add: byte_digit_char)
    with False 1 show ?thesis by simp
  qed
qed

lemma parse_show_nat: "n < bound \<Longrightarrow> parse_nat_below bound (show_nat n) = Some n"
proof -
  obtain c cs where s: "show_nat n = c # cs" using show_nat_nonempty by (cases "show_nat n") auto
  then have "is_digit c" using show_nat_digits [of n] by simp
  then have "c \<noteq> CHR ''+''" by (auto simp: is_digit_def)
  with s have "(case show_nat n of c # cs \<Rightarrow> if c = CHR ''+'' then cs else show_nat n | [] \<Rightarrow> []) = show_nat n"
    by simp
  then show "n < bound \<Longrightarrow> parse_nat_below bound (show_nat n) = Some n"
    by (simp add: parse_nat_below_def show_nat_nonempty show_nat_digits digits_value_show_nat)
qed

end
