(* ===== verification/Json.thy ===== *)
theory Json
  imports Complex_Main Rust_Text
begin

section \<open>JSON documents\<close>

text \<open>
  The data type \<open>serde_json::Value\<close> that the source passes around. A number is one of
  serde's three representations; a float is finite, so it is the rational it denotes. An
  object is an association list (serde's \<open>Map\<close> iterates by key order). The accessors are
  the ones the source calls; reading and printing JSON text stay parameters of the
  definitions that use them.
\<close>

datatype jnum = PosInt nat | NegInt int | Float rat

datatype json =
    JNull
  | JBool bool
  | JNum jnum
  | JStr string
  | JArr "json list"
  | JObj "(string \<times> json) list"

definition jget :: "json \<Rightarrow> string \<Rightarrow> json option" where
  "jget v k = (case v of JObj m \<Rightarrow> map_of m k | _ \<Rightarrow> None)"

text \<open>\<open>value["k"]\<close> reads \<open>Null\<close> where the key is missing.\<close>

definition jindex :: "json \<Rightarrow> string \<Rightarrow> json" where
  "jindex v k = (case jget v k of None \<Rightarrow> JNull | Some w \<Rightarrow> w)"

fun as_str :: "json \<Rightarrow> string option" where
  "as_str (JStr s) = Some s"
| "as_str _ = None"

fun as_bool :: "json \<Rightarrow> bool option" where
  "as_bool (JBool b) = Some b"
| "as_bool _ = None"

fun as_array :: "json \<Rightarrow> json list option" where
  "as_array (JArr xs) = Some xs"
| "as_array _ = None"

fun as_object :: "json \<Rightarrow> (string \<times> json) list option" where
  "as_object (JObj m) = Some m"
| "as_object _ = None"

fun as_u64 :: "json \<Rightarrow> nat option" where
  "as_u64 (JNum (PosInt n)) = Some n"
| "as_u64 _ = None"

fun as_i64 :: "json \<Rightarrow> int option" where
  "as_i64 (JNum (PosInt n)) = (if n < 2 ^ 63 then Some (int n) else None)"
| "as_i64 (JNum (NegInt i)) = Some i"
| "as_i64 _ = None"

fun is_object :: "json \<Rightarrow> bool" where
  "is_object (JObj m) = True"
| "is_object _ = False"

fun is_array :: "json \<Rightarrow> bool" where
  "is_array (JArr xs) = True"
| "is_array _ = False"

fun is_string :: "json \<Rightarrow> bool" where
  "is_string (JStr s) = True"
| "is_string _ = False"

text \<open>\<open>pointer("/a/b")\<close> for keys that are no array index.\<close>

fun jpath :: "json \<Rightarrow> string list \<Rightarrow> json option" where
  "jpath v [] = Some v"
| "jpath v (k # ks) = (case jget v k of None \<Rightarrow> None | Some w \<Rightarrow> jpath w ks)"

definition str_field :: "json \<Rightarrow> string \<Rightarrow> string option" where
  "str_field v k = Option.bind (jget v k) as_str"

definition filter_option :: "('a \<Rightarrow> bool) \<Rightarrow> 'a option \<Rightarrow> 'a option" where
  "filter_option p m = (case m of None \<Rightarrow> None | Some x \<Rightarrow> if p x then Some x else None)"

definition or_else :: "'a option \<Rightarrow> 'a option \<Rightarrow> 'a option" where
  "or_else a b = (case a of None \<Rightarrow> b | Some x \<Rightarrow> Some x)"

lemma or_else_simps [simp]:
  "or_else None b = b"
  "or_else (Some x) b = Some x"
  "or_else a None = a"
  by (simp_all add: or_else_def split: option.splits)

lemma jget_simps [simp]:
  "jget (JObj m) k = map_of m k"
  "jget (JStr s) k = None"
  "jget (JArr xs) k = None"
  "jget JNull k = None"
  "jget (JBool b) k = None"
  "jget (JNum n) k = None"
  by (simp_all add: jget_def)

text \<open>Replacing or dropping a member of an object; other values are left as they are.\<close>

fun jput :: "string \<Rightarrow> json \<Rightarrow> json \<Rightarrow> json" where
  "jput k w (JObj m) = JObj (hput k w m)"
| "jput k w v = v"

fun jdel :: "string \<Rightarrow> json \<Rightarrow> json" where
  "jdel k (JObj m) = JObj (hdel k m)"
| "jdel k v = v"

lemma jget_jput [simp]:
  "is_object v \<Longrightarrow> jget (jput k w v) k' = (if k' = k then Some w else jget v k')"
  by (cases v) auto

lemma jget_jdel [simp]: "jget (jdel k v) k' = (if k' = k then None else jget v k')"
  by (cases v) auto

lemma as_str_Some [simp]: "as_str v = Some s \<longleftrightarrow> v = JStr s"
  by (cases v) auto

lemma as_array_Some [simp]: "as_array v = Some xs \<longleftrightarrow> v = JArr xs"
  by (cases v) auto

lemma as_object_Some [simp]: "as_object v = Some m \<longleftrightarrow> v = JObj m"
  by (cases v) auto

lemma is_object_iff: "is_object v \<longleftrightarrow> (\<exists>m. v = JObj m)"
  by (cases v) auto

subsection \<open>Nesting depth\<close>

text \<open>The nesting depth, which decreases from a document to its parts.\<close>

fun depth :: "json \<Rightarrow> nat" where
  "depth (JArr vs) = Suc (fold max (map depth vs) 0)"
| "depth (JObj m) = Suc (fold max (map (\<lambda>(k, v). depth v) m) 0)"
| "depth _ = 1"

lemma fold_max_start: "(k::nat) \<le> fold max ns k"
proof (induction ns arbitrary: k)
  case (Cons m ns)
  from Cons [of "max m k"] show ?case by simp
qed simp

lemma fold_max_ge: "(n::nat) \<in> set ns \<Longrightarrow> n \<le> fold max ns k"
proof (induction ns arbitrary: k)
  case (Cons m ns)
  with fold_max_start [of "max m k" ns] show ?case by auto
qed simp

lemma fold_max_le: "(\<forall>n\<in>set ns. n \<le> b) \<Longrightarrow> k \<le> (b::nat) \<Longrightarrow> fold max ns k \<le> b"
  by (induction ns arbitrary: k) auto

lemma depth_arr: "v \<in> set vs \<Longrightarrow> depth v < depth (JArr vs)"
  using fold_max_ge [of "depth v" "map depth vs" 0] by (simp add: less_Suc_eq_le)

lemma depth_obj: "(k, v) \<in> set m \<Longrightarrow> depth v < depth (JObj m)"
  using fold_max_ge [of "depth v" "map (\<lambda>(k, v). depth v) m" 0] by (force simp: less_Suc_eq_le)

lemma depth_get: "jget v k = Some w \<Longrightarrow> depth w < depth v"
  by (cases v) (auto dest!: map_of_SomeD intro: depth_obj simp del: depth.simps)

lemma depth_pos: "1 \<le> depth v"
  by (cases v) simp_all

end
