(* ===== verification/Core_Types.thy ===== *)
theory Core_Types
  imports Json
begin

section \<open>Core types: errors, models, accounts, keys\<close>

text \<open>
  The value types of \<open>crates/xxgate-core/src\<close>: \<open>types.rs\<close>, \<open>clients.rs\<close>,
  \<open>groups.rs\<close>, \<open>providers.rs\<close>, \<open>accounts.rs\<close> and the key record of
  \<open>access.rs\<close>. A \<open>Uuid\<close> is its 128-bit value, a time stamp counts nanoseconds.
  URL and header parsing belong to the crates \<open>url\<close> and \<open>http\<close>: parameters.
\<close>

type_synonym uuid = nat
type_synonym instant = nat
type_synonym datetime = int

subsection \<open>Errors (types.rs)\<close>

record original_upstream_error =
  oue_source :: string
  oue_fields :: json
  oue_truncated :: bool

record upstream_error =
  ue_code :: "string option"
  ue_reason :: "string option"
  ue_param :: "string option"
  ue_original :: "original_upstream_error option"

record err =
  err_code :: string
  err_message :: string
  err_status :: nat
  err_upstream :: "upstream_error option"
  err_client_message :: "string option"

type_synonym 'a res = "err + 'a"

definition error_new :: "nat \<Rightarrow> string \<Rightarrow> string \<Rightarrow> err" where
  "error_new status code message =
     \<lparr>err_code = code, err_message = message, err_status = status,
      err_upstream = None, err_client_message = None\<rparr>"

definition with_upstream :: "err \<Rightarrow> upstream_error option \<Rightarrow> err" where
  "with_upstream e facts = e\<lparr>err_upstream := facts\<rparr>"

definition with_client_message :: "err \<Rightarrow> string option \<Rightarrow> err" where
  "with_client_message e message =
     e\<lparr>err_client_message :=
        (case message of
           None \<Rightarrow> None
         | Some m \<Rightarrow> if blank m then None else Some (take_chars 4096 m))\<rparr>"

definition client_message :: "err \<Rightarrow> string" where
  "client_message e = (case err_client_message e of None \<Rightarrow> err_message e | Some m \<Rightarrow> m)"

definition err_invalid :: "string \<Rightarrow> err" where
  "err_invalid message = error_new 400 ''invalid_request'' message"

definition err_storage :: err where
  "err_storage = error_new 503 ''storage_unavailable'' ''Persistent storage is unavailable''"

definition err_cancelled :: err where
  "err_cancelled = error_new 499 ''client_cancelled'' ''The client disconnected''"

definition err_unauthorized :: err where
  "err_unauthorized = error_new 401 ''unauthorized'' ''Authentication is required''"

definition err_not_found :: err where
  "err_not_found = error_new 404 ''not_found'' ''The requested resource was not found''"

definition err_conflict :: err where
  "err_conflict = error_new 409 ''version_conflict'' ''The resource changed; reload and try again''"

lemma error_new_sel [simp]:
  "err_code (error_new s c m) = c"
  "err_status (error_new s c m) = s"
  "err_message (error_new s c m) = m"
  "err_upstream (error_new s c m) = None"
  "err_client_message (error_new s c m) = None"
  by (simp_all add: error_new_def)

lemma err_codes [simp]:
  "err_code (err_invalid m) = ''invalid_request''"
  "err_code err_storage = ''storage_unavailable''"
  "err_code err_cancelled = ''client_cancelled''"
  "err_code err_not_found = ''not_found''"
  "err_code err_conflict = ''version_conflict''"
  "err_code err_unauthorized = ''unauthorized''"
  by (simp_all add: err_invalid_def err_storage_def err_cancelled_def err_not_found_def
      err_conflict_def err_unauthorized_def)

subsection \<open>Models and client sources (types.rs, clients.rs, providers.rs)\<close>

record model_ref =
  mr_provider :: string
  mr_access_kind :: string
  mr_model :: string

definition model_codex :: "string \<Rightarrow> model_ref" where
  "model_codex m = \<lparr>mr_provider = ''openai'', mr_access_kind = ''codex_oauth'', mr_model = m\<rparr>"

datatype client_source = Codex | Unknown

record client_origin =
  co_source :: client_source
  co_evidence :: "string list"
  co_rule :: string
  co_version :: nat

definition client_origin_default :: client_origin where
  "client_origin_default =
     \<lparr>co_source = Unknown, co_evidence = [], co_rule = ''unrecognized'', co_version = 1\<rparr>"

record discovered_model =
  dm_id :: string
  dm_display_name :: string
  dm_context_window :: "int option"
  dm_raw :: "json option"

record account_model_catalog =
  mc_models :: "discovered_model list"
  mc_synced_at :: "datetime option"
  mc_attempted_at :: "datetime option"
  mc_error :: "err option"

record capabilities =
  cap_image_input :: bool
  cap_image_generation :: bool
  cap_tools :: bool
  cap_reasoning :: bool
  cap_fast :: bool

definition capabilities_default :: capabilities where
  "capabilities_default =
     \<lparr>cap_image_input = True, cap_image_generation = True, cap_tools = True,
      cap_reasoning = True, cap_fast = True\<rparr>"

record model_spec =
  ms_id :: string
  ms_upstream :: model_ref
  ms_enabled :: bool
  ms_capabilities :: capabilities
  ms_version :: int

definition model_spec_validate :: "model_spec \<Rightarrow> unit res" where
  "model_spec_validate s =
     (if ms_id s = [] \<or> length (ms_id s) > 160
         \<or> mr_model (ms_upstream s) = [] \<or> length (mr_model (ms_upstream s)) > 160
      then Inl (err_invalid ''Invalid model name'')
      else if mr_provider (ms_upstream s) \<noteq> ''openai''
              \<or> mr_access_kind (ms_upstream s) \<noteq> ''codex_oauth''
      then Inl (err_invalid ''Only Codex OAuth is implemented'')
      else Inr ())"

definition is_codex_image_model :: "model_ref \<Rightarrow> bool" where
  "is_codex_image_model m \<longleftrightarrow>
     mr_provider m = ''openai'' \<and> mr_access_kind m = ''codex_oauth'' \<and> mr_model m = ''gpt-image-2''"

subsection \<open>Groups (groups.rs)\<close>

definition DEFAULT_GROUP_ID :: uuid where
  "DEFAULT_GROUP_ID = 1"

definition default_group_ids :: "uuid list" where
  "default_group_ids = [DEFAULT_GROUP_ID]"

record group_row =
  gr_id :: uuid
  gr_name :: string
  gr_created_at :: datetime
  gr_updated_at :: datetime

definition group_validate_name :: "string \<Rightarrow> unit res" where
  "group_validate_name name =
     (if blank name \<or> length name > 128 \<or> has_control name
      then Inl (err_invalid ''Group name must contain 1 to 128 bytes without control characters'')
      else Inr ())"

subsection \<open>Accounts (accounts.rs)\<close>

datatype disable_reason =
    AdminDisabled | Quota5hExhausted | Quota7dExhausted | QuotaExhausted | OauthInvalid

record client_profile =
  cp_installation_id :: uuid
  cp_codex_version :: string
  cp_user_agent :: string
  cp_tls_backend :: string

record account =
  acc_id :: uuid
  acc_group_ids :: "uuid list"
  acc_name :: string
  acc_provider :: string
  acc_access_kind :: string
  acc_enabled :: bool
  acc_codex_only :: bool
  acc_use_extra_credits :: bool
  acc_disable_reason :: "disable_reason option"
  acc_max_inflight :: nat
  acc_upstream_account_id :: string
  acc_upstream_base_url :: string
  acc_models :: "string list"
  acc_models_restricted :: bool
  acc_model_catalog :: "account_model_catalog option"
  acc_profile :: client_profile
  acc_version :: int
  acc_credential_version :: int
  acc_credential_expires_at :: "datetime option"
  acc_created_at :: datetime
  acc_updated_at :: datetime

definition accepts :: "account \<Rightarrow> client_source \<Rightarrow> bool" where
  "accepts a source \<longleftrightarrow> \<not> acc_codex_only a \<or> source = Codex"

definition supports :: "account \<Rightarrow> model_ref \<Rightarrow> bool" where
  "supports a m \<longleftrightarrow>
     acc_provider a = mr_provider m
     \<and> acc_access_kind a = mr_access_kind m
     \<and> ((\<not> acc_models_restricted a \<and> acc_models a = []) \<or> mr_model m \<in> set (acc_models a))
     \<and> (is_codex_image_model m
        \<or> (case acc_model_catalog a of
             None \<Rightarrow> True
           | Some c \<Rightarrow> mc_synced_at c = None \<or> (\<exists>d\<in>set (mc_models c). dm_id d = mr_model m)))"

text \<open>What the crate \<open>url\<close> returns for a parsed URL, as far as the source reads it.\<close>

record url =
  url_scheme :: string
  url_host :: "string option"
  url_username :: string
  url_password :: "string option"
  url_query :: "string option"
  url_fragment :: "string option"

definition account_validate ::
  "(string \<Rightarrow> url option) \<Rightarrow> (string \<Rightarrow> bool) \<Rightarrow> bool \<Rightarrow> account \<Rightarrow> unit res" where
  "account_validate parse_url header_value_ok allow_http a =
     (if length (acc_group_ids a) > 64 \<or> length (remdups (acc_group_ids a)) \<noteq> length (acc_group_ids a)
      then Inl (err_invalid ''Choose at most 64 distinct account groups'')
      else if length (acc_models a) > 512 \<or> (\<exists>m\<in>set (acc_models a). blank m \<or> length m > 160)
      then Inl (err_invalid ''Invalid account model selection'')
      else if blank (acc_name a) \<or> length (acc_name a) > 128
      then Inl (err_invalid ''Account name must contain 1 to 128 bytes'')
      else if acc_max_inflight a = 0 \<or> acc_max_inflight a > 1000
      then Inl (err_invalid ''Account concurrency must be between 1 and 1000'')
      else if blank (acc_upstream_account_id a) \<or> length (acc_upstream_account_id a) > 256
      then Inl (err_invalid ''An upstream account ID is required'')
      else if acc_provider a \<noteq> ''openai'' \<or> acc_access_kind a \<noteq> ''codex_oauth''
      then Inl (err_invalid ''Only the Codex OAuth provider is currently supported'')
      else case parse_url (acc_upstream_base_url a) of
        None \<Rightarrow> Inl (err_invalid ''Invalid upstream URL'')
      | Some u \<Rightarrow>
          if url_host u = None \<or> url_username u \<noteq> [] \<or> url_password u \<noteq> None
             \<or> url_query u \<noteq> None \<or> url_fragment u \<noteq> None
             \<or> \<not> (url_scheme u = ''https'' \<or> (allow_http \<and> url_scheme u = ''http''))
          then Inl (err_invalid ''Upstream URL requires HTTPS and must not include credentials, query or fragment'')
          else if cp_tls_backend (acc_profile a) \<notin> {''native'', ''rustls''}
          then Inl (err_invalid ''Unsupported TLS backend'')
          else if cp_codex_version (acc_profile a) \<noteq> ''0.153.4''
          then Inl (err_invalid ''The supported Codex baseline is 0.153.4'')
          else if \<not> header_value_ok (cp_user_agent (acc_profile a))
          then Inl (err_invalid ''Invalid User-Agent'')
          else Inr ())"

record credentials =
  cr_access_token :: string
  cr_refresh_token :: string
  cr_id_token :: string
  cr_expires_at :: "datetime option"

definition credentials_validate :: "(string \<Rightarrow> bool) \<Rightarrow> credentials \<Rightarrow> unit res" where
  "credentials_validate header_value_ok c =
     (if cr_access_token c = [] \<or> length (cr_access_token c) > 32768
         \<or> length (cr_refresh_token c) > 32768 \<or> length (cr_id_token c) > 32768
      then Inl (err_invalid ''Invalid credential length'')
      else if \<not> header_value_ok (''Bearer '' @ cr_access_token c)
      then Inl (err_invalid ''Invalid access token'')
      else Inr ())"

record subscription_snapshot =
  sub_upstream_account_id :: string
  sub_plan_type :: string
  sub_active_until :: "datetime option"
  sub_will_renew :: "bool option"
  sub_last_checked_at :: datetime
  sub_source :: string

record gateway_key =
  gk_id :: uuid
  gk_group_id :: uuid
  gk_name :: string
  gk_prefix :: string
  gk_enabled :: bool
  gk_created_at :: datetime
  gk_last_used_at :: "datetime option"

subsection \<open>Facts about eligibility\<close>

text \<open>
  A validated account can be scheduled: it has capacity, its groups are distinct and its
  models are usable names.
\<close>

lemma account_validate_ok:
  "account_validate parse_url hv http a = Inr () \<Longrightarrow>
     distinct (acc_group_ids a) \<and> length (acc_group_ids a) \<le> 64
     \<and> 1 \<le> acc_max_inflight a \<and> acc_max_inflight a \<le> 1000
     \<and> acc_provider a = ''openai'' \<and> acc_access_kind a = ''codex_oauth''
     \<and> (\<forall>m\<in>set (acc_models a). \<not> blank m \<and> length m \<le> 160)"
  by (auto simp: account_validate_def not_less not_le card_distinct
      length_remdups_eq split: if_splits)

text \<open>An empty model list with the restriction switched on matches no model at all.\<close>

lemma restricted_empty_supports_nothing:
  "acc_models_restricted a \<Longrightarrow> acc_models a = [] \<Longrightarrow> \<not> supports a m"
  by (simp add: supports_def)

lemma supports_same_channel:
  "supports a m \<Longrightarrow> acc_provider a = mr_provider m \<and> acc_access_kind a = mr_access_kind m"
  by (simp add: supports_def)

end
