(* ===== verification/Settings.thy ===== *)
theory Settings
  imports Core_Types
begin

section \<open>Runtime settings\<close>

text \<open>
  \<open>crates/xxgate-core/src/settings.rs\<close>: the settings an administrator can change while
  the gateway runs, their defaults and the checks of \<open>RuntimeSettings::validate\<close>.
  \<open>LiveSettings\<close> is a watch channel: it holds the last published value, which every
  reader takes as an argument here. The unsigned fields are \<open>nat\<close>; the code only compares
  them.
\<close>

datatype log_level = LogError | LogWarn | LogInfo | LogDebug

fun log_level_as_str :: "log_level \<Rightarrow> string" where
  "log_level_as_str LogError = ''error''"
| "log_level_as_str LogWarn = ''warn''"
| "log_level_as_str LogInfo = ''info''"
| "log_level_as_str LogDebug = ''debug''"

record runtime_settings =
  rs_version :: int
  rs_log_level :: log_level
  rs_queue_timeout_ms :: nat
  rs_heartbeat_interval_ms :: nat
  rs_connect_timeout_ms :: nat
  rs_sse_idle_timeout_ms :: nat
  rs_queue_capacity :: nat
  rs_queue_memory_bytes :: nat
  rs_memory_reject_percent :: nat
  rs_memory_resume_percent :: nat
  rs_request_read_concurrency :: nat
  rs_request_body_limit_bytes :: nat
  rs_sse_event_limit_bytes :: nat
  rs_global_max_inflight :: nat
  rs_session_max_inflight :: nat
  rs_default_account_concurrency :: nat
  rs_quota_poll_interval_secs :: nat
  rs_quota_stale_after_secs :: nat
  rs_request_retention_days :: nat
  rs_audit_retention_days :: nat

definition settings_default :: runtime_settings where
  "settings_default =
     \<lparr>rs_version = 1, rs_log_level = LogInfo, rs_queue_timeout_ms = 300000,
      rs_heartbeat_interval_ms = 10000, rs_connect_timeout_ms = 15000,
      rs_sse_idle_timeout_ms = 300000, rs_queue_capacity = 2000,
      rs_queue_memory_bytes = 512 * 1024 * 1024, rs_memory_reject_percent = 85,
      rs_memory_resume_percent = 75, rs_request_read_concurrency = 4,
      rs_request_body_limit_bytes = 32 * 1024 * 1024,
      rs_sse_event_limit_bytes = 64 * 1024 * 1024, rs_global_max_inflight = 200,
      rs_session_max_inflight = 2, rs_default_account_concurrency = 2,
      rs_quota_poll_interval_secs = 300, rs_quota_stale_after_secs = 900,
      rs_request_retention_days = 30, rs_audit_retention_days = 180\<rparr>"

text \<open>The en dash of the messages is the UTF-8 bytes E2 80 93.\<close>

definition en_dash :: string where
  "en_dash = [CHR 0xE2, CHR 0x80, CHR 0x93]"

fun timeouts_in_range :: "(string \<times> nat) list \<Rightarrow> unit res" where
  "timeouts_in_range [] = Inr ()"
| "timeouts_in_range ((name, v) # rest) =
     (if 100 \<le> v \<and> v \<le> 86400000 then timeouts_in_range rest
      else Inl (err_invalid (name @ '' must be between 100 and 86400000'')))"

definition settings_validate :: "runtime_settings \<Rightarrow> unit res" where
  "settings_validate s =
     (if \<not> (50 \<le> rs_memory_reject_percent s \<and> rs_memory_reject_percent s \<le> 95)
         \<or> rs_memory_resume_percent s < 10
         \<or> rs_memory_reject_percent s \<le> rs_memory_resume_percent s
         \<or> \<not> (1 \<le> rs_request_read_concurrency s \<and> rs_request_read_concurrency s \<le> 64)
      then Inl (err_invalid (''Memory rejection must be 50'' @ en_dash
             @ ''95%, recovery 10% to below rejection, and body reader concurrency 1'' @ en_dash @ ''64''))
      else and_then
        (timeouts_in_range
           [(''queue_timeout_ms'', rs_queue_timeout_ms s),
            (''connect_timeout_ms'', rs_connect_timeout_ms s),
            (''sse_idle_timeout_ms'', rs_sse_idle_timeout_ms s)])
        (\<lambda>_.
          if \<not> (50 \<le> rs_heartbeat_interval_ms s \<and> rs_heartbeat_interval_ms s \<le> 60000)
          then Inl (err_invalid ''Heartbeat interval must be between 50 and 60000 ms'')
          else if rs_queue_capacity s = 0 \<or> 100000 < rs_queue_capacity s
             \<or> rs_global_max_inflight s = 0 \<or> 10000 < rs_global_max_inflight s
             \<or> rs_session_max_inflight s = 0 \<or> 1000 < rs_session_max_inflight s
             \<or> rs_default_account_concurrency s = 0 \<or> 1000 < rs_default_account_concurrency s
          then Inl (err_invalid ''Invalid concurrency or queue capacity'')
          else if rs_request_body_limit_bytes s < 1024
             \<or> 256 * 1024 * 1024 < rs_request_body_limit_bytes s
             \<or> rs_sse_event_limit_bytes s < 1024
             \<or> 256 * 1024 * 1024 < rs_sse_event_limit_bytes s
             \<or> rs_queue_memory_bytes s < 1024 * 1024
             \<or> 16 * 1024 * 1024 * 1024 < rs_queue_memory_bytes s
          then Inl (err_invalid ''Invalid request, event or queue memory limit'')
          else if \<not> (30 \<le> rs_quota_poll_interval_secs s \<and> rs_quota_poll_interval_secs s \<le> 86400)
             \<or> rs_quota_stale_after_secs s < rs_quota_poll_interval_secs s
             \<or> 604800 < rs_quota_stale_after_secs s
          then Inl (err_invalid ''Invalid quota collection interval'')
          else if rs_request_retention_days s = 0 \<or> rs_audit_retention_days s = 0
             \<or> 3650 < rs_request_retention_days s \<or> 3650 < rs_audit_retention_days s
          then Inl (err_invalid ''Retention must be between 1 and 3650 days'')
          else Inr ()))"

lemma settings_default_valid: "settings_validate settings_default = Inr ()"
  by (simp add: settings_validate_def settings_default_def)

text \<open>What the other components rely on once the settings passed the check.\<close>

lemma settings_validate_ok:
  assumes "settings_validate s = Inr ()"
  shows "1 \<le> rs_global_max_inflight s" and "1 \<le> rs_session_max_inflight s"
    and "1 \<le> rs_queue_capacity s" and "100 \<le> rs_queue_timeout_ms s"
    and "rs_memory_resume_percent s < rs_memory_reject_percent s"
    and "rs_memory_reject_percent s \<le> 95"
    and "rs_quota_poll_interval_secs s \<le> rs_quota_stale_after_secs s"
  using assms by (auto simp: settings_validate_def and_then_Inr_iff split: if_splits)

end
