(* ===== verification/Identity.thy ===== *)
theory Identity
  imports Core_Types
begin

section \<open>Session identities\<close>

text \<open>
  \<open>crates/xxgate-core/src/identity.rs\<close>: the keys that name a client's session and
  thread, the binding of a session to an account, and \<open>IdentityMap\<close>, which translates
  identifiers between the client and the upstream in both directions. The crate \<open>uuid\<close>
  is a parameter: \<open>v5 ns name\<close> is the printed (simple) form of \<open>Uuid::new_v5\<close>,
  \<open>reparse\<close> is \<open>Uuid::parse_str(..).to_string()\<close>, and a random id is an argument.
\<close>

record session_key =
  sk_key_id :: uuid
  sk_client_session_id :: string

record thread_key =
  tk_session :: session_key
  tk_client_thread_id :: string

record binding =
  bd_id :: uuid
  bd_group_id :: uuid
  bd_session :: session_key
  bd_generation :: int
  bd_account_id :: uuid
  bd_namespace :: uuid
  bd_provider :: string
  bd_access_kind :: string

definition binding_new ::
  "uuid \<Rightarrow> uuid \<Rightarrow> session_key \<Rightarrow> uuid \<Rightarrow> model_ref \<Rightarrow> int \<Rightarrow> binding" where
  "binding_new new_id new_ns session account_id model generation =
     \<lparr>bd_id = new_id, bd_group_id = DEFAULT_GROUP_ID, bd_session = session,
      bd_generation = generation, bd_account_id = account_id, bd_namespace = new_ns,
      bd_provider = mr_provider model, bd_access_kind = mr_access_kind model\<rparr>"

definition compatible :: "binding \<Rightarrow> model_ref \<Rightarrow> bool" where
  "compatible b m \<longleftrightarrow> bd_provider b = mr_provider m \<and> bd_access_kind b = mr_access_kind m"

lemma binding_new_sel [simp]:
  "bd_id (binding_new i n s a m g) = i"
  "bd_session (binding_new i n s a m g) = s"
  "bd_generation (binding_new i n s a m g) = g"
  "bd_account_id (binding_new i n s a m g) = a"
  "bd_namespace (binding_new i n s a m g) = n"
  "bd_provider (binding_new i n s a m g) = mr_provider m"
  "bd_access_kind (binding_new i n s a m g) = mr_access_kind m"
  by (simp_all add: binding_new_def)

record id_mapping =
  im_kind :: string
  im_client_id :: string
  im_upstream_id :: string

type_synonym id_table = "((string \<times> string), string) hmap"

record identity_map =
  ids_binding :: binding
  ids_forward :: id_table
  ids_reverse :: id_table
  ids_legacy_aliases :: id_table
  ids_pending :: "id_mapping list"

definition item_prefix :: "string \<Rightarrow> string" where
  "item_prefix i =
     (case split_once CHR ''_'' i of
        None \<Rightarrow> ''msg''
      | Some (p, _) \<Rightarrow>
          if p \<noteq> [] \<and> length p \<le> 64 \<and> (\<forall>c\<in>set p. is_alnum c) then p else ''msg'')"

text \<open>\<open>format!("{kind}\0{client}")\<close>\<close>

definition v5_name :: "string \<Rightarrow> string \<Rightarrow> string" where
  "v5_name kind client = kind @ [CHR 0x00] @ client"

definition last_part :: "string \<Rightarrow> string" where
  "last_part s = (case rsplit_once CHR ''_'' s of None \<Rightarrow> s | Some (_, b) \<Rightarrow> b)"

definition import_alias ::
  "(uuid \<Rightarrow> string \<Rightarrow> string) \<Rightarrow> binding \<Rightarrow> id_mapping \<Rightarrow> id_table \<Rightarrow> id_table" where
  "import_alias v5 b m t =
     (if im_kind m \<notin> {''item'', ''call'', ''response''} then t
      else if last_part (im_upstream_id m) = v5 (bd_namespace b) (v5_name (im_kind m) (im_client_id m))
      then t
      else case hget t (im_kind m, im_client_id m) of
        Some _ \<Rightarrow> t
      | None \<Rightarrow> hput (im_kind m, im_client_id m) (im_upstream_id m) t)"

definition import_legacy_aliases ::
  "(uuid \<Rightarrow> string \<Rightarrow> string) \<Rightarrow> binding \<Rightarrow> id_mapping list \<Rightarrow> identity_map \<Rightarrow> identity_map" where
  "import_legacy_aliases v5 b ms ids =
     (if bd_session b \<noteq> bd_session (ids_binding ids)
         \<or> bd_provider b \<noteq> bd_provider (ids_binding ids)
         \<or> bd_access_kind b \<noteq> bd_access_kind (ids_binding ids)
      then ids
      else ids\<lparr>ids_legacy_aliases := fold (import_alias v5 b) ms (ids_legacy_aliases ids)\<rparr>)"

definition load_mapping :: "id_mapping \<Rightarrow> identity_map \<Rightarrow> identity_map" where
  "load_mapping m ids =
     ids\<lparr>ids_forward := hput (im_kind m, im_client_id m) (im_upstream_id m) (ids_forward ids),
         ids_reverse := hput (im_kind m, im_upstream_id m) (im_client_id m) (ids_reverse ids)\<rparr>"

definition identity_new ::
  "(uuid \<Rightarrow> string \<Rightarrow> string) \<Rightarrow> binding \<Rightarrow> id_mapping list \<Rightarrow> identity_map" where
  "identity_new v5 b ms =
     fold load_mapping ms
       (import_legacy_aliases v5 b ms
          \<lparr>ids_binding = b, ids_forward = [], ids_reverse = [], ids_legacy_aliases = [],
           ids_pending = []\<rparr>)"

definition original_id :: "identity_map \<Rightarrow> string \<Rightarrow> string \<Rightarrow> string" where
  "original_id ids kind i =
     (if 512 < length i then i
      else case hget (ids_legacy_aliases ids) (kind, i) of None \<Rightarrow> i | Some u \<Rightarrow> u)"

definition existing :: "identity_map \<Rightarrow> string \<Rightarrow> string \<Rightarrow> string option" where
  "existing ids kind client = hget (ids_forward ids) (kind, client)"

definition insert_mapping :: "string \<Rightarrow> string \<Rightarrow> string \<Rightarrow> identity_map \<Rightarrow> identity_map" where
  "insert_mapping kind client upstream ids =
     ids\<lparr>ids_forward := hput (kind, client) upstream (ids_forward ids),
         ids_reverse := hput (kind, upstream) client (ids_reverse ids),
         ids_pending := ids_pending ids
           @ [\<lparr>im_kind = kind, im_client_id = client, im_upstream_id = upstream\<rparr>]\<rparr>"

text \<open>The upstream form of a client identifier that has none yet.\<close>

definition derived_upstream ::
  "(uuid \<Rightarrow> string \<Rightarrow> string) \<Rightarrow> (string \<Rightarrow> string option) \<Rightarrow> identity_map \<Rightarrow> string \<Rightarrow> string \<Rightarrow> string res" where
  "derived_upstream v5 reparse ids kind client =
     (let u = v5 (bd_namespace (ids_binding ids)) (v5_name kind client) in
      if kind = ''item'' then Inr (item_prefix client @ ''_'' @ u)
      else if kind = ''call'' then Inr (''call_'' @ u)
      else if kind = ''response'' then Inr (''resp_'' @ u)
      else ok_or (err_invalid ''Invalid identity'') (reparse u))"

definition outbound ::
  "(uuid \<Rightarrow> string \<Rightarrow> string) \<Rightarrow> (string \<Rightarrow> string option) \<Rightarrow> string \<Rightarrow> string \<Rightarrow> identity_map
     \<Rightarrow> (string \<times> identity_map) res" where
  "outbound v5 reparse kind client ids =
     (if client = [] \<or> 512 < length client
      then Inl (err_invalid ''Identity length is invalid'')
      else case existing ids kind client of
        Some u \<Rightarrow> Inr (u, ids)
      | None \<Rightarrow>
          and_then (derived_upstream v5 reparse ids kind client)
            (\<lambda>u. Inr (u, insert_mapping kind client u ids)))"

text \<open>\<open>fresh\<close> is the printed form of the random id the call draws.\<close>

definition inbound ::
  "string \<Rightarrow> string \<Rightarrow> string \<Rightarrow> identity_map \<Rightarrow> (string \<times> identity_map) res" where
  "inbound fresh kind upstream ids =
     (if upstream = [] \<or> 512 < length upstream
      then Inl (error_new 502 ''invalid_upstream_id'' ''Upstream identity length is invalid'')
      else case hget (ids_reverse ids) (kind, upstream) of
        Some client \<Rightarrow> Inr (client, ids)
      | None \<Rightarrow>
          let prefix = (if kind = ''response'' then ''resp'' else if kind = ''call'' then ''call''
                        else item_prefix upstream);
              client = prefix @ ''_'' @ fresh
          in Inr (client, insert_mapping kind client upstream ids))"

definition take_pending :: "identity_map \<Rightarrow> id_mapping list \<times> identity_map" where
  "take_pending ids = (ids_pending ids, ids\<lparr>ids_pending := []\<rparr>)"

end
