(* ===== verification/Floats.thy ===== *)
theory Floats
  imports Complex_Main Rust_Text
begin

section \<open>Double precision numbers\<close>

text \<open>
  An \<open>f64\<close> as the source uses it: parsed from text or JSON, compared, tested for being
  finite. A finite value is the rational it denotes; the sign of zero is not kept, since
  comparisons ignore it. \<open>f64_of_rat\<close> rounds to nearest, ties to even.
\<close>

datatype f64 = Fin rat | PosInf | NegInf | NotANumber

definition round_half_even :: "rat \<Rightarrow> int" where
  "round_half_even r =
     (let n = floor r; d = r - of_int n in
      if d < 1 / 2 then n else if 1 / 2 < d then n + 1 else if even n then n else n + 1)"

definition two_to :: "int \<Rightarrow> rat" where
  "two_to e = (if 0 \<le> e then 2 ^ nat e else 1 / 2 ^ nat (- e))"

text \<open>The least exponent whose 53-bit mantissa can hold the value.\<close>

definition f64_exponent :: "rat \<Rightarrow> int option" where
  "f64_exponent x = List.find (\<lambda>e. x < two_to (e + 53)) [-1074..971]"

definition f64_of_rat :: "rat \<Rightarrow> f64" where
  "f64_of_rat r =
     (case f64_exponent (abs r) of
        None \<Rightarrow> if 0 < r then PosInf else NegInf
      | Some e \<Rightarrow>
          let v = of_int (round_half_even (abs r / two_to e)) * two_to e in
          if two_to 1024 \<le> v then (if 0 < r then PosInf else NegInf)
          else Fin (if r < 0 then - v else v))"

fun f64_finite :: "f64 \<Rightarrow> bool" where
  "f64_finite (Fin r) = True"
| "f64_finite _ = False"

text \<open>\<open><\<close> of IEEE 754: false whenever one side is not a number.\<close>

fun f64_less :: "f64 \<Rightarrow> f64 \<Rightarrow> bool" where
  "f64_less (Fin a) (Fin b) = (a < b)"
| "f64_less (Fin a) PosInf = True"
| "f64_less NegInf (Fin b) = True"
| "f64_less NegInf PosInf = True"
| "f64_less _ _ = False"

text \<open>\<open>str::parse::<f64>\<close>\<close>

definition all_digits :: "string \<Rightarrow> bool" where
  "all_digits s \<longleftrightarrow> (\<forall>c\<in>set s. is_digit c)"

definition strip_sign :: "string \<Rightarrow> bool \<times> string" where
  "strip_sign s =
     (case s of
        c # cs \<Rightarrow> if c = CHR ''-'' then (True, cs) else if c = CHR ''+'' then (False, cs) else (False, s)
      | [] \<Rightarrow> (False, s))"

definition parse_exponent :: "string \<Rightarrow> int option" where
  "parse_exponent s =
     (let (neg, ds) = strip_sign s in
      if ds \<noteq> [] \<and> all_digits ds
      then Some (if neg then - int (digits_value ds) else int (digits_value ds)) else None)"

definition parse_mantissa :: "string \<Rightarrow> rat option" where
  "parse_mantissa s =
     (case split_once CHR ''.'' s of
        None \<Rightarrow> if s \<noteq> [] \<and> all_digits s then Some (of_nat (digits_value s)) else None
      | Some (a, b) \<Rightarrow>
          if all_digits a \<and> all_digits b \<and> (a \<noteq> [] \<or> b \<noteq> [])
          then Some (of_nat (digits_value (a @ b)) / 10 ^ length b) else None)"

definition ten_to :: "int \<Rightarrow> rat" where
  "ten_to e = (if 0 \<le> e then 10 ^ nat e else 1 / 10 ^ nat (- e))"

definition parse_decimal_text :: "string \<Rightarrow> rat option" where
  "parse_decimal_text s =
     (case split_once CHR ''e'' s of
        None \<Rightarrow> parse_mantissa s
      | Some (m, e) \<Rightarrow>
          (case (parse_mantissa m, parse_exponent e) of
             (Some v, Some x) \<Rightarrow> Some (v * ten_to x)
           | _ \<Rightarrow> None))"

definition parse_f64 :: "string \<Rightarrow> f64 option" where
  "parse_f64 s =
     (let (neg, t) = strip_sign s; l = map ascii_lower t in
      if l = ''inf'' \<or> l = ''infinity'' then Some (if neg then NegInf else PosInf)
      else if l = ''nan'' then Some NotANumber
      else map_option (\<lambda>v. f64_of_rat (if neg then - v else v)) (parse_decimal_text l))"

lemma parse_f64_nan: "parse_f64 ''NaN'' = Some NotANumber"
  by code_simp

lemma parse_f64_bad: "parse_f64 ''invalid'' = None"
  by (simp add: parse_f64_def strip_sign_def ascii_lower_def parse_decimal_text_def
      parse_mantissa_def all_digits_def is_digit_def)

end
