(* ===== verification/Quota.thy ===== *)
theory Quota
  imports Floats Core_Types
begin

section \<open>Quota windows and extra credits\<close>

text \<open>
  \<open>crates/xxgate-core/src/quota.rs\<close>: one usage window of an upstream quota, the separate
  credit balance, and when a window keeps an account from being used. A time stamp counts
  nanoseconds; \<open>num_seconds\<close> truncates towards zero.
\<close>

record quota_window =
  qw_pool :: string
  qw_window_minutes :: "int option"
  qw_used_percent :: f64
  qw_resets_at :: "datetime option"
  qw_observed_at :: datetime
  qw_source :: string

definition window_disable_reason :: "quota_window \<Rightarrow> disable_reason option" where
  "window_disable_reason w =
     (if \<not> f64_finite (qw_used_percent w) \<or> f64_less (qw_used_percent w) (Fin 100) then None
      else Some (if qw_window_minutes w = Some 300 then Quota5hExhausted
                 else if qw_window_minutes w = Some 10080 then Quota7dExhausted
                 else QuotaExhausted))"

definition cooldown_active :: "quota_window \<Rightarrow> datetime \<Rightarrow> bool" where
  "cooldown_active w now \<longleftrightarrow>
     window_disable_reason w \<noteq> None \<and>
     (case qw_resets_at w of None \<Rightarrow> True | Some reset \<Rightarrow> now < reset)"

record extra_credits =
  xc_has_credits :: "bool option"
  xc_unlimited :: "bool option"
  xc_balance :: "string option"
  xc_observed_at :: datetime
  xc_source :: string
  xc_blocked :: bool

definition num_seconds :: "int \<Rightarrow> int" where
  "num_seconds d = (if 0 \<le> d then d div 1000000000 else - ((- d) div 1000000000))"

definition positive_balance :: "string \<Rightarrow> bool" where
  "positive_balance b \<longleftrightarrow>
     (case parse_f64 b of None \<Rightarrow> False | Some n \<Rightarrow> f64_finite n \<and> f64_less (Fin 0) n)"

definition credits_available :: "extra_credits \<Rightarrow> datetime \<Rightarrow> nat \<Rightarrow> bool" where
  "credits_available c now stale_after_secs \<longleftrightarrow>
     (let age = num_seconds (now - xc_observed_at c) in
      \<not> (xc_blocked c \<or> age < 0 \<or> int stale_after_secs < age)
      \<and> (xc_unlimited c = Some True
         \<or> (xc_has_credits c = Some True
            \<and> (case xc_balance c of None \<Rightarrow> True | Some b \<Rightarrow> positive_balance b))))"

definition quota_blocked :: "quota_window \<Rightarrow> bool \<Rightarrow> datetime \<Rightarrow> bool" where
  "quota_blocked w extra_available now \<longleftrightarrow>
     cooldown_active w now
     \<and> \<not> (extra_available \<and> qw_pool w = ''codex''
           \<and> (qw_window_minutes w = Some 300 \<or> qw_window_minutes w = Some 10080))"

lemma blocked_has_reason: "quota_blocked w x now \<Longrightarrow> window_disable_reason w \<noteq> None"
  by (simp add: quota_blocked_def cooldown_active_def)

text \<open>Extra credits only ever lift a block, and only of the two subscription windows.\<close>

lemma credits_only_lift: "quota_blocked w True now \<Longrightarrow> quota_blocked w x now"
  by (auto simp: quota_blocked_def)

lemma credits_other_pools:
  "qw_pool w \<noteq> ''codex'' \<or> qw_window_minutes w \<notin> {Some 300, Some 10080} \<Longrightarrow>
     quota_blocked w True now = quota_blocked w False now"
  by (auto simp: quota_blocked_def)

lemma stale_credits_unavailable:
  "int stale < num_seconds (now - xc_observed_at c) \<Longrightarrow> \<not> credits_available c now stale"
  by (simp add: credits_available_def Let_def)

lemma nan_balance_unavailable:
  "xc_unlimited c \<noteq> Some True \<Longrightarrow> xc_balance c = Some ''NaN'' \<Longrightarrow> \<not> credits_available c now stale"
  by (simp add: credits_available_def Let_def positive_balance_def parse_f64_nan)

end
