(* ===== verification/Resets.thy ===== *)
theory Resets
  imports Core_Types "HOL-Library.Char_ord" "HOL-Library.List_Lexorder"
begin

section \<open>Reset credits\<close>

text \<open>
  \<open>crates/xxgate-core/src/resets.rs\<close>: the vouchers that reset an account's usage windows,
  which of them can be used and which is used first, and the journaled operation that
  spends one.
\<close>

record reset_credit =
  rc_id :: string
  rc_reset_type :: string
  rc_status :: string
  rc_granted_at :: datetime
  rc_expires_at :: "datetime option"
  rc_title :: "string option"
  rc_description :: "string option"

definition credit_available :: "reset_credit \<Rightarrow> datetime \<Rightarrow> bool" where
  "credit_available c now \<longleftrightarrow>
     rc_status c = ''available'' \<and> rc_reset_type c = ''codex_rate_limits''
     \<and> (case rc_expires_at c of None \<Rightarrow> True | Some t \<Rightarrow> now < t)"

record reset_credits =
  rcs_available_count :: nat
  rcs_credits :: "reset_credit list"
  rcs_observed_at :: datetime

text \<open>
  The sort key \<open>(expires_at.is_none(), expires_at, granted_at, id)\<close>; where the first
  components agree, both expiries are present or both absent, so any default will do.
\<close>

definition credit_key :: "reset_credit \<Rightarrow> bool \<times> datetime \<times> datetime \<times> string" where
  "credit_key c =
     (rc_expires_at c = None, (case rc_expires_at c of None \<Rightarrow> 0 | Some t \<Rightarrow> t),
      rc_granted_at c, rc_id c)"

definition credits_sort :: "reset_credits \<Rightarrow> reset_credits" where
  "credits_sort cs = cs\<lparr>rcs_credits := sort_key credit_key (rcs_credits cs)\<rparr>"

definition credits_next :: "reset_credits \<Rightarrow> datetime \<Rightarrow> reset_credit option" where
  "credits_next cs now =
     min_by_key credit_key (filter (\<lambda>c. credit_available c now) (rcs_credits cs))"

datatype reset_code = ResetDone | NothingToReset | NoCredit | AlreadyRedeemed

record reset_result =
  rt_code :: reset_code
  rt_windows_reset :: nat

record reset_operation =
  ro_id :: uuid
  ro_account_id :: uuid
  ro_credit_id :: string
  ro_created_at :: datetime
  ro_result :: "reset_result option"

text \<open>What is spent next is available, and no available voucher would expire sooner.\<close>

lemma credits_next_Some:
  assumes "credits_next cs now = Some c"
  shows "c \<in> set (rcs_credits cs)" and "credit_available c now"
    and "\<And>d. d \<in> set (rcs_credits cs) \<Longrightarrow> credit_available d now \<Longrightarrow> credit_key c \<le> credit_key d"
  using min_by_key_Some [OF assms [unfolded credits_next_def]] by simp_all

lemma credits_next_expiry:
  assumes "credits_next cs now = Some c" and "d \<in> set (rcs_credits cs)" and "credit_available d now"
    and "rc_expires_at d = Some y"
  shows "\<exists>x. rc_expires_at c = Some x \<and> x \<le> y"
  using credits_next_Some(3) [OF assms(1-3)] assms(4)
  by (cases "rc_expires_at c") (auto simp: credit_key_def)

lemma credits_next_None_iff:
  "credits_next cs now = None \<longleftrightarrow> (\<forall>c\<in>set (rcs_credits cs). \<not> credit_available c now)"
  by (simp add: credits_next_def filter_empty_conv)

text \<open>Sorting shows the vouchers in the order in which they are spent.\<close>

lemma credits_next_sorted:
  assumes "credits_next cs now = Some c"
  shows "hd (filter (\<lambda>c. credit_available c now) (rcs_credits (credits_sort cs))) \<in> set (rcs_credits cs)
    \<and> credit_key (hd (filter (\<lambda>c. credit_available c now) (rcs_credits (credits_sort cs)))) = credit_key c"
proof -
  let ?a = "filter (\<lambda>c. credit_available c now) (rcs_credits (credits_sort cs))"
  have s: "set ?a = {c \<in> set (rcs_credits cs). credit_available c now}"
    by (simp add: credits_sort_def)
  note c = credits_next_Some [OF assms]
  with s have "c \<in> set ?a" by simp
  then have ne: "?a \<noteq> []" by (metis empty_iff list.set(1))
  have h: "hd ?a \<in> set ?a" by (rule hd_in_set [OF ne])
  have "sorted (map credit_key (rcs_credits (credits_sort cs)))" by (simp add: credits_sort_def)
  then have "sorted (map credit_key ?a)" by (rule sorted_filter)
  then have "credit_key (hd ?a) \<le> credit_key c"
    using \<open>c \<in> set ?a\<close> by (cases ?a) (auto simp del: filter.simps set_filter)
  moreover have "hd ?a \<in> set (rcs_credits cs)" "credit_available (hd ?a) now"
    using h unfolding s by simp_all
  ultimately show ?thesis using c(3) by (auto intro: order_antisym)
qed

end
