(* ===== verification/Pg_Store.thy ===== *)
theory Pg_Store
  imports Identity Quota Resets "HOL-Library.Char_ord" "HOL-Library.List_Lexorder"
begin

section \<open>The database\<close>

text \<open>
  The tables behind \<open>crates/xxgate-postgres\<close> that the gateway's decisions rest on, and the
  operations of \<open>accounts.rs\<close>, \<open>bindings.rs\<close>, \<open>resets.rs\<close> and of the safety part of
  \<open>requests.rs\<close> on them: one SQL transaction is one function of the tables, \<open>Inl\<close> a
  transaction that is rolled back. The constraints are those of \<open>migrations/\<close>. A row's JSON
  data is the record it encodes; an audit event is kept without its JSON payload; the
  database's own clock columns, read by no decision, are left out. A failing connection is
  not part of these functions: \<open>act_store\<close> of \<open>Gateway_State\<close> adds it around each call.
\<close>

record audit_event =
  ev_kind :: string
  ev_actor :: string
  ev_request :: "uuid option"
  ev_account :: "uuid option"

record account_row =
  row_account :: account
  row_credentials :: string
  row_deleted :: bool

record reset_row =
  rr_operation :: reset_operation
  rr_completed :: bool

type_synonym quota_key = "uuid \<times> string \<times> int"

record pg =
  pg_groups :: "uuid set"
  pg_accounts :: "(uuid, account_row) hmap"
  pg_account_groups :: "(uuid \<times> uuid) set"
  pg_extra_credits :: "(uuid, extra_credits) hmap"
  pg_current_quotas :: "(quota_key, datetime \<times> nat \<times> quota_window) hmap"
  pg_snapshots :: nat
  pg_sessions :: "(session_key, int \<times> uuid option) hmap"
  pg_bindings :: "binding list"
  pg_mappings :: "((uuid \<times> string \<times> string), string) hmap"
  pg_reset_credits :: "(uuid, reset_credits) hmap"
  pg_resets :: "reset_row list"
  pg_safety :: "(session_key, nat \<times> err) hmap"
  pg_events :: "audit_event list"

type_synonym 'a tx = "pg \<Rightarrow> 'a res \<times> pg"

definition log_event :: "string \<Rightarrow> string \<Rightarrow> uuid option \<Rightarrow> pg \<Rightarrow> pg" where
  "log_event kind actor account db =
     db\<lparr>pg_events := pg_events db
       @ [\<lparr>ev_kind = kind, ev_actor = actor, ev_request = None, ev_account = account\<rparr>]\<rparr>"

definition live_row :: "pg \<Rightarrow> uuid \<Rightarrow> account_row option" where
  "live_row db i =
     (case hget (pg_accounts db) i of
        None \<Rightarrow> None
      | Some r \<Rightarrow> if row_deleted r then None else Some r)"

definition put_row :: "uuid \<Rightarrow> account_row \<Rightarrow> pg \<Rightarrow> pg" where
  "put_row i r db = db\<lparr>pg_accounts := hput i r (pg_accounts db)\<rparr>"

subsection \<open>Accounts (accounts.rs)\<close>

definition pg_list_accounts :: "account list tx" where
  "pg_list_accounts db =
     (Inr (map row_account (filter (\<lambda>r. \<not> row_deleted r) (hvals (pg_accounts db)))), db)"

definition pg_save_model_catalog :: "uuid \<Rightarrow> account_model_catalog \<Rightarrow> account tx" where
  "pg_save_model_catalog i catalog db =
     (case live_row db i of
        None \<Rightarrow> (Inl err_not_found, db)
      | Some r \<Rightarrow>
          let a = (row_account r)\<lparr>acc_model_catalog := Some catalog\<rparr>
          in (Inr a, put_row i (r\<lparr>row_account := a\<rparr>) db))"

definition pg_delete_account :: "uuid \<Rightarrow> unit tx" where
  "pg_delete_account i db =
     (case live_row db i of
        None \<Rightarrow> (Inl err_not_found, db)
      | Some r \<Rightarrow>
          let a = (row_account r)\<lparr>acc_enabled := False, acc_disable_reason := Some AdminDisabled,
                     acc_version := acc_version (row_account r) + 1\<rparr>;
              db1 = put_row i (r\<lparr>row_account := a, row_deleted := True\<rparr>) db;
              db2 = db1\<lparr>pg_account_groups := {p \<in> pg_account_groups db1. fst p \<noteq> i}\<rparr>
          in (Inr (), log_event ''account_deleted'' ''admin'' (Some i) db2))"

definition err_group_not_found :: err where
  "err_group_not_found = error_new 400 ''group_not_found''
     ''One or more selected groups do not exist''"

definition link_groups :: "account \<Rightarrow> pg \<Rightarrow> pg" where
  "link_groups a db =
     db\<lparr>pg_account_groups := {p \<in> pg_account_groups db. fst p \<noteq> acc_id a}
          \<union> (\<lambda>g. (acc_id a, g)) ` set (acc_group_ids a)\<rparr>"

text \<open>The last statements of \<open>put_account\<close>: the group links, whose primary key rejects a repeated group.\<close>

definition store_account :: "string \<Rightarrow> account_row \<Rightarrow> account tx" where
  "store_account kind r db =
     (let a = row_account r in
      if distinct (acc_group_ids a)
      then (Inr a, log_event kind ''admin'' (Some (acc_id a)) (link_groups a (put_row (acc_id a) r db)))
      else (Inl err_storage, db))"

definition pg_list_groups :: "uuid set tx" where
  "pg_list_groups db = (Inr (pg_groups db), db)"

definition pg_put_account ::
  "datetime \<Rightarrow> account \<Rightarrow> string option \<Rightarrow> int option \<Rightarrow> account tx" where
  "pg_put_account now account encrypted expected db =
     (if \<not> (\<forall>g\<in>set (acc_group_ids account). g \<in> pg_groups db)
      then (Inl err_group_not_found, db)
      else
        let i = acc_id account;
            a = account\<lparr>acc_updated_at := now,
                  acc_version := (case expected of None \<Rightarrow> 0 | Some v \<Rightarrow> v) + 1\<rparr>
        in case expected of
             Some v \<Rightarrow>
               (case live_row db i of
                  None \<Rightarrow> (Inl err_not_found, db)
                | Some r \<Rightarrow>
                    if acc_version (row_account r) \<noteq> v then (Inl err_conflict, db)
                    else
                      let a' = a\<lparr>acc_created_at := acc_created_at (row_account r),
                                 acc_credential_version := acc_credential_version (row_account r)
                                   + (if encrypted = None then 0 else 1)\<rparr>;
                          r' = r\<lparr>row_account := a',
                                 row_credentials := (case encrypted of
                                   None \<Rightarrow> row_credentials r | Some c \<Rightarrow> c)\<rparr>
                      in store_account ''account_updated'' r' db)
           | None \<Rightarrow>
               let a' = a\<lparr>acc_credential_version := 1\<rparr>
               in case encrypted of
                    None \<Rightarrow> (Inl (err_invalid ''Credentials are required''), db)
                  | Some c \<Rightarrow>
                      if hget (pg_accounts db) i \<noteq> None then (Inl err_storage, db)
                      else store_account ''account_created''
                             \<lparr>row_account = a', row_credentials = c, row_deleted = False\<rparr> db)"

definition pg_credentials :: "uuid \<Rightarrow> string tx" where
  "pg_credentials i db =
     (case live_row db i of
        None \<Rightarrow> (Inl err_not_found, db)
      | Some r \<Rightarrow> (Inr (row_credentials r), db))"

definition pg_update_credentials ::
  "datetime \<Rightarrow> uuid \<Rightarrow> string \<Rightarrow> datetime option \<Rightarrow> int \<Rightarrow> account tx" where
  "pg_update_credentials now i encrypted expires_at expected db =
     (case live_row db i of
        None \<Rightarrow> (Inl err_not_found, db)
      | Some r \<Rightarrow>
          if acc_credential_version (row_account r) \<noteq> expected then (Inl err_conflict, db)
          else
            let a = (row_account r)\<lparr>acc_credential_version := expected + 1,
                      acc_credential_expires_at := expires_at, acc_updated_at := now\<rparr>
            in (Inr a, log_event ''credentials_updated'' ''oauth'' (Some i)
                  (put_row i (r\<lparr>row_account := a, row_credentials := encrypted\<rparr>) db)))"

definition pg_set_enabled ::
  "datetime \<Rightarrow> uuid \<Rightarrow> bool \<Rightarrow> disable_reason option \<Rightarrow> int \<Rightarrow> string \<Rightarrow> account tx" where
  "pg_set_enabled now i enabled reason expected actor db =
     (case live_row db i of
        None \<Rightarrow> (Inl err_not_found, db)
      | Some r \<Rightarrow>
          if acc_version (row_account r) \<noteq> expected then (Inl err_conflict, db)
          else
            let a = (row_account r)\<lparr>acc_version := expected + 1, acc_enabled := enabled,
                      acc_disable_reason := (if enabled then None else reason),
                      acc_updated_at := now\<rparr>
            in (Inr a, log_event (if enabled then ''account_enabled'' else ''account_disabled'')
                  actor (Some i) (put_row i (r\<lparr>row_account := a\<rparr>) db)))"

subsection \<open>Quotas and credits (accounts.rs, migrations)\<close>

definition pg_extra_credits_of :: "uuid \<Rightarrow> extra_credits option tx" where
  "pg_extra_credits_of i db = (Inr (hget (pg_extra_credits db) i), db)"

definition pg_save_extra_credits :: "uuid \<Rightarrow> extra_credits \<Rightarrow> unit tx" where
  "pg_save_extra_credits i c db =
     (if hget (pg_accounts db) i = None then (Inl err_storage, db)
      else case hget (pg_extra_credits db) i of
        Some old \<Rightarrow>
          (Inr (), if xc_observed_at old \<le> xc_observed_at c
                   then db\<lparr>pg_extra_credits := hput i c (pg_extra_credits db)\<rparr> else db)
      | None \<Rightarrow> (Inr (), db\<lparr>pg_extra_credits := hput i c (pg_extra_credits db)\<rparr>))"

definition quota_key :: "uuid \<Rightarrow> quota_window \<Rightarrow> quota_key" where
  "quota_key i w = (i, qw_pool w, case qw_window_minutes w of None \<Rightarrow> -1 | Some m \<Rightarrow> m)"

text \<open>A snapshot replaces the current one unless that one was observed later.\<close>

definition insert_snapshot :: "uuid \<Rightarrow> quota_window \<Rightarrow> pg \<Rightarrow> pg" where
  "insert_snapshot i w db =
     (let n = Suc (pg_snapshots db); k = quota_key i w; new = (qw_observed_at w, n, w)
      in db\<lparr>pg_snapshots := n,
            pg_current_quotas :=
              (case hget (pg_current_quotas db) k of
                 Some (t, m, _) \<Rightarrow>
                   if (t, m) < (qw_observed_at w, n) then hput k new (pg_current_quotas db)
                   else pg_current_quotas db
               | None \<Rightarrow> hput k new (pg_current_quotas db))\<rparr>)"

definition pg_save_quotas :: "uuid \<Rightarrow> quota_window list \<Rightarrow> unit tx" where
  "pg_save_quotas i ws db =
     (if ws \<noteq> [] \<and> hget (pg_accounts db) i = None then (Inl err_storage, db)
      else (Inr (), fold (insert_snapshot i) ws db))"

definition pg_quotas :: "uuid \<Rightarrow> quota_window list tx" where
  "pg_quotas i db =
     (Inr (map (\<lambda>(_, _, _, w). w)
        (sort_key (\<lambda>((_, pool, minutes), _). (pool, minutes))
          (filter (\<lambda>((a, _), _). a = i) (pg_current_quotas db)))), db)"

subsection \<open>Bindings and identifiers (bindings.rs)\<close>

definition pg_active_bindings :: "binding list tx" where
  "pg_active_bindings db =
     (Inr (concat (map (\<lambda>(_, _, b). case b of
        None \<Rightarrow> [] | Some i \<Rightarrow> filter (\<lambda>x. bd_id x = i) (pg_bindings db)) (pg_sessions db))), db)"

definition session_generation :: "pg \<Rightarrow> session_key \<Rightarrow> int" where
  "session_generation db se = (case hget (pg_sessions db) se of None \<Rightarrow> 0 | Some (g, _) \<Rightarrow> g)"

definition binding_insertable :: "pg \<Rightarrow> binding \<Rightarrow> bool" where
  "binding_insertable db b \<longleftrightarrow>
     hget (pg_accounts db) (bd_account_id b) \<noteq> None
     \<and> (\<forall>x\<in>set (pg_bindings db). bd_id x \<noteq> bd_id b
          \<and> \<not> (bd_session x = bd_session b \<and> bd_generation x = bd_generation b))"

definition pg_commit_binding :: "binding \<Rightarrow> int \<Rightarrow> unit tx" where
  "pg_commit_binding b expected db =
     (let previous = session_generation db (bd_session b) in
      if previous \<noteq> expected \<or> bd_generation b \<noteq> previous + 1 then (Inl err_conflict, db)
      else if \<not> binding_insertable db b then (Inl err_storage, db)
      else (Inr (), log_event (if previous = 0 then ''session_bound'' else ''session_migrated'')
             ''scheduler'' (Some (bd_account_id b))
             (db\<lparr>pg_bindings := pg_bindings db @ [b],
                 pg_sessions := hput (bd_session b) (bd_generation b, Some (bd_id b)) (pg_sessions db)\<rparr>)))"

definition pg_session_bindings :: "session_key \<Rightarrow> binding list tx" where
  "pg_session_bindings se db =
     (Inr (sort_key bd_generation (filter (\<lambda>b. bd_session b = se) (pg_bindings db))), db)"

definition pg_mappings_of :: "uuid \<Rightarrow> id_mapping list tx" where
  "pg_mappings_of i db =
     (Inr (map (\<lambda>((_, kind, client), upstream).
          \<lparr>im_kind = kind, im_client_id = client, im_upstream_id = upstream\<rparr>)
        (filter (\<lambda>((b, _), _). b = i) (pg_mappings db))), db)"

fun insert_mappings :: "uuid \<Rightarrow> id_mapping list \<Rightarrow> ((uuid \<times> string \<times> string), string) hmap
    \<Rightarrow> ((uuid \<times> string \<times> string), string) hmap res" where
  "insert_mappings i [] t = Inr t"
| "insert_mappings i (m # ms) t =
     (case hget t (i, im_kind m, im_client_id m) of
        Some u \<Rightarrow> if u = im_upstream_id m then insert_mappings i ms t else Inl err_conflict
      | None \<Rightarrow>
          if \<exists>((b, k, _), u)\<in>set t. b = i \<and> k = im_kind m \<and> u = im_upstream_id m
          then Inl err_storage
          else insert_mappings i ms (hput (i, im_kind m, im_client_id m) (im_upstream_id m) t))"

definition pg_save_mappings :: "uuid \<Rightarrow> id_mapping list \<Rightarrow> unit tx" where
  "pg_save_mappings i ms db =
     (if ms = [] then (Inr (), db)
      else if \<not> (\<exists>b\<in>set (pg_bindings db). bd_id b = i) then (Inl err_storage, db)
      else case insert_mappings i ms (pg_mappings db) of
        Inl e \<Rightarrow> (Inl e, db)
      | Inr t \<Rightarrow> (Inr (), db\<lparr>pg_mappings := t\<rparr>))"

subsection \<open>Reset operations (resets.rs)\<close>

definition pg_save_reset_credits :: "uuid \<Rightarrow> reset_credits \<Rightarrow> unit tx" where
  "pg_save_reset_credits i c db =
     (if hget (pg_accounts db) i = None then (Inl err_storage, db)
      else (Inr (), db\<lparr>pg_reset_credits := hput i c (pg_reset_credits db)\<rparr>))"

definition pg_reset_operation :: "uuid \<Rightarrow> uuid option \<Rightarrow> reset_operation option tx" where
  "pg_reset_operation account operation db =
     (Inr (map_option rr_operation
        (List.find (\<lambda>r. ro_account_id (rr_operation r) = account
             \<and> (case operation of None \<Rightarrow> \<not> rr_completed r | Some i \<Rightarrow> ro_id (rr_operation r) = i))
           (pg_resets db))), db)"

definition pg_begin_reset :: "reset_operation \<Rightarrow> unit tx" where
  "pg_begin_reset op db =
     (if hget (pg_accounts db) (ro_account_id op) = None
         \<or> (\<exists>r\<in>set (pg_resets db). ro_id (rr_operation r) = ro_id op
              \<or> (ro_account_id (rr_operation r) = ro_account_id op \<and> \<not> rr_completed r))
      then (Inl err_storage, db)
      else (Inr (), log_event ''quota_reset_started'' ''admin'' (Some (ro_account_id op))
             (db\<lparr>pg_resets := pg_resets db @ [\<lparr>rr_operation = op, rr_completed = False\<rparr>]\<rparr>)))"

definition reset_open :: "reset_operation \<Rightarrow> reset_row \<Rightarrow> bool" where
  "reset_open op r \<longleftrightarrow>
     ro_account_id (rr_operation r) = ro_account_id op \<and> ro_id (rr_operation r) = ro_id op
     \<and> \<not> rr_completed r"

definition pg_finish_reset :: "reset_operation \<Rightarrow> unit tx" where
  "pg_finish_reset op db =
     (if length (filter (reset_open op) (pg_resets db)) \<noteq> 1 then (Inl err_conflict, db)
      else (Inr (), log_event ''quota_reset_finished'' ''admin'' (Some (ro_account_id op))
             (db\<lparr>pg_resets := map (\<lambda>r. if reset_open op r
                  then \<lparr>rr_operation = op, rr_completed = True\<rparr> else r) (pg_resets db)\<rparr>)))"

subsection \<open>Safety rejections (requests.rs)\<close>

definition pg_safety_rejection :: "session_key \<Rightarrow> (nat \<times> err) option tx" where
  "pg_safety_rejection se db = (Inr (hget (pg_safety db) se), db)"

definition pg_save_safety_rejection :: "session_key \<Rightarrow> err \<Rightarrow> unit tx" where
  "pg_save_safety_rejection se e db =
     (Inr (), db\<lparr>pg_safety := hput se
        (case hget (pg_safety db) se of None \<Rightarrow> (1, e) | Some (n, old) \<Rightarrow> (min 3 (n + 1), old))
        (pg_safety db)\<rparr>)"

end
