(* ===== verification/Identity_Store.thy ===== *)
theory Identity_Store
  imports Pg_Store
begin

section \<open>Identifier maps over restarts\<close>

text \<open>
  An identifier map is rebuilt from the mappings the database has for its binding. This
  theory follows one map from a load, through calls that translate identifiers in both
  directions, to the save of what they added, and compares it with the map loaded next.
\<close>

subsection \<open>Tables as relations\<close>

definition im_out :: "id_mapping \<Rightarrow> (string \<times> string) \<times> string" where
  "im_out m = ((im_kind m, im_client_id m), im_upstream_id m)"

definition im_in :: "id_mapping \<Rightarrow> (string \<times> string) \<times> string" where
  "im_in m = ((im_kind m, im_upstream_id m), im_client_id m)"

definition single :: "('k \<times> 'v) list \<Rightarrow> bool" where
  "single xs \<longleftrightarrow> (\<forall>p\<in>set xs. \<forall>q\<in>set xs. fst p = fst q \<longrightarrow> snd p = snd q)"

lemma singleD: "single xs \<Longrightarrow> (k, v) \<in> set xs \<Longrightarrow> (k, w) \<in> set xs \<Longrightarrow> v = w"
  by (force simp: single_def)

lemma single_subset: "single ys \<Longrightarrow> set xs \<subseteq> set ys \<Longrightarrow> single xs"
  by (auto simp: single_def)

lemma single_lookup: "single xs \<Longrightarrow> map_of (rev xs) k = Some v \<longleftrightarrow> (k, v) \<in> set xs"
proof
  assume "map_of (rev xs) k = Some v"
  then show "(k, v) \<in> set xs" using map_of_SomeD [of "rev xs"] by simp
next
  assume s: "single xs" and kv: "(k, v) \<in> set xs"
  then obtain w where w: "map_of (rev xs) k = Some w"
    using weak_map_of_SomeI [of k v "rev xs"] by auto
  then have "(k, w) \<in> set xs" using map_of_SomeD [of "rev xs"] by simp
  with s kv have "v = w" by (rule singleD)
  with w show "map_of (rev xs) k = Some v" by simp
qed

lemma load_forward:
  "hget (ids_forward (fold load_mapping ms ids)) k =
     (case map_of (rev (map im_out ms)) k of None \<Rightarrow> hget (ids_forward ids) k | Some v \<Rightarrow> Some v)"
  by (induction ms arbitrary: ids)
    (auto simp: load_mapping_def im_out_def map_add_def split: option.splits)

lemma load_reverse:
  "hget (ids_reverse (fold load_mapping ms ids)) k =
     (case map_of (rev (map im_in ms)) k of None \<Rightarrow> hget (ids_reverse ids) k | Some v \<Rightarrow> Some v)"
  by (induction ms arbitrary: ids)
    (auto simp: load_mapping_def im_in_def map_add_def split: option.splits)

lemma import_tables [simp]:
  "ids_forward (import_legacy_aliases v5 b ms ids) = ids_forward ids"
  "ids_reverse (import_legacy_aliases v5 b ms ids) = ids_reverse ids"
  "ids_pending (import_legacy_aliases v5 b ms ids) = ids_pending ids"
  "ids_binding (import_legacy_aliases v5 b ms ids) = ids_binding ids"
  by (simp_all add: import_legacy_aliases_def)

lemma load_keeps [simp]:
  "ids_pending (fold load_mapping ms ids) = ids_pending ids"
  "ids_binding (fold load_mapping ms ids) = ids_binding ids"
  by (induction ms arbitrary: ids) (simp_all add: load_mapping_def)

lemma new_lookup:
  "hget (ids_forward (identity_new v5 b ms)) k = map_of (rev (map im_out ms)) k"
  "hget (ids_reverse (identity_new v5 b ms)) k = map_of (rev (map im_in ms)) k"
  by (simp_all add: identity_new_def load_forward load_reverse split: option.split)

subsection \<open>Translating\<close>

text \<open>
  One call of the map. A random id is new (the crate \<open>uuid\<close> draws version 4 ids), and the
  version 5 id of a client identifier is one no other identifier of the kind has.
\<close>

inductive identity_step ::
  "(uuid \<Rightarrow> string \<Rightarrow> string) \<Rightarrow> (string \<Rightarrow> string option) \<Rightarrow> identity_map \<Rightarrow> identity_map \<Rightarrow> bool"
  for v5 reparse where
  is_outbound:
    "outbound v5 reparse kind client ids = Inr (u, ids')
       \<Longrightarrow> existing ids kind client = None \<Longrightarrow> hget (ids_reverse ids) (kind, u) = None
       \<Longrightarrow> identity_step v5 reparse ids ids'"
| is_known: "outbound v5 reparse kind client ids = Inr (u, ids')
       \<Longrightarrow> existing ids kind client \<noteq> None \<Longrightarrow> identity_step v5 reparse ids ids'"
| is_inbound:
    "inbound fresh kind upstream ids = Inr (client, ids')
       \<Longrightarrow> hget (ids_reverse ids) (kind, upstream) \<noteq> None \<or> existing ids kind client = None
       \<Longrightarrow> identity_step v5 reparse ids ids'"

text \<open>The two tables are inverse to each other, kind by kind.\<close>

definition inverse_tables :: "identity_map \<Rightarrow> bool" where
  "inverse_tables ids \<longleftrightarrow>
     (\<forall>kind c u. hget (ids_forward ids) (kind, c) = Some u \<longleftrightarrow> hget (ids_reverse ids) (kind, u) = Some c)"

lemma inverse_insert:
  assumes "inverse_tables ids" and "hget (ids_forward ids) (kind, c) = None"
    and "hget (ids_reverse ids) (kind, u) = None"
  shows "inverse_tables (insert_mapping kind c u ids)"
proof -
  have "hget (ids_reverse ids) (kind, v) \<noteq> Some c" for v
    using assms(1,2) unfolding inverse_tables_def by (metis option.distinct(1))
  moreover have "hget (ids_forward ids) (kind, d) \<noteq> Some u" for d
    using assms(1,3) unfolding inverse_tables_def by (metis option.distinct(1))
  ultimately show ?thesis
    using assms unfolding inverse_tables_def insert_mapping_def by auto
qed

lemma outbound_cases:
  assumes "outbound v5 reparse kind client ids = Inr (u, ids')"
  obtains "existing ids kind client = Some u" and "ids' = ids"
  | "existing ids kind client = None" and "ids' = insert_mapping kind client u ids"
  using assms by (auto simp: outbound_def and_then_Inr_iff split: if_splits option.splits)

lemma inbound_cases:
  assumes "inbound fresh kind upstream ids = Inr (client, ids')"
  obtains "hget (ids_reverse ids) (kind, upstream) = Some client" and "ids' = ids"
  | "hget (ids_reverse ids) (kind, upstream) = None" and "ids' = insert_mapping kind client upstream ids"
  using assms by (auto simp: inbound_def Let_def split: if_splits option.splits)

lemma inverse_step: "inverse_tables ids \<Longrightarrow> identity_step v5 reparse ids ids' \<Longrightarrow> inverse_tables ids'"
  by (erule identity_step.cases)
    (auto elim!: outbound_cases inbound_cases intro: inverse_insert simp: existing_def)

text \<open>What a map holds is what it was loaded with and what is pending.\<close>

definition tables_of :: "id_mapping list \<Rightarrow> identity_map \<Rightarrow> bool" where
  "tables_of ms ids \<longleftrightarrow>
     (\<forall>k. hget (ids_forward ids) k = map_of (rev (map im_out (ms @ ids_pending ids))) k)
     \<and> (\<forall>k. hget (ids_reverse ids) k = map_of (rev (map im_in (ms @ ids_pending ids))) k)"

lemma tables_insert: "tables_of ms ids \<Longrightarrow> tables_of ms (insert_mapping kind c u ids)"
  unfolding tables_of_def insert_mapping_def by (simp add: im_out_def im_in_def)

lemma tables_step: "tables_of ms ids \<Longrightarrow> identity_step v5 reparse ids ids' \<Longrightarrow> tables_of ms ids'"
  by (erule identity_step.cases) (auto elim!: outbound_cases inbound_cases intro: tables_insert)

lemma tables_new: "tables_of ms (identity_new v5 b ms)"
  by (simp add: tables_of_def new_lookup) (simp add: identity_new_def)

subsection \<open>Saving\<close>

definition row_out :: "((uuid \<times> string \<times> string) \<times> string) \<Rightarrow> (string \<times> string) \<times> string" where
  "row_out r = (case r of ((_, kind, client), upstream) \<Rightarrow> ((kind, client), upstream))"

lemma loaded_out:
  "fst (pg_mappings_of i db) = Inr ms \<Longrightarrow>
     set (map im_out ms) = row_out ` {r \<in> set (pg_mappings db). fst (fst r) = i}"
  by (auto simp: pg_mappings_of_def im_out_def row_out_def image_iff split: prod.splits)

text \<open>
  The table's keys: one upstream identifier for a client identifier of a binding (the primary
  key) and one client identifier for an upstream identifier (the unique index).
\<close>

definition mappings_ok :: "((uuid \<times> string \<times> string), string) hmap \<Rightarrow> bool" where
  "mappings_ok t \<longleftrightarrow> hwf t \<and>
     (\<forall>b kind c c' u. hget t (b, kind, c) = Some u \<longrightarrow> hget t (b, kind, c') = Some u \<longrightarrow> c = c')"

lemma insert_mappings_ok:
  "insert_mappings i ms t = Inr t' \<Longrightarrow> mappings_ok t \<Longrightarrow> mappings_ok t'"
proof (induction i ms t rule: insert_mappings.induct)
  case (2 i m ms t)
  show ?case
  proof (cases "hget t (i, im_kind m, im_client_id m)")
    case None
    then have new: "\<not> (\<exists>((b, k, _), u)\<in>set t. b = i \<and> k = im_kind m \<and> u = im_upstream_id m)"
      using "2.prems"(1) by (auto split: if_splits)
    then have "hget t (i, im_kind m, c) \<noteq> Some (im_upstream_id m)" for c
      by (force dest: map_of_SomeD)
    then have "mappings_ok (hput (i, im_kind m, im_client_id m) (im_upstream_id m) t)"
      using "2.prems"(2) unfolding mappings_ok_def by (auto split: if_splits)
    with 2 None new show ?thesis by (simp split: if_splits)
  next
    case (Some u)
    with 2 show ?thesis by (auto split: if_splits)
  qed
qed simp

lemma insert_mappings_lookup:
  "insert_mappings i ms t = Inr t' \<Longrightarrow>
     hget t' (b, kind, c) = Some u \<longleftrightarrow>
       hget t (b, kind, c) = Some u \<or> (b = i \<and> ((kind, c), u) \<in> set (map im_out ms))"
proof (induction i ms t rule: insert_mappings.induct)
  case (2 i m ms t)
  show ?case
  proof (cases "hget t (i, im_kind m, im_client_id m)")
    case None
    with 2 show ?thesis by (auto simp: im_out_def split: if_splits)
  next
    case (Some v)
    with 2 show ?thesis by (auto simp: im_out_def split: if_splits)
  qed
qed simp

lemma loaded_mem:
  assumes "mappings_ok (pg_mappings db)" and "fst (pg_mappings_of i db) = Inr ms"
  shows "((kind, c), u) \<in> set (map im_out ms) \<longleftrightarrow> hget (pg_mappings db) (i, kind, c) = Some u"
  using assms(1) unfolding loaded_out [OF assms(2)]
  by (auto simp: row_out_def mappings_ok_def hget_mem_iff image_iff split: prod.splits)

lemma swap_mem: "((kind, u), c) \<in> set (map im_in ms) \<longleftrightarrow> ((kind, c), u) \<in> set (map im_out ms)"
  by (auto simp: im_in_def im_out_def)

lemma loaded_single:
  assumes "mappings_ok (pg_mappings db)" and "fst (pg_mappings_of i db) = Inr ms"
  shows "single (map im_out ms)" and "single (map im_in ms)"
proof -
  show "single (map im_out ms)"
    unfolding single_def using loaded_mem [OF assms] by (metis option.inject prod.collapse)
  have "c = c'" if "((kind, u), c) \<in> set (map im_in ms)" "((kind, u), c') \<in> set (map im_in ms)" for kind u c c'
    using that assms(1) unfolding swap_mem loaded_mem [OF assms] mappings_ok_def by blast
  then show "single (map im_in ms)" unfolding single_def by (metis prod.collapse)
qed

lemma loaded_inverse:
  assumes "mappings_ok (pg_mappings db)" and "fst (pg_mappings_of i db) = Inr ms"
  shows "inverse_tables (identity_new v5 b ms)"
  unfolding inverse_tables_def new_lookup
  using loaded_single [OF assms] by (simp add: single_lookup swap_mem del: set_map)

text \<open>
  What a map's owner relies on in a mapping store: a successful save keeps the store well
  formed and adds exactly the saved mappings to those of the binding. Loading maps through
  any such store gives the map that was saved.
\<close>

locale mapping_store =
  fixes save :: "uuid \<Rightarrow> id_mapping list \<Rightarrow> 'db \<Rightarrow> 'db option"
    and load :: "uuid \<Rightarrow> 'db \<Rightarrow> id_mapping list"
    and good :: "'db \<Rightarrow> bool"
  assumes save_good: "good db \<Longrightarrow> save i ms db = Some db' \<Longrightarrow> good db'"
    and save_adds: "good db \<Longrightarrow> save i ms db = Some db' \<Longrightarrow>
      set (map im_out (load i db')) = set (map im_out (load i db)) \<union> set (map im_out ms)"
    and load_single: "good db \<Longrightarrow> single (map im_out (load i db)) \<and> single (map im_in (load i db))"
begin

lemma reload_same:
  assumes "good db" and "tables_of (load i db) ids" and "save i (ids_pending ids) db = Some db'"
  shows "hget (ids_forward (identity_new v5 b (load i db'))) k = hget (ids_forward ids) k"
    and "hget (ids_reverse (identity_new v5 b (load i db'))) k = hget (ids_reverse ids) k"
proof -
  let ?old = "load i db @ ids_pending ids" and ?new = "load i db'"
  have out: "set (map im_out ?new) = set (map im_out ?old)"
    using save_adds [OF assms(1,3)] by (auto simp: im_out_def)
  have inn: "set (map im_in ?new) = set (map im_in ?old)"
  proof -
    have "((kind, u), c) \<in> set (map im_in ?new) \<longleftrightarrow> ((kind, u), c) \<in> set (map im_in ?old)" for kind u c
      unfolding swap_mem out ..
    then show ?thesis by (auto simp del: set_map map_append)
  qed
  note s = load_single [OF save_good [OF assms(1,3)], of i]
  have same: "map_of (rev (map f ?new)) k = map_of (rev (map f ?old)) k"
    if "single (map f ?new)" "set (map f ?new) = set (map f ?old)"
    for f :: "id_mapping \<Rightarrow> (string \<times> string) \<times> string"
  proof -
    have "single (map f ?old)" using single_subset that by (metis order_refl)
    then have "map_of (rev (map f ?new)) k = Some v \<longleftrightarrow> map_of (rev (map f ?old)) k = Some v" for v
      using that single_lookup by metis
    then show ?thesis by (metis option.exhaust)
  qed
  show "hget (ids_forward (identity_new v5 b ?new)) k = hget (ids_forward ids) k"
    using same [OF conjunct1 [OF s] out] assms(2) unfolding new_lookup tables_of_def by metis
  show "hget (ids_reverse (identity_new v5 b ?new)) k = hget (ids_reverse ids) k"
    using same [OF conjunct2 [OF s] inn] assms(2) unfolding new_lookup tables_of_def by metis
qed

end

definition pg_save :: "uuid \<Rightarrow> id_mapping list \<Rightarrow> pg \<Rightarrow> pg option" where
  "pg_save i ms db = (case pg_save_mappings i ms db of (Inr _, db') \<Rightarrow> Some db' | (Inl _, _) \<Rightarrow> None)"

definition pg_load :: "uuid \<Rightarrow> pg \<Rightarrow> id_mapping list" where
  "pg_load i db = (case pg_mappings_of i db of (Inr ms, _) \<Rightarrow> ms | (Inl _, _) \<Rightarrow> [])"

lemma pg_load_fst: "fst (pg_mappings_of i db) = Inr (pg_load i db)"
  by (simp add: pg_load_def pg_mappings_of_def)

lemma pg_save_Some:
  "pg_save i ms db = Some db' \<Longrightarrow>
     (ms = [] \<and> db' = db) \<or> (\<exists>t. insert_mappings i ms (pg_mappings db) = Inr t \<and> db' = db\<lparr>pg_mappings := t\<rparr>)"
  by (auto simp: pg_save_def pg_save_mappings_def split: if_splits sum.splits)

lemma pg_save_good: "mappings_ok (pg_mappings db) \<Longrightarrow> pg_save i ms db = Some db' \<Longrightarrow> mappings_ok (pg_mappings db')"
  by (drule pg_save_Some) (auto dest: insert_mappings_ok)

lemma pg_save_adds:
  assumes "mappings_ok (pg_mappings db)" and "pg_save i ms db = Some db'"
  shows "set (map im_out (pg_load i db')) = set (map im_out (pg_load i db)) \<union> set (map im_out ms)"
proof -
  note new = loaded_mem [OF pg_save_good [OF assms] pg_load_fst]
    and old = loaded_mem [OF assms(1) pg_load_fst]
  have "((kind, c), u) \<in> set (map im_out (pg_load i db'))
      \<longleftrightarrow> ((kind, c), u) \<in> set (map im_out (pg_load i db)) \<union> set (map im_out ms)" for kind c u
    using pg_save_Some [OF assms(2)] insert_mappings_lookup [of i ms "pg_mappings db" _ i kind c u]
    unfolding new Un_iff old by auto
  then show ?thesis by (auto simp del: set_map)
qed

interpretation pg_mappings: mapping_store pg_save pg_load "\<lambda>db. mappings_ok (pg_mappings db)"
  by unfold_locales (use pg_save_good pg_save_adds loaded_single [OF _ pg_load_fst] in blast)+

text \<open>Starting from a load and translating.\<close>

lemma identity_run:
  assumes "tables_of ms ids" and "inverse_tables ids" and "(identity_step v5 reparse)\<^sup>*\<^sup>* ids ids'"
  shows "tables_of ms ids' \<and> inverse_tables ids'"
  using assms(3,1,2) by (induction rule: rtranclp_induct) (auto intro: tables_step inverse_step)

text \<open>
  Identifiers survive a restart: a map loaded from the database, used for any translations
  in either direction and then saved is the map the next load of the binding gives, in both
  directions. A save that would give one identifier two meanings does not succeed.
\<close>

lemma identity_restart:
  assumes "mappings_ok (pg_mappings db)" and "fst (pg_mappings_of (bd_id b) db) = Inr ms"
    and "(identity_step v5 reparse)\<^sup>*\<^sup>* (identity_new v5 b ms) ids"
    and "pg_save_mappings (bd_id b) (ids_pending ids) db = (Inr (), db')"
    and "fst (pg_mappings_of (bd_id b) db') = Inr ms'"
  shows "existing (identity_new v5 b ms') kind client = existing ids kind client
    \<and> hget (ids_reverse (identity_new v5 b ms')) (kind, upstream) = hget (ids_reverse ids) (kind, upstream)
    \<and> mappings_ok (pg_mappings db')"
proof -
  have ms: "ms = pg_load (bd_id b) db" "ms' = pg_load (bd_id b) db'"
    using assms(2,5) by (simp_all add: pg_load_fst)
  have save: "pg_save (bd_id b) (ids_pending ids) db = Some db'" by (simp add: pg_save_def assms(4))
  have "tables_of (pg_load (bd_id b) db) ids"
    using identity_run [OF tables_new loaded_inverse [OF assms(1,2)] assms(3)] ms(1) by simp
  from pg_mappings.reload_same [OF assms(1) this save] pg_save_good [OF assms(1) save]
  show ?thesis unfolding existing_def ms(2) by blast
qed

text \<open>
  C38. Translations invert each other: in a map loaded from the database and used for any
  translations, what an identifier was sent upstream as is what comes back as that identifier,
  and what an upstream identifier was shown as is sent back as that upstream identifier.
\<close>

theorem identity_round_trip:
  assumes "mappings_ok (pg_mappings db)" and "fst (pg_mappings_of (bd_id b) db) = Inr ms"
    and "(identity_step v5 reparse)\<^sup>*\<^sup>* (identity_new v5 b ms) ids"
    and "existing ids kind client = Some u" and "length client \<le> 512" and "client \<noteq> []"
    and "length u \<le> 512" and "u \<noteq> []"
  shows "outbound v5 reparse kind client ids = Inr (u, ids) \<and> inbound fresh kind u ids = Inr (client, ids)"
proof -
  have "inverse_tables ids"
    using identity_run [OF tables_new loaded_inverse [OF assms(1,2)] assms(3)] by simp
  with assms(4) have "hget (ids_reverse ids) (kind, u) = Some client"
    unfolding existing_def inverse_tables_def by blast
  with assms show ?thesis by (simp add: outbound_def inbound_def)
qed

subsection \<open>One translation, saved and reloaded\<close>

definition id_binding :: binding where
  "id_binding = binding_new 50 51 \<lparr>sk_key_id = 9, sk_client_session_id = ''s''\<rparr> 5 (model_codex ''m'') 2"

definition id_db :: pg where
  "id_db = \<lparr>pg_groups = {}, pg_accounts = [], pg_account_groups = {}, pg_extra_credits = [],
     pg_current_quotas = [], pg_snapshots = 0, pg_sessions = [], pg_bindings = [id_binding],
     pg_mappings = [((50, ''item'', ''a''), ''b'')], pg_reset_credits = [],
     pg_resets = [], pg_safety = [], pg_events = []\<rparr>"

definition id_v5 :: "uuid \<Rightarrow> string \<Rightarrow> string" where
  "id_v5 ns name = ''u''"

definition id_loaded :: "id_mapping list" where
  "id_loaded = [\<lparr>im_kind = ''item'', im_client_id = ''a'', im_upstream_id = ''b''\<rparr>]"

definition id_used :: identity_map where
  "id_used = insert_mapping ''call'' ''c'' ''call_u'' (identity_new id_v5 id_binding id_loaded)"

lemma id_db_ok: "mappings_ok (pg_mappings id_db)"
  by (simp add: mappings_ok_def id_db_def hwf_def)

lemma id_db_load: "fst (pg_mappings_of (bd_id id_binding) id_db) = Inr id_loaded"
  by (simp add: pg_mappings_of_def id_db_def id_loaded_def id_binding_def)

lemma id_lookup [simp]:
  "hget (ids_forward (identity_new id_v5 id_binding id_loaded)) (''call'', ''c'') = None"
  "hget (ids_reverse (identity_new id_v5 id_binding id_loaded)) (''call'', ''call_u'') = None"
  by (simp_all add: new_lookup id_loaded_def im_out_def im_in_def)

lemma id_used_run: "(identity_step id_v5 Some)\<^sup>*\<^sup>* (identity_new id_v5 id_binding id_loaded) id_used"
proof (rule r_into_rtranclp)
  have "outbound id_v5 Some ''call'' ''c'' (identity_new id_v5 id_binding id_loaded) = Inr (''call_u'', id_used)"
    by (simp add: outbound_def existing_def derived_upstream_def id_v5_def id_used_def)
  then show "identity_step id_v5 Some (identity_new id_v5 id_binding id_loaded) id_used"
    by (rule is_outbound) (simp_all add: existing_def)
qed

lemma id_used_tables:
  "ids_pending id_used = [\<lparr>im_kind = ''call'', im_client_id = ''c'', im_upstream_id = ''call_u''\<rparr>]"
  "existing id_used ''call'' ''c'' = Some ''call_u''"
  by (simp_all add: id_used_def insert_mapping_def existing_def) (simp add: identity_new_def)

lemma identity_restart_witness:
  "\<exists>db' ms'. pg_save_mappings 50 (ids_pending id_used) id_db = (Inr (), db')
     \<and> fst (pg_mappings_of 50 db') = Inr ms'
     \<and> existing (identity_new id_v5 id_binding ms') ''call'' ''c'' = Some ''call_u''"
proof -
  have i: "bd_id id_binding = 50" by (simp add: id_binding_def)
  obtain db' where save: "pg_save_mappings 50 (ids_pending id_used) id_db = (Inr (), db')"
    by (simp add: pg_save_mappings_def id_used_tables id_db_def i)
  from identity_restart [OF id_db_ok id_db_load id_used_run save [folded i] pg_load_fst, of "''call''" "''c''"]
  show ?thesis using save id_used_tables(2) pg_load_fst [of 50 db'] by (auto simp: i)
qed

theorem identity_round_trip_witness:
  "inbound ''f'' ''call'' ''call_u'' id_used = Inr (''c'', id_used)"
  using identity_round_trip [OF id_db_ok id_db_load id_used_run id_used_tables(2)] by simp

end
