(* ===== verification/Scheduling.thy ===== *)
theory Scheduling
  imports Settings Identity
begin

section \<open>The scheduler\<close>

text \<open>
  \<open>crates/xxgate-core/src/scheduling.rs\<close>: the admission queue in front of the upstream
  accounts. The state below is the \<open>State\<close> behind the scheduler's mutex; each operation
  is one critical section, a function from the state to the result and the new state.
  Waking the waiters (\<open>Notify\<close>) carries no data and is left out; the clock reading of a
  critical section and the random ids it draws are arguments.
\<close>

subsection \<open>State\<close>

record waiter =
  w_source :: client_source
  w_id :: uuid
  w_thread_id :: string
  w_group_id :: uuid
  w_model :: model_ref
  w_since :: instant

record session_activity =
  sa_threads :: "(string, uuid) hmap"
  sa_binding_pending :: "uuid option"

definition activity_default :: session_activity where
  "activity_default = \<lparr>sa_threads = [], sa_binding_pending = None\<rparr>"

record sched =
  sc_deleted_accounts :: "uuid set"
  sc_deleted_keys :: "uuid set"
  sc_accounts :: "(uuid, account) hmap"
  sc_keys :: "(uuid, gateway_key) hmap"
  sc_blocked_keys :: "uuid set"
  sc_blocked :: "uuid set"
  sc_bindings :: "(session_key, binding) hmap"
  sc_queues :: "(session_key, waiter list) hmap"
  sc_order :: "session_key list"
  sc_inflight :: "(uuid, nat) hmap"
  sc_active :: "(session_key, session_activity) hmap"
  sc_leases :: "(uuid, nat) hmap"
  sc_served :: "(uuid, nat) hmap"
  sc_paused :: bool

record queue_ticket =
  qt_id :: uuid
  qt_session :: session_key
  qt_since :: instant

record dispatch_lease =
  dl_source :: client_source
  dl_model :: model_ref
  dl_group_id :: uuid
  dl_id :: uuid
  dl_session :: session_key
  dl_thread_id :: string
  dl_account :: account
  dl_binding :: binding
  dl_needs_commit :: bool
  dl_expected_generation :: int

definition collect_map :: "('a \<Rightarrow> 'k) \<Rightarrow> 'a list \<Rightarrow> ('k, 'a) hmap" where
  "collect_map key xs = fold (\<lambda>x m. hput (key x) x m) xs []"

definition sched_new :: "account list \<Rightarrow> binding list \<Rightarrow> gateway_key list \<Rightarrow> sched" where
  "sched_new accounts bindings keys =
     \<lparr>sc_deleted_accounts = {}, sc_deleted_keys = {},
      sc_accounts = collect_map acc_id accounts, sc_keys = collect_map gk_id keys,
      sc_blocked_keys = {}, sc_blocked = {},
      sc_bindings = collect_map bd_session bindings, sc_queues = [], sc_order = [],
      sc_inflight = [], sc_active = [], sc_leases = [], sc_served = [], sc_paused = False\<rparr>"

subsection \<open>Eligibility\<close>

definition err_provider_mismatch :: err where
  "err_provider_mismatch = error_new 409 ''provider_mismatch''
     ''A conversation cannot migrate across providers or access types''"

definition err_source_not_allowed :: err where
  "err_source_not_allowed = error_new 403 ''client_source_not_allowed''
     ''No account in this key's group allows the detected client source''"

definition err_no_account :: err where
  "err_no_account = error_new 503 ''no_available_account''
     ''No enabled account in this key's group can serve the requested model''"

definition err_key_updating :: err where
  "err_key_updating = error_new 503 ''key_updating''
     ''The key is being updated; retry after the change completes''"

definition err_invalid_key :: err where
  "err_invalid_key = error_new 401 ''invalid_api_key''
     ''The gateway key is disabled or unavailable''"

definition err_key_group_changed :: err where
  "err_key_group_changed = error_new 409 ''key_group_changed''
     ''The key's group changed before dispatch; submit a new request''"

text \<open>The account filter the code repeats: enabled, in the group, right source and model.\<close>

definition serves :: "uuid \<Rightarrow> client_source \<Rightarrow> model_ref \<Rightarrow> account \<Rightarrow> bool" where
  "serves gid source model a \<longleftrightarrow>
     acc_enabled a \<and> gid \<in> set (acc_group_ids a) \<and> accepts a source \<and> supports a model"

definition check_key :: "sched \<Rightarrow> uuid \<Rightarrow> uuid \<Rightarrow> unit res" where
  "check_key s i gid =
     (if sc_paused s then Inl err_storage
      else if i \<in> sc_blocked_keys s then Inl err_key_updating
      else case hget (sc_keys s) i of
        None \<Rightarrow> Inl err_invalid_key
      | Some k \<Rightarrow>
          if \<not> gk_enabled k then Inl err_invalid_key
          else if gk_group_id k \<noteq> gid then Inl err_key_group_changed
          else Inr ())"

definition eligible :: "sched \<Rightarrow> uuid \<Rightarrow> model_ref \<Rightarrow> account \<Rightarrow> bool" where
  "eligible s gid model a \<longleftrightarrow>
     acc_enabled a \<and> acc_id a \<notin> sc_blocked s \<and> gid \<in> set (acc_group_ids a) \<and> supports a model"

definition check_pool :: "sched \<Rightarrow> uuid \<Rightarrow> model_ref \<Rightarrow> client_source \<Rightarrow> unit res" where
  "check_pool s gid model source =
     (if \<exists>a\<in>set (hvals (sc_accounts s)). eligible s gid model a \<and> accepts a source
      then Inr ()
      else if \<exists>a\<in>set (hvals (sc_accounts s)). eligible s gid model a
      then Inl err_source_not_allowed
      else Inl err_no_account)"

definition check_eligibility ::
  "sched \<Rightarrow> session_key \<Rightarrow> uuid \<Rightarrow> model_ref \<Rightarrow> client_source \<Rightarrow> unit res" where
  "check_eligibility s session gid model source =
     and_then (check_key s (sk_key_id session) gid) (\<lambda>_.
       case hget (sc_bindings s) session of
         None \<Rightarrow> check_pool s gid model source
       | Some b \<Rightarrow>
           if \<not> compatible b model then Inl err_provider_mismatch
           else case hget (sc_accounts s) (bd_account_id b) of
             None \<Rightarrow> check_pool s gid model source
           | Some a \<Rightarrow>
               if serves gid source model a \<and> acc_id a \<notin> sc_blocked s then Inr ()
               else check_pool s gid model source)"

subsection \<open>Administrative updates\<close>

definition sched_account :: "sched \<Rightarrow> uuid \<Rightarrow> account option" where
  "sched_account s i = hget (sc_accounts s) i"

definition update_account :: "account \<Rightarrow> sched \<Rightarrow> sched" where
  "update_account a s =
     (if acc_id a \<in> sc_deleted_accounts s then s
      else s\<lparr>sc_blocked := sc_blocked s - {acc_id a},
             sc_accounts := hput (acc_id a) a (sc_accounts s)\<rparr>)"

definition update_key :: "gateway_key \<Rightarrow> sched \<Rightarrow> sched" where
  "update_key k s =
     (if gk_id k \<in> sc_deleted_keys s then s
      else s\<lparr>sc_blocked_keys := sc_blocked_keys s - {gk_id k},
             sc_keys := hput (gk_id k) k (sc_keys s)\<rparr>)"

definition remove_account :: "uuid \<Rightarrow> sched \<Rightarrow> sched" where
  "remove_account i s =
     s\<lparr>sc_deleted_accounts := insert i (sc_deleted_accounts s),
       sc_accounts := hdel i (sc_accounts s)\<rparr>"

definition remove_key :: "uuid \<Rightarrow> sched \<Rightarrow> sched" where
  "remove_key i s =
     s\<lparr>sc_deleted_keys := insert i (sc_deleted_keys s), sc_keys := hdel i (sc_keys s)\<rparr>"

definition block_key :: "uuid \<Rightarrow> sched \<Rightarrow> sched" where
  "block_key i s = s\<lparr>sc_blocked_keys := insert i (sc_blocked_keys s)\<rparr>"

definition block_account :: "uuid \<Rightarrow> sched \<Rightarrow> sched" where
  "block_account i s = s\<lparr>sc_blocked := insert i (sc_blocked s)\<rparr>"

definition set_paused :: "bool \<Rightarrow> sched \<Rightarrow> sched" where
  "set_paused v s = s\<lparr>sc_paused := v\<rparr>"

definition supports_group_model :: "sched \<Rightarrow> uuid \<Rightarrow> model_ref \<Rightarrow> client_source \<Rightarrow> bool" where
  "supports_group_model s gid model source \<longleftrightarrow>
     (\<exists>a\<in>set (hvals (sc_accounts s)).
        gid \<in> set (acc_group_ids a) \<and> supports a model \<and> accepts a source)"

subsection \<open>Entering the queue\<close>

definition err_queue_full :: err where
  "err_queue_full = error_new 429 ''queue_full'' ''The queue has reached its configured capacity''"

definition queued_total :: "sched \<Rightarrow> nat" where
  "queued_total s = sum_list (map length (hvals (sc_queues s)))"

definition queue_of :: "sched \<Rightarrow> session_key \<Rightarrow> waiter list" where
  "queue_of s session = (case hget (sc_queues s) session of None \<Rightarrow> [] | Some q \<Rightarrow> q)"

definition enqueue ::
  "runtime_settings \<Rightarrow> uuid \<Rightarrow> thread_key \<Rightarrow> uuid \<Rightarrow> model_ref \<Rightarrow> client_source \<Rightarrow> instant
     \<Rightarrow> sched \<Rightarrow> (queue_ticket \<times> sched) res" where
  "enqueue cfg i thread gid model source since s =
     (let session = tk_session thread in
      if sc_paused s then Inl err_storage
      else and_then (check_eligibility s session gid model source) (\<lambda>_.
        if rs_queue_capacity cfg \<le> queued_total s then Inl err_queue_full
        else
          let w = \<lparr>w_source = source, w_id = i, w_thread_id = tk_client_thread_id thread,
                   w_group_id = gid, w_model = model, w_since = since\<rparr>
          in Inr (\<lparr>qt_id = i, qt_session = session, qt_since = since\<rparr>,
                  s\<lparr>sc_order := (if hget (sc_queues s) session = None
                               then sc_order s @ [session] else sc_order s),
                    sc_queues := hput session (queue_of s session @ [w]) (sc_queues s)\<rparr>)))"

subsection \<open>Selecting and granting\<close>

definition timed_out :: "runtime_settings \<Rightarrow> instant \<Rightarrow> waiter \<Rightarrow> bool" where
  "timed_out cfg now w \<longleftrightarrow> rs_queue_timeout_ms cfg * 1000000 \<le> now - w_since w"

definition load_key :: "sched \<Rightarrow> account \<Rightarrow> nat \<times> nat \<times> uuid" where
  "load_key s a = (hcount (sc_inflight s) (acc_id a), hcount (sc_served s) (acc_id a), acc_id a)"

definition has_capacity :: "sched \<Rightarrow> account \<Rightarrow> bool" where
  "has_capacity s a \<longleftrightarrow> hcount (sc_inflight s) (acc_id a) < acc_max_inflight a"

text \<open>The account of the session's binding, where it can still serve the waiter.\<close>

definition bound_account :: "sched \<Rightarrow> session_key \<Rightarrow> waiter \<Rightarrow> account option" where
  "bound_account s session w =
     (case hget (sc_bindings s) session of
        None \<Rightarrow> None
      | Some b \<Rightarrow>
          (case hget (sc_accounts s) (bd_account_id b) of
             None \<Rightarrow> None
           | Some a \<Rightarrow>
               if serves (w_group_id w) (w_source w) (w_model w) a then Some a else None))"

definition free_accounts :: "sched \<Rightarrow> waiter \<Rightarrow> account list" where
  "free_accounts s w =
     filter (\<lambda>a. serves (w_group_id w) (w_source w) (w_model w) a
               \<and> acc_id a \<notin> sc_blocked s \<and> has_capacity s a)
       (hvals (sc_accounts s))"

definition choose_account :: "sched \<Rightarrow> session_key \<Rightarrow> waiter \<Rightarrow> account option" where
  "choose_account s session w =
     (case bound_account s session w of
        Some a \<Rightarrow> if has_capacity s a then Some a else None
      | None \<Rightarrow> min_by_key (load_key s) (free_accounts s w))"

definition same_binding :: "binding \<Rightarrow> account \<Rightarrow> waiter \<Rightarrow> bool" where
  "same_binding b a w \<longleftrightarrow> bd_account_id b = acc_id a \<and> bd_group_id b = w_group_id w"

definition migrates :: "sched \<Rightarrow> session_key \<Rightarrow> waiter \<Rightarrow> account \<Rightarrow> bool" where
  "migrates s session w a \<longleftrightarrow>
     (case hget (sc_bindings s) session of None \<Rightarrow> True | Some b \<Rightarrow> \<not> same_binding b a w)"

definition thread_active :: "sched \<Rightarrow> session_key \<Rightarrow> string \<Rightarrow> bool" where
  "thread_active s session t \<longleftrightarrow>
     (case hget (sc_active s) session of None \<Rightarrow> False | Some sa \<Rightarrow> hget (sa_threads sa) t \<noteq> None)"

definition binding_blocked :: "sched \<Rightarrow> session_key \<Rightarrow> bool" where
  "binding_blocked s session \<longleftrightarrow>
     (case hget (sc_bindings s) session of None \<Rightarrow> False | Some b \<Rightarrow> bd_account_id b \<in> sc_blocked s)"

text \<open>The account one waiter could be dispatched to now.\<close>

definition candidate ::
  "runtime_settings \<Rightarrow> instant \<Rightarrow> sched \<Rightarrow> session_key \<Rightarrow> waiter \<Rightarrow> account option" where
  "candidate cfg now s session w =
     (if thread_active s session (w_thread_id w)
         \<or> \<not> is_ok (check_eligibility s session (w_group_id w) (w_model w) (w_source w))
         \<or> timed_out cfg now w
      then None
      else if binding_blocked s session then None
      else case choose_account s session w of
        None \<Rightarrow> None
      | Some a \<Rightarrow>
          if hget (sc_active s) session \<noteq> None \<and> migrates s session w a then None else Some a)"

text \<open>The scan of one queue: only the first waiter of each thread is considered.\<close>

fun scan_queue ::
  "(waiter \<Rightarrow> account option) \<Rightarrow> string list \<Rightarrow> nat \<Rightarrow> waiter list \<Rightarrow> (waiter \<times> nat \<times> account) option" where
  "scan_queue f seen pos [] = None"
| "scan_queue f seen pos (w # ws) =
     (case (if w_thread_id w \<in> set seen then None else f w) of
        Some a \<Rightarrow> Some (w, pos, a)
      | None \<Rightarrow> scan_queue f (w_thread_id w # seen) (Suc pos) ws)"

definition session_closed :: "runtime_settings \<Rightarrow> sched \<Rightarrow> session_key \<Rightarrow> bool" where
  "session_closed cfg s session \<longleftrightarrow>
     (case hget (sc_active s) session of
        None \<Rightarrow> False
      | Some sa \<Rightarrow> rs_session_max_inflight cfg \<le> length (sa_threads sa)
                   \<or> sa_binding_pending sa \<noteq> None)"

definition select_session ::
  "runtime_settings \<Rightarrow> instant \<Rightarrow> sched \<Rightarrow> session_key
     \<Rightarrow> (session_key \<times> waiter \<times> nat \<times> account) option" where
  "select_session cfg now s session =
     (if session_closed cfg s session then None
      else case hget (sc_queues s) session of
        None \<Rightarrow> None
      | Some q \<Rightarrow> map_option (Pair session) (scan_queue (candidate cfg now s session) [] 0 q))"

definition select_next ::
  "runtime_settings \<Rightarrow> instant \<Rightarrow> sched \<Rightarrow> (session_key \<times> waiter \<times> nat \<times> account) option" where
  "select_next cfg now s = find_map (select_session cfg now s) (sc_order s)"

definition total_inflight :: "sched \<Rightarrow> nat" where
  "total_inflight s = sum_list (hvals (sc_inflight s))"

definition find_waiter :: "sched \<Rightarrow> uuid \<Rightarrow> (session_key \<times> waiter) option" where
  "find_waiter s i =
     find_map (\<lambda>(session, q). map_option (Pair session) (find (\<lambda>w. w_id w = i) q)) (sc_queues s)"

definition granted_binding ::
  "uuid \<Rightarrow> uuid \<Rightarrow> sched \<Rightarrow> session_key \<Rightarrow> waiter \<Rightarrow> account \<Rightarrow> binding" where
  "granted_binding new_id new_ns s session w a =
     (let fresh = (\<lambda>g. (binding_new new_id new_ns session (acc_id a) (w_model w) (g + 1))
                         \<lparr>bd_group_id := w_group_id w\<rparr>)
      in case hget (sc_bindings s) session of
           None \<Rightarrow> fresh 0
         | Some b \<Rightarrow> if same_binding b a w then b else fresh (bd_generation b))"

definition generation_of :: "sched \<Rightarrow> session_key \<Rightarrow> int" where
  "generation_of s session =
     (case hget (sc_bindings s) session of None \<Rightarrow> 0 | Some b \<Rightarrow> bd_generation b)"

definition grant :: "session_key \<Rightarrow> waiter \<Rightarrow> nat \<Rightarrow> account \<Rightarrow> sched \<Rightarrow> sched" where
  "grant session w pos a s =
     (let q = remove_at pos (queue_of s session);
          rest = removeAll session (sc_order s);
          sa = (case hget (sc_active s) session of None \<Rightarrow> activity_default | Some x \<Rightarrow> x)
      in s\<lparr>sc_queues := (if q = [] then hdel session (sc_queues s) else hput session q (sc_queues s)),
           sc_order := (if q = [] then rest else rest @ [session]),
           sc_inflight := hput (acc_id a) (hcount (sc_inflight s) (acc_id a) + 1) (sc_inflight s),
           sc_active := hput session
             \<lparr>sa_threads = hput (w_thread_id w) (w_id w) (sa_threads sa),
              sa_binding_pending =
                (if migrates s session w a then Some (w_id w) else sa_binding_pending sa)\<rparr>
             (sc_active s),
           sc_leases := hput (w_id w) 0 (sc_leases s)\<rparr>)"

definition try_reserve ::
  "runtime_settings \<Rightarrow> instant \<Rightarrow> uuid \<Rightarrow> uuid \<Rightarrow> uuid \<Rightarrow> sched
     \<Rightarrow> (dispatch_lease option \<times> sched) res" where
  "try_reserve cfg now new_id new_ns i s =
     (if sc_paused s then Inl err_storage
      else case find_waiter s i of
        None \<Rightarrow> Inl err_not_found
      | Some (own_session, own) \<Rightarrow>
          and_then (check_eligibility s own_session (w_group_id own) (w_model own) (w_source own)) (\<lambda>_.
            if rs_global_max_inflight cfg \<le> total_inflight s then Inr (None, s)
            else case select_next cfg now s of
              None \<Rightarrow> Inr (None, s)
            | Some (session, w, pos, a) \<Rightarrow>
                if w_id w \<noteq> i then Inr (None, s)
                else Inr (Some
                  \<lparr>dl_source = w_source w, dl_model = w_model w, dl_group_id = w_group_id w,
                   dl_id = i, dl_session = session, dl_thread_id = w_thread_id w,
                   dl_account = a, dl_binding = granted_binding new_id new_ns s session w a,
                   dl_needs_commit = migrates s session w a,
                   dl_expected_generation = generation_of s session\<rparr>,
                  grant session w pos a s)))"

definition remove_waiter :: "uuid \<Rightarrow> session_key \<Rightarrow> sched \<Rightarrow> sched" where
  "remove_waiter i session s =
     (case hget (sc_queues s) session of
        None \<Rightarrow> s
      | Some q \<Rightarrow>
          let q' = filter (\<lambda>w. w_id w \<noteq> i) q in
          if q' = [] then s\<lparr>sc_queues := hdel session (sc_queues s),
                            sc_order := removeAll session (sc_order s)\<rparr>
          else s\<lparr>sc_queues := hput session q' (sc_queues s)\<rparr>)"

subsection \<open>Waiting\<close>

definition err_queue_timeout :: err where
  "err_queue_timeout = error_new 429 ''queue_timeout''
     ''The configured queue waiting time was exceeded''"

text \<open>
  One round of the loop of \<open>QueueTicket::wait\<close>: \<open>Inr None\<close> sleeps until the next
  notification, anything else ends the wait, and ending it drops the ticket, which removes
  its waiter.
\<close>

definition wait_round ::
  "runtime_settings \<Rightarrow> instant \<Rightarrow> bool \<Rightarrow> uuid \<Rightarrow> uuid \<Rightarrow> queue_ticket \<Rightarrow> sched
     \<Rightarrow> (dispatch_lease option) res \<times> sched" where
  "wait_round cfg now cancelled new_id new_ns t s =
     (let finish = remove_waiter (qt_id t) (qt_session t) in
      if qt_since t + rs_queue_timeout_ms cfg * 1000000 \<le> now
      then (Inl err_queue_timeout, finish s)
      else if cancelled then (Inl err_cancelled, finish s)
      else case try_reserve cfg now new_id new_ns (qt_id t) s of
        Inl e \<Rightarrow> (Inl e, finish s)
      | Inr (Some l, s') \<Rightarrow> (Inr (Some l), finish s')
      | Inr (None, s') \<Rightarrow> (Inr None, s'))"

subsection \<open>Leases\<close>

definition clear_pending :: "dispatch_lease \<Rightarrow> sched \<Rightarrow> sched" where
  "clear_pending l s =
     (case hget (sc_active s) (dl_session l) of
        None \<Rightarrow> s
      | Some sa \<Rightarrow>
          if sa_binding_pending sa = Some (dl_id l)
          then s\<lparr>sc_active := hput (dl_session l) (sa\<lparr>sa_binding_pending := None\<rparr>) (sc_active s)\<rparr>
          else s)"

definition confirm_stateless :: "dispatch_lease \<Rightarrow> sched \<Rightarrow> (dispatch_lease \<times> sched) res" where
  "confirm_stateless l s =
     (if \<not> dl_needs_commit l \<or> dl_expected_generation l \<noteq> 0 then Inl err_storage
      else Inr (l\<lparr>dl_needs_commit := False\<rparr>, clear_pending l s))"

definition confirm_binding :: "dispatch_lease \<Rightarrow> sched \<Rightarrow> dispatch_lease \<times> sched" where
  "confirm_binding l s =
     (l\<lparr>dl_needs_commit := False\<rparr>,
      clear_pending l (s\<lparr>sc_bindings := hput (dl_session l) (dl_binding l) (sc_bindings s)\<rparr>))"

definition err_invalidated :: err where
  "err_invalidated = error_new 409 ''reservation_invalidated''
     ''The account state or group changed before dispatch''"

definition err_consumed :: err where
  "err_consumed = error_new 500 ''attempt_already_consumed''
     ''The upstream attempt has already been consumed''"

definition begin_attempt :: "nat \<Rightarrow> dispatch_lease \<Rightarrow> sched \<Rightarrow> sched res" where
  "begin_attempt previous l s =
     (if sc_paused s then Inl err_storage
      else and_then (check_key s (sk_key_id (dl_session l)) (dl_group_id l)) (\<lambda>_.
        if acc_id (dl_account l) \<in> sc_blocked s
           \<or> \<not> (case hget (sc_accounts s) (acc_id (dl_account l)) of
                  None \<Rightarrow> False
                | Some a \<Rightarrow> serves (dl_group_id l) (dl_source l) (dl_model l) a)
        then Inl err_invalidated
        else if dl_needs_commit l then Inl err_storage
        else if hget (sc_leases s) (dl_id l) \<noteq> Some previous then Inl err_consumed
        else Inr (s\<lparr>sc_leases := hput (dl_id l) (previous + 1) (sc_leases s),
                    sc_served := hput (acc_id (dl_account l))
                      (hcount (sc_served s) (acc_id (dl_account l)) + 1) (sc_served s)\<rparr>)))"

definition begin_send :: "dispatch_lease \<Rightarrow> sched \<Rightarrow> sched res" where
  "begin_send l s = begin_attempt 0 l s"

definition begin_encrypted_reasoning_recovery :: "dispatch_lease \<Rightarrow> sched \<Rightarrow> sched res" where
  "begin_encrypted_reasoning_recovery l s = begin_attempt 1 l s"

definition release_activity :: "dispatch_lease \<Rightarrow> session_activity \<Rightarrow> session_activity" where
  "release_activity l sa =
     \<lparr>sa_threads = hdel (dl_thread_id l) (sa_threads sa),
      sa_binding_pending =
        (if sa_binding_pending sa = Some (dl_id l) then None else sa_binding_pending sa)\<rparr>"

definition lease_drop :: "dispatch_lease \<Rightarrow> sched \<Rightarrow> sched" where
  "lease_drop l s =
     (if hget (sc_leases s) (dl_id l) = None then s
      else s\<lparr>sc_leases := hdel (dl_id l) (sc_leases s),
             sc_inflight :=
               (case hget (sc_inflight s) (acc_id (dl_account l)) of
                  None \<Rightarrow> sc_inflight s
                | Some n \<Rightarrow> hput (acc_id (dl_account l)) (n - 1) (sc_inflight s)),
             sc_active :=
               (case hget (sc_active s) (dl_session l) of
                  None \<Rightarrow> sc_active s
                | Some sa \<Rightarrow>
                    if sa_threads (release_activity l sa) = []
                    then hdel (dl_session l) (sc_active s)
                    else hput (dl_session l) (release_activity l sa) (sc_active s))\<rparr>)"

subsection \<open>Statistics\<close>

record queued_request =
  qr_request_id :: uuid
  qr_session_id :: string
  qr_thread_id :: string
  qr_session_inflight :: nat
  qr_session_max_inflight :: nat
  qr_account_id :: "uuid option"
  qr_wait_ms :: nat

record account_runtime =
  ar_id :: uuid
  ar_inflight :: nat
  ar_queued :: nat
  ar_max_inflight :: nat

record queue_stats =
  qs_queued :: nat
  qs_inflight :: nat
  qs_paused :: bool
  qs_accounts :: "account_runtime list"
  qs_requests :: "queued_request list"

definition session_requests ::
  "runtime_settings \<Rightarrow> instant \<Rightarrow> sched \<Rightarrow> session_key \<Rightarrow> queued_request list" where
  "session_requests cfg now s key =
     map (\<lambda>w. \<lparr>qr_request_id = w_id w, qr_session_id = sk_client_session_id key,
               qr_thread_id = w_thread_id w,
               qr_session_inflight =
                 (case hget (sc_active s) key of None \<Rightarrow> 0 | Some sa \<Rightarrow> length (sa_threads sa)),
               qr_session_max_inflight = rs_session_max_inflight cfg,
               qr_account_id = map_option bd_account_id (hget (sc_bindings s) key),
               qr_wait_ms = (now - w_since w) div 1000000\<rparr>)
       (queue_of s key)"

definition sched_stats :: "runtime_settings \<Rightarrow> instant \<Rightarrow> sched \<Rightarrow> queue_stats" where
  "sched_stats cfg now s =
     (let requests = concat (map (session_requests cfg now s) (sc_order s)) in
      \<lparr>qs_queued = length requests, qs_inflight = total_inflight s, qs_paused = sc_paused s,
       qs_accounts =
         map (\<lambda>a. \<lparr>ar_id = acc_id a, ar_inflight = hcount (sc_inflight s) (acc_id a),
                   ar_queued = length (filter (\<lambda>r. qr_account_id r = Some (acc_id a)) requests),
                   ar_max_inflight = acc_max_inflight a\<rparr>)
           (hvals (sc_accounts s)),
       qs_requests = requests\<rparr>)"

end
