(* ===== verification/Sched_Select.thy ===== *)
theory Sched_Select
  imports Scheduling
begin

section \<open>What the scheduler selects\<close>

text \<open>
  Facts about one call of \<open>try_reserve\<close>: which waiter of which session is dispatched, to
  which account, and what a call that dispatches nothing means. They hold in every state,
  or in every state whose maps are well formed.
\<close>

subsection \<open>The scan\<close>

lemma scan_queue_Some:
  "scan_queue f seen pos q = Some (w, p, a) \<Longrightarrow>
     \<exists>j. p = pos + j \<and> j < length q \<and> q ! j = w \<and> f w = Some a
       \<and> w_thread_id w \<notin> set seen \<and> (\<forall>i<j. w_thread_id (q ! i) \<noteq> w_thread_id w)"
proof (induction q arbitrary: seen pos)
  case (Cons v q)
  show ?case
  proof (cases "if w_thread_id v \<in> set seen then None else f v")
    case None
    with Cons.prems have "scan_queue f (w_thread_id v # seen) (Suc pos) q = Some (w, p, a)" by simp
    from Cons.IH [OF this] obtain j where
      j: "p = Suc pos + j" "j < length q" "q ! j = w" "f w = Some a"
        "w_thread_id w \<notin> set (w_thread_id v # seen)"
        "\<forall>i<j. w_thread_id (q ! i) \<noteq> w_thread_id w" by blast
    then have "\<forall>i<Suc j. w_thread_id ((v # q) ! i) \<noteq> w_thread_id w"
      by (auto simp: nth_Cons split: nat.splits)
    with j show ?thesis by (intro exI [of _ "Suc j"]) simp
  next
    case (Some b)
    with Cons.prems show ?thesis by (intro exI [of _ 0]) (auto split: if_splits)
  qed
qed simp

text \<open>The scan is complete: it fails only if no first-of-its-thread waiter is dispatchable.\<close>

lemma scan_queue_None:
  "scan_queue f seen pos q = None \<Longrightarrow> j < length q \<Longrightarrow> w_thread_id (q ! j) \<notin> set seen \<Longrightarrow>
     \<forall>i<j. w_thread_id (q ! i) \<noteq> w_thread_id (q ! j) \<Longrightarrow> f (q ! j) = None"
proof (induction q arbitrary: seen pos j)
  case (Cons v q)
  show ?case
  proof (cases j)
    case 0
    with Cons.prems show ?thesis by (auto split: if_splits option.splits)
  next
    case (Suc k)
    from Cons.prems(1) have *: "scan_queue f (w_thread_id v # seen) (Suc pos) q = None"
      by (auto split: if_splits option.splits)
    have "w_thread_id v \<noteq> w_thread_id (q ! k)"
      using Cons.prems(4) Suc by (metis nth_Cons_0 nth_Cons_Suc zero_less_Suc)
    moreover have "\<forall>i<k. w_thread_id (q ! i) \<noteq> w_thread_id (q ! k)"
      using Cons.prems(4) Suc by (metis Suc_mono nth_Cons_Suc)
    ultimately show ?thesis
      using Cons.IH [OF *, of k] Cons.prems(2,3) Suc by simp
  qed
qed simp

lemma select_session_Some:
  assumes "select_session cfg now s session = Some (se, w, pos, a)"
  shows "se = session" and "\<not> session_closed cfg s session"
    and "\<exists>q. hget (sc_queues s) session = Some q \<and> pos < length q \<and> q ! pos = w
      \<and> (\<forall>i<pos. w_thread_id (q ! i) \<noteq> w_thread_id w)"
    and "candidate cfg now s session w = Some a"
  using assms
  by (auto simp: select_session_def split: if_splits option.splits dest!: scan_queue_Some)

lemma select_next_Some:
  assumes "select_next cfg now s = Some (se, w, pos, a)"
  shows "\<exists>us vs. sc_order s = us @ se # vs \<and> (\<forall>u\<in>set us. select_session cfg now s u = None)"
    and "select_session cfg now s se = Some (se, w, pos, a)"
proof -
  from assms obtain us x vs where *: "sc_order s = us @ x # vs"
    "select_session cfg now s x = Some (se, w, pos, a)"
    "\<forall>u\<in>set us. select_session cfg now s u = None"
    unfolding select_next_def by (blast dest: find_map_Some)
  then have "x = se" by (auto dest: select_session_Some(1))
  with * show "\<exists>us vs. sc_order s = us @ se # vs \<and> (\<forall>u\<in>set us. select_session cfg now s u = None)"
    and "select_session cfg now s se = Some (se, w, pos, a)" by auto
qed

text \<open>What dispatching a waiter requires of the state.\<close>

lemma candidate_Some:
  assumes "candidate cfg now s session w = Some a"
  shows "\<not> thread_active s session (w_thread_id w)"
    and "check_eligibility s session (w_group_id w) (w_model w) (w_source w) = Inr ()"
    and "\<not> timed_out cfg now w" and "\<not> binding_blocked s session"
    and "choose_account s session w = Some a"
    and "hget (sc_active s) session \<noteq> None \<Longrightarrow> \<not> migrates s session w a"
  using assms
  by (auto simp: candidate_def is_ok_iff split: if_splits option.splits)

lemma bound_account_Some:
  "bound_account s session w = Some a \<longleftrightarrow>
     (\<exists>b. hget (sc_bindings s) session = Some b \<and> hget (sc_accounts s) (bd_account_id b) = Some a
        \<and> serves (w_group_id w) (w_source w) (w_model w) a)"
  by (auto simp: bound_account_def split: option.splits if_splits)

lemma choose_account_Some:
  assumes "choose_account s session w = Some a"
  shows "has_capacity s a" and "serves (w_group_id w) (w_source w) (w_model w) a"
    and "a \<in> set (hvals (sc_accounts s))"
proof -
  have "has_capacity s a \<and> serves (w_group_id w) (w_source w) (w_model w) a
    \<and> a \<in> set (hvals (sc_accounts s))"
  proof (cases "bound_account s session w")
    case None
    with assms have "a \<in> set (free_accounts s w)"
      by (auto simp: choose_account_def dest: min_by_key_Some)
    then show ?thesis by (simp add: free_accounts_def)
  next
    case (Some a')
    with assms have "a' = a" "has_capacity s a"
      by (auto simp: choose_account_def split: if_splits)
    with Some show ?thesis by (force simp: bound_account_Some dest: map_of_SomeD)
  qed
  then show "has_capacity s a" "serves (w_group_id w) (w_source w) (w_model w) a"
    "a \<in> set (hvals (sc_accounts s))" by simp_all
qed

subsection \<open>The result of one reservation\<close>

text \<open>All that a successful call has established, in one elimination rule.\<close>

lemma try_reserve_SomeE:
  assumes "try_reserve cfg now new_id new_ns i s = Inr (Some l, s')"
  obtains session w pos a where
    "\<not> sc_paused s" and "total_inflight s < rs_global_max_inflight cfg"
    and "select_next cfg now s = Some (session, w, pos, a)" and "w_id w = i"
    and "s' = grant session w pos a s"
    and "l = \<lparr>dl_source = w_source w, dl_model = w_model w, dl_group_id = w_group_id w,
              dl_id = i, dl_session = session, dl_thread_id = w_thread_id w, dl_account = a,
              dl_binding = granted_binding new_id new_ns s session w a,
              dl_needs_commit = migrates s session w a,
              dl_expected_generation = generation_of s session\<rparr>"
  using assms
  by (auto simp: try_reserve_def not_le and_then_Inr_iff split: if_splits option.splits prod.splits)

lemma try_reserve_None_same:
  "try_reserve cfg now new_id new_ns i s = Inr (None, s') \<Longrightarrow> s' = s"
  by (auto simp: try_reserve_def and_then_Inr_iff split: if_splits option.splits prod.splits)

lemma not_blocked_when_granted:
  assumes "candidate cfg now s session w = Some a"
    and "\<forall>i x. hget (sc_accounts s) i = Some x \<longrightarrow> acc_id x = i"
  shows "acc_id a \<notin> sc_blocked s"
proof (cases "bound_account s session w")
  case None
  with candidate_Some(5) [OF assms(1)] have "a \<in> set (free_accounts s w)"
    by (auto simp: choose_account_def dest: min_by_key_Some)
  then show ?thesis by (simp add: free_accounts_def)
next
  case (Some a')
  with candidate_Some(5) [OF assms(1)] have "a' = a"
    by (auto simp: choose_account_def split: if_splits)
  with Some candidate_Some(4) [OF assms(1)] assms(2) show ?thesis
    by (auto simp: bound_account_Some binding_blocked_def)
qed

end
