(* ===== verification/Sched_World.thy ===== *)
theory Sched_World
  imports Sched_Select
begin

section \<open>The scheduler with its tickets and leases\<close>

text \<open>
  The scheduler together with the handles its clients hold: the live \<open>QueueTicket\<close>s and
  \<open>DispatchLease\<close>s. A step is one critical section run on behalf of some client, so the
  reachable worlds are those of every interleaving of requests, administrators, settings
  changes, cancellations and clock readings. \<open>sched_ok\<close> is the invariant.
\<close>

record world =
  wd_sched :: sched
  wd_cfg :: runtime_settings
  wd_tickets :: "queue_ticket list"
  wd_leases :: "dispatch_lease list"

definition drop_ticket :: "uuid \<Rightarrow> queue_ticket list \<Rightarrow> queue_ticket list" where
  "drop_ticket i ts = filter (\<lambda>t. qt_id t \<noteq> i) ts"

definition drop_lease :: "uuid \<Rightarrow> dispatch_lease list \<Rightarrow> dispatch_lease list" where
  "drop_lease i ls = filter (\<lambda>l. dl_id l \<noteq> i) ls"

definition put_lease :: "dispatch_lease \<Rightarrow> dispatch_lease list \<Rightarrow> dispatch_lease list" where
  "put_lease l ls = map (\<lambda>x. if dl_id x = dl_id l then l else x) ls"

text \<open>What an administrator's request or a persistence failure does to the scheduler.\<close>

inductive admin_step :: "sched \<Rightarrow> sched \<Rightarrow> bool" where
  as_update_account: "admin_step s (update_account a s)"
| as_update_key: "admin_step s (update_key k s)"
| as_remove_account: "admin_step s (remove_account i s)"
| as_remove_key: "admin_step s (remove_key i s)"
| as_block_key: "admin_step s (block_key i s)"
| as_block_account: "admin_step s (block_account i s)"
| as_set_paused: "admin_step s (set_paused v s)"

text \<open>
  The ids of requests are drawn at random by the HTTP layer: a new one differs from those
  in use.
\<close>

inductive wstep :: "world \<Rightarrow> world \<Rightarrow> bool" where
  ws_enqueue:
    "enqueue (wd_cfg w) i thread gid model source since (wd_sched w) = Inr (t, s') \<Longrightarrow>
     i \<notin> qt_id ` set (wd_tickets w) \<Longrightarrow> i \<notin> dl_id ` set (wd_leases w) \<Longrightarrow>
     wstep w (w\<lparr>wd_sched := s', wd_tickets := wd_tickets w @ [t]\<rparr>)"
| ws_sleep:
    "t \<in> set (wd_tickets w) \<Longrightarrow>
     wait_round (wd_cfg w) now cancelled new_id new_ns t (wd_sched w) = (Inr None, s') \<Longrightarrow>
     wstep w (w\<lparr>wd_sched := s'\<rparr>)"
| ws_granted:
    "t \<in> set (wd_tickets w) \<Longrightarrow>
     wait_round (wd_cfg w) now cancelled new_id new_ns t (wd_sched w) = (Inr (Some l), s') \<Longrightarrow>
     wstep w (w\<lparr>wd_sched := s', wd_tickets := drop_ticket (qt_id t) (wd_tickets w),
                wd_leases := wd_leases w @ [l]\<rparr>)"
| ws_failed:
    "t \<in> set (wd_tickets w) \<Longrightarrow>
     wait_round (wd_cfg w) now cancelled new_id new_ns t (wd_sched w) = (Inl e, s') \<Longrightarrow>
     wstep w (w\<lparr>wd_sched := s', wd_tickets := drop_ticket (qt_id t) (wd_tickets w)\<rparr>)"
| ws_abandon:
    "t \<in> set (wd_tickets w) \<Longrightarrow>
     wstep w (w\<lparr>wd_sched := remove_waiter (qt_id t) (qt_session t) (wd_sched w),
                wd_tickets := drop_ticket (qt_id t) (wd_tickets w)\<rparr>)"
| ws_stateless:
    "l \<in> set (wd_leases w) \<Longrightarrow> confirm_stateless l (wd_sched w) = Inr (l', s') \<Longrightarrow>
     wstep w (w\<lparr>wd_sched := s', wd_leases := put_lease l' (wd_leases w)\<rparr>)"
| ws_confirm:
    "l \<in> set (wd_leases w) \<Longrightarrow> dl_needs_commit l \<Longrightarrow> confirm_binding l (wd_sched w) = (l', s') \<Longrightarrow>
     wstep w (w\<lparr>wd_sched := s', wd_leases := put_lease l' (wd_leases w)\<rparr>)"
| ws_send:
    "l \<in> set (wd_leases w) \<Longrightarrow> begin_send l (wd_sched w) = Inr s' \<Longrightarrow>
     wstep w (w\<lparr>wd_sched := s'\<rparr>)"
| ws_recover:
    "l \<in> set (wd_leases w) \<Longrightarrow> begin_encrypted_reasoning_recovery l (wd_sched w) = Inr s' \<Longrightarrow>
     wstep w (w\<lparr>wd_sched := s'\<rparr>)"
| ws_release:
    "l \<in> set (wd_leases w) \<Longrightarrow>
     wstep w (w\<lparr>wd_sched := lease_drop l (wd_sched w),
                wd_leases := drop_lease (dl_id l) (wd_leases w)\<rparr>)"
| ws_admin: "admin_step (wd_sched w) s' \<Longrightarrow> wstep w (w\<lparr>wd_sched := s'\<rparr>)"
| ws_settings: "wstep w (w\<lparr>wd_cfg := cfg'\<rparr>)"

text \<open>
  A gateway starts with what the database holds: bindings whose generation is at least 1,
  as \<open>commit_binding\<close> writes them.
\<close>

inductive winit :: "world \<Rightarrow> bool" where
  "\<forall>b\<in>set bindings. 1 \<le> bd_generation b \<Longrightarrow>
   winit \<lparr>wd_sched = sched_new accounts bindings keys, wd_cfg = cfg, wd_tickets = [],
           wd_leases = []\<rparr>"

abbreviation reachable_world :: "world \<Rightarrow> bool" where
  "reachable_world \<equiv> reach winit wstep"

subsection \<open>Views of the state\<close>

definition active_id :: "sched \<Rightarrow> session_key \<Rightarrow> string \<Rightarrow> uuid option" where
  "active_id s se t =
     (case hget (sc_active s) se of None \<Rightarrow> None | Some sa \<Rightarrow> hget (sa_threads sa) t)"

definition pending_of :: "sched \<Rightarrow> session_key \<Rightarrow> uuid option" where
  "pending_of s se =
     (case hget (sc_active s) se of None \<Rightarrow> None | Some sa \<Rightarrow> sa_binding_pending sa)"

definition session_load :: "sched \<Rightarrow> session_key \<Rightarrow> nat" where
  "session_load s se =
     (case hget (sc_active s) se of None \<Rightarrow> 0 | Some sa \<Rightarrow> length (sa_threads sa))"

definition same_session :: "dispatch_lease list \<Rightarrow> session_key \<Rightarrow> dispatch_lease list" where
  "same_session ls se = filter (\<lambda>l. dl_session l = se) ls"

definition on_account :: "dispatch_lease list \<Rightarrow> uuid \<Rightarrow> dispatch_lease list" where
  "on_account ls a = filter (\<lambda>l. acc_id (dl_account l) = a) ls"

subsection \<open>The invariant\<close>

text \<open>Maps keyed by their values' keys; bindings carry a positive generation.\<close>

definition maps_ok :: "sched \<Rightarrow> bool" where
  "maps_ok s \<longleftrightarrow>
     hwf (sc_accounts s) \<and> (\<forall>i a. hget (sc_accounts s) i = Some a \<longrightarrow> acc_id a = i)
     \<and> (\<forall>se b. hget (sc_bindings s) se = Some b \<longrightarrow> bd_session b = se \<and> 1 \<le> bd_generation b)"

text \<open>
  The rotation order lists exactly the sessions with waiters, once each; every waiter has
  its ticket and every ticket its waiter.
\<close>

definition queues_ok :: "sched \<Rightarrow> queue_ticket list \<Rightarrow> bool" where
  "queues_ok s ts \<longleftrightarrow>
     hwf (sc_queues s) \<and> distinct (sc_order s)
     \<and> (\<forall>se. se \<in> set (sc_order s) \<longleftrightarrow> hget (sc_queues s) se \<noteq> None)
     \<and> (\<forall>se. hget (sc_queues s) se \<noteq> Some [])
     \<and> (\<forall>se. distinct (map w_id (queue_of s se)))
     \<and> (\<forall>se se' w w'. w \<in> set (queue_of s se) \<longrightarrow> w' \<in> set (queue_of s se') \<longrightarrow>
           w_id w = w_id w' \<longrightarrow> se = se')
     \<and> distinct (map qt_id ts)
     \<and> (\<forall>se i d. (\<exists>w\<in>set (queue_of s se). w_id w = i \<and> w_since w = d)
           \<longleftrightarrow> (\<exists>t\<in>set ts. qt_session t = se \<and> qt_id t = i \<and> qt_since t = d))"

text \<open>Live leases are accounted for: attempts, account load, session activity.\<close>

definition leases_ok :: "sched \<Rightarrow> dispatch_lease list \<Rightarrow> bool" where
  "leases_ok s ls \<longleftrightarrow>
     distinct (map dl_id ls)
     \<and> (\<forall>i. hget (sc_leases s) i \<noteq> None \<longleftrightarrow> i \<in> dl_id ` set ls)
     \<and> (\<forall>i n. hget (sc_leases s) i = Some n \<longrightarrow> n \<le> 2)
     \<and> hwf (sc_inflight s) \<and> total_inflight s = length ls
     \<and> (\<forall>a. hcount (sc_inflight s) a = length (on_account ls a))
     \<and> (\<forall>se sa. hget (sc_active s) se = Some sa \<longrightarrow> hwf (sa_threads sa) \<and> sa_threads sa \<noteq> [])
     \<and> (\<forall>se t i. active_id s se t = Some i
           \<longleftrightarrow> (\<exists>l\<in>set ls. dl_session l = se \<and> dl_thread_id l = t \<and> dl_id l = i))
     \<and> (\<forall>se. session_load s se = length (same_session ls se))"

text \<open>
  One generation per session: a lease that still has to persist its binding is alone in
  its session and marked pending; the confirmed ones share the stored binding, or it is a
  single stateless one with no binding at all.
\<close>

definition lease_bound :: "sched \<Rightarrow> dispatch_lease list \<Rightarrow> dispatch_lease \<Rightarrow> bool" where
  "lease_bound s ls l \<longleftrightarrow>
     bd_session (dl_binding l) = dl_session l
     \<and> bd_account_id (dl_binding l) = acc_id (dl_account l)
     \<and> bd_group_id (dl_binding l) = dl_group_id l
     \<and> 1 \<le> bd_generation (dl_binding l)
     \<and> (if dl_needs_commit l
        then pending_of s (dl_session l) = Some (dl_id l)
             \<and> same_session ls (dl_session l) = [l]
             \<and> hget (sc_leases s) (dl_id l) = Some 0
             \<and> dl_expected_generation l = generation_of s (dl_session l)
             \<and> bd_generation (dl_binding l) = dl_expected_generation l + 1
        else hget (sc_bindings s) (dl_session l) = Some (dl_binding l)
             \<or> (hget (sc_bindings s) (dl_session l) = None
                \<and> same_session ls (dl_session l) = [l]))"

definition bindings_ok :: "sched \<Rightarrow> dispatch_lease list \<Rightarrow> bool" where
  "bindings_ok s ls \<longleftrightarrow>
     (\<forall>l\<in>set ls. lease_bound s ls l)
     \<and> (\<forall>se i. pending_of s se = Some i \<longrightarrow>
           (\<exists>l\<in>set ls. dl_session l = se \<and> dl_id l = i \<and> dl_needs_commit l))"

definition sched_ok :: "sched \<Rightarrow> queue_ticket list \<Rightarrow> dispatch_lease list \<Rightarrow> bool" where
  "sched_ok s ts ls \<longleftrightarrow>
     maps_ok s \<and> queues_ok s ts \<and> leases_ok s ls \<and> bindings_ok s ls
     \<and> qt_id ` set ts \<inter> dl_id ` set ls = {}"

definition world_ok :: "world \<Rightarrow> bool" where
  "world_ok w \<longleftrightarrow> sched_ok (wd_sched w) (wd_tickets w) (wd_leases w)"

end
