(* ===== verification/Sched_Invariant.thy ===== *)
theory Sched_Invariant
  imports Sched_World
begin

section \<open>The scheduler's invariant\<close>

text \<open>
  One preservation lemma per operation of \<open>Scheduling\<close>, each reduced to what the operation
  changes in the views of \<open>Sched_World\<close>; together they interpret \<open>invariant_system\<close> on
  the scheduler's step relation.
\<close>

subsection \<open>Frames\<close>

lemma queues_frame:
  "sc_queues s' = sc_queues s \<Longrightarrow> sc_order s' = sc_order s \<Longrightarrow> queues_ok s' ts = queues_ok s ts"
  by (simp add: queues_ok_def queue_of_def)

lemma leases_frame:
  "sc_inflight s' = sc_inflight s \<Longrightarrow> sc_active s' = sc_active s \<Longrightarrow> sc_leases s' = sc_leases s \<Longrightarrow>
     leases_ok s' ls = leases_ok s ls"
  by (simp add: leases_ok_def active_id_def session_load_def total_inflight_def)

lemma bindings_frame:
  "sc_bindings s' = sc_bindings s \<Longrightarrow> sc_active s' = sc_active s \<Longrightarrow> sc_leases s' = sc_leases s \<Longrightarrow>
     bindings_ok s' ls = bindings_ok s ls"
  by (simp add: bindings_ok_def lease_bound_def pending_of_def generation_of_def)

lemma maps_frame:
  "sc_accounts s' = sc_accounts s \<Longrightarrow> sc_bindings s' = sc_bindings s \<Longrightarrow> maps_ok s' = maps_ok s"
  by (simp add: maps_ok_def)

lemma queue_change_frame:
  assumes "sched_ok s ts ls"
    and "sc_accounts s' = sc_accounts s" "sc_bindings s' = sc_bindings s"
    and "sc_inflight s' = sc_inflight s" "sc_active s' = sc_active s" "sc_leases s' = sc_leases s"
  shows "maps_ok s'" and "leases_ok s' ls" and "bindings_ok s' ls"
  using assms
  by (simp_all add: sched_ok_def maps_frame [of s' s] leases_frame [of s' s] bindings_frame [of s' s])

subsection \<open>Start\<close>

lemma collect_map_spec:
  "hwf (collect_map key xs) \<and> (\<forall>k x. hget (collect_map key xs) k = Some x \<longrightarrow> x \<in> set xs \<and> key x = k)"
proof (induction xs rule: rev_induct)
  case (snoc x xs)
  have "collect_map key (xs @ [x]) = hput (key x) x (collect_map key xs)"
    by (simp add: collect_map_def)
  with snoc show ?case by simp
qed (simp add: collect_map_def)

lemma sched_ok_new:
  assumes "\<forall>b\<in>set bindings. 1 \<le> bd_generation b"
  shows "sched_ok (sched_new accounts bindings keys) [] []"
proof -
  have "maps_ok (sched_new accounts bindings keys)"
    using collect_map_spec [of acc_id accounts] collect_map_spec [of bd_session bindings] assms
    by (auto simp: maps_ok_def sched_new_def)
  moreover have "queues_ok (sched_new accounts bindings keys) []"
    by (simp add: queues_ok_def sched_new_def queue_of_def)
  moreover have "leases_ok (sched_new accounts bindings keys) []"
    by (simp add: leases_ok_def sched_new_def total_inflight_def hcount_def on_account_def
        active_id_def session_load_def same_session_def)
  moreover have "bindings_ok (sched_new accounts bindings keys) []"
    by (simp add: bindings_ok_def sched_new_def pending_of_def)
  ultimately show ?thesis by (simp add: sched_ok_def)
qed

lemma world_ok_init: "winit w \<Longrightarrow> world_ok w"
  by (auto simp: world_ok_def sched_ok_new elim: winit.cases)

subsection \<open>Administration\<close>

lemma admin_ok:
  assumes "admin_step s s'" and "sched_ok s ts ls"
  shows "sched_ok s' ts ls"
proof -
  from assms(1) have same: "sc_queues s' = sc_queues s" "sc_order s' = sc_order s"
    "sc_inflight s' = sc_inflight s" "sc_active s' = sc_active s" "sc_leases s' = sc_leases s"
    "sc_bindings s' = sc_bindings s"
    by (cases; simp add: update_account_def update_key_def remove_account_def remove_key_def
        block_key_def block_account_def set_paused_def)+
  from assms(2) have "maps_ok s" by (simp add: sched_ok_def)
  with assms(1) have "maps_ok s'"
    by cases (auto simp: maps_ok_def update_account_def update_key_def remove_account_def
        remove_key_def block_key_def block_account_def set_paused_def split: if_splits)
  with assms(2) same show ?thesis
    by (simp add: sched_ok_def queues_frame [of s' s] leases_frame [of s' s] bindings_frame [of s' s])
qed

subsection \<open>Queues\<close>

lemma queue_of_eq: "hget (sc_queues s) se = Some q \<Longrightarrow> queue_of s se = q"
  by (simp add: queue_of_def)

lemma ticket_waiter:
  assumes "queues_ok s ts" and "t \<in> set ts"
  shows "\<exists>w\<in>set (queue_of s (qt_session t)). w_id w = qt_id t \<and> w_since w = qt_since t"
  using assms unfolding queues_ok_def by blast

lemma waiter_ticket:
  assumes "queues_ok s ts" and "w \<in> set (queue_of s se)"
  shows "\<exists>t\<in>set ts. qt_session t = se \<and> qt_id t = w_id w \<and> qt_since t = w_since w"
proof -
  from assms(1) have "(\<exists>v\<in>set (queue_of s se). w_id v = w_id w \<and> w_since v = w_since w)
      \<longleftrightarrow> (\<exists>t\<in>set ts. qt_session t = se \<and> qt_id t = w_id w \<and> qt_since t = w_since w)"
    unfolding queues_ok_def by (elim conjE allE)
  with assms(2) show ?thesis by blast
qed

lemma enqueue_ok:
  assumes enq: "enqueue cfg i thread gid model source since s = Inr (t, s')"
    and ok: "sched_ok s ts ls" and fresh: "i \<notin> qt_id ` set ts" "i \<notin> dl_id ` set ls"
  shows "sched_ok s' (ts @ [t]) ls"
proof -
  define se where "se = tk_session thread"
  define w where "w = \<lparr>w_source = source, w_id = i, w_thread_id = tk_client_thread_id thread,
                   w_group_id = gid, w_model = model, w_since = since\<rparr>"
  from enq have t: "t = \<lparr>qt_id = i, qt_session = se, qt_since = since\<rparr>"
    and s': "s' = s\<lparr>sc_order := (if hget (sc_queues s) se = None then sc_order s @ [se] else sc_order s),
                    sc_queues := hput se (queue_of s se @ [w]) (sc_queues s)\<rparr>"
    by (auto simp: enqueue_def Let_def se_def w_def and_then_Inr_iff split: if_splits)
  from ok have q: "queues_ok s ts" by (simp add: sched_ok_def)
  have qo: "queue_of s' se' = (if se' = se then queue_of s se @ [w] else queue_of s se')" for se'
    by (simp add: s' queue_of_def)
  have no: "\<forall>se. \<forall>v\<in>set (queue_of s se). w_id v \<noteq> i"
    using waiter_ticket [OF q] fresh(1) by (metis image_eqI)
  have "queues_ok s' (ts @ [t])"
    unfolding queues_ok_def
  proof (intro conjI allI impI)
    show "distinct (map w_id (queue_of s' se'))" for se'
      using q no by (auto simp: qo queues_ok_def w_def)
    show "se1 = se2" if "v \<in> set (queue_of s' se1)" "v' \<in> set (queue_of s' se2)" "w_id v = w_id v'"
      for se1 se2 v v'
    proof -
      have *: "se1 = se2" if "v \<in> set (queue_of s se1)" "v' \<in> set (queue_of s se2)"
        using q that \<open>w_id v = w_id v'\<close> unfolding queues_ok_def by blast
      have mem: "x \<in> set (queue_of s' se') \<longleftrightarrow> x \<in> set (queue_of s se') \<or> se' = se \<and> x = w" for x se'
        by (auto simp: qo)
      have wi: "w_id w = i" by (simp add: w_def)
      from that show ?thesis unfolding mem using * no wi by metis
    qed
    show "distinct (map qt_id (ts @ [t]))"
      using q fresh by (auto simp: queues_ok_def t)
    show "(\<exists>v\<in>set (queue_of s' se'). w_id v = j \<and> w_since v = d)
        \<longleftrightarrow> (\<exists>x\<in>set (ts @ [t]). qt_session x = se' \<and> qt_id x = j \<and> qt_since x = d)" for se' j d
    proof -
      have "(\<exists>v\<in>set (queue_of s' se'). w_id v = j \<and> w_since v = d)
          \<longleftrightarrow> (\<exists>v\<in>set (queue_of s se'). w_id v = j \<and> w_since v = d) \<or> (se' = se \<and> j = i \<and> d = since)"
        by (auto simp: qo w_def)
      also have "\<dots> \<longleftrightarrow> (\<exists>x\<in>set ts. qt_session x = se' \<and> qt_id x = j \<and> qt_since x = d)
          \<or> (se' = se \<and> j = i \<and> d = since)"
        using q by (simp add: queues_ok_def)
      also have "\<dots> \<longleftrightarrow> (\<exists>x\<in>set (ts @ [t]). qt_session x = se' \<and> qt_id x = j \<and> qt_since x = d)"
        by (auto simp: t)
      finally show ?thesis .
    qed
  qed (use q in \<open>auto simp: queues_ok_def s'\<close>)
  moreover have "maps_ok s'" "leases_ok s' ls" "bindings_ok s' ls"
    by (rule queue_change_frame [OF ok]; simp add: s')+
  ultimately show ?thesis using ok fresh(2) by (simp add: sched_ok_def t)
qed

text \<open>Taking one waiter out of a session's queue, as granting and abandoning both do.\<close>

lemma queues_ok_shrink:
  assumes q: "queues_ok s ts"
    and here: "\<forall>se' w. w \<in> set (queue_of s se') \<longrightarrow> w_id w = i \<longrightarrow> se' = se"
    and q': "set q' = {w \<in> set (queue_of s se). w_id w \<noteq> i}" "distinct (map w_id q')"
    and qs: "\<And>se'. hget (sc_queues s') se' =
        (if se' = se then (if q' = [] then None else Some q') else hget (sc_queues s) se')"
    and hw: "hwf (sc_queues s')"
    and ord: "distinct (sc_order s')"
      "\<And>se'. se' \<in> set (sc_order s') \<longleftrightarrow> (if se' = se then q' \<noteq> [] else se' \<in> set (sc_order s))"
  shows "queues_ok s' (drop_ticket i ts)"
proof -
  have qo: "queue_of s' se' = (if se' = se then q' else queue_of s se')" for se'
    by (simp add: queue_of_def qs)
  have mem: "w \<in> set (queue_of s' se') \<longleftrightarrow> w \<in> set (queue_of s se') \<and> w_id w \<noteq> i" for w se'
    using q'(1) here by (auto simp: qo)
  show ?thesis
    unfolding queues_ok_def
  proof (intro conjI allI impI)
    show "hwf (sc_queues s')" by (rule hw)
    show "distinct (sc_order s')" by (rule ord(1))
    show "se' \<in> set (sc_order s') \<longleftrightarrow> hget (sc_queues s') se' \<noteq> None" for se'
      using q by (simp add: ord(2) qs queues_ok_def)
    show "hget (sc_queues s') se' \<noteq> Some []" for se'
      using q by (simp add: qs queues_ok_def)
    show "distinct (map w_id (queue_of s' se'))" for se'
      using q q'(2) by (simp add: qo queues_ok_def)
    show "se1 = se2" if "v \<in> set (queue_of s' se1)" "v' \<in> set (queue_of s' se2)" "w_id v = w_id v'"
      for se1 se2 v v'
      using that q unfolding queues_ok_def mem by blast
    show "distinct (map qt_id (drop_ticket i ts))"
      using q by (simp add: queues_ok_def drop_ticket_def distinct_map inj_on_def)
    show "(\<exists>w\<in>set (queue_of s' se'). w_id w = j \<and> w_since w = d)
        \<longleftrightarrow> (\<exists>t\<in>set (drop_ticket i ts). qt_session t = se' \<and> qt_id t = j \<and> qt_since t = d)" for se' j d
    proof -
      have "(\<exists>w\<in>set (queue_of s se'). w_id w = j \<and> w_since w = d)
          \<longleftrightarrow> (\<exists>t\<in>set ts. qt_session t = se' \<and> qt_id t = j \<and> qt_since t = d)"
        using q by (simp add: queues_ok_def)
      then show ?thesis unfolding Bex_def mem drop_ticket_def set_filter mem_Collect_eq by metis
    qed
  qed
qed

lemma waiter_session_unique:
  assumes "queues_ok s ts" and "w \<in> set (queue_of s se)" and "w' \<in> set (queue_of s se')"
    and "w_id w = w_id w'"
  shows "se = se'" and "w = w'"
proof -
  from assms show "se = se'" unfolding queues_ok_def by blast
  with assms show "w = w'"
    unfolding queues_ok_def distinct_map by (metis inj_onD)
qed

lemma remove_waiter_ok:
  assumes ok: "sched_ok s ts ls" and t: "t \<in> set ts"
  shows "sched_ok (remove_waiter (qt_id t) (qt_session t) s) (drop_ticket (qt_id t) ts) ls"
proof -
  define s' where "s' = remove_waiter (qt_id t) (qt_session t) s"
  define q' where "q' = filter (\<lambda>w. w_id w \<noteq> qt_id t) (queue_of s (qt_session t))"
  from ok have q: "queues_ok s ts" by (simp add: sched_ok_def)
  from ticket_waiter [OF q t] obtain w where
    w: "w \<in> set (queue_of s (qt_session t))" "w_id w = qt_id t" by blast
  then obtain x where x: "hget (sc_queues s) (qt_session t) = Some x"
    by (cases "hget (sc_queues s) (qt_session t)") (auto simp: queue_of_def)
  then have s': "s' = (if q' = [] then s\<lparr>sc_queues := hdel (qt_session t) (sc_queues s),
                            sc_order := removeAll (qt_session t) (sc_order s)\<rparr>
          else s\<lparr>sc_queues := hput (qt_session t) q' (sc_queues s)\<rparr>)"
    by (simp add: s'_def remove_waiter_def q'_def queue_of_eq [OF x])
  have "queues_ok s' (drop_ticket (qt_id t) ts)"
  proof (rule queues_ok_shrink [OF q, where se = "qt_session t" and q' = q'])
    show "\<forall>se' v. v \<in> set (queue_of s se') \<longrightarrow> w_id v = qt_id t \<longrightarrow> se' = qt_session t"
      using waiter_session_unique(1) [OF q _ w(1)] w(2) by simp
    show "distinct (map w_id q')"
      using q by (auto simp: queues_ok_def q'_def distinct_map inj_on_def)
    show "se' \<in> set (sc_order s') \<longleftrightarrow> (if se' = qt_session t then q' \<noteq> [] else se' \<in> set (sc_order s))" for se'
      using q x by (auto simp: s' queues_ok_def)
  qed (use q in \<open>auto simp: s' q'_def queues_ok_def distinct_removeAll\<close>)
  moreover have "maps_ok s'" "leases_ok s' ls" "bindings_ok s' ls"
    by (rule queue_change_frame [OF ok]; simp add: s')+
  moreover have "qt_id ` set (drop_ticket (qt_id t) ts) \<subseteq> qt_id ` set ts"
    by (auto simp: drop_ticket_def)
  ultimately show ?thesis using ok unfolding sched_ok_def s'_def by blast
qed

lemma hput_same: "hget m k = Some v \<Longrightarrow> hput k v m = m"
  by (induction m) (auto split: if_splits)

lemma remove_waiter_absent:
  assumes "queues_ok s ts" and "\<forall>w\<in>set (queue_of s se). w_id w \<noteq> i"
  shows "remove_waiter i se s = s"
proof (cases "hget (sc_queues s) se")
  case None
  then show ?thesis by (simp add: remove_waiter_def)
next
  case (Some q)
  with assms have "filter (\<lambda>w. w_id w \<noteq> i) q = q" "q \<noteq> []"
    by (auto simp: queue_of_def queues_ok_def intro: filter_True)
  with Some show ?thesis by (simp add: remove_waiter_def hput_same)
qed

end
