(* ===== verification/Sched_Leases.thy ===== *)
theory Sched_Leases
  imports Sched_Invariant
begin

section \<open>Leases keep the invariant\<close>

text \<open>
  Granting, confirming, sending on and dropping a lease, then every step of the world: the
  interpretation of \<open>invariant_system\<close> on the scheduler.
\<close>

subsection \<open>List and map facts\<close>

lemma set_remove_at_distinct:
  assumes "distinct (map f q)" and "n < length q"
  shows "set (remove_at n q) = {x \<in> set q. f x \<noteq> f (q ! n)}" and "distinct (map f (remove_at n q))"
proof -
  have *: "q = take n q @ q ! n # drop (Suc n) q" using assms(2) by (rule id_take_nth_drop)
  then have "distinct (map f (take n q @ q ! n # drop (Suc n) q))" using assms(1) by simp
  then have d: "distinct (map f (take n q @ drop (Suc n) q))"
    and "f (q ! n) \<notin> f ` (set (take n q) \<union> set (drop (Suc n) q))" by auto
  then have n: "f x \<noteq> f (q ! n)" if "x \<in> set (take n q) \<union> set (drop (Suc n) q)" for x
    using that by (metis image_eqI)
  from d show "distinct (map f (remove_at n q))" by (simp add: remove_at_def)
  from * have "set q = insert (q ! n) (set (take n q) \<union> set (drop (Suc n) q))"
    by (metis Un_insert_right list.simps(15) set_append)
  with n [THEN not_sym] n show "set (remove_at n q) = {x \<in> set q. f x \<noteq> f (q ! n)}"
    by (auto simp: remove_at_def)
qed

lemma length_hput: "hget m k = None \<Longrightarrow> length (hput k v m) = Suc (length m)"
  by (induction m) (auto split: if_splits)

lemma hget_delete_length: "hwf m \<Longrightarrow> hget m k \<noteq> None \<Longrightarrow> Suc (length (hdel k m)) = length m"
proof (induction m)
  case (Cons p m)
  show ?case
  proof (cases "fst p = k")
    case True
    with Cons.prems have "k \<notin> fst ` set m" by (cases p) (auto simp: hwf_def)
    then have "hdel k m = m" by (simp add: delete_idem)
    with True show ?thesis by (cases p) simp
  next
    case False
    with Cons show ?thesis by (cases p) (auto simp: hwf_def)
  qed
qed simp

lemma hwf_single [simp]: "hwf [p]"
  by (simp add: hwf_def)

lemma hput_not_Nil [simp]: "hput k v m \<noteq> []"
  by (cases m) auto

lemma filter_id_single:
  "distinct (map f xs) \<Longrightarrow> x \<in> set xs \<Longrightarrow>
     Suc (length (filter P (filter (\<lambda>y. f y \<noteq> f x) xs))) = length (filter P xs) + (if P x then 0 else 1)"
proof (induction xs)
  case (Cons y xs)
  show ?case
  proof (cases "x = y")
    case True
    with Cons.prems have "\<forall>z\<in>set xs. f z \<noteq> f x" by (metis distinct.simps(2) image_eqI list.simps(9) set_map)
    then have "filter (\<lambda>z. f z \<noteq> f x) xs = xs" by simp
    with True show ?thesis by simp
  next
    case False
    with Cons.prems have "f y \<noteq> f x" "x \<in> set xs" by auto
    with Cons show ?thesis by (cases "P x") auto
  qed
qed simp

subsection \<open>Reading the lease invariant\<close>

lemma session_idle:
  "leases_ok s ls \<Longrightarrow> hget (sc_active s) se = None \<Longrightarrow> same_session ls se = []"
  by (auto simp: leases_ok_def session_load_def split: option.splits dest: spec [of _ se])

lemma lease_active:
  "leases_ok s ls \<Longrightarrow> l \<in> set ls \<Longrightarrow> active_id s (dl_session l) (dl_thread_id l) = Some (dl_id l)"
  unfolding leases_ok_def by blast

lemma lease_eq_by_id: "leases_ok s ls \<Longrightarrow> l \<in> set ls \<Longrightarrow> l' \<in> set ls \<Longrightarrow> dl_id l = dl_id l' \<Longrightarrow> l = l'"
  unfolding leases_ok_def distinct_map by (auto dest: inj_onD)

lemma mem_same_session [simp]: "l \<in> set (same_session ls se) \<longleftrightarrow> l \<in> set ls \<and> dl_session l = se"
  by (auto simp: same_session_def)

subsection \<open>Granting\<close>

lemma grant_views:
  assumes "\<not> thread_active s se (w_thread_id w)" and "\<not> session_closed cfg s se"
  shows "active_id (grant se w pos a s) se' t =
      (if se' = se \<and> t = w_thread_id w then Some (w_id w) else active_id s se' t)"
    and "pending_of (grant se w pos a s) se' =
      (if se' = se then (if migrates s se w a then Some (w_id w) else None) else pending_of s se')"
    and "session_load (grant se w pos a s) se' = session_load s se' + (if se' = se then 1 else 0)"
  using assms
  by (auto simp: grant_def Let_def active_id_def pending_of_def session_load_def
      activity_default_def thread_active_def session_closed_def length_hput
      split: option.splits)

lemma granted_binding_facts:
  assumes "maps_ok s"
  shows "bd_session (granted_binding ni nn s se w a) = se"
    and "bd_account_id (granted_binding ni nn s se w a) = acc_id a"
    and "bd_group_id (granted_binding ni nn s se w a) = w_group_id w"
    and "1 \<le> bd_generation (granted_binding ni nn s se w a)"
    and "migrates s se w a \<Longrightarrow>
      bd_generation (granted_binding ni nn s se w a) = generation_of s se + 1"
    and "\<not> migrates s se w a \<Longrightarrow> hget (sc_bindings s) se = Some (granted_binding ni nn s se w a)"
  using assms
  by (force simp: granted_binding_def Let_def maps_ok_def migrates_def same_binding_def
      generation_of_def split: option.splits)+

lemma total_hput_Suc:
  "hwf m \<Longrightarrow> sum_list (hvals (hput k (hcount m k + 1) m)) = Suc (sum_list (hvals m))"
  using sum_hput [of m k "hcount m k + 1"] by simp


lemma grant_queues_ok:
  assumes q: "queues_ok s ts" and sel: "select_session cfg now s se = Some (se, w, pos, a)"
  shows "queues_ok (grant se w pos a s) (drop_ticket (w_id w) ts)"
proof -
  from select_session_Some(3) [OF sel] obtain qu where
    qu: "hget (sc_queues s) se = Some qu" "pos < length qu" "qu ! pos = w" by blast
  then have qo: "queue_of s se = qu" by (simp add: queue_of_eq)
  from q have d: "distinct (map w_id qu)" unfolding qo [symmetric] queues_ok_def by blast
  note rem = set_remove_at_distinct [OF d qu(2)]
  have win: "w \<in> set (queue_of s se)" using qu qo by auto
  show ?thesis
  proof (rule queues_ok_shrink [OF q, where se = se and q' = "remove_at pos qu"])
    show "\<forall>se' v. v \<in> set (queue_of s se') \<longrightarrow> w_id v = w_id w \<longrightarrow> se' = se"
      using waiter_session_unique(1) [OF q _ win] by blast
    show "set (remove_at pos qu) = {v \<in> set (queue_of s se). w_id v \<noteq> w_id w}"
      using rem(1) qu qo by simp
    show "distinct (map w_id (remove_at pos qu))" by (rule rem(2))
    show "hwf (sc_queues (grant se w pos a s))"
      using q by (simp add: grant_def Let_def queues_ok_def)
    show "distinct (sc_order (grant se w pos a s))"
      using q by (simp add: grant_def Let_def queues_ok_def distinct_removeAll)
    show "hget (sc_queues (grant se w pos a s)) se' =
        (if se' = se then if remove_at pos qu = [] then None else Some (remove_at pos qu)
         else hget (sc_queues s) se')" for se'
      by (simp add: grant_def Let_def qo)
    show "se' \<in> set (sc_order (grant se w pos a s)) \<longleftrightarrow>
        (if se' = se then remove_at pos qu \<noteq> [] else se' \<in> set (sc_order s))" for se'
      by (auto simp: grant_def Let_def qo)
  qed
qed

definition lease_of ::
  "uuid \<Rightarrow> uuid \<Rightarrow> sched \<Rightarrow> session_key \<Rightarrow> waiter \<Rightarrow> account \<Rightarrow> dispatch_lease" where
  "lease_of ni nn s se w a =
     \<lparr>dl_source = w_source w, dl_model = w_model w, dl_group_id = w_group_id w,
      dl_id = w_id w, dl_session = se, dl_thread_id = w_thread_id w, dl_account = a,
      dl_binding = granted_binding ni nn s se w a, dl_needs_commit = migrates s se w a,
      dl_expected_generation = generation_of s se\<rparr>"

lemma lease_of_sel [simp]:
  "dl_id (lease_of ni nn s se w a) = w_id w"
  "dl_session (lease_of ni nn s se w a) = se"
  "dl_thread_id (lease_of ni nn s se w a) = w_thread_id w"
  "dl_account (lease_of ni nn s se w a) = a"
  "dl_group_id (lease_of ni nn s se w a) = w_group_id w"
  "dl_binding (lease_of ni nn s se w a) = granted_binding ni nn s se w a"
  "dl_needs_commit (lease_of ni nn s se w a) = migrates s se w a"
  "dl_expected_generation (lease_of ni nn s se w a) = generation_of s se"
  by (simp_all add: lease_of_def)

lemma grant_leases_ok:
  assumes ok: "leases_ok s ls" and fresh: "w_id w \<notin> dl_id ` set ls"
    and free: "\<not> thread_active s se (w_thread_id w)" "\<not> session_closed cfg s se"
  shows "leases_ok (grant se w pos a s) (ls @ [lease_of ni nn s se w a])"
proof -
  let ?s = "grant se w pos a s" and ?l = "lease_of ni nn s se w a"
  note views = grant_views [OF free, of pos a]
  have none: "active_id s se (w_thread_id w) = None"
    using free(1) by (auto simp: thread_active_def active_id_def split: option.splits)
  have flds: "sc_leases ?s = hput (w_id w) 0 (sc_leases s)"
    "sc_inflight ?s = hput (acc_id a) (hcount (sc_inflight s) (acc_id a) + 1) (sc_inflight s)"
    by (simp_all add: grant_def Let_def)
  show ?thesis
    unfolding leases_ok_def
  proof (intro conjI allI impI)
    show "distinct (map dl_id (ls @ [?l]))" using ok fresh by (auto simp: leases_ok_def)
    show "hget (sc_leases ?s) i \<noteq> None \<longleftrightarrow> i \<in> dl_id ` set (ls @ [?l])" for i
      using ok by (auto simp: leases_ok_def flds)
    show "n \<le> 2" if "hget (sc_leases ?s) i = Some n" for i n
      using that ok by (auto simp: leases_ok_def flds split: if_splits)
    show "hwf (sc_inflight ?s)" using ok by (simp add: leases_ok_def flds)
    show "total_inflight ?s = length (ls @ [?l])"
      using ok total_hput_Suc [of "sc_inflight s" "acc_id a"]
      by (simp add: leases_ok_def total_inflight_def flds)
    show "hcount (sc_inflight ?s) b = length (on_account (ls @ [?l]) b)" for b
      using ok by (simp add: leases_ok_def flds on_account_def)
    show "hwf (sa_threads sa)" "sa_threads sa \<noteq> []" if "hget (sc_active ?s) se' = Some sa" for se' sa
      using that ok by (auto simp: leases_ok_def grant_def Let_def activity_default_def
          split: if_splits option.splits)
    show "active_id ?s se' t = Some i
        \<longleftrightarrow> (\<exists>l\<in>set (ls @ [?l]). dl_session l = se' \<and> dl_thread_id l = t \<and> dl_id l = i)" for se' t i
    proof -
      have act: "active_id s se'' t' = Some j
          \<longleftrightarrow> (\<exists>l\<in>set ls. dl_session l = se'' \<and> dl_thread_id l = t' \<and> dl_id l = j)" for se'' t' j
        using ok by (simp add: leases_ok_def)
      have "\<forall>l\<in>set ls. \<not> (dl_session l = se \<and> dl_thread_id l = w_thread_id w)"
        using none act by (metis option.distinct(1))
      with act show ?thesis unfolding views by auto
    qed
    show "session_load ?s se' = length (same_session (ls @ [?l]) se')" for se'
      using ok unfolding views by (auto simp: leases_ok_def same_session_def)
  qed
qed

lemma lease_bound_cong:
  assumes "lease_bound s ls l"
    and "hget (sc_bindings s') (dl_session l) = hget (sc_bindings s) (dl_session l)"
    and "pending_of s' (dl_session l) = pending_of s (dl_session l)"
    and "hget (sc_leases s') (dl_id l) = hget (sc_leases s) (dl_id l)"
    and "same_session ls' (dl_session l) = same_session ls (dl_session l)"
  shows "lease_bound s' ls' l"
  using assms by (simp add: lease_bound_def generation_of_def)

lemma grant_bindings_ok:
  assumes ok: "maps_ok s" "leases_ok s ls" "bindings_ok s ls" and fresh: "w_id w \<notin> dl_id ` set ls"
    and sel: "select_session cfg now s se = Some (se, w, pos, a)"
  shows "bindings_ok (grant se w pos a s) (ls @ [lease_of ni nn s se w a])"
proof -
  let ?s = "grant se w pos a s" and ?l = "lease_of ni nn s se w a"
  note cand = candidate_Some [OF select_session_Some(4) [OF sel]]
  note closed = select_session_Some(2) [OF sel]
  note views = grant_views [OF cand(1) closed, of pos a]
  note gb = granted_binding_facts [OF ok(1)]
  have idle: "pending_of s se = None"
    using closed by (auto simp: session_closed_def pending_of_def split: option.splits)
  have same: "sc_bindings ?s = sc_bindings s" by (simp add: grant_def Let_def)
  have alone: "same_session ls se = []" if "migrates s se w a"
    using cand(6) that session_idle [OF ok(2)] by blast
  have here: "lease_bound ?s (ls @ [?l]) ?l"
    using gb alone
    by (auto simp: lease_bound_def views same generation_of_def same_session_def)
      (simp_all add: grant_def Let_def)
  have there: "lease_bound ?s (ls @ [?l]) l" if l: "l \<in> set ls" for l
  proof (cases "dl_session l = se")
    case True
    with l have in_se: "same_session ls se \<noteq> []" by (auto simp: same_session_def filter_empty_conv)
    with alone have nm: "\<not> migrates s se w a" by blast
    from ok(3) l have lb: "lease_bound s ls l" by (simp add: bindings_ok_def)
    with idle True have "\<not> dl_needs_commit l" by (auto simp: lease_bound_def)
    moreover from nm True have "hget (sc_bindings s) (dl_session l) \<noteq> None"
      by (auto simp: migrates_def split: option.splits)
    ultimately show ?thesis using lb by (auto simp: lease_bound_def same)
  next
    case False
    have "lease_bound s ls l" using ok(3) l by (simp add: bindings_ok_def)
    moreover have "dl_id l \<noteq> w_id w" using l fresh by (metis image_eqI)
    then have "hget (sc_leases ?s) (dl_id l) = hget (sc_leases s) (dl_id l)"
      by (simp add: grant_def Let_def)
    moreover have "same_session (ls @ [?l]) (dl_session l) = same_session ls (dl_session l)"
      using False by (simp add: same_session_def)
    ultimately show ?thesis
      using lease_bound_cong [of s ls l ?s "ls @ [?l]"] by (simp add: same views False)
  qed
  have pend: "\<exists>l\<in>set (ls @ [?l]). dl_session l = se' \<and> dl_id l = i \<and> dl_needs_commit l"
    if "pending_of ?s se' = Some i" for se' i
  proof (cases "se' = se")
    case True
    with that show ?thesis by (auto simp: views split: if_splits)
  next
    case False
    with that have "pending_of s se' = Some i" by (simp add: views)
    with ok(3) have "\<exists>l\<in>set ls. dl_session l = se' \<and> dl_id l = i \<and> dl_needs_commit l"
      unfolding bindings_ok_def by blast
    then show ?thesis by auto
  qed
  from here there have "\<forall>l\<in>set (ls @ [?l]). lease_bound ?s (ls @ [?l]) l" by simp
  with pend show ?thesis unfolding bindings_ok_def by blast
qed


lemma grant_ok:
  assumes ok: "sched_ok s ts ls" and sel: "select_session cfg now s se = Some (se, w, pos, a)"
  shows "sched_ok (grant se w pos a s) (drop_ticket (w_id w) ts) (ls @ [lease_of ni nn s se w a])"
proof -
  from ok have q: "queues_ok s ts" by (simp add: sched_ok_def)
  from select_session_Some(3) [OF sel] have "w \<in> set (queue_of s se)"
    by (auto simp: queue_of_eq)
  from waiter_ticket [OF q this] have w: "w_id w \<in> qt_id ` set ts" by (metis image_eqI)
  with ok have fresh: "w_id w \<notin> dl_id ` set ls" by (auto simp: sched_ok_def)
  have "maps_ok (grant se w pos a s)"
    using ok maps_frame [of "grant se w pos a s" s]
    by (simp add: sched_ok_def) (simp add: grant_def Let_def)
  moreover have "queues_ok (grant se w pos a s) (drop_ticket (w_id w) ts)"
    by (rule grant_queues_ok [OF q sel])
  moreover have "leases_ok (grant se w pos a s) (ls @ [lease_of ni nn s se w a])"
    using grant_leases_ok [OF _ fresh candidate_Some(1) [OF select_session_Some(4) [OF sel]]
        select_session_Some(2) [OF sel]] ok
    by (simp add: sched_ok_def)
  moreover have "bindings_ok (grant se w pos a s) (ls @ [lease_of ni nn s se w a])"
    using grant_bindings_ok [OF _ _ _ fresh sel] ok by (simp add: sched_ok_def)
  moreover have "qt_id ` set (drop_ticket (w_id w) ts) \<inter> dl_id ` set (ls @ [lease_of ni nn s se w a]) = {}"
    using ok by (auto simp: sched_ok_def drop_ticket_def)
  ultimately show ?thesis by (simp add: sched_ok_def)
qed

subsection \<open>Confirming\<close>

lemma clear_pending_views:
  "active_id (clear_pending l s) se t = active_id s se t"
  "session_load (clear_pending l s) se = session_load s se"
  "pending_of (clear_pending l s) se =
     (if se = dl_session l \<and> pending_of s se = Some (dl_id l) then None else pending_of s se)"
  "sc_leases (clear_pending l s) = sc_leases s"
  "sc_inflight (clear_pending l s) = sc_inflight s"
  "sc_bindings (clear_pending l s) = sc_bindings s"
  "sc_queues (clear_pending l s) = sc_queues s"
  "sc_order (clear_pending l s) = sc_order s"
  "sc_accounts (clear_pending l s) = sc_accounts s"
  by (auto simp: clear_pending_def active_id_def session_load_def pending_of_def split: option.splits)

lemma clear_pending_threads:
  "hget (sc_active (clear_pending l s)) se = Some sa \<Longrightarrow>
     \<exists>sb. hget (sc_active s) se = Some sb \<and> sa_threads sb = sa_threads sa"
  by (auto simp: clear_pending_def split: option.splits if_splits)

text \<open>
  Both confirmations replace a lease by one that only differs in \<open>needs_commit\<close>; what they
  share is stated once, for the new value of the session's binding.
\<close>

lemma put_lease_simps:
  "dl_id l' = dl_id l \<Longrightarrow> map dl_id (put_lease l' ls) = map dl_id ls"
  "length (put_lease l' ls) = length ls"
  by (auto simp: put_lease_def)

lemma put_lease_mem:
  assumes "distinct (map dl_id ls)" and "l \<in> set ls" and "dl_id l' = dl_id l"
  shows "x \<in> set (put_lease l' ls) \<longleftrightarrow> x = l' \<or> (x \<in> set ls \<and> x \<noteq> l)"
  using assms by (fastforce simp: put_lease_def distinct_map inj_on_def split: if_splits)

lemma filter_put_lease:
  assumes "\<And>x. x \<in> set ls \<Longrightarrow> dl_id x = dl_id l' \<Longrightarrow> P x = P l'"
  shows "filter P (put_lease l' ls) = put_lease l' (filter P ls)"
  using assms by (induction ls) (auto simp: put_lease_def)

lemma put_lease_single: "dl_id l' = dl_id l \<Longrightarrow> put_lease l' [l] = [l']"
  by (simp add: put_lease_def)


lemma put_lease_other:
  "dl_id l' \<notin> dl_id ` set ls \<Longrightarrow> put_lease l' ls = ls"
  unfolding put_lease_def by (rule map_idI) (metis image_eqI)

lemma alone_in_session:
  assumes "bindings_ok s ls" and "l \<in> set ls" and "dl_needs_commit l"
  shows "same_session ls (dl_session l) = [l]" and "pending_of s (dl_session l) = Some (dl_id l)"
    and "dl_expected_generation l = generation_of s (dl_session l)"
  using assms by (auto simp: bindings_ok_def lease_bound_def)

lemma confirm_leases_ok:
  assumes ok: "leases_ok s ls" and l: "l \<in> set ls"
    and l': "l' = l\<lparr>dl_needs_commit := False\<rparr>"
    and same: "sc_leases s' = sc_leases s" "sc_inflight s' = sc_inflight s"
    and views: "\<And>se t. active_id s' se t = active_id s se t"
      "\<And>se. session_load s' se = session_load s se"
    and threads: "\<And>se sa. hget (sc_active s') se = Some sa \<Longrightarrow>
      \<exists>sb. hget (sc_active s) se = Some sb \<and> sa_threads sb = sa_threads sa"
  shows "leases_ok s' (put_lease l' ls)"
proof -
  from ok have d: "distinct (map dl_id ls)" by (simp add: leases_ok_def)
  have i: "dl_id l' = dl_id l" by (simp add: l')
  have only: "x = l" if "x \<in> set ls" "dl_id x = dl_id l'" for x
    using that l i lease_eq_by_id [OF ok] by simp
  have mem: "x \<in> set (put_lease l' ls) \<longleftrightarrow> x = l' \<or> (x \<in> set ls \<and> x \<noteq> l)" for x
    by (rule put_lease_mem [OF d l i])
  have len: "length (filter P (put_lease l' ls)) = length (filter P ls)" if "P l' = P l" for P
  proof -
    have "filter P (put_lease l' ls) = put_lease l' (filter P ls)"
      by (rule filter_put_lease) (use only that in metis)
    then show ?thesis by (simp add: put_lease_simps)
  qed
  have ids: "set (map dl_id (put_lease l' ls)) = set (map dl_id ls)"
    by (simp only: put_lease_simps(1) [OF i])
  have sel: "dl_session l' = dl_session l" "dl_thread_id l' = dl_thread_id l" "dl_account l' = dl_account l"
    by (simp_all add: l')
  have ex: "(\<exists>x\<in>set (put_lease l' ls). dl_session x = se \<and> dl_thread_id x = t \<and> dl_id x = j)
      \<longleftrightarrow> (\<exists>x\<in>set ls. dl_session x = se \<and> dl_thread_id x = t \<and> dl_id x = j)" for se t j
    using l unfolding Bex_def mem by (metis i sel(1,2))
  show ?thesis
    unfolding leases_ok_def
  proof (intro conjI allI impI)
    show "distinct (map dl_id (put_lease l' ls))" using d by (simp add: put_lease_simps(1) [OF i])
    show "hget (sc_leases s') j \<noteq> None \<longleftrightarrow> j \<in> dl_id ` set (put_lease l' ls)" for j
      using ok ids by (simp add: leases_ok_def same)
    show "n \<le> 2" if "hget (sc_leases s') j = Some n" for j n
      using that ok by (simp add: leases_ok_def same)
    show "hwf (sc_inflight s')" using ok by (simp add: leases_ok_def same)
    show "total_inflight s' = length (put_lease l' ls)"
      using ok by (simp add: leases_ok_def same total_inflight_def put_lease_simps)
    show "hcount (sc_inflight s') b = length (on_account (put_lease l' ls) b)" for b
      using ok by (simp add: leases_ok_def same on_account_def len sel)
    show "hwf (sa_threads sa)" "sa_threads sa \<noteq> []" if "hget (sc_active s') se = Some sa" for se sa
      using ok threads [OF that] unfolding leases_ok_def by metis+
    show "active_id s' se t = Some j \<longleftrightarrow>
        (\<exists>x\<in>set (put_lease l' ls). dl_session x = se \<and> dl_thread_id x = t \<and> dl_id x = j)" for se t j
      unfolding ex views using ok by (simp add: leases_ok_def)
    show "session_load s' se = length (same_session (put_lease l' ls) se)" for se
      using ok by (simp add: leases_ok_def views same_session_def len sel)
  qed
qed

lemma confirm_bindings_ok:
  assumes lo: "leases_ok s ls" and bo: "bindings_ok s ls" and l: "l \<in> set ls" "dl_needs_commit l"
    and l': "l' = l\<lparr>dl_needs_commit := False\<rparr>"
    and same: "sc_leases s' = sc_leases s"
    and pend: "\<And>se. pending_of s' se =
      (if se = dl_session l \<and> pending_of s se = Some (dl_id l) then None else pending_of s se)"
    and here: "hget (sc_bindings s') (dl_session l) = Some (dl_binding l)
      \<or> hget (sc_bindings s') (dl_session l) = None"
    and other: "\<And>se. se \<noteq> dl_session l \<Longrightarrow> hget (sc_bindings s') se = hget (sc_bindings s) se"
  shows "bindings_ok s' (put_lease l' ls)"
proof -
  note alone = alone_in_session [OF bo l]
  have i: "dl_id l' = dl_id l" and sel: "dl_session l' = dl_session l" by (simp_all add: l')
  from lo have d: "distinct (map dl_id ls)" by (simp add: leases_ok_def)
  have mem: "x \<in> set (put_lease l' ls) \<longleftrightarrow> x = l' \<or> (x \<in> set ls \<and> x \<noteq> l)" for x
    by (rule put_lease_mem [OF d l(1) i])
  have only: "x = l" if "x \<in> set ls" "dl_id x = dl_id l'" for x
    using that l i lease_eq_by_id [OF lo] by simp
  have sess: "same_session (put_lease l' ls) se = put_lease l' (same_session ls se)" for se
    unfolding same_session_def by (rule filter_put_lease) (use only sel in metis)
  from bo l(1) have lb: "lease_bound s ls l" by (simp add: bindings_ok_def)
  have one: "lease_bound s' (put_lease l' ls) l'"
  proof -
    have "same_session (put_lease l' ls) (dl_session l) = [l']"
      by (simp add: sess alone(1) put_lease_single [OF i])
    moreover have "\<not> dl_needs_commit l'" "dl_binding l' = dl_binding l"
      "dl_account l' = dl_account l" "dl_group_id l' = dl_group_id l" by (simp_all add: l')
    ultimately show ?thesis using lb here by (auto simp: lease_bound_def sel)
  qed
  have rest: "lease_bound s' (put_lease l' ls) x" if x: "x \<in> set ls" "x \<noteq> l" for x
  proof -
    from x alone(1) have ne: "dl_session x \<noteq> dl_session l"
      by (metis empty_iff insert_iff list.set(1,2) mem_same_session)
    then have "l \<notin> set (same_session ls (dl_session x))" by simp
    then have "put_lease l' (same_session ls (dl_session x)) = same_session ls (dl_session x)"
      using only by (intro put_lease_other) auto
    with bo x ne show ?thesis
      using lease_bound_cong [of s ls x s' "put_lease l' ls"]
      by (simp add: bindings_ok_def sess same pend other)
  qed
  have "\<exists>x\<in>set (put_lease l' ls). dl_session x = se \<and> dl_id x = j \<and> dl_needs_commit x"
    if p: "pending_of s' se = Some j" for se j
  proof -
    from p have "pending_of s se = Some j" "se \<noteq> dl_session l"
      using alone(2) by (auto simp: pend split: if_splits)
    then obtain x where "x \<in> set ls" "dl_session x = se" "dl_id x = j" "dl_needs_commit x"
      using bo unfolding bindings_ok_def by blast
    with \<open>se \<noteq> dl_session l\<close> show ?thesis unfolding Bex_def mem by blast
  qed
  with one rest show ?thesis unfolding bindings_ok_def Ball_def mem by blast
qed


lemma confirm_ok:
  assumes ok: "sched_ok s ts ls" and l: "l \<in> set ls" "dl_needs_commit l"
    and l': "l' = l\<lparr>dl_needs_commit := False\<rparr>"
    and s': "s' = clear_pending l (s\<lparr>sc_bindings := m\<rparr>)"
    and here: "hget m (dl_session l) = Some (dl_binding l) \<or> hget m (dl_session l) = None"
    and other: "\<And>se. se \<noteq> dl_session l \<Longrightarrow> hget m se = hget (sc_bindings s) se"
  shows "sched_ok s' ts (put_lease l' ls)"
proof -
  let ?s = "s\<lparr>sc_bindings := m\<rparr>"
  have views: "active_id ?s se t = active_id s se t" "session_load ?s se = session_load s se"
    "pending_of ?s se = pending_of s se" for se t
    by (simp_all add: active_id_def session_load_def pending_of_def)
  have lb: "lease_bound s ls l" using ok l(1) by (simp add: sched_ok_def bindings_ok_def)
  have "bd_session b = se \<and> 1 \<le> bd_generation b" if "hget m se = Some b" for se b
    using that ok lb here other [of se]
    by (cases "se = dl_session l") (auto simp: sched_ok_def maps_ok_def lease_bound_def)
  with ok have "maps_ok s'" by (simp add: s' sched_ok_def maps_ok_def clear_pending_views)
  moreover have "queues_ok s' ts"
    using ok queues_frame [of s' s ts] by (simp add: sched_ok_def s' clear_pending_views)
  moreover have "leases_ok s' (put_lease l' ls)"
    by (rule confirm_leases_ok [OF _ l(1) l', of s])
      (use ok clear_pending_threads [of l ?s] in
        \<open>simp_all add: sched_ok_def s' clear_pending_views views\<close>)
  moreover have "bindings_ok s' (put_lease l' ls)"
    by (rule confirm_bindings_ok [OF _ _ l l', of s])
      (use ok here other in \<open>auto simp: sched_ok_def s' clear_pending_views views\<close>)
  moreover have "dl_id l' = dl_id l" by (simp add: l')
  then have "dl_id ` set (put_lease l' ls) = dl_id ` set ls"
    using put_lease_simps(1) [of l' l ls] by (metis set_map)
  ultimately show ?thesis using ok by (simp add: sched_ok_def)
qed

lemma confirm_binding_ok:
  assumes "sched_ok s ts ls" and "l \<in> set ls" and "dl_needs_commit l"
    and "confirm_binding l s = (l', s')"
  shows "sched_ok s' ts (put_lease l' ls)"
  using assms(4)
  by (intro confirm_ok [OF assms(1-3), where m = "hput (dl_session l) (dl_binding l) (sc_bindings s)"])
    (auto simp: confirm_binding_def)

lemma confirm_stateless_ok:
  assumes ok: "sched_ok s ts ls" and l: "l \<in> set ls" and c: "confirm_stateless l s = Inr (l', s')"
  shows "sched_ok s' ts (put_lease l' ls)"
proof -
  from c have nc: "dl_needs_commit l" "dl_expected_generation l = 0"
    and eq: "l' = l\<lparr>dl_needs_commit := False\<rparr>" "s' = clear_pending l s"
    by (auto simp: confirm_stateless_def split: if_splits)
  from ok have "generation_of s (dl_session l) = 0"
    using alone_in_session(3) [OF _ l nc(1), of s] nc(2) by (simp add: sched_ok_def)
  with ok have "hget (sc_bindings s) (dl_session l) = None"
    by (force simp: sched_ok_def maps_ok_def generation_of_def split: option.splits)
  then show ?thesis
    by (intro confirm_ok [OF ok l nc(1) eq(1), where m = "sc_bindings s"]) (simp_all add: eq(2))
qed


subsection \<open>Sending and dropping\<close>

lemma begin_attempt_ok:
  assumes ok: "sched_ok s ts ls" and l: "l \<in> set ls" and n: "n \<le> 1"
    and b: "begin_attempt n l s = Inr s'"
  shows "sched_ok s' ts ls"
proof -
  from b have nc: "\<not> dl_needs_commit l" and have_lease: "hget (sc_leases s) (dl_id l) = Some n"
    and s': "s' = s\<lparr>sc_leases := hput (dl_id l) (n + 1) (sc_leases s),
                    sc_served := hput (acc_id (dl_account l))
                      (hcount (sc_served s) (acc_id (dl_account l)) + 1) (sc_served s)\<rparr>"
    by (auto simp: begin_attempt_def and_then_Inr_iff split: if_splits)
  have leases: "hget (sc_leases s') i = (if i = dl_id l then Some (n + 1) else hget (sc_leases s) i)" for i
    by (simp add: s')
  have views: "active_id s' se t = active_id s se t" "session_load s' se = session_load s se"
    "pending_of s' se = pending_of s se" "total_inflight s' = total_inflight s"
    "sc_inflight s' = sc_inflight s" "sc_active s' = sc_active s" "sc_bindings s' = sc_bindings s" for se t
    by (simp_all add: s' active_id_def session_load_def pending_of_def total_inflight_def)
  have lo: "leases_ok s ls" and bo: "bindings_ok s ls" using ok by (simp_all add: sched_ok_def)
  have "leases_ok s' ls"
    using lo l n have_lease unfolding leases_ok_def views leases by auto
  moreover have "lease_bound s' ls x" if x: "x \<in> set ls" for x
  proof (cases "x = l")
    case True
    with nc bo l show ?thesis by (simp add: bindings_ok_def lease_bound_def views)
  next
    case False
    with lease_eq_by_id [OF lo x l] have "dl_id x \<noteq> dl_id l" by blast
    moreover have "lease_bound s ls x" using bo x unfolding bindings_ok_def by blast
    ultimately show ?thesis
      using lease_bound_cong [of s ls x s' ls] by (simp add: views leases)
  qed
  then have "bindings_ok s' ls" using bo by (simp add: bindings_ok_def views)
  moreover have "maps_ok s'" "queues_ok s' ts"
    using ok maps_frame [of s' s] queues_frame [of s' s] by (simp_all add: sched_ok_def s')
  ultimately show ?thesis using ok by (simp add: sched_ok_def)
qed

lemma drop_lease_filter:
  "same_session (drop_lease i ls) se = drop_lease i (same_session ls se)"
  "on_account (drop_lease i ls) a = drop_lease i (on_account ls a)"
  by (simp_all add: same_session_def on_account_def drop_lease_def conj_commute)

lemma length_drop_lease:
  assumes "leases_ok s ls" and "l \<in> set ls"
  shows "length (filter P (drop_lease (dl_id l) ls)) = length (filter P ls) - (if P l then 1 else 0)"
proof -
  from assms have "distinct (map dl_id ls)" by (simp add: leases_ok_def)
  from filter_id_single [OF this assms(2), of P] show ?thesis
    by (cases "P l") (simp_all add: drop_lease_def)
qed

lemma drop_views:
  assumes ok: "sched_ok s ts ls" and l: "l \<in> set ls"
  shows "active_id (lease_drop l s) se t =
      (if se = dl_session l \<and> t = dl_thread_id l then None else active_id s se t)"
    and "pending_of (lease_drop l s) se =
      (if se = dl_session l \<and> pending_of s se = Some (dl_id l) then None else pending_of s se)"
    and "session_load (lease_drop l s) se = session_load s se - (if se = dl_session l then 1 else 0)"
    and "sc_leases (lease_drop l s) = hdel (dl_id l) (sc_leases s)"
    and "sc_inflight (lease_drop l s) =
      hput (acc_id (dl_account l)) (hcount (sc_inflight s) (acc_id (dl_account l)) - 1) (sc_inflight s)"
proof -
  have lo: "leases_ok s ls" and bo: "bindings_ok s ls" using ok by (simp_all add: sched_ok_def)
  from lo l have some: "hget (sc_leases s) (dl_id l) \<noteq> None" unfolding leases_ok_def by blast
  from lease_active [OF lo l] obtain sa where
    sa: "hget (sc_active s) (dl_session l) = Some sa" "hget (sa_threads sa) (dl_thread_id l) = Some (dl_id l)"
    by (auto simp: active_id_def split: option.splits)
  from lo sa have wf: "hwf (sa_threads sa)" unfolding leases_ok_def by blast
  have len: "Suc (length (hdel (dl_thread_id l) (sa_threads sa))) = length (sa_threads sa)"
    by (rule hget_delete_length [OF wf]) (simp add: sa)
  have empty: "hget (sa_threads sa) t = None"
    if "hdel (dl_thread_id l) (sa_threads sa) = []" "t \<noteq> dl_thread_id l" for t
    using that hget_hdel [of "dl_thread_id l" "sa_threads sa" t] by simp
  have pend: "sa_binding_pending sa = None \<or> sa_binding_pending sa = Some (dl_id l)"
    if none: "hdel (dl_thread_id l) (sa_threads sa) = []"
  proof (cases "sa_binding_pending sa")
    case (Some j)
    then have "pending_of s (dl_session l) = Some j" by (simp add: pending_of_def sa)
    then obtain x where x: "x \<in> set ls" "dl_session x = dl_session l" "dl_id x = j"
      using bo unfolding bindings_ok_def by blast
    from lease_active [OF lo x(1)] x have "hget (sa_threads sa) (dl_thread_id x) = Some j"
      by (simp add: active_id_def sa)
    with empty [OF none] sa(2) have "j = dl_id l" by (metis option.distinct(1) option.inject)
    with Some show ?thesis by simp
  qed simp
  show "active_id (lease_drop l s) se t =
      (if se = dl_session l \<and> t = dl_thread_id l then None else active_id s se t)"
    using some sa empty by (auto simp: lease_drop_def active_id_def release_activity_def)
  show "pending_of (lease_drop l s) se =
      (if se = dl_session l \<and> pending_of s se = Some (dl_id l) then None else pending_of s se)"
  proof (cases "se = dl_session l")
    case True
    show ?thesis
    proof (cases "hdel (dl_thread_id l) (sa_threads sa) = []")
      case none: True
      from pend [OF none] some sa(1) none True show ?thesis
        by (elim disjE) (simp_all add: lease_drop_def pending_of_def release_activity_def)
    next
      case False
      with some sa(1) True show ?thesis
        by (auto simp: lease_drop_def pending_of_def release_activity_def)
    qed
  next
    case False
    with some sa(1) show ?thesis by (simp add: lease_drop_def pending_of_def)
  qed
  show "session_load (lease_drop l s) se = session_load s se - (if se = dl_session l then 1 else 0)"
    using some sa len by (auto simp: lease_drop_def session_load_def release_activity_def)
  show "sc_leases (lease_drop l s) = hdel (dl_id l) (sc_leases s)"
    using some by (auto simp: lease_drop_def)
  have "l \<in> set (on_account ls (acc_id (dl_account l)))" using l by (simp add: on_account_def)
  then have "length (on_account ls (acc_id (dl_account l))) \<noteq> 0" by auto
  with lo have "hcount (sc_inflight s) (acc_id (dl_account l)) \<noteq> 0" by (simp add: leases_ok_def)
  then show "sc_inflight (lease_drop l s) =
      hput (acc_id (dl_account l)) (hcount (sc_inflight s) (acc_id (dl_account l)) - 1) (sc_inflight s)"
    using some by (auto simp: lease_drop_def hcount_def split: option.splits)
qed


lemma drop_threads:
  assumes "leases_ok s ls" and "hget (sc_active (lease_drop l s)) se = Some sa"
  shows "hwf (sa_threads sa)" and "sa_threads sa \<noteq> []"
proof -
  have "hwf (sa_threads sa) \<and> sa_threads sa \<noteq> []" if "hget (sc_active s) se = Some sa" for se sa
    using assms(1) that unfolding leases_ok_def by blast
  with assms(2) show "hwf (sa_threads sa)" and "sa_threads sa \<noteq> []"
    by (auto simp: lease_drop_def release_activity_def split: if_splits option.splits)
qed

lemma mem_drop_lease [simp]: "x \<in> set (drop_lease i ls) \<longleftrightarrow> x \<in> set ls \<and> dl_id x \<noteq> i"
  by (auto simp: drop_lease_def)

lemma drop_leases_ok:
  assumes ok: "sched_ok s ts ls" and l: "l \<in> set ls"
  shows "leases_ok (lease_drop l s) (drop_lease (dl_id l) ls)"
proof -
  let ?s = "lease_drop l s" and ?ls = "drop_lease (dl_id l) ls"
  have lo: "leases_ok s ls" using ok by (simp add: sched_ok_def)
  note views = drop_views [OF ok l]
  note len = length_drop_lease [OF lo l]
  have cnt: "hcount (sc_inflight s) b = length (on_account ls b)" for b
    using lo by (simp add: leases_ok_def)
  have tot: "sum_list (hvals (sc_inflight s)) = length ls"
    using lo by (simp add: leases_ok_def total_inflight_def)
  have on: "length (on_account ls (acc_id (dl_account l))) \<noteq> 0"
    using l by (auto simp: on_account_def filter_empty_conv)
  have act: "active_id s se t = Some j
      \<longleftrightarrow> (\<exists>x\<in>set ls. dl_session x = se \<and> dl_thread_id x = t \<and> dl_id x = j)" for se t j
    using lo by (simp add: leases_ok_def)
  have same_thread: "x = l" if "x \<in> set ls" "dl_session x = dl_session l" "dl_thread_id x = dl_thread_id l" for x
  proof -
    have "Some (dl_id x) = Some (dl_id l)"
      using lease_active [OF lo l] lease_active [OF lo that(1)] unfolding that(2,3) by (rule trans [OF sym, rotated])
    then show ?thesis using lease_eq_by_id [OF lo that(1) l] by blast
  qed
  show ?thesis
    unfolding leases_ok_def
  proof (intro conjI allI impI)
    have "distinct (map dl_id ls)" using lo by (simp add: leases_ok_def)
    then show "distinct (map dl_id ?ls)" by (simp add: drop_lease_def distinct_map inj_on_def)
    show "hget (sc_leases ?s) i \<noteq> None \<longleftrightarrow> i \<in> dl_id ` set ?ls" for i
    proof -
      have "hget (sc_leases s) i \<noteq> None \<longleftrightarrow> i \<in> dl_id ` set ls"
        using lo unfolding leases_ok_def by blast
      then show ?thesis by (auto simp: views(4) drop_lease_def)
    qed
    show "n \<le> 2" if "hget (sc_leases ?s) i = Some n" for i n
      using that lo by (simp add: leases_ok_def views(4) split: if_splits)
    show "hwf (sc_inflight ?s)" using lo by (simp add: leases_ok_def views(5))
    show "hcount (sc_inflight ?s) b = length (on_account ?ls b)" for b
      using len [of "\<lambda>x. acc_id (dl_account x) = b"] cnt
      by (auto simp: views(5) on_account_def)
    show "total_inflight ?s = length ?ls"
      using sum_hput [of "sc_inflight s" "acc_id (dl_account l)"
          "hcount (sc_inflight s) (acc_id (dl_account l)) - 1"] lo on len [of "\<lambda>_. True"]
      by (simp add: leases_ok_def total_inflight_def views(5) cnt)
    show "hwf (sa_threads sa)" "sa_threads sa \<noteq> []" if "hget (sc_active ?s) se = Some sa" for se sa
      using drop_threads [OF lo that] by simp_all
    show "active_id ?s se t = Some j
        \<longleftrightarrow> (\<exists>x\<in>set ?ls. dl_session x = se \<and> dl_thread_id x = t \<and> dl_id x = j)" for se t j
    proof -
      have "(\<exists>x\<in>set ?ls. dl_session x = se \<and> dl_thread_id x = t \<and> dl_id x = j) \<longleftrightarrow>
          (\<exists>x\<in>set ls. dl_session x = se \<and> dl_thread_id x = t \<and> dl_id x = j) \<and>
            \<not> (se = dl_session l \<and> t = dl_thread_id l)"
        unfolding Bex_def mem_drop_lease using same_thread lease_eq_by_id [OF lo _ l] by metis
      then show ?thesis by (simp add: views(1) act)
    qed
    show "session_load ?s se = length (same_session ?ls se)" for se
      using len [of "\<lambda>x. dl_session x = se"] lo
      by (auto simp: leases_ok_def views(3) same_session_def)
  qed
qed

lemma drop_bindings_ok:
  assumes ok: "sched_ok s ts ls" and l: "l \<in> set ls"
  shows "bindings_ok (lease_drop l s) (drop_lease (dl_id l) ls)"
proof -
  let ?s = "lease_drop l s" and ?ls = "drop_lease (dl_id l) ls"
  have lo: "leases_ok s ls" and bo: "bindings_ok s ls" using ok by (simp_all add: sched_ok_def)
  note views = drop_views [OF ok l]
  have same: "sc_bindings ?s = sc_bindings s" by (simp add: lease_drop_def)
  have "lease_bound ?s ?ls x" if x: "x \<in> set ls" "dl_id x \<noteq> dl_id l" for x
  proof -
    have lb: "lease_bound s ls x" using bo x(1) unfolding bindings_ok_def by blast
    have "same_session ls (dl_session x) = [x] \<Longrightarrow> same_session ?ls (dl_session x) = [x]"
      using x(2) by (simp add: drop_lease_filter(1)) (simp add: drop_lease_def)
    with lb x(2) show ?thesis
      by (auto simp: lease_bound_def views(2,4) same generation_of_def)
  qed
  moreover have "\<exists>x\<in>set ?ls. dl_session x = se \<and> dl_id x = j \<and> dl_needs_commit x"
    if p: "pending_of ?s se = Some j" for se j
  proof -
    from p have p': "pending_of s se = Some j" "\<not> (se = dl_session l \<and> j = dl_id l)"
      by (auto simp: views(2) split: if_splits)
    then obtain x where x: "x \<in> set ls" "dl_session x = se" "dl_id x = j" "dl_needs_commit x"
      using bo unfolding bindings_ok_def by blast
    with p'(2) lease_eq_by_id [OF lo x(1) l] have "dl_id x \<noteq> dl_id l" by auto
    with x show ?thesis by auto
  qed
  ultimately show ?thesis unfolding bindings_ok_def by auto
qed

lemma lease_drop_ok:
  assumes ok: "sched_ok s ts ls" and l: "l \<in> set ls"
  shows "sched_ok (lease_drop l s) ts (drop_lease (dl_id l) ls)"
proof -
  have "maps_ok (lease_drop l s)" "queues_ok (lease_drop l s) ts"
    using ok maps_frame [of "lease_drop l s" s] queues_frame [of "lease_drop l s" s]
    by (simp_all add: sched_ok_def lease_drop_def)
  with drop_leases_ok [OF ok l] drop_bindings_ok [OF ok l] ok show ?thesis
    by (auto simp: sched_ok_def)
qed

end
