(* ===== verification/Sched_Properties.thy ===== *)
theory Sched_Properties
  imports Sched_Leases
begin

section \<open>Properties of the scheduler\<close>

text \<open>
  Every step of the world keeps \<open>sched_ok\<close>, so \<open>invariant_system\<close> is interpreted on the
  scheduler; the properties of reachable worlds follow from the interpretation.
\<close>

lemma try_reserve_ok:
  assumes ok: "sched_ok s ts ls" and r: "try_reserve cfg now ni nn i s = Inr (Some l, s')"
  shows "sched_ok s' (drop_ticket i ts) (ls @ [l])"
proof -
  from r obtain se w pos a where
    sel: "select_next cfg now s = Some (se, w, pos, a)" and w: "w_id w = i"
    and s': "s' = grant se w pos a s" and l: "l = lease_of ni nn s se w a"
    by (rule try_reserve_SomeE) (auto simp: lease_of_def)
  from grant_ok [OF ok select_next_Some(2) [OF sel]] show ?thesis by (simp add: s' l w)
qed

lemma remove_dispatched_waiter:
  assumes "sched_ok s (drop_ticket i ts) ls"
  shows "remove_waiter i se s = s"
proof (rule remove_waiter_absent)
  from assms show q: "queues_ok s (drop_ticket i ts)" by (simp add: sched_ok_def)
  show "\<forall>w\<in>set (queue_of s se). w_id w \<noteq> i"
    using waiter_ticket [OF q] by (fastforce simp: drop_ticket_def)
qed

lemma wait_granted_ok:
  assumes ok: "sched_ok s ts ls" and r: "wait_round cfg now c ni nn t s = (Inr (Some l), s')"
  shows "try_reserve cfg now ni nn (qt_id t) s = Inr (Some l, s')"
    and "sched_ok s' (drop_ticket (qt_id t) ts) (ls @ [l])"
proof -
  from r obtain s'' where
    t: "try_reserve cfg now ni nn (qt_id t) s = Inr (Some l, s'')"
    and s': "s' = remove_waiter (qt_id t) (qt_session t) s''"
    by (auto simp: wait_round_def Let_def split: if_splits sum.splits option.splits)
  from try_reserve_ok [OF ok t] have ok': "sched_ok s'' (drop_ticket (qt_id t) ts) (ls @ [l])" .
  then have "s' = s''" unfolding s' by (rule remove_dispatched_waiter)
  with t ok' show "try_reserve cfg now ni nn (qt_id t) s = Inr (Some l, s')"
    and "sched_ok s' (drop_ticket (qt_id t) ts) (ls @ [l])" by simp_all
qed

lemma wait_other:
  assumes "wait_round cfg now c ni nn t s = (r, s')" and "\<nexists>l. r = Inr (Some l)"
  shows "r = Inr None \<Longrightarrow> s' = s"
    and "r = Inl e \<Longrightarrow> s' = remove_waiter (qt_id t) (qt_session t) s"
  using assms
  by (auto simp: wait_round_def Let_def split: if_splits sum.splits option.splits prod.splits
      dest: try_reserve_None_same)

lemma world_ok_step: "world_ok w \<Longrightarrow> wstep w w' \<Longrightarrow> world_ok w'"
  unfolding world_ok_def
proof (erule wstep.cases, goal_cases)
  case 1 then show ?case by (simp add: enqueue_ok)
next
  case 2 then show ?case by (auto dest: wait_other)
next
  case 3 then show ?case by (auto intro: wait_granted_ok(2))
next
  case 4 then show ?case by (auto dest!: wait_other(2) intro: remove_waiter_ok)
next
  case 5 then show ?case by (auto intro: remove_waiter_ok)
next
  case 6 then show ?case by (auto intro: confirm_stateless_ok)
next
  case 7 then show ?case by (auto intro: confirm_binding_ok)
next
  case 8 then show ?case by (auto simp: begin_send_def intro: begin_attempt_ok [where n = 0])
next
  case 9 then show ?case
    by (auto simp: begin_encrypted_reasoning_recovery_def intro: begin_attempt_ok [where n = 1])
next
  case 10 then show ?case by (auto intro: lease_drop_ok)
next
  case 11 then show ?case by (auto intro: admin_ok)
next
  case 12 then show ?case by simp
qed

interpretation scheduler: invariant_system winit wstep world_ok
  by unfold_locales (fact world_ok_init, fact world_ok_step)

lemma reachable_ok:
  assumes "reachable_world w"
  shows "sched_ok (wd_sched w) (wd_tickets w) (wd_leases w)"
  using scheduler.reach_inv [OF assms] by (simp add: world_ok_def)

end
