(* ===== verification/Sched_Example.thy ===== *)
theory Sched_Example
  imports Sched_Properties
begin

section \<open>A run of the scheduler\<close>

text \<open>
  A concrete run, on which the properties are applied: two requests of one session on two
  threads are queued, the first is granted and its binding confirmed, then the second is
  granted under the same binding. Two accounts serve the group.
\<close>

definition ex_account :: "uuid \<Rightarrow> account" where
  "ex_account i =
     \<lparr>acc_id = i, acc_group_ids = [7], acc_name = ''a'', acc_provider = ''openai'',
      acc_access_kind = ''codex_oauth'', acc_enabled = True, acc_codex_only = False,
      acc_use_extra_credits = False, acc_disable_reason = None, acc_max_inflight = 2,
      acc_upstream_account_id = ''u'', acc_upstream_base_url = ''https://x'', acc_models = [],
      acc_models_restricted = False, acc_model_catalog = None,
      acc_profile = \<lparr>cp_installation_id = 0, cp_codex_version = ''0.153.4'',
                     cp_user_agent = ''c'', cp_tls_backend = ''rustls''\<rparr>,
      acc_version = 1, acc_credential_version = 1, acc_credential_expires_at = None,
      acc_created_at = 0, acc_updated_at = 0\<rparr>"

definition ex_key :: gateway_key where
  "ex_key = \<lparr>gk_id = 9, gk_group_id = 7, gk_name = ''k'', gk_prefix = ''p'', gk_enabled = True,
               gk_created_at = 0, gk_last_used_at = None\<rparr>"

lemma ex_ids [simp]: "acc_id (ex_account i) = i" "gk_id ex_key = 9"
  by (simp_all add: ex_account_def ex_key_def)

definition ex_session :: session_key where
  "ex_session = \<lparr>sk_key_id = 9, sk_client_session_id = ''s''\<rparr>"

definition ex_model :: model_ref where
  "ex_model = model_codex ''m''"

definition ex_waiter :: "uuid \<Rightarrow> string \<Rightarrow> waiter" where
  "ex_waiter i t = \<lparr>w_source = Codex, w_id = i, w_thread_id = t, w_group_id = 7,
                    w_model = ex_model, w_since = 0\<rparr>"

definition ex_ticket :: "uuid \<Rightarrow> queue_ticket" where
  "ex_ticket i = \<lparr>qt_id = i, qt_session = ex_session, qt_since = 0\<rparr>"

definition ex_binding :: binding where
  "ex_binding = \<lparr>bd_id = 50, bd_group_id = 7, bd_session = ex_session, bd_generation = 1,
                 bd_account_id = 5, bd_namespace = 51, bd_provider = ''openai'',
                 bd_access_kind = ''codex_oauth''\<rparr>"

definition ex_lease :: "uuid \<Rightarrow> string \<Rightarrow> bool \<Rightarrow> int \<Rightarrow> dispatch_lease" where
  "ex_lease i t nc g =
     \<lparr>dl_source = Codex, dl_model = ex_model, dl_group_id = 7, dl_id = i, dl_session = ex_session,
      dl_thread_id = t, dl_account = ex_account 5, dl_binding = ex_binding, dl_needs_commit = nc,
      dl_expected_generation = g\<rparr>"

text \<open>The scheduler's state at the start and after each step of the run.\<close>

definition ex_s0 :: sched where
  "ex_s0 = sched_new [ex_account 5, ex_account 6] [] [ex_key]"

definition ex_s1 :: sched where
  "ex_s1 = ex_s0\<lparr>sc_order := [ex_session], sc_queues := [(ex_session, [ex_waiter 3 ''x''])]\<rparr>"

definition ex_s2 :: sched where
  "ex_s2 = ex_s0\<lparr>sc_order := [ex_session],
             sc_queues := [(ex_session, [ex_waiter 3 ''x'', ex_waiter 4 ''y''])]\<rparr>"

definition ex_s3 :: sched where
  "ex_s3 = ex_s0\<lparr>sc_order := [ex_session], sc_queues := [(ex_session, [ex_waiter 4 ''y''])],
             sc_inflight := [(5, 1)],
             sc_active := [(ex_session, \<lparr>sa_threads = [(''x'', 3)], sa_binding_pending = Some 3\<rparr>)],
             sc_leases := [(3, 0)]\<rparr>"

definition ex_s4 :: sched where
  "ex_s4 = ex_s3\<lparr>sc_bindings := [(ex_session, ex_binding)],
             sc_active := [(ex_session, \<lparr>sa_threads = [(''x'', 3)], sa_binding_pending = None\<rparr>)]\<rparr>"

definition ex_s5 :: sched where
  "ex_s5 = ex_s4\<lparr>sc_order := [], sc_queues := [], sc_inflight := [(5, 2)],
             sc_active := [(ex_session,
               \<lparr>sa_threads = [(''x'', 3), (''y'', 4)], sa_binding_pending = None\<rparr>)],
             sc_leases := [(3, 0), (4, 0)]\<rparr>"

definition ex_world :: "sched \<Rightarrow> queue_ticket list \<Rightarrow> dispatch_lease list \<Rightarrow> world" where
  "ex_world s ts ls =
     \<lparr>wd_sched = s, wd_cfg = settings_default, wd_tickets = ts, wd_leases = ls\<rparr>"

lemma ex_world_sel [simp]:
  "wd_sched (ex_world s ts ls) = s" "wd_cfg (ex_world s ts ls) = settings_default"
  "wd_tickets (ex_world s ts ls) = ts" "wd_leases (ex_world s ts ls) = ls"
  by (simp_all add: ex_world_def)

lemmas ex_states = ex_s0_def ex_s1_def ex_s2_def ex_s3_def ex_s4_def ex_s5_def sched_new_def
  collect_map_def

lemmas ex_values = ex_account_def ex_key_def ex_session_def ex_model_def ex_waiter_def
  ex_ticket_def ex_binding_def ex_lease_def model_codex_def

lemma ex_eligible:
  "s \<in> {ex_s0, ex_s1, ex_s2, ex_s3, ex_s4} \<Longrightarrow> check_eligibility s ex_session 7 ex_model Codex = Inr ()"
  by (auto simp: check_eligibility_def check_key_def check_pool_def eligible_def serves_def
      compatible_def accepts_def supports_def ex_states ex_values)

lemma ex_enqueue:
  "enqueue settings_default 3 \<lparr>tk_session = ex_session, tk_client_thread_id = ''x''\<rparr> 7 ex_model Codex 0 ex_s0
     = Inr (ex_ticket 3, ex_s1)"
  "enqueue settings_default 4 \<lparr>tk_session = ex_session, tk_client_thread_id = ''y''\<rparr> 7 ex_model Codex 0 ex_s1
     = Inr (ex_ticket 4, ex_s2)"
  by (simp_all add: enqueue_def Let_def ex_eligible)
    (simp_all add: ex_states ex_ticket_def ex_waiter_def queue_of_def queued_total_def settings_default_def)


lemmas ex_scan = select_next_def select_session_def candidate_def session_closed_def
  thread_active_def timed_out_def binding_blocked_def choose_account_def bound_account_def
  free_accounts_def has_capacity_def migrates_def same_binding_def load_key_def serves_def
  accepts_def supports_def hcount_def

lemma ex_select:
  "select_next settings_default 1 ex_s2 = Some (ex_session, ex_waiter 3 ''x'', 0, ex_account 5)"
  "select_next settings_default 1 ex_s4 = Some (ex_session, ex_waiter 4 ''y'', 0, ex_account 5)"
  using ex_eligible [of ex_s2] ex_eligible [of ex_s4]
  by (simp_all add: ex_scan ex_states ex_values settings_default_def)

lemma ex_parts:
  "\<not> sc_paused ex_s2" "\<not> sc_paused ex_s4" "total_inflight ex_s2 = 0" "total_inflight ex_s4 = 1"
  "find_waiter ex_s2 3 = Some (ex_session, ex_waiter 3 ''x'')"
  "find_waiter ex_s4 4 = Some (ex_session, ex_waiter 4 ''y'')"
  "migrates ex_s2 ex_session (ex_waiter 3 ''x'') (ex_account 5)"
  "\<not> migrates ex_s4 ex_session (ex_waiter 4 ''y'') (ex_account 5)"
  "generation_of ex_s2 ex_session = 0" "generation_of ex_s4 ex_session = 1"
  "granted_binding 50 51 ex_s2 ex_session (ex_waiter 3 ''x'') (ex_account 5) = ex_binding"
  "granted_binding 50 51 ex_s4 ex_session (ex_waiter 4 ''y'') (ex_account 5) = ex_binding"
  by (simp_all add: ex_states ex_values total_inflight_def find_waiter_def migrates_def
      same_binding_def generation_of_def granted_binding_def Let_def binding_new_def)

lemma ex_grant:
  "grant ex_session (ex_waiter 3 ''x'') 0 (ex_account 5) ex_s2 = ex_s3"
  "grant ex_session (ex_waiter 4 ''y'') 0 (ex_account 5) ex_s4 = ex_s5"
  by (simp_all add: grant_def Let_def ex_parts)
    (simp_all add: ex_states ex_waiter_def queue_of_def hcount_def activity_default_def)

lemma ex_waiter_sel [simp]:
  "w_id (ex_waiter i t) = i" "w_thread_id (ex_waiter i t) = t" "w_group_id (ex_waiter i t) = 7"
  "w_model (ex_waiter i t) = ex_model" "w_source (ex_waiter i t) = Codex"
  by (simp_all add: ex_waiter_def)

lemma ex_try_reserve:
  "try_reserve settings_default 1 50 51 3 ex_s2 = Inr (Some (ex_lease 3 ''x'' True 0), ex_s3)"
  "try_reserve settings_default 1 50 51 4 ex_s4 = Inr (Some (ex_lease 4 ''y'' False 1), ex_s5)"
  using ex_select ex_eligible [of ex_s2] ex_eligible [of ex_s4]
  by (simp_all add: try_reserve_def ex_parts ex_grant ex_lease_def)
    (simp_all add: settings_default_def)

lemma ex_wait:
  "wait_round settings_default 1 False 50 51 (ex_ticket 3) ex_s2
     = (Inr (Some (ex_lease 3 ''x'' True 0)), ex_s3)"
  "wait_round settings_default 1 False 50 51 (ex_ticket 4) ex_s4
     = (Inr (Some (ex_lease 4 ''y'' False 1)), ex_s5)"
  using ex_try_reserve
  by (simp_all add: wait_round_def Let_def ex_ticket_def)
    (simp_all add: settings_default_def remove_waiter_def ex_states ex_waiter_def)

lemma ex_confirm:
  "confirm_binding (ex_lease 3 ''x'' True 0) ex_s3 = (ex_lease 3 ''x'' False 0, ex_s4)"
  by (simp add: confirm_binding_def clear_pending_def ex_states ex_lease_def)

lemma ex_lease_sel [simp]:
  "dl_id (ex_lease i t nc g) = i" "dl_session (ex_lease i t nc g) = ex_session"
  "dl_thread_id (ex_lease i t nc g) = t" "dl_needs_commit (ex_lease i t nc g) = nc"
  "dl_account (ex_lease i t nc g) = ex_account 5" "dl_binding (ex_lease i t nc g) = ex_binding"
  by (simp_all add: ex_lease_def)

lemma ex_ticket_sel [simp]: "qt_id (ex_ticket i) = i" "qt_session (ex_ticket i) = ex_session"
  by (simp_all add: ex_ticket_def)

lemma ex_start: "reachable_world (ex_world ex_s0 [] [])"
  unfolding ex_world_def ex_s0_def by (rule reach_init, rule winit.intros) simp

lemma ex_queued: "reachable_world (ex_world ex_s2 [ex_ticket 3, ex_ticket 4] [])"
proof -
  have "reachable_world (ex_world ex_s1 [ex_ticket 3] [])"
    using reach_step [OF ex_start, OF ws_enqueue [of "ex_world ex_s0 [] []"], simplified, OF ex_enqueue(1)]
    by (simp add: ex_world_def)
  from reach_step [OF this, OF ws_enqueue [of "ex_world ex_s1 [ex_ticket 3] []"], simplified, OF ex_enqueue(2)]
  show ?thesis by (simp add: ex_world_def)
qed

lemma ex_leased: "reachable_world (ex_world ex_s3 [ex_ticket 4] [ex_lease 3 ''x'' True 0])"
  using reach_step [OF ex_queued, OF ws_granted, of "ex_ticket 3", simplified, OF ex_wait(1)]
  by (simp add: ex_world_def drop_ticket_def)

lemma ex_confirmed: "reachable_world (ex_world ex_s4 [ex_ticket 4] [ex_lease 3 ''x'' False 0])"
  using reach_step [OF ex_leased, OF ws_confirm, simplified, OF _ _ ex_confirm]
  by (simp add: ex_world_def put_lease_def)

lemma ex_shared:
  "reachable_world (ex_world ex_s5 [] [ex_lease 3 ''x'' False 0, ex_lease 4 ''y'' False 1])"
  using reach_step [OF ex_confirmed, OF ws_granted, of "ex_ticket 4", simplified, OF ex_wait(2)]
  by (simp add: ex_world_def drop_ticket_def)


text \<open>The first lease is sent.\<close>

definition ex_s6 :: sched where
  "ex_s6 = ex_s5\<lparr>sc_leases := [(3, 1), (4, 0)], sc_served := [(5, 1)]\<rparr>"

lemma ex_send: "begin_send (ex_lease 3 ''x'' False 0) ex_s5 = Inr ex_s6"
  by (simp add: begin_send_def begin_attempt_def check_key_def ex_s6_def ex_states ex_values
      serves_def accepts_def supports_def hcount_def)

lemma ex_sent:
  "reachable_world (ex_world ex_s6 [] [ex_lease 3 ''x'' False 0, ex_lease 4 ''y'' False 1])"
  using reach_step [OF ex_shared, OF ws_send, simplified, OF _ ex_send]
  by (simp add: ex_world_def)

end
