(* ===== verification/Sched_Theorems.thy ===== *)
theory Sched_Theorems
  imports Sched_Example
begin

section \<open>What the scheduler guarantees\<close>

text \<open>
  The properties of \<open>scheduling.rs\<close>, each with a concrete run to which it applies. Those
  about reachable worlds rest on \<open>reachable_ok\<close>, those about one reservation on the facts
  of \<open>Sched_Select\<close>.
\<close>

subsection \<open>Safety of the leases\<close>

lemma live_leases:
  assumes "reachable_world w"
  shows "leases_ok (wd_sched w) (wd_leases w)" and "bindings_ok (wd_sched w) (wd_leases w)"
    and "queues_ok (wd_sched w) (wd_tickets w)" and "maps_ok (wd_sched w)"
  using reachable_ok [OF assms] by (simp_all add: sched_ok_def)

text \<open>
  C1. Requests of one client thread are never in flight together: in every reachable world
  two live leases of the same session and the same thread are the same lease.
\<close>

theorem thread_exclusive:
  assumes "reachable_world w" and "l \<in> set (wd_leases w)" and "l' \<in> set (wd_leases w)"
    and "dl_session l = dl_session l'" and "dl_thread_id l = dl_thread_id l'"
  shows "l = l'"
  using lease_active [OF live_leases(1) [OF assms(1)] assms(2)]
    lease_active [OF live_leases(1) [OF assms(1)] assms(3)]
    lease_eq_by_id [OF live_leases(1) [OF assms(1)] assms(2,3)] assms(4,5)
  by simp

theorem thread_exclusive_witness:
  "dl_thread_id (ex_lease 3 ''x'' False 0) \<noteq> dl_thread_id (ex_lease 4 ''y'' False 1)"
proof
  assume "dl_thread_id (ex_lease 3 ''x'' False 0) = dl_thread_id (ex_lease 4 ''y'' False 1)"
  from thread_exclusive [OF ex_shared _ _ _ this]
  have "ex_lease 3 ''x'' False 0 = ex_lease 4 ''y'' False 1" by simp
  then have "dl_id (ex_lease 3 ''x'' False 0) = dl_id (ex_lease 4 ''y'' False 1)" by (rule arg_cong)
  then show False by simp
qed

text \<open>
  C2. The load counters are exact: in every reachable world an account's inflight count is
  the number of live leases on it, a session's activity has as many threads as the session
  has live leases, and the total is the number of live leases, so nothing leaks.
\<close>

theorem inflight_exact:
  assumes "reachable_world w"
  shows "hcount (sc_inflight (wd_sched w)) a = length (on_account (wd_leases w) a)
    \<and> session_load (wd_sched w) se = length (same_session (wd_leases w) se)
    \<and> total_inflight (wd_sched w) = length (wd_leases w)"
  using live_leases(1) [OF assms] by (simp_all add: leases_ok_def)

theorem inflight_exact_witness:
  "hcount (sc_inflight ex_s5) 5 = 2 \<and> session_load ex_s5 ex_session = 2 \<and> total_inflight ex_s5 = 2"
  using inflight_exact [OF ex_shared, of 5 ex_session]
  by (simp add: on_account_def same_session_def)

text \<open>
  C3. One generation per session: two different live leases of one session carry the same
  binding, the one stored for the session; a session is drained before it moves to another
  account or group.
\<close>

theorem one_generation:
  assumes "reachable_world w" and "l \<in> set (wd_leases w)" and "l' \<in> set (wd_leases w)"
    and "dl_session l = dl_session l'" and "l \<noteq> l'"
  shows "dl_binding l = dl_binding l'
    \<and> hget (sc_bindings (wd_sched w)) (dl_session l) = Some (dl_binding l)"
proof -
  have "{l, l'} \<subseteq> set (same_session (wd_leases w) (dl_session l))" using assms by auto
  then have "same_session (wd_leases w) (dl_session l) \<noteq> [x]" for x
    using assms(5) by (metis empty_set insert_subset list.simps(15) singletonD)
  moreover have "lease_bound (wd_sched w) (wd_leases w) l" "lease_bound (wd_sched w) (wd_leases w) l'"
    using live_leases(2) [OF assms(1)] assms(2,3) by (simp_all add: bindings_ok_def)
  ultimately show ?thesis
    using assms(4) by (auto simp: lease_bound_def split: if_splits)
qed

theorem one_generation_witness:
  "hget (sc_bindings ex_s5) ex_session = Some (dl_binding (ex_lease 4 ''y'' False 1))"
  using one_generation [OF ex_shared, of "ex_lease 4 ''y'' False 1" "ex_lease 3 ''x'' False 0"]
  by (simp add: ex_lease_def)

text \<open>
  Nothing is sent before its binding is settled: a lease with a recorded attempt no
  longer needs a commit, and either its binding is the session's stored one or it is the
  only lease of a session that has none (a stateless request).
\<close>

lemma send_needs_binding:
  assumes "reachable_world w" and "l \<in> set (wd_leases w)"
    and "hget (sc_leases (wd_sched w)) (dl_id l) = Some n" and "0 < n"
  shows "\<not> dl_needs_commit l \<and>
    (hget (sc_bindings (wd_sched w)) (dl_session l) = Some (dl_binding l)
     \<or> hget (sc_bindings (wd_sched w)) (dl_session l) = None
       \<and> same_session (wd_leases w) (dl_session l) = [l])"
proof -
  have "lease_bound (wd_sched w) (wd_leases w) l"
    using live_leases(2) [OF assms(1)] assms(2) by (simp add: bindings_ok_def)
  with assms(3,4) show ?thesis by (auto simp: lease_bound_def split: if_splits)
qed


lemma send_needs_binding_witness:
  "hget (sc_bindings ex_s6) ex_session = Some ex_binding"
  using send_needs_binding [OF ex_sent, of "ex_lease 3 ''x'' False 0" 1]
  by (simp add: ex_s6_def same_session_def)

text \<open>
  A lease pays for at most one send and one recovery: \<open>begin_send\<close> succeeds only on an
  unused lease and \<open>begin_encrypted_reasoning_recovery\<close> only after exactly one send; each
  is recorded and counted for the account, and once both are used neither succeeds again.
\<close>

lemma attempts_consumed:
  assumes "begin_attempt n l s = Inr s'"
  shows "hget (sc_leases s) (dl_id l) = Some n \<and> hget (sc_leases s') (dl_id l) = Some (n + 1)
    \<and> hcount (sc_served s') (acc_id (dl_account l)) = hcount (sc_served s) (acc_id (dl_account l)) + 1
    \<and> \<not> is_ok (begin_attempt n l s') \<and> (n = 1 \<longrightarrow> \<not> is_ok (begin_send l s'))"
proof -
  from assms have used: "hget (sc_leases s) (dl_id l) = Some n"
    and s': "s' = s\<lparr>sc_leases := hput (dl_id l) (n + 1) (sc_leases s),
                    sc_served := hput (acc_id (dl_account l))
                      (hcount (sc_served s) (acc_id (dl_account l)) + 1) (sc_served s)\<rparr>"
    by (auto simp: begin_attempt_def and_then_Inr_iff split: if_splits)
  from s' have next_use: "hget (sc_leases s') (dl_id l) = Some (n + 1)"
    and served: "hcount (sc_served s') (acc_id (dl_account l)) = hcount (sc_served s) (acc_id (dl_account l)) + 1"
    by simp_all
  from next_use have fails: "\<not> is_ok (begin_attempt m l s')" if "m \<noteq> n + 1" for m
    using that by (auto simp: begin_attempt_def is_ok_iff and_then_Inr_iff split: if_splits)
  show ?thesis using used next_use served fails [of n] fails [of 0] by (simp add: begin_send_def)
qed

lemma attempts_consumed_witness:
  "hget (sc_leases ex_s6) 3 = Some 1 \<and> \<not> is_ok (begin_attempt 0 (ex_lease 3 ''x'' False 0) ex_s6)"
  using attempts_consumed [of 0 "ex_lease 3 ''x'' False 0" ex_s5 ex_s6] ex_send
  by (simp add: begin_send_def)

text \<open>
  What is sent is still allowed: whenever an attempt is taken, dispatch is not paused,
  the key is enabled, not being updated and still in the lease's group, and the account is
  enabled, not blocked, in the group and serves the model and the client's source.
\<close>

lemma attempt_revalidates:
  assumes "begin_attempt n l s = Inr s'"
  shows "\<not> sc_paused s \<and> sk_key_id (dl_session l) \<notin> sc_blocked_keys s
    \<and> (\<exists>k. hget (sc_keys s) (sk_key_id (dl_session l)) = Some k \<and> gk_enabled k
          \<and> gk_group_id k = dl_group_id l)
    \<and> acc_id (dl_account l) \<notin> sc_blocked s
    \<and> (\<exists>a. hget (sc_accounts s) (acc_id (dl_account l)) = Some a
          \<and> serves (dl_group_id l) (dl_source l) (dl_model l) a)
    \<and> \<not> dl_needs_commit l"
  using assms
  by (auto simp: begin_attempt_def check_key_def and_then_Inr_iff
      split: if_splits option.splits)

lemma attempt_revalidates_witness:
  "\<not> sc_paused ex_s5 \<and> 5 \<notin> sc_blocked ex_s5"
  using attempt_revalidates [of 0 "ex_lease 3 ''x'' False 0" ex_s5 ex_s6] ex_send
  by (simp add: begin_send_def)


subsection \<open>One reservation\<close>

text \<open>
  Limits hold at every grant: in a reachable world a reservation is given only if the
  live leases are below the global limit, those of the session below the session limit, and
  the account's below its own, so afterwards none of the three is exceeded.
\<close>

lemma grant_within_limits:
  assumes "reachable_world w"
    and "try_reserve (wd_cfg w) now ni nn i (wd_sched w) = Inr (Some l, s')"
  shows "length (wd_leases w) < rs_global_max_inflight (wd_cfg w)
    \<and> length (on_account (wd_leases w) (acc_id (dl_account l))) < acc_max_inflight (dl_account l)
    \<and> (same_session (wd_leases w) (dl_session l) \<noteq> [] \<longrightarrow>
         length (same_session (wd_leases w) (dl_session l)) < rs_session_max_inflight (wd_cfg w))
    \<and> total_inflight s' = length (wd_leases w) + 1"
proof -
  have lo: "leases_ok (wd_sched w) (wd_leases w)" by (rule live_leases(1) [OF assms(1)])
  from assms(2) obtain se wt pos a where
    g: "total_inflight (wd_sched w) < rs_global_max_inflight (wd_cfg w)"
      "select_next (wd_cfg w) now (wd_sched w) = Some (se, wt, pos, a)"
      "s' = grant se wt pos a (wd_sched w)" and l: "dl_account l = a" "dl_session l = se"
    by (rule try_reserve_SomeE) simp
  note sel = select_next_Some(2) [OF g(2)]
  have "has_capacity (wd_sched w) a"
    by (rule choose_account_Some(1) [OF candidate_Some(5) [OF select_session_Some(4) [OF sel]]])
  moreover have "session_load (wd_sched w) se < rs_session_max_inflight (wd_cfg w)"
    if "hget (sc_active (wd_sched w)) se \<noteq> None"
    using select_session_Some(2) [OF sel] that by (auto simp: session_closed_def session_load_def)
  moreover have "total_inflight s' = total_inflight (wd_sched w) + 1"
    using lo total_hput_Suc [of "sc_inflight (wd_sched w)" "acc_id a"]
    by (simp add: g(3) grant_def Let_def total_inflight_def leases_ok_def)
  ultimately show ?thesis
    using lo g(1) l session_idle [OF lo, of se] by (auto simp: has_capacity_def leases_ok_def)
qed

lemma grant_within_limits_witness:
  "length [ex_lease 3 ''x'' False 0] < rs_session_max_inflight settings_default
   \<and> total_inflight ex_s5 = 2"
  using grant_within_limits [OF ex_confirmed, of 1 50 51 4] ex_try_reserve(2)
  by (simp add: same_session_def)

text \<open>
  C17. A granted account serves the request: it is a current account of the key's group,
  enabled, not blocked, and serves the model and the client's source; dispatch is not
  paused and the waiter has not timed out.
\<close>

theorem grant_is_eligible:
  assumes "reachable_world w"
    and "try_reserve (wd_cfg w) now ni nn i (wd_sched w) = Inr (Some l, s')"
  shows "hget (sc_accounts (wd_sched w)) (acc_id (dl_account l)) = Some (dl_account l)
    \<and> serves (dl_group_id l) (dl_source l) (dl_model l) (dl_account l)
    \<and> acc_id (dl_account l) \<notin> sc_blocked (wd_sched w)
    \<and> \<not> sc_paused (wd_sched w)
    \<and> (\<exists>wt\<in>set (queue_of (wd_sched w) (dl_session l)). w_id wt = i \<and> \<not> timed_out (wd_cfg w) now wt)"
proof -
  have mo: "maps_ok (wd_sched w)" by (rule live_leases(4) [OF assms(1)])
  from assms(2) obtain se wt pos a where
    g: "\<not> sc_paused (wd_sched w)" "select_next (wd_cfg w) now (wd_sched w) = Some (se, wt, pos, a)"
      "w_id wt = i"
    and l: "dl_account l = a" "dl_session l = se" "dl_group_id l = w_group_id wt"
      "dl_source l = w_source wt" "dl_model l = w_model wt"
    by (rule try_reserve_SomeE) simp
  note sel = select_next_Some(2) [OF g(2)]
  note cand = select_session_Some(4) [OF sel]
  note ch = choose_account_Some [OF candidate_Some(5) [OF cand]]
  from select_session_Some(3) [OF sel] have "wt \<in> set (queue_of (wd_sched w) se)"
    by (auto simp: queue_of_eq)
  moreover from ch(3) mo have "hget (sc_accounts (wd_sched w)) (acc_id a) = Some a"
    by (auto simp: maps_ok_def hvals_iff simp del: set_map)
  moreover have "acc_id a \<notin> sc_blocked (wd_sched w)"
    using not_blocked_when_granted [OF cand] mo by (simp add: maps_ok_def)
  ultimately show ?thesis
    using g l ch(2) candidate_Some(3) [OF cand] by auto
qed

theorem grant_is_eligible_witness:
  "serves 7 Codex ex_model (ex_account 5)"
  using grant_is_eligible [OF ex_confirmed, of 1 50 51 4] ex_try_reserve(2)
  by (simp add: ex_lease_def)


text \<open>
  First in, first out within a thread: the dispatched waiter is the first of its thread
  in its session's queue, and only it leaves the queue.
\<close>

lemma grant_fifo:
  assumes "try_reserve cfg now ni nn i s = Inr (Some l, s')"
  shows "\<exists>us wt vs. queue_of s (dl_session l) = us @ wt # vs \<and> w_id wt = i
    \<and> w_thread_id wt = dl_thread_id l
    \<and> (\<forall>u\<in>set us. w_thread_id u \<noteq> dl_thread_id l)
    \<and> queue_of s' (dl_session l) = us @ vs
    \<and> (\<forall>se. se \<noteq> dl_session l \<longrightarrow> queue_of s' se = queue_of s se)"
proof -
  from assms obtain se wt pos a where
    g: "select_next cfg now s = Some (se, wt, pos, a)" "w_id wt = i" "s' = grant se wt pos a s"
    and l: "dl_session l = se" "dl_thread_id l = w_thread_id wt"
    by (rule try_reserve_SomeE) simp
  from select_session_Some(3) [OF select_next_Some(2) [OF g(1)]] obtain q where
    q: "hget (sc_queues s) se = Some q" "pos < length q" "q ! pos = wt"
      "\<forall>j<pos. w_thread_id (q ! j) \<noteq> w_thread_id wt" by blast
  have "q = take pos q @ wt # drop (Suc pos) q" using q(2,3) id_take_nth_drop by blast
  moreover have "\<forall>u\<in>set (take pos q). w_thread_id u \<noteq> w_thread_id wt"
    using q(2,4) by (auto simp: in_set_conv_nth)
  moreover have "queue_of s' se' = (if se' = se then remove_at pos q else queue_of s se')" for se'
    using q(1) by (simp add: g(3) grant_def Let_def queue_of_def)
  ultimately show ?thesis
    using g(2) l q(1)
    by (intro exI [of _ "take pos q"] exI [of _ wt] exI [of _ "drop (Suc pos) q"])
      (simp add: queue_of_def remove_at_def)
qed

lemma grant_fifo_witness:
  "queue_of ex_s3 ex_session = [ex_waiter 4 ''y'']"
  using grant_fifo [OF ex_try_reserve(1)]
  by (auto simp: ex_s2_def queue_of_def Cons_eq_append_conv)

text \<open>
  Affinity: when the account of the session's stored binding can serve the request,
  the request goes to that account; with the group unchanged it reuses the stored binding
  and needs no commit.
\<close>

lemma grant_affinity:
  assumes "reachable_world w"
    and "try_reserve (wd_cfg w) now ni nn i (wd_sched w) = Inr (Some l, s')"
    and "hget (sc_bindings (wd_sched w)) (dl_session l) = Some b"
    and "hget (sc_accounts (wd_sched w)) (bd_account_id b) = Some a"
    and "serves (dl_group_id l) (dl_source l) (dl_model l) a"
  shows "dl_account l = a
    \<and> (bd_group_id b = dl_group_id l \<longrightarrow> dl_binding l = b \<and> \<not> dl_needs_commit l)"
proof -
  let ?s = "wd_sched w"
  from assms(2) obtain se wt pos x where
    g: "select_next (wd_cfg w) now ?s = Some (se, wt, pos, x)"
    and l: "dl_account l = x" "dl_session l = se" "dl_group_id l = w_group_id wt"
      "dl_source l = w_source wt" "dl_model l = w_model wt"
      "dl_binding l = granted_binding ni nn ?s se wt x" "dl_needs_commit l = migrates ?s se wt x"
    by (rule try_reserve_SomeE) simp
  have "bound_account ?s se wt = Some a"
    using assms(3-5) l by (simp add: bound_account_Some)
  with candidate_Some(5) [OF select_session_Some(4) [OF select_next_Some(2) [OF g]]] have "x = a"
    by (simp add: choose_account_def split: if_splits)
  moreover have "bd_account_id b = acc_id a"
    using live_leases(4) [OF assms(1)] assms(4) by (simp add: maps_ok_def)
  ultimately show ?thesis
    using l assms(3) by (auto simp: migrates_def granted_binding_def same_binding_def Let_def)
qed

lemma grant_affinity_witness:
  "dl_binding (ex_lease 4 ''y'' False 1) = ex_binding"
  using grant_affinity [OF ex_confirmed, of 1 50 51 4 "ex_lease 4 ''y'' False 1" ex_s5 ex_binding "ex_account 5"]
    ex_try_reserve(2)
  by (simp add: ex_states ex_values serves_def accepts_def supports_def)

text \<open>
  Placement: when no stored binding's account can serve the request, it goes to a
  least loaded account among those that can serve it with spare capacity (fewest in flight,
  then fewest served, then least id), under a new binding of the next generation.
\<close>

lemma grant_least_loaded:
  assumes "reachable_world w"
    and "try_reserve (wd_cfg w) now ni nn i (wd_sched w) = Inr (Some l, s')"
    and "\<forall>b a. hget (sc_bindings (wd_sched w)) (dl_session l) = Some b \<longrightarrow>
      hget (sc_accounts (wd_sched w)) (bd_account_id b) = Some a \<longrightarrow>
      \<not> serves (dl_group_id l) (dl_source l) (dl_model l) a"
  shows "(\<forall>a\<in>set (hvals (sc_accounts (wd_sched w))).
      serves (dl_group_id l) (dl_source l) (dl_model l) a \<longrightarrow> acc_id a \<notin> sc_blocked (wd_sched w) \<longrightarrow>
      hcount (sc_inflight (wd_sched w)) (acc_id a) < acc_max_inflight a \<longrightarrow>
      load_key (wd_sched w) (dl_account l) \<le> load_key (wd_sched w) a)
    \<and> dl_needs_commit l
    \<and> bd_generation (dl_binding l) = generation_of (wd_sched w) (dl_session l) + 1"
proof -
  let ?s = "wd_sched w"
  have mo: "maps_ok ?s" by (rule live_leases(4) [OF assms(1)])
  from assms(2) obtain se wt pos x where
    g: "select_next (wd_cfg w) now ?s = Some (se, wt, pos, x)"
    and l: "dl_account l = x" "dl_session l = se" "dl_group_id l = w_group_id wt"
      "dl_source l = w_source wt" "dl_model l = w_model wt"
      "dl_binding l = granted_binding ni nn ?s se wt x" "dl_needs_commit l = migrates ?s se wt x"
    by (rule try_reserve_SomeE) simp
  note choice = candidate_Some(5) [OF select_session_Some(4) [OF select_next_Some(2) [OF g]]]
  have "bound_account ?s se wt = None"
    using assms(3) l by (auto simp: bound_account_def split: option.splits)
  with choice have x: "min_by_key (load_key ?s) (free_accounts ?s wt) = Some x"
    by (simp add: choose_account_def)
  have "migrates ?s se wt x"
  proof (rule ccontr)
    assume "\<not> migrates ?s se wt x"
    then obtain b where b: "hget (sc_bindings ?s) se = Some b" "bd_account_id b = acc_id x"
      by (auto simp: migrates_def same_binding_def split: option.splits)
    from choose_account_Some(3) [OF choice] mo have "hget (sc_accounts ?s) (acc_id x) = Some x"
      by (auto simp: maps_ok_def hvals_iff simp del: set_map)
    with b assms(3) l choose_account_Some(2) [OF choice] show False by auto
  qed
  then show ?thesis
    using min_by_key_Some [OF x] granted_binding_facts(5) [OF mo] l
    by (auto simp: free_accounts_def has_capacity_def)
qed

lemma grant_least_loaded_witness:
  "load_key ex_s2 (ex_account 5) \<le> load_key ex_s2 (ex_account 6) \<and> bd_generation ex_binding = 1"
  using grant_least_loaded [OF ex_queued, of 1 50 51 3 "ex_lease 3 ''x'' True 0" ex_s3] ex_try_reserve(1)
  by (simp add: ex_states ex_values serves_def accepts_def supports_def hcount_def load_key_def)


text \<open>
  Sessions rotate: a reservation goes to the first session in rotation order that has
  a dispatchable waiter; afterwards that session is last, or out of the rotation if nothing
  of it waits, and the other sessions keep their order, so a waiting session is overtaken
  at most once by each other session before its turn.
\<close>

lemma grant_rotates:
  assumes "try_reserve cfg now ni nn i s = Inr (Some l, s')" and "distinct (sc_order s)"
  shows "\<exists>us vs. sc_order s = us @ dl_session l # vs
    \<and> (\<forall>u\<in>set us. select_session cfg now s u = None)
    \<and> sc_order s' = us @ vs @ (if queue_of s' (dl_session l) = [] then [] else [dl_session l])"
proof -
  from assms obtain se wt pos a where
    g: "select_next cfg now s = Some (se, wt, pos, a)" "s' = grant se wt pos a s" "dl_session l = se"
    by (elim try_reserve_SomeE) simp
  from select_next_Some(1) [OF g(1)] obtain us vs where
    o: "sc_order s = us @ se # vs" "\<forall>u\<in>set us. select_session cfg now s u = None" by blast
  with assms(2) have "removeAll se (sc_order s) = us @ vs" by (simp add: removeAll_id)
  moreover have "queue_of s' se = [] \<longleftrightarrow> remove_at pos (queue_of s se) = []"
    by (simp add: g(2) grant_def Let_def queue_of_def)
  ultimately show ?thesis
    using o g(3) by (intro exI [of _ us] exI [of _ vs]) (simp add: g(2) grant_def Let_def)
qed

lemma grant_rotates_witness:
  "sc_order ex_s3 = [ex_session]"
  using grant_rotates [OF ex_try_reserve(1)]
  by (auto simp: ex_states queue_of_def Cons_eq_append_conv)

text \<open>
  C18. Progress: if dispatch is not paused, the global limit is not reached and some session
  that may take another lease has a dispatchable waiter that is the first of its thread,
  then some live ticket's next round returns a lease; no dispatchable request is stuck.
\<close>

lemma find_waiter_unique:
  assumes q: "queues_ok s ts" and w: "w \<in> set (queue_of s se)"
  shows "find_waiter s (w_id w) = Some (se, w)"
proof -
  have hit: "\<exists>v. find (\<lambda>v. w_id v = w_id w) q = Some v \<Longrightarrow> hget (sc_queues s) se' = Some q
      \<Longrightarrow> se' = se \<and> find (\<lambda>v. w_id v = w_id w) q = Some w" for se' q
    using waiter_session_unique [OF q w, of _ se']
    by (auto simp: find_Some_iff queue_of_eq) (metis nth_mem)+
  have "find_waiter s (w_id w) \<noteq> None"
  proof -
    obtain qu where qu: "hget (sc_queues s) se = Some qu" "w \<in> set qu"
      using w by (cases "hget (sc_queues s) se") (auto simp: queue_of_def)
    then have "(se, qu) \<in> set (sc_queues s)" "find (\<lambda>v. w_id v = w_id w) qu \<noteq> None"
      by (auto dest: map_of_SomeD simp: find_None_iff)
    then show ?thesis unfolding find_waiter_def find_map_None_iff
      by (metis (mono_tags, lifting) case_prod_conv map_option_is_None)
  qed
  moreover have "(x, v) = (se, w)" if f: "find_waiter s (w_id w) = Some (x, v)" for x v
  proof -
    from find_map_mem [OF f [unfolded find_waiter_def]] obtain p where
      p: "p \<in> set (sc_queues s)"
        "(case p of (session, q) \<Rightarrow> map_option (Pair session) (find (\<lambda>v. w_id v = w_id w) q)) = Some (x, v)"
      by blast
    obtain y qu where "p = (y, qu)" by (cases p)
    with p have "(x, qu) \<in> set (sc_queues s)" "find (\<lambda>v. w_id v = w_id w) qu = Some v"
      by auto
    moreover from this(1) have "hget (sc_queues s) x = Some qu"
      using q by (simp add: queues_ok_def hget_mem_iff)
    ultimately show ?thesis using hit [of qu x] by auto
  qed
  ultimately show ?thesis by (metis not_None_eq surj_pair)
qed

theorem dispatch_progress:
  assumes "reachable_world w" and "\<not> sc_paused (wd_sched w)"
    and "length (wd_leases w) < rs_global_max_inflight (wd_cfg w)"
    and "\<not> session_closed (wd_cfg w) (wd_sched w) se"
    and "queue_of (wd_sched w) se = us @ wt # vs"
    and "\<forall>u\<in>set us. w_thread_id u \<noteq> w_thread_id wt"
    and "candidate (wd_cfg w) now (wd_sched w) se wt \<noteq> None"
  shows "\<exists>t\<in>set (wd_tickets w). \<exists>l s'.
    wait_round (wd_cfg w) now False ni nn t (wd_sched w) = (Inr (Some l), s')"
proof -
  let ?s = "wd_sched w" and ?cfg = "wd_cfg w"
  note q = live_leases(3) [OF assms(1)]
  have hq: "hget (sc_queues ?s) se = Some (us @ wt # vs)"
    using assms(5) by (auto simp: queue_of_def split: option.splits)
  with q have "se \<in> set (sc_order ?s)" by (simp add: queues_ok_def)
  moreover have "scan_queue (candidate ?cfg now ?s se) [] 0 (us @ wt # vs) \<noteq> None"
    using scan_queue_None [of "candidate ?cfg now ?s se" "[]" 0 "us @ wt # vs" "length us"] assms(6,7)
    by (fastforce simp: nth_append)
  then have "select_session ?cfg now ?s se \<noteq> None"
    using assms(4) hq by (simp add: select_session_def)
  ultimately have "select_next ?cfg now ?s \<noteq> None" unfolding select_next_def find_map_None_iff by metis
  then obtain x v pos a where sel: "select_next ?cfg now ?s = Some (x, v, pos, a)" by auto
  note ss = select_next_Some(2) [OF sel]
  note cand = candidate_Some [OF select_session_Some(4) [OF ss]]
  from select_session_Some(3) [OF ss] have v: "v \<in> set (queue_of ?s x)" by (auto simp: queue_of_eq)
  from waiter_ticket [OF q v] obtain t where
    t: "t \<in> set (wd_tickets w)" "qt_id t = w_id v" "qt_since t = w_since v" by blast
  have "total_inflight ?s < rs_global_max_inflight ?cfg"
    using live_leases(1) [OF assms(1)] assms(3) by (simp add: leases_ok_def)
  then obtain l s' where "try_reserve ?cfg now ni nn (qt_id t) ?s = Inr (Some l, s')"
    using assms(2) find_waiter_unique [OF q v] cand(2) sel t(2) by (simp add: try_reserve_def)
  moreover have "\<not> qt_since t + rs_queue_timeout_ms ?cfg * 1000000 \<le> now"
    using cand(3) t(3) by (simp add: timed_out_def)
  ultimately have "wait_round ?cfg now False ni nn t ?s =
      (Inr (Some l), remove_waiter (qt_id t) (qt_session t) s')"
    by (simp add: wait_round_def)
  with t(1) show ?thesis by blast
qed

theorem dispatch_progress_witness:
  "\<exists>t\<in>set [ex_ticket 4]. \<exists>l s'. wait_round settings_default 1 False 50 51 t ex_s4 = (Inr (Some l), s')"
proof -
  have "candidate settings_default 1 ex_s4 ex_session (ex_waiter 4 ''y'') \<noteq> None"
    using select_session_Some(4) [OF select_next_Some(2) [OF ex_select(2)]] by simp
  moreover have "\<not> session_closed settings_default ex_s4 ex_session"
    using select_session_Some(2) [OF select_next_Some(2) [OF ex_select(2)]] .
  moreover have "queue_of ex_s4 ex_session = [] @ ex_waiter 4 ''y'' # []"
    by (simp add: ex_states queue_of_def)
  ultimately show ?thesis
    using dispatch_progress [OF ex_confirmed, of ex_session "[]" "ex_waiter 4 ''y''" "[]" 1 50 51]
      ex_parts(2) by (simp add: settings_default_def)
qed


subsection \<open>Queueing\<close>

text \<open>
  Admission: for an eligible request the queue accepts exactly while it holds fewer
  waiters than its capacity; the waiter is appended behind those of its session, and a full
  queue answers 429 and changes nothing.
\<close>

lemma enqueue_admits:
  assumes "\<not> sc_paused s"
    and "check_eligibility s (tk_session thread) gid model source = Inr ()"
  shows "(if queued_total s < rs_queue_capacity cfg
     then \<exists>s' v. enqueue cfg i thread gid model source since s
          = Inr (\<lparr>qt_id = i, qt_session = tk_session thread, qt_since = since\<rparr>, s')
        \<and> queue_of s' (tk_session thread) = queue_of s (tk_session thread) @ [v]
        \<and> w_id v = i \<and> w_thread_id v = tk_client_thread_id thread
        \<and> (\<forall>se. se \<noteq> tk_session thread \<longrightarrow> queue_of s' se = queue_of s se)
        \<and> sc_order s' = (if hget (sc_queues s) (tk_session thread) = None
             then sc_order s @ [tk_session thread] else sc_order s)
     else enqueue cfg i thread gid model source since s = Inl err_queue_full)"
  using assms by (auto simp: enqueue_def Let_def queue_of_def split: option.splits)

lemma enqueue_admits_witness:
  "\<exists>s'. enqueue settings_default 3 \<lparr>tk_session = ex_session, tk_client_thread_id = ''x''\<rparr> 7
      ex_model Codex 0 ex_s0 = Inr (ex_ticket 3, s')"
proof -
  have "queued_total ex_s0 < rs_queue_capacity settings_default" "\<not> sc_paused ex_s0"
    by (simp_all add: queued_total_def ex_states settings_default_def)
  with enqueue_admits [of ex_s0 "\<lparr>tk_session = ex_session, tk_client_thread_id = ''x''\<rparr>" 7
      ex_model Codex settings_default 3 0] ex_eligible [of ex_s0]
  show ?thesis by (auto simp: ex_ticket_def simp del: map_map)
qed

text \<open>
  Queue statistics are the truth: in every reachable world the reported requests are
  exactly the live tickets, each once, and the reported inflight count is the number of
  live leases.
\<close>

lemma stats_requests_ids:
  "map qr_request_id (qs_requests (sched_stats cfg now s)) =
     concat (map (\<lambda>se. map w_id (queue_of s se)) (sc_order s))"
  by (simp add: sched_stats_def Let_def session_requests_def map_concat comp_def)

lemma queued_ids:
  assumes q: "queues_ok s ts"
  shows "set (concat (map (\<lambda>se. map w_id (queue_of s se)) (sc_order s))) = qt_id ` set ts"
    and "distinct (concat (map (\<lambda>se. map w_id (queue_of s se)) (sc_order s)))"
proof -
  have mem: "se \<in> set (sc_order s)" if "w \<in> set (queue_of s se)" for w se
    using q that by (cases "hget (sc_queues s) se") (auto simp: queues_ok_def queue_of_def)
  show "set (concat (map (\<lambda>se. map w_id (queue_of s se)) (sc_order s))) = qt_id ` set ts" (is "?l = ?r")
  proof
    show "?l \<subseteq> ?r"
    proof
      fix i assume "i \<in> ?l"
      then obtain se w where "w \<in> set (queue_of s se)" "w_id w = i" by auto
      with waiter_ticket [OF q] show "i \<in> ?r" by (metis image_eqI)
    qed
    show "?r \<subseteq> ?l"
    proof
      fix i assume "i \<in> ?r"
      then obtain t where "t \<in> set ts" "qt_id t = i" by auto
      with ticket_waiter [OF q] obtain w where
        "w \<in> set (queue_of s (qt_session t))" "w_id w = i" by metis
      with mem show "i \<in> ?l" by auto
    qed
  qed
  show "distinct (concat (map (\<lambda>se. map w_id (queue_of s se)) (sc_order s)))"
  proof (rule distinct_concat_map)
    show "distinct (sc_order s)" "\<forall>se\<in>set (sc_order s). distinct (map w_id (queue_of s se))"
      using q by (simp_all add: queues_ok_def)
    show "\<forall>x\<in>set (sc_order s). \<forall>y\<in>set (sc_order s). x \<noteq> y \<longrightarrow>
        set (map w_id (queue_of s x)) \<inter> set (map w_id (queue_of s y)) = {}"
      using waiter_session_unique(1) [OF q] by fastforce
  qed
qed

lemma stats_truthful:
  assumes "reachable_world w"
  shows "distinct (map qr_request_id (qs_requests (sched_stats cfg now (wd_sched w))))
    \<and> qr_request_id ` set (qs_requests (sched_stats cfg now (wd_sched w))) = qt_id ` set (wd_tickets w)
    \<and> qs_queued (sched_stats cfg now (wd_sched w)) = length (wd_tickets w)
    \<and> qs_inflight (sched_stats cfg now (wd_sched w)) = length (wd_leases w)"
proof -
  let ?rs = "qs_requests (sched_stats cfg now (wd_sched w))"
  note q = live_leases(3) [OF assms]
  have d: "distinct (map qr_request_id ?rs)"
    unfolding stats_requests_ids by (rule queued_ids(2) [OF q])
  have s: "set (map qr_request_id ?rs) = qt_id ` set (wd_tickets w)"
    unfolding stats_requests_ids by (rule queued_ids(1) [OF q])
  have "distinct (map qt_id (wd_tickets w))" using q by (simp add: queues_ok_def)
  then have "length (map qr_request_id ?rs) = length (map qt_id (wd_tickets w))"
    using d s by (metis distinct_card set_map)
  then have "length ?rs = length (wd_tickets w)" by simp
  moreover have "qs_queued (sched_stats cfg now (wd_sched w)) = length ?rs"
    by (simp add: sched_stats_def Let_def)
  moreover have "qs_inflight (sched_stats cfg now (wd_sched w)) = length (wd_leases w)"
    using live_leases(1) [OF assms] by (simp add: sched_stats_def Let_def leases_ok_def)
  ultimately show ?thesis using d s by simp
qed

lemma stats_truthful_witness:
  "qs_queued (sched_stats settings_default 1 ex_s4) = 1
   \<and> qs_inflight (sched_stats settings_default 1 ex_s4) = 1"
  using stats_truthful [OF ex_confirmed, of settings_default 1] by simp


text \<open>
  The end of a wait: a round at or past the ticket's deadline fails with 429
  \<open>queue_timeout\<close>, before it a cancelled one fails with 499, and after any failure no
  waiter of the ticket is left in its queue.
\<close>

lemma wait_ends:
  "(qt_since t + rs_queue_timeout_ms cfg * 1000000 \<le> now \<longrightarrow>
      fst (wait_round cfg now c ni nn t s) = Inl err_queue_timeout)
   \<and> (\<not> qt_since t + rs_queue_timeout_ms cfg * 1000000 \<le> now \<and> c \<longrightarrow>
      fst (wait_round cfg now c ni nn t s) = Inl err_cancelled)
   \<and> (\<not> is_ok (fst (wait_round cfg now c ni nn t s)) \<longrightarrow>
      (\<forall>v\<in>set (queue_of (snd (wait_round cfg now c ni nn t s)) (qt_session t)). w_id v \<noteq> qt_id t))"
proof -
  have gone: "\<forall>v\<in>set (queue_of (remove_waiter (qt_id t) (qt_session t) x) (qt_session t)). w_id v \<noteq> qt_id t" for x
    by (auto simp: remove_waiter_def queue_of_def Let_def split: option.splits)
  show ?thesis
    using gone by (auto simp: wait_round_def Let_def split: sum.splits option.splits prod.splits)
qed

lemma wait_ends_witness:
  "fst (wait_round settings_default 300000000000 False 50 51 (ex_ticket 4) ex_s4) = Inl err_queue_timeout"
  using wait_ends [of "ex_ticket 4" settings_default 300000000000 False 50 51 ex_s4]
  by (simp add: settings_default_def ex_ticket_def)

text \<open>
  A deleted account never comes back: once removed it is in no reachable world a
  current account again, whatever late updates arrive, so nothing is granted to it.
\<close>

definition deleted_ok :: "world \<Rightarrow> bool" where
  "deleted_ok w \<longleftrightarrow>
     (\<forall>i\<in>sc_deleted_accounts (wd_sched w). hget (sc_accounts (wd_sched w)) i = None)
     \<and> (\<forall>i\<in>sc_deleted_keys (wd_sched w). hget (sc_keys (wd_sched w)) i = None)"

lemma same_registry:
  "sc_accounts (remove_waiter i se s) = sc_accounts s" "sc_keys (remove_waiter i se s) = sc_keys s"
  "sc_deleted_accounts (remove_waiter i se s) = sc_deleted_accounts s"
  "sc_deleted_keys (remove_waiter i se s) = sc_deleted_keys s"
  "sc_accounts (clear_pending l s) = sc_accounts s" "sc_keys (clear_pending l s) = sc_keys s"
  "sc_deleted_accounts (clear_pending l s) = sc_deleted_accounts s"
  "sc_deleted_keys (clear_pending l s) = sc_deleted_keys s"
  by (auto simp: remove_waiter_def clear_pending_def Let_def split: option.splits)

lemma same_registry_wait:
  "wait_round cfg now c ni nn t s = (r, s') \<Longrightarrow>
     sc_accounts s' = sc_accounts s \<and> sc_keys s' = sc_keys s
     \<and> sc_deleted_accounts s' = sc_deleted_accounts s \<and> sc_deleted_keys s' = sc_deleted_keys s"
  by (auto simp: wait_round_def Let_def try_reserve_def grant_def and_then_def same_registry
      split: if_splits sum.splits option.splits prod.splits)

lemma deleted_step: "wstep w w' \<Longrightarrow> deleted_ok w \<Longrightarrow>
     deleted_ok w' \<and> sc_deleted_accounts (wd_sched w) \<subseteq> sc_deleted_accounts (wd_sched w')"
proof (induction rule: wstep.induct)
  case (ws_enqueue w i thread gid model source since t s')
  then show ?case
    by (auto simp: deleted_ok_def enqueue_def Let_def and_then_Inr_iff split: if_splits)
next
  case (ws_stateless l w l' s')
  then show ?case by (auto simp: deleted_ok_def confirm_stateless_def same_registry split: if_splits)
next
  case (ws_confirm l w l' s')
  then show ?case by (auto simp: deleted_ok_def confirm_binding_def same_registry)
next
  case (ws_send l w s')
  then show ?case
    by (auto simp: deleted_ok_def begin_send_def begin_attempt_def and_then_Inr_iff split: if_splits)
next
  case (ws_recover l w s')
  then show ?case
    by (auto simp: deleted_ok_def begin_encrypted_reasoning_recovery_def begin_attempt_def
        and_then_Inr_iff split: if_splits)
next
  case (ws_admin w s')
  from ws_admin(1) show ?case
    by cases (use ws_admin(2) in \<open>auto simp: deleted_ok_def update_account_def update_key_def
        remove_account_def remove_key_def block_key_def block_account_def set_paused_def\<close>)
qed (auto simp: deleted_ok_def same_registry lease_drop_def dest!: same_registry_wait)

interpretation deleted: invariant_system winit wstep deleted_ok
proof
  show "deleted_ok w" if "winit w" for w
    using that by cases (simp add: deleted_ok_def sched_new_def)
  show "deleted_ok w'" if "deleted_ok w" "wstep w w'" for w w'
    using deleted_step that by blast
qed

lemma deleted_account_gone:
  assumes "reachable_world w" and "i \<in> sc_deleted_accounts (wd_sched w)"
    and "wstep\<^sup>*\<^sup>* w w'"
  shows "hget (sc_accounts (wd_sched w')) i = None \<and> i \<in> sc_deleted_accounts (wd_sched w')"
proof -
  have "deleted_ok w' \<and> i \<in> sc_deleted_accounts (wd_sched w')"
    using assms(3)
  proof (induction rule: rtranclp_induct)
    case base
    then show ?case using deleted.reach_inv [OF assms(1)] assms(2) by simp
  next
    case (step y z)
    then show ?case using deleted_step by blast
  qed
  then show ?thesis by (simp add: deleted_ok_def)
qed

lemma deleted_account_gone_witness:
  "hget (sc_accounts (update_account (ex_account 5) (remove_account 5 ex_s0))) 5 = None"
proof -
  let ?w = "ex_world (remove_account 5 ex_s0) [] []"
  have r: "reachable_world ?w"
    using reach_step [OF ex_start, OF ws_admin, simplified, OF as_remove_account]
    by (simp add: ex_world_def)
  have "wstep ?w (?w\<lparr>wd_sched := update_account (ex_account 5) (remove_account 5 ex_s0)\<rparr>)"
    by (rule ws_admin) (simp add: as_update_account)
  then have "wstep\<^sup>*\<^sup>* ?w (?w\<lparr>wd_sched := update_account (ex_account 5) (remove_account 5 ex_s0)\<rparr>)"
    by (rule r_into_rtranclp)
  from deleted_account_gone [OF r _ this, of 5] show ?thesis by (simp add: remove_account_def)
qed

text \<open>
  The dispatch decision does not depend on the unspecified iteration order of the
  account map: any reordering of it selects the same session, waiter and account.
\<close>

lemma selection_deterministic:
  assumes "reachable_world w" and "mset m = mset (sc_accounts (wd_sched w))"
  shows "select_next cfg now ((wd_sched w)\<lparr>sc_accounts := m\<rparr>) = select_next cfg now (wd_sched w)"
proof -
  let ?s = "wd_sched w" and ?t = "(wd_sched w)\<lparr>sc_accounts := m\<rparr>"
  have mo: "maps_ok ?s" by (rule live_leases(4) [OF assms(1)])
  have st: "set m = set (sc_accounts ?s)" using assms(2) by (rule mset_eq_setD)
  have "mset (map fst m) = mset (map fst (sc_accounts ?s))" using assms(2) by (metis mset_map)
  then have "hwf m" using mo unfolding hwf_def maps_ok_def by (metis mset_eq_imp_distinct_iff)
  then have look: "hget m = hget (sc_accounts ?s)"
    using mo st by (metis ext hget_mem_iff maps_ok_def option.exhaust)
  have vals: "set (hvals m) = set (hvals (sc_accounts ?s))" using st by simp
  have elig: "check_eligibility ?t se gid md src = check_eligibility ?s se gid md src" for se gid md src
    by (simp add: check_eligibility_def check_key_def check_pool_def eligible_def look vals st
        cong: option.case_cong if_cong)
  have inj: "inj_on (load_key ?s) (set (free_accounts ?s v))" for v
    using mo by (auto simp: inj_on_def load_key_def free_accounts_def maps_ok_def hget_mem_iff)
      (metis hget_mem_iff option.inject)
  have "set (free_accounts ?t v) = set (free_accounts ?s v)" for v
    using vals by (auto simp: free_accounts_def has_capacity_def)
  then have "min_by_key (load_key ?t) (free_accounts ?t v) = min_by_key (load_key ?s) (free_accounts ?s v)" for v
    using inj [of v] min_by_key_perm [of "free_accounts ?s v" "free_accounts ?t v" "load_key ?s"]
    by (simp add: load_key_def [abs_def])
  then have "candidate cfg now ?t se v = candidate cfg now ?s se v" for se v
    by (simp add: candidate_def elig thread_active_def binding_blocked_def choose_account_def
        bound_account_def look has_capacity_def migrates_def cong: option.case_cong if_cong)
  then have "candidate cfg now ?t se = candidate cfg now ?s se" for se by (rule ext)
  then have "select_session cfg now ?t = select_session cfg now ?s"
    by (intro ext) (simp add: select_session_def session_closed_def cong: option.case_cong if_cong)
  then show ?thesis by (simp add: select_next_def)
qed

lemma selection_deterministic_witness:
  "select_next settings_default 1 (ex_s2\<lparr>sc_accounts := [(6, ex_account 6), (5, ex_account 5)]\<rparr>)
     = select_next settings_default 1 ex_s2"
  using selection_deterministic [OF ex_queued, of "[(6, ex_account 6), (5, ex_account 5)]"]
  by (simp add: ex_states)

end
