(* ===== verification/Actions.thy ===== *)
theory Actions
  imports Prelude
begin

section \<open>Actions\<close>

text \<open>
  Stateful, fallible code as explicit state passing: a computation takes the state to its
  value or its error and to the new state; what was done before an error stays done. The
  first error ends a sequence, as \<open>?\<close> does.
\<close>

type_synonym ('s, 'e, 'a) comp = "'s \<Rightarrow> ('e + 'a) \<times> 's"

definition act_return :: "'a \<Rightarrow> ('s, 'e, 'a) comp" where
  "act_return x g = (Inr x, g)"

definition act_fail :: "'e \<Rightarrow> ('s, 'e, 'a) comp" where
  "act_fail e g = (Inl e, g)"

definition act_bind :: "('s, 'e, 'a) comp \<Rightarrow> ('a \<Rightarrow> ('s, 'e, 'b) comp) \<Rightarrow> ('s, 'e, 'b) comp" where
  "act_bind m f g = (case m g of (Inl e, g') \<Rightarrow> (Inl e, g') | (Inr x, g') \<Rightarrow> f x g')"

definition act_then :: "('s, 'e, 'a) comp \<Rightarrow> ('s, 'e, 'b) comp \<Rightarrow> ('s, 'e, 'b) comp" where
  "act_then m n = act_bind m (\<lambda>_. n)"

text \<open>Matching on a result instead of propagating its error.\<close>

definition act_try :: "('s, 'e, 'a) comp \<Rightarrow> ('s, 'e, 'e + 'a) comp" where
  "act_try m g = (case m g of (r, g') \<Rightarrow> (Inr r, g'))"

definition act_read :: "('s \<Rightarrow> 'a) \<Rightarrow> ('s, 'e, 'a) comp" where
  "act_read f g = (Inr (f g), g)"

definition act_or :: "'e \<Rightarrow> 'a option \<Rightarrow> ('s, 'e, 'a) comp" where
  "act_or e m = (case m of None \<Rightarrow> act_fail e | Some x \<Rightarrow> act_return x)"

fun act_each :: "('a \<Rightarrow> ('s, 'e, unit) comp) \<Rightarrow> 'a list \<Rightarrow> ('s, 'e, unit) comp" where
  "act_each f [] = act_return ()"
| "act_each f (x # xs) = act_then (f x) (act_each f xs)"

lemma bind_Inr: "act_bind m f g = (Inr y, g') \<longleftrightarrow> (\<exists>x h. m g = (Inr x, h) \<and> f x h = (Inr y, g'))"
  by (auto simp: act_bind_def split: prod.split sum.split)

subsection \<open>Reasoning about actions\<close>

text \<open>
  \<open>runs P m Q E\<close>: started where \<open>P\<close> holds, \<open>m\<close> ends where \<open>Q\<close> holds of its value, or
  fails where \<open>E\<close> holds of its error.
\<close>

definition runs ::
  "('s \<Rightarrow> bool) \<Rightarrow> ('s, 'e, 'a) comp \<Rightarrow> ('a \<Rightarrow> 's \<Rightarrow> bool) \<Rightarrow> ('e \<Rightarrow> 's \<Rightarrow> bool) \<Rightarrow> bool" where
  "runs P m Q E \<longleftrightarrow> (\<forall>g. P g \<longrightarrow> (case m g of (Inr x, g') \<Rightarrow> Q x g' | (Inl e, g') \<Rightarrow> E e g'))"

lemma runs_apply:
  "runs P m Q E \<Longrightarrow> P g \<Longrightarrow> m g = (r, g') \<Longrightarrow> (case r of Inr x \<Rightarrow> Q x g' | Inl e \<Rightarrow> E e g')"
  unfolding runs_def by (drule spec [of _ g]) (simp split: sum.splits)

lemma runs_return: "(\<And>g. P g \<Longrightarrow> Q x g) \<Longrightarrow> runs P (act_return x) Q E"
  by (simp add: runs_def act_return_def)

lemma runs_fail: "(\<And>g. P g \<Longrightarrow> E e g) \<Longrightarrow> runs P (act_fail e) Q E"
  by (simp add: runs_def act_fail_def)

lemma runs_read: "(\<And>g. P g \<Longrightarrow> Q (f g) g) \<Longrightarrow> runs P (act_read f) Q E"
  by (simp add: runs_def act_read_def)

lemma runs_or:
  "(\<And>g x. P g \<Longrightarrow> m = Some x \<Longrightarrow> Q x g) \<Longrightarrow> (\<And>g. P g \<Longrightarrow> m = None \<Longrightarrow> E e g) \<Longrightarrow> runs P (act_or e m) Q E"
  by (cases m) (simp_all add: act_or_def runs_return runs_fail)

lemma runs_bind: "runs P m R E \<Longrightarrow> (\<And>x. runs (R x) (f x) Q E) \<Longrightarrow> runs P (act_bind m f) Q E"
  by (fastforce simp: runs_def act_bind_def split: prod.splits sum.splits)

lemma runs_then: "runs P m (\<lambda>_. R) E \<Longrightarrow> runs R n Q E \<Longrightarrow> runs P (act_then m n) Q E"
  unfolding act_then_def by (rule runs_bind)

lemma runs_try:
  "runs P m (\<lambda>x. Q (Inr x)) (\<lambda>e. Q (Inl e)) \<Longrightarrow> runs P (act_try m) Q E"
  unfolding runs_def act_try_def
proof (intro allI impI)
  fix g
  assume m: "\<forall>g. P g \<longrightarrow> (case m g of (Inl e, g') \<Rightarrow> Q (Inl e) g' | (Inr x, g') \<Rightarrow> Q (Inr x) g')" and "P g"
  then show "case (case m g of (r, g') \<Rightarrow> (Inr r, g')) of (Inl e, g') \<Rightarrow> E e g' | (Inr x, g') \<Rightarrow> Q x g'"
    by (cases "m g"; cases "fst (m g)") auto
qed

lemma runs_conseq:
  "runs P m Q E \<Longrightarrow> (\<And>g. P' g \<Longrightarrow> P g) \<Longrightarrow> (\<And>x g. Q x g \<Longrightarrow> Q' x g) \<Longrightarrow> (\<And>e g. E e g \<Longrightarrow> E' e g)
     \<Longrightarrow> runs P' m Q' E'"
  by (fastforce simp: runs_def split: prod.splits sum.splits)

lemma runs_if: "(b \<Longrightarrow> runs P m Q E) \<Longrightarrow> (\<not> b \<Longrightarrow> runs P n Q E) \<Longrightarrow> runs P (if b then m else n) Q E"
  by simp

lemma runs_case_prod: "(\<And>x y. p = (x, y) \<Longrightarrow> runs P (f x y) Q E) \<Longrightarrow> runs P (case p of (x, y) \<Rightarrow> f x y) Q E"
  by (cases p) simp

lemma runs_each:
  assumes "\<And>x. x \<in> set xs \<Longrightarrow> runs P (f x) (\<lambda>_. P) E"
  shows "runs P (act_each f xs) (\<lambda>_. P) E"
  using assms by (induction xs) (auto intro: runs_return runs_then)

lemma runs_same: "runs P m (\<lambda>_. Q) (\<lambda>_. Q) \<longleftrightarrow> (\<forall>g. P g \<longrightarrow> Q (snd (m g)))"
  unfolding runs_def by (simp add: case_prod_beta sum.case_eq_if)

lemma runsD: "runs P m (\<lambda>_. Q) (\<lambda>_. Q) \<Longrightarrow> P g \<Longrightarrow> Q (snd (m g))"
  by (simp add: runs_same)

subsection \<open>Actions that keep a condition of the state\<close>

text \<open>
  What it takes to show that an action keeps a condition whatever it returns: the condition
  is kept by the basic steps it makes. The composition rules are the same for every
  condition of every kind of state.
\<close>

locale kept =
  fixes cond :: "'s \<Rightarrow> bool"
begin

definition keeps :: "('s, 'e, 'a) comp \<Rightarrow> bool" where
  "keeps m \<longleftrightarrow> (\<forall>g. cond g \<longrightarrow> cond (snd (m g)))"

lemma keepsI: "(\<And>g. cond g \<Longrightarrow> cond (snd (m g))) \<Longrightarrow> keeps m"
  by (simp add: keeps_def)

lemma keepsD: "keeps m \<Longrightarrow> cond g \<Longrightarrow> cond (snd (m g))"
  by (simp add: keeps_def)

lemma keeps_return: "keeps (act_return x)"
  by (simp add: keeps_def act_return_def)

lemma keeps_fail: "keeps (act_fail e)"
  by (simp add: keeps_def act_fail_def)

lemma keeps_read: "keeps (act_read f)"
  by (simp add: keeps_def act_read_def)

lemma keeps_or: "keeps (act_or e m)"
  by (simp add: act_or_def keeps_return keeps_fail split: option.split)

lemma keeps_bind:
  assumes "keeps m" and "\<And>x. keeps (f x)"
  shows "keeps (act_bind m f)"
proof (rule keepsI)
  fix g assume "cond g"
  with assms(1) have "cond (snd (m g))" by (simp add: keeps_def)
  with assms(2) show "cond (snd (act_bind m f g))"
    by (auto simp: act_bind_def keeps_def split: prod.splits sum.splits)
qed

lemma keeps_then: "keeps m \<Longrightarrow> keeps n \<Longrightarrow> keeps (act_then m n)"
  by (simp add: act_then_def keeps_bind)

lemma keeps_try: "keeps m \<Longrightarrow> keeps (act_try m)"
  by (auto simp: keeps_def act_try_def split: prod.splits)

lemma keeps_each: "(\<And>x. keeps (f x)) \<Longrightarrow> keeps (act_each f xs)"
  by (induction xs) (simp_all add: keeps_return keeps_then)

lemma keeps_runs: "keeps m \<Longrightarrow> runs cond m (\<lambda>_. cond) (\<lambda>_. cond)"
  by (simp add: keeps_def runs_same)

end

end
