(* ===== verification/Gateway_State.thy ===== *)
theory Gateway_State
  imports Actions Scheduling Pg_Store
begin

section \<open>Actions of the gateway\<close>

text \<open>
  The state the gateway's administrative operations work on (\<open>Gateway\<close> in
  \<open>crates/xxgate-core/src/application/gateway.rs\<close>): the scheduler, the database and the
  settings in force. A call of the store may fail although it took effect (the commit was
  made, its acknowledgement lost) or without effect: the next \<open>fault\<close> decides, an empty
  list of faults is a database that works. An action is a function of this state; the first
  error ends it, as \<open>?\<close> does. Operations that hold the \<open>mutations\<close> lock run one after the
  other, which is what running an action to its end says.
\<close>

datatype fault = Works | LostBefore | LostAfter

record gateway =
  gw_db :: pg
  gw_sched :: sched
  gw_settings :: runtime_settings
  gw_safety :: "(session_key, nat \<times> err) hmap"
  gw_faults :: "fault list"

type_synonym 'a act = "(gateway, err, 'a) comp"

definition act_sched :: "(sched \<Rightarrow> sched) \<Rightarrow> unit act" where
  "act_sched f g = (Inr (), g\<lparr>gw_sched := f (gw_sched g)\<rparr>)"

definition act_store :: "'a tx \<Rightarrow> 'a act" where
  "act_store f g =
     (case gw_faults g of
        LostBefore # fs \<Rightarrow> (Inl err_storage, g\<lparr>gw_faults := fs\<rparr>)
      | LostAfter # fs \<Rightarrow>
          (Inl err_storage, g\<lparr>gw_db := snd (f (gw_db g)), gw_faults := fs\<rparr>)
      | fs \<Rightarrow>
          (fst (f (gw_db g)), g\<lparr>gw_db := snd (f (gw_db g)), gw_faults := tl fs\<rparr>))"

lemmas act_defs = act_return_def act_fail_def act_bind_def act_then_def act_try_def act_read_def
  act_sched_def act_or_def

subsection \<open>Rules for the scheduler and the store\<close>

text \<open>The rule for a store call has one case for each way the call can go.\<close>

lemma runs_sched: "(\<And>g. P g \<Longrightarrow> Q () (g\<lparr>gw_sched := f (gw_sched g)\<rparr>)) \<Longrightarrow> runs P (act_sched f) Q E"
  by (simp add: runs_def act_sched_def)

lemma runs_store:
  assumes "\<And>g fs. P g \<Longrightarrow> E err_storage (g\<lparr>gw_faults := fs\<rparr>)"
    and "\<And>g fs. P g \<Longrightarrow> E err_storage (g\<lparr>gw_db := snd (f (gw_db g)), gw_faults := fs\<rparr>)"
    and "\<And>g fs x. P g \<Longrightarrow> fst (f (gw_db g)) = Inr x \<Longrightarrow>
      Q x (g\<lparr>gw_db := snd (f (gw_db g)), gw_faults := fs\<rparr>)"
    and "\<And>g fs e. P g \<Longrightarrow> fst (f (gw_db g)) = Inl e \<Longrightarrow>
      E e (g\<lparr>gw_db := snd (f (gw_db g)), gw_faults := fs\<rparr>)"
  shows "runs P (act_store f) Q E"
  using assms by (auto simp: runs_def act_store_def split: list.split fault.split sum.split)

subsection \<open>Actions that keep a condition of the state\<close>

text \<open>What it takes besides the rules of \<open>kept\<close>: faults come and go without effect on the condition.\<close>

locale state_condition = kept cond for cond :: "gateway \<Rightarrow> bool" +
  assumes cond_faults: "cond g \<Longrightarrow> cond (g\<lparr>gw_faults := fs\<rparr>)"
begin

lemma keeps_sched:
  assumes "\<And>g. cond g \<Longrightarrow> cond (g\<lparr>gw_sched := f (gw_sched g)\<rparr>)"
  shows "keeps (act_sched f)"
  using assms by (simp add: keeps_def act_sched_def)

lemma keeps_store:
  assumes "\<And>g. cond g \<Longrightarrow> cond (g\<lparr>gw_db := snd (f (gw_db g))\<rparr>)"
  shows "keeps (act_store f)"
proof (rule keepsI)
  fix g assume g: "cond g"
  have "cond (g\<lparr>gw_db := snd (f (gw_db g)), gw_faults := fs\<rparr>)" for fs
    using cond_faults [OF assms [OF g], of fs] by simp
  moreover have "cond (g\<lparr>gw_faults := fs\<rparr>)" for fs by (rule cond_faults [OF g])
  ultimately show "cond (snd (act_store f g))"
    by (auto simp: act_store_def split: list.split fault.split)
qed

end

end
