(* ===== verification/Account_Control.thy ===== *)
theory Account_Control
  imports Gateway_State
begin

section \<open>Enabling, disabling and quota control\<close>

text \<open>
  The operations of \<open>application/gateway.rs\<close> that switch accounts on and off, by hand or
  from observed quotas, and the handlers of \<open>xxgate-server/src/http/admin.rs\<close> that change
  and delete an account. The clock reading \<open>now\<close> is an argument; one reading stands for the
  readings of one operation.
\<close>

definition current_account :: "uuid \<Rightarrow> account act" where
  "current_account i =
     act_bind (act_read (\<lambda>g. sched_account (gw_sched g) i)) (act_or err_not_found)"

definition reload_accounts :: "unit act" where
  "reload_accounts =
     act_bind (act_try (act_store pg_list_accounts)) (\<lambda>r.
       case r of
         Inr accounts \<Rightarrow> act_each (\<lambda>a. act_sched (update_account a)) accounts
       | Inl _ \<Rightarrow> act_sched (set_paused True))"

definition gateway_set_enabled ::
  "datetime \<Rightarrow> uuid \<Rightarrow> bool \<Rightarrow> disable_reason option \<Rightarrow> string \<Rightarrow> account act" where
  "gateway_set_enabled now i enabled reason actor =
     act_bind (current_account i) (\<lambda>current.
     act_then (if enabled then act_return () else act_sched (block_account i)) (
     act_bind (act_try (act_store (pg_set_enabled now i enabled reason (acc_version current) actor))) (\<lambda>r.
       case r of
         Inr a \<Rightarrow> act_then (act_sched (update_account a)) (act_return a)
       | Inl e \<Rightarrow> act_then reload_accounts (act_fail e))))"

text \<open>Writing what upstream observations decided: the account stays blocked unless it succeeds.\<close>

definition commit_enabled ::
  "datetime \<Rightarrow> uuid \<Rightarrow> bool \<Rightarrow> disable_reason option \<Rightarrow> int \<Rightarrow> unit act" where
  "commit_enabled now i enabled reason version =
     act_then (act_sched (block_account i)) (
     act_bind (act_try (act_store (pg_set_enabled now i enabled reason version ''upstream''))) (\<lambda>r.
       case r of
         Inr a \<Rightarrow> act_sched (update_account a)
       | Inl e \<Rightarrow> act_then (act_sched (set_paused True)) (act_fail e)))"

definition quota_reason :: "disable_reason \<Rightarrow> bool" where
  "quota_reason r \<longleftrightarrow> r \<in> {Quota5hExhausted, Quota7dExhausted, QuotaExhausted}"

definition disable_observed :: "datetime \<Rightarrow> uuid \<Rightarrow> int \<Rightarrow> disable_reason \<Rightarrow> unit act" where
  "disable_observed now i version reason =
     act_bind (current_account i) (\<lambda>current.
       if \<not> acc_enabled current \<or> acc_version current \<noteq> version then act_return ()
       else act_then
         (if quota_reason reason
          then act_bind (act_store (pg_extra_credits_of i)) (\<lambda>c.
            case c of
              None \<Rightarrow> act_return ()
            | Some c \<Rightarrow> act_store (pg_save_extra_credits i
                (c\<lparr>xc_blocked := True, xc_observed_at := now, xc_source := ''upstream_rejection''\<rparr>)))
          else act_return ())
         (commit_enabled now i False (Some reason) (acc_version current)))"

definition extra_available :: "datetime \<Rightarrow> account \<Rightarrow> bool act" where
  "extra_available now a =
     (if acc_use_extra_credits a
      then act_bind (act_store (pg_extra_credits_of (acc_id a))) (\<lambda>c.
        act_read (\<lambda>g. case c of
          None \<Rightarrow> False
        | Some c \<Rightarrow> credits_available c now (rs_quota_stale_after_secs (gw_settings g))))
      else act_return False)"

definition blocking_reason :: "quota_window list \<Rightarrow> bool \<Rightarrow> datetime \<Rightarrow> disable_reason option" where
  "blocking_reason windows extra now =
     Option.bind (List.find (\<lambda>w. quota_blocked w extra now) windows) window_disable_reason"

definition reconcile_quota_locked :: "datetime \<Rightarrow> account \<Rightarrow> bool \<Rightarrow> unit act" where
  "reconcile_quota_locked now a allow_reenable =
     (let quota_disabled = (case acc_disable_reason a of None \<Rightarrow> False | Some r \<Rightarrow> quota_reason r) in
      if \<not> acc_enabled a \<and> (\<not> allow_reenable \<or> \<not> quota_disabled) then act_return ()
      else act_bind (act_store (pg_quotas (acc_id a))) (\<lambda>windows.
        if windows = [] then act_return ()
        else act_bind (extra_available now a) (\<lambda>extra.
          let reason = blocking_reason windows extra now; enabled = (reason = None) in
          if enabled = acc_enabled a then act_return ()
          else commit_enabled now (acc_id a) enabled reason (acc_version a))))"

definition apply_quota_observation ::
  "datetime \<Rightarrow> uuid \<Rightarrow> int \<Rightarrow> quota_window list \<Rightarrow> extra_credits option \<Rightarrow> bool \<Rightarrow> unit act" where
  "apply_quota_observation now i version windows credits allow_reenable =
     (if windows = [] \<and> credits = None then act_return ()
      else act_bind (current_account i) (\<lambda>a.
        if acc_version a \<noteq> version then act_return ()
        else act_then (act_store (pg_save_quotas i windows)) (
          act_then
            (case credits of None \<Rightarrow> act_return () | Some c \<Rightarrow> act_store (pg_save_extra_credits i c))
            (reconcile_quota_locked now a (allow_reenable \<and> acc_use_extra_credits a)))))"

definition apply_quotas :: "datetime \<Rightarrow> uuid \<Rightarrow> int \<Rightarrow> quota_window list \<Rightarrow> unit act" where
  "apply_quotas now i version windows = apply_quota_observation now i version windows None False"

definition reconcile_account_quotas :: "datetime \<Rightarrow> uuid \<Rightarrow> unit act" where
  "reconcile_account_quotas now i =
     act_bind (current_account i) (\<lambda>a. reconcile_quota_locked now a True)"

definition reenable_expired_quotas :: "datetime \<Rightarrow> unit act" where
  "reenable_expired_quotas now =
     act_bind (act_read (\<lambda>g. hvals (sc_accounts (gw_sched g))))
       (act_each (\<lambda>a.
          if acc_enabled a \<and> \<not> acc_use_extra_credits a then act_return ()
          else reconcile_account_quotas now (acc_id a)))"

subsection \<open>Administrators (http/admin.rs)\<close>

definition admin_delete_account :: "uuid \<Rightarrow> unit act" where
  "admin_delete_account i =
     act_bind (current_account i) (\<lambda>previous.
     act_then (act_sched (block_account i)) (
     act_bind (act_try (act_store (pg_delete_account i))) (\<lambda>r.
       case r of
         Inl e \<Rightarrow> act_then (act_sched (update_account previous)) (act_fail e)
       | Inr _ \<Rightarrow> act_sched (remove_account i))))"

record account_update =
  au_codex_only :: "bool option"
  au_use_extra_credits :: "bool option"
  au_version :: int
  au_group_ids :: "uuid list option"
  au_name :: string
  au_max_inflight :: nat
  au_models :: "string list"
  au_models_restricted :: bool
  au_user_agent :: "string option"
  au_tls_backend :: "string option"

definition default_to :: "'a \<Rightarrow> 'a option \<Rightarrow> 'a" where
  "default_to d m = (case m of None \<Rightarrow> d | Some x \<Rightarrow> x)"

definition updated_account :: "account_update \<Rightarrow> account \<Rightarrow> account" where
  "updated_account u a =
     a\<lparr>acc_codex_only := default_to (acc_codex_only a) (au_codex_only u),
       acc_use_extra_credits := default_to (acc_use_extra_credits a) (au_use_extra_credits u),
       acc_name := au_name u, acc_max_inflight := au_max_inflight u, acc_models := au_models u,
       acc_models_restricted := au_models_restricted u,
       acc_group_ids := default_to (acc_group_ids a) (au_group_ids u),
       acc_profile := (acc_profile a)
         \<lparr>cp_user_agent := default_to (cp_user_agent (acc_profile a)) (au_user_agent u),
          cp_tls_backend := default_to (cp_tls_backend (acc_profile a)) (au_tls_backend u)\<rparr>\<rparr>"

definition validate_selection :: "uuid list \<Rightarrow> unit act" where
  "validate_selection ids =
     act_bind (act_store pg_list_groups) (\<lambda>groups.
       if length ids > 64 \<or> \<not> distinct ids
       then act_fail (err_invalid ''Choose at most 64 distinct account groups'')
       else if \<not> (\<forall>i\<in>set ids. i \<in> groups) then act_fail err_group_not_found
       else act_return ())"

text \<open>\<open>validate\<close> is \<open>Account::validate\<close> for the server's configuration.\<close>

definition admin_update_account ::
  "datetime \<Rightarrow> (account \<Rightarrow> unit res) \<Rightarrow> uuid \<Rightarrow> account_update \<Rightarrow> account act" where
  "admin_update_account now validate i u =
     act_bind (current_account i) (\<lambda>a.
       if acc_version a \<noteq> au_version u then act_fail err_conflict
       else act_then
         (case au_group_ids u of None \<Rightarrow> act_return () | Some gs \<Rightarrow> validate_selection gs) (
       let a' = updated_account u a;
           policy_changed = (case au_use_extra_credits u of
             None \<Rightarrow> False | Some v \<Rightarrow> v \<noteq> acc_use_extra_credits a)
       in case validate a' of
            Inl e \<Rightarrow> act_fail e
          | Inr _ \<Rightarrow>
              act_then (act_sched (block_account i)) (
              act_bind (act_try (act_store (pg_put_account now a' None (Some (au_version u))))) (\<lambda>r.
                case r of
                  Inr stored \<Rightarrow>
                    act_then (act_sched (update_account stored)) (
                    act_then (if policy_changed then reconcile_account_quotas now i else act_return ())
                      (current_account i))
                | Inl e \<Rightarrow> act_then reload_accounts (act_fail e)))))"

end
