(* ===== verification/Account_Guard.thy ===== *)
theory Account_Guard
  imports Account_Control
begin

section \<open>A switched-off account is never dispatched\<close>

text \<open>
  The scheduler works from copies of the account rows. \<open>guarded\<close> is what its copies owe the
  database: an account whose row is disabled or deleted is not selectable, because the whole
  scheduler is paused, or the account is blocked, or its copy is not enabled either. The
  accounts in \<open>D\<close> are exempt: those whose deletion failed, which the handler puts back. It has
  to hold when a commit succeeds and its acknowledgement is lost; the lemmas follow each
  operation through every way its store calls can go.
\<close>

definition rows_ok :: "pg \<Rightarrow> bool" where
  "rows_ok db \<longleftrightarrow> hwf (pg_accounts db) \<and>
     (\<forall>i r. hget (pg_accounts db) i = Some r \<longrightarrow>
        acc_id (row_account r) = i \<and> (row_deleted r \<longrightarrow> \<not> acc_enabled (row_account r)))"

definition copies_ok :: "sched \<Rightarrow> bool" where
  "copies_ok s \<longleftrightarrow> hwf (sc_accounts s) \<and>
     (\<forall>i a. hget (sc_accounts s) i = Some a \<longrightarrow> acc_id a = i \<and> i \<notin> sc_deleted_accounts s)"

definition off :: "sched \<Rightarrow> uuid \<Rightarrow> bool" where
  "off s i \<longleftrightarrow> sc_paused s \<or> i \<in> sc_blocked s \<or>
     (case hget (sc_accounts s) i of None \<Rightarrow> True | Some a \<Rightarrow> \<not> acc_enabled a)"

definition guarded :: "uuid set \<Rightarrow> gateway \<Rightarrow> bool" where
  "guarded D g \<longleftrightarrow> rows_ok (gw_db g) \<and> copies_ok (gw_sched g) \<and>
     (\<forall>i r. hget (pg_accounts (gw_db g)) i = Some r \<longrightarrow> \<not> acc_enabled (row_account r) \<longrightarrow> i \<notin> D \<longrightarrow>
        off (gw_sched g) i)"

lemma guarded_cong:
  "pg_accounts (gw_db g') = pg_accounts (gw_db g) \<Longrightarrow> gw_sched g' = gw_sched g \<Longrightarrow> guarded D g' = guarded D g"
  by (simp add: guarded_def rows_ok_def)

subsection \<open>Scheduler operations\<close>

lemma copies_ok_update: "copies_ok s \<Longrightarrow> copies_ok (update_account a s)"
  by (auto simp: copies_ok_def update_account_def split: if_splits)

lemma off_update_other: "j \<noteq> acc_id a \<Longrightarrow> off (update_account a s) j = off s j"
  by (simp add: off_def update_account_def)

lemma off_update_same:
  "copies_ok s \<Longrightarrow> \<not> acc_enabled a \<Longrightarrow> off (update_account a s) (acc_id a)"
  by (auto simp: off_def update_account_def copies_ok_def split: option.splits)

lemma guarded_update:
  assumes "guarded D g" and "hget (pg_accounts (gw_db g)) (acc_id a) = Some r" and "row_account r = a"
  shows "guarded D (g\<lparr>gw_sched := update_account a (gw_sched g)\<rparr>)"
proof -
  have "off (update_account a (gw_sched g)) j"
    if "hget (pg_accounts (gw_db g)) j = Some r'" "\<not> acc_enabled (row_account r')" "j \<notin> D" for j r'
  proof (cases "j = acc_id a")
    case True
    with that assms show ?thesis by (simp add: off_update_same guarded_def)
  next
    case False
    with that assms show ?thesis by (simp add: off_update_other guarded_def)
  qed
  with assms(1) show ?thesis by (simp add: guarded_def copies_ok_update)
qed

lemma guarded_sched:
  assumes "guarded D g" and "copies_ok (gw_sched g) \<Longrightarrow> copies_ok s"
    and "\<And>j. off (gw_sched g) j \<Longrightarrow> off s j"
  shows "guarded D (g\<lparr>gw_sched := s\<rparr>)"
  using assms by (simp add: guarded_def)

lemma guarded_block: "guarded D g \<Longrightarrow> guarded D (g\<lparr>gw_sched := block_account i (gw_sched g)\<rparr>)"
  by (erule guarded_sched) (auto simp: copies_ok_def off_def block_account_def)

lemma guarded_pause: "guarded D g \<Longrightarrow> guarded D (g\<lparr>gw_sched := set_paused True (gw_sched g)\<rparr>)"
  by (erule guarded_sched) (auto simp: copies_ok_def off_def set_paused_def)

lemma guarded_remove: "guarded D g \<Longrightarrow> guarded D (g\<lparr>gw_sched := remove_account i (gw_sched g)\<rparr>)"
  by (erule guarded_sched) (auto simp: copies_ok_def off_def remove_account_def)

subsection \<open>Store calls\<close>

text \<open>
  A transaction that writes one account row and answers with the row it leaves.
\<close>

definition writes_row :: "uuid \<Rightarrow> account tx \<Rightarrow> bool" where
  "writes_row i f \<longleftrightarrow> (\<forall>db. rows_ok db \<longrightarrow>
     rows_ok (snd (f db))
     \<and> (\<forall>j. j \<noteq> i \<longrightarrow> hget (pg_accounts (snd (f db))) j = hget (pg_accounts db) j)
     \<and> (\<forall>a. fst (f db) = Inr a \<longrightarrow>
          acc_id a = i \<and> (\<exists>r. hget (pg_accounts (snd (f db))) i = Some r \<and> row_account r = a))
     \<and> (\<forall>e. fst (f db) = Inl e \<longrightarrow> snd (f db) = db))"

lemma rows_ok_put:
  "rows_ok db \<Longrightarrow> acc_id (row_account r) = i \<Longrightarrow> (row_deleted r \<Longrightarrow> \<not> acc_enabled (row_account r))
     \<Longrightarrow> rows_ok (put_row i r db)"
  by (simp add: rows_ok_def put_row_def)

lemma rows_ok_id: "rows_ok db \<Longrightarrow> hget (pg_accounts db) i = Some r \<Longrightarrow> acc_id (row_account r) = i"
  by (simp add: rows_ok_def)

lemma rows_ok_log [simp]: "rows_ok (log_event k a i db) = rows_ok db"
  by (simp add: rows_ok_def log_event_def)

lemma rows_ok_link [simp]: "rows_ok (link_groups a db) = rows_ok db"
  by (simp add: rows_ok_def link_groups_def)

lemma accounts_log [simp]: "pg_accounts (log_event k a i db) = pg_accounts db"
  by (simp add: log_event_def)

lemma accounts_link [simp]: "pg_accounts (link_groups a db) = pg_accounts db"
  by (simp add: link_groups_def)

lemma accounts_put_row [simp]: "pg_accounts (put_row i r db) = hput i r (pg_accounts db)"
  by (simp add: put_row_def)

lemma live_row_Some:
  "live_row db i = Some r \<longleftrightarrow> hget (pg_accounts db) i = Some r \<and> \<not> row_deleted r"
  by (auto simp: live_row_def split: option.splits)

lemma writes_rowI:
  assumes "\<And>db. rows_ok db \<Longrightarrow> (\<exists>e. f db = (Inl e, db)) \<or>
    (\<exists>r db'. f db = (Inr (row_account r), db') \<and> pg_accounts db' = hput i r (pg_accounts db)
       \<and> acc_id (row_account r) = i \<and> (row_deleted r \<longrightarrow> \<not> acc_enabled (row_account r)))"
  shows "writes_row i f"
  unfolding writes_row_def
proof (intro allI impI)
  fix db assume db: "rows_ok db"
  from assms [OF db] show "rows_ok (snd (f db))
     \<and> (\<forall>j. j \<noteq> i \<longrightarrow> hget (pg_accounts (snd (f db))) j = hget (pg_accounts db) j)
     \<and> (\<forall>a. fst (f db) = Inr a \<longrightarrow>
          acc_id a = i \<and> (\<exists>r. hget (pg_accounts (snd (f db))) i = Some r \<and> row_account r = a))
     \<and> (\<forall>e. fst (f db) = Inl e \<longrightarrow> snd (f db) = db)"
  proof (elim disjE exE conjE)
    fix r db' assume f: "f db = (Inr (row_account r), db')"
      and "pg_accounts db' = hput i r (pg_accounts db)" "acc_id (row_account r) = i"
        "row_deleted r \<longrightarrow> \<not> acc_enabled (row_account r)"
    then show ?thesis using db by (simp add: rows_ok_def)
  qed (simp add: db)
qed

lemma writes_set_enabled: "writes_row i (pg_set_enabled now i e reason v actor)"
proof (rule writes_rowI)
  fix db assume db: "rows_ok db"
  show "(\<exists>err. pg_set_enabled now i e reason v actor db = (Inl err, db)) \<or>
    (\<exists>r db'. pg_set_enabled now i e reason v actor db = (Inr (row_account r), db')
       \<and> pg_accounts db' = hput i r (pg_accounts db) \<and> acc_id (row_account r) = i
       \<and> (row_deleted r \<longrightarrow> \<not> acc_enabled (row_account r)))"
  proof (cases "live_row db i")
    case (Some r)
    with db have "acc_id (row_account r) = i" "\<not> row_deleted r"
      by (simp_all add: live_row_Some rows_ok_id)
    then show ?thesis
      by (simp add: pg_set_enabled_def Let_def Some)
        (intro conjI impI; rule exI [of _ "r\<lparr>row_account := x\<rparr>" for x]; force)
  qed (simp add: pg_set_enabled_def)
qed

lemma store_account_row:
  "(\<exists>e. store_account k r db = (Inl e, db)) \<or>
   (\<exists>db'. store_account k r db = (Inr (row_account r), db')
      \<and> pg_accounts db' = hput (acc_id (row_account r)) r (pg_accounts db))"
  by (simp add: store_account_def Let_def)

lemma writes_put_account:
  assumes "acc_id a = i"
  shows "writes_row i (pg_put_account now a None (Some v))"
proof (rule writes_rowI)
  fix db assume db: "rows_ok db"
  have "(\<exists>e. pg_put_account now a None (Some v) db = (Inl e, db)) \<or>
    (\<exists>k r. pg_put_account now a None (Some v) db = store_account k r db
       \<and> acc_id (row_account r) = i \<and> \<not> row_deleted r)"
  proof (cases "live_row db i")
    case None
    with assms show ?thesis by (auto simp: pg_put_account_def Let_def)
  next
    case (Some r)
    then have "\<not> row_deleted r" by (simp add: live_row_Some)
    with assms Some show ?thesis
      by (simp add: pg_put_account_def Let_def)
        (intro impI disjI2 exI conjI, rule refl, simp_all)
  qed
  then show "(\<exists>e. pg_put_account now a None (Some v) db = (Inl e, db)) \<or>
    (\<exists>r db'. pg_put_account now a None (Some v) db = (Inr (row_account r), db')
       \<and> pg_accounts db' = hput i r (pg_accounts db) \<and> acc_id (row_account r) = i
       \<and> (row_deleted r \<longrightarrow> \<not> acc_enabled (row_account r)))"
    using store_account_row by metis
qed

interpretation guard: state_condition "guarded D" for D
  by unfold_locales (simp add: guarded_def)

lemma guard_keeps_iff: "guard.keeps D m \<longleftrightarrow> runs (guarded D) m (\<lambda>_. guarded D) (\<lambda>_. guarded D)"
  by (simp add: guard.keeps_def runs_same)

text \<open>The tables around the account rows do not matter.\<close>

definition spares_rows :: "'a tx \<Rightarrow> bool" where
  "spares_rows f \<longleftrightarrow> (\<forall>db. pg_accounts (snd (f db)) = pg_accounts db)"

lemma guard_store: "spares_rows f \<Longrightarrow> guard.keeps D (act_store f)"
  by (rule guard.keeps_store, erule iffD2 [OF guarded_cong, rotated 2]) (simp_all add: spares_rows_def)

lemma fold_insert_snapshot [simp]: "pg_accounts (fold (insert_snapshot i) ws db) = pg_accounts db"
  by (induction ws arbitrary: db) (simp_all add: insert_snapshot_def Let_def)

lemma spares_simps [simp]:
  "spares_rows pg_list_accounts"
  "spares_rows pg_list_groups"
  "spares_rows (pg_extra_credits_of i)"
  "spares_rows (pg_save_extra_credits i c)"
  "spares_rows (pg_save_quotas i ws)"
  "spares_rows (pg_quotas i)"
  by (simp_all add: spares_rows_def pg_list_accounts_def pg_list_groups_def pg_extra_credits_of_def
      pg_save_extra_credits_def pg_save_quotas_def pg_quotas_def split: option.split)

lemma guard_block: "guard.keeps D (act_sched (block_account i))"
  by (rule guard.keeps_sched) (rule guarded_block)

lemma guard_pause: "guard.keeps D (act_sched (set_paused True))"
  by (rule guard.keeps_sched) (rule guarded_pause)

text \<open>Writing the row of a blocked account: \<open>holds_row\<close> is what an answer then means.\<close>

definition holds_row :: "uuid set \<Rightarrow> account \<Rightarrow> gateway \<Rightarrow> bool" where
  "holds_row D a g \<longleftrightarrow> guarded D g
     \<and> (\<exists>r. hget (pg_accounts (gw_db g)) (acc_id a) = Some r \<and> row_account r = a)"

lemma runs_update: "runs (holds_row D a) (act_sched (update_account a)) (\<lambda>_. guarded D) E"
  by (rule runs_sched) (auto simp: holds_row_def guarded_update)

lemma guarded_write:
  assumes "writes_row i f" and "guarded D g" and "off (gw_sched g) i"
  shows "guarded D (g\<lparr>gw_db := snd (f (gw_db g)), gw_faults := fs\<rparr>)"
    and "fst (f (gw_db g)) = Inr a \<Longrightarrow> holds_row D a (g\<lparr>gw_db := snd (f (gw_db g)), gw_faults := fs\<rparr>)"
proof -
  let ?db = "snd (f (gw_db g))"
  from assms(2) have db: "rows_ok (gw_db g)" by (simp add: guarded_def)
  with assms(1) have ok: "rows_ok ?db" by (simp add: writes_row_def)
  from db assms(1) have other: "hget (pg_accounts ?db) j = hget (pg_accounts (gw_db g)) j" if "j \<noteq> i" for j
    using that by (simp add: writes_row_def)
  from db assms(1) have row: "acc_id a = i \<and> (\<exists>r. hget (pg_accounts ?db) i = Some r \<and> row_account r = a)"
    if "fst (f (gw_db g)) = Inr a" for a
    using that by (simp add: writes_row_def)
  show *: "guarded D (g\<lparr>gw_db := ?db, gw_faults := fs\<rparr>)"
    using assms(2,3) ok other by (simp add: guarded_def) metis
  show "holds_row D a (g\<lparr>gw_db := ?db, gw_faults := fs\<rparr>)" if "fst (f (gw_db g)) = Inr a"
    using * row [OF that] by (auto simp: holds_row_def)
qed

lemma runs_write:
  assumes "writes_row i f"
  shows "runs (\<lambda>g. guarded D g \<and> off (gw_sched g) i) (act_store f) (holds_row D) (\<lambda>_. guarded D)"
  by (rule runs_store) (blast intro: guarded_write [OF assms] guard.cond_faults)+

lemma runs_block:
  "runs (guarded D) (act_sched (block_account i)) (\<lambda>_ g. guarded D g \<and> off (gw_sched g) i) E"
  by (rule runs_sched) (simp add: guarded_block, simp add: off_def block_account_def)

text \<open>Reloading copies every row as the database has it.\<close>

lemma guard_reload: "guard.keeps D reload_accounts"
proof -
  let ?rows = "\<lambda>as g. guarded D g \<and> (\<forall>a\<in>set as. holds_row D a g)"
  have update: "runs (?rows as) (act_sched (update_account a)) (\<lambda>_. ?rows as) (\<lambda>_. guarded D)"
    if "a \<in> set as" for a as
    by (rule runs_sched) (use that in \<open>auto simp: holds_row_def intro: guarded_update\<close>)
  have all: "runs (?rows as) (act_each (\<lambda>a. act_sched (update_account a)) as) (\<lambda>_. guarded D) (\<lambda>_. guarded D)" for as
    by (rule runs_conseq [OF runs_each [OF update]]) auto
  have list: "runs (guarded D) (act_store pg_list_accounts) ?rows (\<lambda>_. guarded D)"
    by (rule runs_store)
      (auto simp: pg_list_accounts_def holds_row_def guarded_def rows_ok_def hget_mem_iff [symmetric])
  have "runs (guarded D) (act_try (act_store pg_list_accounts))
      (\<lambda>r. case r of Inr as \<Rightarrow> ?rows as | Inl _ \<Rightarrow> guarded D) (\<lambda>_. guarded D)"
    by (rule runs_try, rule runs_conseq [OF list]) auto
  then have "runs (guarded D) reload_accounts (\<lambda>_. guarded D) (\<lambda>_. guarded D)"
    unfolding reload_accounts_def
  proof (rule runs_bind)
    fix r
    show "runs (case r of Inr as \<Rightarrow> ?rows as | Inl _ \<Rightarrow> guarded D)
        (case r of Inl _ \<Rightarrow> act_sched (set_paused True)
         | Inr as \<Rightarrow> act_each (\<lambda>a. act_sched (update_account a)) as) (\<lambda>_. guarded D) (\<lambda>_. guarded D)"
      using all guard_pause by (cases r) (simp_all add: guard_keeps_iff)
  qed
  then show ?thesis by (simp add: guard_keeps_iff)
qed

subsection \<open>The operations\<close>

lemmas guard_rules = guard.keeps_return guard.keeps_fail guard.keeps_read guard.keeps_or
  guard_block guard_pause guard_reload

lemma guard_current: "guard.keeps D (current_account i)"
  unfolding current_account_def by (intro guard.keeps_bind guard_rules)

text \<open>What follows the answer of a row write, in every operation: copy the row, or fall back.\<close>

lemma runs_written:
  assumes "runs P (act_store f) (holds_row D) (\<lambda>_. guarded D)"
    and "\<And>a. runs (guarded D) (ok a) (\<lambda>_. guarded D) (\<lambda>_. guarded D)"
    and "\<And>e. guard.keeps D (bad e)"
  shows "runs P
    (act_bind (act_try (act_store f)) (\<lambda>r. case r of
       Inr a \<Rightarrow> act_then (act_sched (update_account a)) (ok a) | Inl e \<Rightarrow> bad e))
    (\<lambda>_. guarded D) (\<lambda>_. guarded D)"
proof (rule runs_bind)
  show "runs P (act_try (act_store f))
      (\<lambda>r. case r of Inr a \<Rightarrow> holds_row D a | Inl _ \<Rightarrow> guarded D) (\<lambda>_. guarded D)"
    by (rule runs_try, rule runs_conseq [OF assms(1)]) auto
  show "runs (case r of Inr a \<Rightarrow> holds_row D a | Inl _ \<Rightarrow> guarded D)
      (case r of Inl e \<Rightarrow> bad e | Inr a \<Rightarrow> act_then (act_sched (update_account a)) (ok a))
      (\<lambda>_. guarded D) (\<lambda>_. guarded D)" for r
    using assms(2,3) by (cases r) (auto simp: guard_keeps_iff intro: runs_then runs_update)
qed

lemma guard_written:
  assumes "writes_row i f" and "\<And>a. guard.keeps D (ok a)" and "\<And>e. guard.keeps D (bad e)"
  shows "guard.keeps D (act_then (act_sched (block_account i))
    (act_bind (act_try (act_store f)) (\<lambda>r. case r of
       Inr a \<Rightarrow> act_then (act_sched (update_account a)) (ok a) | Inl e \<Rightarrow> bad e)))"
  using assms(2) unfolding guard_keeps_iff
  by (intro runs_then [OF runs_block] runs_written [OF runs_write [OF assms(1)] _ assms(3)])

lemma act_then_return: "act_then m (act_return ()) = m"
  by (rule ext) (simp add: act_defs split: prod.split sum.split)

lemma guard_commit: "guard.keeps D (commit_enabled now i e reason v)"
  using guard_written [OF writes_set_enabled, where ok = "\<lambda>_. act_return ()"
      and bad = "\<lambda>e. act_then (act_sched (set_paused True)) (act_fail e)"]
  unfolding commit_enabled_def act_then_return
  by (simp add: guard.keeps_then guard_rules)

lemma guard_disable_observed: "guard.keeps D (disable_observed now i v reason)"
  unfolding disable_observed_def
  by (intro guard.keeps_bind guard.keeps_then guard_current)
    (auto intro!: guard.keeps_then guard.keeps_bind guard_rules guard_commit guard_store split: option.split)

lemma guard_extra: "guard.keeps D (extra_available now a)"
  unfolding extra_available_def by (auto intro!: guard.keeps_bind guard_rules guard_store)

lemma guard_reconcile_locked: "guard.keeps D (reconcile_quota_locked now a b)"
  unfolding reconcile_quota_locked_def Let_def
  by (auto intro!: guard.keeps_bind guard_rules guard_store guard_extra guard_commit)

lemma guard_observation: "guard.keeps D (apply_quota_observation now i v ws c b)"
  unfolding apply_quota_observation_def
  by (auto intro!: guard.keeps_bind guard.keeps_then guard_rules guard_store guard_current
      guard_reconcile_locked split: option.split)

lemma guard_reconcile: "guard.keeps D (reconcile_account_quotas now i)"
  unfolding reconcile_account_quotas_def by (intro guard.keeps_bind guard_current guard_reconcile_locked)

lemma guard_reenable: "guard.keeps D (reenable_expired_quotas now)"
  unfolding reenable_expired_quotas_def
  by (auto intro!: guard.keeps_bind guard.keeps_each guard_rules guard_reconcile)

lemma guard_set_enabled: "guard.keeps D (gateway_set_enabled now i e reason actor)"
proof -
  have enable: "runs (guarded D) (act_store (pg_set_enabled now i True reason v actor)) (holds_row D) (\<lambda>_. guarded D)" for v
  proof (rule runs_store)
    fix g fs assume g: "guarded D g"
    let ?db = "snd (pg_set_enabled now i True reason v actor (gw_db g))"
    from g have db: "rows_ok (gw_db g)" by (simp add: guarded_def)
    have w: "writes_row i (pg_set_enabled now i True reason v actor)" by (rule writes_set_enabled)
    have "acc_enabled (row_account r)" if "hget (pg_accounts ?db) i = Some r"
      "hget (pg_accounts (gw_db g)) i \<noteq> Some r" for r
      using that by (auto simp: pg_set_enabled_def Let_def split: option.splits if_splits)
    moreover have "hget (pg_accounts ?db) j = hget (pg_accounts (gw_db g)) j" if "j \<noteq> i" for j
      using w db that by (simp add: writes_row_def)
    moreover have "rows_ok ?db" using w db by (simp add: writes_row_def)
    ultimately show *: "guarded D (g\<lparr>gw_db := ?db, gw_faults := fs\<rparr>)"
      using g by (simp add: guarded_def) metis
    then show "guarded D (g\<lparr>gw_db := ?db, gw_faults := fs\<rparr>)" .
    fix a assume "fst (pg_set_enabled now i True reason v actor (gw_db g)) = Inr a"
    with w db * show "holds_row D a (g\<lparr>gw_db := ?db, gw_faults := fs\<rparr>)"
      by (auto simp: writes_row_def holds_row_def)
  qed (rule guard.cond_faults)
  let ?bad = "\<lambda>err. act_then reload_accounts (act_fail err)"
  have ret: "runs (guarded D) (act_return a) (\<lambda>_. guarded D) (\<lambda>_. guarded D)" for a :: account
    by (rule runs_return)
  have bad: "guard.keeps D (?bad err :: account act)" for err by (intro guard.keeps_then guard_rules)
  show ?thesis
  proof (cases e)
    case True
    then show ?thesis
      unfolding gateway_set_enabled_def
      by (intro guard.keeps_bind guard_current)
        (simp add: guard_keeps_iff, rule runs_then [OF runs_return runs_written [OF enable ret bad]])
  next
    case False
    then show ?thesis
      unfolding gateway_set_enabled_def
      using guard_written [OF writes_set_enabled, where ok = act_return and bad = ?bad] bad
      by (intro guard.keeps_bind guard_current) (simp add: guard.keeps_return)
  qed
qed

lemma guard_validate: "guard.keeps D (validate_selection ids)"
  unfolding validate_selection_def by (auto intro!: guard.keeps_bind guard_rules guard_store)

lemma updated_account_id [simp]: "acc_id (updated_account u a) = acc_id a"
  by (simp add: updated_account_def)

text \<open>The update handler writes the row of the account it read, so the ids agree.\<close>

lemma runs_current:
  "runs (guarded D) (current_account i) (\<lambda>a g. guarded D g \<and> acc_id a = i) (\<lambda>_. guarded D)"
  unfolding current_account_def
  by (rule runs_bind [where R = "\<lambda>m g. guarded D g \<and> m = hget (sc_accounts (gw_sched g)) i"])
    (auto intro!: runs_read runs_or simp: guarded_def copies_ok_def sched_account_def)

lemma guard_update_account: "guard.keeps D (admin_update_account now validate i u)"
  unfolding guard_keeps_iff admin_update_account_def
proof (rule runs_bind [OF runs_current])
  fix a
  let ?bad = "\<lambda>err. act_then reload_accounts (act_fail err)"
  let ?body = "if acc_version a \<noteq> au_version u then act_fail err_conflict
       else act_then
         (case au_group_ids u of None \<Rightarrow> act_return () | Some gs \<Rightarrow> validate_selection gs) (
       let a' = updated_account u a;
           policy_changed = (case au_use_extra_credits u of
             None \<Rightarrow> False | Some v \<Rightarrow> v \<noteq> acc_use_extra_credits a)
       in case validate a' of
            Inl e \<Rightarrow> act_fail e
          | Inr _ \<Rightarrow>
              act_then (act_sched (block_account i)) (
              act_bind (act_try (act_store (pg_put_account now a' None (Some (au_version u))))) (\<lambda>r.
                case r of
                  Inr stored \<Rightarrow>
                    act_then (act_sched (update_account stored)) (
                    act_then (if policy_changed then reconcile_account_quotas now i else act_return ())
                      (current_account i))
                | Inl e \<Rightarrow> act_then reload_accounts (act_fail e))))"
  have "guard.keeps D ?body" if "acc_id a = i"
  proof -
    have w: "writes_row i (pg_put_account now (updated_account u a) None (Some (au_version u)))"
      by (rule writes_put_account) (simp add: that)
    show ?thesis
      unfolding Let_def
      by (auto intro!: guard.keeps_then guard_written [OF w] guard_rules guard_validate guard_current
          guard_reconcile split: option.split sum.split simp del: act_then_def)
  qed
  then show "runs (\<lambda>g. guarded D g \<and> acc_id a = i) ?body (\<lambda>_. guarded D) (\<lambda>_. guarded D)"
    by (cases "acc_id a = i") (simp_all add: guard_keeps_iff, simp add: runs_def)
qed

end
