(* ===== verification/Account_Theorems.thy ===== *)
theory Account_Theorems
  imports Account_Guard Sched_Theorems
begin

section \<open>What switching accounts on and off guarantees\<close>

text \<open>
  The control operations as steps of one system, with a database that may lose any call or
  its acknowledgement between and during them, and the properties of that system.
\<close>

text \<open>What queueing, granting and finishing requests leaves alone.\<close>

definition admin_view :: "sched \<Rightarrow> (uuid, account) hmap \<times> uuid set \<times> uuid set \<times> bool" where
  "admin_view s = (sc_accounts s, sc_blocked s, sc_deleted_accounts s, sc_paused s)"

lemma guarded_traffic:
  "guarded D g \<Longrightarrow> admin_view s = admin_view (gw_sched g) \<Longrightarrow> guarded D (g\<lparr>gw_sched := s\<rparr>)"
  by (erule guarded_sched) (simp_all add: admin_view_def copies_ok_def off_def)

text \<open>
  The state beside the gateway holds the accounts whose deletion failed after the account was
  blocked: the handler puts the copy it read back, whatever the database did.
\<close>

type_synonym control_world = "gateway \<times> uuid set"

inductive control_step :: "control_world \<Rightarrow> control_world \<Rightarrow> bool" where
  cs_faults: "control_step (g, D) (g\<lparr>gw_faults := fs\<rparr>, D)"
| cs_set_enabled: "control_step (g, D) (snd (gateway_set_enabled now i e reason actor g), D)"
| cs_disable: "control_step (g, D) (snd (disable_observed now i v reason g), D)"
| cs_observe: "control_step (g, D) (snd (apply_quota_observation now i v ws c b g), D)"
| cs_reconcile: "control_step (g, D) (snd (reconcile_account_quotas now i g), D)"
| cs_reenable: "control_step (g, D) (snd (reenable_expired_quotas now g), D)"
| cs_update: "control_step (g, D) (snd (admin_update_account now validate i u g), D)"
| cs_traffic: "admin_view s = admin_view (gw_sched g) \<Longrightarrow> control_step (g, D) (g\<lparr>gw_sched := s\<rparr>, D)"
| cs_delete: "admin_delete_account i g = (r, g')
    \<Longrightarrow> control_step (g, D) (g', if isl r \<and> sched_account (gw_sched g) i \<noteq> None then insert i D else D)"

text \<open>A start loads the rows of the database into an empty scheduler.\<close>

definition control_start :: "gateway \<Rightarrow> bool" where
  "control_start g \<longleftrightarrow> rows_ok (gw_db g)
     \<and> sc_accounts (gw_sched g) = map (\<lambda>(i, r). (i, row_account r))
         (filter (\<lambda>(_, r). \<not> row_deleted r) (pg_accounts (gw_db g)))
     \<and> sc_deleted_accounts (gw_sched g) = {}"

lemma start_copy:
  assumes "control_start g" and "hget (sc_accounts (gw_sched g)) i = Some a"
  shows "\<exists>r. hget (pg_accounts (gw_db g)) i = Some r \<and> row_account r = a"
proof -
  from assms(2) have "(i, a) \<in> set (sc_accounts (gw_sched g))" by (rule map_of_SomeD)
  with assms(1) have "(i, a) \<in> (\<lambda>(i, r). (i, row_account r)) ` set (pg_accounts (gw_db g))"
    by (auto simp: control_start_def)
  with assms(1) show ?thesis
    by (auto simp: control_start_def rows_ok_def hget_mem_iff)
qed

lemma guarded_start: "control_start g \<Longrightarrow> guarded D g"
proof -
  assume g: "control_start g"
  then have db: "rows_ok (gw_db g)" and d: "sc_deleted_accounts (gw_sched g) = {}"
    by (simp_all add: control_start_def)
  have "fst \<circ> (\<lambda>(i, r). (i, row_account r)) = (fst :: uuid \<times> account_row \<Rightarrow> uuid)" by auto
  then have "hwf (sc_accounts (gw_sched g))"
    using g db by (simp add: control_start_def hwf_def rows_ok_def distinct_map_filter)
  then have "copies_ok (gw_sched g)"
    using start_copy [OF g] db d unfolding copies_ok_def rows_ok_def by blast
  moreover have "off (gw_sched g) i"
    if "hget (pg_accounts (gw_db g)) i = Some r" "\<not> acc_enabled (row_account r)" for i r
    using start_copy [OF g, of i] that by (auto simp: off_def split: option.split)
  ultimately show ?thesis using db by (simp add: guarded_def)
qed

lemma guard_delete_done:
  assumes "guarded D g" and "admin_delete_account i g = (Inr (), g')"
  shows "guarded D g'"
proof -
  obtain a where a: "sched_account (gw_sched g) i = Some a"
    using assms(2) by (auto simp: admin_delete_account_def current_account_def act_defs
        split: option.splits prod.splits sum.splits)
  have "gw_sched g' = remove_account i (block_account i (gw_sched g))
      \<and> gw_db g' = snd (pg_delete_account i (gw_db g))
      \<and> fst (pg_delete_account i (gw_db g)) = Inr ()"
    using assms(2) a
    by (auto simp: admin_delete_account_def current_account_def act_defs act_store_def
        split: option.splits prod.splits sum.splits list.splits fault.splits)
  then have s': "gw_sched g' = remove_account i (block_account i (gw_sched g))"
    and d': "gw_db g' = snd (pg_delete_account i (gw_db g))"
    and del: "fst (pg_delete_account i (gw_db g)) = Inr ()" by blast+
  note g' = s' d'
  from del obtain r where r: "live_row (gw_db g) i = Some r"
    by (auto simp: pg_delete_account_def split: option.splits)
  from assms(1) have db: "rows_ok (gw_db g)" by (simp add: guarded_def)
  with r have "acc_id (row_account r) = i" by (simp add: live_row_Some rows_ok_id)
  with db r have ok: "rows_ok (gw_db g')"
    by (simp add: g' pg_delete_account_def Let_def rows_ok_def)
  have other: "hget (pg_accounts (gw_db g')) j = hget (pg_accounts (gw_db g)) j" if "j \<noteq> i" for j
    using that r by (simp add: g' pg_delete_account_def Let_def)
  have "guarded D (g\<lparr>gw_sched := remove_account i (block_account i (gw_sched g))\<rparr>)"
    using guarded_remove [OF guarded_block [OF assms(1)], of i i] by simp
  then have c: "copies_ok (gw_sched g')"
    and o: "\<And>j r. hget (pg_accounts (gw_db g)) j = Some r \<Longrightarrow> \<not> acc_enabled (row_account r) \<Longrightarrow> j \<notin> D \<Longrightarrow>
      off (gw_sched g') j"
    by (simp_all add: guarded_def g')
  have i: "off (gw_sched g') i" by (simp add: g' off_def remove_account_def)
  show ?thesis unfolding guarded_def
  proof (intro conjI allI impI)
    fix j r' assume "hget (pg_accounts (gw_db g')) j = Some r'" "\<not> acc_enabled (row_account r')" "j \<notin> D"
    then show "off (gw_sched g') j" using i o other by (cases "j = i") auto
  qed (use ok c in simp_all)
qed

lemma guard_delete_failed:
  assumes "guarded D g" and "sched_account (gw_sched g) i = Some a" and "admin_delete_account i g = (Inl e, g')"
  shows "guarded (insert i D) g'"
proof -
  have s': "gw_sched g' = update_account a (block_account i (gw_sched g))"
    and d': "gw_db g' = gw_db g \<or> gw_db g' = snd (pg_delete_account i (gw_db g))"
    using assms(2,3)
    by (auto simp: admin_delete_account_def current_account_def act_defs act_store_def
        split: prod.splits sum.splits list.splits fault.splits)
  from assms(1) have db: "rows_ok (gw_db g)" and c: "copies_ok (gw_sched g)" by (simp_all add: guarded_def)
  from c assms(2) have a: "acc_id a = i" by (simp add: copies_ok_def sched_account_def)
  have "guarded D (g\<lparr>gw_sched := block_account i (gw_sched g)\<rparr>)" by (rule guarded_block [OF assms(1)])
  then have c': "copies_ok (gw_sched g')" by (simp add: s' guarded_def copies_ok_update)
  have rows: "rows_ok (gw_db g')
      \<and> (\<forall>j. j \<noteq> i \<longrightarrow> hget (pg_accounts (gw_db g')) j = hget (pg_accounts (gw_db g)) j)"
  proof (cases "live_row (gw_db g) i")
    case None
    with d' db show ?thesis by (auto simp: pg_delete_account_def)
  next
    case (Some r)
    with db have "acc_id (row_account r) = i" by (simp add: live_row_Some rows_ok_id)
    with db Some have "rows_ok (snd (pg_delete_account i (gw_db g)))"
      by (simp add: pg_delete_account_def Let_def rows_ok_def)
    moreover have "\<forall>j. j \<noteq> i \<longrightarrow> hget (pg_accounts (snd (pg_delete_account i (gw_db g)))) j
        = hget (pg_accounts (gw_db g)) j"
      using Some by (simp add: pg_delete_account_def Let_def)
    ultimately show ?thesis using d' db by auto
  qed
  have "off (gw_sched g') j" if "hget (pg_accounts (gw_db g')) j = Some r" "\<not> acc_enabled (row_account r)"
    "j \<notin> insert i D" for j r
  proof -
    from that rows have "off (gw_sched g) j" using assms(1) unfolding guarded_def by auto
    then have "off (block_account i (gw_sched g)) j" by (auto simp: off_def block_account_def)
    with that(3) a show ?thesis by (simp add: s' off_update_other)
  qed
  with c' rows show ?thesis unfolding guarded_def by blast
qed

lemma guarded_delete:
  assumes "guarded D g" and "admin_delete_account i g = (r, g')"
  shows "guarded (if isl r \<and> sched_account (gw_sched g) i \<noteq> None then insert i D else D) g'"
proof (cases r)
  case (Inl e)
  show ?thesis
  proof (cases "sched_account (gw_sched g) i")
    case None
    with assms(2) have "g' = g" by (auto simp: admin_delete_account_def current_account_def act_defs)
    with None assms(1) show ?thesis by simp
  next
    case (Some a)
    with Inl guard_delete_failed [OF assms(1) Some] assms(2) show ?thesis by simp
  qed
qed (use guard_delete_done [OF assms(1)] assms(2) in simp)

lemma guarded_control_step: "control_step w w' \<Longrightarrow> guarded (snd w) (fst w) \<Longrightarrow> guarded (snd w') (fst w')"
proof (induction rule: control_step.induct)
  case (cs_delete i g r g' D)
  then show ?case using guarded_delete [of D g i r g'] by simp
qed (use guard_set_enabled guard_disable_observed guard_observation guard_reconcile guard_reenable
      guard_update_account in \<open>simp_all add: guard.keeps_def guard.cond_faults guarded_traffic\<close>)

interpretation control: invariant_system "\<lambda>w. control_start (fst w) \<and> snd w = {}" control_step
    "\<lambda>w. guarded (snd w) (fst w)"
  by unfold_locales (auto simp: guarded_start guarded_control_step)

subsection \<open>Dispatch sees every switch\<close>

lemma granted_copy:
  assumes "copies_ok s" and "try_reserve cfg now nid nns i s = Inr (Some l, s')"
  shows "\<not> off s (acc_id (dl_account l))"
  using assms(2)
proof (rule try_reserve_SomeE)
  fix session w pos a
  assume np: "\<not> sc_paused s" and sel: "select_next cfg now s = Some (session, w, pos, a)"
    and l: "l = \<lparr>dl_source = w_source w, dl_model = w_model w, dl_group_id = w_group_id w,
            dl_id = i, dl_session = session, dl_thread_id = w_thread_id w, dl_account = a,
            dl_binding = granted_binding nid nns s session w a,
            dl_needs_commit = migrates s session w a,
            dl_expected_generation = generation_of s session\<rparr>"
  have c: "candidate cfg now s session w = Some a"
    by (rule select_session_Some(4) [OF select_next_Some(2) [OF sel]])
  have ids: "\<forall>i x. hget (sc_accounts s) i = Some x \<longrightarrow> acc_id x = i"
    using assms(1) unfolding copies_ok_def by blast
  note ch = choose_account_Some [OF candidate_Some(5) [OF c]]
  from ch(3) obtain j where "(j, a) \<in> set (sc_accounts s)" by auto
  then have "hget (sc_accounts s) j = Some a"
    using assms(1) by (simp add: copies_ok_def hget_mem_iff)
  with ids have "hget (sc_accounts s) (acc_id a) = Some a" by auto
  with np not_blocked_when_granted [OF c ids] ch(2) show ?thesis
    by (simp add: l off_def serves_def)
qed


text \<open>A gateway with two accounts; the database loses no call.\<close>

definition ex_row :: "uuid \<Rightarrow> account_row" where
  "ex_row i = \<lparr>row_account = ex_account i, row_credentials = ''c'', row_deleted = False\<rparr>"

definition ex_db :: pg where
  "ex_db = \<lparr>pg_groups = {7}, pg_accounts = [(5, ex_row 5), (6, ex_row 6)],
     pg_account_groups = {(5, 7), (6, 7)}, pg_extra_credits = [], pg_current_quotas = [],
     pg_snapshots = 0, pg_sessions = [], pg_bindings = [], pg_mappings = [], pg_reset_credits = [],
     pg_resets = [], pg_safety = [], pg_events = []\<rparr>"

definition ex_gateway :: "sched \<Rightarrow> fault list \<Rightarrow> gateway" where
  "ex_gateway s fs = \<lparr>gw_db = ex_db, gw_sched = s, gw_settings = settings_default,
     gw_safety = [], gw_faults = fs\<rparr>"

lemma ex_row_sel [simp]: "row_account (ex_row i) = ex_account i" "\<not> row_deleted (ex_row i)"
  by (simp_all add: ex_row_def)

lemma ex_gateway_sel [simp]:
  "gw_db (ex_gateway s fs) = ex_db" "gw_sched (ex_gateway s fs) = s" "gw_faults (ex_gateway s fs) = fs"
  "gw_settings (ex_gateway s fs) = settings_default"
  "ex_gateway s fs\<lparr>gw_sched := t\<rparr> = ex_gateway t fs"
  "ex_gateway s fs\<lparr>gw_faults := fs'\<rparr> = ex_gateway s fs'"
  by (simp_all add: ex_gateway_def)

lemma ex_enabled [simp]: "acc_enabled (ex_account i)" "acc_disable_reason (ex_account i) = None"
  "acc_version (ex_account i) = 1"
  by (simp_all add: ex_account_def)

lemma ex_rows_ok: "rows_ok ex_db"
  by (simp add: rows_ok_def ex_db_def hwf_def split: if_splits)

lemma ex_control_start: "control_start (ex_gateway ex_s0 fs)"
  unfolding control_start_def ex_gateway_sel
  by (intro conjI ex_rows_ok) (simp_all add: ex_db_def ex_s0_def sched_new_def collect_map_def)

lemma ex_view: "admin_view ex_s2 = admin_view ex_s0"
  by (simp add: admin_view_def ex_states)


text \<open>
  C37. Deleting an account is the exception: when the deletion is committed and its
  acknowledgement lost, the handler reports a storage error and puts the account it read
  before back into the scheduler, so that an account deleted in the database can be granted.
\<close>

theorem deletion_lost_ack_reopens:
  assumes "gw_faults g = LostAfter # fs" and "sched_account (gw_sched g) i = Some a" and "acc_id a = i"
    and "acc_enabled a" and "\<not> sc_paused (gw_sched g)" and "i \<notin> sc_deleted_accounts (gw_sched g)"
    and "live_row (gw_db g) i = Some r"
  shows "fst (admin_delete_account i g) = Inl err_storage
    \<and> (\<exists>r'. hget (pg_accounts (gw_db (snd (admin_delete_account i g)))) i = Some r' \<and> row_deleted r')
    \<and> sched_account (gw_sched (snd (admin_delete_account i g))) i = Some a
    \<and> \<not> off (gw_sched (snd (admin_delete_account i g))) i"
  using assms
  by (simp add: admin_delete_account_def current_account_def act_defs act_store_def
      pg_delete_account_def Let_def sched_account_def block_account_def update_account_def off_def)

theorem deletion_lost_ack_reopens_witness:
  "\<not> off (gw_sched (snd (admin_delete_account 5 (ex_gateway ex_s0 [LostAfter])))) 5"
  using deletion_lost_ack_reopens [of "ex_gateway ex_s0 [LostAfter]" "[]" 5 "ex_account 5" "ex_row 5"]
  by (simp add: ex_s0_def sched_new_def sched_account_def collect_map_def live_row_def ex_db_def)

subsection \<open>Switches made by hand stay\<close>

text \<open>
  An account that an administrator or a failed refresh disabled: neither its copy nor its row
  changes. The condition also says that copies are stored under their own ids.
\<close>

definition hand_disabled :: "account \<Rightarrow> account_row option \<Rightarrow> gateway \<Rightarrow> bool" where
  "hand_disabled a r g \<longleftrightarrow> rows_ok (gw_db g) \<and> copies_ok (gw_sched g)
     \<and> hget (sc_accounts (gw_sched g)) (acc_id a) = Some a
     \<and> hget (pg_accounts (gw_db g)) (acc_id a) = r"

interpretation hand: state_condition "hand_disabled a r"
  by unfold_locales (simp add: hand_disabled_def)

lemma hand_store: "spares_rows f \<Longrightarrow> hand.keeps a r (act_store f)"
  by (rule hand.keeps_store) (simp add: hand_disabled_def rows_ok_def spares_rows_def)

lemma hand_sched:
  "(\<And>s. copies_ok s \<Longrightarrow> copies_ok (f s)) \<Longrightarrow> (\<And>s. hget (sc_accounts (f s)) (acc_id a) = hget (sc_accounts s) (acc_id a))
     \<Longrightarrow> hand.keeps a r (act_sched f)"
  by (rule hand.keeps_sched) (simp add: hand_disabled_def)

lemma hand_block: "hand.keeps a r (act_sched (block_account i))"
  by (rule hand_sched) (simp_all add: block_account_def copies_ok_def)

lemma hand_pause: "hand.keeps a r (act_sched (set_paused v))"
  by (rule hand_sched) (simp_all add: set_paused_def copies_ok_def)

lemma hand_update: "acc_id b \<noteq> acc_id a \<Longrightarrow> hand.keeps a r (act_sched (update_account b))"
  by (rule hand_sched) (rule copies_ok_update, assumption, simp add: update_account_def)

lemmas hand_rules = hand.keeps_return hand.keeps_fail hand.keeps_read hand.keeps_or
  hand_block hand_pause

lemma hand_commit:
  assumes "i \<noteq> acc_id a"
  shows "hand.keeps a r (commit_enabled now i e reason v)"
proof -
  let ?f = "pg_set_enabled now i e reason v ''upstream''"
  have w: "writes_row i ?f" by (rule writes_set_enabled)
  have keep: "hand_disabled a r (g\<lparr>gw_db := snd (?f (gw_db g)), gw_faults := fs\<rparr>)"
    if "hand_disabled a r g" for g fs
    using that w assms by (simp add: hand_disabled_def writes_row_def)
  have id: "acc_id b = i" if "hand_disabled a r g" "fst (?f (gw_db g)) = Inr b" for g b
    using that w unfolding hand_disabled_def writes_row_def by blast
  have "runs (hand_disabled a r) (act_store ?f) (\<lambda>b g. hand_disabled a r g \<and> acc_id b = i)
      (\<lambda>_. hand_disabled a r)"
    by (rule runs_store) (use keep id hand.cond_faults in blast)+
  then have t: "runs (hand_disabled a r) (act_try (act_store ?f))
      (\<lambda>x g. hand_disabled a r g \<and> (\<forall>b. x = Inr b \<longrightarrow> acc_id b = i)) (\<lambda>_. hand_disabled a r)"
    by (rule runs_try [OF runs_conseq]) auto
  have "runs (hand_disabled a r) (act_bind (act_try (act_store ?f)) (\<lambda>x.
       case x of Inr b \<Rightarrow> act_sched (update_account b)
       | Inl e \<Rightarrow> act_then (act_sched (set_paused True)) (act_fail e)))
      (\<lambda>_. hand_disabled a r) (\<lambda>_. hand_disabled a r)"
  proof (rule runs_bind [OF t])
    fix x
    have "hand.keeps a r (case x of Inl e \<Rightarrow> act_then (act_sched (set_paused True)) (act_fail e)
        | Inr b \<Rightarrow> act_sched (update_account b))" if "\<forall>b. x = Inr b \<longrightarrow> acc_id b = i"
      using that assms by (cases x) (auto intro!: hand.keeps_then hand_rules hand_update)
    then show "runs (\<lambda>g. hand_disabled a r g \<and> (\<forall>b. x = Inr b \<longrightarrow> acc_id b = i))
        (case x of Inl e \<Rightarrow> act_then (act_sched (set_paused True)) (act_fail e)
         | Inr b \<Rightarrow> act_sched (update_account b)) (\<lambda>_. hand_disabled a r) (\<lambda>_. hand_disabled a r)"
      unfolding hand.keeps_def runs_same by blast
  qed
  then have "hand.keeps a r (act_bind (act_try (act_store ?f)) (\<lambda>x.
       case x of Inr b \<Rightarrow> act_sched (update_account b)
       | Inl e \<Rightarrow> act_then (act_sched (set_paused True)) (act_fail e)))"
    by (simp add: hand.keeps_def runs_same)
  then show ?thesis unfolding commit_enabled_def by (intro hand.keeps_then hand_block)
qed

definition switched_by_hand :: "account \<Rightarrow> bool" where
  "switched_by_hand a \<longleftrightarrow> \<not> acc_enabled a
     \<and> acc_disable_reason a \<notin> Some ` {Quota5hExhausted, Quota7dExhausted, QuotaExhausted}"

text \<open>Acting on the current copy of an account: that of \<open>a\<close> itself, or another account's.\<close>

lemma hand_current:
  assumes "hand.keeps a r (f a)" and "\<And>b. acc_id b = i \<Longrightarrow> i \<noteq> acc_id a \<Longrightarrow> hand.keeps a r (f b)"
  shows "hand.keeps a r (act_bind (current_account i) f)"
proof (rule hand.keepsI)
  fix g assume g: "hand_disabled a r g"
  show "hand_disabled a r (snd (act_bind (current_account i) f g))"
  proof (cases "hget (sc_accounts (gw_sched g)) i")
    case None
    with g show ?thesis by (simp add: current_account_def act_defs sched_account_def)
  next
    case (Some b)
    with g have "acc_id b = i" by (simp add: hand_disabled_def copies_ok_def)
    with g Some have "b = a \<or> i \<noteq> acc_id a" by (auto simp: hand_disabled_def)
    with assms \<open>acc_id b = i\<close> have "hand.keeps a r (f b)" by blast
    with g Some show ?thesis
      by (simp add: current_account_def act_defs sched_account_def hand.keeps_def)
  qed
qed

lemma hand_extra: "hand.keeps a r (extra_available now b)"
  unfolding extra_available_def by (auto intro!: hand.keeps_bind hand_rules hand_store)

lemma hand_reconcile_locked:
  assumes "b = a \<Longrightarrow> switched_by_hand a" and "b \<noteq> a \<Longrightarrow> acc_id b \<noteq> acc_id a"
  shows "hand.keeps a r (reconcile_quota_locked now b allow)"
proof (cases "b = a")
  case True
  with assms have "reconcile_quota_locked now b allow = act_return ()"
    by (auto simp: reconcile_quota_locked_def switched_by_hand_def quota_reason_def Let_def
        split: option.split)
  then show ?thesis by (simp add: hand_rules)
next
  case False
  with assms show ?thesis
    unfolding reconcile_quota_locked_def Let_def
    by (auto intro!: hand.keeps_bind hand_rules hand_store hand_extra hand_commit)
qed

lemma hand_reconcile: "switched_by_hand a \<Longrightarrow> hand.keeps a r (reconcile_account_quotas now i)"
  unfolding reconcile_account_quotas_def by (intro hand_current hand_reconcile_locked) auto

lemma hand_observation:
  "switched_by_hand a \<Longrightarrow> hand.keeps a r (apply_quota_observation now i v ws c allow)"
  unfolding apply_quota_observation_def
  by (auto intro!: hand_current hand.keeps_then hand_rules hand_store hand_reconcile_locked
      split: option.split)

lemma hand_disable: "switched_by_hand a \<Longrightarrow> hand.keeps a r (disable_observed now i v reason)"
  unfolding disable_observed_def
  by (rule hand_current; auto intro!: hand.keeps_then hand.keeps_bind hand_rules hand_store hand_commit
      simp: switched_by_hand_def split: option.split)

lemma hand_reenable: "switched_by_hand a \<Longrightarrow> hand.keeps a r (reenable_expired_quotas now)"
  unfolding reenable_expired_quotas_def
  by (auto intro!: hand.keeps_bind hand.keeps_each hand_rules hand_reconcile)

text \<open>Everything upstream observations cause.\<close>

inductive observation_step :: "gateway \<Rightarrow> gateway \<Rightarrow> bool" where
  os_faults: "observation_step g (g\<lparr>gw_faults := fs\<rparr>)"
| os_disable: "observation_step g (snd (disable_observed now i v reason g))"
| os_observe: "observation_step g (snd (apply_quota_observation now i v ws c b g))"
| os_reconcile: "observation_step g (snd (reconcile_account_quotas now i g))"
| os_reenable: "observation_step g (snd (reenable_expired_quotas now g))"

lemma hand_step:
  "switched_by_hand a \<Longrightarrow> hand_disabled a r g \<Longrightarrow> observation_step g g' \<Longrightarrow> hand_disabled a r g'"
  by (erule observation_step.cases)
    (use hand_disable [of a r] hand_observation [of a r] hand_reconcile [of a r] hand_reenable [of a r]
      in \<open>auto simp: hand.keeps_def hand.cond_faults\<close>)

text \<open>
  No sequence of quota observations, rejections and reconciliations, under any loss of
  store calls, changes an account that was disabled by an administrator or by a failed
  refresh: its copy in the scheduler and its row stay as they were.
\<close>

lemma hand_switch_survives:
  assumes "guarded {} g" and "sched_account (gw_sched g) i = Some a" and "switched_by_hand a"
    and "observation_step\<^sup>*\<^sup>* g g'"
  shows "sched_account (gw_sched g') i = Some a
    \<and> hget (pg_accounts (gw_db g')) i = hget (pg_accounts (gw_db g)) i"
proof -
  from assms(1,2) have i: "acc_id a = i" by (simp add: guarded_def copies_ok_def sched_account_def)
  with assms(1,2) have "hand_disabled a (hget (pg_accounts (gw_db g)) i) g"
    by (simp add: hand_disabled_def guarded_def sched_account_def)
  with assms(4) have "hand_disabled a (hget (pg_accounts (gw_db g)) i) g'"
    by (induction rule: rtranclp_induct) (auto intro: hand_step [OF assms(3)])
  with i show ?thesis by (simp add: hand_disabled_def sched_account_def)
qed

definition ex_off_account :: account where
  "ex_off_account = (ex_account 5)\<lparr>acc_enabled := False, acc_disable_reason := Some AdminDisabled\<rparr>"

definition ex_off_gateway :: gateway where
  "ex_off_gateway = (ex_gateway (ex_s0\<lparr>sc_accounts := [(5, ex_off_account)]\<rparr>) [LostAfter])
     \<lparr>gw_db := ex_db\<lparr>pg_accounts := [(5, (ex_row 5)\<lparr>row_account := ex_off_account\<rparr>)]\<rparr>\<rparr>"

lemma ex_off_guarded: "guarded {} ex_off_gateway"
  by (rule guarded_start)
    (simp add: control_start_def ex_off_gateway_def rows_ok_def hwf_def ex_off_account_def ex_s0_def sched_new_def)

lemma hand_switch_survives_witness:
  "sched_account (gw_sched (snd (reenable_expired_quotas 0 ex_off_gateway))) 5 = Some ex_off_account"
proof -
  have "observation_step\<^sup>*\<^sup>* ex_off_gateway (snd (reenable_expired_quotas 0 ex_off_gateway))"
    by (rule r_into_rtranclp) (rule os_reenable)
  from hand_switch_survives [OF ex_off_guarded _ _ this, of 5 ex_off_account] show ?thesis
    by (simp add: ex_off_gateway_def sched_account_def switched_by_hand_def ex_off_account_def image_iff)
qed

subsection \<open>The quota decision\<close>

definition credits_cover :: "gateway \<Rightarrow> account \<Rightarrow> datetime \<Rightarrow> bool" where
  "credits_cover g a now \<longleftrightarrow> acc_use_extra_credits a
     \<and> (case hget (pg_extra_credits (gw_db g)) (acc_id a) of None \<Rightarrow> False
        | Some c \<Rightarrow> credits_available c now (rs_quota_stale_after_secs (gw_settings g)))"

lemma blocking_reason_None_iff:
  "blocking_reason ws x now = None \<longleftrightarrow> (\<forall>w\<in>set ws. \<not> quota_blocked w x now)"
proof (cases "List.find (\<lambda>w. quota_blocked w x now) ws")
  case (Some w)
  then have "quota_blocked w x now" "w \<in> set ws" by (auto simp: find_Some_iff)
  with Some show ?thesis using blocked_has_reason [of w x now] by (auto simp: blocking_reason_def)
next
  case None
  then have "\<forall>w\<in>set ws. \<not> quota_blocked w x now" by (simp add: find_None_iff)
  with None show ?thesis by (simp add: blocking_reason_def)
qed

text \<open>What one reconciliation does with a database that answers.\<close>

lemma act_store_works: "gw_faults g = [] \<Longrightarrow> act_store f g = (fst (f (gw_db g)), g\<lparr>gw_db := snd (f (gw_db g))\<rparr>)"
  by (simp add: act_store_def)

lemma extra_available_works:
  "gw_faults g = [] \<Longrightarrow> extra_available now a g = (Inr (credits_cover g a now), g)"
  by (simp add: extra_available_def credits_cover_def act_defs act_store_works pg_extra_credits_of_def)

lemma commit_works:
  assumes "gw_faults g = []" and "live_row (gw_db g) i = Some r" and "acc_version (row_account r) = v"
    and "acc_id (row_account r) = i" and "i \<notin> sc_deleted_accounts (gw_sched g)"
  shows "\<exists>g' a'. commit_enabled now i e reason v g = (Inr (), g')
    \<and> sched_account (gw_sched g') i = Some a' \<and> i \<notin> sc_blocked (gw_sched g')
    \<and> live_row (gw_db g') i = Some (r\<lparr>row_account := a'\<rparr>)
    \<and> acc_enabled a' = e \<and> acc_disable_reason a' = (if e then None else reason)"
  using assms
  by (simp add: commit_enabled_def act_defs act_store_works block_account_def pg_set_enabled_def Let_def
      update_account_def sched_account_def live_row_def split: option.splits if_splits)

lemma quota_decided:
  assumes "gw_faults g = []" and "sched_account (gw_sched g) i = Some a" and "acc_id a = i"
    and "i \<notin> sc_deleted_accounts (gw_sched g)"
    and "live_row (gw_db g) i = Some r" and "row_account r = a"
    and "acc_enabled a \<or> acc_disable_reason a \<in> Some ` {Quota5hExhausted, Quota7dExhausted, QuotaExhausted}"
    and "fst (pg_quotas i (gw_db g)) = Inr ws" and "ws \<noteq> []"
  shows "\<exists>g' a'. reconcile_account_quotas now i g = (Inr (), g')
    \<and> sched_account (gw_sched g') i = Some a' \<and> live_row (gw_db g') i = Some (r\<lparr>row_account := a'\<rparr>)
    \<and> (acc_enabled a' \<longleftrightarrow> (\<forall>w\<in>set ws. \<not> quota_blocked w (credits_cover g a now) now))
    \<and> (acc_enabled a \<and> \<not> acc_enabled a' \<longrightarrow>
         (\<exists>w\<in>set ws. quota_blocked w (credits_cover g a now) now
            \<and> acc_disable_reason a' = window_disable_reason w))"
proof -
  let ?x = "credits_cover g a now"
  let ?reason = "blocking_reason ws ?x now"
  have q: "pg_quotas i (gw_db g) = (Inr ws, gw_db g)"
    using assms(8) by (auto simp: pg_quotas_def)
  have start: "reconcile_account_quotas now i g = reconcile_quota_locked now a True g"
    using assms(2) by (simp add: reconcile_account_quotas_def current_account_def act_defs)
  have quota: "\<not> (\<not> acc_enabled a \<and> (\<not> True \<or> \<not> (case acc_disable_reason a of None \<Rightarrow> False | Some r \<Rightarrow> quota_reason r)))"
    using assms(7) by (auto simp: quota_reason_def)
  have run: "reconcile_account_quotas now i g =
      (if (?reason = None) = acc_enabled a then (Inr (), g)
       else commit_enabled now i (?reason = None) ?reason (acc_version a) g)"
    using quota assms(1,3,9) q
    unfolding start reconcile_quota_locked_def Let_def
    by (simp add: act_defs act_store_works extra_available_works, blast)
  have why: "\<exists>w\<in>set ws. quota_blocked w ?x now \<and> ?reason = window_disable_reason w"
    if "?reason \<noteq> None"
  proof -
    from that obtain w where w: "List.find (\<lambda>w. quota_blocked w ?x now) ws = Some w"
      by (auto simp: blocking_reason_def split: bind_splits)
    then have "w \<in> set ws" "quota_blocked w ?x now" by (auto simp: find_Some_iff)
    with w show ?thesis by (auto simp: blocking_reason_def)
  qed
  show ?thesis
  proof (cases "(?reason = None) = acc_enabled a")
    case True
    with assms(2,5,6) show ?thesis
      unfolding run blocking_reason_None_iff [symmetric] by (intro exI [of _ g] exI [of _ a]) auto
  next
    case False
    obtain g' a' where c: "commit_enabled now i (?reason = None) ?reason (acc_version a) g = (Inr (), g')"
      "sched_account (gw_sched g') i = Some a'" "live_row (gw_db g') i = Some (r\<lparr>row_account := a'\<rparr>)"
      "acc_enabled a' = (?reason = None)" "acc_disable_reason a' = (if ?reason = None then None else ?reason)"
      using commit_works [OF assms(1,5), of "acc_version a" now "?reason = None" ?reason] assms(3,4,6) by auto
    show ?thesis
      unfolding run blocking_reason_None_iff [symmetric]
      by (intro exI [of _ g'] exI [of _ a']) (use False c why in auto)
  qed
qed


definition ex_window :: quota_window where
  "ex_window = \<lparr>qw_pool = ''codex'', qw_window_minutes = Some 300, qw_used_percent = Fin 100,
     qw_resets_at = None, qw_observed_at = 0, qw_source = ''poll''\<rparr>"

definition ex_quota_gateway :: gateway where
  "ex_quota_gateway = (ex_gateway ex_s0 [])
     \<lparr>gw_db := ex_db\<lparr>pg_current_quotas := [((5, ''codex'', 300), 0, 1, ex_window)]\<rparr>\<rparr>"


end
