(* ===== verification/Pricing.thy ===== *)
theory Pricing
  imports Core_Types
begin

section \<open>Prices and valuations\<close>

text \<open>
  \<open>crates/xxgate-core/src/pricing.rs\<close> and \<open>usage.rs\<close>: the price list, its validation
  and the valuation of a finished request. A \<open>Decimal\<close> is its value with its scale (the
  number of decimal places it is stored with); the arithmetic of the crate
  \<open>rust_decimal\<close> is the parameter \<open>dec_ops\<close>.
\<close>

record decimal =
  dec_value :: rat
  dec_scale :: nat

record dec_ops =
  op_mul :: "decimal \<Rightarrow> decimal \<Rightarrow> decimal"
  op_div :: "decimal \<Rightarrow> decimal \<Rightarrow> decimal"
  op_add :: "decimal \<Rightarrow> decimal \<Rightarrow> decimal"
  op_round8 :: "decimal \<Rightarrow> decimal"

definition dec_of_nat :: "nat \<Rightarrow> decimal" where
  "dec_of_nat n = \<lparr>dec_value = of_nat n, dec_scale = 0\<rparr>"

record rates =
  input_per_million :: decimal
  cached_input_per_million :: decimal
  output_per_million :: decimal
  image_input_per_million :: "decimal option"
  image_output_per_million :: "decimal option"
  per_image :: "decimal option"

definition rates_multiplied :: "dec_ops \<Rightarrow> decimal \<Rightarrow> rates \<Rightarrow> rates" where
  "rates_multiplied ops factor r =
     \<lparr>input_per_million = op_mul ops (input_per_million r) factor,
      cached_input_per_million = op_mul ops (cached_input_per_million r) factor,
      output_per_million = op_mul ops (output_per_million r) factor,
      image_input_per_million = map_option (\<lambda>x. op_mul ops x factor) (image_input_per_million r),
      image_output_per_million = map_option (\<lambda>x. op_mul ops x factor) (image_output_per_million r),
      per_image = map_option (\<lambda>x. op_mul ops x factor) (per_image r)\<rparr>"

definition rate_values :: "rates \<Rightarrow> decimal list" where
  "rate_values r =
     [input_per_million r, cached_input_per_million r, output_per_million r]
     @ concat (map (case_option [] (\<lambda>x. [x]))
         [image_input_per_million r, image_output_per_million r, per_image r])"

definition price_range :: "decimal \<Rightarrow> bool" where
  "price_range v \<longleftrightarrow> 0 \<le> dec_value v \<and> dec_value v \<le> 1000000"

definition rates_validate :: "rates \<Rightarrow> unit res" where
  "rates_validate r =
     (if \<not> (\<forall>v\<in>set (rate_values r). price_range v)
      then Inl (err_invalid ''Prices must be between 0 and 1000000 CNY'')
      else if per_image r \<noteq> None \<and>
              (image_input_per_million r \<noteq> None \<or> image_output_per_million r \<noteq> None)
      then Inl (err_invalid ''Use image token rates or a per-image rate, not both'')
      else Inr ())"

record price =
  pr_version :: int
  pr_model :: model_ref
  pr_standard :: rates
  pr_fast_multiplier :: "decimal option"

definition fast_factor :: "decimal option \<Rightarrow> decimal option" where
  "fast_factor m =
     (case m of
        None \<Rightarrow> None
      | Some v \<Rightarrow> if 0 < dec_value v \<and> dec_value v \<le> 100 then Some v else None)"

definition price_validate :: "price \<Rightarrow> unit res" where
  "price_validate p =
     and_then (rates_validate (pr_standard p)) (\<lambda>_.
       if fast_factor (pr_fast_multiplier p) = None
       then Inl (err_invalid (''Fast '' @ uni [0x500D, 0x7387, 0x5FC5, 0x987B, 0x5927, 0x4E8E]
         @ '' 0 '' @ uni [0x4E14, 0x4E0D, 0x8D85, 0x8FC7] @ '' 100'' @ uni [0x3002]))
       else Inr ())"

record price_line =
  pl_kind :: string
  pl_quantity :: nat
  pl_rate :: decimal
  pl_cny :: decimal

record valuation =
  va_status :: string
  va_price_version :: "int option"
  va_cny :: "decimal option"
  va_items :: "price_line list"

record search_price =
  sp_version :: int
  sp_per_call :: "decimal option"

definition search_price_validate :: "search_price \<Rightarrow> unit res" where
  "search_price_validate p =
     (if (case sp_per_call p of None \<Rightarrow> False | Some v \<Rightarrow> \<not> price_range v \<or> 8 < dec_scale v)
      then Inl (err_invalid (''Search '' @ uni [0x5355, 0x4EF7, 0x5E94, 0x4E3A] @ '' 0 ''
        @ uni [0x81F3] @ '' 1000000 '' @ uni [0x5143, 0xFF0C, 0x6700, 0x591A] @ '' 8 ''
        @ uni [0x4F4D, 0x5C0F, 0x6570]))
      else Inr ())"

definition value_search :: "dec_ops \<Rightarrow> nat \<Rightarrow> search_price option \<Rightarrow> valuation" where
  "value_search ops calls p =
     (if calls = 0
      then \<lparr>va_status = ''not_charged'', va_price_version = None, va_cny = Some (dec_of_nat 0), va_items = []\<rparr>
      else case Option.bind p sp_per_call of
        None \<Rightarrow> \<lparr>va_status = ''unpriced_search'', va_price_version = None, va_cny = None, va_items = []\<rparr>
      | Some rate \<Rightarrow>
          let cny = op_round8 ops (op_mul ops (dec_of_nat calls) rate) in
          \<lparr>va_status = ''priced'', va_price_version = None, va_cny = Some cny,
           va_items = [\<lparr>pl_kind = ''search'', pl_quantity = calls, pl_rate = rate, pl_cny = cny\<rparr>]\<rparr>)"

subsection \<open>Usage\<close>

record usage =
  us_search_calls :: nat
  us_input_tokens :: "nat option"
  us_cached_input_tokens :: "nat option"
  us_output_tokens :: "nat option"
  us_reasoning_output_tokens :: "nat option"
  us_image_input_tokens :: "nat option"
  us_image_output_tokens :: "nat option"
  us_image_count :: nat
  us_image_tool_usage_reported :: bool
  us_service_tier :: "string option"
  us_source :: string
  us_complete :: bool
  us_raw_usage :: json

definition usage_default :: usage where
  "usage_default =
     \<lparr>us_search_calls = 0, us_input_tokens = None, us_cached_input_tokens = None,
      us_output_tokens = None, us_reasoning_output_tokens = None, us_image_input_tokens = None,
      us_image_output_tokens = None, us_image_count = 0, us_image_tool_usage_reported = False,
      us_service_tier = None, us_source = [], us_complete = False, us_raw_usage = JNull\<rparr>"

definition fast_tier :: "string option \<Rightarrow> bool" where
  "fast_tier t \<longleftrightarrow> t = Some ''fast'' \<or> t = Some ''priority''"

text \<open>
  The token counts that are billed as text: an Images response reports totals that include
  its image tokens. \<open>Inl\<close> carries the status that ends the valuation.
\<close>

definition billed_tokens :: "usage \<Rightarrow> string + (nat \<times> nat)" where
  "billed_tokens u =
     (case (us_input_tokens u, us_output_tokens u) of
        (Some i, Some out) \<Rightarrow>
          if us_source u = ''images_response''
          then (case (us_image_input_tokens u, us_image_output_tokens u) of
                  (Some ii, Some io) \<Rightarrow>
                    if ii \<le> i \<and> io \<le> out then Inr (i - ii, out - io) else Inl ''invalid_usage''
                | _ \<Rightarrow> Inl ''usage_unknown'')
          else Inr (i, out)
      | _ \<Rightarrow> Inl ''usage_unknown'')"

definition rates_for :: "dec_ops \<Rightarrow> usage \<Rightarrow> string option \<Rightarrow> price option \<Rightarrow> string + rates" where
  "rates_for ops u tier p =
     (case p of
        None \<Rightarrow> Inl ''unpriced''
      | Some p \<Rightarrow>
          if us_service_tier u = None \<and> fast_tier tier then Inl ''tier_unknown''
          else if fast_tier (us_service_tier u)
          then (case fast_factor (pr_fast_multiplier p) of
                  None \<Rightarrow> Inl ''unpriced_fast''
                | Some factor \<Rightarrow> Inr (rates_multiplied ops factor (pr_standard p)))
          else Inr (pr_standard p))"

definition cached_tokens :: "usage \<Rightarrow> nat \<Rightarrow> nat \<Rightarrow> rates \<Rightarrow> string + nat" where
  "cached_tokens u i out r =
     and_then
       (case us_cached_input_tokens u of
          Some c \<Rightarrow> Inr c
        | None \<Rightarrow>
            if i = 0 \<or> dec_value (input_per_million r) = dec_value (cached_input_per_million r)
            then Inr 0 else Inl ''cache_usage_unknown'')
       (\<lambda>c. if i < c \<or> (case us_reasoning_output_tokens u of None \<Rightarrow> False | Some n \<Rightarrow> out < n)
            then Inl ''invalid_usage'' else Inr c)"

definition price_line_of :: "dec_ops \<Rightarrow> string \<Rightarrow> nat \<Rightarrow> decimal \<Rightarrow> bool \<Rightarrow> price_line" where
  "price_line_of ops kind n rate per_million =
     \<lparr>pl_kind = kind, pl_quantity = n, pl_rate = rate,
      pl_cny = op_round8 ops (op_div ops (op_mul ops (dec_of_nat n) rate)
        (if per_million then dec_of_nat 1000000 else dec_of_nat 1))\<rparr>"

definition token_lines :: "dec_ops \<Rightarrow> nat \<Rightarrow> nat \<Rightarrow> nat \<Rightarrow> rates \<Rightarrow> price_line list" where
  "token_lines ops i out c r =
     [price_line_of ops ''input'' (i - c) (input_per_million r) True,
      price_line_of ops ''cached_input'' c (cached_input_per_million r) True,
      price_line_of ops ''output'' out (output_per_million r) True]"

text \<open>One image token count at its rate: its lines and whether it could be priced.\<close>

definition image_token_line ::
  "dec_ops \<Rightarrow> string \<Rightarrow> nat option \<Rightarrow> decimal option \<Rightarrow> price_line list \<times> bool" where
  "image_token_line ops kind n rate =
     (case (n, rate) of
        (Some n, Some rate) \<Rightarrow> ([price_line_of ops kind n rate True], True)
      | _ \<Rightarrow> ([], n = Some 0))"

definition image_lines :: "dec_ops \<Rightarrow> usage \<Rightarrow> rates \<Rightarrow> price_line list \<times> bool" where
  "image_lines ops u r =
     (if us_image_count u = 0 then ([], True)
      else case per_image r of
        Some rate \<Rightarrow> ([price_line_of ops ''image'' (us_image_count u) rate False], True)
      | None \<Rightarrow>
          if us_image_tool_usage_reported u then
            let a = image_token_line ops ''image_input'' (us_image_input_tokens u) (image_input_per_million r);
                b = image_token_line ops ''image_output'' (us_image_output_tokens u) (image_output_per_million r)
            in (fst a @ fst b, snd a \<and> snd b)
          else ([], False))"

definition value_usage :: "dec_ops \<Rightarrow> usage \<Rightarrow> string option \<Rightarrow> price option \<Rightarrow> valuation" where
  "value_usage ops u tier p =
     (let stop = (\<lambda>status. \<lparr>va_status = status, va_price_version = map_option pr_version p,
                            va_cny = None, va_items = []\<rparr>) in
      case billed_tokens u of
        Inl status \<Rightarrow> stop status
      | Inr (i, out) \<Rightarrow>
          (case rates_for ops u tier p of
             Inl status \<Rightarrow> stop status
           | Inr r \<Rightarrow>
               (case cached_tokens u i out r of
                  Inl status \<Rightarrow> stop status
                | Inr c \<Rightarrow>
                    let (images, priced) = image_lines ops u r;
                        items = token_lines ops i out c r @ images
                    in \<lparr>va_status = (if \<not> priced then ''image_unpriced''
                                    else if us_complete u then ''priced'' else ''partial''),
                        va_price_version = map_option pr_version p,
                        va_cny = (if priced
                          then Some (foldl (op_add ops) (dec_of_nat 0) (map pl_cny items)) else None),
                        va_items = items\<rparr>)))"


subsection \<open>What a valuation says\<close>

definition quantity :: "string \<Rightarrow> price_line list \<Rightarrow> nat" where
  "quantity kind items = sum_list (map pl_quantity (filter (\<lambda>x. pl_kind x = kind) items))"

lemma token_lines_quantity:
  "quantity ''input'' (token_lines ops i out c r) = i - c"
  "quantity ''cached_input'' (token_lines ops i out c r) = c"
  "quantity ''output'' (token_lines ops i out c r) = out"
  by (simp_all add: quantity_def token_lines_def price_line_of_def)

lemma quantity_append [simp]: "quantity k (xs @ ys) = quantity k xs + quantity k ys"
  by (simp add: quantity_def)

lemma image_lines_kinds:
  "x \<in> set (fst (image_lines ops u r)) \<Longrightarrow> pl_kind x \<in> {''image'', ''image_input'', ''image_output''}"
  by (auto simp: image_lines_def image_token_line_def Let_def price_line_of_def
      split: if_splits option.splits)

lemma image_lines_no_text:
  "k \<in> {''input'', ''cached_input'', ''output''} \<Longrightarrow> quantity k (fst (image_lines ops u r)) = 0"
  by (auto simp: quantity_def sum_list_eq_0_iff dest!: image_lines_kinds)

text \<open>The branches of \<open>value_usage\<close> that reach the price lines.\<close>

lemma value_usage_items:
  assumes "va_items (value_usage ops u tier p) \<noteq> []"
  obtains i out r c where "billed_tokens u = Inr (i, out)" "rates_for ops u tier p = Inr r"
    "cached_tokens u i out r = Inr c"
    "va_items (value_usage ops u tier p) = token_lines ops i out c r @ fst (image_lines ops u r)"
    "va_cny (value_usage ops u tier p) = (if snd (image_lines ops u r)
       then Some (foldl (op_add ops) (dec_of_nat 0) (map pl_cny (va_items (value_usage ops u tier p))))
       else None)"
    "va_status (value_usage ops u tier p) = (if \<not> snd (image_lines ops u r) then ''image_unpriced''
       else if us_complete u then ''priced'' else ''partial'')"
  using assms
  by (auto simp: value_usage_def Let_def split: sum.splits prod.splits)

lemma no_items_no_total:
  "va_items (value_usage ops u tier p) = [] \<Longrightarrow> va_cny (value_usage ops u tier p) = None"
  by (auto simp: value_usage_def Let_def token_lines_def split: sum.splits prod.splits)

lemma cached_tokens_le: "cached_tokens u i out r = Inr c \<Longrightarrow> c \<le> i"
  by (auto simp: cached_tokens_def and_then_Inr_iff split: if_splits)

text \<open>
  Nothing is billed twice: when a request is priced line by line, the input and cached
  input lines together bill exactly the text input tokens and the output line exactly the
  text output tokens; for an Images response these exclude the image tokens of the totals.
\<close>

lemma valuation_partitions_tokens:
  assumes "va_items (value_usage ops u tier p) \<noteq> []"
  shows "\<exists>i out. billed_tokens u = Inr (i, out)
    \<and> quantity ''input'' (va_items (value_usage ops u tier p))
      + quantity ''cached_input'' (va_items (value_usage ops u tier p)) = i
    \<and> quantity ''output'' (va_items (value_usage ops u tier p)) = out
    \<and> (us_source u = ''images_response'' \<longrightarrow>
        us_input_tokens u = Some (i + the (us_image_input_tokens u))
        \<and> us_output_tokens u = Some (out + the (us_image_output_tokens u)))"
  using assms
proof (rule value_usage_items)
  fix i out r c
  assume b: "billed_tokens u = Inr (i, out)" and c: "cached_tokens u i out r = Inr c"
    and items: "va_items (value_usage ops u tier p) = token_lines ops i out c r @ fst (image_lines ops u r)"
  from b have "us_source u = ''images_response'' \<longrightarrow>
      us_input_tokens u = Some (i + the (us_image_input_tokens u))
      \<and> us_output_tokens u = Some (out + the (us_image_output_tokens u))"
    by (auto simp: billed_tokens_def split: option.splits if_splits)
  with b c show ?thesis
    by (simp add: items token_lines_quantity image_lines_no_text cached_tokens_le)
qed

text \<open>
  A valuation either has a total or says why not: the total is present exactly when the
  status is \<open>priced\<close> or \<open>partial\<close>, and then it is the sum of the lines; every status that
  stops the valuation early has no lines.
\<close>

lemma valuation_total:
  "let v = value_usage ops u tier p in
     (va_cny v \<noteq> None \<longleftrightarrow> va_status v \<in> {''priced'', ''partial''})
     \<and> (\<forall>total. va_cny v = Some total \<longrightarrow>
          total = foldl (op_add ops) (dec_of_nat 0) (map pl_cny (va_items v)))
     \<and> (va_status v = ''priced'' \<longrightarrow> us_complete u)
     \<and> (va_items v = [] \<longleftrightarrow> va_status v \<notin> {''priced'', ''partial'', ''image_unpriced''})"
proof -
  have stop1: "billed_tokens u = Inl x \<Longrightarrow> x \<in> {''usage_unknown'', ''invalid_usage''}" for x
    by (auto simp: billed_tokens_def split: option.splits if_splits)
  have stop2: "rates_for ops u tier p = Inl x \<Longrightarrow> x \<in> {''unpriced'', ''tier_unknown'', ''unpriced_fast''}" for x
    by (auto simp: rates_for_def split: option.splits if_splits)
  have stop3: "cached_tokens u i out r = Inl x \<Longrightarrow> x \<in> {''cache_usage_unknown'', ''invalid_usage''}" for i out r x
    by (auto simp: cached_tokens_def and_then_def split: option.splits if_splits sum.splits)
  show ?thesis
    by (auto simp: value_usage_def Let_def token_lines_def split: sum.splits prod.splits
        dest!: stop1 stop2 stop3)
qed


text \<open>
  An arithmetic that is exact on this example, and a usage of 1000 input tokens of which
  500 were cached and 1000 output tokens, at 10, 1 and 20 per million.
\<close>

definition ex_ops :: dec_ops where
  "ex_ops =
     \<lparr>op_mul = (\<lambda>a b. \<lparr>dec_value = dec_value a * dec_value b, dec_scale = dec_scale a + dec_scale b\<rparr>),
      op_div = (\<lambda>a b. \<lparr>dec_value = dec_value a / dec_value b, dec_scale = 28\<rparr>),
      op_add = (\<lambda>a b. \<lparr>dec_value = dec_value a + dec_value b, dec_scale = max (dec_scale a) (dec_scale b)\<rparr>),
      op_round8 = (\<lambda>a. \<lparr>dec_value = of_int (round (dec_value a * 10 ^ 8)) / 10 ^ 8, dec_scale = 8\<rparr>)\<rparr>"

definition ex_price :: price where
  "ex_price = \<lparr>pr_version = 1, pr_model = model_codex ''m'',
     pr_standard = \<lparr>input_per_million = dec_of_nat 10, cached_input_per_million = dec_of_nat 1,
       output_per_million = dec_of_nat 20, image_input_per_million = None,
       image_output_per_million = None, per_image = None\<rparr>,
     pr_fast_multiplier = Some (dec_of_nat 2)\<rparr>"

definition ex_usage :: usage where
  "ex_usage = usage_default\<lparr>us_input_tokens := Some 1000, us_cached_input_tokens := Some 500,
     us_output_tokens := Some 1000, us_complete := True\<rparr>"

lemma ex_usage_items: "va_items (value_usage ex_ops ex_usage None (Some ex_price)) \<noteq> []"
  by (simp add: value_usage_def billed_tokens_def rates_for_def cached_tokens_def image_lines_def
      ex_usage_def usage_default_def fast_tier_def token_lines_def)

lemma valuation_partitions_tokens_witness:
  "quantity ''input'' (va_items (value_usage ex_ops ex_usage None (Some ex_price)))
     + quantity ''cached_input'' (va_items (value_usage ex_ops ex_usage None (Some ex_price))) = 1000
   \<and> quantity ''output'' (va_items (value_usage ex_ops ex_usage None (Some ex_price))) = 1000"
  using valuation_partitions_tokens [OF ex_usage_items]
  by (simp add: billed_tokens_def ex_usage_def usage_default_def)


lemma valuation_total_witness:
  "va_cny (value_usage ex_ops ex_usage None (Some ex_price)) \<noteq> None"
  using valuation_total [of ex_ops ex_usage None "Some ex_price"] ex_usage_items
  by (auto simp: Let_def value_usage_def billed_tokens_def rates_for_def cached_tokens_def
      image_lines_def ex_usage_def usage_default_def fast_tier_def)

text \<open>
  Decimal arithmetic does not turn values from zero upwards into negative ones: products,
  quotients by a positive unit, sums and roundings.
\<close>

definition nonneg_ops :: "dec_ops \<Rightarrow> bool" where
  "nonneg_ops ops \<longleftrightarrow>
     (\<forall>a b. 0 \<le> dec_value a \<longrightarrow> 0 \<le> dec_value b \<longrightarrow> 0 \<le> dec_value (op_mul ops a b))
     \<and> (\<forall>a b. 0 \<le> dec_value a \<longrightarrow> 0 < dec_value b \<longrightarrow> 0 \<le> dec_value (op_div ops a b))
     \<and> (\<forall>a b. 0 \<le> dec_value a \<longrightarrow> 0 \<le> dec_value b \<longrightarrow> 0 \<le> dec_value (op_add ops a b))
     \<and> (\<forall>a. 0 \<le> dec_value a \<longrightarrow> 0 \<le> dec_value (op_round8 ops a))"

lemma nonneg_opsD:
  assumes "nonneg_ops ops"
  shows "0 \<le> dec_value a \<Longrightarrow> 0 \<le> dec_value b \<Longrightarrow> 0 \<le> dec_value (op_mul ops a b)"
    and "0 \<le> dec_value a \<Longrightarrow> 0 < dec_value b \<Longrightarrow> 0 \<le> dec_value (op_div ops a b)"
    and "0 \<le> dec_value a \<Longrightarrow> 0 \<le> dec_value b \<Longrightarrow> 0 \<le> dec_value (op_add ops a b)"
    and "0 \<le> dec_value a \<Longrightarrow> 0 \<le> dec_value (op_round8 ops a)"
  using assms by (simp_all add: nonneg_ops_def)

definition rates_nonneg :: "rates \<Rightarrow> bool" where
  "rates_nonneg r \<longleftrightarrow> (\<forall>v\<in>set (rate_values r). 0 \<le> dec_value v)"

lemma rates_multiplied_nonneg:
  assumes "nonneg_ops ops" and "rates_nonneg r" and "0 \<le> dec_value f"
  shows "rates_nonneg (rates_multiplied ops f r)"
  using assms
  by (auto simp: rates_nonneg_def rates_multiplied_def rate_values_def split: option.splits
      intro!: nonneg_opsD(1))

lemma price_validate_nonneg: "price_validate p = Inr () \<Longrightarrow> rates_nonneg (pr_standard p)"
  by (auto simp: price_validate_def rates_validate_def rates_nonneg_def price_range_def
      and_then_Inr_iff split: if_splits)

lemma rates_for_nonneg:
  assumes "nonneg_ops ops" and "price_validate p = Inr ()" and "rates_for ops u tier (Some p) = Inr r"
  shows "rates_nonneg r"
  using assms price_validate_nonneg [OF assms(2)]
  by (auto simp: rates_for_def fast_factor_def split: if_splits option.splits
      intro: rates_multiplied_nonneg)

lemma price_line_nonneg:
  assumes "nonneg_ops ops" and "0 \<le> dec_value rate"
  shows "0 \<le> dec_value (pl_cny (price_line_of ops kind n rate m))"
  using assms
  by (auto simp: price_line_of_def dec_of_nat_def intro!: nonneg_opsD [OF assms(1)])

lemma lines_nonneg:
  assumes "nonneg_ops ops" and "rates_nonneg r"
    and "x \<in> set (token_lines ops i out c r @ fst (image_lines ops u r))"
  shows "0 \<le> dec_value (pl_cny x)"
  using assms
  by (auto simp: token_lines_def image_lines_def image_token_line_def Let_def rates_nonneg_def
      rate_values_def split: if_splits option.splits intro!: price_line_nonneg)

lemma foldl_add_nonneg:
  assumes "nonneg_ops ops"
  shows "0 \<le> dec_value z \<Longrightarrow> \<forall>x\<in>set xs. 0 \<le> dec_value x \<Longrightarrow> 0 \<le> dec_value (foldl (op_add ops) z xs)"
  by (induction xs arbitrary: z) (auto intro: nonneg_opsD(3) [OF assms])

text \<open>
  A valid price list never yields a negative charge: with a validated price every line
  and the total of a valuation are at least zero, in the fast tier as well.
\<close>

lemma valuation_nonneg:
  assumes "nonneg_ops ops" and "price_validate p = Inr ()"
  shows "(\<forall>x\<in>set (va_items (value_usage ops u tier (Some p))). 0 \<le> dec_value (pl_cny x))
    \<and> (\<forall>total. va_cny (value_usage ops u tier (Some p)) = Some total \<longrightarrow> 0 \<le> dec_value total)"
proof (cases "va_items (value_usage ops u tier (Some p)) = []")
  case True
  then show ?thesis by (simp add: no_items_no_total)
next
  case False
  then show ?thesis
  proof (rule value_usage_items)
    fix i out r c
    assume r: "rates_for ops u tier (Some p) = Inr r"
      and items: "va_items (value_usage ops u tier (Some p)) =
        token_lines ops i out c r @ fst (image_lines ops u r)"
      and cny: "va_cny (value_usage ops u tier (Some p)) = (if snd (image_lines ops u r)
         then Some (foldl (op_add ops) (dec_of_nat 0)
           (map pl_cny (va_items (value_usage ops u tier (Some p))))) else None)"
    have l: "\<forall>x\<in>set (va_items (value_usage ops u tier (Some p))). 0 \<le> dec_value (pl_cny x)"
      unfolding items by (intro ballI lines_nonneg [OF assms(1) rates_for_nonneg [OF assms r]])
    then have "0 \<le> dec_value (foldl (op_add ops) (dec_of_nat 0)
        (map pl_cny (va_items (value_usage ops u tier (Some p)))))"
      by (intro foldl_add_nonneg [OF assms(1)]) (auto simp: dec_of_nat_def)
    with l cny show ?thesis by (auto split: if_splits)
  qed
qed

lemma ex_ops_nonneg: "nonneg_ops ex_ops"
proof -
  have "0 \<le> round x" if "0 \<le> x" for x :: rat
    using round_mono [OF that] by simp
  then show ?thesis by (simp add: nonneg_ops_def ex_ops_def)
qed

lemma valuation_nonneg_witness:
  "\<exists>total. va_cny (value_usage ex_ops ex_usage None (Some ex_price)) = Some total \<and> 0 \<le> dec_value total"
proof -
  have "price_validate ex_price = Inr ()"
    by (simp add: price_validate_def rates_validate_def rate_values_def price_range_def
        fast_factor_def ex_price_def dec_of_nat_def)
  from valuation_nonneg [OF ex_ops_nonneg this, of ex_usage None] valuation_total_witness
  show ?thesis by auto
qed

end
