(* ===== verification/Turn_State.thy ===== *)
theory Turn_State
  imports Rust_Text
begin

section \<open>The turn state header\<close>

text \<open>
  \<open>crates/xxgate-core/src/turn_state.rs\<close>: a bounded record of the values of one opaque
  response header. A header map is a list of names and values in the order of the
  response. \<open>base64\<close> (crate \<open>base64\<close>) is a parameter.
\<close>

type_synonym header_list = "(string \<times> string) list"

text \<open>\<open>HeaderValue::to_str\<close> succeeds.\<close>

definition visible_ascii :: "string \<Rightarrow> bool" where
  "visible_ascii s \<longleftrightarrow> (\<forall>c\<in>set s. byte c = 9 \<or> (32 \<le> byte c \<and> byte c < 127))"

definition turn_state_name :: string where
  "turn_state_name = ''x-codex-turn-state''"

definition max_state_bytes :: nat where
  "max_state_bytes = 64 * 1024"

definition max_state_values :: nat where
  "max_state_values = 8"

record turn_state_value =
  tv_value :: string
  tv_encoding :: string
  tv_bytes :: nat
  tv_truncated :: bool

record turn_state_header =
  ts_present :: bool
  ts_total_values :: nat
  ts_omitted_values :: nat
  ts_values :: "turn_state_value list"

subsection \<open>Valid UTF-8\<close>

definition cont :: "nat \<Rightarrow> nat \<Rightarrow> char \<Rightarrow> bool" where
  "cont lo hi c \<longleftrightarrow> lo \<le> byte c \<and> byte c \<le> hi"

text \<open>\<open>std::str::from_utf8\<close> succeeds.\<close>

fun utf8_valid :: "string \<Rightarrow> bool" where
  "utf8_valid [] = True"
| "utf8_valid (a # s) =
     (if byte a < 128 then utf8_valid s
      else case s of
        [] \<Rightarrow> False
      | b # s1 \<Rightarrow>
          if 194 \<le> byte a \<and> byte a \<le> 223 then cont 128 191 b \<and> utf8_valid s1
          else case s1 of
            [] \<Rightarrow> False
          | c # s2 \<Rightarrow>
              if 224 \<le> byte a \<and> byte a \<le> 239
              then cont (if byte a = 224 then 160 else 128) (if byte a = 237 then 159 else 191) b
                \<and> cont 128 191 c \<and> utf8_valid s2
              else case s2 of
                [] \<Rightarrow> False
              | d # s3 \<Rightarrow>
                  240 \<le> byte a \<and> byte a \<le> 244
                  \<and> cont (if byte a = 240 then 144 else 128) (if byte a = 244 then 143 else 191) b
                  \<and> cont 128 191 c \<and> cont 128 191 d \<and> utf8_valid s3)"

definition char_boundary :: "string \<Rightarrow> nat \<Rightarrow> bool" where
  "char_boundary s n \<longleftrightarrow> n = 0 \<or> n = length s \<or> (n < length s \<and> \<not> cont 128 191 (s ! n))"

text \<open>\<open>while !text.is_char_boundary(length) { length -= 1; }\<close>\<close>

fun boundary_before :: "string \<Rightarrow> nat \<Rightarrow> nat" where
  "boundary_before s 0 = 0"
| "boundary_before s (Suc n) = (if char_boundary s (Suc n) then Suc n else boundary_before s n)"

subsection \<open>Capturing\<close>

definition capture_value :: "(string \<Rightarrow> string) \<Rightarrow> nat \<Rightarrow> string \<Rightarrow> nat \<times> turn_state_value" where
  "capture_value base64 budget raw =
     (let len = min (length raw) budget;
          n = (if utf8_valid raw then boundary_before raw len else len)
      in (n, \<lparr>tv_value = (if utf8_valid raw then take n raw else base64 (take n raw)),
              tv_encoding = (if utf8_valid raw then ''utf8'' else ''base64''),
              tv_bytes = length raw, tv_truncated = (n < length raw)\<rparr>))"

fun capture_values :: "(string \<Rightarrow> string) \<Rightarrow> nat \<Rightarrow> string list \<Rightarrow> turn_state_value list" where
  "capture_values base64 budget [] = []"
| "capture_values base64 budget (raw # raws) =
     (if budget = 0 then []
      else let (n, v) = capture_value base64 budget raw in v # capture_values base64 (budget - n) raws)"

definition turn_state_capture :: "(string \<Rightarrow> string) \<Rightarrow> header_list \<Rightarrow> turn_state_header" where
  "turn_state_capture base64 headers =
     (let raws = map snd (filter (\<lambda>(k, _). k = turn_state_name) headers);
          values = capture_values base64 max_state_bytes (take max_state_values raws)
      in \<lparr>ts_present = (raws \<noteq> []), ts_total_values = length raws,
          ts_omitted_values = length raws - length values, ts_values = values\<rparr>)"

subsection \<open>Bounds\<close>

lemma boundary_le: "boundary_before s n \<le> n"
  by (induction n) auto

text \<open>The bytes kept of a value: those of a text are cut at a character boundary.\<close>

lemma capture_value_bytes: "capture_value base64 budget raw = (n, v) \<Longrightarrow> n \<le> budget \<and> n \<le> length raw"
  using boundary_le [of raw "min (length raw) budget"]
  by (auto simp: capture_value_def Let_def split: if_splits)

lemma capture_values_text:
  "\<forall>raw\<in>set raws. utf8_valid raw \<Longrightarrow>
     sum_list (map (\<lambda>v. length (tv_value v)) (capture_values base64 budget raws)) \<le> budget"
proof (induction raws arbitrary: budget)
  case (Cons raw raws)
  obtain n v where v: "capture_value base64 budget raw = (n, v)" by (cases "capture_value base64 budget raw")
  with Cons.prems have "length (tv_value v) = min (length raw) n"
    by (auto simp: capture_value_def Let_def)
  with capture_value_bytes [OF v] Cons.IH [of "budget - n"] Cons.prems v show ?case by auto
qed simp

lemma length_capture_values: "length (capture_values base64 budget raws) \<le> length raws"
  by (induction raws arbitrary: budget) (auto split: prod.split)

lemma turn_state_bounds:
  "length (ts_values (turn_state_capture base64 headers)) \<le> 8
     \<and> ts_omitted_values (turn_state_capture base64 headers) + length (ts_values (turn_state_capture base64 headers))
       = ts_total_values (turn_state_capture base64 headers)"
proof -
  let ?raws = "map snd (filter (\<lambda>(k, _). k = turn_state_name) headers)"
  have "length (capture_values base64 max_state_bytes (take max_state_values ?raws)) \<le> length (take max_state_values ?raws)"
    by (rule length_capture_values)
  then show ?thesis by (simp add: turn_state_capture_def Let_def max_state_values_def)
qed

end
