(* ===== verification/Protocol.thy ===== *)
theory Protocol
  imports Identity Quota Pricing Turn_State
begin

section \<open>The protocol between ingress, gateway and provider\<close>

text \<open>
  \<open>crates/xxgate-core/src/protocol.rs\<close>: what a client's request is parsed to, what is sent
  upstream and what a response is decoded to. A header map is the list of its names and
  values; JSON stays a document.
\<close>

datatype request_kind = Responses | Compact | Search | ImageGeneration | ImageEdit

fun is_image :: "request_kind \<Rightarrow> bool" where
  "is_image ImageGeneration = True"
| "is_image ImageEdit = True"
| "is_image _ = False"

datatype compaction_method = CompactCall | RemoteV2

record compaction =
  cm_method :: compaction_method
  cm_output_observed :: "bool option"

record search_options =
  so_query :: "string option"
  so_beta :: "string option"
  so_client_metadata_present :: bool

record client_identity =
  ci_session_id :: string
  ci_thread_id :: string
  ci_turn_id :: "string option"

record protocol_document =
  doc_format :: string
  doc_value :: json

record gateway_request =
  gq_client_turn_state :: turn_state_header
  gq_client_origin :: client_origin
  gq_client_metadata_present :: bool
  gq_identity_headers :: header_list
  gq_stateless :: bool
  gq_ingress_diagnostics :: "json option"
  gq_kind :: request_kind
  gq_compaction :: "compaction option"
  gq_search_options :: search_options
  gq_identity :: client_identity
  gq_model :: string
  gq_stream :: bool
  gq_requested_tier :: "string option"
  gq_reasoning_effort :: "string option"
  gq_identifier_inputs :: "(string, string) hmap"
  gq_document :: protocol_document

record prepared_request =
  pq_method :: string
  pq_url :: string
  pq_headers :: header_list
  pq_body :: string
  pq_account_id :: "uuid option"
  pq_profile_version :: int
  pq_tls_backend :: string

datatype encrypted_error = Reasoning | ToolOutput

record encrypted_recovery =
  er_error_kind :: encrypted_error
  er_fields_removed :: nat
  er_null_content_removed :: nat
  er_empty_items_removed :: nat
  er_tool_parts_replaced :: nat
  er_tool_outputs_changed :: nat

record observation =
  ob_recovery_preamble :: bool
  ob_encrypted_rejection :: "encrypted_error option"
  ob_response_model :: "string option"
  ob_compaction_output :: "bool option"
  ob_usage :: "usage option"
  ob_quotas :: "quota_window list"
  ob_extra_credits :: "extra_credits option"
  ob_terminal :: bool
  ob_error :: "err option"
  ob_disable_reason :: "disable_reason option"
  ob_content :: bool

definition observation_default :: observation where
  "observation_default =
     \<lparr>ob_recovery_preamble = False, ob_encrypted_rejection = None, ob_response_model = None,
      ob_compaction_output = None, ob_usage = None, ob_quotas = [], ob_extra_credits = None,
      ob_terminal = False, ob_error = None, ob_disable_reason = None, ob_content = False\<rparr>"

record gateway_event =
  ge_document :: protocol_document
  ge_observation :: observation

end
