(* ===== verification/Codex_Input.thy ===== *)
theory Codex_Input
  imports Protocol
begin

section \<open>Input items of a Codex request\<close>

text \<open>
  \<open>crates/xxgate-codex/src/provider/references.rs\<close> (identifiers of earlier outputs in a
  request's input), \<open>search_history.rs\<close> (a tool declaration for replayed searches) and
  \<open>recovery.rs\<close> (removing encrypted content that the upstream rejected). Reading and
  printing JSON text (\<open>serde_json\<close>) are the parameters \<open>parse\<close> and \<open>print\<close>; a JSON object
  has distinct keys.
\<close>

subsection \<open>References (references.rs)\<close>

definition restore_reference :: "string \<Rightarrow> string \<Rightarrow> identity_map \<Rightarrow> json \<Rightarrow> json" where
  "restore_reference field kind ids item =
     (case str_field item field of
        None \<Rightarrow> item
      | Some v \<Rightarrow>
          let original = original_id ids kind v
          in if original = v then item else jput field (JStr original) item)"

definition err_context_reference :: err where
  "err_context_reference = error_new 409 ''context_reference_unsupported''
     ''Explicit item content is required instead of stored item references''"

definition err_image_reference :: err where
  "err_image_reference = error_new 409 ''image_reference_unsupported''
     ''Provide image bytes or an image URL instead of an account-scoped file reference''"

definition file_part :: "json \<Rightarrow> bool" where
  "file_part p \<longleftrightarrow> jget p ''file_id'' \<noteq> None \<or> jget p ''image_id'' \<noteq> None"

definition content_parts :: "json \<Rightarrow> json list" where
  "content_parts item =
     (case Option.bind (jget item ''content'') as_array of None \<Rightarrow> [] | Some ps \<Rightarrow> ps)"

definition rewrite_item :: "identity_map \<Rightarrow> json \<Rightarrow> json res" where
  "rewrite_item ids item =
     (if str_field item ''type'' = Some ''item_reference'' then Inl err_context_reference
      else if \<exists>p\<in>set (content_parts item). file_part p then Inl err_image_reference
      else Inr (restore_reference ''call_id'' ''call'' ids (restore_reference ''id'' ''item'' ids item)))"

fun rewrite_items :: "identity_map \<Rightarrow> json list \<Rightarrow> json list res" where
  "rewrite_items ids [] = Inr []"
| "rewrite_items ids (x # xs) =
     and_then (rewrite_item ids x) (\<lambda>y. res_map ((#) y) (rewrite_items ids xs))"

definition rewrite_input :: "identity_map \<Rightarrow> json \<Rightarrow> json res" where
  "rewrite_input ids v =
     (case v of JArr items \<Rightarrow> res_map JArr (rewrite_items ids items) | _ \<Rightarrow> Inr v)"

definition lower :: "string \<Rightarrow> string" where
  "lower s = map ascii_lower s"

definition public_header :: "string \<Rightarrow> bool" where
  "public_header k \<longleftrightarrow> lower k \<in> {''openai-model'', ''x-reasoning-included''}"

definition keep_headers :: "json \<Rightarrow> json" where
  "keep_headers v =
     (case jget v ''headers'' of
        Some (JObj m) \<Rightarrow> jput ''headers'' (JObj (filter (\<lambda>(k, _). public_header k) m)) v
      | _ \<Rightarrow> v)"

definition filter_event_headers :: "json \<Rightarrow> json" where
  "filter_event_headers event =
     keep_headers (case jget event ''response'' of
        None \<Rightarrow> event
      | Some r \<Rightarrow> jput ''response'' (keep_headers r) event)"

subsection \<open>Search history (search_history.rs)\<close>

definition typed :: "string \<Rightarrow> json \<Rightarrow> bool" where
  "typed t item \<longleftrightarrow> jindex item ''type'' = JStr t"

definition array_of :: "json option \<Rightarrow> json list" where
  "array_of v = (case v of Some (JArr xs) \<Rightarrow> xs | _ \<Rightarrow> [])"

definition declared_tools :: "(string, json) hmap \<Rightarrow> json list \<Rightarrow> json list" where
  "declared_tools body input =
     array_of (hget body ''tools'')
     @ concat (map (\<lambda>item. array_of (jget item ''tools'')) (filter (typed ''additional_tools'') input))"

definition search_tool :: "json \<Rightarrow> bool" where
  "search_tool t \<longleftrightarrow>
     (case str_field t ''type'' of
        None \<Rightarrow> False
      | Some kind \<Rightarrow> kind = ''web_search'' \<or> starts_with ''web_search_preview'' kind)"

definition search_declaration :: json where
  "search_declaration = JObj [(''external_web_access'', JBool False), (''type'', JStr ''web_search'')]"

definition default_choice :: "json option \<Rightarrow> bool" where
  "default_choice v \<longleftrightarrow> v = None \<or> v = Some (JStr ''auto'') \<or> v = Some (JStr ''none'')"

definition ensure_declaration :: "(string, json) hmap \<Rightarrow> (string, json) hmap" where
  "ensure_declaration body =
     (case hget body ''input'' of
        Some (JArr input) \<Rightarrow>
          if \<not> (\<exists>item\<in>set input. typed ''web_search_call'' item) then body
          else
            let declared = declared_tools body input; tools = hget body ''tools'' in
            if \<exists>t\<in>set declared. search_tool t then body
            else if \<not> (case tools of None \<Rightarrow> True | Some v \<Rightarrow> is_array v \<or> v = JNull) then body
            else
              let body' = hput ''tools'' (JArr (array_of tools @ [search_declaration])) body
              in if declared = [] \<and> default_choice (hget body' ''tool_choice'')
                 then hput ''tool_choice'' (JStr ''none'') body' else body'
      | _ \<Rightarrow> body)"

subsection \<open>Encrypted content (recovery.rs)\<close>

definition recovery_start :: "encrypted_error \<Rightarrow> encrypted_recovery" where
  "recovery_start e =
     \<lparr>er_error_kind = e, er_fields_removed = 0, er_null_content_removed = 0,
      er_empty_items_removed = 0, er_tool_parts_replaced = 0, er_tool_outputs_changed = 0\<rparr>"

definition either_path :: "json \<Rightarrow> string \<Rightarrow> string option" where
  "either_path v k = Option.bind (or_else (jpath v [''error'', k]) (jget v k)) as_str"

definition rejection :: "json \<Rightarrow> encrypted_error option" where
  "rejection v =
     (if either_path v ''code'' \<noteq> Some ''invalid_encrypted_content'' then None
      else Some (if either_path v ''message'' =
                    Some ''Encrypted function output content could not be decrypted or decoded.''
                 then ToolOutput else Reasoning))"

definition tool_output :: "json \<Rightarrow> bool" where
  "tool_output item \<longleftrightarrow>
     str_field item ''type'' = Some ''function_call_output''
     \<or> str_field item ''type'' = Some ''custom_tool_call_output''"

definition recoverable_item :: "json \<Rightarrow> bool" where
  "recoverable_item item \<longleftrightarrow>
     (typed ''reasoning'' item \<and> jget item ''encrypted_content'' \<noteq> None)
     \<or> (tool_output item \<and> (\<exists>p\<in>set (array_of (jget item ''output'')). typed ''encrypted_content'' p))"

definition has_recoverable_input :: "(string \<Rightarrow> json option) \<Rightarrow> prepared_request \<Rightarrow> bool" where
  "has_recoverable_input parse r \<longleftrightarrow>
     (case parse (pq_body r) of
        None \<Rightarrow> False
      | Some body \<Rightarrow>
          (case jget body ''input'' of
             Some (JArr items) \<Rightarrow> \<exists>item\<in>set items. recoverable_item item
           | Some (JObj m) \<Rightarrow> recoverable_item (JObj m)
           | _ \<Rightarrow> False))"

definition unavailable_part :: json where
  "unavailable_part = JObj
     [(''text'', JStr ''[XXGate: An encrypted part of this historical tool result was rejected by the upstream and is unavailable. The tool may already have executed. Do not infer success or failure, or repeat side-effecting actions solely because this result is unavailable.]''),
      (''type'', JStr ''input_text'')]"

definition clean_part :: "json \<Rightarrow> json" where
  "clean_part p = (if typed ''encrypted_content'' p then unavailable_part else p)"

definition clean_tool_output :: "json \<Rightarrow> encrypted_recovery \<Rightarrow> json \<times> encrypted_recovery" where
  "clean_tool_output item c =
     (case jget item ''output'' of
        Some (JArr parts) \<Rightarrow>
          if tool_output item then
            let n = length (filter (typed ''encrypted_content'') parts)
            in (jput ''output'' (JArr (map clean_part parts)) item,
                c\<lparr>er_tool_parts_replaced := er_tool_parts_replaced c + n,
                  er_tool_outputs_changed := er_tool_outputs_changed c + (if 0 < n then 1 else 0)\<rparr>)
          else (item, c)
      | _ \<Rightarrow> (item, c))"

definition reasoning_item :: "json \<Rightarrow> bool" where
  "reasoning_item item \<longleftrightarrow> map_option str_trim (str_field item ''type'') = Some ''reasoning''"

definition clean_reasoning :: "json \<Rightarrow> encrypted_recovery \<Rightarrow> bool \<times> json \<times> encrypted_recovery" where
  "clean_reasoning item c =
     (if \<not> reasoning_item item \<or> jget item ''encrypted_content'' = None then (True, item, c)
      else
        let item1 = jdel ''encrypted_content'' item;
            c1 = c\<lparr>er_fields_removed := Suc (er_fields_removed c)\<rparr>;
            null_content = (jget item1 ''content'' = Some JNull);
            item2 = (if null_content then jdel ''content'' item1 else item1);
            c2 = (if null_content
                  then c1\<lparr>er_null_content_removed := Suc (er_null_content_removed c1)\<rparr> else c1)
        in if (case item2 of JObj m \<Rightarrow> length m = 1 | _ \<Rightarrow> False)
           then (False, item2, c2\<lparr>er_empty_items_removed := Suc (er_empty_items_removed c2)\<rparr>)
           else (True, item2, c2))"

definition clean_item :: "json \<Rightarrow> encrypted_recovery \<Rightarrow> bool \<times> json \<times> encrypted_recovery" where
  "clean_item item c =
     (case er_error_kind c of
        ToolOutput \<Rightarrow> (True, clean_tool_output item c)
      | Reasoning \<Rightarrow> clean_reasoning item c)"

text \<open>\<open>retain_mut\<close>\<close>

fun clean_items :: "json list \<Rightarrow> encrypted_recovery \<Rightarrow> json list \<times> encrypted_recovery" where
  "clean_items [] c = ([], c)"
| "clean_items (x # xs) c =
     (let (keep, y, c1) = clean_item x c; (ys, c2) = clean_items xs c1
      in (if keep then y # ys else ys, c2))"

definition clean_body :: "json \<Rightarrow> encrypted_recovery \<Rightarrow> json \<times> encrypted_recovery" where
  "clean_body body c =
     (case jget body ''input'' of
        Some (JArr items) \<Rightarrow>
          let (items', c') = clean_items items c in (jput ''input'' (JArr items') body, c')
      | Some (JObj m) \<Rightarrow>
          let (keep, item, c') = clean_item (JObj m) c
          in (jput ''input'' (if keep then item else JArr []) body, c')
      | _ \<Rightarrow> (body, c))"

definition clean ::
  "(string \<Rightarrow> json option) \<Rightarrow> (json \<Rightarrow> string) \<Rightarrow> prepared_request \<Rightarrow> encrypted_error
     \<Rightarrow> (encrypted_recovery option \<times> prepared_request) res" where
  "clean parse print r e =
     (case parse (pq_body r) of
        None \<Rightarrow> Inl (err_invalid ''Unable to prepare encrypted reasoning recovery'')
      | Some body \<Rightarrow>
          let (body', c) = clean_body body (recovery_start e)
          in Inr (if er_fields_removed c = 0 \<and> er_tool_parts_replaced c = 0 then (None, r)
                  else (Some c, r\<lparr>pq_body := print body'\<rparr>)))"

definition recover_http ::
  "(string \<Rightarrow> json option) \<Rightarrow> (json \<Rightarrow> string) \<Rightarrow> request_kind \<Rightarrow> prepared_request \<Rightarrow> nat \<Rightarrow> string
     \<Rightarrow> (encrypted_recovery option \<times> prepared_request) res" where
  "recover_http parse print kind r status error_body =
     (if kind \<noteq> Responses \<or> status \<noteq> 400 then Inr (None, r)
      else case Option.bind (parse error_body) rejection of
        None \<Rightarrow> Inr (None, r)
      | Some e \<Rightarrow> clean parse print r e)"

end
