(* ===== verification/Codex_Ingress.thy ===== *)
theory Codex_Ingress
  imports Codex_Input
begin

section \<open>Reading a client's request\<close>

text \<open>
  \<open>crates/xxgate-codex/src\<close>: \<open>client_source.rs\<close> recognises the client software,
  \<open>ingress.rs\<close> and \<open>compaction.rs\<close> read the metadata a request carries in its headers and
  its body, \<open>identity_input.rs\<close> resolves the session and thread it belongs to, and
  \<open>parse\<close> makes the gateway's request of it. A header map is the list of its names, in
  lower case, with their values; \<open>parse_json\<close> is serde's reading of JSON text.
\<close>

definition header_values :: "header_list \<Rightarrow> string \<Rightarrow> string list" where
  "header_values hs name = map snd (filter (\<lambda>(k, _). k = name) hs)"

definition header_text_of :: "header_list \<Rightarrow> string \<Rightarrow> string option" where
  "header_text_of hs name = filter_option visible_ascii (map_of hs name)"

subsection \<open>The client's software\<close>

fun text_before :: "string \<Rightarrow> string \<Rightarrow> string" where
  "text_before p [] = []"
| "text_before p (c # cs) = (if starts_with p (c # cs) then [] else c # text_before p cs)"

definition known_origin :: "string \<Rightarrow> string list \<Rightarrow> client_origin" where
  "known_origin rule evidence = \<lparr>co_source = Codex, co_evidence = evidence, co_rule = rule, co_version = 1\<rparr>"

definition identity_field :: "json option \<Rightarrow> bool" where
  "identity_field v \<longleftrightarrow>
     (case v of Some (JStr s) \<Rightarrow> \<not> blank s \<and> length s \<le> 512 \<and> \<not> has_control s | _ \<Rightarrow> False)"

definition turn_signature :: "json \<Rightarrow> bool" where
  "turn_signature meta \<longleftrightarrow>
     (\<forall>k\<in>{''session_id'', ''thread_id'', ''turn_id''}. identity_field (jget meta k))
     \<and> (\<exists>k\<in>{''installation_id'', ''x-codex-installation-id'', ''window_id'', ''x-codex-window-id''}.
          identity_field (jget meta k))"

definition codex_product :: "string \<Rightarrow> bool" where
  "codex_product product \<longleftrightarrow>
     product \<in> {''codex_cli_rs'', ''codex-tui'', ''codex_vscode''}
     \<or> (case strip_prefix ''Codex '' product of None \<Rightarrow> False | Some name \<Rightarrow> name \<noteq> [] \<and> length name \<le> 80)"

definition codex_version :: "string \<Rightarrow> bool" where
  "codex_version version \<longleftrightarrow>
     version \<noteq> [] \<and> length version \<le> 64 \<and> (\<forall>c\<in>set version. is_alnum c \<or> c \<in> set ''.-_+'')"

definition codex_user_agent :: "header_list \<Rightarrow> bool" where
  "codex_user_agent hs \<longleftrightarrow>
     (case filter_option (\<lambda>s. length s \<le> 512) (header_text_of hs ''user-agent'') of
        None \<Rightarrow> False
      | Some ua \<Rightarrow>
          (case rsplit_once CHR ''/'' (text_before '' ('' ua) of
             None \<Rightarrow> False
           | Some (product, version) \<Rightarrow> codex_product product \<and> codex_version version))"

definition signed_metadata :: "(string \<Rightarrow> json option) \<Rightarrow> string option \<Rightarrow> bool" where
  "signed_metadata parse_json text \<longleftrightarrow>
     (case Option.bind (filter_option (\<lambda>s. length s \<le> 128 * 1024) text) parse_json of
        None \<Rightarrow> False | Some meta \<Rightarrow> turn_signature meta)"

definition codex_origin :: "(string \<Rightarrow> json option) \<Rightarrow> header_list \<Rightarrow> json \<Rightarrow> client_origin option" where
  "codex_origin parse_json hs body =
     (if codex_user_agent hs then Some (known_origin ''codex_user_agent'' [''headers.user-agent''])
      else if signed_metadata parse_json (header_text_of hs ''x-codex-turn-metadata'')
      then Some (known_origin ''codex_turn_metadata'' [''headers.x-codex-turn-metadata''])
      else if signed_metadata parse_json
        (Option.bind (jpath body [''client_metadata'', ''x-codex-turn-metadata'']) as_str)
      then Some (known_origin ''codex_turn_metadata'' [''body.client_metadata.x-codex-turn-metadata''])
      else case jget body ''client_metadata'' of
        Some meta \<Rightarrow>
          if turn_signature meta \<and> identity_field (jget meta ''x-codex-installation-id'')
          then Some (known_origin ''codex_client_metadata'' [''body.client_metadata'']) else None
      | None \<Rightarrow> None)"

definition detect :: "(string \<Rightarrow> json option) \<Rightarrow> header_list \<Rightarrow> json \<Rightarrow> client_origin" where
  "detect parse_json hs body =
     (case codex_origin parse_json hs body of None \<Rightarrow> client_origin_default | Some origin \<Rightarrow> origin)"

subsection \<open>Metadata of a request\<close>

definition turn_metadata_name :: string where
  "turn_metadata_name = ''x-codex-turn-metadata''"

definition body_metadata :: "(string \<Rightarrow> json option) \<Rightarrow> json \<Rightarrow> json list res" where
  "body_metadata parse_json body =
     (case jget body ''client_metadata'' of
        None \<Rightarrow> Inr []
      | Some meta \<Rightarrow>
          if \<not> is_object meta then Inl (err_invalid ''client_metadata must be an object'')
          else case jget meta turn_metadata_name of
            None \<Rightarrow> Inr [meta]
          | Some (JStr text) \<Rightarrow>
              if 128 * 1024 < length text then Inl (err_invalid ''Codex turn metadata is too large'')
              else res_map (\<lambda>nested. [meta, nested])
                (ok_or (err_invalid ''Codex turn metadata is invalid JSON'') (parse_json text))
          | Some _ \<Rightarrow> Inl (err_invalid ''Codex turn metadata must be a JSON string''))"

definition header_metadata :: "(string \<Rightarrow> json option) \<Rightarrow> header_list \<Rightarrow> json list res" where
  "header_metadata parse_json hs =
     (case header_values hs turn_metadata_name of
        [] \<Rightarrow> Inr []
      | [value] \<Rightarrow> res_map (\<lambda>v. [v])
          (ok_or (err_invalid ''Codex metadata header is invalid JSON'') (parse_json value))
      | _ \<Rightarrow> Inl (err_invalid ''Duplicate Codex metadata headers''))"

text \<open>The aliases of one source, as sources of their own.\<close>

definition alias_sources :: "json \<Rightarrow> json list" where
  "alias_sources source =
     List.map_filter (\<lambda>(alias, canonical). map_option (\<lambda>v. JObj [(canonical, v)]) (jget source alias))
       [(''x-codex-window-id'', ''window_id''), (''x-codex-parent-thread-id'', ''parent_thread_id''),
        (''x-codex-installation-id'', ''installation_id'')]"

definition metadata_sources :: "(string \<Rightarrow> json option) \<Rightarrow> json \<Rightarrow> header_list \<Rightarrow> json list res" where
  "metadata_sources parse_json body hs =
     and_then (body_metadata parse_json body) (\<lambda>from_body.
     and_then (header_metadata parse_json hs) (\<lambda>from_header.
       let sources = from_body @ from_header in
       if \<not> (\<forall>v\<in>set sources. is_object v) then Inl (err_invalid ''Codex metadata must be a JSON object'')
       else Inr (sources @ concat (map alias_sources sources))))"

definition header_field :: "header_list \<Rightarrow> string option \<Rightarrow> string list res" where
  "header_field hs header =
     (case header of
        None \<Rightarrow> Inr []
      | Some name \<Rightarrow>
          each_res (\<lambda>v. if visible_ascii v then Inr v else Inl (err_invalid ''Invalid identity header''))
            (header_values hs name))"

definition source_field :: "string \<Rightarrow> json \<Rightarrow> string list res" where
  "source_field name source =
     (case jget source name of
        None \<Rightarrow> Inr []
      | Some JNull \<Rightarrow> Inr []
      | Some (JStr s) \<Rightarrow> Inr [s]
      | Some _ \<Rightarrow> Inl (err_invalid ''Identity fields must be strings''))"

definition malformed_identity :: "string \<Rightarrow> bool" where
  "malformed_identity s \<longleftrightarrow> s = [] \<or> 512 < length s \<or> has_control s"

definition err_identity_conflict :: "string \<Rightarrow> err" where
  "err_identity_conflict message = error_new 400 ''identity_conflict'' message"

definition agreed :: "string list \<Rightarrow> string option res" where
  "agreed values =
     (if \<exists>v\<in>set values. malformed_identity v
      then Inl (err_invalid ''Invalid identity field length or characters'')
      else case values of
        [] \<Rightarrow> Inr None
      | first # _ \<Rightarrow>
          if \<exists>v\<in>set values. v \<noteq> first
          then Inl (err_identity_conflict ''Identity fields disagree between headers and request metadata'')
          else Inr (Some first))"

definition coherent_field :: "header_list \<Rightarrow> string option \<Rightarrow> json list \<Rightarrow> string \<Rightarrow> string option res" where
  "coherent_field hs header sources name =
     and_then (header_field hs header) (\<lambda>a.
     and_then (each_res (source_field name) sources) (\<lambda>b. agreed (a @ concat b)))"

subsection \<open>Compactions (compaction.rs)\<close>

definition compaction_text :: "json \<Rightarrow> string option" where
  "compaction_text v =
     (case v of
        JStr s \<Rightarrow> if s \<noteq> [] \<and> length s \<le> 128 \<and> (\<forall>c\<in>set s. is_alnum c \<or> c = CHR ''_'') then Some s else None
      | _ \<Rightarrow> None)"

definition compaction_field ::
  "(string, json) hmap \<Rightarrow> string \<Rightarrow> (string, json) hmap \<Rightarrow> (string, json) hmap res" where
  "compaction_field object name acc =
     (case hget object name of
        None \<Rightarrow> Inr acc
      | Some v \<Rightarrow>
          and_then (ok_or (err_invalid ''Invalid compaction metadata'') (compaction_text v)) (\<lambda>text.
            if (case hget acc name of None \<Rightarrow> False | Some previous \<Rightarrow> previous \<noteq> JStr text)
            then Inl (error_new 400 ''compaction_metadata_conflict'' ''Compaction metadata fields disagree'')
            else Inr (hput name (JStr text) acc)))"

definition compaction_source :: "json \<Rightarrow> (string, json) hmap \<Rightarrow> (string, json) hmap res" where
  "compaction_source source acc =
     (case jget source ''compaction'' of
        Some (JObj object) \<Rightarrow>
          fold_res (compaction_field object) [''trigger'', ''reason'', ''implementation'', ''phase'', ''strategy''] acc
      | _ \<Rightarrow> Inr acc)"

definition turn_metadata :: "json list \<Rightarrow> (string, json) hmap res" where
  "turn_metadata sources =
     and_then (coherent_field [] None sources ''request_kind'') (\<lambda>kind.
     and_then (fold_res compaction_source sources []) (\<lambda>compaction.
       Inr ((case kind of None \<Rightarrow> [] | Some k \<Rightarrow> [(''request_kind'', JStr k)])
         @ (if compaction = [] then [] else [(''compaction'', JObj compaction)]))))"

definition compaction_requested :: "json \<Rightarrow> (string, json) hmap \<Rightarrow> bool" where
  "compaction_requested body meta \<longleftrightarrow>
     (\<exists>item\<in>set (array_of (jget body ''input'')). typed ''compaction_trigger'' item)
     \<or> (Option.bind (hget meta ''request_kind'') as_str = Some ''compaction''
        \<and> Option.bind (Option.bind (hget meta ''compaction'') (\<lambda>v. jget v ''implementation'')) as_str
            = Some ''responses_compaction_v2'')"

definition compaction_operation :: "json \<Rightarrow> json list \<Rightarrow> request_kind \<Rightarrow> compaction option res" where
  "compaction_operation body sources kind =
     res_map (\<lambda>meta.
         if kind = Compact then Some \<lparr>cm_method = CompactCall, cm_output_observed = None\<rparr>
         else if kind = Responses \<and> compaction_requested body meta
         then Some \<lparr>cm_method = RemoteV2, cm_output_observed = None\<rparr>
         else None)
       (turn_metadata sources)"

definition inspect_compaction :: "(string \<Rightarrow> json option) \<Rightarrow> header_list \<Rightarrow> json \<Rightarrow> compaction option res" where
  "inspect_compaction parse_json hs body =
     and_then (metadata_sources parse_json body hs) (\<lambda>sources. compaction_operation body sources Responses)"

end
