(* ===== verification/Codex_Resolve.thy ===== *)
theory Codex_Resolve
  imports Codex_Ingress Actions
begin

section \<open>The session and thread of a request\<close>

text \<open>
  \<open>identity_input.rs\<close>: every place of a request that can name its session, thread or
  conversation is a candidate; the candidates of one field have to agree, and the fields are
  tried in a fixed order. The candidates seen before an error are kept for the report, so
  collecting them is an action on the list.
\<close>

record id_candidate =
  ca_field :: string
  ca_source :: string
  ca_status :: string
  ca_value :: "string option"
  ca_bytes :: nat

record resolved_identity =
  ri_session_id :: string
  ri_thread_id :: string
  ri_session_sources :: "string list"
  ri_thread_sources :: "string list"

record inspection =
  in_resolved :: "resolved_identity option res"
  in_report :: json

definition make_candidate :: "string \<Rightarrow> string \<Rightarrow> json \<Rightarrow> id_candidate" where
  "make_candidate name source value =
     (let (status, text, bytes) = (case value of
          JNull \<Rightarrow> (''empty'', None, 0)
        | JStr s \<Rightarrow>
            if 512 < length s then (''too_long'', None, length s)
            else if has_control s then (''invalid_characters'', None, length s)
            else if blank s then (''empty'', None, length s)
            else (''valid'', Some (str_trim s), length s)
        | _ \<Rightarrow> (''invalid_type'', None, 0))
      in \<lparr>ca_field = name, ca_source = source, ca_status = status, ca_value = text, ca_bytes = bytes\<rparr>)"

type_synonym collecting = "(id_candidate list, err, unit) comp"

definition push_candidate :: "id_candidate \<Rightarrow> collecting" where
  "push_candidate c out = (Inr (), out @ [c])"

definition header_source :: "string \<Rightarrow> nat \<Rightarrow> string" where
  "header_source name index = ''headers.'' @ name @ ''['' @ show_nat index @ '']''"

definition header_candidate :: "string \<Rightarrow> string \<Rightarrow> nat \<times> string \<Rightarrow> collecting" where
  "header_candidate kind name iv =
     (let (index, value) = iv; source = header_source name index in
      if 4 \<le> index then act_fail (err_invalid (''Too many occurrences of '' @ name))
      else if visible_ascii value then push_candidate (make_candidate kind source (JStr value))
      else push_candidate \<lparr>ca_field = kind, ca_source = source, ca_status = ''invalid_encoding'',
             ca_value = None, ca_bytes = length value\<rparr>)"

definition header_candidates :: "header_list \<Rightarrow> string \<Rightarrow> string list \<Rightarrow> collecting" where
  "header_candidates hs kind names =
     act_each (\<lambda>name. act_each (header_candidate kind name) (enumerate 0 (header_values hs name))) names"

definition metadata_fields :: "(string \<times> string) list" where
  "metadata_fields =
     [(''session_id'', ''session_id''), (''session_id'', ''session-id''),
      (''thread_id'', ''thread_id''), (''thread_id'', ''thread-id''),
      (''conversation_id'', ''conversation_id''), (''conversation_id'', ''conversation-id'')]
     @ map (\<lambda>f. (f, f))
       [''turn_id'', ''parent_thread_id'', ''forked_from_thread_id'', ''parent_turn_id'', ''root_turn_id'',
        ''window_id'', ''context_window_id'', ''installation_id'', ''x-codex-window-id'',
        ''x-codex-installation-id'', ''x-codex-parent-thread-id'']"

definition metadata_candidates :: "json \<Rightarrow> string \<Rightarrow> collecting" where
  "metadata_candidates value source =
     (if \<not> is_object value then act_fail (err_invalid (source @ '' must be a JSON object''))
      else act_each (\<lambda>(kind, name).
        case jget value name of
          None \<Rightarrow> act_return ()
        | Some v \<Rightarrow> push_candidate (make_candidate kind (source @ ''.'' @ name) v)) metadata_fields)"

definition parse_metadata :: "(string \<Rightarrow> json option) \<Rightarrow> string \<Rightarrow> string \<Rightarrow> json res" where
  "parse_metadata parse_json text source =
     (if 128 * 1024 < length text then Inl (err_invalid (source @ '' exceeds 128 KiB''))
      else ok_or (err_invalid (source @ '' is not valid JSON'')) (parse_json text))"

definition act_res :: "'e + 'a \<Rightarrow> ('s, 'e, 'a) comp" where
  "act_res r = (case r of Inl e \<Rightarrow> act_fail e | Inr x \<Rightarrow> act_return x)"

definition collect_headers :: "header_list \<Rightarrow> collecting" where
  "collect_headers hs =
     act_each (\<lambda>(kind, names). header_candidates hs kind names)
       [(''session_id'', [''session-id'', ''session_id'']),
        (''thread_id'', [''thread-id'', ''thread_id'']),
        (''conversation_id'', [''conversation-id'', ''conversation_id'']),
        (''window_id'', [''x-codex-window-id'']),
        (''installation_id'', [''x-codex-installation-id'']),
        (''parent_thread_id'', [''x-codex-parent-thread-id''])]"

definition collect_text :: "(string \<Rightarrow> json option) \<Rightarrow> string \<Rightarrow> string \<Rightarrow> collecting" where
  "collect_text parse_json text source =
     act_bind (act_res (parse_metadata parse_json text source)) (\<lambda>v. metadata_candidates v source)"

definition body_turn_source :: string where
  "body_turn_source = ''body.client_metadata.x-codex-turn-metadata''"

definition header_turn_source :: string where
  "header_turn_source = ''headers.x-codex-turn-metadata''"

definition collect_body :: "(string \<Rightarrow> json option) \<Rightarrow> json \<Rightarrow> collecting" where
  "collect_body parse_json body =
     (case jget body ''client_metadata'' of
        None \<Rightarrow> act_return ()
      | Some meta \<Rightarrow>
          act_then (metadata_candidates meta ''body.client_metadata'')
            (case jget meta turn_metadata_name of
               None \<Rightarrow> act_return ()
             | Some (JStr text) \<Rightarrow> collect_text parse_json text body_turn_source
             | Some _ \<Rightarrow> act_fail (err_invalid (body_turn_source @ '' must be a JSON string''))))"

definition collect_header_metadata :: "(string \<Rightarrow> json option) \<Rightarrow> header_list \<Rightarrow> collecting" where
  "collect_header_metadata parse_json hs =
     (case header_values hs turn_metadata_name of
        [] \<Rightarrow> act_return ()
      | [value] \<Rightarrow>
          if visible_ascii value then collect_text parse_json value header_turn_source
          else act_fail (err_invalid ''Invalid x-codex-turn-metadata encoding'')
      | _ \<Rightarrow> act_fail (err_invalid ''Duplicate x-codex-turn-metadata headers''))"

definition collect_member :: "json \<Rightarrow> string \<Rightarrow> string \<Rightarrow> string \<Rightarrow> collecting" where
  "collect_member body member kind source =
     (case jget body member of
        None \<Rightarrow> act_return ()
      | Some v \<Rightarrow> push_candidate (make_candidate kind source v))"

definition collect_candidates ::
  "(string \<Rightarrow> json option) \<Rightarrow> header_list \<Rightarrow> json \<Rightarrow> request_kind \<Rightarrow> collecting" where
  "collect_candidates parse_json hs body kind =
     act_then (collect_headers hs)
     (act_then (collect_body parse_json body)
     (act_then (collect_header_metadata parse_json hs)
     (act_then (collect_member body ''prompt_cache_key'' ''prompt_cache_key'' ''body.prompt_cache_key'')
        (if kind = Search then collect_member body ''id'' ''search_id'' ''body.id'' else act_return ()))))"

text \<open>The candidates of one field: an invalid one or a disagreement is an error.\<close>

type_synonym signal = "(string \<times> string list) option"

fun join_with :: "string \<Rightarrow> string list \<Rightarrow> string" where
  "join_with sep [] = []"
| "join_with sep [s] = s"
| "join_with sep (s # ss) = s @ sep @ join_with sep ss"

definition coherent_signal :: "id_candidate list \<Rightarrow> string \<Rightarrow> signal res" where
  "coherent_signal cands name =
     (let values = filter (\<lambda>c. ca_field c = name) cands;
          valid = filter (\<lambda>c. ca_value c \<noteq> None) values in
      case List.find (\<lambda>c. ca_status c \<notin> {''valid'', ''empty''}) values of
        Some c \<Rightarrow> Inl (err_invalid (''Invalid identity at '' @ ca_source c @ '' ('' @ ca_status c @ '')''))
      | None \<Rightarrow>
          (case valid of
             [] \<Rightarrow> Inr None
           | first # _ \<Rightarrow>
               if \<exists>c\<in>set valid. ca_value c \<noteq> ca_value first
               then Inl (err_identity_conflict (''Conflicting '' @ name @ '' values in ''
                      @ join_with '', '' (map ca_source valid)))
               else Inr (Some (the (ca_value first), map ca_source valid))))"

definition resolve_signals :: "signal \<Rightarrow> signal \<Rightarrow> signal \<Rightarrow> signal \<Rightarrow> resolved_identity option" where
  "resolve_signals session thread conversation search =
     (case or_else session (or_else conversation (or_else thread search)) of
        None \<Rightarrow> None
      | Some (session_id, session_sources) \<Rightarrow>
          let (thread_id, thread_sources) = (case or_else thread conversation of
                None \<Rightarrow> (session_id, [''resolved.session_id'']) | Some t \<Rightarrow> t)
          in Some \<lparr>ri_session_id = session_id, ri_thread_id = thread_id,
               ri_session_sources = session_sources, ri_thread_sources = thread_sources\<rparr>)"

definition resolve_candidates :: "id_candidate list \<Rightarrow> resolved_identity option res" where
  "resolve_candidates cands =
     and_then (coherent_signal cands ''session_id'') (\<lambda>session.
     and_then (coherent_signal cands ''thread_id'') (\<lambda>thread.
     and_then (coherent_signal cands ''conversation_id'') (\<lambda>conversation.
     and_then (coherent_signal cands ''prompt_cache_key'') (\<lambda>_.
     and_then (coherent_signal cands ''search_id'') (\<lambda>search.
       Inr (resolve_signals session thread conversation search))))))"

subsection \<open>The report\<close>

definition json_opt :: "string option \<Rightarrow> json" where
  "json_opt v = (case v of None \<Rightarrow> JNull | Some s \<Rightarrow> JStr s)"

definition json_nat :: "nat \<Rightarrow> json" where
  "json_nat n = JNum (PosInt n)"

definition candidate_json :: "id_candidate \<Rightarrow> json" where
  "candidate_json c = JObj
     [(''bytes'', json_nat (ca_bytes c)), (''field'', JStr (ca_field c)), (''source'', JStr (ca_source c)),
      (''status'', JStr (ca_status c)), (''value'', json_opt (ca_value c))]"

definition resolved_json :: "resolved_identity \<Rightarrow> json" where
  "resolved_json r = JObj
     [(''session_id'', JStr (ri_session_id r)), (''session_sources'', JArr (map JStr (ri_session_sources r))),
      (''thread_id'', JStr (ri_thread_id r)), (''thread_sources'', JArr (map JStr (ri_thread_sources r)))]"

definition inspection_report :: "id_candidate list \<Rightarrow> resolved_identity option res \<Rightarrow> json" where
  "inspection_report cands resolved =
     (let fields = (''fields'', JArr (map candidate_json cands)) in
      case resolved of
        Inr None \<Rightarrow> JObj [fields, (''status'', JStr ''stateless'')]
      | Inr (Some r) \<Rightarrow> JObj [fields, (''resolved'', resolved_json r), (''status'', JStr ''resolved'')]
      | Inl e \<Rightarrow> JObj [(''error'', JObj [(''code'', JStr (err_code e)), (''message'', JStr (err_message e))]),
          fields, (''status'', JStr ''failed'')])"

definition inspect_identity ::
  "(string \<Rightarrow> json option) \<Rightarrow> header_list \<Rightarrow> json \<Rightarrow> request_kind \<Rightarrow> inspection" where
  "inspect_identity parse_json hs body kind =
     (let (r, cands) = collect_candidates parse_json hs body kind [];
          resolved = and_then r (\<lambda>_. resolve_candidates cands)
      in \<lparr>in_resolved = resolved, in_report = inspection_report cands resolved\<rparr>)"

definition origin_json :: "client_origin \<Rightarrow> json" where
  "origin_json c = JObj
     [(''evidence'', JArr (map JStr (co_evidence c))), (''rule'', JStr (co_rule c)),
      (''source'', JStr (case co_source c of Codex \<Rightarrow> ''codex'' | Unknown \<Rightarrow> ''unknown'')),
      (''version'', json_nat (co_version c))]"

definition header_summary :: "header_list \<Rightarrow> (string, json) hmap" where
  "header_summary hs = List.map_filter (\<lambda>name.
      map_option (\<lambda>v. (name, JObj [(''bytes'', json_nat (length v)),
          (''value'', json_opt (if visible_ascii v \<and> length v \<le> 512 \<and> \<not> has_control v then Some v else None))]))
        (map_of hs name))
     [''content-type'', ''content-encoding'', ''user-agent'', ''originator'', ''version'', ''x-request-id'',
      ''x-client-request-id'', ''traceparent'']"

definition json_shape :: "json \<Rightarrow> json" where
  "json_shape v =
     (case v of
        JNull \<Rightarrow> JStr ''null''
      | JBool _ \<Rightarrow> JStr ''boolean''
      | JNum _ \<Rightarrow> JStr ''number''
      | JStr s \<Rightarrow> JObj [(''bytes'', json_nat (length s)), (''type'', JStr ''string'')]
      | JArr a \<Rightarrow> JObj [(''length'', json_nat (length a)), (''type'', JStr ''array'')]
      | JObj _ \<Rightarrow> JStr ''object'')"

definition body_shape :: "json option \<Rightarrow> (string, json) hmap" where
  "body_shape body =
     (case body of
        None \<Rightarrow> []
      | Some b \<Rightarrow> List.map_filter (\<lambda>name. map_option (\<lambda>v. (name, json_shape v)) (jget b name))
          [''model'', ''input'', ''stream'', ''client_metadata'', ''metadata'', ''prompt_cache_key'',
           ''previous_response_id'', ''background'', ''tools'', ''reasoning'', ''commands'', ''id''])"

definition diagnostics ::
  "(string \<Rightarrow> json option) \<Rightarrow> string \<Rightarrow> string \<Rightarrow> header_list \<Rightarrow> json option \<Rightarrow> request_kind \<Rightarrow> json" where
  "diagnostics parse_json method path hs body kind =
     (let value = (case body of None \<Rightarrow> JNull | Some b \<Rightarrow> b);
          report = in_report (inspect_identity parse_json hs value kind)
      in JObj
        [(''authorization_present'', JBool (header_values hs ''authorization'' \<noteq> [])),
         (''body_fields'', JObj (body_shape body)),
         (''body_status'', JStr (if body = None then ''not_parsed'' else ''parsed'')),
         (''client_origin'', origin_json (detect parse_json hs value)),
         (''headers'', JObj (header_summary hs)),
         (''identity'', if body = None
            then JObj [(''fields'', jindex report ''fields''), (''status'', JStr ''body_not_parsed'')] else report),
         (''method'', JStr method), (''path'', JStr path)])"

subsection \<open>What resolving guarantees\<close>

text \<open>An identifier as the gateway keeps it: bounded text without outer blanks or control characters.\<close>

definition clean_identity :: "string \<Rightarrow> bool" where
  "clean_identity v \<longleftrightarrow> v \<noteq> [] \<and> length v \<le> 512 \<and> \<not> has_control v \<and> str_trim v = v"

definition candidate_ok :: "id_candidate \<Rightarrow> bool" where
  "candidate_ok c \<longleftrightarrow>
     (ca_value c \<noteq> None \<longrightarrow> ca_status c = ''valid'') \<and> (\<forall>v. ca_value c = Some v \<longrightarrow> clean_identity v)"

lemma make_candidate_ok: "candidate_ok (make_candidate name source v)"
  by (cases v)
    (auto simp: make_candidate_def candidate_ok_def clean_identity_def blank_def str_trim_trim trim_has_control
      intro: le_trans [OF length_str_trim_le])

definition candidates_ok :: "id_candidate list \<Rightarrow> bool" where
  "candidates_ok out \<longleftrightarrow> (\<forall>c\<in>set out. candidate_ok c)"

interpretation collected: kept candidates_ok
  by unfold_locales

lemma push_kept: "candidate_ok c \<Longrightarrow> collected.keeps (push_candidate c)"
  by (rule collected.keepsI) (auto simp: push_candidate_def candidates_ok_def)

lemma no_value_ok: "ca_value c = None \<Longrightarrow> candidate_ok c"
  by (simp add: candidate_ok_def)

lemma header_candidate_kept: "collected.keeps (header_candidate kind name iv)"
  unfolding header_candidate_def Let_def
  by (auto intro!: collected.keeps_fail push_kept make_candidate_ok intro: no_value_ok split: prod.split)

lemma header_candidates_kept: "collected.keeps (header_candidates hs kind names)"
  unfolding header_candidates_def by (intro collected.keeps_each header_candidate_kept)

lemma metadata_candidates_kept: "collected.keeps (metadata_candidates value source)"
  unfolding metadata_candidates_def
  by (auto intro!: collected.keeps_fail collected.keeps_each collected.keeps_return push_kept make_candidate_ok
      split: option.split)

lemma collect_text_kept: "collected.keeps (collect_text parse_json text source)"
  unfolding collect_text_def act_res_def
  by (auto intro!: collected.keeps_bind collected.keeps_fail collected.keeps_return metadata_candidates_kept
      split: sum.split)

lemma collect_kept: "collected.keeps (collect_candidates parse_json hs body kind)"
proof -
  have "collected.keeps (collect_headers hs)"
    unfolding collect_headers_def
    by (rule collected.keeps_each) (simp add: header_candidates_kept split: prod.split)
  moreover have "collected.keeps (collect_body parse_json body)"
    unfolding collect_body_def
    by (auto intro!: collected.keeps_then collected.keeps_return collected.keeps_fail metadata_candidates_kept
        collect_text_kept split: option.split json.split)
  moreover have "collected.keeps (collect_header_metadata parse_json hs)"
    unfolding collect_header_metadata_def
    by (auto intro!: collected.keeps_return collected.keeps_fail collect_text_kept split: list.split)
  moreover have "collected.keeps (collect_member body m k src)" for m k src
    unfolding collect_member_def
    by (auto intro!: collected.keeps_return push_kept make_candidate_ok split: option.split)
  ultimately show ?thesis
    unfolding collect_candidates_def
    by (auto intro!: collected.keeps_then collected.keeps_return)
qed

text \<open>The values a field has among the candidates, and the first of some fields with one.\<close>

definition field_values :: "id_candidate list \<Rightarrow> string \<Rightarrow> string list" where
  "field_values cands name = List.map_filter ca_value (filter (\<lambda>c. ca_field c = name) cands)"

fun first_value :: "id_candidate list \<Rightarrow> string list \<Rightarrow> string option" where
  "first_value cands [] = None"
| "first_value cands (name # names) =
     (case field_values cands name of [] \<Rightarrow> first_value cands names | v # _ \<Rightarrow> Some v)"

definition field_sound :: "id_candidate list \<Rightarrow> string \<Rightarrow> bool" where
  "field_sound cands name \<longleftrightarrow>
     (\<forall>c\<in>set cands. ca_field c = name \<longrightarrow> ca_status c \<in> {''valid'', ''empty''})
     \<and> (\<forall>v\<in>set (field_values cands name). \<forall>w\<in>set (field_values cands name). v = w)"

lemma map_filter_value: "List.map_filter ca_value cs = map (\<lambda>c. the (ca_value c)) (filter (\<lambda>c. ca_value c \<noteq> None) cs)"
  by (simp add: List.map_filter_def comp_def)

lemma coherent_signal_sound:
  assumes "coherent_signal cands name = Inr s"
  shows "field_sound cands name \<and> map_option fst s = (case field_values cands name of [] \<Rightarrow> None | v # _ \<Rightarrow> Some v)"
proof -
  let ?vs = "filter (\<lambda>c. ca_field c = name) cands"
  let ?valid = "filter (\<lambda>c. ca_value c \<noteq> None) ?vs"
  have none: "List.find (\<lambda>c. ca_status c \<notin> {''valid'', ''empty''}) ?vs = None"
    using assms by (auto simp: coherent_signal_def Let_def split: option.splits)
  then have status: "\<forall>c\<in>set cands. ca_field c = name \<longrightarrow> ca_status c \<in> {''valid'', ''empty''}"
    by (auto simp: find_None_iff)
  have vals: "field_values cands name = map (\<lambda>c. the (ca_value c)) ?valid"
    by (simp only: field_values_def map_filter_value)
  show ?thesis
  proof (cases ?valid)
    case Nil
    with vals have "field_values cands name = []" by simp
    with assms none Nil status show ?thesis
      unfolding coherent_signal_def Let_def by (simp add: field_sound_def)
  next
    case (Cons first rest)
    with assms none have same: "\<forall>c\<in>set (first # rest). ca_value c = ca_value first"
      and s: "s = Some (the (ca_value first), map ca_source (first # rest))"
      unfolding coherent_signal_def Let_def by (simp_all split: if_splits)
    then have "\<forall>v\<in>set (field_values cands name). v = the (ca_value first)"
      unfolding vals Cons by auto
    with status s vals Cons show ?thesis by (simp add: field_sound_def)
  qed
qed

lemma field_values_clean: "candidates_ok cands \<Longrightarrow> v \<in> set (field_values cands name) \<Longrightarrow> clean_identity v"
  unfolding field_values_def map_filter_value candidates_ok_def candidate_ok_def by fastforce

lemma first_value_clean: "candidates_ok cands \<Longrightarrow> first_value cands names = Some v \<Longrightarrow> clean_identity v"
proof (induction names)
  case (Cons name names)
  then show ?case using field_values_clean [of cands v name] by (auto split: list.splits)
qed simp

lemma first_value_or_else:
  "map_option fst (or_else s t) = or_else (map_option fst s) (map_option fst t)"
  by (cases s) simp_all

lemma first_value_step:
  "first_value cands (name # names) = or_else (case field_values cands name of [] \<Rightarrow> None | v # _ \<Rightarrow> Some v) (first_value cands names)"
  by (simp split: list.split)

lemma resolved_facts:
  assumes "in_resolved (inspect_identity parse_json hs body kind) = Inr res"
    and "cands = snd (collect_candidates parse_json hs body kind [])"
  shows "(\<forall>name\<in>{''session_id'', ''thread_id'', ''conversation_id'', ''prompt_cache_key'', ''search_id''}. field_sound cands name)
    \<and> map_option ri_session_id res = first_value cands [''session_id'', ''conversation_id'', ''thread_id'', ''search_id'']
    \<and> (\<forall>r. res = Some r \<longrightarrow> clean_identity (ri_session_id r) \<and> clean_identity (ri_thread_id r)
        \<and> ri_thread_id r = (case first_value cands [''thread_id'', ''conversation_id''] of
            None \<Rightarrow> ri_session_id r | Some t \<Rightarrow> t))"
proof -
  have ok: "candidates_ok cands"
    unfolding assms(2) by (rule collected.keepsD [OF collect_kept]) (simp add: candidates_ok_def)
  from assms obtain session thread conversation cache search where
    signals: "coherent_signal cands ''session_id'' = Inr session" "coherent_signal cands ''thread_id'' = Inr thread"
      "coherent_signal cands ''conversation_id'' = Inr conversation" "coherent_signal cands ''prompt_cache_key'' = Inr cache"
      "coherent_signal cands ''search_id'' = Inr search"
    and res: "res = resolve_signals session thread conversation search"
    by (auto simp: inspect_identity_def resolve_candidates_def and_then_Inr_iff Let_def split: prod.splits)
  note sound = signals [THEN coherent_signal_sound]
  have fields: "\<forall>name\<in>{''session_id'', ''thread_id'', ''conversation_id'', ''prompt_cache_key'', ''search_id''}. field_sound cands name"
    using sound by simp
  have first: "first_value cands [''session_id'', ''conversation_id'', ''thread_id'', ''search_id'']
      = map_option fst (or_else session (or_else conversation (or_else thread search)))"
    unfolding first_value_or_else first_value_step sound [THEN conjunct2, symmetric] by simp
  have thread_first: "first_value cands [''thread_id'', ''conversation_id''] = map_option fst (or_else thread conversation)"
    unfolding first_value_or_else first_value_step sound [THEN conjunct2, symmetric] by simp
  have session: "map_option ri_session_id res = first_value cands [''session_id'', ''conversation_id'', ''thread_id'', ''search_id'']"
    unfolding first res resolve_signals_def by (auto simp: Let_def split: option.split prod.split)
  have "clean_identity (ri_session_id r) \<and> clean_identity (ri_thread_id r)
        \<and> ri_thread_id r = (case first_value cands [''thread_id'', ''conversation_id''] of
            None \<Rightarrow> ri_session_id r | Some t \<Rightarrow> t)" if r: "res = Some r" for r
  proof -
    have id: "ri_thread_id r = (case first_value cands [''thread_id'', ''conversation_id''] of
            None \<Rightarrow> ri_session_id r | Some t \<Rightarrow> t)"
      using r unfolding res thread_first resolve_signals_def by (auto simp: Let_def split: option.splits prod.splits)
    have "clean_identity (ri_session_id r)"
      by (rule first_value_clean [OF ok, of "[''session_id'', ''conversation_id'', ''thread_id'', ''search_id'']"])
        (use session r in simp)
    with id first_value_clean [OF ok, of "[''thread_id'', ''conversation_id'']"] show ?thesis
      by (cases "first_value cands [''thread_id'', ''conversation_id'']") simp_all
  qed
  with fields session show ?thesis by blast
qed

text \<open>
  C10. The session and thread a request is resolved to: every field that counts has only valid
  or empty candidates, which agree with each other wherever they come from; the session is the
  one named by the session fields, else by the conversation, the thread or the search fields,
  in this order, and there is none exactly when none of them names one; the thread is that of
  the thread fields, else the conversation, else the session; and both are bounded text
  without outer blanks or control characters.
\<close>

theorem identity_resolved:
  assumes "in_resolved (inspect_identity parse_json hs body kind) = Inr res"
    and "cands = snd (collect_candidates parse_json hs body kind [])"
  shows "(\<forall>name\<in>{''session_id'', ''thread_id'', ''conversation_id'', ''prompt_cache_key'', ''search_id''}. field_sound cands name)
    \<and> map_option ri_session_id res = first_value cands [''session_id'', ''conversation_id'', ''thread_id'', ''search_id'']
    \<and> (\<forall>r. res = Some r \<longrightarrow> clean_identity (ri_session_id r) \<and> clean_identity (ri_thread_id r)
        \<and> ri_thread_id r = (case first_value cands [''thread_id'', ''conversation_id''] of
            None \<Rightarrow> ri_session_id r | Some t \<Rightarrow> t))"
  by (rule resolved_facts [OF assms])

definition ex_identity_headers :: header_list where
  "ex_identity_headers = [(''session-id'', ''a''), (''session_id'', '' a''), (''thread-id'', ''b'')]"

lemma char_of_48: "char_of (48 :: nat) = CHR ''0''"
  by code_simp

lemma ex_inspected:
  "in_resolved (inspect_identity (\<lambda>_. None) ex_identity_headers JNull Responses)
     = Inr (Some \<lparr>ri_session_id = ''a'', ri_thread_id = ''b'',
         ri_session_sources = [''headers.session-id[0]'', ''headers.session_id[0]''],
         ri_thread_sources = [''headers.thread-id[0]'']\<rparr>)"
  by (simp add: inspect_identity_def collect_candidates_def collect_headers_def collect_body_def collect_header_metadata_def
      collect_member_def header_candidates_def header_candidate_def push_candidate_def make_candidate_def
      act_then_def act_bind_def act_return_def header_values_def ex_identity_headers_def visible_ascii_def
      header_source_def show_nat.simps digit_char_def blank_def str_trim_def has_control_def utf8_tail_def
      turn_metadata_name_def resolve_candidates_def coherent_signal_def resolve_signals_def char_of_48 Let_def)

theorem identity_resolved_witness:
  "\<exists>res. in_resolved (inspect_identity (\<lambda>_. None) ex_identity_headers JNull Responses) = Inr (Some res)
     \<and> clean_identity (ri_session_id res) \<and> clean_identity (ri_thread_id res)"
  using identity_resolved [OF ex_inspected refl] ex_inspected by blast

end
