(* ===== verification/Codex_Wire.thy ===== *)
theory Codex_Wire
  imports Json Core_Types
begin

section \<open>Server-sent events on the wire\<close>

text \<open>
  \<open>crates/xxgate-codex/src/wire.rs\<close>: \<open>SseDecoder\<close> cuts the byte stream into blocks that
  end with an empty line, strips a leading byte order mark, rewrites the three line endings
  to LF and limits the bytes it holds; the crate \<open>eventsource_stream\<close> parses a block.
  That parser is a parameter: \<open>feed\<close> takes its state and one block to the events ready
  then, \<open>Inl\<close> an event it rejects. The channel between the two never closes, since the
  decoder owns both ends.
\<close>

type_synonym 'e event_parser = "'e \<Rightarrow> string \<Rightarrow> (unit + string) list \<times> 'e"

record 'e sse =
  sse_events :: 'e
  sse_buffer :: string
  sse_line_bytes :: nat
  sse_skip_lf :: bool
  sse_prefix :: string
  sse_started :: bool

definition sse_default :: "'e \<Rightarrow> 'e sse" where
  "sse_default e =
     \<lparr>sse_events = e, sse_buffer = [], sse_line_bytes = 0, sse_skip_lf = False, sse_prefix = [],
      sse_started = False\<rparr>"

abbreviation CR :: char where "CR \<equiv> CHR 0x0D"
abbreviation LF :: char where "LF \<equiv> CHR 0x0A"

definition err_sse_too_large :: err where
  "err_sse_too_large = error_new 502 ''sse_event_too_large''
     ''Upstream SSE event exceeds the configured limit''"

definition err_invalid_sse :: err where
  "err_invalid_sse = error_new 502 ''invalid_sse'' ''Upstream returned invalid SSE''"

fun sse_collect :: "(unit + string) list \<Rightarrow> string list \<Rightarrow> string list res" where
  "sse_collect [] events = Inr events"
| "sse_collect (Inl _ # rs) events = Inl err_invalid_sse"
| "sse_collect (Inr data # rs) events =
     sse_collect rs (if data = ''[DONE]'' then events else events @ [data])"

definition sse_byte ::
  "'e event_parser \<Rightarrow> nat \<Rightarrow> char \<Rightarrow> 'e sse \<times> string list \<Rightarrow> ('e sse \<times> string list) res" where
  "sse_byte feed limit b st =
     (let (d, events) = st in
      if sse_skip_lf d \<and> b = LF then Inr (d\<lparr>sse_skip_lf := False\<rparr>, events)
      else
        let buffer = sse_buffer d @ [if b = CR then LF else b];
            d1 = d\<lparr>sse_skip_lf := (b = CR), sse_buffer := buffer\<rparr>
        in if limit < length buffer then Inl err_sse_too_large
           else if b \<noteq> CR \<and> b \<noteq> LF then Inr (d1\<lparr>sse_line_bytes := Suc (sse_line_bytes d1)\<rparr>, events)
           else if 0 < sse_line_bytes d1 then Inr (d1\<lparr>sse_line_bytes := 0\<rparr>, events)
           else
             let (ready, e) = feed (sse_events d1) buffer
             in res_map (Pair (d1\<lparr>sse_buffer := [], sse_events := e\<rparr>)) (sse_collect ready events))"

fun sse_bytes ::
  "'e event_parser \<Rightarrow> nat \<Rightarrow> string \<Rightarrow> 'e sse \<times> string list \<Rightarrow> ('e sse \<times> string list) res" where
  "sse_bytes feed limit [] st = Inr st"
| "sse_bytes feed limit (b # bs) st = and_then (sse_byte feed limit b st) (sse_bytes feed limit bs)"

definition byte_order_mark :: string where
  "byte_order_mark = [CHR 0xEF, CHR 0xBB, CHR 0xBF]"

definition sse_step ::
  "'e event_parser \<Rightarrow> nat \<Rightarrow> char \<Rightarrow> 'e sse \<times> string list \<Rightarrow> ('e sse \<times> string list) res" where
  "sse_step feed limit b st =
     (let (d, events) = st in
      if sse_started d then sse_byte feed limit b st
      else
        let prefix = sse_prefix d @ [b] in
        if starts_with prefix byte_order_mark
        then Inr (if length prefix = 3 then d\<lparr>sse_prefix := [], sse_started := True\<rparr>
                  else d\<lparr>sse_prefix := prefix\<rparr>, events)
        else sse_bytes feed limit prefix (d\<lparr>sse_started := True, sse_prefix := []\<rparr>, events))"

fun sse_steps ::
  "'e event_parser \<Rightarrow> nat \<Rightarrow> string \<Rightarrow> 'e sse \<times> string list \<Rightarrow> ('e sse \<times> string list) res" where
  "sse_steps feed limit [] st = Inr st"
| "sse_steps feed limit (b # bs) st = and_then (sse_step feed limit b st) (sse_steps feed limit bs)"

definition sse_push ::
  "'e event_parser \<Rightarrow> string \<Rightarrow> nat \<Rightarrow> 'e sse \<Rightarrow> ('e sse \<times> string list) res" where
  "sse_push feed bytes limit d = sse_steps feed limit bytes (d, [])"

definition buffered_bytes :: "'e sse \<Rightarrow> nat" where
  "buffered_bytes d = length (sse_buffer d) + length (sse_prefix d)"

definition err_invalid_event :: "string \<Rightarrow> err" where
  "err_invalid_event m = error_new 502 ''invalid_sse_event'' m"

definition frame_kind_ok :: "string \<Rightarrow> bool" where
  "frame_kind_ok kind \<longleftrightarrow> length kind \<le> 128 \<and> (\<forall>c\<in>set kind. is_alnum c \<or> c \<in> set ''._-'')"

definition frame :: "(json \<Rightarrow> string) \<Rightarrow> json \<Rightarrow> string res" where
  "frame print v =
     (case str_field v ''type'' of
        None \<Rightarrow> Inl (err_invalid_event ''SSE event has no type'')
      | Some kind \<Rightarrow>
          if \<not> frame_kind_ok kind then Inl (err_invalid_event ''SSE event type is invalid'')
          else Inr (''event: '' @ kind @ [LF] @ ''data: '' @ print v @ [LF, LF]))"

subsection \<open>Accumulated events\<close>

definition tag :: "string list \<Rightarrow> 'e sse \<times> string list \<Rightarrow> 'e sse \<times> string list" where
  "tag pre st = (fst st, pre @ snd st)"

lemma tag_simps [simp]: "tag pre (d, ev) = (d, pre @ ev)" "tag [] st = st"
  by (simp_all add: tag_def)

lemma collect_append:
  "sse_collect rs (pre @ events) = res_map ((@) pre) (sse_collect rs events)"
proof (induction rs arbitrary: events)
  case (Cons r rs)
  then show ?case by (cases r) auto
qed simp

lemma byte_append:
  "sse_byte feed limit b (d, pre @ events) = res_map (tag pre) (sse_byte feed limit b (d, events))"
  by (simp add: sse_byte_def Let_def collect_append res_map_comp split: prod.split)

lemma bytes_append:
  "sse_bytes feed limit bs (d, pre @ events) = res_map (tag pre) (sse_bytes feed limit bs (d, events))"
proof (induction bs arbitrary: d events)
  case (Cons b bs)
  show ?case
    by (simp add: byte_append and_then_res_map res_map_and_then, rule and_then_cong)
      (auto simp: Cons)
qed simp

lemma step_append:
  "sse_step feed limit b (d, pre @ events) = res_map (tag pre) (sse_step feed limit b (d, events))"
  by (simp add: sse_step_def Let_def byte_append bytes_append)

lemma steps_append:
  "sse_steps feed limit bs (d, pre @ events) = res_map (tag pre) (sse_steps feed limit bs (d, events))"
proof (induction bs arbitrary: d events)
  case (Cons b bs)
  show ?case
    by (simp add: step_append and_then_res_map res_map_and_then, rule and_then_cong)
      (auto simp: Cons)
qed simp

lemma steps_split:
  "sse_steps feed limit (xs @ ys) st = and_then (sse_steps feed limit xs st) (sse_steps feed limit ys)"
proof (induction xs arbitrary: st)
  case (Cons b xs)
  then show ?case by (cases "sse_step feed limit b st") simp_all
qed simp

text \<open>
  Chunks do not matter: pushing two chunks one after the other gives the decoder and,
  concatenated, the events that pushing them as one gives, and fails with the same error.
\<close>

lemma sse_chunks:
  "sse_push feed (xs @ ys) limit d =
     and_then (sse_push feed xs limit d) (\<lambda>(d1, e1).
       and_then (sse_push feed ys limit d1) (\<lambda>(d2, e2). Inr (d2, e1 @ e2)))"
proof (cases "sse_steps feed limit xs (d, [])")
  case (Inr st)
  obtain d1 e1 where st: "st = (d1, e1)" by (cases st)
  have "sse_steps feed limit ys (d1, e1) = res_map (tag e1) (sse_steps feed limit ys (d1, []))"
    using steps_append [of feed limit ys d1 e1 "[]"] by simp
  then show ?thesis
    by (cases "sse_steps feed limit ys (d1, [])") (auto simp: sse_push_def steps_split Inr st)
qed (simp add: sse_push_def steps_split)

subsection \<open>Bounds\<close>

definition sse_ok :: "nat \<Rightarrow> 'e sse \<Rightarrow> bool" where
  "sse_ok limit d \<longleftrightarrow> length (sse_buffer d) \<le> limit \<and> length (sse_prefix d) \<le> 2
     \<and> sse_line_bytes d \<le> length (sse_buffer d)"

lemma byte_ok:
  "sse_ok limit d \<Longrightarrow> sse_byte feed limit b (d, ev) = Inr (d', ev') \<Longrightarrow> sse_ok limit d' \<and> sse_prefix d' = sse_prefix d"
  by (auto simp: sse_byte_def sse_ok_def Let_def res_map_Inr_iff split: if_splits prod.splits)

lemma bytes_ok:
  "sse_ok limit d \<Longrightarrow> sse_bytes feed limit bs (d, ev) = Inr (d', ev') \<Longrightarrow> sse_ok limit d' \<and> sse_prefix d' = sse_prefix d"
proof (induction bs arbitrary: d ev)
  case (Cons b bs)
  then show ?case by (auto simp: and_then_Inr_iff dest: byte_ok)
qed simp

lemma mark_prefix: "starts_with p byte_order_mark \<Longrightarrow> length p \<le> 3"
  by (auto simp: starts_with_def byte_order_mark_def dest!: arg_cong [where f = length])

lemma step_ok: "sse_ok limit d \<Longrightarrow> sse_step feed limit b (d, ev) = Inr (d', ev') \<Longrightarrow> sse_ok limit d'"
proof -
  assume d: "sse_ok limit d" and s: "sse_step feed limit b (d, ev) = Inr (d', ev')"
  show ?thesis
  proof (cases "sse_started d \<or> \<not> starts_with (sse_prefix d @ [b]) byte_order_mark")
    case True
    have "sse_ok limit (d\<lparr>sse_started := True, sse_prefix := []\<rparr>)" using d by (simp add: sse_ok_def)
    with True d s show ?thesis by (auto simp: sse_step_def Let_def dest: byte_ok bytes_ok split: if_splits)
  next
    case False
    with mark_prefix have "length (sse_prefix d) \<le> 2" by fastforce
    with False d s mark_prefix [of "sse_prefix d @ [b]"] show ?thesis
      by (auto simp: sse_step_def sse_ok_def Let_def split: if_splits)
  qed
qed

lemma steps_ok: "sse_ok limit d \<Longrightarrow> sse_steps feed limit bs (d, ev) = Inr (d', ev') \<Longrightarrow> sse_ok limit d'"
proof (induction bs arbitrary: d ev)
  case (Cons b bs)
  then show ?case by (auto simp: and_then_Inr_iff dest: step_ok)
qed simp

subsection \<open>Line endings\<close>

text \<open>The three line endings, rewritten to LF; the flag says that the last byte was a CR.\<close>

fun unify :: "bool \<Rightarrow> string \<Rightarrow> string" where
  "unify cr [] = []"
| "unify cr (b # bs) =
     (if b = CR then LF # unify True bs
      else if cr \<and> b = LF then unify False bs
      else b # unify False bs)"

definition settled :: "'e sse \<Rightarrow> 'e sse" where
  "settled d = d\<lparr>sse_skip_lf := False\<rparr>"

definition settle :: "'e sse \<times> string list \<Rightarrow> 'e sse \<times> string list" where
  "settle st = (settled (fst st), snd st)"

lemma byte_unify:
  "b = LF \<Longrightarrow> sse_skip_lf d \<Longrightarrow> sse_byte feed limit b (d, ev) = Inr (settled d, ev)"
  "b = CR \<Longrightarrow> res_map settle (sse_byte feed limit b (d, ev)) = sse_byte feed limit LF (settled d, ev)"
  "b \<noteq> CR \<Longrightarrow> b \<noteq> LF \<or> \<not> sse_skip_lf d \<Longrightarrow> sse_byte feed limit b (d, ev) = sse_byte feed limit b (settled d, ev)"
  by (cases d; auto simp: sse_byte_def settled_def settle_def Let_def res_map_comp split: prod.split)+

lemma byte_skip:
  "sse_byte feed limit b (d, ev) = Inr (d', ev') \<Longrightarrow> sse_skip_lf d' = (b = CR) \<and> sse_started d' = sse_started d"
  by (auto simp: sse_byte_def Let_def res_map_Inr_iff split: if_splits prod.splits)

definition awaiting :: "'e sse \<Rightarrow> bool" where
  "awaiting d \<longleftrightarrow> sse_started d \<or> (\<not> sse_skip_lf d \<and> CR \<notin> set (sse_prefix d))"

lemma bytes_snoc: "sse_bytes feed limit (bs @ [b]) st = and_then (sse_bytes feed limit bs st) (sse_byte feed limit b)"
proof (induction bs arbitrary: st)
  case Nil
  then show ?case by (cases "sse_byte feed limit b st") simp_all
next
  case (Cons c bs)
  then show ?case by (cases "sse_byte feed limit c st") simp_all
qed

lemma bytes_skip:
  "sse_bytes feed limit bs (d, ev) = Inr (d', ev') \<Longrightarrow> CR \<notin> set bs \<Longrightarrow> \<not> sse_skip_lf d \<Longrightarrow>
     \<not> sse_skip_lf d' \<and> sse_started d' = sse_started d"
proof (induction bs arbitrary: d ev)
  case (Cons b bs)
  then show ?case by (auto simp: and_then_Inr_iff dest!: byte_skip)
qed simp

lemma settled_same: "\<not> sse_skip_lf d \<Longrightarrow> settled d = d"
  by (simp add: settled_def)

lemma settled_sel [simp]:
  "sse_started (settled d) = sse_started d" "sse_prefix (settled d) = sse_prefix d"
  "\<not> sse_skip_lf (settled d)"
  by (simp_all add: settled_def)

lemma not_mark: "c = CR \<or> c = LF \<Longrightarrow> \<not> starts_with (p @ [c]) byte_order_mark"
proof
  assume c: "c = CR \<or> c = LF" and "starts_with (p @ [c]) byte_order_mark"
  then have "c \<in> set (take (length (p @ [c])) byte_order_mark)" by (simp add: starts_with_def)
  then have "c \<in> set byte_order_mark" by (meson in_set_takeD)
  with c show False by (auto simp: byte_order_mark_def)
qed

lemma step_unify:
  assumes "awaiting d"
  shows "b = LF \<Longrightarrow> sse_skip_lf d \<Longrightarrow> sse_step feed limit b (d, ev) = Inr (settled d, ev)"
    and "b = CR \<Longrightarrow> res_map settle (sse_step feed limit b (d, ev)) = sse_step feed limit LF (settled d, ev)"
    and "b \<noteq> CR \<Longrightarrow> b \<noteq> LF \<or> \<not> sse_skip_lf d \<Longrightarrow> sse_step feed limit b (d, ev) = sse_step feed limit b (settled d, ev)"
proof -
  show "sse_step feed limit b (d, ev) = Inr (settled d, ev)" if "b = LF" "sse_skip_lf d"
    using that assms byte_unify(1) by (simp add: sse_step_def awaiting_def)
  show "sse_step feed limit b (d, ev) = sse_step feed limit b (settled d, ev)"
    if "b \<noteq> CR" "b \<noteq> LF \<or> \<not> sse_skip_lf d"
  proof (cases "sse_started d")
    case True
    then show ?thesis using byte_unify(3) [OF that] by (simp add: sse_step_def)
  next
    case False
    with assms show ?thesis by (simp add: settled_same awaiting_def)
  qed
  show "res_map settle (sse_step feed limit b (d, ev)) = sse_step feed limit LF (settled d, ev)" if b: "b = CR"
  proof (cases "sse_started d")
    case True
    then show ?thesis using byte_unify(2) [OF b] by (simp add: sse_step_def)
  next
    case False
    let ?d = "d\<lparr>sse_started := True, sse_prefix := []\<rparr>"
    from False assms have s: "settled d = d" "\<not> sse_skip_lf ?d" "CR \<notin> set (sse_prefix d)"
      by (simp_all add: awaiting_def settled_same)
    have "res_map settle (sse_byte feed limit CR st) = sse_byte feed limit LF st"
      if "sse_bytes feed limit (sse_prefix d) (?d, ev) = Inr st" for st
    proof (cases st)
      case (Pair d' ev')
      with that bytes_skip [OF _ s(3) s(2)] have "\<not> sse_skip_lf d'" by blast
      with byte_unify(2) [OF refl, of feed limit d' ev'] show ?thesis by (simp add: Pair settled_same)
    qed
    then have "and_then (sse_bytes feed limit (sse_prefix d) (?d, ev)) (\<lambda>st. res_map settle (sse_byte feed limit CR st))
        = and_then (sse_bytes feed limit (sse_prefix d) (?d, ev)) (sse_byte feed limit LF)"
      by (rule and_then_cong)
    moreover have "sse_step feed limit c (d, ev) = and_then (sse_bytes feed limit (sse_prefix d) (?d, ev)) (sse_byte feed limit c)"
      if "c = CR \<or> c = LF" for c
      using False not_mark [OF that] by (simp add: sse_step_def bytes_snoc)
    ultimately show ?thesis using b s(1) by (simp add: res_map_and_then)
  qed
qed

lemma step_awaiting:
  assumes "awaiting d" and "sse_step feed limit b (d, ev) = Inr (d', ev')"
  shows "awaiting d' \<and> sse_skip_lf d' = (b = CR)"
proof (cases "sse_started d")
  case True
  with assms show ?thesis by (auto simp: sse_step_def awaiting_def dest: byte_skip)
next
  case False
  show ?thesis
  proof (cases "starts_with (sse_prefix d @ [b]) byte_order_mark")
    case True
    then have "b \<noteq> CR" using not_mark by blast
    with True False assms show ?thesis by (auto simp: sse_step_def awaiting_def Let_def split: if_splits)
  next
    case no: False
    let ?d = "d\<lparr>sse_started := True, sse_prefix := []\<rparr>"
    from no False assms obtain d1 ev1 where
      d1: "sse_bytes feed limit (sse_prefix d) (?d, ev) = Inr (d1, ev1)" "sse_byte feed limit b (d1, ev1) = Inr (d', ev')"
      by (auto simp: sse_step_def bytes_snoc and_then_Inr_iff)
    from False assms(1) have "CR \<notin> set (sse_prefix d)" "\<not> sse_skip_lf ?d" by (simp_all add: awaiting_def)
    with bytes_skip [OF d1(1)] byte_skip [OF d1(2)] show ?thesis by (simp add: awaiting_def)
  qed
qed

lemma steps_unify:
  "awaiting d \<Longrightarrow> res_map settle (sse_steps feed limit bs (d, ev)) =
     res_map settle (sse_steps feed limit (unify (sse_skip_lf d) bs) (settled d, ev))"
proof (induction bs arbitrary: d ev)
  case Nil
  then show ?case by (simp add: settle_def settled_def)
next
  case (Cons b bs)
  note ind = Cons.IH and aw = Cons.prems
  consider (skip) "b = LF" "sse_skip_lf d" | (cr) "b = CR" | (other) "b \<noteq> CR" "b \<noteq> LF \<or> \<not> sse_skip_lf d" by blast
  then show ?case
  proof cases
    case skip
    have "awaiting (settled d)" using aw skip by (simp add: awaiting_def)
    with ind [of "settled d" ev] skip step_unify(1) [OF aw skip] show ?thesis
      by (simp add: settled_def)
  next
    case cr
    show ?thesis
    proof (cases "sse_step feed limit b (d, ev)")
      case (Inl e)
      with step_unify(2) [OF aw cr, of feed limit ev] have "sse_step feed limit LF (settled d, ev) = Inl e" by simp
      with Inl cr show ?thesis by simp
    next
      case (Inr st)
      obtain d' ev' where st: "st = (d', ev')" by (cases st)
      note a = step_awaiting [OF aw Inr [unfolded st]]
      have r: "sse_step feed limit LF (settled d, ev) = Inr (settled d', ev')"
        using step_unify(2) [OF aw cr, of feed limit ev] by (simp add: Inr st settle_def)
      from a ind [of d' ev'] show ?thesis using Inr r cr by (simp add: st)
    qed
  next
    case other
    note r = step_unify(3) [OF aw other, of feed limit ev]
    show ?thesis
    proof (cases "sse_step feed limit b (d, ev)")
      case (Inl e)
      with r have "sse_step feed limit b (settled d, ev) = Inl e" by simp
      with Inl other show ?thesis by auto
    next
      case (Inr st)
      obtain d' ev' where st: "st = (d', ev')" by (cases st)
      note a = step_awaiting [OF aw Inr [unfolded st]]
      with other have "settled d' = d'" by (simp add: settled_same)
      moreover from r Inr st have "sse_step feed limit b (settled d, ev) = Inr (d', ev')" by simp
      ultimately show ?thesis using a ind [of d' ev'] other Inr by (auto simp: st)
    qed
  qed
qed

text \<open>
  Line endings do not matter: a stream with CR LF or CR line endings gives the events of the
  same stream with LF line endings, and fails where that one fails; the limit counts a line
  ending as one byte.
\<close>

lemma sse_line_endings:
  "res_map snd (sse_push feed bytes limit (sse_default e)) = res_map snd (sse_push feed (unify False bytes) limit (sse_default e))"
proof -
  have "awaiting (sse_default e)" "settled (sse_default e) = sse_default e" "\<not> sse_skip_lf (sse_default e)"
    by (simp_all add: awaiting_def settled_def sse_default_def)
  with steps_unify [of "sse_default e" feed limit bytes "[]"]
  have "res_map settle (sse_steps feed limit bytes (sse_default e, [])) =
      res_map settle (sse_steps feed limit (unify False bytes) (sse_default e, []))" by simp
  from arg_cong [where f = "res_map snd", OF this] show ?thesis
    by (simp add: sse_push_def res_map_comp settle_def)
qed

text \<open>
  Memory is bounded: after any chunks the decoder holds at most the configured number of
  bytes of an unfinished event, and of a byte order mark not yet complete at most two.
\<close>

lemma sse_bounded:
  assumes "sse_push feed bytes limit (sse_default e) = Inr (d, events)"
  shows "length (sse_buffer d) \<le> limit \<and> buffered_bytes d \<le> limit + 2"
proof -
  have "sse_ok limit (sse_default e)" by (simp add: sse_ok_def sse_default_def)
  from steps_ok [OF this] assms have "sse_ok limit d" by (simp add: sse_push_def)
  then show ?thesis by (simp add: sse_ok_def buffered_bytes_def)
qed

lemma sse_bounded_witness:
  "buffered_bytes \<lparr>sse_events = (), sse_buffer = ''ab'', sse_line_bytes = 2, sse_skip_lf = False,
     sse_prefix = [], sse_started = True\<rparr> \<le> 5"
  using sse_bounded [of "\<lambda>e b. ([], e)" "''ab''" 3 "()"]
  by (simp add: sse_push_def sse_step_def sse_byte_def sse_default_def starts_with_def byte_order_mark_def numeral_2_eq_2)

end
