(* ===== verification/Codex_Quota.thy ===== *)
theory Codex_Quota
  imports Json Quota
begin

section \<open>Quotas the upstream reports\<close>

text \<open>
  \<open>crates/xxgate-codex/src/provider/quota.rs\<close>: usage windows and credits read from response
  headers, from the usage query and from stream events. A header map is the list of its
  names, lower case and distinct, with their first values. \<open>from_timestamp\<close> (the crate
  \<open>chrono\<close>: seconds to a time stamp, where it has one) and \<open>show_num\<close> (\<open>serde_json\<close>: a
  number's text) are parameters, as is the clock reading \<open>now\<close>. \<open>None\<close> is a panic:
  \<open>item["limit_id"] = ..\<close> panics where the item is neither an object nor null.
\<close>

type_synonym headers = "(string, string) hmap"

text \<open>\<open>HeaderValue::to_str\<close>: visible ASCII and tabs only.\<close>

definition header_str :: "headers \<Rightarrow> string \<Rightarrow> string option" where
  "header_str h name =
     (case hget h name of
        None \<Rightarrow> None
      | Some v \<Rightarrow>
          if \<forall>c\<in>set v. byte c = 9 \<or> (32 \<le> byte c \<and> byte c < 127) then Some v else None)"

definition parse_i64 :: "string \<Rightarrow> int option" where
  "parse_i64 s =
     (let (neg, ds) = strip_sign s; n = int (digits_value ds) in
      if ds \<noteq> [] \<and> all_digits ds \<and> (if neg then n \<le> 2 ^ 63 else n < 2 ^ 63)
      then Some (if neg then - n else n) else None)"

definition valid_percent :: "f64 \<Rightarrow> bool" where
  "valid_percent p \<longleftrightarrow> f64_finite p \<and> \<not> f64_less p (Fin 0)"

fun trim_start_matches :: "nat \<Rightarrow> string \<Rightarrow> string \<Rightarrow> string" where
  "trim_start_matches 0 p s = s"
| "trim_start_matches (Suc n) p s =
     (case strip_prefix p s of None \<Rightarrow> s | Some r \<Rightarrow> trim_start_matches n p r)"

definition underscored :: "string \<Rightarrow> string" where
  "underscored s = map (\<lambda>c. if c = CHR ''-'' then CHR ''_'' else c) s"

definition header_pool :: "string \<Rightarrow> string" where
  "header_pool base =
     (case rsplit_once CHR ''-'' (trim_start_matches (length base) ''x-'' base) of
        None \<Rightarrow> ''codex'' | Some (p, _) \<Rightarrow> p)"

definition header_number :: "headers \<Rightarrow> string \<Rightarrow> string \<Rightarrow> int option" where
  "header_number h base suffix = Option.bind (header_str h (base @ ''-'' @ suffix)) parse_i64"

definition header_window ::
  "(int \<Rightarrow> datetime option) \<Rightarrow> datetime \<Rightarrow> headers \<Rightarrow> string \<Rightarrow> quota_window option" where
  "header_window from_timestamp now h name =
     (case strip_suffix ''-used-percent'' name of
        None \<Rightarrow> None
      | Some base \<Rightarrow>
          if \<not> starts_with ''x-'' base \<or> \<not> (ends_with ''-primary'' base \<or> ends_with ''-secondary'' base)
          then None
          else case Option.bind (header_str h name) parse_f64 of
            None \<Rightarrow> None
          | Some percent \<Rightarrow>
              if \<not> valid_percent percent then None
              else Some
                \<lparr>qw_pool = underscored (header_pool base),
                 qw_window_minutes = header_number h base ''window-minutes'',
                 qw_used_percent = percent,
                 qw_resets_at = Option.bind (header_number h base ''reset-at'') from_timestamp,
                 qw_observed_at = now, qw_source = ''response_header''\<rparr>)"

definition quota_headers :: "(int \<Rightarrow> datetime option) \<Rightarrow> datetime \<Rightarrow> headers \<Rightarrow> quota_window list" where
  "quota_headers from_timestamp now h = List.map_filter (header_window from_timestamp now h) (hkeys h)"

subsection \<open>Windows of a JSON document\<close>

fun as_f64 :: "json \<Rightarrow> f64 option" where
  "as_f64 (JNum (PosInt n)) = Some (f64_of_rat (of_nat n))"
| "as_f64 (JNum (NegInt i)) = Some (f64_of_rat (of_int i))"
| "as_f64 (JNum (Float r)) = Some (Fin r)"
| "as_f64 _ = None"

definition minutes_of :: "int \<Rightarrow> int" where
  "minutes_of s = (if 0 \<le> s then s div 60 else - ((- s) div 60))"

definition pool_name :: "json \<Rightarrow> string" where
  "pool_name v =
     (case Option.bind (or_else (jget v ''metered_limit_name'') (or_else (jget v ''limit_id'') (jget v ''limit_name''))) as_str of
        None \<Rightarrow> ''codex'' | Some p \<Rightarrow> p)"

definition window_of ::
  "(int \<Rightarrow> datetime option) \<Rightarrow> datetime \<Rightarrow> string \<Rightarrow> string \<Rightarrow> json \<Rightarrow> quota_window option" where
  "window_of from_timestamp now source pool w =
     (case Option.bind (jget w ''used_percent'') as_f64 of
        None \<Rightarrow> None
      | Some percent \<Rightarrow>
          if \<not> valid_percent percent then None
          else Some
            \<lparr>qw_pool = underscored pool,
             qw_window_minutes = or_else (Option.bind (jget w ''window_minutes'') as_i64)
               (map_option minutes_of (Option.bind (jget w ''limit_window_seconds'') as_i64)),
             qw_used_percent = percent,
             qw_resets_at = Option.bind (Option.bind (or_else (jget w ''reset_at'') (jget w ''resets_at'')) as_i64)
               from_timestamp,
             qw_observed_at = now, qw_source = source\<rparr>)"

text \<open>A window is added unless one of the pool, as the document spells it, has its minutes.\<close>

definition add_window :: "string \<Rightarrow> quota_window \<Rightarrow> quota_window list \<Rightarrow> quota_window list" where
  "add_window pool w result =
     (if \<exists>e\<in>set result. qw_pool e = pool \<and> qw_window_minutes e = qw_window_minutes w
      then result else result @ [w])"

definition own_windows ::
  "(int \<Rightarrow> datetime option) \<Rightarrow> datetime \<Rightarrow> string \<Rightarrow> json \<Rightarrow> quota_window list" where
  "own_windows from_timestamp now source v =
     (let pool = pool_name v;
          roots = List.map_filter id [jget v ''rate_limit'', jget v ''rate_limits'', Some v];
          entries = concat (map (\<lambda>root. List.map_filter (jget root)
            [''primary_window'', ''secondary_window'', ''primary'', ''secondary'']) roots)
      in fold (add_window pool) (List.map_filter (window_of from_timestamp now source pool) entries) [])"

text \<open>\<open>item["limit_id"] = pool\<close>\<close>

fun set_limit_id :: "string \<Rightarrow> json \<Rightarrow> json option" where
  "set_limit_id pool (JObj m) = Some (JObj (hput ''limit_id'' (JStr pool) m))"
| "set_limit_id pool JNull = Some (JObj [(''limit_id'', JStr pool)])"
| "set_limit_id pool _ = None"

definition limit_entries :: "json option \<Rightarrow> json option list" where
  "limit_entries v =
     (case v of
        Some (JArr es) \<Rightarrow> map Some es
      | Some (JObj m) \<Rightarrow> map (\<lambda>(pool, item). set_limit_id pool item) m
      | _ \<Rightarrow> [])"

fun collect_all :: "'a list option list \<Rightarrow> 'a list option" where
  "collect_all [] = Some []"
| "collect_all (x # xs) =
     (case x of None \<Rightarrow> None | Some ys \<Rightarrow> map_option ((@) ys) (collect_all xs))"

lemma depth_limit: "set_limit_id pool item = Some w \<Longrightarrow> depth w \<le> max 2 (depth item)"
proof (induction pool item rule: set_limit_id.induct)
  case (1 pool m)
  have "\<forall>n\<in>set (map (\<lambda>(k, v). depth v) (hput ''limit_id'' (JStr pool) m)). n \<le> max 1 (depth (JObj m) - 1)"
  proof
    fix n assume "n \<in> set (map (\<lambda>(k, v). depth v) (hput ''limit_id'' (JStr pool) m))"
    then obtain k v where kv: "(k, v) \<in> set (hput ''limit_id'' (JStr pool) m)" and n: "n = depth v" by auto
    from kv have "(k, v) \<in> set m \<or> v = JStr pool"
      by (induction m) (auto split: if_splits)
    with depth_obj [of k v m] n show "n \<le> max 1 (depth (JObj m) - 1)" by auto
  qed
  from fold_max_le [OF this, of 0] have "depth (JObj (hput ''limit_id'' (JStr pool) m)) \<le> Suc (max 1 (depth (JObj m) - 1))"
    by (simp only: depth.simps Suc_le_mono)
  with 1 show ?case by auto
qed auto

lemma depth_entry:
  assumes "Some w \<in> set (limit_entries (jget v k))"
  shows "depth w < depth v"
proof (cases "jget v k")
  case (Some u)
  note u = depth_get [OF Some]
  consider (arr) es where "u = JArr es" "w \<in> set es"
    | (obj) m pool item where "u = JObj m" "(pool, item) \<in> set m" "set_limit_id pool item = Some w"
    using assms Some by (auto simp: limit_entries_def split: json.splits)
  then show ?thesis
  proof cases
    case arr
    with u depth_arr [of w es] show ?thesis by simp
  next
    case obj
    with u depth_obj [of pool item m] depth_limit [OF obj(3)] depth_pos [of item] show ?thesis by simp
  qed
qed (use assms in \<open>simp add: limit_entries_def\<close>)

function windows :: "(int \<Rightarrow> datetime option) \<Rightarrow> datetime \<Rightarrow> string \<Rightarrow> json \<Rightarrow> quota_window list option" where
  "windows from_timestamp now source v =
     (case v of
        JArr es \<Rightarrow> collect_all (map (windows from_timestamp now source) es)
      | _ \<Rightarrow>
          collect_all (Some (own_windows from_timestamp now source v)
            # map (\<lambda>e. case e of None \<Rightarrow> None | Some w \<Rightarrow> windows from_timestamp now source w)
                (limit_entries (jget v ''additional_rate_limits'')
                 @ limit_entries (jget v ''rate_limits_by_limit_id''))))"
  by pat_completeness auto
termination
  by (relation "measure (\<lambda>(_, _, _, v). depth v)")
    (auto simp del: depth.simps jget_simps dest: depth_entry depth_arr)

declare windows.simps [simp del]

definition err_invalid_quota :: err where
  "err_invalid_quota = error_new 502 ''invalid_quota_response'' ''Upstream quota response is invalid''"

definition quota_response ::
  "(string \<Rightarrow> json option) \<Rightarrow> (int \<Rightarrow> datetime option) \<Rightarrow> datetime \<Rightarrow> string \<Rightarrow> quota_window list res option" where
  "quota_response parse from_timestamp now body =
     (case parse body of
        None \<Rightarrow> Some (Inl err_invalid_quota)
      | Some v \<Rightarrow> map_option Inr (windows from_timestamp now ''usage_query'' v))"

subsection \<open>Credits\<close>

definition credits_of :: "(jnum \<Rightarrow> string) \<Rightarrow> datetime \<Rightarrow> json \<Rightarrow> string \<Rightarrow> extra_credits" where
  "credits_of show_num now v source =
     (let c = jindex v ''credits''; balance = jindex c ''balance'' in
      \<lparr>xc_has_credits = as_bool (jindex c ''has_credits''),
       xc_unlimited = as_bool (jindex c ''unlimited''),
       xc_balance = (case balance of
          JStr s \<Rightarrow> if str_trim s = [] then None else Some (str_trim s)
        | JNum n \<Rightarrow> Some (show_num n)
        | _ \<Rightarrow> None),
       xc_observed_at = now, xc_source = source,
       xc_blocked = (jindex (jindex v ''spend_control'') ''reached'' = JBool True
         \<or> (case as_str (jindex (jindex v ''rate_limit_reached_type'') ''kind'') of
              None \<Rightarrow> False | Some kind \<Rightarrow> starts_with ''workspace_'' kind))\<rparr>)"

definition credit_response ::
  "(string \<Rightarrow> json option) \<Rightarrow> (jnum \<Rightarrow> string) \<Rightarrow> datetime \<Rightarrow> string \<Rightarrow> extra_credits res" where
  "credit_response parse show_num now body =
     (case parse body of
        None \<Rightarrow> Inl err_invalid_quota
      | Some v \<Rightarrow> Inr (credits_of show_num now v ''usage_query''))"

definition header_text :: "headers \<Rightarrow> string \<Rightarrow> string option" where
  "header_text h name = map_option str_trim (header_str h name)"

definition header_bool :: "headers \<Rightarrow> string \<Rightarrow> bool option" where
  "header_bool h name =
     (case map_option (map ascii_lower) (header_text h name) of
        None \<Rightarrow> None
      | Some s \<Rightarrow>
          if s = ''true'' \<or> s = ''1'' then Some True
          else if s = ''false'' \<or> s = ''0'' then Some False else None)"

definition credit_headers :: "datetime \<Rightarrow> headers \<Rightarrow> extra_credits option" where
  "credit_headers now h =
     (if hget h ''x-codex-credits-has-credits'' = None \<and> hget h ''x-codex-credits-unlimited'' = None
         \<and> hget h ''x-codex-credits-balance'' = None
      then None
      else Some
        \<lparr>xc_has_credits = header_bool h ''x-codex-credits-has-credits'',
         xc_unlimited = header_bool h ''x-codex-credits-unlimited'',
         xc_balance = (case header_text h ''x-codex-credits-balance'' of
            None \<Rightarrow> None | Some s \<Rightarrow> if s = [] then None else Some s),
         xc_observed_at = now, xc_source = ''response_header'', xc_blocked = False\<rparr>)"

subsection \<open>What is read\<close>

definition sound_window :: "datetime \<Rightarrow> string \<Rightarrow> quota_window \<Rightarrow> bool" where
  "sound_window now source w \<longleftrightarrow>
     valid_percent (qw_used_percent w) \<and> CHR ''-'' \<notin> set (qw_pool w)
     \<and> qw_observed_at w = now \<and> qw_source w = source"

lemma underscored_clean: "CHR ''-'' \<notin> set (underscored s)"
  by (auto simp: underscored_def)

lemma window_of_sound: "window_of ft now source pool v = Some w \<Longrightarrow> sound_window now source w \<and> qw_pool w = underscored pool"
  by (auto simp: window_of_def sound_window_def underscored_clean split: option.splits if_splits)

lemma add_windows_keep:
  "\<forall>w\<in>set ws. P w \<Longrightarrow> \<forall>w\<in>set acc. P w \<Longrightarrow> \<forall>w\<in>set (fold (add_window pool) ws acc). P w"
proof (induction ws arbitrary: acc)
  case (Cons w ws)
  then have "\<forall>x\<in>set (add_window pool w acc). P x" by (auto simp: add_window_def)
  with Cons.IH [OF _ this] Cons.prems(1) show ?case by simp
qed simp

lemma mem_map_filter: "x \<in> set (List.map_filter f ys) \<longleftrightarrow> (\<exists>y\<in>set ys. f y = Some x)"
  by (induction ys) (auto simp: List.map_filter_simps split: option.split)

lemma own_windows_sound:
  "\<forall>w\<in>set (own_windows ft now source v). sound_window now source w \<and> qw_pool w = underscored (pool_name v)"
  unfolding own_windows_def Let_def
  by (rule add_windows_keep) (use window_of_sound in \<open>auto simp only: mem_map_filter list.set ball_empty\<close>)

lemma add_windows_distinct:
  "\<forall>w\<in>set ws. qw_pool w = pool \<Longrightarrow> \<forall>w\<in>set acc. qw_pool w = pool \<Longrightarrow> distinct (map qw_window_minutes acc)
     \<Longrightarrow> distinct (map qw_window_minutes (fold (add_window pool) ws acc))"
proof (induction ws arbitrary: acc)
  case (Cons w ws)
  then have "\<forall>x\<in>set (add_window pool w acc). qw_pool x = pool"
    "distinct (map qw_window_minutes (add_window pool w acc))"
    by (auto simp: add_window_def)
  with Cons.IH [of "add_window pool w acc"] Cons.prems(1) show ?case by simp
qed simp

lemma own_windows_distinct:
  assumes "underscored (pool_name v) = pool_name v"
  shows "distinct (map qw_window_minutes (own_windows ft now source v))"
  unfolding own_windows_def Let_def
  by (rule add_windows_distinct) (use window_of_sound assms in \<open>auto simp: mem_map_filter\<close>)

lemma collect_all_mem: "collect_all xs = Some ys \<Longrightarrow> y \<in> set ys \<Longrightarrow> \<exists>zs. Some zs \<in> set xs \<and> y \<in> set zs"
proof (induction xs arbitrary: ys)
  case (Cons x xs)
  then obtain zs rest where r: "x = Some zs" "collect_all xs = Some rest" "ys = zs @ rest"
    by (auto split: option.splits)
  show ?case
  proof (cases "y \<in> set zs")
    case False
    with r Cons.prems have "y \<in> set rest" by simp
    with Cons.IH [OF r(2)] show ?thesis by auto
  qed (use r in auto)
qed simp

lemma windows_sound: "windows ft now source v = Some ws \<Longrightarrow> w \<in> set ws \<Longrightarrow> sound_window now source w"
proof (induction v arbitrary: ws rule: measure_induct_rule [of depth])
  case (less v)
  show ?case
  proof (cases "\<exists>es. v = JArr es")
    case True
    then obtain es where v: "v = JArr es" by blast
    have "windows ft now source v = collect_all (map (windows ft now source) es)"
      by (subst windows.simps) (simp add: v)
    with less.prems obtain zs where "Some zs \<in> set (map (windows ft now source) es)" "w \<in> set zs"
      using collect_all_mem by metis
    then obtain e where "e \<in> set es" "windows ft now source e = Some zs" "w \<in> set zs" by auto
    with less.IH [of e] depth_arr [of e es] v show ?thesis by blast
  next
    case False
    let ?es = "limit_entries (jget v ''additional_rate_limits'') @ limit_entries (jget v ''rate_limits_by_limit_id'')"
    have all: "windows ft now source v = collect_all (Some (own_windows ft now source v)
        # map (\<lambda>e. case e of None \<Rightarrow> None | Some u \<Rightarrow> windows ft now source u) ?es)"
      using False by (subst windows.simps) (simp split: json.split)
    from collect_all_mem [OF less.prems(1) [unfolded all] less.prems(2)]
    obtain xs where "w \<in> set xs" and "Some xs \<in> set (Some (own_windows ft now source v)
        # map (\<lambda>e. case e of None \<Rightarrow> None | Some u \<Rightarrow> windows ft now source u) ?es)"
      by blast
    then have "w \<in> set (own_windows ft now source v) \<or>
        (\<exists>u zs. Some u \<in> set ?es \<and> windows ft now source u = Some zs \<and> w \<in> set zs)"
      by (auto simp del: set_append map_append split: option.splits)
    then show ?thesis
    proof (elim disjE exE conjE)
      assume "w \<in> set (own_windows ft now source v)"
      then show ?thesis using own_windows_sound by blast
    next
      fix u zs assume u: "Some u \<in> set ?es" and zs: "windows ft now source u = Some zs" "w \<in> set zs"
      from u have "depth u < depth v" unfolding set_append by (elim UnE) (rule depth_entry, assumption)+
      then show ?thesis by (rule less.IH [OF _ zs])
    qed
  qed
qed

text \<open>
  Whatever document the upstream sends, every usage window read from it has a finite
  percentage that is not negative, a pool name in the spelling with underscores, and the time
  and source of this reading; of one pool the document gives one window per length, when the
  document spells the pool with underscores.
\<close>

lemma quota_windows_sound:
  assumes "windows from_timestamp now source v = Some ws"
  shows "(\<forall>w\<in>set ws. valid_percent (qw_used_percent w) \<and> CHR ''-'' \<notin> set (qw_pool w)
      \<and> qw_observed_at w = now \<and> qw_source w = source)
    \<and> (CHR ''-'' \<in> set (pool_name v) \<or> distinct (map qw_window_minutes (own_windows from_timestamp now source v)))"
proof -
  have "underscored (pool_name v) = pool_name v" if "CHR ''-'' \<notin> set (pool_name v)"
    unfolding underscored_def by (rule map_idI) (use that in auto)
  then show ?thesis
    using windows_sound [OF assms] own_windows_distinct [of v] by (auto simp: sound_window_def)
qed

definition ex_limits :: "string \<Rightarrow> json" where
  "ex_limits pool = JObj [(''limit_id'', JStr pool),
     (''primary'', JObj [(''used_percent'', JNum (Float 5)), (''window_minutes'', JNum (PosInt 300))]),
     (''rate_limit'', JObj [(''primary_window'',
        JObj [(''used_percent'', JNum (Float 100)), (''window_minutes'', JNum (PosInt 300))])])]"

lemma quota_windows_sound_witness:
  "\<exists>ws. windows Some 7 ''sse'' (ex_limits ''a'') = Some ws
     \<and> distinct (map qw_window_minutes (own_windows Some 7 ''sse'' (ex_limits ''a'')))"
proof -
  have "\<exists>ws. windows Some 7 ''sse'' (ex_limits ''a'') = Some ws"
    by (subst windows.simps) (simp add: ex_limits_def limit_entries_def)
  then obtain ws where ws: "windows Some 7 ''sse'' (ex_limits ''a'') = Some ws" ..
  with quota_windows_sound [OF ws] show ?thesis by (simp add: ex_limits_def pool_name_def)
qed

text \<open>
  With a dash in the pool's name, the second window of the same length is not recognised: it is
  added and, observed at the same time, replaces the first in the database.
\<close>

lemma dashed_pool_repeats:
  "map qw_used_percent (own_windows Some 7 ''sse'' (ex_limits ''a-b'')) = [Fin 100, Fin 5]"
  "map qw_used_percent (own_windows Some 7 ''sse'' (ex_limits ''a_b'')) = [Fin 100]"
  by (simp_all add: own_windows_def ex_limits_def pool_name_def List.map_filter_def window_of_def
      valid_percent_def add_window_def underscored_def)

text \<open>
  A number, text, flag or array where the upstream should describe a limit by its
  identifier makes the reader panic instead of ignoring the entry.
\<close>

lemma quota_windows_panics:
  "windows from_timestamp now source (JObj [(''rate_limits_by_limit_id'', JObj [(pool, JNum n)])]) = None
    \<and> quota_response (\<lambda>_. Some (JObj [(''rate_limits_by_limit_id'', JObj [(pool, JNum n)])])) from_timestamp now body = None"
  by (simp add: quota_response_def windows.simps limit_entries_def)

end
