(* ===== verification/Codex_Errors.thy ===== *)
theory Codex_Errors
  imports Json Core_Types
begin

section \<open>Classifying upstream errors\<close>

text \<open>
  \<open>crates/xxgate-codex/src/provider/error_diagnostics.rs\<close> and the error functions of
  \<open>provider/mod.rs\<close>: what is kept of an upstream's error response, which error the client
  gets and whether the account is to be disabled. \<open>parse\<close> reads JSON text and
  \<open>from_utf8_lossy\<close> is the standard library's.
\<close>

subsection \<open>Diagnostics (error_diagnostics.rs)\<close>

definition diagnostic_limit :: "string \<Rightarrow> nat" where
  "diagnostic_limit name = (if name \<in> {''message'', ''detail'', ''body''} then 4096 else 256)"

definition insert_field ::
  "string \<Rightarrow> json \<Rightarrow> (string, json) hmap \<times> bool \<Rightarrow> (string, json) hmap \<times> bool" where
  "insert_field name v st =
     (case v of
        JStr text \<Rightarrow>
          let saved = take_chars (diagnostic_limit name) text
          in (hput name (JStr saved) (fst st), snd st \<or> length saved < length text)
      | JNum _ \<Rightarrow> (hput name v (fst st), snd st)
      | JBool _ \<Rightarrow> (hput name v (fst st), snd st)
      | JNull \<Rightarrow> (hput name v (fst st), snd st)
      | _ \<Rightarrow> st)"

definition insert_option ::
  "string \<Rightarrow> json option \<Rightarrow> (string, json) hmap \<times> bool \<Rightarrow> (string, json) hmap \<times> bool" where
  "insert_option name v st = (case v of None \<Rightarrow> st | Some v \<Rightarrow> insert_field name v st)"

text \<open>A field of the nested error object unless that is absent or null, else of the document.\<close>

definition diagnostic_field :: "json \<Rightarrow> string \<Rightarrow> json option" where
  "diagnostic_field v name =
     (case jpath v [''error'', name] of
        Some JNull \<Rightarrow> jget v name
      | None \<Rightarrow> jget v name
      | Some w \<Rightarrow> Some w)"

definition capture :: "(string \<Rightarrow> string) \<Rightarrow> json option \<Rightarrow> string \<Rightarrow> original_upstream_error" where
  "capture from_utf8_lossy value body =
     (let (fields, truncated) =
        (case value of
           Some v \<Rightarrow>
             let st1 = fold (\<lambda>name. insert_option name (diagnostic_field v name))
                   [''code'', ''type'', ''message'', ''param'', ''detail''] ([], False);
                 st2 = insert_option ''incomplete_reason'' (jpath v [''incomplete_details'', ''reason'']) st1
             in (case jget v ''error'' of Some (JStr m) \<Rightarrow> insert_field ''message'' (JStr m) st2 | _ \<Rightarrow> st2)
         | None \<Rightarrow> insert_field ''body'' (JStr (from_utf8_lossy (take 16384 body))) ([], 16384 < length body))
      in \<lparr>oue_source = ''http'', oue_fields = JObj fields, oue_truncated = truncated\<rparr>)"

subsection \<open>Classification (provider/mod.rs)\<close>

definition path_str :: "json \<Rightarrow> string list \<Rightarrow> string option" where
  "path_str v ks = Option.bind (jpath v ks) as_str"

definition upstream_message :: "json \<Rightarrow> string option" where
  "upstream_message v =
     or_else (path_str v [''error'', ''message'']) (or_else (str_field v ''detail'') (str_field v ''message''))"

definition text_or_empty :: "string option \<Rightarrow> string" where
  "text_or_empty t = (case t of None \<Rightarrow> [] | Some s \<Rightarrow> s)"

definition content_policy_reason :: "json \<Rightarrow> string option" where
  "content_policy_reason v =
     (if starts_with ''This content was flagged for possible cybersecurity risk.'' (text_or_empty (upstream_message v))
      then Some ''cybersecurity_risk''
      else
        let code = or_else (path_str v [''error'', ''code''])
              (or_else (path_str v [''error'', ''type'']) (str_field v ''code''))
        in if code = Some ''cyber_policy'' then Some ''cybersecurity_risk''
           else if code \<in> Some ` {''content_policy_violation'', ''content_filter'', ''content_policy_error''}
           then Some ''content_policy_violation'' else None)"

text \<open>The first of the three members that is present, whatever its type, read as text.\<close>

definition error_code_of :: "json \<Rightarrow> string option" where
  "error_code_of v =
     Option.bind (or_else (jpath v [''error'', ''code'']) (or_else (jpath v [''error'', ''type'']) (jget v ''code'')))
       as_str"

definition status_error :: "nat \<Rightarrow> string \<times> string" where
  "status_error status =
     (if status = 429 then (''upstream_rate_limited'', ''The upstream temporarily rate-limited this request'')
      else if status = 400 \<or> status = 422
      then (''upstream_invalid_request'', ''The upstream rejected the request parameters or context'')
      else if status = 403 then (''upstream_forbidden'', ''The upstream account cannot access this capability'')
      else if status = 404 then (''upstream_not_found'', ''The upstream model or endpoint was not found'')
      else (''upstream_error'', ''The upstream could not complete this request''))"

definition classify_parsed_error :: "nat \<Rightarrow> json option \<Rightarrow> err \<times> disable_reason option" where
  "classify_parsed_error status parsed =
     (let code = text_or_empty (Option.bind parsed error_code_of) in
      if status = 401 \<or> code \<in> {''invalid_grant'', ''token_revoked'', ''account_deactivated'', ''invalid_token''}
      then (error_new 502 ''oauth_invalid'' ''The upstream account authorization is invalid'', Some OauthInvalid)
      else if code \<in> {''insufficient_quota'', ''usage_limit_reached'', ''quota_exhausted''}
      then (error_new 429 ''upstream_quota_exhausted'' ''The upstream account quota is exhausted'',
            Some QuotaExhausted)
      else
        let (c, m) = status_error status in
        (with_client_message (error_new (if 400 \<le> status \<and> status < 500 then status else 502) c m)
           (Option.bind parsed upstream_message), None))"

definition known_codes :: "string list" where
  "known_codes =
     [''unsupported_parameter'', ''unknown_parameter'', ''invalid_value'', ''invalid_request_error'',
      ''invalid_encrypted_content'', ''context_length_exceeded'', ''rate_limit_exceeded'',
      ''insufficient_quota'', ''usage_limit_reached'', ''invalid_token'', ''token_revoked'',
      ''account_deactivated'', ''server_error'', ''content_policy_violation'', ''content_policy_error'',
      ''content_filter'', ''cyber_policy'']"

definition known_params :: "string list" where
  "known_params =
     [''model'', ''input'', ''instructions'', ''tools'', ''tool_choice'', ''parallel_tool_calls'',
      ''max_output_tokens'', ''max_completion_tokens'', ''temperature'', ''top_p'', ''stream_options'',
      ''service_tier'', ''reasoning'', ''text'', ''store'', ''stream'', ''previous_response_id'',
      ''background'', ''client_metadata'', ''prompt_cache_key'', ''context_management'', ''truncation'']"

definition trim_marks :: "string \<Rightarrow> string" where
  "trim_marks s =
     (let mark = (\<lambda>c. c = CHR 0x27 \<or> c = CHR 0x22 \<or> c = CHR ''.'')
      in rev (dropWhile mark (rev (dropWhile mark s))))"

definition unsupported_name :: "string \<Rightarrow> string option" where
  "unsupported_name message =
     or_else (strip_prefix ''Unsupported parameter: '' message) (strip_prefix ''Unknown parameter: '' message)"

definition fact_reason :: "json \<Rightarrow> string option \<Rightarrow> string \<Rightarrow> string option" where
  "fact_reason v code message =
     (case content_policy_reason v of
        Some r \<Rightarrow> Some r
      | None \<Rightarrow>
          if message = ''Our servers are currently overloaded. Please try again later.''
          then Some ''upstream_overloaded''
          else if code = Some ''invalid_encrypted_content''
             \<and> message = ''Encrypted function output content could not be decrypted or decoded.''
          then Some ''invalid_encrypted_tool_output''
          else if unsupported_name message \<noteq> None
             \<or> code \<in> Some ` {''unsupported_parameter'', ''unknown_parameter''}
          then Some ''unsupported_parameter''
          else filter_option (\<lambda>c. c \<in> {''invalid_encrypted_content'', ''context_length_exceeded'',
                                        ''rate_limit_exceeded''}) code)"

definition error_facts :: "json \<Rightarrow> upstream_error option" where
  "error_facts v =
     (let code = filter_option (\<lambda>c. c \<in> set known_codes) (error_code_of v);
          message = text_or_empty (Option.bind
            (or_else (jpath v [''error'', ''message'']) (or_else (jget v ''detail'') (jget v ''message''))) as_str);
          param = filter_option (\<lambda>p. p \<in> set known_params)
            (map_option (\<lambda>p. trim_marks (str_trim p))
              (or_else (path_str v [''error'', ''param'']) (unsupported_name message)));
          reason = fact_reason v code message
      in if code = None \<and> reason = None \<and> param = None then None
         else Some \<lparr>ue_code = code, ue_reason = reason, ue_param = param, ue_original = None\<rparr>)"

definition no_facts :: upstream_error where
  "no_facts = \<lparr>ue_code = None, ue_reason = None, ue_param = None, ue_original = None\<rparr>"

definition policy_error :: "string \<Rightarrow> json option \<Rightarrow> err" where
  "policy_error reason parsed =
     with_client_message
       (error_new 403 ''upstream_content_policy_violation''
         (if reason = ''cybersecurity_risk''
          then ''The upstream rejected this request because its content was flagged for possible cybersecurity risk''
          else ''The upstream rejected this request under its content safety policy''))
       (Option.bind parsed upstream_message)"

definition classify_error ::
  "(string \<Rightarrow> json option) \<Rightarrow> (string \<Rightarrow> string) \<Rightarrow> nat \<Rightarrow> string \<Rightarrow> err \<times> disable_reason option" where
  "classify_error parse from_utf8_lossy status body =
     (let parsed = parse body;
          (e, disable) = (case Option.bind parsed content_policy_reason of
             Some reason \<Rightarrow> (policy_error reason parsed, None)
           | None \<Rightarrow> classify_parsed_error status parsed);
          facts = (case Option.bind parsed error_facts of None \<Rightarrow> no_facts | Some f \<Rightarrow> f)
      in (with_upstream e (Some (facts\<lparr>ue_original := Some (capture from_utf8_lossy parsed body)\<rparr>)), disable))"

subsection \<open>What leaves the classification\<close>

text \<open>The codes of the errors made here, with their fixed messages.\<close>

definition public_errors :: "(string \<times> string) list" where
  "public_errors =
     [(''oauth_invalid'', ''The upstream account authorization is invalid''),
      (''upstream_quota_exhausted'', ''The upstream account quota is exhausted''),
      (''upstream_content_policy_violation'',
       ''The upstream rejected this request because its content was flagged for possible cybersecurity risk''),
      (''upstream_content_policy_violation'', ''The upstream rejected this request under its content safety policy''),
      status_error 429, status_error 400, status_error 403, status_error 404, status_error 500]"

definition diagnostic_names :: "string set" where
  "diagnostic_names =
     {''code'', ''type'', ''message'', ''param'', ''detail'', ''incomplete_reason'', ''body''}"

definition diagnostic_value :: "json \<Rightarrow> bool" where
  "diagnostic_value v \<longleftrightarrow>
     (case v of JStr s \<Rightarrow> length s \<le> 4 * 4096 | JArr vs \<Rightarrow> False | JObj m \<Rightarrow> False | _ \<Rightarrow> True)"

definition diagnostics_ok :: "(string, json) hmap \<times> bool \<Rightarrow> bool" where
  "diagnostics_ok st \<longleftrightarrow> (\<forall>(k, v)\<in>set (fst st). k \<in> diagnostic_names \<and> diagnostic_value v)"

lemma length_str_chars: "c \<in> set (str_chars s) \<Longrightarrow> length c \<le> 4"
  by (induction s rule: str_chars.induct) (auto simp: utf8_tail_def)

lemma length_take_chars: "length (take_chars n s) \<le> 4 * n"
proof -
  have bound: "sum_list (map length xs) \<le> 4 * length xs" if "\<forall>c\<in>set xs. length c \<le> 4" for xs :: "string list"
    using that by (induction xs) auto
  have "length (take_chars n s) \<le> 4 * length (take n (str_chars s))"
    unfolding take_chars_def length_concat by (rule bound) (blast dest: in_set_takeD length_str_chars)
  also have "\<dots> \<le> 4 * n" by simp
  finally show ?thesis .
qed

lemma set_hput: "x \<in> set (hput k v m) \<Longrightarrow> x \<in> set m \<or> x = (k, v)"
  by (induction m) (auto split: if_splits)

lemma insert_field_ok:
  assumes "diagnostics_ok st" and "name \<in> diagnostic_names"
  shows "diagnostics_ok (insert_field name v st)"
proof -
  have "diagnostic_limit name \<le> 4096" by (simp add: diagnostic_limit_def)
  then have "length (take_chars (diagnostic_limit name) t) \<le> 4 * 4096" for t
    using length_take_chars [of "diagnostic_limit name" t] by linarith
  with assms show ?thesis
    by (auto simp: insert_field_def diagnostics_ok_def diagnostic_value_def Let_def dest!: set_hput split: json.split)
qed

lemma insert_option_ok:
  "diagnostics_ok st \<Longrightarrow> name \<in> diagnostic_names \<Longrightarrow> diagnostics_ok (insert_option name v st)"
  by (simp add: insert_option_def insert_field_ok split: option.split)

lemma insert_options_ok:
  "diagnostics_ok st \<Longrightarrow> set names \<subseteq> diagnostic_names
     \<Longrightarrow> diagnostics_ok (fold (\<lambda>name. insert_option name (f name)) names st)"
  by (induction names arbitrary: st) (simp_all add: insert_option_ok)

lemma capture_ok:
  "\<exists>m b. capture lossy value body = \<lparr>oue_source = ''http'', oue_fields = JObj m, oue_truncated = b\<rparr>
     \<and> diagnostics_ok (m, b)"
proof -
  have nil: "diagnostics_ok ([], b)" for b by (simp add: diagnostics_ok_def)
  define st where "st = (case value of
           Some v \<Rightarrow>
             let st1 = fold (\<lambda>name. insert_option name (diagnostic_field v name))
                   [''code'', ''type'', ''message'', ''param'', ''detail''] ([], False);
                 st2 = insert_option ''incomplete_reason'' (jpath v [''incomplete_details'', ''reason'']) st1
             in (case jget v ''error'' of Some (JStr m) \<Rightarrow> insert_field ''message'' (JStr m) st2 | _ \<Rightarrow> st2)
         | None \<Rightarrow> insert_field ''body'' (JStr (lossy (take 16384 body))) ([], 16384 < length body))"
  have names: "set [''code'', ''type'', ''message'', ''param'', ''detail''] \<subseteq> diagnostic_names"
    "''incomplete_reason'' \<in> diagnostic_names" "''body'' \<in> diagnostic_names" "''message'' \<in> diagnostic_names"
    by (simp_all add: diagnostic_names_def)
  have "diagnostics_ok st"
    unfolding st_def Let_def
    using insert_field_ok insert_option_ok insert_options_ok [OF nil names(1)] nil names(2-)
    by (auto split: option.split json.split simp del: fold_simps)
  then show ?thesis
    by (cases st) (auto simp: capture_def st_def [symmetric])
qed

lemma filter_option_Some: "filter_option p m = Some x \<longleftrightarrow> m = Some x \<and> p x"
  by (cases m) (auto simp: filter_option_def)

lemma filter_option_mem: "filter_option (\<lambda>c. c \<in> S) m \<in> insert None (Some ` S)"
  by (cases m) (auto simp: filter_option_def)

lemma error_facts_known:
  assumes "error_facts v = Some f"
  shows "ue_code f \<in> insert None (Some ` set known_codes) \<and> ue_param f \<in> insert None (Some ` set known_params)"
proof (cases f)
  case (fields c r p orig)
  with assms have "c = filter_option (\<lambda>c. c \<in> set known_codes) (error_code_of v)"
    and "\<exists>m. p = filter_option (\<lambda>p. p \<in> set known_params) m"
    by (auto simp only: error_facts_def Let_def split: if_splits)
  with fields filter_option_mem show ?thesis by (metis upstream_error.select_convs(1,3))
qed

lemma status_error_public: "status_error s \<in> set public_errors"
  by (simp add: public_errors_def status_error_def)

lemma status_error_code: "fst (status_error s) \<noteq> ''oauth_invalid'' \<and> fst (status_error s) \<noteq> ''upstream_quota_exhausted''"
  by (simp add: status_error_def)

lemma client_message_keeps [simp]:
  "err_code (with_client_message e m) = err_code e" "err_message (with_client_message e m) = err_message e"
  "err_status (with_client_message e m) = err_status e" "err_upstream (with_client_message e m) = err_upstream e"
  by (simp_all add: with_client_message_def)

definition disables :: "string \<Rightarrow> disable_reason option" where
  "disables code =
     (if code = ''oauth_invalid'' then Some OauthInvalid
      else if code = ''upstream_quota_exhausted'' then Some QuotaExhausted else None)"

lemma parsed_error_public:
  assumes "classify_parsed_error status parsed = (e, d)"
  shows "(err_code e, err_message e) \<in> set public_errors \<and> d = disables (err_code e)
     \<and> (err_status e \<in> {400..<500} \<or> err_status e = 502)"
proof -
  obtain c m where s: "status_error status = (c, m)" by (cases "status_error status")
  with status_error_code [of status] have "disables c = None" by (simp add: disables_def)
  moreover have "(c, m) \<in> set public_errors" using status_error_public [of status] s by simp
  ultimately have own: "(c, m) \<in> set public_errors \<and> None = disables c" by simp
  have o: "(''oauth_invalid'', ''The upstream account authorization is invalid'') \<in> set public_errors
      \<and> (''upstream_quota_exhausted'', ''The upstream account quota is exhausted'') \<in> set public_errors"
    by (simp add: public_errors_def)
  show ?thesis
    using assms own o unfolding classify_parsed_error_def Let_def s prod.case
    by (auto simp: disables_def split: if_splits)
qed

definition known_reasons :: "string list" where
  "known_reasons =
     [''cybersecurity_risk'', ''content_policy_violation'', ''upstream_overloaded'',
      ''invalid_encrypted_tool_output'', ''unsupported_parameter'', ''invalid_encrypted_content'',
      ''context_length_exceeded'', ''rate_limit_exceeded'']"

lemma policy_reason_cases:
  "content_policy_reason v = Some r \<Longrightarrow> r = ''cybersecurity_risk'' \<or> r = ''content_policy_violation''"
  by (auto simp only: content_policy_reason_def Let_def option.inject option.distinct split: if_splits)

lemma fact_reason_known: "fact_reason v code message \<in> insert None (Some ` set known_reasons)"
proof -
  have m: "x \<in> set known_reasons \<Longrightarrow> Some x \<in> insert None (Some ` set known_reasons)" for x by simp
  have filt: "filter_option (\<lambda>c. c \<in> {''invalid_encrypted_content'', ''context_length_exceeded'', ''rate_limit_exceeded''}) code
      \<in> insert None (Some ` set known_reasons)"
    using filter_option_mem [of "{''invalid_encrypted_content'', ''context_length_exceeded'', ''rate_limit_exceeded''}" code]
    by (auto simp: known_reasons_def)
  have named: "''cybersecurity_risk'' \<in> set known_reasons" "''content_policy_violation'' \<in> set known_reasons"
    "''upstream_overloaded'' \<in> set known_reasons" "''invalid_encrypted_tool_output'' \<in> set known_reasons"
    "''unsupported_parameter'' \<in> set known_reasons"
    by (simp_all add: known_reasons_def)
  show ?thesis
  proof (cases "content_policy_reason v")
    case None
    have if_mem: "x \<in> R \<Longrightarrow> y \<in> R \<Longrightarrow> (if c then x else y) \<in> R" for c and x y :: "string option" and R by simp
    show ?thesis unfolding fact_reason_def None option.case by (intro if_mem m named filt)
  next
    case (Some r)
    from policy_reason_cases [OF this] named have "r \<in> set known_reasons" by blast
    with Some show ?thesis by (simp add: fact_reason_def)
  qed
qed

lemma facts_known:
  assumes "f = (case Option.bind parsed error_facts of None \<Rightarrow> no_facts | Some f \<Rightarrow> f)"
  shows "ue_code f \<in> insert None (Some ` set known_codes) \<and> ue_param f \<in> insert None (Some ` set known_params)
     \<and> ue_reason f \<in> insert None (Some ` set known_reasons)"
proof (cases "Option.bind parsed error_facts")
  case (Some f')
  then obtain v where v: "error_facts v = Some f'" by (cases parsed) auto
  then have "\<exists>c m p. f' = \<lparr>ue_code = c, ue_reason = fact_reason v c m, ue_param = p, ue_original = None\<rparr>"
    unfolding error_facts_def Let_def by (simp only: option.inject option.distinct split: if_splits) blast
  then obtain c m where "ue_reason f' = fact_reason v c m" by auto
  with Some v assms error_facts_known [OF v] fact_reason_known [of v c m] show ?thesis by simp
qed (simp add: assms no_facts_def)

text \<open>
  Whatever an upstream answers with, the error made of it is one of a fixed list of codes
  and messages with a status in 400 to 499 or 502; only a refused authorization or an exhausted
  quota disables the account, a policy rejection never does; and what is kept for diagnosis is
  a known classification and scalar fields of bounded length under known names.
\<close>

lemma errors_classified:
  assumes "classify_error parse lossy status body = (e, d)"
  shows "(err_code e, err_message e) \<in> set public_errors \<and> d = disables (err_code e)
    \<and> (err_status e \<in> {400..<500} \<or> err_status e = 502)
    \<and> (Option.bind (parse body) content_policy_reason \<noteq> None \<longrightarrow> err_status e = 403 \<and> d = None)
    \<and> (\<exists>f m b. err_upstream e = Some f
        \<and> ue_original f = Some \<lparr>oue_source = ''http'', oue_fields = JObj m, oue_truncated = b\<rparr>
        \<and> ue_code f \<in> insert None (Some ` set known_codes)
        \<and> ue_param f \<in> insert None (Some ` set known_params)
        \<and> ue_reason f \<in> insert None (Some ` set known_reasons)
        \<and> (\<forall>(k, v)\<in>set m. k \<in> diagnostic_names \<and> diagnostic_value v))"
proof -
  define parsed where "parsed = parse body"
  define f where "f = (case Option.bind parsed error_facts of None \<Rightarrow> no_facts | Some f \<Rightarrow> f)"
  obtain m b where c: "capture lossy parsed body = \<lparr>oue_source = ''http'', oue_fields = JObj m, oue_truncated = b\<rparr>"
    "diagnostics_ok (m, b)" using capture_ok by blast
  let ?p = "case Option.bind parsed content_policy_reason of
      Some reason \<Rightarrow> (policy_error reason parsed, None) | None \<Rightarrow> classify_parsed_error status parsed"
  obtain e0 where e0: "?p = (e0, d)" and e: "e = with_upstream e0 (Some (f\<lparr>ue_original := Some (capture lossy parsed body)\<rparr>))"
    using assms unfolding classify_error_def Let_def parsed_def [symmetric] f_def [symmetric]
    by (auto split: prod.splits)
  have "(err_code e0, err_message e0) \<in> set public_errors \<and> d = disables (err_code e0)
     \<and> (err_status e0 \<in> {400..<500} \<or> err_status e0 = 502)
     \<and> (Option.bind parsed content_policy_reason \<noteq> None \<longrightarrow> err_status e0 = 403 \<and> d = None)"
  proof (cases "Option.bind parsed content_policy_reason")
    case None
    with e0 parsed_error_public [of status parsed e0 d] show ?thesis by simp
  next
    case (Some r)
    with e0 have "e0 = policy_error r parsed" "d = None" by simp_all
    with Some show ?thesis by (simp add: policy_error_def public_errors_def disables_def)
  qed
  moreover have "err_upstream e = Some (f\<lparr>ue_original := Some (capture lossy parsed body)\<rparr>)"
    "err_code e = err_code e0" "err_message e = err_message e0" "err_status e = err_status e0"
    by (simp_all add: e with_upstream_def)
  ultimately show ?thesis
    using c facts_known [OF f_def] unfolding parsed_def [symmetric] diagnostics_ok_def
    by (auto simp: case_prod_beta)
qed

lemma errors_classified_witness:
  "snd (classify_error (\<lambda>_. Some (JObj [(''code'', JStr ''insufficient_quota'')])) id 429 ''..'') = Some QuotaExhausted"
proof -
  let ?c = "classify_error (\<lambda>_. Some (JObj [(''code'', JStr ''insufficient_quota'')])) id 429 ''..''"
  have "err_code (fst ?c) = ''upstream_quota_exhausted''"
    by (simp add: classify_error_def content_policy_reason_def upstream_message_def path_str_def str_field_def
        text_or_empty_def starts_with_def classify_parsed_error_def error_code_of_def with_upstream_def Let_def
        split: prod.split)
  with errors_classified [of "\<lambda>_. Some (JObj [(''code'', JStr ''insufficient_quota'')])" id 429 "''..''" "fst ?c" "snd ?c"]
  show ?thesis by (simp add: disables_def)
qed

end
