(* ===== verification/Codex_Events.thy ===== *)
theory Codex_Events
  imports Codex_Wire Codex_Input Codex_Quota Codex_Errors
begin

section \<open>Decoding the response stream\<close>

text \<open>
  \<open>crates/xxgate-codex/src/provider/events.rs\<close>: \<open>CodexDecoder\<close> turns the bytes of an
  upstream response into events for the client and observations for the gateway (usage,
  quotas, errors, the end of the response); \<open>compact_response\<close> reads the response of a
  compaction. The functions of other crates they call are the fields of \<open>codex_env\<close>.
  \<open>None\<close> is the panic of \<open>Codex_Quota.windows\<close>. A decoder that returned an error is
  dropped by its caller, so an error carries no state.
\<close>

record 'e codex_env =
  ce_feed :: "'e event_parser"
  ce_parse :: "string \<Rightarrow> json option"
  ce_print :: "json \<Rightarrow> string"
  ce_lossy :: "string \<Rightarrow> string"
  ce_timestamp :: "int \<Rightarrow> datetime option"
  ce_show_num :: "jnum \<Rightarrow> string"
  ce_now :: datetime

definition FORMAT :: string where
  "FORMAT = ''openai.responses.v1''"

record 'e codex_decoder =
  cd_sse :: "'e sse"
  cd_terminal :: bool
  cd_usage :: usage
  cd_image_ids :: "string list"
  cd_compaction_output :: bool

definition decoder_default :: "'e \<Rightarrow> 'e codex_decoder" where
  "decoder_default e =
     \<lparr>cd_sse = sse_default e, cd_terminal = False, cd_usage = usage_default, cd_image_ids = [],
      cd_compaction_output = False\<rparr>"

subsection \<open>Reading usage and items\<close>

function no_usage :: "json \<Rightarrow> bool" where
  "no_usage v =
     (case v of
        JNull \<Rightarrow> True
      | JNum n \<Rightarrow> n = PosInt 0
      | JObj m \<Rightarrow> \<forall>(k, w)\<in>set m. no_usage w
      | _ \<Rightarrow> False)"
  by pat_completeness auto
termination
  by (relation "measure depth") (auto simp del: depth.simps dest: depth_obj)

declare no_usage.simps [simp del]

definition no_reported_work :: "json \<Rightarrow> bool" where
  "no_reported_work v \<longleftrightarrow>
     is_object v
     \<and> (case jget v ''output'' of None \<Rightarrow> True | Some w \<Rightarrow> w = JNull \<or> w = JArr [])
     \<and> (case jget v ''usage'' of None \<Rightarrow> True | Some w \<Rightarrow> no_usage w)"

text \<open>The budget is \<open>7 - depth\<close>.\<close>

definition usage_key :: "string \<Rightarrow> bool" where
  "usage_key k \<longleftrightarrow> length k \<le> 80 \<and> (\<forall>c\<in>set k. is_alnum c \<or> c = CHR ''_'')"

fun numeric_usage :: "nat \<Rightarrow> json \<Rightarrow> json option" where
  "numeric_usage 0 v = None"
| "numeric_usage (Suc n) v =
     (case v of
        JNum _ \<Rightarrow> Some v
      | JBool _ \<Rightarrow> Some v
      | JObj m \<Rightarrow>
          Some (JObj (List.map_filter (\<lambda>(k, w). map_option (Pair k) (numeric_usage n w))
            (filter (\<lambda>(k, w). usage_key k) (take 64 m))))
      | _ \<Rightarrow> None)"

definition u64_path :: "json \<Rightarrow> string list \<Rightarrow> nat option" where
  "u64_path v ks = Option.bind (jpath v ks) as_u64"

definition observe_usage :: "json \<Rightarrow> usage \<Rightarrow> usage" where
  "observe_usage v u = u
     \<lparr>us_raw_usage := (case numeric_usage 7 v of None \<Rightarrow> JNull | Some w \<Rightarrow> w),
      us_input_tokens := or_else (u64_path v [''input_tokens'']) (us_input_tokens u),
      us_output_tokens := or_else (u64_path v [''output_tokens'']) (us_output_tokens u),
      us_cached_input_tokens :=
        or_else (u64_path v [''input_tokens_details'', ''cached_tokens'']) (us_cached_input_tokens u),
      us_reasoning_output_tokens :=
        or_else (u64_path v [''output_tokens_details'', ''reasoning_tokens'']) (us_reasoning_output_tokens u),
      us_source := ''upstream_response''\<rparr>"

definition saturating_add :: "nat \<Rightarrow> nat \<Rightarrow> nat" where
  "saturating_add a b = min (2 ^ 64 - 1) (a + b)"

definition add_tokens :: "nat option \<Rightarrow> nat option \<Rightarrow> nat option" where
  "add_tokens acc reported =
     (case reported of
        None \<Rightarrow> acc
      | Some n \<Rightarrow> Some (saturating_add (case acc of None \<Rightarrow> 0 | Some t \<Rightarrow> t) n))"

definition observe_image_usage :: "json option \<Rightarrow> usage \<Rightarrow> usage" where
  "observe_image_usage v u =
     (case v of
        None \<Rightarrow> u
      | Some w \<Rightarrow> u
          \<lparr>us_image_tool_usage_reported := True,
           us_image_input_tokens := add_tokens (us_image_input_tokens u) (u64_path w [''input_tokens'']),
           us_image_output_tokens := add_tokens (us_image_output_tokens u) (u64_path w [''output_tokens''])\<rparr>)"

text \<open>The identifier of an image that was generated; every other item is skipped.\<close>

definition image_item :: "json \<Rightarrow> string option" where
  "image_item item =
     (if str_field item ''type'' \<noteq> Some ''image_generation_call'' then None
      else if (case str_field item ''result'' of None \<Rightarrow> True | Some s \<Rightarrow> s = []) then None
      else str_field item ''id'')"

definition observe_item :: "json \<Rightarrow> usage \<times> string list \<Rightarrow> usage \<times> string list" where
  "observe_item item st =
     (case image_item item of
        None \<Rightarrow> st
      | Some i \<Rightarrow>
          if i \<in> set (snd st) then st
          else (observe_image_usage (jget item ''usage'') (fst st), snd st @ [i]))"

definition model_char :: "char \<Rightarrow> bool" where
  "model_char c \<longleftrightarrow> is_alnum c \<or> c \<in> set ''-._:/''"

definition response_model :: "json \<Rightarrow> string option" where
  "response_model response =
     (case str_field response ''model'' of
        None \<Rightarrow> None
      | Some name \<Rightarrow>
          if name \<noteq> [] \<and> length name \<le> 160 \<and> (\<forall>c\<in>set name. model_char c) then Some name else None)"

definition known_tier :: "json \<Rightarrow> string option" where
  "known_tier v = filter_option (\<lambda>t. t \<in> {''default'', ''priority'', ''fast''}) (str_field v ''service_tier'')"

text \<open>\<open>compaction::has_output\<close>\<close>

definition has_output :: "json list \<Rightarrow> bool" where
  "has_output items \<longleftrightarrow> (\<exists>item\<in>set items. typed ''compaction'' item)"

subsection \<open>One event\<close>

definition err_event :: "string \<Rightarrow> err" where
  "err_event message = error_new 502 ''invalid_upstream_event'' message"

definition response_or_self :: "json \<Rightarrow> json" where
  "response_or_self v = (case jget v ''response'' of None \<Rightarrow> v | Some r \<Rightarrow> r)"

definition no_output_members :: "json \<Rightarrow> bool" where
  "no_output_members v \<longleftrightarrow> jget v ''item'' = None \<and> jget v ''delta'' = None"

definition event_preamble :: "string \<Rightarrow> json \<Rightarrow> bool" where
  "event_preamble kind v \<longleftrightarrow>
     kind \<in> {''response.created'', ''response.queued'', ''response.in_progress''}
     \<and> (case jget v ''response'' of None \<Rightarrow> False | Some r \<Rightarrow> no_reported_work r)
     \<and> no_output_members v"

definition event_rejection :: "string \<Rightarrow> json \<Rightarrow> encrypted_error option" where
  "event_rejection kind v =
     (if kind \<in> {''response.failed'', ''error''} \<and> no_reported_work (response_or_self v) \<and> no_output_members v
      then rejection (response_or_self v) else None)"

definition codex_limit :: "json \<Rightarrow> bool" where
  "codex_limit v \<longleftrightarrow>
     (\<forall>key\<in>{''metered_limit_name'', ''limit_id'', ''limit_name''}.
        case str_field v key of None \<Rightarrow> True | Some s \<Rightarrow> s = ''codex'')"

definition event_credits :: "'e codex_env \<Rightarrow> string \<Rightarrow> json \<Rightarrow> extra_credits option" where
  "event_credits env kind v =
     (if kind = ''codex.rate_limits'' \<and> jget v ''credits'' \<noteq> None \<and> codex_limit v
      then Some (credits_of (ce_show_num env) (ce_now env) v ''rate_limit_event'') else None)"

definition event_quotas :: "'e codex_env \<Rightarrow> string \<Rightarrow> json \<Rightarrow> quota_window list option" where
  "event_quotas env kind v =
     (if kind = ''codex.rate_limits'' then windows (ce_timestamp env) (ce_now env) ''sse'' v else Some [])"

definition nonempty_text :: "json \<Rightarrow> string \<Rightarrow> bool" where
  "nonempty_text v k \<longleftrightarrow> (case str_field v k of None \<Rightarrow> False | Some s \<Rightarrow> s \<noteq> [])"

definition event_content :: "string \<Rightarrow> json \<Rightarrow> bool" where
  "event_content kind v \<longleftrightarrow>
     kind \<in> {''response.output_text.delta'', ''response.reasoning_text.delta'',
             ''response.reasoning_summary_text.delta'', ''response.function_call_arguments.delta'',
             ''response.custom_tool_call_input.delta'', ''response.image_generation_call.partial_image''}
     \<and> (nonempty_text v ''delta'' \<or> nonempty_text v ''partial_image_b64'')"

definition event_model :: "string \<Rightarrow> json \<Rightarrow> string option" where
  "event_model kind v =
     (if kind \<in> {''response.created'', ''response.queued'', ''response.in_progress'', ''response.completed'',
                ''response.failed'', ''response.incomplete''}
      then Option.bind (jget v ''response'') response_model else None)"

definition terminal_kind :: "string \<Rightarrow> bool" where
  "terminal_kind kind \<longleftrightarrow>
     kind \<in> {''response.completed'', ''response.failed'', ''response.incomplete'', ''error''}"

text \<open>The items of an event in the order they are looked at, and the facts of its response.\<close>

definition event_items :: "json \<Rightarrow> json list" where
  "event_items v =
     (case jget v ''item'' of None \<Rightarrow> [] | Some item \<Rightarrow> [item])
     @ array_of (Option.bind (jget v ''response'') (\<lambda>r. jget r ''output''))"

definition observe_response :: "json option \<Rightarrow> usage \<Rightarrow> usage" where
  "observe_response response u =
     (case response of
        None \<Rightarrow> u
      | Some r \<Rightarrow>
          let u1 = (case known_tier r of None \<Rightarrow> u | Some t \<Rightarrow> u\<lparr>us_service_tier := Some t\<rparr>)
          in (case jget r ''usage'' of
                Some (JObj m) \<Rightarrow> observe_usage (JObj m) u1
              | _ \<Rightarrow> u1))"

definition saw_compaction :: "string \<Rightarrow> json \<Rightarrow> bool" where
  "saw_compaction kind v \<longleftrightarrow>
     (kind = ''response.output_item.done'' \<and> typed ''compaction'' (jindex v ''item''))
     \<or> has_output (array_of (Option.bind (jget v ''response'') (\<lambda>r. jget r ''output'')))"

text \<open>The event the usage is read from: items first, then the response.\<close>

definition read_event :: "string \<Rightarrow> json \<Rightarrow> 'e codex_decoder \<Rightarrow> 'e codex_decoder" where
  "read_event kind v d =
     (let (u, ids) = fold observe_item (event_items v) (cd_usage d, cd_image_ids d);
          u1 = observe_response (jget v ''response'') u;
          u2 = (if terminal_kind kind
                then u1\<lparr>us_complete := (us_input_tokens u1 \<noteq> None \<and> us_output_tokens u1 \<noteq> None)\<rparr> else u1)
      in d\<lparr>cd_usage := u2\<lparr>us_image_count := length ids mod 2 ^ 32\<rparr>, cd_image_ids := ids,
           cd_compaction_output := cd_compaction_output d \<or> saw_compaction kind v,
           cd_terminal := cd_terminal d \<or> terminal_kind kind\<rparr>)"

text \<open>A failed response: its classification, and the event that is shown to the client.\<close>

definition mark_sse :: "string \<Rightarrow> err \<Rightarrow> err" where
  "mark_sse kind e =
     e\<lparr>err_upstream := map_option (\<lambda>f. f\<lparr>ue_original := map_option (\<lambda>orig. orig
        \<lparr>oue_source := ''sse'', oue_fields := jput ''event_type'' (JStr kind) (oue_fields orig)\<rparr>)
        (ue_original f)\<rparr>) (err_upstream e)\<rparr>"

definition failed_event :: json where
  "failed_event = JObj
     [(''response'', JObj [(''id'', JStr ''upstream_error''), (''output'', JArr []), (''status'', JStr ''failed'')]),
      (''type'', JStr ''response.failed'')]"

definition public_failure :: "string \<Rightarrow> err \<Rightarrow> json \<Rightarrow> json" where
  "public_failure kind e v =
     (let v1 = (if kind = ''error'' then failed_event else v) in
      case jget v1 ''response'' of
        Some (JObj m) \<Rightarrow>
          jput ''response'' (JObj (hput ''error''
            (JObj [(''code'', JStr (err_code e)), (''message'', JStr (client_message e)),
                   (''type'', JStr ''upstream_error'')]) m)) v1
      | _ \<Rightarrow> v1)"

definition event_failure :: "'e codex_env \<Rightarrow> string \<Rightarrow> json \<Rightarrow> (err \<times> disable_reason option) option" where
  "event_failure env kind v =
     (if terminal_kind kind \<and> kind \<noteq> ''response.completed''
      then let (e, reason) = classify_error (ce_parse env) (ce_lossy env) 502 (ce_print env (response_or_self v))
           in Some (mark_sse kind e, reason)
      else None)"

definition event_document :: "string \<Rightarrow> (err \<times> disable_reason option) option \<Rightarrow> json \<Rightarrow> protocol_document" where
  "event_document kind failure v =
     \<lparr>doc_format = FORMAT,
      doc_value = filter_event_headers
        (case failure of None \<Rightarrow> v | Some (e, _) \<Rightarrow> public_failure kind e v)\<rparr>"

definition decode_value ::
  "'e codex_env \<Rightarrow> string \<Rightarrow> json \<Rightarrow> 'e codex_decoder \<Rightarrow> ('e codex_decoder \<times> gateway_event) option" where
  "decode_value env kind v d =
     (case event_quotas env kind v of
        None \<Rightarrow> None
      | Some quotas \<Rightarrow>
          let d' = read_event kind v d; failure = event_failure env kind v
          in Some (d',
            \<lparr>ge_document = event_document kind failure v,
             ge_observation =
               \<lparr>ob_recovery_preamble = event_preamble kind v,
                ob_encrypted_rejection = event_rejection kind v,
                ob_response_model = event_model kind v,
                ob_compaction_output =
                  (if cd_compaction_output d' then Some True
                   else if kind = ''response.completed'' then Some False else None),
                ob_usage = Some (cd_usage d'), ob_quotas = quotas,
                ob_extra_credits = event_credits env kind v,
                ob_terminal = terminal_kind kind,
                ob_error = map_option fst failure,
                ob_disable_reason = Option.bind failure snd,
                ob_content = event_content kind v\<rparr>\<rparr>))"

definition decode_event ::
  "'e codex_env \<Rightarrow> string \<Rightarrow> 'e codex_decoder \<Rightarrow> ('e codex_decoder \<times> gateway_event) res option" where
  "decode_event env data d =
     (case ce_parse env data of
        None \<Rightarrow> Some (Inl (err_event ''Upstream SSE event is not valid JSON''))
      | Some v \<Rightarrow>
          (case str_field v ''type'' of
             None \<Rightarrow> Some (Inl (err_event ''Upstream event has no type''))
           | Some kind \<Rightarrow> map_option Inr (decode_value env kind v d)))"

subsection \<open>The decoder\<close>

text \<open>The loop of \<open>push\<close>, which stops behind a terminal event.\<close>

fun decode_events ::
  "'e codex_env \<Rightarrow> string list \<Rightarrow> 'e codex_decoder \<Rightarrow> ('e codex_decoder \<times> gateway_event list) res option" where
  "decode_events env [] d = Some (Inr (d, []))"
| "decode_events env (x # xs) d =
     (case decode_event env x d of
        None \<Rightarrow> None
      | Some (Inl e) \<Rightarrow> Some (Inl e)
      | Some (Inr (d', ev)) \<Rightarrow>
          if cd_terminal d' then Some (Inr (d', [ev]))
          else map_option (res_map (\<lambda>(d'', evs). (d'', ev # evs))) (decode_events env xs d'))"

definition decoder_push ::
  "'e codex_env \<Rightarrow> string \<Rightarrow> nat \<Rightarrow> 'e codex_decoder \<Rightarrow> ('e codex_decoder \<times> gateway_event list) res option" where
  "decoder_push env bytes limit d =
     (if cd_terminal d then Some (Inr (d, []))
      else case sse_push (ce_feed env) bytes limit (cd_sse d) of
        Inl e \<Rightarrow> Some (Inl e)
      | Inr (s, data) \<Rightarrow> decode_events env data (d\<lparr>cd_sse := s\<rparr>))"

definition decoder_finish :: "'e codex_decoder \<Rightarrow> unit res" where
  "decoder_finish d =
     (if cd_terminal d then Inr ()
      else Inl (error_new 502 ''stream_interrupted'' ''Upstream stream ended before a terminal response''))"

definition decoder_buffered :: "'e codex_decoder \<Rightarrow> nat" where
  "decoder_buffered d = buffered_bytes (cd_sse d)"

subsection \<open>The response of a compaction\<close>

definition err_compact_response :: err where
  "err_compact_response = error_new 502 ''invalid_compact_response''
     ''Upstream returned an invalid compact response''"

definition compact_response :: "(string \<Rightarrow> json option) \<Rightarrow> string \<Rightarrow> observation res" where
  "compact_response parse body =
     (case parse body of
        None \<Rightarrow> Inl err_compact_response
      | Some v \<Rightarrow>
          if jindex v ''object'' \<noteq> JStr ''response.compaction'' then Inl err_compact_response
          else (case jindex v ''output'' of
             JArr output \<Rightarrow>
               let u = (case jget v ''usage'' of Some (JObj m) \<Rightarrow> observe_usage (JObj m) usage_default | _ \<Rightarrow> usage_default)
               in Inr (observation_default
                 \<lparr>ob_response_model := response_model v,
                  ob_usage := Some (u\<lparr>us_source := ''upstream_compaction'',
                    us_complete := (us_input_tokens u \<noteq> None \<and> us_output_tokens u \<noteq> None),
                    us_service_tier := known_tier v\<rparr>),
                  ob_compaction_output := Some (has_output output), ob_terminal := True\<rparr>)
           | _ \<Rightarrow> Inl err_compact_response))"

end
