(* ===== verification/Codex_Parse.thy ===== *)
theory Codex_Parse
  imports Codex_Resolve Codex_Events "HOL-Library.Char_ord" "HOL-Library.List_Lexorder"
begin

section \<open>The gateway's request\<close>

text \<open>
  \<open>ingress.rs\<close>, \<open>search.rs\<close> and \<open>images.rs\<close>: the request the gateway makes of the headers and
  the body of a client's, with the errors of every check in their order, and the adapter that
  writes events for the client. \<open>identity_trace.rs\<close>: the identifiers kept for diagnosis. The
  functions of other crates are the fields of \<open>parse_env\<close>; \<open>pa_fresh\<close> is the printed form
  of the random identifier a request without identity gets.
\<close>

record parse_env =
  pa_json :: "string \<Rightarrow> json option"
  pa_base64 :: "string \<Rightarrow> string"
  pa_header_ok :: "string \<Rightarrow> bool"
  pa_fresh :: string

subsection \<open>Identifiers kept for diagnosis\<close>

definition IDENTIFIERS :: "string list" where
  "IDENTIFIERS =
     [''session_id'', ''session-id'', ''conversation_id'', ''conversation-id'', ''thread_id'', ''thread-id'',
      ''turn_id'', ''window_id'', ''context_window_id'', ''installation_id'', ''parent_thread_id'',
      ''forked_from_thread_id'', ''parent_turn_id'', ''root_turn_id'', ''x-codex-installation-id'',
      ''x-codex-window-id'', ''x-codex-parent-thread-id'']"

definition HEADERS :: "string list" where
  "HEADERS =
     [''session-id'', ''session_id'', ''conversation-id'', ''conversation_id'', ''thread-id'', ''thread_id'',
      ''x-client-request-id'', ''x-codex-installation-id'', ''x-codex-window-id'', ''x-codex-parent-thread-id'']"

definition MAX_ENTRIES :: nat where
  "MAX_ENTRIES = 2000"

record identifier_rewrite =
  iw_field :: string
  iw_before :: "string option"
  iw_after :: "string option"
  iw_action :: string

record request_rewrite =
  rw_entries :: "identifier_rewrite list"
  rw_omitted :: nat

definition short_identifier :: "string \<Rightarrow> bool" where
  "short_identifier v \<longleftrightarrow> length v \<le> 512 \<and> \<not> has_control v"

type_synonym identifiers = "(string, string) hmap"

definition note_identifier :: "string \<Rightarrow> string option \<Rightarrow> identifiers \<Rightarrow> identifiers" where
  "note_identifier name v out =
     (case filter_option short_identifier v of None \<Rightarrow> out | Some s \<Rightarrow> hput name s out)"

definition metadata_ids :: "string \<Rightarrow> json \<Rightarrow> identifiers \<Rightarrow> identifiers" where
  "metadata_ids prefix metadata out =
     fold (\<lambda>name. note_identifier (prefix @ ''.'' @ name) (str_field metadata name)) IDENTIFIERS out"

definition client_identifiers :: "(string \<Rightarrow> json option) \<Rightarrow> header_list \<Rightarrow> json \<Rightarrow> identifiers" where
  "client_identifiers parse_json hs body =
     (let o1 = fold (\<lambda>name. note_identifier (''headers.'' @ name) (header_text_of hs name)) HEADERS [];
          o2 = (case Option.bind (map_of hs turn_metadata_name) parse_json of
                  None \<Rightarrow> o1 | Some v \<Rightarrow> metadata_ids header_turn_source v o1);
          o3 = (case jget body ''client_metadata'' of
                  None \<Rightarrow> o2
                | Some meta \<Rightarrow>
                    let o4 = metadata_ids ''body.client_metadata'' meta o2 in
                    case Option.bind (str_field meta turn_metadata_name) parse_json of
                      None \<Rightarrow> o4 | Some v \<Rightarrow> metadata_ids body_turn_source v o4)
      in note_identifier ''body.prompt_cache_key'' (str_field body ''prompt_cache_key'') o3)"

definition identity_headers :: "header_list \<Rightarrow> header_list" where
  "identity_headers hs = concat (map (\<lambda>name. map (Pair name) (header_values hs name)) (HEADERS @ [turn_metadata_name]))"

definition rewrite_action :: "string option \<Rightarrow> string option \<Rightarrow> bool \<Rightarrow> string" where
  "rewrite_action before after body_id =
     (if before = after then ''unchanged''
      else if before = None then ''added''
      else if after = None then ''removed''
      else if body_id then ''alias_restored'' else ''rewritten'')"

definition push_rewrite ::
  "string \<Rightarrow> string option \<Rightarrow> string option \<Rightarrow> bool \<Rightarrow> request_rewrite \<Rightarrow> request_rewrite" where
  "push_rewrite name before after body_id trace =
     (if MAX_ENTRIES \<le> length (rw_entries trace)
         \<or> (case before of None \<Rightarrow> False | Some v \<Rightarrow> \<not> short_identifier v)
         \<or> (case after of None \<Rightarrow> False | Some v \<Rightarrow> \<not> short_identifier v)
      then trace\<lparr>rw_omitted := Suc (rw_omitted trace)\<rparr>
      else trace\<lparr>rw_entries := rw_entries trace
        @ [\<lparr>iw_field = name, iw_before = before, iw_after = after,
            iw_action = rewrite_action before after body_id\<rparr>]\<rparr>)"

definition array_get :: "json option \<Rightarrow> nat \<Rightarrow> json option" where
  "array_get v i = (case v of Some (JArr xs) \<Rightarrow> if i < length xs then Some (xs ! i) else None | _ \<Rightarrow> None)"

definition compare_item :: "json \<Rightarrow> nat \<times> json \<Rightarrow> string \<Rightarrow> request_rewrite \<Rightarrow> request_rewrite" where
  "compare_item body ii name trace =
     (let (index, item) = ii;
          before = str_field item name;
          after = Option.bind (array_get (jget body ''input'') index) (\<lambda>v. str_field v name)
      in if before = None \<and> after = None then trace
         else push_rewrite (''body.input['' @ show_nat index @ ''].'' @ name) before after True trace)"

definition compare_request ::
  "(string \<Rightarrow> json option) \<Rightarrow> identifiers \<Rightarrow> json \<Rightarrow> header_list \<Rightarrow> json \<Rightarrow> request_rewrite" where
  "compare_request parse_json incoming source hs body =
     (let outgoing = client_identifiers parse_json hs body;
          names = sort (remdups (map fst incoming @ map fst outgoing));
          t1 = fold (\<lambda>name. push_rewrite name (hget incoming name) (hget outgoing name) False) names
                 \<lparr>rw_entries = [], rw_omitted = 0\<rparr>
      in fold (\<lambda>ii trace. fold (compare_item body ii) [''id'', ''call_id''] trace)
           (enumerate 0 (array_of (jget source ''input''))) t1)"

subsection \<open>Responses and compactions\<close>

definition allowed_members :: "request_kind \<Rightarrow> string list" where
  "allowed_members kind =
     (if kind = Compact
      then [''model'', ''input'', ''instructions'', ''tools'', ''parallel_tool_calls'', ''reasoning'', ''service_tier'',
            ''prompt_cache_key'', ''text'', ''client_metadata'', ''access_programs'', ''stream'']
      else [''model'', ''input'', ''instructions'', ''tools'', ''tool_choice'', ''parallel_tool_calls'', ''reasoning'',
            ''store'', ''stream'', ''stream_options'', ''include'', ''service_tier'', ''prompt_cache_key'', ''text'',
            ''client_metadata'', ''max_output_tokens'', ''temperature'', ''top_p'', ''truncation'',
            ''previous_response_id'', ''background'', ''metadata''])"

definition members_within :: "string list \<Rightarrow> json \<Rightarrow> bool" where
  "members_within names body \<longleftrightarrow> (case body of JObj m \<Rightarrow> \<forall>k\<in>set (map fst m). k \<in> set names | _ \<Rightarrow> True)"

definition request_model :: "json \<Rightarrow> string option" where
  "request_model body = filter_option (\<lambda>s. s \<noteq> [] \<and> length s \<le> 160) (str_field body ''model'')"

definition stream_of :: "json \<Rightarrow> bool option" where
  "stream_of body = Option.bind (jget body ''stream'') as_bool"

text \<open>The checks of the body before its metadata is read; the result is the model.\<close>

definition check_body :: "json \<Rightarrow> request_kind \<Rightarrow> string res" where
  "check_body body kind =
     and_then (ensure (is_object body) (err_invalid ''Request body must be an object'')) (\<lambda>_.
     and_then (ensure (members_within (allowed_members kind) body)
       (error_new 400 ''unsupported_parameter'' ''The request contains a parameter this gateway does not support'')) (\<lambda>_.
     and_then (ensure (Option.bind (jget body ''background'') as_bool \<noteq> Some True)
       (error_new 400 ''unsupported_background'' ''Background responses are not supported'')) (\<lambda>_.
     and_then (ensure (jget body ''previous_response_id'' \<in> {None, Some JNull})
       (error_new 400 ''unsupported_reference''
         ''This HTTP gateway requires explicit conversation history instead of previous_response_id'')) (\<lambda>_.
     and_then (ok_or (err_invalid ''A model name is required'') (request_model body)) (\<lambda>model.
     and_then (ensure (case jget body ''input'' of Some (JArr _) \<Rightarrow> True | Some (JStr _) \<Rightarrow> True | _ \<Rightarrow> False)
       (err_invalid ''input must be a string or an array'')) (\<lambda>_.
     and_then (ensure (jget body ''stream'' = None \<or> stream_of body \<noteq> None)
       (err_invalid ''stream must be a boolean'')) (\<lambda>_.
     and_then (ensure (\<not> (kind = Compact \<and> stream_of body = Some True))
       (err_invalid ''Compact returns a single JSON response; streaming is not supported'')) (\<lambda>_.
       Inr model))))))))"

definition checked_fields :: "(string \<times> string option) list" where
  "checked_fields =
     [(''window_id'', Some ''x-codex-window-id''), (''installation_id'', Some ''x-codex-installation-id''),
      (''parent_thread_id'', Some ''x-codex-parent-thread-id''), (''context_window_id'', None),
      (''forked_from_thread_id'', None), (''parent_turn_id'', None), (''root_turn_id'', None)]"

definition request_tier :: "json \<Rightarrow> string option res" where
  "request_tier body =
     (case jget body ''service_tier'' of
        None \<Rightarrow> Inr None
      | Some JNull \<Rightarrow> Inr None
      | Some (JStr t) \<Rightarrow>
          if t \<in> {''default'', ''auto'', ''fast'', ''priority''} then Inr (Some t)
          else Inl (err_invalid ''Unsupported service_tier'')
      | Some _ \<Rightarrow> Inl (err_invalid ''Invalid service_tier''))"

definition efforts :: "string list" where
  "efforts = [''none'', ''minimal'', ''low'', ''medium'', ''high'', ''xhigh'', ''max'', ''ultra'']"

definition request_effort :: "json \<Rightarrow> string option" where
  "request_effort body =
     filter_option (\<lambda>e. e \<in> set efforts) (Option.bind (jpath body [''reasoning'', ''effort'']) as_str)"

definition request_identity :: "string \<Rightarrow> resolved_identity option \<Rightarrow> string option \<Rightarrow> client_identity" where
  "request_identity fresh resolved turn =
     (case resolved of
        None \<Rightarrow> \<lparr>ci_session_id = fresh, ci_thread_id = fresh, ci_turn_id = turn\<rparr>
      | Some r \<Rightarrow> \<lparr>ci_session_id = ri_session_id r, ci_thread_id = ri_thread_id r, ci_turn_id = turn\<rparr>)"

definition parse_request :: "parse_env \<Rightarrow> header_list \<Rightarrow> json \<Rightarrow> request_kind \<Rightarrow> gateway_request res" where
  "parse_request env hs body kind =
     and_then (check_body body kind) (\<lambda>model.
     and_then (metadata_sources (pa_json env) body hs) (\<lambda>sources.
     and_then (compaction_operation body sources kind) (\<lambda>compaction.
     and_then (in_resolved (inspect_identity (pa_json env) hs body kind)) (\<lambda>resolved.
     and_then (coherent_field hs None sources ''turn_id'') (\<lambda>turn.
     and_then (each_res (\<lambda>(name, header). coherent_field hs header sources name) checked_fields) (\<lambda>_.
     and_then (request_tier body) (\<lambda>tier. Inr
       \<lparr>gq_client_turn_state = turn_state_capture (pa_base64 env) hs,
        gq_client_origin = detect (pa_json env) hs body,
        gq_client_metadata_present = (jget body ''client_metadata'' \<noteq> None),
        gq_identity_headers = identity_headers hs, gq_stateless = (resolved = None),
        gq_ingress_diagnostics = None, gq_kind = kind, gq_compaction = compaction,
        gq_search_options = \<lparr>so_query = None, so_beta = None, so_client_metadata_present = False\<rparr>,
        gq_identity = request_identity (pa_fresh env) resolved turn, gq_model = model,
        gq_stream = (stream_of body = Some True), gq_requested_tier = tier,
        gq_reasoning_effort = request_effort body,
        gq_identifier_inputs = client_identifiers (pa_json env) hs body,
        gq_document = \<lparr>doc_format = FORMAT, doc_value = body\<rparr>\<rparr>)))))))"

subsection \<open>Searches\<close>

definition SEARCH_FORMAT :: string where
  "SEARCH_FORMAT = ''codex.search.v1''"

definition search_id_ok :: "json \<Rightarrow> bool" where
  "search_id_ok body \<longleftrightarrow>
     (case str_field body ''id'' of None \<Rightarrow> False | Some s \<Rightarrow> \<not> blank s \<and> length s \<le> 512 \<and> \<not> has_control s)"

text \<open>\<open>HeaderMap::insert\<close> replaces all values of a name, at the place of the first.\<close>

fun set_header :: "string \<Rightarrow> string \<Rightarrow> header_list \<Rightarrow> header_list" where
  "set_header name v [] = [(name, v)]"
| "set_header name v ((k, w) # hs) =
     (if k = name then (name, v) # filter (\<lambda>(k, _). k \<noteq> name) hs else (k, w) # set_header name v hs)"

lemma set_header_mem: "(k, w) \<in> set (set_header name v hs) \<Longrightarrow> (k, w) = (name, v) \<or> (k \<noteq> name \<and> (k, w) \<in> set hs)"
  by (induction hs) (auto split: if_splits)

lemma set_header_set: "(name, v) \<in> set (set_header name v hs)"
  by (induction hs) auto

definition search_projection :: "json \<Rightarrow> json" where
  "search_projection body =
     fold (\<lambda>name acc. case jget body name of None \<Rightarrow> acc | Some v \<Rightarrow> jput name v acc)
       [''model'', ''input'', ''reasoning'', ''service_tier'', ''client_metadata'', ''prompt_cache_key'']
       (JObj [(''input'', JStr [])])"

definition search_headers :: "parse_env \<Rightarrow> resolved_identity \<Rightarrow> header_list \<Rightarrow> header_list res" where
  "search_headers env r hs =
     fold_res (\<lambda>(name, v) acc. if pa_header_ok env v then Inr (set_header name v acc)
         else Inl (err_invalid ''Invalid search identity''))
       [(''session-id'', ri_session_id r), (''thread-id'', ri_thread_id r)] hs"

definition check_search :: "header_list \<Rightarrow> json \<Rightarrow> string option \<Rightarrow> unit res" where
  "check_search hs body query =
     and_then (ensure (is_object body) (err_invalid ''Search request must be a JSON object'')) (\<lambda>_.
     and_then (ensure (search_id_ok body) (err_invalid ''Search requires a nonempty id of at most 512 bytes'')) (\<lambda>_.
     and_then (ensure (jget body ''stream'' \<in> {None, Some (JBool False)})
       (err_invalid ''Search returns a single JSON response; streaming is not supported'')) (\<lambda>_.
     and_then (ensure (case query of None \<Rightarrow> True | Some q \<Rightarrow> length q \<le> 8192)
       (err_invalid ''Search query string is too long'')) (\<lambda>_.
       ensure (length (header_values hs ''openai-beta'') \<le> 1) (err_invalid ''Duplicate OpenAI-Beta headers'')))))"

definition parse_search :: "parse_env \<Rightarrow> header_list \<Rightarrow> json \<Rightarrow> string option \<Rightarrow> gateway_request res" where
  "parse_search env hs body query =
     and_then (check_search hs body query) (\<lambda>_.
     and_then (in_resolved (inspect_identity (pa_json env) hs body Search)) (\<lambda>found.
     and_then (ok_or (err_invalid ''Search identity is missing'') found) (\<lambda>resolved.
     and_then (search_headers env resolved hs) (\<lambda>effective.
     and_then (parse_request env effective (search_projection body) Responses) (\<lambda>r. Inr (r
       \<lparr>gq_kind := Search, gq_compaction := None, gq_client_origin := detect (pa_json env) hs body,
        gq_client_metadata_present := (jget body ''client_metadata'' \<noteq> None),
        gq_search_options := \<lparr>so_query = query, so_beta = map_of hs ''openai-beta'',
          so_client_metadata_present = (jget body ''client_metadata'' \<noteq> None)\<rparr>,
        gq_identifier_inputs := client_identifiers (pa_json env) hs body,
        gq_identity_headers := identity_headers hs,
        gq_document := \<lparr>doc_format = SEARCH_FORMAT, doc_value = body\<rparr>\<rparr>))))))"

subsection \<open>Images\<close>

definition IMAGES_FORMAT :: string where
  "IMAGES_FORMAT = ''codex.images.v1''"

definition TURN_HEADER :: string where
  "TURN_HEADER = ''x-codex-image-turn-id''"

definition image_members :: "string list" where
  "image_members = [''model'', ''prompt'', ''images'', ''mask'', ''background'', ''n'', ''quality'', ''size'',
     ''output_format'', ''output_compression'', ''moderation'', ''stream'', ''client_metadata'']"

definition validate_image :: "json \<Rightarrow> unit res" where
  "validate_image v =
     ensure (case str_field v ''image_url'' of
         None \<Rightarrow> False
       | Some s \<Rightarrow> s \<noteq> [] \<and> (starts_with ''data:image/'' s \<or> starts_with ''https://'' s \<or> starts_with ''http://'' s))
       (err_invalid ''Provide an image_url containing image bytes or an HTTP(S) URL'')"

definition edit_images :: "json \<Rightarrow> json list option" where
  "edit_images body =
     (case jget body ''images'' of
        Some (JArr xs) \<Rightarrow> if xs \<noteq> [] \<and> length xs \<le> 16 then Some xs else None
      | _ \<Rightarrow> None)"

definition check_image_inputs :: "json \<Rightarrow> request_kind \<Rightarrow> unit res" where
  "check_image_inputs body kind =
     (if kind = ImageEdit
      then and_then (ok_or (err_invalid ''Image edits require 1 to 16 images with image_url'') (edit_images body)) (\<lambda>images.
        and_then (each_res validate_image images) (\<lambda>_.
          case jget body ''mask'' of None \<Rightarrow> Inr () | Some v \<Rightarrow> validate_image v))
      else ensure (jget body ''images'' = None \<and> jget body ''mask'' = None)
        (err_invalid ''Use /images/edits with input images''))"

definition check_images :: "json \<Rightarrow> request_kind \<Rightarrow> unit res" where
  "check_images body kind =
     and_then (ensure (is_image kind \<and> is_object body) (err_invalid ''Images request must be a JSON object'')) (\<lambda>_.
     and_then (ensure (members_within image_members body)
       (error_new 400 ''unsupported_parameter'' ''Unsupported Images parameter'')) (\<lambda>_.
     and_then (ensure (jget body ''stream'' \<in> {None, Some (JBool False)})
       (err_invalid ''Codex Images returns JSON; streaming is not supported'')) (\<lambda>_.
     and_then (ensure (case str_field body ''prompt'' of None \<Rightarrow> False | Some p \<Rightarrow> \<not> blank p)
       (err_invalid ''Images requires a nonempty prompt'')) (\<lambda>_.
     and_then (ensure (case jget body ''n'' of
         None \<Rightarrow> True | Some v \<Rightarrow> (case as_u64 v of None \<Rightarrow> False | Some n \<Rightarrow> 1 \<le> n \<and> n \<le> 10))
       (err_invalid ''n must be an integer between 1 and 10'')) (\<lambda>_.
       check_image_inputs body kind)))))"

definition image_projection :: "json \<Rightarrow> json" where
  "image_projection body =
     (let p = JObj [(''input'', JStr []), (''model'', jindex body ''model'')] in
      case jget body ''client_metadata'' of None \<Rightarrow> p | Some meta \<Rightarrow> jput ''client_metadata'' meta p)"

definition image_turn :: "parse_env \<Rightarrow> string option \<Rightarrow> gateway_request \<Rightarrow> gateway_request res" where
  "image_turn env turn r =
     (case turn of
        None \<Rightarrow> Inr r
      | Some t \<Rightarrow>
          if \<not> pa_header_ok env t then Inl (err_invalid ''Invalid image turn header'')
          else Inr (r\<lparr>gq_identity_headers := set_header TURN_HEADER t (gq_identity_headers r),
                      gq_identifier_inputs := hput (''headers.'' @ TURN_HEADER) t (gq_identifier_inputs r)\<rparr>))"

definition parse_images :: "parse_env \<Rightarrow> header_list \<Rightarrow> json \<Rightarrow> request_kind \<Rightarrow> gateway_request res" where
  "parse_images env hs body kind =
     and_then (check_images body kind) (\<lambda>_.
     and_then (parse_request env hs (image_projection body) kind) (\<lambda>r.
     and_then (coherent_field hs (Some TURN_HEADER) [] ''turn_id'') (\<lambda>turn.
     and_then (ensure (length (header_values hs TURN_HEADER) \<le> 1) (err_invalid ''Duplicate image turn headers'')) (\<lambda>_.
     and_then (image_turn env turn r) (\<lambda>r1. Inr (r1
       \<lparr>gq_client_origin := detect (pa_json env) hs body,
        gq_document := \<lparr>doc_format = IMAGES_FORMAT, doc_value = body\<rparr>\<rparr>))))))"

subsection \<open>Writing for the client\<close>

definition encode_event :: "(json \<Rightarrow> string) \<Rightarrow> protocol_document \<Rightarrow> string res" where
  "encode_event print doc =
     (if doc_format doc \<noteq> FORMAT
      then Inl (error_new 400 ''unsupported_conversion'' ''The upstream event cannot be represented as Responses'')
      else frame print (doc_value doc))"

definition heartbeat :: "string \<Rightarrow> string" where
  "heartbeat i = '': xxgate.queue_heartbeat request_id='' @ i @ [LF, LF]"

definition failure_event :: "string \<Rightarrow> err \<Rightarrow> json" where
  "failure_event i e = JObj
     [(''response'', JObj
        [(''error'', JObj [(''code'', JStr (err_code e)), (''message'', JStr (client_message e)),
                           (''type'', JStr ''gateway_error'')]),
         (''id'', JStr (''resp_'' @ i)), (''object'', JStr ''response''), (''output'', JArr []),
         (''status'', JStr ''failed''), (''usage'', JNull)]),
      (''type'', JStr ''response.failed'')]"

definition write_failure :: "(json \<Rightarrow> string) \<Rightarrow> string \<Rightarrow> err \<Rightarrow> string" where
  "write_failure print i e = (case frame print (failure_event i e) of Inl _ \<Rightarrow> [] | Inr s \<Rightarrow> s)"

definition unary_response :: "protocol_document \<Rightarrow> json option" where
  "unary_response doc = jget (doc_value doc) ''response''"

subsection \<open>The response of an image request\<close>

definition err_image_response :: err where
  "err_image_response = error_new 502 ''invalid_image_response'' ''Upstream returned an invalid Images response''"

definition image_results :: "json \<Rightarrow> json list option" where
  "image_results v =
     (case jget v ''data'' of
        Some (JArr xs) \<Rightarrow>
          if xs \<noteq> [] \<and> length xs \<le> 10
             \<and> (\<forall>x\<in>set xs. case str_field x ''b64_json'' of None \<Rightarrow> False | Some s \<Rightarrow> s \<noteq> [])
          then Some xs else None
      | _ \<Rightarrow> None)"

definition usage_members :: "json \<Rightarrow> string list \<Rightarrow> (string, json) hmap" where
  "usage_members v names =
     List.map_filter (\<lambda>k. map_option (\<lambda>n. (k, JNum (PosInt n))) (Option.bind (jget v k) as_u64)) names"

definition usage_details :: "json \<Rightarrow> string \<Rightarrow> (string, json) hmap" where
  "usage_details v k =
     (case usage_members (jindex v k) [''image_tokens'', ''text_tokens''] of [] \<Rightarrow> [] | m \<Rightarrow> [(k, JObj m)])"

definition image_raw_usage :: "json \<Rightarrow> json" where
  "image_raw_usage upstream =
     JObj (usage_members upstream [''input_tokens''] @ usage_details upstream ''input_tokens_details''
       @ usage_members upstream [''output_tokens''] @ usage_details upstream ''output_tokens_details''
       @ usage_members upstream [''total_tokens''])"

definition image_response :: "(string \<Rightarrow> json option) \<Rightarrow> string \<Rightarrow> usage res" where
  "image_response parse_json body =
     and_then (ok_or err_image_response (parse_json body)) (\<lambda>v.
     and_then (ok_or err_image_response (image_results v)) (\<lambda>images.
       let u = jindex v ''usage'';
           i = u64_path u [''input_tokens'']; out = u64_path u [''output_tokens''];
           ii = u64_path u [''input_tokens_details'', ''image_tokens''];
           io = u64_path u [''output_tokens_details'', ''image_tokens'']
       in Inr (usage_default
         \<lparr>us_input_tokens := i, us_output_tokens := out, us_cached_input_tokens := Some 0,
          us_image_input_tokens := ii, us_image_output_tokens := io, us_image_count := length images,
          us_image_tool_usage_reported := is_object u, us_source := ''images_response'',
          us_complete := (i \<noteq> None \<and> out \<noteq> None \<and> ii \<noteq> None \<and> io \<noteq> None),
          us_raw_usage := image_raw_usage u\<rparr>)))"

subsection \<open>The form of a parsed request\<close>

lemma checked_body:
  assumes "check_body body kind = Inr model"
  shows "is_object body \<and> members_within (allowed_members kind) body \<and> str_field body ''model'' = Some model
    \<and> model \<noteq> [] \<and> length model \<le> 160 \<and> \<not> (kind = Compact \<and> stream_of body = Some True)
    \<and> jget body ''previous_response_id'' \<in> {None, Some JNull}"
  using assms
  by (auto simp: check_body_def and_then_Inr_iff ensure_def ok_or_def request_model_def filter_option_def
      split: if_splits option.splits)

lemma checked_tier: "request_tier body = Inr tier \<Longrightarrow> tier \<in> {None, Some ''default'', Some ''auto'', Some ''fast'', Some ''priority''}"
  by (auto simp: request_tier_def split: option.splits json.splits if_splits)

lemma checked_effort: "request_effort body = Some e \<Longrightarrow> e \<in> set efforts"
  by (auto simp: request_effort_def filter_option_def split: option.splits if_splits)

lemma checked_compaction:
  "compaction_operation body sources kind = Inr c \<Longrightarrow>
     (kind = Compact \<longleftrightarrow> map_option cm_method c = Some CompactCall) \<and> (c \<noteq> None \<longrightarrow> kind \<in> {Compact, Responses})"
  by (auto simp: compaction_operation_def res_map_def split: sum.splits if_splits)

lemma agreed_ok: "agreed vs = Inr (Some v) \<Longrightarrow> \<not> malformed_identity v"
  by (auto simp: agreed_def split: if_splits list.splits)

lemma coherent_ok: "coherent_field hs h sources name = Inr (Some v) \<Longrightarrow> \<not> malformed_identity v"
  by (auto simp: coherent_field_def and_then_Inr_iff dest: agreed_ok)

text \<open>
  C11. A request that is read has the form the gateway relies on: its model is a name of at most
  160 bytes, the tier and the effort are known ones, a compaction never streams and is the only
  kind of call with a compaction of its own, only listed parameters are there, the document is
  kept as it came, and the identity is that of the clean session and thread it names, or, for a
  request without any, one fresh identifier for both.
\<close>

theorem request_well_formed:
  assumes "parse_request env hs body kind = Inr r"
  shows "gq_kind r = kind \<and> doc_value (gq_document r) = body \<and> members_within (allowed_members kind) body
    \<and> gq_model r \<noteq> [] \<and> length (gq_model r) \<le> 160 \<and> \<not> (kind = Compact \<and> gq_stream r)
    \<and> gq_requested_tier r \<in> {None, Some ''default'', Some ''auto'', Some ''fast'', Some ''priority''}
    \<and> (\<forall>e. gq_reasoning_effort r = Some e \<longrightarrow> e \<in> set efforts)
    \<and> (kind = Compact \<longleftrightarrow> map_option cm_method (gq_compaction r) = Some CompactCall)
    \<and> (\<forall>t. ci_turn_id (gq_identity r) = Some t \<longrightarrow> \<not> malformed_identity t)
    \<and> (if gq_stateless r then ci_session_id (gq_identity r) = pa_fresh env \<and> ci_thread_id (gq_identity r) = pa_fresh env
       else clean_identity (ci_session_id (gq_identity r)) \<and> clean_identity (ci_thread_id (gq_identity r)))"
proof -
  from assms obtain model sources compaction resolved turn checks tier where
    body: "check_body body kind = Inr model"
    and compaction: "compaction_operation body sources kind = Inr compaction"
    and resolved: "in_resolved (inspect_identity (pa_json env) hs body kind) = Inr resolved"
    and turn: "coherent_field hs None sources ''turn_id'' = Inr turn"
    and tier: "request_tier body = Inr tier"
    and r: "r = \<lparr>gq_client_turn_state = turn_state_capture (pa_base64 env) hs,
        gq_client_origin = detect (pa_json env) hs body,
        gq_client_metadata_present = (jget body ''client_metadata'' \<noteq> None),
        gq_identity_headers = identity_headers hs, gq_stateless = (resolved = None),
        gq_ingress_diagnostics = None, gq_kind = kind, gq_compaction = compaction,
        gq_search_options = \<lparr>so_query = None, so_beta = None, so_client_metadata_present = False\<rparr>,
        gq_identity = request_identity (pa_fresh env) resolved turn, gq_model = model,
        gq_stream = (stream_of body = Some True), gq_requested_tier = tier,
        gq_reasoning_effort = request_effort body,
        gq_identifier_inputs = client_identifiers (pa_json env) hs body,
        gq_document = \<lparr>doc_format = FORMAT, doc_value = body\<rparr>\<rparr>"
    unfolding parse_request_def and_then_Inr_iff by blast
  have clean: "clean_identity (ri_session_id x) \<and> clean_identity (ri_thread_id x)" if "resolved = Some x" for x
    using resolved_facts [OF resolved refl] that by blast
  have identity: "if resolved = None
      then ci_session_id (request_identity (pa_fresh env) resolved turn) = pa_fresh env
        \<and> ci_thread_id (request_identity (pa_fresh env) resolved turn) = pa_fresh env
      else clean_identity (ci_session_id (request_identity (pa_fresh env) resolved turn))
        \<and> clean_identity (ci_thread_id (request_identity (pa_fresh env) resolved turn))"
    using clean by (cases resolved) (simp_all add: request_identity_def)
  have turn_ok: "ci_turn_id (request_identity (pa_fresh env) resolved turn) = turn"
    by (simp add: request_identity_def split: option.split)
  show ?thesis
    using checked_body [OF body] checked_compaction [OF compaction] checked_tier [OF tier] checked_effort [of body]
      coherent_ok [of hs None sources "''turn_id''"] turn identity turn_ok
    unfolding r by auto
qed

definition ex_parse :: parse_env where
  "ex_parse = \<lparr>pa_json = (\<lambda>_. None), pa_base64 = id, pa_header_ok = (\<lambda>_. True), pa_fresh = ''f''\<rparr>"

definition ex_body :: json where
  "ex_body = JObj [(''input'', JStr ''i''), (''model'', JStr ''m'')]"

lemma ex_parsed: "isl (parse_request ex_parse [] ex_body Responses) = False"
proof -
  have "check_body ex_body Responses = Inr ''m''"
    by (simp add: check_body_def ex_body_def ensure_def members_within_def allowed_members_def request_model_def
        filter_option_def str_field_def ok_or_def stream_of_def)
  moreover have "metadata_sources (pa_json ex_parse) ex_body [] = Inr []"
    by (simp add: metadata_sources_def body_metadata_def header_metadata_def header_values_def ex_body_def)
  moreover have "compaction_operation ex_body [] Responses = Inr None"
    by (simp add: compaction_operation_def turn_metadata_def coherent_field_def header_field_def agreed_def res_map_def
        compaction_requested_def ex_body_def array_of_def)
  moreover have "in_resolved (inspect_identity (pa_json ex_parse) [] ex_body Responses) = Inr None"
    by (simp add: inspect_identity_def collect_candidates_def collect_headers_def collect_body_def
        collect_header_metadata_def collect_member_def header_candidates_def header_values_def act_then_def act_bind_def
        act_return_def resolve_candidates_def coherent_signal_def resolve_signals_def ex_body_def Let_def)
  moreover have "request_tier ex_body = Inr None" by (simp add: request_tier_def ex_body_def)
  ultimately show ?thesis
    by (simp add: parse_request_def coherent_field_def header_field_def header_values_def agreed_def checked_fields_def
        split_def)
qed

theorem request_well_formed_witness:
  "\<exists>r. parse_request ex_parse [] ex_body Responses = Inr r
     \<and> gq_kind r = Responses \<and> gq_model r \<noteq> []"
proof -
  from ex_parsed obtain r where
    r: "parse_request ex_parse [] ex_body Responses = Inr r"
    by (cases "parse_request ex_parse [] ex_body Responses") auto
  with request_well_formed [OF r] show ?thesis by blast
qed

end
