(* ===== verification/Growing.thy ===== *)
theory Growing
  imports Actions
begin

section \<open>Actions on a state that only grows\<close>

text \<open>
  Some states are only ever added to: what was true of them stays true. The locale gives the
  composition rules for such an action: \<open>yields P m Q\<close> says that \<open>m\<close>, started where \<open>P\<close>
  holds, only adds to the state, and that \<open>Q\<close> holds of its value and the state it ends in.
  The precondition of the first part of a sequence is still there for the second.
\<close>

fun act_fold :: "('a \<Rightarrow> 'b \<Rightarrow> ('s, 'e, 'b) comp) \<Rightarrow> 'a list \<Rightarrow> 'b \<Rightarrow> ('s, 'e, 'b) comp" where
  "act_fold f [] acc = act_return acc"
| "act_fold f (x # xs) acc = act_bind (f x acc) (act_fold f xs)"

locale growing =
  fixes grows :: "'s \<Rightarrow> 's \<Rightarrow> bool"
  assumes grows_refl: "grows g g"
    and grows_trans: "grows g g' \<Longrightarrow> grows g' g'' \<Longrightarrow> grows g g''"
begin

definition stable :: "('s \<Rightarrow> bool) \<Rightarrow> bool" where
  "stable P \<longleftrightarrow> (\<forall>g g'. grows g g' \<longrightarrow> P g \<longrightarrow> P g')"

definition yields :: "('s \<Rightarrow> bool) \<Rightarrow> ('s, 'e, 'a) comp \<Rightarrow> ('a \<Rightarrow> 's \<Rightarrow> bool) \<Rightarrow> bool" where
  "yields P m Q \<longleftrightarrow>
     (\<forall>g r g'. P g \<longrightarrow> m g = (r, g') \<longrightarrow> grows g g' \<and> (\<forall>x. r = Inr x \<longrightarrow> Q x g'))"

lemma stableI: "(\<And>g g'. grows g g' \<Longrightarrow> P g \<Longrightarrow> P g') \<Longrightarrow> stable P"
  by (simp add: stable_def)

lemma stableD: "stable P \<Longrightarrow> grows g g' \<Longrightarrow> P g \<Longrightarrow> P g'"
  by (simp add: stable_def)

lemma stable_const: "stable (\<lambda>_. c)"
  by (simp add: stable_def)

lemma stable_conj: "stable P \<Longrightarrow> stable Q \<Longrightarrow> stable (\<lambda>g. P g \<and> Q g)"
  by (simp add: stable_def)

lemma stable_all: "(\<And>x. stable (P x)) \<Longrightarrow> stable (\<lambda>g. \<forall>x. P x g)"
  by (simp add: stable_def)

lemma stable_ball: "(\<And>x. stable (P x)) \<Longrightarrow> stable (\<lambda>g. \<forall>x\<in>X. P x g)"
  by (simp add: stable_def)

lemma yieldsD: "yields P m Q \<Longrightarrow> P g \<Longrightarrow> m g = (r, g') \<Longrightarrow> grows g g' \<and> (\<forall>x. r = Inr x \<longrightarrow> Q x g')"
  by (simp add: yields_def)

lemma yields_value: "yields P m Q \<Longrightarrow> P g \<Longrightarrow> m g = (Inr x, g') \<Longrightarrow> Q x g'"
  by (simp add: yields_def)

lemma yields_pre: "yields P m Q \<Longrightarrow> (\<And>g. P' g \<Longrightarrow> P g) \<Longrightarrow> yields P' m Q"
  unfolding yields_def by blast

lemma yields_post: "yields P m Q \<Longrightarrow> (\<And>x g. Q x g \<Longrightarrow> Q' x g) \<Longrightarrow> yields P m Q'"
  by (simp add: yields_def)

lemma yields_return: "(\<And>g. P g \<Longrightarrow> Q x g) \<Longrightarrow> yields P (act_return x) Q"
  by (simp add: yields_def act_return_def grows_refl)

lemma yields_fail: "yields P (act_fail e) Q"
  by (simp add: yields_def act_fail_def grows_refl)

lemma yields_read: "(\<And>g. P g \<Longrightarrow> Q (f g) g) \<Longrightarrow> yields P (act_read f) Q"
  by (simp add: yields_def act_read_def grows_refl)

lemma yields_bind:
  assumes m: "yields P m R" and "stable P" and f: "\<And>x. yields (\<lambda>g. P g \<and> R x g) (f x) Q"
  shows "yields P (act_bind m f) Q"
  unfolding yields_def
proof (intro allI impI)
  fix g r g' assume P: "P g" and run: "act_bind m f g = (r, g')"
  obtain s h where s: "m g = (s, h)" by (cases "m g")
  from yieldsD [OF m P s] have h: "grows g h" "\<forall>x. s = Inr x \<longrightarrow> R x h" by simp_all
  show "grows g g' \<and> (\<forall>x. r = Inr x \<longrightarrow> Q x g')"
  proof (cases s)
    case (Inl e)
    with run s h show ?thesis by (auto simp: act_bind_def)
  next
    case (Inr x)
    with h stableD [OF assms(2) h(1) P] have "P h \<and> R x h" by simp
    moreover from run s Inr have "f x h = (r, g')" by (simp add: act_bind_def)
    ultimately have "grows h g' \<and> (\<forall>x. r = Inr x \<longrightarrow> Q x g')" using f [of x] by (simp add: yields_def)
    with h(1) show ?thesis by (blast intro: grows_trans)
  qed
qed

lemma yields_if:
  "(b \<Longrightarrow> yields P m Q) \<Longrightarrow> (\<not> b \<Longrightarrow> yields P n Q) \<Longrightarrow> yields P (if b then m else n) Q"
  by simp

lemma yields_case_prod:
  "(\<And>a b. x = (a, b) \<Longrightarrow> yields P (f a b) Q) \<Longrightarrow> yields P (case x of (a, b) \<Rightarrow> f a b) Q"
  by (cases x) simp

lemma yields_then:
  "yields P m R \<Longrightarrow> stable P \<Longrightarrow> (\<And>x. yields (\<lambda>g. P g \<and> R x g) n Q) \<Longrightarrow> yields P (act_then m n) Q"
  unfolding act_then_def by (rule yields_bind)

text \<open>A step whose value says nothing of the state.\<close>

lemma yields_skip:
  "yields P m (\<lambda>_ _. True) \<Longrightarrow> stable P \<Longrightarrow> (\<And>x. yields P (f x) Q) \<Longrightarrow> yields P (act_bind m f) Q"
  by (rule yields_bind [where R = "\<lambda>_ _. True"]) simp_all

lemma yields_fold:
  assumes "\<And>x acc. x \<in> set xs \<Longrightarrow> yields (\<lambda>g. P g \<and> I acc g) (f x acc) I"
    and "stable P" and "\<And>acc. stable (I acc)"
  shows "yields (\<lambda>g. P g \<and> I acc g) (act_fold f xs acc) I"
  using assms(1)
proof (induction xs arbitrary: acc)
  case Nil
  show ?case by (auto intro: yields_return)
next
  case (Cons x xs)
  have "yields (\<lambda>g. (P g \<and> I acc g) \<and> I y g) (act_fold f xs y) I" for y
    using Cons.IH [of y] Cons.prems by (auto elim: yields_pre)
  with Cons.prems show ?case
    by (auto intro!: yields_bind [where R = I] stable_conj assms(2,3))
qed

end

end
