(* ===== verification/Codex_Prepare.thy ===== *)
theory Codex_Prepare
  imports Codex_Parse Growing
begin

section \<open>The request sent upstream\<close>

text \<open>
  \<open>provider/request.rs\<close> with the \<open>prepare\<close> of \<open>search.rs\<close> and \<open>images.rs\<close>: what the
  request is checked for against the model, and the headers and the body sent upstream, in
  which every identifier of the client is replaced by the one the identity map gives for
  the account. Preparing is an action on the identity map. Turn metadata is JSON text in
  JSON, read again level by level: the fuel of \<open>normalized_metadata\<close> is the length of the
  text plus one, which is enough for a parser whose strings are shorter than their text.
\<close>

record prep_env =
  pr_parse :: "string \<Rightarrow> json option"
  pr_print :: "json \<Rightarrow> string"
  pr_header_ok :: "string \<Rightarrow> bool"
  pr_v5 :: "uuid \<Rightarrow> string \<Rightarrow> string"
  pr_reparse :: "string \<Rightarrow> string option"
  pr_uuid_text :: "uuid \<Rightarrow> string"
  pr_v5_text :: "uuid \<Rightarrow> string \<Rightarrow> string"

datatype prep_stop = Refused err | OutOfFuel

type_synonym 'a preparing = "(identity_map, prep_stop, 'a) comp"

definition checked :: "'a res \<Rightarrow> 'a preparing" where
  "checked r = (case r of Inl e \<Rightarrow> act_fail (Refused e) | Inr x \<Rightarrow> act_return x)"

definition refuse_unless :: "bool \<Rightarrow> string \<Rightarrow> unit preparing" where
  "refuse_unless b message = (if b then act_return () else act_fail (Refused (err_invalid message)))"

subsection \<open>What a model accepts\<close>

function has_image :: "json \<Rightarrow> bool" where
  "has_image (JArr a) \<longleftrightarrow> (\<exists>v\<in>set a. has_image v)"
| "has_image (JObj o1) \<longleftrightarrow>
     str_field (JObj o1) ''type'' = Some ''input_image''
     \<or> (case jget (JObj o1) ''content'' of None \<Rightarrow> False | Some v \<Rightarrow> has_image v)"
| "has_image JNull \<longleftrightarrow> False"
| "has_image (JBool b) \<longleftrightarrow> False"
| "has_image (JNum n) \<longleftrightarrow> False"
| "has_image (JStr s) \<longleftrightarrow> False"
  by pat_completeness auto
termination
  by (relation "measure depth") (auto intro: depth_arr depth_get simp del: depth.simps jget_simps)

definition images_validate :: "gateway_request \<Rightarrow> model_spec \<Rightarrow> unit res" where
  "images_validate r m =
     (if doc_format (gq_document r) \<noteq> IMAGES_FORMAT \<or> \<not> is_codex_image_model (ms_upstream m)
      then Inl (err_invalid ''This route requires a supported Codex Images model'')
      else ensure (cap_image_generation (ms_capabilities m)
             \<and> \<not> (gq_kind r = ImageEdit \<and> \<not> cap_image_input (ms_capabilities m)))
           (err_invalid ''Image generation or editing is disabled for this model''))"

definition check_tools :: "json \<Rightarrow> capabilities \<Rightarrow> unit res" where
  "check_tools body c =
     (case jget body ''tools'' of
        None \<Rightarrow> Inr ()
      | Some (JArr tools) \<Rightarrow>
          and_then (ensure (tools = [] \<or> cap_tools c) (err_invalid ''Tools are not enabled for this model'')) (\<lambda>_.
            ensure (\<not> (\<exists>t\<in>set tools. str_field t ''type'' = Some ''image_generation'') \<or> cap_image_generation c)
              (err_invalid ''Image generation is not enabled for this model''))
      | Some _ \<Rightarrow> Inl (err_invalid ''tools must be an array''))"

definition request_validate :: "gateway_request \<Rightarrow> model_spec \<Rightarrow> unit res" where
  "request_validate r m =
     (let body = doc_value (gq_document r); c = ms_capabilities m in
      if is_image (gq_kind r) then images_validate r m else
      and_then (ensure (\<not> is_codex_image_model (ms_upstream m))
        (err_invalid ''Use /images/generations or /images/edits for this model'')) (\<lambda>_.
      and_then (ensure (doc_format (gq_document r) \<in> {FORMAT, SEARCH_FORMAT})
        (error_new 400 ''unsupported_conversion'' ''This provider accepts Responses requests'')) (\<lambda>_.
      and_then (ensure (\<not> (gq_requested_tier r \<in> {Some ''fast'', Some ''priority''} \<and> \<not> cap_fast c))
        (err_invalid ''Fast mode is not enabled for this model'')) (\<lambda>_.
      and_then (ensure (jget body ''reasoning'' \<in> {None, Some JNull} \<or> cap_reasoning c)
        (err_invalid ''Reasoning is not enabled for this model'')) (\<lambda>_.
      and_then (check_tools body c) (\<lambda>_.
        ensure (cap_image_input c \<or> \<not> has_image (jindex body ''input''))
          (err_invalid ''Image input is not enabled for this model'')))))))"

subsection \<open>Identifiers\<close>

definition auth_headers :: "prep_env \<Rightarrow> account \<Rightarrow> credentials \<Rightarrow> header_list res" where
  "auth_headers env a c =
     fold_res (\<lambda>(k, v) hs. if pr_header_ok env v then Inr (set_header k v hs)
         else Inl (err_invalid ''Invalid account header''))
       [(''authorization'', ''Bearer '' @ cr_access_token c),
        (''chatgpt-account-id'', acc_upstream_account_id a),
        (''originator'', ''codex_cli_rs''),
        (''user-agent'', cp_user_agent (acc_profile a))] []"

definition identity_kind :: "string \<Rightarrow> string option" where
  "identity_kind name =
     (if name \<in> {''session-id'', ''session_id'', ''conversation-id'', ''conversation_id'', ''thread-id'', ''thread_id'',
                 ''parent_thread_id'', ''forked_from_thread_id'', ''x-codex-parent-thread-id''}
      then Some ''thread''
      else if name \<in> {''turn_id'', ''parent_turn_id'', ''root_turn_id'', ''x-codex-image-turn-id''} then Some ''turn''
      else if name \<in> {''window_id'', ''x-codex-window-id''} then Some ''window''
      else if name = ''context_window_id'' then Some ''context_window''
      else if name = ''x-client-request-id'' then Some ''request''
      else None)"

definition installation_name :: "string \<Rightarrow> bool" where
  "installation_name name \<longleftrightarrow> name \<in> {''installation_id'', ''x-codex-installation-id''}"

definition out_id :: "prep_env \<Rightarrow> string \<Rightarrow> string \<Rightarrow> string preparing" where
  "out_id env kind client ids =
     (case outbound (pr_v5 env) (pr_reparse env) kind client ids of
        Inl e \<Rightarrow> (Inl (Refused e), ids) | Inr (u, ids') \<Rightarrow> (Inr u, ids'))"

definition mapped_identity :: "prep_env \<Rightarrow> account \<Rightarrow> string \<Rightarrow> string \<Rightarrow> string preparing" where
  "mapped_identity env a name v =
     (if installation_name name then act_return (pr_uuid_text env (cp_installation_id (acc_profile a)))
      else case identity_kind name of
        Some kind \<Rightarrow> out_id env kind (str_trim v)
      | None \<Rightarrow> act_return v)"

subsection \<open>Metadata\<close>

definition nested_value :: "prep_env \<Rightarrow> json \<Rightarrow> json preparing" where
  "nested_value env item =
     checked (ok_or (err_invalid ''Invalid turn metadata'') (Option.bind (as_str item) (pr_parse env)))"

definition normalized_member ::
  "prep_env \<Rightarrow> account \<Rightarrow> (json \<Rightarrow> json preparing) \<Rightarrow> string \<Rightarrow> json \<Rightarrow> json preparing" where
  "normalized_member env a nested name item =
     (if name = turn_metadata_name then
        act_bind (nested_value env item) (\<lambda>v.
        act_bind (nested v) (\<lambda>w. act_return (JStr (pr_print env w))))
      else if identity_kind name \<noteq> None \<or> installation_name name then
        (case filter_option (\<lambda>s. \<not> blank s) (as_str item) of
           None \<Rightarrow> act_return item
         | Some text \<Rightarrow> act_bind (mapped_identity env a name text) (\<lambda>u. act_return (JStr u)))
      else act_return item)"

fun normalized_members ::
  "(string \<Rightarrow> json \<Rightarrow> json preparing) \<Rightarrow> (string \<times> json) list \<Rightarrow> (string \<times> json) list preparing" where
  "normalized_members f [] = act_return []"
| "normalized_members f ((name, item) # ms) =
     act_bind (f name item) (\<lambda>v. act_bind (normalized_members f ms) (\<lambda>ns. act_return ((name, v) # ns)))"

primrec normalize_metadata :: "nat \<Rightarrow> prep_env \<Rightarrow> account \<Rightarrow> json \<Rightarrow> json preparing" where
  "normalize_metadata 0 env a value = act_fail OutOfFuel"
| "normalize_metadata (Suc n) env a value =
     (case value of
        JObj m \<Rightarrow> act_bind (normalized_members (normalized_member env a (normalize_metadata n env a)) m)
          (\<lambda>ms. act_return (JObj ms))
      | _ \<Rightarrow> act_fail (Refused (err_invalid ''Client metadata must be an object'')))"

fun text_size :: "json \<Rightarrow> nat" where
  "text_size (JStr s) = length s"
| "text_size _ = 0"

definition metadata_fuel :: "json \<Rightarrow> nat" where
  "metadata_fuel value =
     (case value of JObj m \<Rightarrow> fold max (map (\<lambda>(_, v). text_size v) m) 0 + 2 | _ \<Rightarrow> 1)"

definition normalized_metadata :: "prep_env \<Rightarrow> account \<Rightarrow> json \<Rightarrow> json preparing" where
  "normalized_metadata env a value = normalize_metadata (metadata_fuel value) env a value"

subsection \<open>Headers\<close>

definition put_header :: "prep_env \<Rightarrow> string \<Rightarrow> string \<Rightarrow> string \<Rightarrow> header_list \<Rightarrow> header_list preparing" where
  "put_header env name v message hs =
     act_then (refuse_unless (pr_header_ok env v) message) (act_return (set_header name v hs))"

definition insert_missing_header :: "prep_env \<Rightarrow> string \<Rightarrow> string \<Rightarrow> header_list \<Rightarrow> header_list preparing" where
  "insert_missing_header env name v hs =
     (if header_values hs name \<noteq> [] then act_return hs
      else put_header env name v ''Invalid normalized header'' hs)"

definition canonical_header :: "string \<Rightarrow> string" where
  "canonical_header name =
     (if name = ''session_id'' then ''session-id'' else if name = ''thread_id'' then ''thread-id''
      else if name \<in> {''conversation_id'', ''conversation-id''} then ''session-id'' else name)"

definition normalized_text :: "prep_env \<Rightarrow> account \<Rightarrow> string \<Rightarrow> string preparing" where
  "normalized_text env a text =
     act_bind (nested_value env (JStr text)) (\<lambda>v.
     act_bind (normalized_metadata env a v) (\<lambda>w. act_return (pr_print env w)))"

definition project_header ::
  "prep_env \<Rightarrow> account \<Rightarrow> gateway_request \<Rightarrow> string \<times> string \<Rightarrow> header_list \<Rightarrow> header_list preparing" where
  "project_header env a r nv hs =
     (let (name, value) = nv in
      act_then (refuse_unless (visible_ascii value) ''Invalid identity header'')
        (if blank value then act_return hs
         else act_bind (if name = turn_metadata_name then normalized_text env a value
                        else mapped_identity env a name value) (\<lambda>mapped.
           if name \<in> {''conversation_id'', ''conversation-id''}
              \<and> (\<exists>n\<in>{''session-id'', ''session_id''}. header_values (gq_identity_headers r) n \<noteq> [])
           then act_return hs
           else put_header env (canonical_header name) mapped ''Invalid normalized header'' hs)))"

definition client_metadata :: "prep_env \<Rightarrow> account \<Rightarrow> gateway_request \<Rightarrow> json option preparing" where
  "client_metadata env a r =
     (if gq_client_metadata_present r
      then act_bind (normalized_metadata env a (jindex (doc_value (gq_document r)) ''client_metadata''))
        (\<lambda>v. act_return (Some v))
      else act_return None)"

definition session_headers :: "prep_env \<Rightarrow> gateway_request \<Rightarrow> header_list \<Rightarrow> header_list preparing" where
  "session_headers env r hs =
     (if gq_stateless r then act_return hs
      else
        act_bind (out_id env ''thread'' (ci_session_id (gq_identity r))) (\<lambda>session.
        act_bind (out_id env ''thread'' (ci_thread_id (gq_identity r))) (\<lambda>thread.
        act_bind (insert_missing_header env ''session-id'' session hs) (\<lambda>h1.
        act_bind (insert_missing_header env ''thread-id'' thread h1) (\<lambda>h2.
          insert_missing_header env ''x-client-request-id'' thread h2)))))"

definition turn_identity :: "prep_env \<Rightarrow> gateway_request \<Rightarrow> (string, json) hmap preparing" where
  "turn_identity env r =
     (if gq_stateless r then act_return []
      else
        act_bind (out_id env ''thread'' (ci_session_id (gq_identity r))) (\<lambda>session.
        act_bind (out_id env ''thread'' (ci_thread_id (gq_identity r))) (\<lambda>thread.
          act_return [(''session_id'', JStr session), (''thread_id'', JStr thread)])))"

definition projected_fields :: "(string \<times> string option) list" where
  "projected_fields =
     [(''installation_id'', Some ''x-codex-installation-id''), (''window_id'', Some ''x-codex-window-id''),
      (''parent_thread_id'', Some ''x-codex-parent-thread-id''), (''turn_id'', None), (''context_window_id'', None),
      (''forked_from_thread_id'', None), (''parent_turn_id'', None), (''root_turn_id'', None)]"

definition project_field ::
  "prep_env \<Rightarrow> account \<Rightarrow> gateway_request \<Rightarrow> json list \<Rightarrow> string \<times> string option
     \<Rightarrow> header_list \<times> (string, json) hmap \<Rightarrow> (header_list \<times> (string, json) hmap) preparing" where
  "project_field env a r sources fh acc =
     (let (name, header) = fh; (hs, turn) = acc in
      act_bind (checked (coherent_field (gq_identity_headers r) header sources name)) (\<lambda>found.
        case found of
          None \<Rightarrow> act_return (hs, turn)
        | Some v \<Rightarrow>
            act_bind (mapped_identity env a name v) (\<lambda>mapped.
            act_bind (case header of None \<Rightarrow> act_return hs | Some h \<Rightarrow> insert_missing_header env h mapped hs) (\<lambda>h1.
              act_return (h1, hput name (JStr mapped) turn)))))"

definition add_missing :: "string \<Rightarrow> json \<Rightarrow> (string, json) hmap \<Rightarrow> (string, json) hmap" where
  "add_missing k v m = (case hget m k of None \<Rightarrow> hput k v m | Some _ \<Rightarrow> m)"

definition merge_turn :: "string \<times> json \<Rightarrow> (string, json) hmap \<Rightarrow> (string, json) hmap" where
  "merge_turn kv object =
     (let (key, value) = kv in
      case (key = ''compaction'', hget object key, value) of
        (True, Some (JObj previous), JObj additions) \<Rightarrow>
          hput key (JObj (fold (\<lambda>(k, v). add_missing k v) additions previous)) object
      | _ \<Rightarrow> add_missing key value object)"

definition turn_header ::
  "prep_env \<Rightarrow> (string, json) hmap \<Rightarrow> header_list \<Rightarrow> header_list preparing" where
  "turn_header env turn hs =
     (if turn = [] then act_return hs
      else case map_of hs turn_metadata_name of
        None \<Rightarrow> insert_missing_header env turn_metadata_name (pr_print env (JObj turn)) hs
      | Some earlier \<Rightarrow>
          act_bind (nested_value env (JStr earlier)) (\<lambda>projected.
            case projected of
              JObj object \<Rightarrow>
                put_header env turn_metadata_name (pr_print env (JObj (fold merge_turn turn object)))
                  ''Invalid turn metadata'' hs
            | _ \<Rightarrow> act_fail (Refused (err_invalid ''Invalid turn metadata''))))"

definition normalized_headers ::
  "prep_env \<Rightarrow> gateway_request \<Rightarrow> account \<Rightarrow> credentials \<Rightarrow> (header_list \<times> json option) preparing" where
  "normalized_headers env r a c =
     act_bind (checked (auth_headers env a c)) (\<lambda>h0.
     act_bind (act_fold (project_header env a r) (gq_identity_headers r)
       (set_header ''accept'' ''text/event-stream'' (set_header ''content-type'' ''application/json'' h0))) (\<lambda>h1.
     act_bind (client_metadata env a r) (\<lambda>meta.
     act_bind (session_headers env r h1) (\<lambda>h2.
     act_bind (checked (metadata_sources (pr_parse env) (doc_value (gq_document r)) (gq_identity_headers r))) (\<lambda>sources.
     act_bind (turn_identity env r) (\<lambda>turn.
     act_bind (act_fold (project_field env a r sources) projected_fields (h2, turn)) (\<lambda>(h3, turn1).
     act_bind (checked (turn_metadata sources)) (\<lambda>extra.
     act_bind (turn_header env (fold (\<lambda>(k, v). hput k v) extra turn1) h3) (\<lambda>h4.
       act_return (h4, meta))))))))))"

subsection \<open>The request\<close>

definition copied_members :: "string list" where
  "copied_members =
     [''input'', ''instructions'', ''tools'', ''tool_choice'', ''parallel_tool_calls'', ''reasoning'', ''stream_options'',
      ''include'', ''text'', ''temperature'', ''top_p'', ''truncation'', ''access_programs'']"

definition copied_body :: "json \<Rightarrow> (string, json) hmap" where
  "copied_body source =
     List.map_filter (\<lambda>k. map_option (Pair k) (jget source k)) copied_members"

definition developer_role :: "json \<Rightarrow> json" where
  "developer_role item =
     (if str_field item ''role'' = Some ''system'' then jput ''role'' (JStr ''developer'') item else item)"

definition message_input :: "json \<Rightarrow> json" where
  "message_input input =
     (case input of
        JStr text \<Rightarrow> JArr [JObj [(''content'', JStr text), (''role'', JStr ''user'')]]
      | JArr items \<Rightarrow> JArr (map developer_role items)
      | _ \<Rightarrow> input)"

definition input_body :: "(string, json) hmap \<Rightarrow> (string, json) hmap preparing" where
  "input_body body =
     (case hget body ''input'' of
        None \<Rightarrow> act_return body
      | Some input \<Rightarrow>
          act_bind (act_read (\<lambda>ids. rewrite_input ids (message_input input))) (\<lambda>found.
          act_bind (checked found) (\<lambda>v. act_return (hput ''input'' v body))))"

definition fixed_body :: "gateway_request \<Rightarrow> model_spec \<Rightarrow> (string, json) hmap \<Rightarrow> (string, json) hmap" where
  "fixed_body r m body0 =
     (let b1 = add_missing ''instructions'' (JStr []) body0;
          b2 = (if gq_kind r = Responses then ensure_declaration b1 else b1);
          b3 = hput ''model'' (JStr (mr_model (ms_upstream m))) b2;
          b4 = (if gq_kind r \<noteq> Compact
                then hput ''stream'' (JBool True) (hput ''store'' (JBool False) b3) else b3)
      in case filter_option (\<lambda>t. t \<noteq> ''auto'') (gq_requested_tier r) of
           None \<Rightarrow> b4 | Some tier \<Rightarrow> hput ''service_tier'' (JStr tier) b4)"

definition cache_key :: "prep_env \<Rightarrow> gateway_request \<Rightarrow> account \<Rightarrow> string \<Rightarrow> string preparing" where
  "cache_key env r a cache =
     (if \<not> gq_stateless r \<and> cache \<in> {ci_session_id (gq_identity r), ci_thread_id (gq_identity r)}
      then out_id env ''thread'' cache
      else act_read (\<lambda>ids. pr_v5_text env (cp_installation_id (acc_profile a))
        (''prompt_cache'' @ [CHR 0x00] @ pr_uuid_text env (sk_key_id (bd_session (ids_binding ids)))
          @ [CHR 0x00] @ cache)))"

definition cache_partition ::
  "prep_env \<Rightarrow> gateway_request \<Rightarrow> account \<Rightarrow> header_list \<Rightarrow> (string, json) hmap
     \<Rightarrow> (header_list \<times> (string, json) hmap) preparing" where
  "cache_partition env r a hs body =
     (case filter_option (\<lambda>s. s \<noteq> [])
             (map_option str_trim (str_field (doc_value (gq_document r)) ''prompt_cache_key'')) of
        None \<Rightarrow> act_return (hs, body)
      | Some cache \<Rightarrow>
          act_bind (cache_key env r a cache) (\<lambda>mapped.
          act_bind (if gq_stateless r \<and> gq_kind r = Responses
                    then act_bind (insert_missing_header env ''session_id'' mapped hs)
                      (insert_missing_header env ''conversation_id'' mapped)
                    else act_return hs) (\<lambda>h1.
            act_return (h1, hput ''prompt_cache_key'' (JStr mapped) body))))"

definition post_request :: "account \<Rightarrow> string \<Rightarrow> header_list \<Rightarrow> string \<Rightarrow> prepared_request" where
  "post_request a path hs body =
     \<lparr>pq_method = ''POST'', pq_url = trim_end_char CHR ''/'' (acc_upstream_base_url a) @ path, pq_headers = hs,
      pq_body = body, pq_account_id = Some (acc_id a), pq_profile_version = acc_version a,
      pq_tls_backend = cp_tls_backend (acc_profile a)\<rparr>"

text \<open>The prepared body as JSON, with the headers: what \<open>prepare\<close> prints and sends.\<close>

definition prepare_parts ::
  "prep_env \<Rightarrow> gateway_request \<Rightarrow> model_spec \<Rightarrow> account \<Rightarrow> credentials \<Rightarrow> (header_list \<times> json) preparing" where
  "prepare_parts env r m a c =
     act_bind (input_body (copied_body (doc_value (gq_document r)))) (\<lambda>b0.
     act_bind (normalized_headers env r a c) (\<lambda>(h0, meta).
     act_bind (cache_partition env r a
         (if gq_kind r = Compact then set_header ''accept'' ''application/json'' h0 else h0)
         (case meta of None \<Rightarrow> fixed_body r m b0 | Some v \<Rightarrow> hput ''client_metadata'' v (fixed_body r m b0)))
       (\<lambda>(hs, body). act_return (hs, JObj body))))"

text \<open>The second component is the trace \<open>record_request_rewrite\<close> keeps.\<close>

definition prepare ::
  "prep_env \<Rightarrow> gateway_request \<Rightarrow> model_spec \<Rightarrow> account \<Rightarrow> credentials
     \<Rightarrow> (prepared_request \<times> request_rewrite) preparing" where
  "prepare env r m a c =
     act_bind (prepare_parts env r m a c) (\<lambda>(hs, body). act_return
       (post_request a (''/responses'' @ (if gq_kind r = Compact then ''/compact'' else [])) hs (pr_print env body),
        compare_request (pr_parse env) (gq_identifier_inputs r) (doc_value (gq_document r)) hs body))"

subsection \<open>Searches and images\<close>

definition search_body :: "json \<Rightarrow> model_spec \<Rightarrow> json option \<Rightarrow> json" where
  "search_body source m meta =
     (let body = jput ''model'' (JStr (mr_model (ms_upstream m))) source in
      case meta of None \<Rightarrow> jdel ''client_metadata'' body | Some v \<Rightarrow> jput ''client_metadata'' v body)"

definition search_trace :: "json \<Rightarrow> request_rewrite \<Rightarrow> request_rewrite" where
  "search_trace body trace =
     trace\<lparr>rw_entries := rw_entries trace
       @ [\<lparr>iw_field = ''body.id'', iw_before = str_field body ''id'', iw_after = str_field body ''id'',
           iw_action = ''unchanged''\<rparr>]\<rparr>"

definition prepare_search ::
  "prep_env \<Rightarrow> gateway_request \<Rightarrow> model_spec \<Rightarrow> account \<Rightarrow> credentials
     \<Rightarrow> (prepared_request \<times> request_rewrite) preparing" where
  "prepare_search env r m a c =
     act_bind (normalized_headers env r a c) (\<lambda>(h0, meta).
     act_bind (put_header env ''version'' (cp_codex_version (acc_profile a)) ''Invalid client version''
         (set_header ''accept'' ''application/json'' h0)) (\<lambda>h1.
       let body = search_body (doc_value (gq_document r)) m meta;
           hs = (case so_beta (gq_search_options r) of None \<Rightarrow> h1 | Some beta \<Rightarrow> set_header ''openai-beta'' beta h1);
           trace = search_trace body
             (compare_request (pr_parse env) (gq_identifier_inputs r) (doc_value (gq_document r)) hs body)
       in act_return
         (post_request a (''/alpha/search'' @ (case so_query (gq_search_options r) of None \<Rightarrow> [] | Some q \<Rightarrow> ''?'' @ q))
            hs (pr_print env body), trace)))"

definition image_body :: "json \<Rightarrow> model_spec \<Rightarrow> json" where
  "image_body source m =
     jdel ''stream'' (jdel ''client_metadata'' (jput ''model'' (JStr (mr_model (ms_upstream m))) source))"

definition prepare_images ::
  "prep_env \<Rightarrow> gateway_request \<Rightarrow> model_spec \<Rightarrow> account \<Rightarrow> credentials \<Rightarrow> prepared_request preparing" where
  "prepare_images env r m a c =
     act_bind (normalized_headers env r a c) (\<lambda>(h0, _). act_return
       (post_request a (''/images/'' @ (if gq_kind r = ImageEdit then ''edits'' else ''generations''))
          (set_header ''accept'' ''application/json'' h0)
          (pr_print env (image_body (doc_value (gq_document r)) m))))"

end
