(* ===== verification/Codex_Upstream.thy ===== *)
theory Codex_Upstream
  imports Codex_Prepare
begin

section \<open>What is sent upstream\<close>

text \<open>
  Facts about \<open>Codex_Prepare\<close>: the identity map is only added to, so the identifiers written
  into headers and metadata stay those of the map, and what is added to it is derived from the
  session's namespace; preparing ends; and the body holds what the gateway decides.
\<close>

text \<open>The identifier the gateway makes of a client's: a UUID of the session's namespace, its kind and its name.\<close>

definition issued :: "prep_env \<Rightarrow> binding \<Rightarrow> string \<Rightarrow> string \<Rightarrow> string \<Rightarrow> bool" where
  "issued env b kind client u \<longleftrightarrow>
     (let w = pr_v5 env (bd_namespace b) (kind @ [CHR 0x00] @ client) in
      if kind = ''item'' then u = item_prefix client @ ''_'' @ w
      else if kind = ''call'' then u = ''call_'' @ w
      else if kind = ''response'' then u = ''resp_'' @ w
      else pr_reparse env w = Some u)"

text \<open>Nothing is taken from the map, and what is added to it was issued.\<close>

definition ids_grow :: "prep_env \<Rightarrow> identity_map \<Rightarrow> identity_map \<Rightarrow> bool" where
  "ids_grow env ids ids' \<longleftrightarrow> ids_binding ids' = ids_binding ids
     \<and> (\<forall>k u. hget (ids_forward ids) k = Some u \<longrightarrow> hget (ids_forward ids') k = Some u)
     \<and> (\<forall>kind client u. hget (ids_forward ids') (kind, client) = Some u
          \<longrightarrow> hget (ids_forward ids) (kind, client) = Some u \<or> issued env (ids_binding ids) kind client u)"

interpretation mapping: growing "ids_grow env" for env
proof unfold_locales
  fix g g' g'' assume "ids_grow env g g'" "ids_grow env g' g''"
  then show "ids_grow env g g''" unfolding ids_grow_def by metis
qed (simp add: ids_grow_def)

text \<open>The identifier is one the identity map gives.\<close>

definition mapped :: "identity_map \<Rightarrow> string \<Rightarrow> string \<Rightarrow> bool" where
  "mapped ids kind v \<longleftrightarrow> (\<exists>client. hget (ids_forward ids) (kind, client) = Some v)"

lemma mapped_grow: "ids_grow env ids ids' \<Longrightarrow> mapped ids kind v \<Longrightarrow> mapped ids' kind v"
  unfolding ids_grow_def mapped_def by blast

lemma derived_issued:
  "derived_upstream (pr_v5 env) (pr_reparse env) ids kind client = Inr u \<Longrightarrow> issued env (ids_binding ids) kind client u"
  by (auto simp: derived_upstream_def issued_def v5_name_def Let_def ok_or_def split: if_splits option.splits)

lemma outbound_maps:
  assumes "outbound (pr_v5 env) (pr_reparse env) kind client ids = Inr (u, ids')"
  shows "ids_grow env ids ids' \<and> mapped ids' kind u"
proof (cases "existing ids kind client")
  case (Some v)
  with assms have "ids' = ids" "u = v" by (simp_all add: outbound_def split: if_splits)
  with Some show ?thesis by (auto simp: mapped_def ids_grow_def existing_def)
next
  case None
  with assms have new: "ids' = insert_mapping kind client u ids"
    and "derived_upstream (pr_v5 env) (pr_reparse env) ids kind client = Inr u"
    by (auto simp: outbound_def and_then_Inr_iff split: if_splits)
  from derived_issued [OF this(2)] have "issued env (ids_binding ids) kind client u" .
  with None new show ?thesis by (auto simp: mapped_def ids_grow_def existing_def insert_mapping_def)
qed

text \<open>
  What a value under a name has to be: the account's own installation, or an identifier the
  map gives for the name's kind (the request identifier may also be the thread's).
\<close>

definition name_kind :: "string \<Rightarrow> string \<Rightarrow> bool" where
  "name_kind name kind \<longleftrightarrow>
     identity_kind name = Some kind \<or> (name = ''x-client-request-id'' \<and> kind = ''thread'')"

definition identity_ok :: "prep_env \<Rightarrow> account \<Rightarrow> identity_map \<Rightarrow> string \<Rightarrow> string \<Rightarrow> bool" where
  "identity_ok env a ids name v \<longleftrightarrow>
     (installation_name name \<longrightarrow> v = pr_uuid_text env (cp_installation_id (acc_profile a)))
     \<and> (identity_kind name \<noteq> None \<longrightarrow> (\<exists>kind. name_kind name kind \<and> mapped ids kind v))"

lemma identity_ok_grow: "ids_grow env ids ids' \<Longrightarrow> identity_ok env a ids name v \<Longrightarrow> identity_ok env a ids' name v"
  unfolding identity_ok_def by (blast intro: mapped_grow)

lemma identity_ok_other:
  "\<not> installation_name name \<Longrightarrow> identity_kind name = None \<Longrightarrow> identity_ok env a ids name v"
  by (simp add: identity_ok_def)

text \<open>Metadata whose text members are clean; turn metadata is the text of clean metadata.\<close>

inductive clean_metadata :: "prep_env \<Rightarrow> account \<Rightarrow> identity_map \<Rightarrow> json \<Rightarrow> bool"
  for env :: prep_env and a :: account and ids :: identity_map where
  clean_object:
    "(\<And>k s. (k, JStr s) \<in> set m \<Longrightarrow>
        if k = turn_metadata_name then \<exists>w. s = pr_print env w \<and> clean_metadata env a ids w
        else blank s \<or> identity_ok env a ids k s)
     \<Longrightarrow> clean_metadata env a ids (JObj m)"

inductive_simps clean_metadata_JObj: "clean_metadata env a ids (JObj m)"

definition clean_text :: "prep_env \<Rightarrow> account \<Rightarrow> identity_map \<Rightarrow> string \<Rightarrow> string \<Rightarrow> bool" where
  "clean_text env a ids k s \<longleftrightarrow>
     (if k = turn_metadata_name then \<exists>w. s = pr_print env w \<and> clean_metadata env a ids w
      else blank s \<or> identity_ok env a ids k s)"

lemma clean_JObj: "clean_metadata env a ids (JObj m) \<longleftrightarrow> (\<forall>k s. (k, JStr s) \<in> set m \<longrightarrow> clean_text env a ids k s)"
  unfolding clean_text_def by (subst clean_metadata_JObj) simp

lemma clean_grow: "clean_metadata env a ids v \<Longrightarrow> ids_grow env ids ids' \<Longrightarrow> clean_metadata env a ids' v"
proof (induction rule: clean_metadata.induct)
  case (clean_object m)
  show ?case
    unfolding clean_JObj clean_text_def
  proof (intro allI impI)
    fix k s assume "(k, JStr s) \<in> set m"
    from clean_object(1) [OF this] clean_object(2)
    show "if k = turn_metadata_name then \<exists>w. s = pr_print env w \<and> clean_metadata env a ids' w
          else blank s \<or> identity_ok env a ids' k s"
      by (auto intro: identity_ok_grow split: if_splits)
  qed
qed

lemma clean_text_grow: "ids_grow env ids ids' \<Longrightarrow> clean_text env a ids k s \<Longrightarrow> clean_text env a ids' k s"
  unfolding clean_text_def by (cases "k = turn_metadata_name") (auto intro: identity_ok_grow clean_grow)

lemma stable_clean: "mapping.stable env (\<lambda>ids. clean_metadata env a ids v)"
  by (rule mapping.stableI) (rule clean_grow)

subsection \<open>Identifiers\<close>

lemma checked_yields: "(\<And>x. r = Inr x \<Longrightarrow> Q x) \<Longrightarrow> mapping.yields env P (checked r) (\<lambda>x _. Q x)"
  by (cases r) (auto simp: checked_def intro: mapping.yields_return mapping.yields_fail)

lemma checked_skip: "mapping.yields env P (checked r) (\<lambda>_ _. True)"
  by (rule checked_yields) simp

lemma refuse_skip: "mapping.yields env P (refuse_unless b m) (\<lambda>_ _. True)"
  by (auto simp: refuse_unless_def intro: mapping.yields_return mapping.yields_fail)

lemma out_id_yields: "mapping.yields env P (out_id env kind client) (\<lambda>u ids. mapped ids kind u)"
  unfolding mapping.yields_def out_id_def
  by (auto split: sum.splits prod.splits dest!: outbound_maps simp: mapping.grows_refl)

lemma installation_kind: "installation_name name \<Longrightarrow> identity_kind name = None"
proof -
  have "identity_kind ''installation_id'' = None" "identity_kind ''x-codex-installation-id'' = None" by code_simp+
  then show "installation_name name \<Longrightarrow> identity_kind name = None" unfolding installation_name_def by blast
qed

lemma mapped_identity_yields:
  "mapping.yields env P (mapped_identity env a name v) (\<lambda>u ids. identity_ok env a ids name u)"
proof (cases "installation_name name")
  case True
  with installation_kind [OF True] show ?thesis
    by (auto simp: mapped_identity_def identity_ok_def intro!: mapping.yields_return)
next
  case False
  show ?thesis
  proof (cases "identity_kind name")
    case None
    with False show ?thesis
      by (auto simp: mapped_identity_def identity_ok_def intro!: mapping.yields_return)
  next
    case (Some kind)
    with False show ?thesis
      by (auto simp: mapped_identity_def identity_ok_def name_kind_def intro!: mapping.yields_post [OF out_id_yields])
  qed
qed

subsection \<open>Metadata\<close>

definition member_clean :: "prep_env \<Rightarrow> account \<Rightarrow> string \<Rightarrow> json \<Rightarrow> identity_map \<Rightarrow> bool" where
  "member_clean env a k v ids \<longleftrightarrow> (\<forall>s. v = JStr s \<longrightarrow> clean_text env a ids k s)"

definition members_clean :: "prep_env \<Rightarrow> account \<Rightarrow> (string \<times> json) list \<Rightarrow> identity_map \<Rightarrow> bool" where
  "members_clean env a ms ids \<longleftrightarrow> (\<forall>k v. (k, v) \<in> set ms \<longrightarrow> member_clean env a k v ids)"

lemma clean_members: "clean_metadata env a ids (JObj ms) \<longleftrightarrow> members_clean env a ms ids"
  unfolding clean_JObj members_clean_def member_clean_def by blast

lemma members_clean_simps:
  "members_clean env a [] ids"
  "members_clean env a ((k, v) # ms) ids \<longleftrightarrow> member_clean env a k v ids \<and> members_clean env a ms ids"
  unfolding members_clean_def by auto

lemma stable_member: "mapping.stable env (member_clean env a k v)"
  by (rule mapping.stableI) (auto simp: member_clean_def intro: clean_text_grow)

lemma stable_members: "mapping.stable env (members_clean env a ms)"
  unfolding members_clean_def by (rule mapping.stableI) (blast intro: mapping.stableD [OF stable_member])

lemma set_hput_sub: "set (hput k v ms) \<subseteq> insert (k, v) (set ms)"
  by (induction ms) auto

lemma members_clean_put:
  "member_clean env a k v ids \<Longrightarrow> members_clean env a ms ids \<Longrightarrow> members_clean env a (hput k v ms) ids"
  unfolding members_clean_def using set_hput_sub [of k v ms] by blast

lemma normalized_member_yields:
  assumes nested: "\<And>v. mapping.yields env (\<lambda>_. True) (nested v) (\<lambda>w ids. clean_metadata env a ids w)"
  shows "mapping.yields env (\<lambda>_. True) (normalized_member env a nested name item) (member_clean env a name)"
proof (cases "name = turn_metadata_name")
  case True
  show ?thesis
    unfolding normalized_member_def nested_value_def if_P [OF True]
    by (rule mapping.yields_skip [OF checked_skip mapping.stable_const],
        rule mapping.yields_bind [OF nested mapping.stable_const], rule mapping.yields_return)
      (auto simp: member_clean_def clean_text_def True)
next
  case name: False
  show ?thesis
  proof (cases "(identity_kind name \<noteq> None \<or> installation_name name) \<and> filter_option (\<lambda>s. \<not> blank s) (as_str item) \<noteq> None")
    case True
    then obtain s where "filter_option (\<lambda>s. \<not> blank s) (as_str item) = Some s" by blast
    with True name have run: "normalized_member env a nested name item
        = act_bind (mapped_identity env a name s) (\<lambda>u. act_return (JStr u))"
      by (simp add: normalized_member_def)
    show ?thesis
      unfolding run
      by (rule mapping.yields_bind [OF mapped_identity_yields mapping.stable_const], rule mapping.yields_return)
        (auto simp: member_clean_def clean_text_def name)
  next
    case False
    with name have run: "normalized_member env a nested name item = act_return item"
      by (auto simp: normalized_member_def split: option.split)
    from False have "blank s \<or> identity_ok env a ids name s" if "item = JStr s" for s ids
      using that by (auto simp: filter_option_def identity_ok_other split: if_splits)
    then show ?thesis
      unfolding run by (intro mapping.yields_return) (auto simp: member_clean_def clean_text_def name)
  qed
qed

lemma normalized_members_yields:
  assumes f: "\<And>name item. mapping.yields env (\<lambda>_. True) (f name item) (member_clean env a name)"
  shows "mapping.yields env (\<lambda>_. True) (normalized_members f ms) (members_clean env a)"
proof (induction ms)
  case Nil
  show ?case by (auto simp: members_clean_simps intro: mapping.yields_return)
next
  case (Cons m ms)
  obtain name item where m: "m = (name, item)" by (cases m)
  show ?case
    unfolding m normalized_members.simps
    by (rule mapping.yields_bind [where R = "member_clean env a name", OF f mapping.stable_const],
        rule mapping.yields_bind [where R = "members_clean env a", OF mapping.yields_pre [OF Cons.IH]], simp,
        intro mapping.stable_conj mapping.stable_const stable_member, rule mapping.yields_return)
      (simp add: members_clean_simps)
qed

lemma normalize_yields:
  "mapping.yields env (\<lambda>_. True) (normalize_metadata n env a v) (\<lambda>w ids. clean_metadata env a ids w)"
proof (induction n arbitrary: v)
  case 0
  show ?case by (simp add: mapping.yields_fail)
next
  case (Suc n)
  note members = normalized_members_yields [OF normalized_member_yields [OF Suc.IH]]
  show ?case
  proof (cases v)
    case (JObj m)
    show ?thesis
      unfolding JObj normalize_metadata.simps json.case
      by (rule mapping.yields_bind [OF members mapping.stable_const], rule mapping.yields_return)
        (simp add: clean_members)
  qed (simp_all add: mapping.yields_fail)
qed

lemma normalized_metadata_yields:
  "mapping.yields env P (normalized_metadata env a v) (\<lambda>w ids. clean_metadata env a ids w)"
  unfolding normalized_metadata_def by (rule mapping.yields_pre [OF normalize_yields]) simp

subsection \<open>Headers\<close>

definition header_clean :: "prep_env \<Rightarrow> account \<Rightarrow> string \<Rightarrow> string \<Rightarrow> identity_map \<Rightarrow> bool" where
  "header_clean env a n v ids \<longleftrightarrow>
     (if n = turn_metadata_name then \<exists>w. v = pr_print env w \<and> clean_metadata env a ids w
      else identity_ok env a ids n v)"

definition headers_clean :: "prep_env \<Rightarrow> account \<Rightarrow> header_list \<Rightarrow> identity_map \<Rightarrow> bool" where
  "headers_clean env a hs ids \<longleftrightarrow> (\<forall>n v. (n, v) \<in> set hs \<longrightarrow> header_clean env a n v ids)"

lemma stable_header: "mapping.stable env (header_clean env a n v)"
  unfolding header_clean_def
  by (rule mapping.stableI, cases "n = turn_metadata_name") (auto intro: identity_ok_grow clean_grow)

lemma stable_headers: "mapping.stable env (headers_clean env a hs)"
  unfolding headers_clean_def by (rule mapping.stableI) (blast intro: mapping.stableD [OF stable_header])

lemma headers_clean_set:
  "header_clean env a n v ids \<Longrightarrow> headers_clean env a hs ids \<Longrightarrow> headers_clean env a (set_header n v hs) ids"
  unfolding headers_clean_def by (blast dest: set_header_mem)

lemma plain_header:
  "\<not> installation_name n \<Longrightarrow> identity_kind n = None \<Longrightarrow> n \<noteq> turn_metadata_name \<Longrightarrow> header_clean env a n v ids"
  by (simp add: header_clean_def identity_ok_other)

lemma put_header_yields:
  "mapping.yields env (\<lambda>ids. header_clean env a n v ids \<and> headers_clean env a hs ids) (put_header env n v m hs)
     (headers_clean env a)"
  unfolding put_header_def act_then_def
  by (rule mapping.yields_skip [OF refuse_skip])
    (auto intro: mapping.stable_conj stable_header stable_headers headers_clean_set mapping.yields_return)

lemma insert_missing_yields:
  "mapping.yields env (\<lambda>ids. header_clean env a n v ids \<and> headers_clean env a hs ids) (insert_missing_header env n v hs)
     (headers_clean env a)"
  unfolding insert_missing_header_def by (auto intro: put_header_yields mapping.yields_return)

lemma plain_names:
  "\<forall>n\<in>{''authorization'', ''chatgpt-account-id'', ''originator'', ''user-agent'', ''content-type'', ''accept'', ''version'',
      ''openai-beta'', ''request_kind'', ''compaction''}.
     \<not> installation_name n \<and> identity_kind n = None \<and> n \<noteq> turn_metadata_name"
  by code_simp

lemma plain_name_clean:
  "n \<in> {''authorization'', ''chatgpt-account-id'', ''originator'', ''user-agent'', ''content-type'', ''accept'', ''version'',
      ''openai-beta'', ''request_kind'', ''compaction''} \<Longrightarrow> header_clean env a n v ids"
  by (rule plain_header) (drule bspec [OF plain_names], elim conjE, assumption)+

lemma fold_headers_clean:
  "fold_res (\<lambda>(k, v) hs. if p v then Inr (set_header k v hs) else Inl e) kvs hs = Inr hs'
     \<Longrightarrow> headers_clean env a hs ids \<Longrightarrow> \<forall>kv\<in>set kvs. header_clean env a (fst kv) (snd kv) ids
     \<Longrightarrow> headers_clean env a hs' ids"
proof (induction kvs arbitrary: hs)
  case (Cons kv kvs)
  obtain k v where kv: "kv = (k, v)" by (cases kv)
  with Cons.prems(1) have "fold_res (\<lambda>(k, v) hs. if p v then Inr (set_header k v hs) else Inl e) kvs (set_header k v hs) = Inr hs'"
    by (simp split: if_splits)
  from Cons.IH [OF this] Cons.prems(2,3) kv show ?case by (simp add: headers_clean_set)
qed simp

lemma auth_headers_clean:
  assumes "auth_headers env a c = Inr hs"
  shows "headers_clean env a hs ids"
  using assms unfolding auth_headers_def
  by (rule fold_headers_clean) (simp_all add: headers_clean_def plain_name_clean)

lemma canonical_clean:
  "n \<noteq> turn_metadata_name \<Longrightarrow> identity_ok env a ids n v \<Longrightarrow> header_clean env a (canonical_header n) v ids"
proof -
  assume n: "n \<noteq> turn_metadata_name" and ok: "identity_ok env a ids n v"
  show ?thesis
  proof (cases "n \<in> {''session_id'', ''thread_id'', ''conversation_id'', ''conversation-id''}")
    case True
    have table: "\<forall>n\<in>{''session_id'', ''thread_id'', ''conversation_id'', ''conversation-id''}.
        identity_kind n = Some ''thread'' \<and> identity_kind (canonical_header n) = Some ''thread''
        \<and> canonical_header n \<noteq> turn_metadata_name \<and> \<not> installation_name (canonical_header n)"
      by code_simp
    note row = bspec [OF table True]
    then have "identity_kind n = Some ''thread''" by blast
    with ok True have "mapped ids ''thread'' v" by (auto simp: identity_ok_def name_kind_def)
    with row show ?thesis by (auto simp: header_clean_def identity_ok_def name_kind_def)
  next
    case False
    then have "canonical_header n = n" by (simp add: canonical_header_def)
    with n ok show ?thesis by (simp add: header_clean_def)
  qed
qed

lemma normalized_text_yields:
  "mapping.yields env P (normalized_text env a s) (\<lambda>t. header_clean env a turn_metadata_name t)"
  unfolding normalized_text_def nested_value_def
  by (rule mapping.yields_pre [where P = "\<lambda>_. True"], rule mapping.yields_skip [OF checked_skip mapping.stable_const],
      rule mapping.yields_bind [OF normalized_metadata_yields mapping.stable_const], rule mapping.yields_return)
    (auto simp: header_clean_def)

lemma project_header_yields:
  "mapping.yields env (headers_clean env a hs) (project_header env a r nv hs) (headers_clean env a)"
proof -
  obtain n v where nv: "nv = (n, v)" by (cases nv)
  have mapped: "mapping.yields env (headers_clean env a hs)
      (if n = turn_metadata_name then normalized_text env a v else mapped_identity env a n v)
      (\<lambda>t. header_clean env a (canonical_header n) t)"
  proof (cases "n = turn_metadata_name")
    case True
    have "canonical_header turn_metadata_name = turn_metadata_name" by code_simp
    with True normalized_text_yields show ?thesis by simp
  next
    case False
    then show ?thesis by (auto intro!: mapping.yields_post [OF mapped_identity_yields] canonical_clean)
  qed
  show ?thesis
    unfolding project_header_def nv Let_def prod.case act_then_def
    by (rule mapping.yields_skip [OF refuse_skip stable_headers], rule mapping.yields_if, rule mapping.yields_return,
        assumption, rule mapping.yields_bind [OF mapped stable_headers], rule mapping.yields_if,
        rule mapping.yields_return, erule conjunct1, rule mapping.yields_pre [OF put_header_yields], blast)
qed

lemma thread_clean:
  "n \<in> {''session-id'', ''thread-id'', ''x-client-request-id''} \<Longrightarrow> mapped ids ''thread'' u \<Longrightarrow> header_clean env a n u ids"
proof -
  have table: "\<forall>n\<in>{''session-id'', ''thread-id'', ''x-client-request-id''}.
      name_kind n ''thread'' \<and> n \<noteq> turn_metadata_name \<and> \<not> installation_name n" by code_simp
  show "n \<in> {''session-id'', ''thread-id'', ''x-client-request-id''} \<Longrightarrow> mapped ids ''thread'' u \<Longrightarrow> header_clean env a n u ids"
    by (drule bspec [OF table]) (auto simp: header_clean_def identity_ok_def)
qed

lemma thread_header_yields:
  "n \<in> {''session-id'', ''thread-id'', ''x-client-request-id''} \<Longrightarrow>
     mapping.yields env (\<lambda>ids. mapped ids ''thread'' u \<and> headers_clean env a hs ids) (insert_missing_header env n u hs)
       (headers_clean env a)"
  by (rule mapping.yields_pre [OF insert_missing_yields]) (blast intro: thread_clean)

lemma stable_mapped: "mapping.stable env (\<lambda>ids. mapped ids kind u)"
  by (rule mapping.stableI) (rule mapped_grow)

lemmas stable_facts = mapping.stable_conj mapping.stable_const stable_mapped stable_headers stable_members

lemma session_headers_yields:
  "mapping.yields env (headers_clean env a hs) (session_headers env r hs) (headers_clean env a)"
proof (cases "gq_stateless r")
  case True
  then show ?thesis by (simp add: session_headers_def mapping.yields_return)
next
  case False
  show ?thesis
    unfolding session_headers_def if_not_P [OF False]
    by (rule mapping.yields_bind [where R = "\<lambda>u ids. mapped ids ''thread'' u", OF out_id_yields stable_headers],
        rule mapping.yields_bind [where R = "\<lambda>u ids. mapped ids ''thread'' u", OF out_id_yields],
        (intro stable_facts)[1],
        rule mapping.yields_bind [where R = "headers_clean env a", OF mapping.yields_pre [OF thread_header_yields]],
        simp, blast, (intro stable_facts)[1],
        rule mapping.yields_bind [where R = "headers_clean env a", OF mapping.yields_pre [OF thread_header_yields]],
        simp, blast, (intro stable_facts)[1], rule mapping.yields_pre [OF thread_header_yields], simp, blast)
qed

lemma turn_identity_yields: "mapping.yields env P (turn_identity env r) (members_clean env a)"
proof (cases "gq_stateless r")
  case True
  then show ?thesis by (simp add: turn_identity_def mapping.yields_return members_clean_simps)
next
  case False
  have table: "\<forall>n\<in>{''session_id'', ''thread_id''}. identity_kind n = Some ''thread'' \<and> n \<noteq> turn_metadata_name
      \<and> \<not> installation_name n" by code_simp
  have clean: "member_clean env a n (JStr u) ids" if "n \<in> {''session_id'', ''thread_id''}" "mapped ids ''thread'' u" for n u ids
    using bspec [OF table that(1)] that(2)
    by (auto simp: member_clean_def clean_text_def identity_ok_def name_kind_def)
  show ?thesis
    unfolding turn_identity_def if_not_P [OF False]
    by (rule mapping.yields_pre [where P = "\<lambda>_. True"],
        rule mapping.yields_bind [where R = "\<lambda>u ids. mapped ids ''thread'' u", OF out_id_yields mapping.stable_const],
        rule mapping.yields_bind [where R = "\<lambda>u ids. mapped ids ''thread'' u", OF out_id_yields],
        (intro stable_facts)[1], rule mapping.yields_return)
      (auto simp: members_clean_simps intro: clean)
qed

lemma mapped_member:
  "name \<noteq> turn_metadata_name \<Longrightarrow> identity_ok env a ids name u \<Longrightarrow> member_clean env a name (JStr u) ids"
  by (simp add: member_clean_def clean_text_def)

definition both_clean :: "prep_env \<Rightarrow> account \<Rightarrow> header_list \<times> (string, json) hmap \<Rightarrow> identity_map \<Rightarrow> bool" where
  "both_clean env a ht ids \<longleftrightarrow> headers_clean env a (fst ht) ids \<and> members_clean env a (snd ht) ids"

lemma stable_both: "mapping.stable env (both_clean env a ht)"
  unfolding both_clean_def by (intro stable_facts)

text \<open>A field's own header is of the same kind as the field.\<close>

lemma field_header:
  assumes "(name, Some h) \<in> set projected_fields" and "identity_ok env a ids name u"
  shows "header_clean env a h u ids"
proof -
  have table: "\<forall>(name, header)\<in>set projected_fields. case header of None \<Rightarrow> True
      | Some h \<Rightarrow> identity_kind h = identity_kind name \<and> installation_name h = installation_name name
          \<and> h \<noteq> turn_metadata_name \<and> name \<noteq> ''x-client-request-id''" by code_simp
  from bspec [OF table assms(1)] assms(2) show ?thesis
    by (auto simp: header_clean_def identity_ok_def name_kind_def)
qed

lemma field_plain: "(name, header) \<in> set projected_fields \<Longrightarrow> name \<noteq> turn_metadata_name"
proof -
  have "\<forall>(name, header)\<in>set projected_fields. name \<noteq> turn_metadata_name" by code_simp
  then show "(name, header) \<in> set projected_fields \<Longrightarrow> name \<noteq> turn_metadata_name" by blast
qed

lemma project_field_yields:
  assumes "fh \<in> set projected_fields"
  shows "mapping.yields env (both_clean env a ht) (project_field env a r sources fh ht) (both_clean env a)"
proof -
  obtain name header hs turn where fh: "fh = (name, header)" and ht: "ht = (hs, turn)" by (cases fh; cases ht)
  have step: "mapping.yields env (\<lambda>ids. both_clean env a (hs, turn) ids \<and> identity_ok env a ids name u)
      (case header of None \<Rightarrow> act_return hs | Some h \<Rightarrow> insert_missing_header env h u hs) (headers_clean env a)" for u
  proof (cases header)
    case None
    then show ?thesis by (auto simp: both_clean_def intro: mapping.yields_return)
  next
    case (Some h)
    with assms fh show ?thesis
      by (auto simp: both_clean_def intro!: mapping.yields_pre [OF insert_missing_yields] field_header)
  qed
  have "mapping.yields env (both_clean env a (hs, turn))
      (act_bind (mapped_identity env a name v) (\<lambda>u.
         act_bind (case header of None \<Rightarrow> act_return hs | Some h \<Rightarrow> insert_missing_header env h u hs) (\<lambda>h1.
           act_return (h1, hput name (JStr u) turn)))) (both_clean env a)" for v
    by (rule mapping.yields_bind [where R = "\<lambda>u ids. identity_ok env a ids name u", OF mapped_identity_yields stable_both],
        rule mapping.yields_bind [where R = "headers_clean env a", OF step], intro mapping.stable_conj stable_both,
        rule mapping.stableI, erule (1) identity_ok_grow, rule mapping.yields_return)
      (use assms fh in \<open>auto simp: both_clean_def intro: members_clean_put mapped_member dest: field_plain\<close>)
  then show ?thesis
    unfolding project_field_def fh ht Let_def prod.case
    by (intro mapping.yields_skip [OF checked_skip stable_both])
      (auto intro: mapping.yields_return split: option.split)
qed

subsection \<open>The turn metadata header\<close>

text \<open>
  What is asked of reading and printing JSON: the text members read back from a printed
  object are the object's.
\<close>

definition text_faithful :: "prep_env \<Rightarrow> bool" where
  "text_faithful env \<longleftrightarrow>
     (\<forall>m m' k s. pr_parse env (pr_print env (JObj m)) = Some (JObj m') \<longrightarrow> (k, JStr s) \<in> set m' \<longrightarrow> (k, JStr s) \<in> set m)"

lemma add_missing_clean:
  "member_clean env a k v ids \<Longrightarrow> members_clean env a m ids \<Longrightarrow> members_clean env a (add_missing k v m) ids"
  unfolding add_missing_def by (simp add: members_clean_put split: option.split)

lemma merge_turn_clean:
  assumes "member_clean env a (fst kv) (snd kv) ids" "members_clean env a m ids"
  shows "members_clean env a (merge_turn kv m) ids"
proof -
  obtain k v where kv: "kv = (k, v)" by (cases kv)
  have "members_clean env a (hput k (JObj x) m) ids" for x
    using assms(2) by (rule members_clean_put [rotated]) (simp add: member_clean_def)
  with assms add_missing_clean [of env a k v ids m] show ?thesis
    unfolding merge_turn_def kv by (auto split: option.split json.split bool.split)
qed

lemma merge_turns_clean:
  "members_clean env a turn ids \<Longrightarrow> members_clean env a m ids \<Longrightarrow> members_clean env a (fold merge_turn turn m) ids"
proof (induction turn arbitrary: m)
  case (Cons kv turn)
  then have "member_clean env a (fst kv) (snd kv) ids" "members_clean env a turn ids"
    by (cases kv; simp add: members_clean_simps)+
  with Cons show ?case by (simp add: merge_turn_clean)
qed simp

lemma put_turns_clean:
  "members_clean env a ex ids \<Longrightarrow> members_clean env a m ids \<Longrightarrow> members_clean env a (fold (\<lambda>(k, v). hput k v) ex m) ids"
  by (induction ex arbitrary: m) (auto simp: members_clean_simps members_clean_put)

lemma turn_metadata_clean: "turn_metadata sources = Inr ex \<Longrightarrow> members_clean env a ex ids"
proof -
  assume "turn_metadata sources = Inr ex"
  then obtain kind compaction where ex: "ex = (case kind of None \<Rightarrow> [] | Some k \<Rightarrow> [(''request_kind'', JStr k)])
      @ (if compaction = [] then [] else [(''compaction'', JObj compaction)])"
    unfolding turn_metadata_def and_then_Inr_iff by blast
  have names: "k \<in> {''request_kind'', ''compaction''}" if "(k, v) \<in> set ex" for k v
    using that unfolding ex by (cases kind; cases "compaction = []") auto
  have "member_clean env a k v ids" if "(k, v) \<in> set ex" for k v
  proof -
    from names [OF that] have k: "k \<in> {''authorization'', ''chatgpt-account-id'', ''originator'', ''user-agent'',
        ''content-type'', ''accept'', ''version'', ''openai-beta'', ''request_kind'', ''compaction''}" by blast
    from bspec [OF plain_names k] show ?thesis
      by (simp add: member_clean_def clean_text_def identity_ok_other)
  qed
  then show ?thesis unfolding members_clean_def by blast
qed

lemma turn_text_clean:
  "members_clean env a m ids \<Longrightarrow> header_clean env a turn_metadata_name (pr_print env (JObj m)) ids"
  by (auto simp: header_clean_def clean_members)

lemma turn_header_yields:
  assumes faithful: "text_faithful env"
  shows "mapping.yields env (\<lambda>ids. members_clean env a turn ids \<and> headers_clean env a hs ids) (turn_header env turn hs)
    (headers_clean env a)"
proof (cases "turn = []")
  case True
  then show ?thesis by (auto simp: turn_header_def intro: mapping.yields_return)
next
  case turn: False
  show ?thesis
  proof (cases "map_of hs turn_metadata_name")
    case None
    with turn show ?thesis
      by (auto simp: turn_header_def intro!: mapping.yields_pre [OF insert_missing_yields] turn_text_clean)
  next
    case (Some earlier)
    let ?P = "\<lambda>ids. members_clean env a turn ids \<and> headers_clean env a hs ids"
    have old: "members_clean env a m' ids"
      if clean: "?P ids" and parsed: "pr_parse env earlier = Some (JObj m')" for ids m'
    proof -
      from clean Some have "header_clean env a turn_metadata_name earlier ids"
        unfolding headers_clean_def by (blast dest: map_of_SomeD)
      then obtain w where w: "earlier = pr_print env w" and wc: "clean_metadata env a ids w"
        by (auto simp: header_clean_def)
      from wc obtain m where m: "w = JObj m" by (auto elim: clean_metadata.cases)
      with wc have "members_clean env a m ids" by (simp add: clean_members)
      with faithful parsed w m show ?thesis
        unfolding members_clean_def member_clean_def text_faithful_def by blast
    qed
    have found: "mapping.yields env P (nested_value env (JStr earlier)) (\<lambda>v _. pr_parse env earlier = Some v)" for P
      unfolding nested_value_def by (rule checked_yields) (simp add: ok_or_def split: option.splits)
    have "mapping.yields env (\<lambda>ids. ?P ids \<and> pr_parse env earlier = Some v)
        (case v of JObj m \<Rightarrow> put_header env turn_metadata_name (pr_print env (JObj (fold merge_turn turn m)))
            ''Invalid turn metadata'' hs
          | _ \<Rightarrow> act_fail (Refused (err_invalid ''Invalid turn metadata''))) (headers_clean env a)" for v
    proof (cases v)
      case (JObj m)
      show ?thesis
        unfolding JObj json.case
        by (rule mapping.yields_pre [OF put_header_yields])
          (use old [of _ m] in \<open>auto intro: turn_text_clean merge_turns_clean\<close>)
    qed (simp_all add: mapping.yields_fail)
    with turn Some show ?thesis
      unfolding turn_header_def
      by (auto intro!: mapping.yields_bind [where R = "\<lambda>v _. pr_parse env earlier = Some v", OF found]
          mapping.stable_conj stable_members stable_headers)
  qed
qed

subsection \<open>Everything sent\<close>

definition metadata_clean :: "prep_env \<Rightarrow> account \<Rightarrow> json option \<Rightarrow> identity_map \<Rightarrow> bool" where
  "metadata_clean env a found ids \<longleftrightarrow> (\<forall>v. found = Some v \<longrightarrow> clean_metadata env a ids v)"

lemma stable_metadata: "mapping.stable env (metadata_clean env a found)"
  unfolding metadata_clean_def by (rule mapping.stableI) (blast intro: clean_grow)

lemmas stables = stable_facts stable_metadata stable_both

lemma client_metadata_yields: "mapping.yields env P (client_metadata env a r) (metadata_clean env a)"
proof -
  have "mapping.yields env (\<lambda>_. True) (client_metadata env a r) (metadata_clean env a)"
    unfolding client_metadata_def
    by (rule mapping.yields_if, rule mapping.yields_bind [OF normalized_metadata_yields mapping.stable_const])
      (auto intro: mapping.yields_return simp: metadata_clean_def)
  then show ?thesis by (rule mapping.yields_pre) simp
qed

lemma projected_headers_yields:
  "mapping.yields env (headers_clean env a hs) (act_fold (project_header env a r) ins hs) (headers_clean env a)"
  by (rule mapping.yields_pre [OF mapping.yields_fold [where P = "\<lambda>_. True" and I = "headers_clean env a"]])
    (auto intro: mapping.yields_pre [OF project_header_yields] mapping.stable_const stable_headers)

lemma projected_fields_yields:
  "mapping.yields env (both_clean env a ht) (act_fold (project_field env a r sources) projected_fields ht) (both_clean env a)"
  by (rule mapping.yields_pre [OF mapping.yields_fold [where P = "\<lambda>_. True" and I = "both_clean env a"]])
    (auto intro: mapping.yields_pre [OF project_field_yields] mapping.stable_const stable_both)

lemma first_headers_clean:
  "auth_headers env a c = Inr h0 \<Longrightarrow>
     headers_clean env a (set_header ''accept'' v (set_header ''content-type'' w h0)) ids"
  by (intro headers_clean_set plain_name_clean auth_headers_clean) simp_all

lemma normalized_headers_yields:
  assumes "text_faithful env"
  shows "mapping.yields env (\<lambda>_. True) (normalized_headers env r a c)
    (\<lambda>hm ids. headers_clean env a (fst hm) ids \<and> metadata_clean env a (snd hm) ids)"
proof -
  have tail: "mapping.yields env (\<lambda>ids. headers_clean env a hs ids \<and> metadata_clean env a found ids)
      (act_bind (turn_identity env r) (\<lambda>turn.
       act_bind (act_fold (project_field env a r sources) projected_fields (hs, turn)) (\<lambda>(h3, turn1).
       act_bind (checked (turn_metadata sources)) (\<lambda>extra.
       act_bind (turn_header env (fold (\<lambda>(k, v). hput k v) extra turn1) h3) (\<lambda>h4. act_return (h4, found))))))
      (\<lambda>hm ids. headers_clean env a (fst hm) ids \<and> metadata_clean env a (snd hm) ids)" for hs found sources
    apply (rule mapping.yields_bind [where R = "members_clean env a", OF turn_identity_yields])
     apply (intro stables)
    apply (rule mapping.yields_bind [where R = "both_clean env a", OF mapping.yields_pre [OF projected_fields_yields]])
      apply (simp add: both_clean_def)
     apply (intro stables)
    apply (rule mapping.yields_case_prod)
    apply (rule mapping.yields_bind [where R = "\<lambda>ex _. \<forall>ids. members_clean env a ex ids"])
      apply (rule checked_yields, blast intro: turn_metadata_clean)
     apply (intro stables)
    apply (rule mapping.yields_bind [where R = "headers_clean env a",
          OF mapping.yields_pre [OF turn_header_yields [OF assms]]])
      apply (simp add: both_clean_def put_turns_clean)
     apply (intro stables)
    apply (rule mapping.yields_return)
    apply simp
    done
  show ?thesis
    unfolding normalized_headers_def
    apply (rule mapping.yields_bind [where R = "\<lambda>h0 _. auth_headers env a c = Inr h0"])
      apply (rule checked_yields, assumption)
     apply (rule mapping.stable_const)
    apply (rule mapping.yields_bind [where R = "headers_clean env a", OF mapping.yields_pre [OF projected_headers_yields]])
      apply (blast intro: first_headers_clean)
     apply (intro stables)
    apply (rule mapping.yields_bind [where R = "metadata_clean env a", OF client_metadata_yields], intro stables)
    apply (rule mapping.yields_bind [where R = "headers_clean env a", OF mapping.yields_pre [OF session_headers_yields]],
        blast, intro stables)
    apply (rule mapping.yields_skip [OF checked_skip], intro stables)
    apply (rule mapping.yields_pre [OF tail], blast)
    done
qed

end
