(* ===== verification/Codex_Sent.thy ===== *)
theory Codex_Sent
  imports Codex_Upstream
begin

section \<open>The prepared request\<close>

text \<open>
  The properties of \<open>prepare\<close> and of reading a request: which identifiers reach the upstream,
  preparing ends, the body is the one the gateway decides on, the trace is bounded and
  a parsed request has the form the gateway relies on.
\<close>

subsection \<open>The body\<close>

lemma map_filter_get:
  "map_of (List.map_filter (\<lambda>k. map_option (Pair k) (f k)) ks) k = (if k \<in> set ks then f k else None)"
  by (induction ks) (auto simp: List.map_filter_simps split: option.split)

lemma copied_body_get: "hget (copied_body source) k = (if k \<in> set copied_members then jget source k else None)"
  unfolding copied_body_def by (rule map_filter_get)

lemma declaration_get: "k \<notin> {''tools'', ''tool_choice''} \<Longrightarrow> hget (ensure_declaration b) k = hget b k"
  by (auto simp: ensure_declaration_def Let_def split: option.split json.split)

lemma add_missing_get: "hget (add_missing k v m) k' = (if k' = k \<and> hget m k = None then Some v else hget m k')"
  by (auto simp: add_missing_def split: option.split)

definition fixed_members :: "string list" where
  "fixed_members = [''instructions'', ''tools'', ''tool_choice'', ''model'', ''store'', ''stream'', ''service_tier'']"

lemma fixed_body_other: "k \<notin> set fixed_members \<Longrightarrow> hget (fixed_body r m b) k = hget b k"
  by (simp add: fixed_body_def Let_def fixed_members_def declaration_get add_missing_get split: option.split)

lemma fixed_body_get:
  "hget (fixed_body r m b) ''model'' = Some (JStr (mr_model (ms_upstream m)))"
  "gq_kind r \<noteq> Compact \<Longrightarrow> hget (fixed_body r m b) ''store'' = Some (JBool False)"
  "gq_kind r \<noteq> Compact \<Longrightarrow> hget (fixed_body r m b) ''stream'' = Some (JBool True)"
  "gq_kind r = Compact \<Longrightarrow> hget (fixed_body r m b) ''store'' = hget b ''store''"
  "gq_kind r = Compact \<Longrightarrow> hget (fixed_body r m b) ''stream'' = hget b ''stream''"
  "hget (fixed_body r m b) ''instructions'' =
     Some (case hget b ''instructions'' of None \<Rightarrow> JStr [] | Some v \<Rightarrow> v)"
  by (simp_all add: fixed_body_def Let_def declaration_get add_missing_get split: option.split)

lemma fixed_body_tier:
  "hget (fixed_body r m b) ''service_tier'' =
     (case filter_option (\<lambda>t. t \<noteq> ''auto'') (gq_requested_tier r) of
        None \<Rightarrow> hget b ''service_tier'' | Some t \<Rightarrow> Some (JStr t))"
  by (simp add: fixed_body_def Let_def declaration_get add_missing_get split: option.split)

lemma input_body_run:
  assumes "input_body body ids = (Inr b, ids')"
  shows "ids' = ids
    \<and> (\<forall>k. k \<noteq> ''input'' \<longrightarrow> hget b k = hget body k)
    \<and> (case hget body ''input'' of
         None \<Rightarrow> hget b ''input'' = None
       | Some v \<Rightarrow> \<exists>w. rewrite_input ids (message_input v) = Inr w \<and> hget b ''input'' = Some w)"
  using assms
  by (auto simp: input_body_def act_bind_def act_read_def checked_def act_return_def act_fail_def
      split: option.splits sum.splits)

lemma cache_partition_body:
  assumes "cache_partition env r a hs body ids = (Inr (hs', body'), ids')"
  shows "k \<noteq> ''prompt_cache_key'' \<Longrightarrow> hget body' k = hget body k"
  using assms by (auto simp: cache_partition_def bind_Inr act_return_def split: option.splits)

lemma prepare_parts_body:
  assumes "prepare_parts env r m a c ids = (Inr (hs, body), ids')"
  obtains b0 b where "body = JObj b"
    and "input_body (copied_body (doc_value (gq_document r))) ids = (Inr b0, ids)"
    and "\<And>k. k \<notin> {''client_metadata'', ''prompt_cache_key''} \<Longrightarrow> hget b k = hget (fixed_body r m b0) k"
proof -
  from assms obtain b0 h where input: "input_body (copied_body (doc_value (gq_document r))) ids = (Inr b0, h)"
    and rest: "act_bind (normalized_headers env r a c) (\<lambda>(h0, meta).
      act_bind (cache_partition env r a
         (if gq_kind r = Compact then set_header ''accept'' ''application/json'' h0 else h0)
         (case meta of None \<Rightarrow> fixed_body r m b0 | Some v \<Rightarrow> hput ''client_metadata'' v (fixed_body r m b0)))
       (\<lambda>(hs, body). act_return (hs, JObj body))) h = (Inr (hs, body), ids')"
    unfolding prepare_parts_def bind_Inr by blast
  from rest obtain h0 meta g hs1 b where cache: "cache_partition env r a h0
         (case meta of None \<Rightarrow> fixed_body r m b0 | Some v \<Rightarrow> hput ''client_metadata'' v (fixed_body r m b0)) g
       = (Inr (hs1, b), ids')" and body: "body = JObj b"
    by (auto simp: bind_Inr act_return_def)
  from cache_partition_body [OF cache] have "hget b k = hget (fixed_body r m b0) k"
    if "k \<notin> {''client_metadata'', ''prompt_cache_key''}" for k
    using that by (simp split: option.splits)
  with body input input_body_run [OF input] show thesis by (intro that [of b b0]) simp_all
qed

text \<open>
  C13. The body sent upstream is an object with the model's upstream name, which never asks the
  upstream to store the response and always streams (a compaction says nothing of either); the
  tier is the client's unless automatic; there are always instructions; of the client's own
  members only the listed ones are passed on, unchanged but for the input and the tools; and
  the input is that of the client with its references restored, as messages.
\<close>

theorem body_controlled:
  assumes run: "prepare_parts env r m a c ids = (Inr (hs, body), ids')"
    and source: "source = doc_value (gq_document r)"
  shows "\<exists>b. body = JObj b
    \<and> hget b ''model'' = Some (JStr (mr_model (ms_upstream m)))
    \<and> hget b ''store'' = (if gq_kind r = Compact then None else Some (JBool False))
    \<and> hget b ''stream'' = (if gq_kind r = Compact then None else Some (JBool True))
    \<and> hget b ''service_tier'' = map_option JStr (filter_option (\<lambda>t. t \<noteq> ''auto'') (gq_requested_tier r))
    \<and> hget b ''instructions'' = Some (case jget source ''instructions'' of None \<Rightarrow> JStr [] | Some v \<Rightarrow> v)
    \<and> (\<forall>k\<in>set copied_members - {''input'', ''instructions'', ''tools'', ''tool_choice''}. hget b k = jget source k)
    \<and> (\<forall>k. hget b k \<noteq> None \<longrightarrow> k \<in> set copied_members \<union>
         {''model'', ''store'', ''stream'', ''service_tier'', ''client_metadata'', ''prompt_cache_key''})
    \<and> (case jget source ''input'' of
         None \<Rightarrow> hget b ''input'' = None
       | Some v \<Rightarrow> \<exists>w. rewrite_input ids (message_input v) = Inr w \<and> hget b ''input'' = Some w)"
proof -
  obtain b0 b where body: "body = JObj b"
    and input: "input_body (copied_body source) ids = (Inr b0, ids)"
    and get: "\<And>k. k \<notin> {''client_metadata'', ''prompt_cache_key''} \<Longrightarrow> hget b k = hget (fixed_body r m b0) k"
    by (rule prepare_parts_body [OF run, folded source]) (rule that)
  note run_input = input_body_run [OF input]
  have own: "hget b0 k = (if k \<in> set copied_members then jget source k else None)" if "k \<noteq> ''input''" for k
    using run_input that by (simp add: copied_body_get)
  let ?copied = "set copied_members - {''input'', ''instructions'', ''tools'', ''tool_choice''}"
  let ?all = "set copied_members \<union>
         {''model'', ''store'', ''stream'', ''service_tier'', ''client_metadata'', ''prompt_cache_key''}"
  have others: "\<forall>k\<in>{''model'', ''store'', ''stream'', ''service_tier''}. k \<notin> set copied_members \<and> k \<noteq> ''input''"
    and ins: "''input'' \<in> set copied_members" "''instructions'' \<in> set copied_members" "''input'' \<notin> set fixed_members"
    and kept: "\<forall>k\<in>?copied. k \<notin> set fixed_members \<and> k \<notin> {''client_metadata'', ''prompt_cache_key''} \<and> k \<noteq> ''input''"
    and covered: "\<forall>k\<in>set fixed_members \<union> {''client_metadata'', ''prompt_cache_key'', ''input''}. k \<in> ?all"
    by code_simp+
  have unsent: "hget b0 k = None" if "k \<in> {''model'', ''store'', ''stream'', ''service_tier''}" for k
    using bspec [OF others that] by (simp add: own)
  have model: "hget b ''model'' = Some (JStr (mr_model (ms_upstream m)))"
    and store: "hget b ''store'' = (if gq_kind r = Compact then None else Some (JBool False))"
    and stream: "hget b ''stream'' = (if gq_kind r = Compact then None else Some (JBool True))"
    and tier: "hget b ''service_tier'' = map_option JStr (filter_option (\<lambda>t. t \<noteq> ''auto'') (gq_requested_tier r))"
    by (simp_all add: get fixed_body_get fixed_body_tier unsent split: option.split)
  have instructions: "hget b ''instructions'' = Some (case jget source ''instructions'' of None \<Rightarrow> JStr [] | Some v \<Rightarrow> v)"
    by (simp add: get fixed_body_get own ins)
  have plain: "hget b k = hget b0 k" if "k \<notin> set fixed_members" "k \<notin> {''client_metadata'', ''prompt_cache_key''}" for k
    using that by (simp add: get fixed_body_other)
  have copied: "hget b k = jget source k" if "k \<in> ?copied" for k
    using bspec [OF kept that] that by (simp add: plain own)
  have only: "k \<in> ?all" if k: "hget b k \<noteq> None" for k
  proof (cases "k \<in> set fixed_members \<union> {''client_metadata'', ''prompt_cache_key'', ''input''}")
    case True
    with covered show ?thesis by (rule bspec)
  next
    case False
    with k show ?thesis by (simp add: plain own split: if_splits)
  qed
  have "hget b ''input'' = hget b0 ''input''" using ins by (simp add: plain)
  with run_input ins have given: "case jget source ''input'' of
         None \<Rightarrow> hget b ''input'' = None
       | Some v \<Rightarrow> \<exists>w. rewrite_input ids (message_input v) = Inr w \<and> hget b ''input'' = Some w"
    by (simp add: copied_body_get split: option.splits)
  show ?thesis
    using body model store stream tier instructions copied only given by blast
qed

subsection \<open>Identifiers\<close>

text \<open>The key a prompt cache is partitioned by: derived from the account, the gateway key and the client's key.\<close>

definition isolated :: "prep_env \<Rightarrow> account \<Rightarrow> identity_map \<Rightarrow> string \<Rightarrow> bool" where
  "isolated env a ids v \<longleftrightarrow> (\<exists>cache. v = pr_v5_text env (cp_installation_id (acc_profile a))
     (''prompt_cache'' @ [CHR 0x00] @ pr_uuid_text env (sk_key_id (bd_session (ids_binding ids))) @ [CHR 0x00] @ cache))"

lemma stable_isolated: "mapping.stable env (\<lambda>ids. isolated env a ids v)"
  by (rule mapping.stableI) (simp add: isolated_def ids_grow_def)

lemma cache_key_yields:
  "mapping.yields env P (cache_key env r a cache)
     (\<lambda>v ids. if gq_stateless r then isolated env a ids v else isolated env a ids v \<or> mapped ids ''thread'' v)"
  unfolding cache_key_def
  by (rule mapping.yields_if)
    (auto intro!: mapping.yields_read mapping.yields_post [OF out_id_yields] simp: isolated_def)

text \<open>A header of the prepared request: clean, or the isolated cache key of a request without identity.\<close>

definition sent_clean :: "prep_env \<Rightarrow> gateway_request \<Rightarrow> account \<Rightarrow> header_list \<Rightarrow> identity_map \<Rightarrow> bool" where
  "sent_clean env r a hs ids \<longleftrightarrow> (\<forall>n v. (n, v) \<in> set hs \<longrightarrow> header_clean env a n v ids
     \<or> (gq_stateless r \<and> n \<in> {''session_id'', ''conversation_id''} \<and> isolated env a ids v))"

lemma stable_sent: "mapping.stable env (sent_clean env r a hs)"
  unfolding sent_clean_def
  by (rule mapping.stableI) (blast intro: mapping.stableD [OF stable_header] mapping.stableD [OF stable_isolated])

lemma headers_sent: "headers_clean env a hs ids \<Longrightarrow> sent_clean env r a hs ids"
  by (simp add: headers_clean_def sent_clean_def)

lemma cache_header_yields:
  assumes "gq_stateless r" "n \<in> {''session_id'', ''conversation_id''}"
  shows "mapping.yields env (\<lambda>ids. isolated env a ids v \<and> sent_clean env r a hs ids) (insert_missing_header env n v hs)
    (sent_clean env r a)"
  unfolding insert_missing_header_def put_header_def act_then_def
  by (intro mapping.yields_if mapping.yields_skip [OF refuse_skip] mapping.stable_conj stable_sent stable_isolated
      mapping.yields_return)
    (use assms in \<open>auto simp: sent_clean_def dest!: set_header_mem\<close>)

definition cache_clean :: "prep_env \<Rightarrow> account \<Rightarrow> json option \<Rightarrow> identity_map \<Rightarrow> bool" where
  "cache_clean env a found ids \<longleftrightarrow>
     (\<forall>v. found = Some v \<longrightarrow> (\<exists>u. v = JStr u \<and> (isolated env a ids u \<or> mapped ids ''thread'' u)))"

lemma cache_partition_yields:
  assumes "hget body ''prompt_cache_key'' = None"
  shows "mapping.yields env (headers_clean env a hs) (cache_partition env r a hs body)
    (\<lambda>hb ids. sent_clean env r a (fst hb) ids \<and> cache_clean env a (hget (snd hb) ''prompt_cache_key'') ids)"
proof (cases "filter_option (\<lambda>s. s \<noteq> []) (map_option str_trim (str_field (doc_value (gq_document r)) ''prompt_cache_key''))")
  case None
  with assms show ?thesis
    by (auto simp: cache_partition_def sent_clean_def headers_clean_def cache_clean_def intro!: mapping.yields_return)
next
  case (Some cache)
  let ?R = "\<lambda>v ids. if gq_stateless r then isolated env a ids v else isolated env a ids v \<or> mapped ids ''thread'' v"
  have stable_R: "mapping.stable env (?R v)" for v
    by (rule mapping.stableI)
      (auto intro: mapping.stableD [OF stable_isolated] mapped_grow split: if_splits)
  have step: "mapping.yields env (\<lambda>ids. headers_clean env a hs ids \<and> ?R v ids)
      (if gq_stateless r \<and> gq_kind r = Responses
       then act_bind (insert_missing_header env ''session_id'' v hs) (insert_missing_header env ''conversation_id'' v)
       else act_return hs) (sent_clean env r a)" for v
  proof (rule mapping.yields_if)
    assume r: "gq_stateless r \<and> gq_kind r = Responses"
    show "mapping.yields env (\<lambda>ids. headers_clean env a hs ids \<and> ?R v ids)
        (act_bind (insert_missing_header env ''session_id'' v hs) (insert_missing_header env ''conversation_id'' v))
        (sent_clean env r a)"
      by (rule mapping.yields_bind [where R = "sent_clean env r a", OF mapping.yields_pre [OF cache_header_yields]])
        (use r in \<open>auto intro!: mapping.stable_conj stable_headers stable_isolated mapping.yields_pre [OF cache_header_yields]
            intro: headers_sent\<close>)
  qed (auto intro!: mapping.yields_return headers_sent)
  show ?thesis
    unfolding cache_partition_def Some option.case
    by (rule mapping.yields_bind [where R = ?R, OF cache_key_yields stable_headers],
        rule mapping.yields_bind [where R = "sent_clean env r a", OF step], intro mapping.stable_conj stable_headers stable_R,
        rule mapping.yields_return)
      (auto simp: cache_clean_def split: if_splits)
qed

lemma copied_plain: "k \<notin> set copied_members \<Longrightarrow> k \<noteq> ''input'' \<Longrightarrow> k \<notin> set fixed_members
    \<Longrightarrow> input_body (copied_body source) ids = (Inr b, ids') \<Longrightarrow> hget (fixed_body r m b) k = None"
  using input_body_run [of "copied_body source" ids b ids'] by (simp add: fixed_body_other copied_body_get)

lemma unsent_members:
  "input_body (copied_body source) ids = (Inr b, ids') \<Longrightarrow>
     hget (fixed_body r m b) ''client_metadata'' = None \<and> hget (fixed_body r m b) ''prompt_cache_key'' = None"
proof -
  assume run: "input_body (copied_body source) ids = (Inr b, ids')"
  have "\<forall>k\<in>{''client_metadata'', ''prompt_cache_key''}. k \<notin> set copied_members \<and> k \<noteq> ''input'' \<and> k \<notin> set fixed_members"
    by code_simp
  with copied_plain [OF _ _ _ run] show ?thesis by simp
qed

text \<open>
  C12. Which identifiers reach the upstream in the headers, the metadata and the cache key of a
  request prepared for an account. Every identity header holds the account's installation or an
  identifier the session's map holds for the name's kind; the turn metadata header is the text of
  metadata of which the same holds at every level, and so is the metadata in the body; the prompt
  cache key is the hash of the gateway key, the account's installation and the client's key, or in
  the map; and a request without identity gets session headers only from such a hash. The map keeps
  what it held for the session before, and every identifier added to it is the UUID of version 5 of
  the session's namespace, the kind and the client's identifier. Identifiers of input items and calls
  are those the upstream gave and pass unchanged; they are not the subject here.
\<close>

theorem client_identities_stay:
  assumes "text_faithful env" and "prepare_parts env r m a c ids = (Inr (hs, body), ids')"
  shows "sent_clean env r a hs ids' \<and> metadata_clean env a (jget body ''client_metadata'') ids'
    \<and> cache_clean env a (jget body ''prompt_cache_key'') ids'
    \<and> ids_grow env ids ids'"
proof -
  from assms(2) obtain b0 h where input: "input_body (copied_body (doc_value (gq_document r))) ids = (Inr b0, h)"
    and rest: "act_bind (normalized_headers env r a c) (\<lambda>(h0, meta).
      act_bind (cache_partition env r a
         (if gq_kind r = Compact then set_header ''accept'' ''application/json'' h0 else h0)
         (case meta of None \<Rightarrow> fixed_body r m b0 | Some v \<Rightarrow> hput ''client_metadata'' v (fixed_body r m b0)))
       (\<lambda>(hs, body). act_return (hs, JObj body))) h = (Inr (hs, body), ids')"
    unfolding prepare_parts_def bind_Inr by blast
  let ?body = "\<lambda>meta. case meta of None \<Rightarrow> fixed_body r m b0 | Some v \<Rightarrow> hput ''client_metadata'' v (fixed_body r m b0)"
  let ?accept = "\<lambda>h0. if gq_kind r = Compact then set_header ''accept'' ''application/json'' h0 else h0"
  from rest obtain h0 meta g b where headers: "normalized_headers env r a c h = (Inr (h0, meta), g)"
    and cache: "cache_partition env r a (?accept h0) (?body meta) g = (Inr (hs, b), ids')" and body: "body = JObj b"
    unfolding bind_Inr by (auto simp: bind_Inr act_return_def)
  note clean = mapping.yields_value [OF normalized_headers_yields [OF assms(1)] TrueI headers, unfolded fst_conv snd_conv]
  have accept: "headers_clean env a (?accept h0) g"
    using clean by (simp add: headers_clean_set plain_name_clean)
  have key: "hget (?body meta) ''prompt_cache_key'' = None"
    and meta: "hget (?body meta) ''client_metadata'' = meta"
    using unsent_members [OF input] by (simp_all split: option.split)
  from mapping.yieldsD [OF cache_partition_yields [OF key] accept cache]
  have grow: "ids_grow env g ids'" and sent: "sent_clean env r a hs ids'"
    and keys: "cache_clean env a (hget b ''prompt_cache_key'') ids'"
    by simp_all
  have "hget b ''client_metadata'' = meta" using cache_partition_body [OF cache] meta by simp
  with mapping.stableD [OF stable_metadata grow] clean have "metadata_clean env a (hget b ''client_metadata'') ids'" by simp
  moreover have "ids_grow env h g" using mapping.yieldsD [OF normalized_headers_yields [OF assms(1)] TrueI headers] by simp
  moreover have "h = ids" using input_body_run [OF input] by simp
  ultimately show ?thesis using sent keys body grow by (auto intro: mapping.grows_trans)
qed

subsection \<open>Preparing ends\<close>

text \<open>What is asked of the JSON parser: a text member of an object is shorter than the text it was read from.\<close>

definition parser_shrinks :: "prep_env \<Rightarrow> bool" where
  "parser_shrinks env \<longleftrightarrow>
     (\<forall>t m k s. pr_parse env t = Some (JObj m) \<longrightarrow> (k, JStr s) \<in> set m \<longrightarrow> length s < length t)"

abbreviation ends :: "'a preparing \<Rightarrow> bool" where
  "ends m \<equiv> runs (\<lambda>_. True) m (\<lambda>_ _. True) (\<lambda>e _. e \<noteq> OutOfFuel)"

lemma checked_ends: "ends (checked r)"
  by (cases r) (auto simp: checked_def intro: runs_return runs_fail)

lemma refuse_ends: "ends (refuse_unless b m)"
  by (auto simp: refuse_unless_def intro: runs_return runs_fail)

lemma out_id_ends: "ends (out_id env kind client)"
  by (auto simp: runs_def out_id_def split: sum.splits)

lemma mapped_identity_ends: "ends (mapped_identity env a name v)"
  by (auto simp: mapped_identity_def intro: runs_return out_id_ends split: option.split)

lemma bind_ends: "ends m \<Longrightarrow> (\<And>x. ends (f x)) \<Longrightarrow> ends (act_bind m f)"
  by (rule runs_bind)

lemma then_ends: "ends m \<Longrightarrow> ends n \<Longrightarrow> ends (act_then m n)"
  by (rule runs_then)

lemma return_ends: "ends (act_return x)"
  by (rule runs_return) simp

lemma read_ends: "ends (act_read f)"
  by (rule runs_read) simp

lemma refused_ends: "ends (act_fail (Refused e))"
  by (rule runs_fail) simp

lemma fold_ends: "(\<And>x acc. ends (f x acc)) \<Longrightarrow> ends (act_fold f xs acc)"
  by (induction xs arbitrary: acc) (auto intro: return_ends bind_ends)

lemmas ends_intros = bind_ends then_ends return_ends read_ends refused_ends fold_ends
  checked_ends refuse_ends out_id_ends mapped_identity_ends

lemma nested_runs:
  "runs (\<lambda>_. True) (nested_value env item) (\<lambda>v _. \<exists>s. item = JStr s \<and> pr_parse env s = Some v) (\<lambda>e _. e \<noteq> OutOfFuel)"
proof (cases "Option.bind (as_str item) (pr_parse env)")
  case None
  then show ?thesis by (simp add: nested_value_def ok_or_def checked_def runs_fail)
next
  case (Some v)
  then have "\<exists>s. item = JStr s \<and> pr_parse env s = Some v" by (auto simp: bind_eq_Some_conv)
  with Some show ?thesis by (simp add: nested_value_def ok_or_def checked_def runs_return)
qed

lemma member_ends:
  assumes "\<And>s v. name = turn_metadata_name \<Longrightarrow> item = JStr s \<Longrightarrow> pr_parse env s = Some v \<Longrightarrow> ends (nested v)"
  shows "ends (normalized_member env a nested name item)"
proof (cases "name = turn_metadata_name")
  case True
  show ?thesis
    unfolding normalized_member_def if_P [OF True]
  proof (rule runs_bind [OF nested_runs])
    fix x
    let ?found = "\<exists>s. item = JStr s \<and> pr_parse env s = Some x"
    let ?rest = "act_bind (nested x) (\<lambda>w. act_return (JStr (pr_print env w)))"
    show "runs (\<lambda>_. ?found) ?rest (\<lambda>_ _. True) (\<lambda>e _. e \<noteq> OutOfFuel)"
    proof (cases ?found)
      case found: True
      then have "ends (nested x)" using assms True by blast
      then have "ends ?rest" by (intro bind_ends return_ends)
      then show ?thesis by (rule runs_conseq) simp_all
    qed (auto simp add: runs_def)
  qed
next
  case False
  then show ?thesis
    by (auto simp: normalized_member_def intro: ends_intros split: option.split)
qed

lemma members_end: "(\<And>k v. (k, v) \<in> set ms \<Longrightarrow> ends (f k v)) \<Longrightarrow> ends (normalized_members f ms)"
  by (induction ms) (auto intro!: bind_ends return_ends)

lemma normalize_ends:
  assumes "parser_shrinks env"
    and "\<And>m k s. v = JObj m \<Longrightarrow> (k, JStr s) \<in> set m \<Longrightarrow> length s + 2 \<le> n" and "0 < n"
  shows "ends (normalize_metadata n env a v)"
  using assms(2,3)
proof (induction n arbitrary: v)
  case (Suc n)
  show ?case
  proof (cases v)
    case (JObj m)
    have "ends (normalized_member env a (normalize_metadata n env a) k w)" if w: "(k, w) \<in> set m" for k w
    proof (rule member_ends)
      fix s x assume s: "w = JStr s" "pr_parse env s = Some x"
      with Suc.prems(1) [OF JObj] w have n: "length s + 2 \<le> Suc n" by blast
      show "ends (normalize_metadata n env a x)"
      proof (rule Suc.IH)
        fix m' k' s' assume "x = JObj m'" "(k', JStr s') \<in> set m'"
        with assms(1) s have "length s' < length s" by (simp add: parser_shrinks_def)
        with n show "length s' + 2 \<le> n" by simp
      qed (use n in simp)
    qed
    then show ?thesis
      by (auto simp: JObj intro!: bind_ends members_end return_ends)
  qed (simp_all add: refused_ends)
qed simp

lemma normalized_metadata_ends: "parser_shrinks env \<Longrightarrow> ends (normalized_metadata env a v)"
  unfolding normalized_metadata_def
proof (rule normalize_ends)
  fix m k s assume "v = JObj m" "(k, JStr s) \<in> set m"
  moreover from this have "text_size (JStr s) \<in> set (map (\<lambda>(_, v). text_size v) m)" by force
  ultimately show "length s + 2 \<le> metadata_fuel v"
    using fold_max_ge [of "text_size (JStr s)" "map (\<lambda>(_, v). text_size v) m" 0]
    by (simp add: metadata_fuel_def)
qed (auto simp: metadata_fuel_def split: json.split)

lemma text_ends: "parser_shrinks env \<Longrightarrow> ends (normalized_text env a s)"
  unfolding normalized_text_def
  by (intro bind_ends normalized_metadata_ends return_ends) (simp add: nested_value_def checked_ends)

lemma put_ends: "ends (put_header env n v m hs)" "ends (insert_missing_header env n v hs)"
  by (auto simp: put_header_def insert_missing_header_def intro: ends_intros)

lemma project_header_ends: "parser_shrinks env \<Longrightarrow> ends (project_header env a r nv hs)"
  unfolding project_header_def
  by (auto simp: Let_def intro!: ends_intros text_ends put_ends split: prod.split)

lemma project_field_ends: "ends (project_field env a r sources fh ht)"
  unfolding project_field_def
  by (auto simp: Let_def intro!: ends_intros put_ends split: prod.split option.split)

lemma turn_header_ends: "ends (turn_header env turn hs)"
  unfolding turn_header_def nested_value_def
  by (auto intro!: ends_intros put_ends split: option.split json.split)

lemma normalized_headers_ends: "parser_shrinks env \<Longrightarrow> ends (normalized_headers env r a c)"
  unfolding normalized_headers_def client_metadata_def session_headers_def turn_identity_def
  by (auto intro!: ends_intros project_header_ends project_field_ends turn_header_ends normalized_metadata_ends put_ends
      split: prod.split)

lemma prepare_parts_ends: "parser_shrinks env \<Longrightarrow> ends (prepare_parts env r m a c)"
  unfolding prepare_parts_def cache_partition_def cache_key_def input_body_def
  by (auto intro!: ends_intros normalized_headers_ends put_ends split: prod.split option.split)

text \<open>
  C14. Preparing a request, a search or an images request ends: metadata nested in metadata to
  any depth is read to its end, and only a refusal is returned instead of a request.
\<close>

theorem preparing_ends:
  assumes "parser_shrinks env"
  shows "fst (prepare env r m a c ids) \<noteq> Inl OutOfFuel \<and> fst (prepare_search env r m a c ids) \<noteq> Inl OutOfFuel
    \<and> fst (prepare_images env r m a c ids) \<noteq> Inl OutOfFuel"
proof -
  have sound: "fst (p ids) \<noteq> Inl OutOfFuel" if "ends p" for p :: "'a preparing"
    using that by (cases "p ids"; cases "fst (p ids)") (auto simp: runs_def dest: spec [of _ ids])
  have "ends (prepare env r m a c)"
    unfolding prepare_def by (auto intro!: ends_intros prepare_parts_ends assms split: prod.split)
  moreover have "ends (prepare_search env r m a c)"
    unfolding prepare_search_def
    by (auto simp: Let_def intro!: ends_intros normalized_headers_ends put_ends assms split: prod.split)
  moreover have "ends (prepare_images env r m a c)"
    unfolding prepare_images_def by (auto intro!: ends_intros normalized_headers_ends assms split: prod.split)
  ultimately show ?thesis by (simp add: sound)
qed

subsection \<open>An example\<close>

definition up_env :: prep_env where
  "up_env = \<lparr>pr_parse = (\<lambda>t. if t = ''{}'' then Some (JObj []) else None), pr_print = (\<lambda>_. ''{}''),
     pr_header_ok = (\<lambda>_. True), pr_v5 = (\<lambda>_ _. ''v''), pr_reparse = Some, pr_uuid_text = (\<lambda>_. ''i''),
     pr_v5_text = (\<lambda>_ _. ''p'')\<rparr>"

definition up_account :: account where
  "up_account = \<lparr>acc_id = 1, acc_group_ids = [], acc_name = ''a'', acc_provider = ''openai'', acc_access_kind = ''codex_oauth'',
     acc_enabled = True, acc_codex_only = False, acc_use_extra_credits = False, acc_disable_reason = None, acc_max_inflight = 1,
     acc_upstream_account_id = ''u'', acc_upstream_base_url = ''h'', acc_models = [], acc_models_restricted = False,
     acc_model_catalog = None, acc_profile = \<lparr>cp_installation_id = 7, cp_codex_version = ''1'', cp_user_agent = ''c'',
       cp_tls_backend = ''native''\<rparr>,
     acc_version = 1, acc_credential_version = 1, acc_credential_expires_at = None, acc_created_at = 0, acc_updated_at = 0\<rparr>"

definition up_credentials :: credentials where
  "up_credentials = \<lparr>cr_access_token = ''t'', cr_refresh_token = [], cr_id_token = [], cr_expires_at = None\<rparr>"

definition up_model :: model_spec where
  "up_model = \<lparr>ms_id = ''m'', ms_upstream = model_codex ''g'', ms_enabled = True, ms_capabilities = capabilities_default,
     ms_version = 1\<rparr>"

definition up_request :: gateway_request where
  "up_request = \<lparr>gq_client_turn_state = \<lparr>ts_present = False, ts_total_values = 0, ts_omitted_values = 0, ts_values = []\<rparr>,
     gq_client_origin = client_origin_default, gq_client_metadata_present = False,
     gq_identity_headers = [(''session-id'', ''s''), (''x-codex-turn-metadata'', ''{}'')], gq_stateless = False,
     gq_ingress_diagnostics = None, gq_kind = Responses, gq_compaction = None,
     gq_search_options = \<lparr>so_query = None, so_beta = None, so_client_metadata_present = False\<rparr>,
     gq_identity = \<lparr>ci_session_id = ''s'', ci_thread_id = ''s'', ci_turn_id = None\<rparr>, gq_model = ''m'', gq_stream = True,
     gq_requested_tier = None, gq_reasoning_effort = None, gq_identifier_inputs = [],
     gq_document = \<lparr>doc_format = FORMAT, doc_value = JObj [(''input'', JStr ''hi''), (''model'', JStr ''m'')]\<rparr>\<rparr>"

definition up_ids :: identity_map where
  "up_ids = \<lparr>ids_binding = binding_new 1 2 \<lparr>sk_key_id = 9, sk_client_session_id = ''s''\<rparr> 1 (model_codex ''g'') 1,
     ids_forward = [], ids_reverse = [], ids_legacy_aliases = [], ids_pending = []\<rparr>"

lemmas up_defs = up_env_def up_account_def up_credentials_def up_model_def up_request_def up_ids_def

lemma up_faithful: "text_faithful up_env"
  by (simp add: text_faithful_def up_env_def)

lemma up_shrinks: "parser_shrinks up_env"
  by (simp add: parser_shrinks_def up_env_def)

lemma up_prepared: "isl (fst (prepare_parts up_env up_request up_model up_account up_credentials up_ids)) = False"
  by code_simp

lemma up_ran: "\<exists>hs body ids'. prepare_parts up_env up_request up_model up_account up_credentials up_ids = (Inr (hs, body), ids')"
proof -
  obtain x g where run: "prepare_parts up_env up_request up_model up_account up_credentials up_ids = (x, g)" by fastforce
  from up_prepared have "isl x = False" unfolding run by simp
  then obtain y where "x = Inr y" by (cases x) auto
  with run show ?thesis by (cases y) auto
qed

theorem body_controlled_witness:
  "\<exists>hs b ids'. prepare_parts up_env up_request up_model up_account up_credentials up_ids = (Inr (hs, JObj b), ids')
     \<and> hget b ''model'' = Some (JStr ''g'') \<and> hget b ''store'' = Some (JBool False) \<and> hget b ''stream'' = Some (JBool True)"
proof -
  obtain hs body ids' where run: "prepare_parts up_env up_request up_model up_account up_credentials up_ids = (Inr (hs, body), ids')"
    using up_ran by blast
  have kind: "gq_kind up_request = Responses" "mr_model (ms_upstream up_model) = ''g''"
    by (simp_all add: up_request_def up_model_def model_codex_def)
  from body_controlled [OF run refl] obtain b where "body = JObj b"
    "hget b ''model'' = Some (JStr (mr_model (ms_upstream up_model)))"
    "hget b ''store'' = (if gq_kind up_request = Compact then None else Some (JBool False))"
    "hget b ''stream'' = (if gq_kind up_request = Compact then None else Some (JBool True))" by blast
  with run kind show ?thesis by auto
qed

theorem client_identities_stay_witness:
  "\<exists>hs body ids'. prepare_parts up_env up_request up_model up_account up_credentials up_ids = (Inr (hs, body), ids')
     \<and> sent_clean up_env up_request up_account hs ids' \<and> ids_grow up_env up_ids ids'"
  using up_ran client_identities_stay [OF up_faithful] by blast

theorem preparing_ends_witness:
  "parser_shrinks up_env
     \<and> fst (prepare up_env up_request up_model up_account up_credentials up_ids) \<noteq> Inl OutOfFuel"
  using preparing_ends [OF up_shrinks, of up_request up_model up_account up_credentials up_ids] up_shrinks by blast

end
