(* ===== verification/Codex_Recovery.thy ===== *)
theory Codex_Recovery
  imports Codex_Input
begin

section \<open>What rewriting the input guarantees\<close>

text \<open>
  Facts about the operations of \<open>Codex_Input\<close>: a declared search is declared once, and the
  recovery from rejected encrypted content touches nothing but that content.
\<close>

subsection \<open>Search history\<close>

lemma search_declaration_tool: "search_tool search_declaration"
  by (simp add: search_tool_def search_declaration_def str_field_def)

lemma declared_search:
  assumes "hget body ''tools'' = Some (JArr (ts @ [search_declaration]))"
  shows "ensure_declaration body = body"
proof -
  have "\<exists>t\<in>set (declared_tools body input). search_tool t" for input
    using search_declaration_tool by (simp add: declared_tools_def array_of_def assms)
  then show ?thesis by (simp add: ensure_declaration_def Let_def split: option.split json.split)
qed

lemma ensure_cases:
  obtains "ensure_declaration body = body"
  | ts where "hget (ensure_declaration body) ''tools'' = Some (JArr (ts @ [search_declaration]))"
      and "hget (ensure_declaration body) ''input'' = hget body ''input''"
      and "hdel ''tools'' (hdel ''tool_choice'' (ensure_declaration body)) = hdel ''tools'' (hdel ''tool_choice'' body)"
proof (cases "ensure_declaration body = body")
  case False
  then obtain input where i: "hget body ''input'' = Some (JArr input)"
    by (auto simp: ensure_declaration_def split: option.splits json.splits)
  let ?b = "hput ''tools'' (JArr (array_of (hget body ''tools'') @ [search_declaration])) body"
  have "ensure_declaration body = ?b \<or> ensure_declaration body = hput ''tool_choice'' (JStr ''none'') ?b"
    using False by (auto simp: ensure_declaration_def Let_def i split: if_splits)
  then have "hget (ensure_declaration body) ''tools'' = Some (JArr (array_of (hget body ''tools'') @ [search_declaration]))
      \<and> hget (ensure_declaration body) ''input'' = hget body ''input''
      \<and> hdel ''tools'' (hdel ''tool_choice'' (ensure_declaration body)) = hdel ''tools'' (hdel ''tool_choice'' body)"
    by (elim disjE) (simp_all add: delete_update_same delete_update)
  then show ?thesis by (intro that(2)) blast+
qed (rule that(1))

text \<open>
  The search tool is declared at most once: declaring again changes nothing, the input and
  every other member of the request stay as they are, and a request that declares no tool and
  leaves the choice open is told to call none.
\<close>

lemma search_declared_once:
  "ensure_declaration (ensure_declaration body) = ensure_declaration body
    \<and> hget (ensure_declaration body) ''input'' = hget body ''input''
    \<and> hdel ''tools'' (hdel ''tool_choice'' (ensure_declaration body)) = hdel ''tools'' (hdel ''tool_choice'' body)
    \<and> (ensure_declaration body = body \<or> declared_tools body (array_of (hget body ''input'')) \<noteq> []
       \<or> \<not> default_choice (hget body ''tool_choice'')
       \<or> hget (ensure_declaration body) ''tool_choice'' = Some (JStr ''none''))"
proof -
  have "ensure_declaration body = body \<or> declared_tools body (array_of (hget body ''input'')) \<noteq> []
       \<or> \<not> default_choice (hget body ''tool_choice'')
       \<or> hget (ensure_declaration body) ''tool_choice'' = Some (JStr ''none'')"
    by (auto simp: ensure_declaration_def Let_def array_of_def [of "Some (JArr _)"] split: option.split json.split)
  moreover have "ensure_declaration (ensure_declaration body) = ensure_declaration body
      \<and> hget (ensure_declaration body) ''input'' = hget body ''input''
      \<and> hdel ''tools'' (hdel ''tool_choice'' (ensure_declaration body)) = hdel ''tools'' (hdel ''tool_choice'' body)"
    by (cases rule: ensure_cases [of body]) (simp_all add: declared_search)
  ultimately show ?thesis by blast
qed

definition ex_history :: "(string, json) hmap" where
  "ex_history = [(''input'', JArr [JObj [(''type'', JStr ''web_search_call'')]])]"

lemma search_declared_once_witness:
  "hget (ensure_declaration ex_history) ''tool_choice'' = Some (JStr ''none'')"
proof -
  have "ensure_declaration ex_history \<noteq> ex_history" "declared_tools ex_history (array_of (hget ex_history ''input'')) = []"
    "default_choice (hget ex_history ''tool_choice'')"
    by (simp_all add: ensure_declaration_def ex_history_def typed_def jindex_def array_of_def
        declared_tools_def default_choice_def)
  with search_declared_once [of ex_history] show ?thesis by blast
qed

subsection \<open>Rejected reasoning\<close>

definition encrypted_reasoning :: "json \<Rightarrow> bool" where
  "encrypted_reasoning item \<longleftrightarrow> reasoning_item item \<and> jget item ''encrypted_content'' \<noteq> None"

lemma clean_reasoning_other: "\<not> encrypted_reasoning item \<Longrightarrow> clean_reasoning item c = (True, item, c)"
  by (simp add: clean_reasoning_def encrypted_reasoning_def)

lemma clean_reasoning_kind: "clean_reasoning item c = (k, y, c') \<Longrightarrow> er_error_kind c' = er_error_kind c"
  by (auto simp: clean_reasoning_def Let_def split: if_splits)

lemma clean_reasoning_clears:
  "clean_reasoning item c = (k, y, c') \<Longrightarrow> \<not> encrypted_reasoning y"
  by (auto simp: clean_reasoning_def encrypted_reasoning_def Let_def split: if_splits)

lemma clean_reasoning_still:
  "clean_reasoning item c = (k, y, c') \<Longrightarrow> reasoning_item y = reasoning_item item"
  by (auto simp: clean_reasoning_def reasoning_item_def str_field_def Let_def split: if_splits)

lemma clean_reasoning_members:
  assumes "clean_reasoning item c = (k, y, c')" and "m \<noteq> ''encrypted_content''"
    and "m \<noteq> ''content'' \<or> jget item m \<noteq> Some JNull"
  shows "jget y m = jget item m"
  using assms by (auto simp: clean_reasoning_def Let_def split: if_splits)

text \<open>A kept item is a cleaned one; a dropped one had nothing but its type left.\<close>

lemma clean_reasoning_dropped:
  "clean_reasoning item c = (False, y, c') \<Longrightarrow> encrypted_reasoning item"
  by (auto simp: clean_reasoning_def encrypted_reasoning_def Let_def split: if_splits)

lemma clean_reasoning_count:
  "clean_reasoning item c = (k, y, c') \<Longrightarrow>
     er_fields_removed c' = er_fields_removed c + (if encrypted_reasoning item then 1 else 0)
     \<and> er_empty_items_removed c' = er_empty_items_removed c + (if k then 0 else 1)
     \<and> er_tool_parts_replaced c' = er_tool_parts_replaced c"
  by (auto simp: clean_reasoning_def encrypted_reasoning_def Let_def split: if_splits)

lemma clean_items_reasoning:
  assumes "clean_items xs c = (ys, c')" and "er_error_kind c = Reasoning"
  shows "filter (\<lambda>x. \<not> reasoning_item x) ys = filter (\<lambda>x. \<not> reasoning_item x) xs
    \<and> (\<forall>y\<in>set ys. \<not> encrypted_reasoning y)
    \<and> er_fields_removed c' = er_fields_removed c + length (filter encrypted_reasoning xs)
    \<and> er_empty_items_removed c' + length ys = er_empty_items_removed c + length xs
    \<and> er_tool_parts_replaced c' = er_tool_parts_replaced c"
  using assms
proof (induction xs arbitrary: c ys c')
  case (Cons x xs)
  obtain k y c1 where x: "clean_reasoning x c = (k, y, c1)" by (cases "clean_reasoning x c")
  obtain zs c2 where xs: "clean_items xs c1 = (zs, c2)" by (cases "clean_items xs c1")
  have c1: "er_error_kind c1 = Reasoning" using clean_reasoning_kind [OF x] Cons.prems(2) by simp
  have r: "ys = (if k then y # zs else zs)" "c' = c2"
    using Cons.prems by (simp_all add: clean_item_def x xs)
  have "reasoning_item x" if "\<not> k"
    using clean_reasoning_dropped [of x c y c1] x that by (simp add: encrypted_reasoning_def)
  moreover have "y = x" if "\<not> reasoning_item x"
    using clean_reasoning_other [of x c] that x by (simp add: encrypted_reasoning_def)
  ultimately show ?case
    using Cons.IH [OF xs c1] clean_reasoning_clears [OF x] clean_reasoning_still [OF x]
      clean_reasoning_count [OF x]
    by (auto simp: r)
qed simp

lemma clean_items_settled:
  "\<forall>x\<in>set xs. \<not> encrypted_reasoning x \<Longrightarrow> er_error_kind c = Reasoning \<Longrightarrow> clean_items xs c = (xs, c)"
  by (induction xs) (simp_all add: clean_item_def clean_reasoning_other)

text \<open>
  Recovery from rejected reasoning removes that and nothing else: every item that is not
  reasoning stays, in order; no reasoning item keeps encrypted content; only items are dropped
  that had nothing else, and the counts are exact.
\<close>

lemma recovery_removes_reasoning:
  assumes "clean_items items (recovery_start Reasoning) = (items', c)"
  shows "filter (\<lambda>x. \<not> reasoning_item x) items' = filter (\<lambda>x. \<not> reasoning_item x) items
    \<and> filter encrypted_reasoning items' = []
    \<and> er_fields_removed c = length (filter encrypted_reasoning items)
    \<and> er_empty_items_removed c + length items' = length items
    \<and> clean_items items' (recovery_start Reasoning) = (items', recovery_start Reasoning)"
  using clean_items_reasoning [OF assms] clean_items_settled [of items' "recovery_start Reasoning"]
  by (simp add: recovery_start_def filter_empty_conv)

lemma recovery_removes_reasoning_witness:
  "fst (clean_items [JObj [(''encrypted_content'', JStr ''x''), (''type'', JStr ''reasoning'')], JStr ''a'']
     (recovery_start Reasoning)) = [JStr ''a'']"
proof -
  let ?r = "JObj [(''encrypted_content'', JStr ''x''), (''type'', JStr ''reasoning'')]"
  have "str_trim ''reasoning'' = ''reasoning''" by code_simp
  then have r: "encrypted_reasoning ?r" by (simp add: encrypted_reasoning_def reasoning_item_def str_field_def)
  obtain ys c where c: "clean_items [?r, JStr ''a''] (recovery_start Reasoning) = (ys, c)"
    by (cases "clean_items [?r, JStr ''a''] (recovery_start Reasoning)")
  have "er_empty_items_removed c = 1"
    using c r by (auto simp: clean_item_def recovery_start_def clean_reasoning_def encrypted_reasoning_def
        reasoning_item_def str_field_def Let_def)
  with recovery_removes_reasoning [OF c] have "length ys = 1" "filter (\<lambda>x. \<not> reasoning_item x) ys = [JStr ''a'']"
    using r by (simp_all add: encrypted_reasoning_def reasoning_item_def str_field_def)
  then have "ys = [JStr ''a'']" by (cases ys) (auto split: if_splits)
  with c show ?thesis by simp
qed

subsection \<open>Rejected tool outputs\<close>

lemma clean_tool_output_facts:
  assumes "clean_tool_output item c = (y, c')"
  shows "jdel ''output'' y = jdel ''output'' item
    \<and> (tool_output y \<longleftrightarrow> tool_output item)
    \<and> (tool_output item \<longrightarrow> array_of (jget y ''output'') = map clean_part (array_of (jget item ''output'')))
    \<and> (tool_output item \<or> y = item) \<and> er_error_kind c' = er_error_kind c"
proof (cases "tool_output item \<and> is_array (jindex item ''output'')")
  case True
  then obtain m parts where i: "item = JObj m" "map_of m ''output'' = Some (JArr parts)"
    by (cases item) (auto simp: jindex_def elim: is_array.elims split: option.splits)
  with assms True show ?thesis
    by (auto simp: clean_tool_output_def Let_def delete_update_same tool_output_def str_field_def array_of_def)
next
  case False
  then have "clean_tool_output item c = (item, c)"
    by (auto simp: clean_tool_output_def jindex_def split: option.split json.split)
  with assms have "y = item" "c' = c" by simp_all
  moreover have "array_of (jget item ''output'') = []" if "tool_output item"
    using False that by (auto simp: array_of_def jindex_def split: option.splits json.splits)
  ultimately show ?thesis by auto
qed

lemma unavailable_plain: "\<not> typed ''encrypted_content'' unavailable_part"
  by (simp add: typed_def jindex_def unavailable_part_def)

lemma clean_part_plain: "\<not> typed ''encrypted_content'' (clean_part p)"
  by (simp add: clean_part_def unavailable_plain)

lemma clean_items_tool:
  assumes "clean_items xs c = (ys, c')" and "er_error_kind c = ToolOutput"
  shows "list_all2 (\<lambda>x y. jdel ''output'' y = jdel ''output'' x
      \<and> (if tool_output x then array_of (jget y ''output'') = map clean_part (array_of (jget x ''output'')) else y = x)) xs ys
    \<and> (\<forall>y\<in>set ys. tool_output y \<longrightarrow> filter (typed ''encrypted_content'') (array_of (jget y ''output'')) = [])"
  using assms
proof (induction xs arbitrary: c ys c')
  case (Cons x xs)
  obtain y c1 where x: "clean_tool_output x c = (y, c1)" by (cases "clean_tool_output x c")
  obtain zs c2 where xs: "clean_items xs c1 = (zs, c2)" by (cases "clean_items xs c1")
  note f = clean_tool_output_facts [OF x]
  with Cons.prems have c1: "er_error_kind c1 = ToolOutput" and ys: "ys = y # zs"
    by (simp_all add: clean_item_def x xs)
  have plain: "filter (typed ''encrypted_content'') (array_of (jget y ''output'')) = []" if "tool_output y"
    using f that by (simp add: clean_part_plain comp_def filter_map)
  from Cons.IH [OF xs c1] f plain show ?case by (auto simp: ys)
qed simp

text \<open>
  Recovery from a rejected tool output keeps every item at its place with all its other
  members; in the outputs of tools, exactly the encrypted parts are replaced by the note that
  the result is unavailable, and none is left.
\<close>

lemma recovery_marks_tool_outputs:
  assumes "clean_items items (recovery_start ToolOutput) = (items', c)"
  shows "list_all2 (\<lambda>x y. jdel ''output'' y = jdel ''output'' x
      \<and> (if tool_output x then array_of (jget y ''output'') = map clean_part (array_of (jget x ''output'')) else y = x))
      items items'
    \<and> (\<forall>y\<in>set items'. tool_output y \<longrightarrow> filter (typed ''encrypted_content'') (array_of (jget y ''output'')) = [])"
  by (rule clean_items_tool [OF assms]) (simp add: recovery_start_def)

definition ex_tool_output :: json where
  "ex_tool_output = JObj [(''call_id'', JStr ''c''),
     (''output'', JArr [JStr ''kept'', JObj [(''type'', JStr ''encrypted_content'')]]),
     (''type'', JStr ''function_call_output'')]"

lemma recovery_marks_tool_outputs_witness:
  "\<exists>y c. clean_items [ex_tool_output] (recovery_start ToolOutput) = ([y], c)
     \<and> array_of (jget y ''output'') = [JStr ''kept'', unavailable_part]"
proof -
  obtain ys c where c: "clean_items [ex_tool_output] (recovery_start ToolOutput) = (ys, c)"
    by (cases "clean_items [ex_tool_output] (recovery_start ToolOutput)")
  from recovery_marks_tool_outputs [OF c] obtain y where "ys = [y]"
    "array_of (jget y ''output'') = map clean_part (array_of (jget ex_tool_output ''output''))"
    by (auto simp: list_all2_Cons1 ex_tool_output_def tool_output_def str_field_def)
  with c show ?thesis
    by (simp add: ex_tool_output_def array_of_def clean_part_def typed_def jindex_def)
qed

end
