(* ===== verification/Codex_Stream.thy ===== *)
theory Codex_Stream
  imports Codex_Events
begin

section \<open>Properties of the response decoder\<close>

text \<open>
  Images are billed once although an item appears again in the completed response; chunk
  boundaries do not show; a stream has one terminal event, which is its last.
\<close>

subsection \<open>Images\<close>

text \<open>The reference: the first item of each identifier, and capped sums over a list.\<close>

fun first_by :: "('a \<Rightarrow> 'b option) \<Rightarrow> 'a list \<Rightarrow> 'a list" where
  "first_by f [] = []"
| "first_by f (x # xs) =
     (if f x = None then first_by f xs else x # filter (\<lambda>y. f y \<noteq> f x) (first_by f xs))"

definition reported :: "nat option \<Rightarrow> nat" where
  "reported r = (case r of None \<Rightarrow> 0 | Some n \<Rightarrow> n)"

lemma reported_simps [simp]: "reported None = 0" "reported (Some n) = n"
  by (simp_all add: reported_def)

definition capped_sum :: "nat option list \<Rightarrow> nat option" where
  "capped_sum rs =
     (if \<forall>r\<in>set rs. r = None then None
      else Some (min (2 ^ 64 - 1) (sum_list (map reported rs))))"

definition image_tokens :: "string \<Rightarrow> json \<Rightarrow> nat option" where
  "image_tokens k item = Option.bind (jget item ''usage'') (\<lambda>w. u64_path w [k])"

definition bill_image :: "json \<Rightarrow> usage \<times> string list \<Rightarrow> usage \<times> string list" where
  "bill_image item st = (observe_image_usage (jget item ''usage'') (fst st), snd st @ [the (image_item item)])"

lemma first_by_some: "x \<in> set (first_by f xs) \<Longrightarrow> f x \<noteq> None"
  by (induction xs) (auto split: if_splits)

lemma first_by_distinct: "distinct (map f (first_by f xs))"
proof (induction xs)
  case (Cons x xs)
  then have "distinct (map f (filter (\<lambda>y. f y \<noteq> f x) (first_by f xs)))" by (rule distinct_map_filter)
  then show ?case using Cons by auto
qed simp

lemma first_by_set: "f ` set (first_by f xs) = f ` set xs - {None}"
proof (induction xs)
  case (Cons x xs)
  have "f ` {y \<in> S. f y \<noteq> f x} = f ` S - {f x}" for S by auto
  with Cons show ?case by (cases "f x") auto
qed simp

lemma observe_item_cases:
  "image_item x = None \<Longrightarrow> observe_item x st = st"
  "image_item x = Some i \<Longrightarrow> i \<in> set (snd st) \<Longrightarrow> observe_item x st = st"
  "image_item x = Some i \<Longrightarrow> i \<notin> set (snd st) \<Longrightarrow> observe_item x st = bill_image x st"
  by (simp_all add: observe_item_def bill_image_def)

lemma observe_items_first:
  "fold observe_item xs (u, ids) =
     fold bill_image (filter (\<lambda>x. image_item x \<notin> Some ` set ids) (first_by image_item xs)) (u, ids)"
proof (induction xs arbitrary: u ids)
  case (Cons x xs)
  show ?case
  proof (cases "image_item x")
    case None
    then show ?thesis by (simp add: observe_item_cases Cons)
  next
    case (Some i)
    show ?thesis
    proof (cases "i \<in> set ids")
      case True
      then have "filter (\<lambda>y. image_item y \<notin> Some ` set ids) (filter (\<lambda>y. image_item y \<noteq> Some i) (first_by image_item xs))
          = filter (\<lambda>y. image_item y \<notin> Some ` set ids) (first_by image_item xs)"
        unfolding filter_filter by (intro filter_cong) auto
      with Some True show ?thesis by (simp add: observe_item_cases Cons)
    next
      case False
      have "filter (\<lambda>y. image_item y \<notin> Some ` set ids) (filter (\<lambda>y. image_item y \<noteq> Some i) (first_by image_item xs))
          = filter (\<lambda>y. image_item y \<notin> Some ` set (ids @ [i])) (first_by image_item xs)"
        unfolding filter_filter by (intro filter_cong) auto
      with Some False show ?thesis by (simp add: observe_item_cases bill_image_def Cons image_iff)
    qed
  qed
qed simp

lemma add_tokens_simps [simp]:
  "add_tokens a None = a"
  "add_tokens (Some t) (Some n) = Some (saturating_add t n)"
  "add_tokens None (Some n) = Some (saturating_add 0 n)"
  by (simp_all add: add_tokens_def)

lemma bill_images:
  "fold bill_image xs (u, ids) = (u', ids') \<Longrightarrow>
     ids' = ids @ map (\<lambda>x. the (image_item x)) xs
     \<and> us_image_input_tokens u' = fold (\<lambda>r a. add_tokens a r) (map (image_tokens ''input_tokens'') xs) (us_image_input_tokens u)
     \<and> us_image_output_tokens u' = fold (\<lambda>r a. add_tokens a r) (map (image_tokens ''output_tokens'') xs) (us_image_output_tokens u)"
proof (induction xs arbitrary: u ids)
  case (Cons x xs)
  have "us_image_input_tokens (observe_image_usage (jget x ''usage'') u) = add_tokens (us_image_input_tokens u) (image_tokens ''input_tokens'' x)"
    "us_image_output_tokens (observe_image_usage (jget x ''usage'') u) = add_tokens (us_image_output_tokens u) (image_tokens ''output_tokens'' x)"
    by (simp_all add: observe_image_usage_def image_tokens_def split: option.split)
  with Cons.IH [of "observe_image_usage (jget x ''usage'') u" "ids @ [the (image_item x)]"] Cons.prems
  show ?case by (simp add: bill_image_def)
qed simp

lemma fold_add_Some:
  "a \<le> 2 ^ 64 - 1 \<Longrightarrow> fold (\<lambda>r a. add_tokens a r) rs (Some a) = Some (min (2 ^ 64 - 1) (a + sum_list (map reported rs)))"
proof (induction rs arbitrary: a)
  case (Cons r rs)
  show ?case
  proof (cases r)
    case None
    with Cons show ?thesis by (simp)
  next
    case (Some n)
    have "fold (\<lambda>r a. add_tokens a r) rs (Some (saturating_add a n))
        = Some (min (2 ^ 64 - 1) (saturating_add a n + sum_list (map reported rs)))"
      by (rule Cons.IH) (simp add: saturating_add_def)
    with Some show ?thesis by (simp add: saturating_add_def min_def)
  qed
qed simp

lemma fold_add_tokens: "fold (\<lambda>r a. add_tokens a r) rs None = capped_sum rs"
proof (induction rs)
  case (Cons r rs)
  show ?case
  proof (cases r)
    case None
    with Cons show ?thesis by (simp add: capped_sum_def)
  next
    case (Some n)
    have "fold (\<lambda>r a. add_tokens a r) rs (Some (saturating_add 0 n))
        = Some (min (2 ^ 64 - 1) (saturating_add 0 n + sum_list (map reported rs)))"
      by (rule fold_add_Some) (simp add: saturating_add_def)
    with Some show ?thesis by (simp add: capped_sum_def saturating_add_def min_def)
  qed
qed (simp add: capped_sum_def)

subsection \<open>Reading a sequence of events\<close>

text \<open>The image facts of a decoder, and the items of the events it has read.\<close>

definition image_state :: "'e codex_decoder \<Rightarrow> (nat option \<times> nat option) \<times> string list" where
  "image_state d =
     ((us_image_input_tokens (cd_usage d), us_image_output_tokens (cd_usage d)), cd_image_ids d)"

definition items_of :: "'e codex_env \<Rightarrow> string list \<Rightarrow> json list" where
  "items_of env data = concat (map (\<lambda>x. event_items (the (ce_parse env x))) data)"

lemma observe_response_image [simp]:
  "us_image_input_tokens (observe_response r u) = us_image_input_tokens u"
  "us_image_output_tokens (observe_response r u) = us_image_output_tokens u"
  by (simp_all add: observe_response_def observe_usage_def Let_def split: option.split json.split)

lemma decode_event_Inr:
  assumes "decode_event env x d = Some (Inr (d', ev))"
  obtains v kind where "ce_parse env x = Some v" "str_field v ''type'' = Some kind" "d' = read_event kind v d"
    "ob_terminal (ge_observation ev) = terminal_kind kind" "ob_usage (ge_observation ev) = Some (cd_usage d')"
    "ob_error (ge_observation ev) = map_option fst (event_failure env kind v)"
  using assms that by (auto simp: decode_event_def decode_value_def Let_def split: option.splits)

lemma read_event_images:
  "fold observe_item (event_items v) (cd_usage d, cd_image_ids d) = (u, ids) \<Longrightarrow>
     image_state (read_event kind v d) = ((us_image_input_tokens u, us_image_output_tokens u), ids)
     \<and> us_image_count (cd_usage (read_event kind v d)) = length ids mod 2 ^ 32"
  by (simp add: read_event_def image_state_def Let_def)

lemma read_event_terminal: "cd_terminal (read_event kind v d) \<longleftrightarrow> cd_terminal d \<or> terminal_kind kind"
  by (simp add: read_event_def Let_def split: prod.split)

text \<open>Billing depends on the image facts of the state only.\<close>

lemma bill_state:
  assumes "fold bill_image xs (u, ids) = (u', ids')"
  shows "((us_image_input_tokens u', us_image_output_tokens u'), ids') =
    ((fold (\<lambda>r a. add_tokens a r) (map (image_tokens ''input_tokens'') xs) (us_image_input_tokens u),
      fold (\<lambda>r a. add_tokens a r) (map (image_tokens ''output_tokens'') xs) (us_image_output_tokens u)),
     ids @ map (\<lambda>x. the (image_item x)) xs)"
  using bill_images [OF assms] by simp

lemma observe_state_cong:
  assumes "us_image_input_tokens u = us_image_input_tokens w" and "us_image_output_tokens u = us_image_output_tokens w"
    and "fold observe_item xs (u, ids) = (u', ids')" and "fold observe_item xs (w, ids) = (w', ids'')"
  shows "us_image_input_tokens u' = us_image_input_tokens w' \<and> us_image_output_tokens u' = us_image_output_tokens w'
    \<and> ids' = ids''"
  using bill_images [OF assms(3) [unfolded observe_items_first]] bill_images [OF assms(4) [unfolded observe_items_first]]
    assms(1,2) by simp

lemma decode_events_images:
  assumes "decode_events env data d = Some (Inr (d', evs))" and "\<not> cd_terminal d"
    and "fold observe_item (items_of env (take (length evs) data)) (cd_usage d, cd_image_ids d) = (u, ids)"
  shows "image_state d' = ((us_image_input_tokens u, us_image_output_tokens u), ids)
    \<and> (evs = [] \<or> us_image_count (cd_usage d') = length ids mod 2 ^ 32)"
  using assms
proof (induction data arbitrary: d evs u ids)
  case Nil
  then show ?case by (simp add: items_of_def image_state_def)
next
  case (Cons x data)
  from Cons.prems(1) obtain d1 ev rest where ev: "decode_event env x d = Some (Inr (d1, ev))" and evs: "evs = ev # rest"
    and rest: "(cd_terminal d1 \<and> rest = [] \<and> d' = d1) \<or> (\<not> cd_terminal d1 \<and> decode_events env data d1 = Some (Inr (d', rest)))"
    by (auto split: option.splits sum.splits if_splits simp: res_map_Inr_iff)
  from ev obtain v kind where v: "ce_parse env x = Some v" "d1 = read_event kind v d" by (rule decode_event_Inr)
  obtain u1 ids1 where first: "fold observe_item (event_items v) (cd_usage d, cd_image_ids d) = (u1, ids1)"
    by (cases "fold observe_item (event_items v) (cd_usage d, cd_image_ids d)")
  note one = read_event_images [OF first, of kind]
  have split: "fold observe_item (items_of env (take (length rest) data)) (u1, ids1) = (u, ids)"
    using Cons.prems(3) first v(1) evs by (simp add: items_of_def)
  show ?case
  proof (cases "cd_terminal d1")
    case True
    with rest split one v(2) show ?thesis by (simp add: items_of_def)
  next
    case False
    with rest have more: "decode_events env data d1 = Some (Inr (d', rest))" by simp
    obtain w ids2 where w: "fold observe_item (items_of env (take (length rest) data)) (cd_usage d1, cd_image_ids d1) = (w, ids2)"
      by (cases "fold observe_item (items_of env (take (length rest) data)) (cd_usage d1, cd_image_ids d1)")
    from one v(2) have i: "cd_image_ids d1 = ids1" "us_image_input_tokens (cd_usage d1) = us_image_input_tokens u1"
      "us_image_output_tokens (cd_usage d1) = us_image_output_tokens u1"
      by (simp_all add: image_state_def)
    from Cons.IH [OF more False w] observe_state_cong [OF i(2,3) w [unfolded i(1)] split]
    have "image_state d' = ((us_image_input_tokens u, us_image_output_tokens u), ids)"
      "rest = [] \<or> us_image_count (cd_usage d') = length ids mod 2 ^ 32" by simp_all
    moreover have "rest = [] \<longrightarrow> us_image_count (cd_usage d') = length ids mod 2 ^ 32"
    proof
      assume r: "rest = []"
      from r more have "d' = d1"
        by (cases data) (auto split: option.splits sum.splits if_splits simp: res_map_Inr_iff)
      with r split one v(2) show "us_image_count (cd_usage d') = length ids mod 2 ^ 32" by (simp add: items_of_def)
    qed
    ultimately show ?thesis by blast
  qed
qed

text \<open>
  Images are charged once: of all items in the events read, with the same item repeated in
  later events and in the completed response, exactly the first item of each identifier counts,
  and the reported tokens are the capped sums over those.
\<close>

lemma images_charged_once:
  assumes "decoder_push env bytes limit (decoder_default e) = Some (Inr (d, evs))" and "evs \<noteq> []"
    and "sse_push (ce_feed env) bytes limit (sse_default e) = Inr (s, data)"
  shows "let billed = first_by image_item (items_of env (take (length evs) data)) in
    cd_image_ids d = map (\<lambda>x. the (image_item x)) billed \<and> distinct (cd_image_ids d)
    \<and> us_image_count (cd_usage d) = length billed mod 2 ^ 32
    \<and> us_image_input_tokens (cd_usage d) = capped_sum (map (image_tokens ''input_tokens'') billed)
    \<and> us_image_output_tokens (cd_usage d) = capped_sum (map (image_tokens ''output_tokens'') billed)"
proof -
  let ?d = "(decoder_default e)\<lparr>cd_sse := s\<rparr>"
  let ?billed = "first_by image_item (items_of env (take (length evs) data))"
  have run: "decode_events env data ?d = Some (Inr (d, evs))"
    using assms by (simp add: decoder_push_def decoder_default_def)
  obtain u ids where u: "fold observe_item (items_of env (take (length evs) data)) (cd_usage ?d, cd_image_ids ?d) = (u, ids)"
    by (cases "fold observe_item (items_of env (take (length evs) data)) (cd_usage ?d, cd_image_ids ?d)")
  have "image_state d = ((us_image_input_tokens u, us_image_output_tokens u), ids)"
    "us_image_count (cd_usage d) = length ids mod 2 ^ 32"
    using decode_events_images [OF run _ u] assms(2) by (simp_all add: decoder_default_def)
  moreover have "ids = map (\<lambda>x. the (image_item x)) ?billed"
    "us_image_input_tokens u = capped_sum (map (image_tokens ''input_tokens'') ?billed)"
    "us_image_output_tokens u = capped_sum (map (image_tokens ''output_tokens'') ?billed)"
    using bill_images [of ?billed usage_default "[]" u ids] u
    by (simp_all add: observe_items_first decoder_default_def fold_add_tokens usage_default_def)
  moreover have "distinct (map (\<lambda>x. the (image_item x)) ?billed)"
  proof -
    have "inj_on the (image_item ` set ?billed)" by (rule inj_onI) (auto dest!: first_by_some)
    with first_by_distinct [of image_item] have "distinct (map the (map image_item ?billed))"
      unfolding distinct_map by simp
    then show ?thesis by (simp add: comp_def)
  qed
  ultimately show ?thesis by (simp add: image_state_def Let_def)
qed

subsection \<open>An example\<close>

text \<open>Every block is the event \<open>x\<close>, which completes a response with one image.\<close>

definition ex_image :: json where
  "ex_image = JObj [(''type'', JStr ''image_generation_call''), (''id'', JStr ''i''), (''result'', JStr ''..''),
     (''usage'', JObj [(''output_tokens'', JNum (PosInt 9))])]"

definition ex_completed :: json where
  "ex_completed = JObj [(''type'', JStr ''response.completed''), (''item'', ex_image),
     (''response'', JObj [(''output'', JArr [ex_image])])]"

definition ex_env :: "nat codex_env" where
  "ex_env = \<lparr>ce_feed = (\<lambda>n b. ([Inr ''x''], Suc n)), ce_parse = (\<lambda>_. Some ex_completed), ce_print = (\<lambda>_. []),
     ce_lossy = id, ce_timestamp = Some, ce_show_num = (\<lambda>_. []), ce_now = 0\<rparr>"

lemma ex_env_sel [simp]:
  "ce_feed ex_env = (\<lambda>n b. ([Inr ''x''], Suc n))" "ce_parse ex_env = (\<lambda>_. Some ex_completed)"
  by (simp_all add: ex_env_def)

lemma ex_sse: "sse_push (ce_feed ex_env) [LF] 5 (sse_default 0) =
    Inr (\<lparr>sse_events = 1, sse_buffer = [], sse_line_bytes = 0, sse_skip_lf = False, sse_prefix = [], sse_started = True\<rparr>, [''x''])"
  by (simp add: sse_push_def sse_step_def sse_byte_def sse_default_def starts_with_def byte_order_mark_def)

lemma ex_event: "\<exists>d ev. decode_event ex_env ''x'' d0 = Some (Inr (d, ev)) \<and> cd_terminal d"
proof -
  have "str_field ex_completed ''type'' = Some ''response.completed''"
    by (simp add: ex_completed_def str_field_def)
  then show ?thesis
    by (simp add: decode_event_def decode_value_def event_quotas_def Let_def read_event_terminal terminal_kind_def)
qed

lemma ex_push: "\<exists>d ev. decoder_push ex_env [LF] 5 (decoder_default 0) = Some (Inr (d, [ev])) \<and> cd_terminal d"
proof -
  obtain d ev where "decode_event ex_env ''x'' ((decoder_default 0)\<lparr>cd_sse := \<lparr>sse_events = 1, sse_buffer = [], sse_line_bytes = 0,
    sse_skip_lf = False, sse_prefix = [], sse_started = True\<rparr>\<rparr>) = Some (Inr (d, ev))" "cd_terminal d"
    using ex_event by blast
  then show ?thesis using ex_sse by (simp add: decoder_push_def decoder_default_def)
qed

lemma images_charged_once_witness:
  "\<exists>d evs. decoder_push ex_env [LF] 5 (decoder_default 0) = Some (Inr (d, evs))
     \<and> us_image_count (cd_usage d) = 1 \<and> us_image_output_tokens (cd_usage d) = Some 9"
proof -
  from ex_push obtain d ev where p: "decoder_push ex_env [LF] 5 (decoder_default 0) = Some (Inr (d, [ev]))" by blast
  have "first_by image_item (items_of ex_env (take (length [ev]) [''x''])) = [ex_image]"
    by (simp add: items_of_def event_items_def ex_completed_def array_of_def image_item_def ex_image_def str_field_def)
  with images_charged_once [OF p _ ex_sse] show ?thesis
    using p by (simp add: Let_def capped_sum_def image_tokens_def ex_image_def u64_path_def)
qed

subsection \<open>Chunks\<close>

lemma decode_events_append:
  "\<not> cd_terminal d \<Longrightarrow> decode_events env (xs @ ys) d =
     (case decode_events env xs d of
        Some (Inr (d1, e1)) \<Rightarrow>
          if cd_terminal d1 then Some (Inr (d1, e1))
          else map_option (res_map (\<lambda>(d2, e2). (d2, e1 @ e2))) (decode_events env ys d1)
      | r \<Rightarrow> r)"
proof (induction xs arbitrary: d)
  case Nil
  then show ?case by (simp add: option.map_ident_strong sum.map_ident) (cases "decode_events env ys d"; auto simp: res_map_def split: sum.split)
next
  case (Cons x xs)
  show ?case
  proof (cases "decode_event env x d")
    case (Some r)
    show ?thesis
    proof (cases r)
      case (Inr p)
      obtain d1 ev where p: "p = (d1, ev)" by (cases p)
      show ?thesis
      proof (cases "cd_terminal d1")
        case False
        from Cons.IH [OF this] show ?thesis
          using Some Inr p False
          by (cases "decode_events env xs d1")
            (auto simp: option.map_comp comp_def res_map_comp split_def split: sum.split)
      qed (use Some Inr p in simp)
    qed (use Some in simp)
  qed simp
qed

lemma decode_event_sse:
  "decode_event env x (d\<lparr>cd_sse := s\<rparr>) = map_option (res_map (\<lambda>(d', ev). (d'\<lparr>cd_sse := s\<rparr>, ev))) (decode_event env x d)"
proof -
  have "read_event kind v (d\<lparr>cd_sse := s\<rparr>) = (read_event kind v d)\<lparr>cd_sse := s\<rparr>" for kind v
    by (simp add: read_event_def Let_def split: prod.split)
  moreover have "cd_usage (d\<lparr>cd_sse := s\<rparr>) = cd_usage d" "cd_compaction_output (d\<lparr>cd_sse := s\<rparr>) = cd_compaction_output d" for d
    by simp_all
  ultimately show ?thesis
    by (simp add: decode_event_def decode_value_def Let_def split: option.split)
qed

lemma decode_events_sse:
  "decode_events env xs (d\<lparr>cd_sse := s\<rparr>) = map_option (res_map (\<lambda>(d', evs). (d'\<lparr>cd_sse := s\<rparr>, evs))) (decode_events env xs d)"
proof (induction xs arbitrary: d)
  case (Cons x xs)
  show ?case
  proof (cases "decode_event env x d")
    case (Some r)
    with Cons show ?thesis
      by (cases r) (auto simp: decode_event_sse option.map_comp comp_def res_map_comp case_prod_beta)
  qed (simp add: decode_event_sse)
qed simp

text \<open>A stream that decodes as one chunk decodes in two parts.\<close>

lemma whole_in_parts:
  assumes "decoder_push env (xs @ ys) limit d = Some (Inr (d2, evs))"
  shows "\<exists>d1 e1 d2' e2. decoder_push env xs limit d = Some (Inr (d1, e1))
    \<and> decoder_push env ys limit d1 = Some (Inr (d2', e2)) \<and> evs = e1 @ e2
    \<and> d2'\<lparr>cd_sse := cd_sse d2\<rparr> = d2 \<and> (cd_terminal d2 \<or> d2' = d2)"
proof (cases "cd_terminal d")
  case True
  with assms show ?thesis by (simp add: decoder_push_def)
next
  case False
  note chunks = sse_chunks [of "ce_feed env" xs ys limit "cd_sse d"]
  from assms False obtain s data where whole: "sse_push (ce_feed env) (xs @ ys) limit (cd_sse d) = Inr (s, data)"
    and run: "decode_events env data (d\<lparr>cd_sse := s\<rparr>) = Some (Inr (d2, evs))"
    by (auto simp: decoder_push_def split: sum.splits)
  from whole obtain s1 a1 a2 where x: "sse_push (ce_feed env) xs limit (cd_sse d) = Inr (s1, a1)"
    and y: "sse_push (ce_feed env) ys limit s1 = Inr (s, a2)" and data: "data = a1 @ a2"
    by (auto simp: chunks and_then_Inr_iff)
  have sse: "decode_events env zs (d\<lparr>cd_sse := t\<rparr>) = map_option (res_map (\<lambda>(d', evs). (d'\<lparr>cd_sse := t\<rparr>, evs))) (decode_events env zs d)"
    for zs t by (rule decode_events_sse)
  obtain d1 e1 where first: "decode_events env a1 d = Some (Inr (d1, e1))"
    using run data False by (auto simp: sse decode_events_append res_map_Inr_iff split: option.splits sum.splits)
  have p: "decoder_push env xs limit d = Some (Inr (d1\<lparr>cd_sse := s1\<rparr>, e1))"
    using False x first by (simp add: decoder_push_def sse)
  show ?thesis
  proof (cases "cd_terminal d1")
    case True
    with run data first False have "d2 = d1\<lparr>cd_sse := s\<rparr>" "evs = e1"
      by (simp_all add: sse decode_events_append)
    with True p show ?thesis by (simp add: decoder_push_def)
  next
    case other: False
    with run data first False obtain d3 e2 where second: "decode_events env a2 d1 = Some (Inr (d3, e2))"
      and d2: "d2 = d3\<lparr>cd_sse := s\<rparr>" "evs = e1 @ e2"
      by (auto simp: sse decode_events_append res_map_Inr_iff)
    have "decoder_push env ys limit (d1\<lparr>cd_sse := s1\<rparr>) = Some (Inr (d2, e2))"
      using other y second d2 by (simp add: decoder_push_def decode_events_sse)
    with p d2 show ?thesis by (intro exI [of _ "d1\<lparr>cd_sse := s1\<rparr>"] exI [of _ e1] exI [of _ d2] exI [of _ e2]) simp
  qed
qed

text \<open>And the other way round, as long as the first part does not end the response.\<close>

lemma decode_events_keep_sse:
  assumes "decode_events env xs d = Some (Inr (d', evs))"
  shows "cd_sse d' = cd_sse d"
proof -
  have "d' = d'\<lparr>cd_sse := cd_sse d\<rparr>"
    using decode_events_sse [of env xs "cd_sse d" d] assms by (simp add: res_map_Inr_iff)
  from arg_cong [where f = cd_sse, OF this] show ?thesis by simp
qed

lemma parts_in_whole:
  assumes first: "decoder_push env xs limit d = Some (Inr (d1, e1))" and going: "\<not> cd_terminal d1"
    and second: "decoder_push env ys limit d1 = Some (Inr (d2, e2))"
  shows "decoder_push env (xs @ ys) limit d = Some (Inr (d2, e1 @ e2))"
proof -
  have d: "\<not> cd_terminal d" using first going by (auto simp: decoder_push_def)
  obtain s1 a1 where x: "sse_push (ce_feed env) xs limit (cd_sse d) = Inr (s1, a1)"
    and run1: "decode_events env a1 (d\<lparr>cd_sse := s1\<rparr>) = Some (Inr (d1, e1))"
    using first d by (auto simp: decoder_push_def split: sum.splits)
  obtain s2 a2 where y: "sse_push (ce_feed env) ys limit (cd_sse d1) = Inr (s2, a2)"
    and run2: "decode_events env a2 (d1\<lparr>cd_sse := s2\<rparr>) = Some (Inr (d2, e2))"
    using second going by (auto simp: decoder_push_def split: sum.splits)
  have sse: "cd_sse d1 = s1" using decode_events_keep_sse [OF run1] by simp
  have whole: "sse_push (ce_feed env) (xs @ ys) limit (cd_sse d) = Inr (s2, a1 @ a2)"
    using x y by (simp add: sse sse_chunks)
  have "decode_events env a1 (d\<lparr>cd_sse := s2\<rparr>) = Some (Inr (d1\<lparr>cd_sse := s2\<rparr>, e1))"
    using run1 decode_events_sse [of env a1 s2 "d\<lparr>cd_sse := s1\<rparr>"] by simp
  then have "decode_events env (a1 @ a2) (d\<lparr>cd_sse := s2\<rparr>) = Some (Inr (d2, e1 @ e2))"
    using going d run2 by (simp add: decode_events_append)
  with whole d show ?thesis by (simp add: decoder_push_def)
qed

text \<open>
  C39. Chunk boundaries do not show. A stream that decodes as one chunk decodes in two parts, with the
  same events, usage, images and end, where the byte decoder may differ behind the end of the
  response only, where no byte is read any more. Two parts that decode one after the other, the first
  without ending the response, decode as one chunk, to the same events and the same decoder.
\<close>

theorem decoder_chunking:
  "(decoder_push env (xs @ ys) limit d = Some (Inr (d2, evs)) \<longrightarrow>
      (\<exists>d1 e1 d2' e2. decoder_push env xs limit d = Some (Inr (d1, e1))
        \<and> decoder_push env ys limit d1 = Some (Inr (d2', e2)) \<and> evs = e1 @ e2
        \<and> d2'\<lparr>cd_sse := cd_sse d2\<rparr> = d2 \<and> (cd_terminal d2 \<or> d2' = d2)))
   \<and> (\<forall>d1 e1 e2. decoder_push env xs limit d = Some (Inr (d1, e1)) \<and> \<not> cd_terminal d1
        \<and> decoder_push env ys limit d1 = Some (Inr (d2, e2))
        \<longrightarrow> decoder_push env (xs @ ys) limit d = Some (Inr (d2, e1 @ e2)))"
  using whole_in_parts [of env xs ys limit d d2 evs] parts_in_whole [of env xs limit d _ _ ys d2] by blast

theorem decoder_chunking_witness:
  "\<exists>d evs. decoder_push ex_env ([LF] @ []) 5 (decoder_default 0) = Some (Inr (d, evs))
     \<and> (\<exists>d1 e1. decoder_push ex_env [LF] 5 (decoder_default 0) = Some (Inr (d1, e1)))"
proof -
  from ex_push obtain d ev where p: "decoder_push ex_env ([LF] @ []) 5 (decoder_default 0) = Some (Inr (d, [ev]))" by auto
  from decoder_chunking [of ex_env "[LF]" "[]" 5 "decoder_default 0" d "[ev]"] p show ?thesis by blast
qed

text \<open>
  Where the first part ends the response, the second direction fails: the bytes behind the last
  event are still read when they come in the same chunk, and an error in them loses that event,
  which the client was sent.
\<close>

lemma late_bytes_lose_the_end:
  assumes "decoder_push env xs limit d = Some (Inr (d1, evs))" and "cd_terminal d1" and "\<not> cd_terminal d"
    and "sse_push (ce_feed env) xs limit (cd_sse d) = Inr (s, data)" and "sse_push (ce_feed env) ys limit s = Inl e"
  shows "decoder_push env ys limit d1 = Some (Inr (d1, [])) \<and> decoder_push env (xs @ ys) limit d = Some (Inl e)"
  using assms by (simp add: decoder_push_def sse_chunks)

subsection \<open>The end of a stream\<close>

lemma read_event_complete:
  "terminal_kind kind \<Longrightarrow> us_complete (cd_usage (read_event kind v d)) \<longleftrightarrow>
     us_input_tokens (cd_usage (read_event kind v d)) \<noteq> None \<and> us_output_tokens (cd_usage (read_event kind v d)) \<noteq> None"
  by (auto simp: read_event_def Let_def split: prod.split)

lemma decode_events_end:
  assumes "decode_events env data d = Some (Inr (d', evs))" and "\<not> cd_terminal d"
  shows "(\<forall>ev\<in>set (butlast evs). \<not> ob_terminal (ge_observation ev))
    \<and> (cd_terminal d' \<longleftrightarrow> evs \<noteq> [] \<and> ob_terminal (ge_observation (last evs)))
    \<and> (\<forall>ev\<in>set evs. ob_error (ge_observation ev) \<noteq> None \<longrightarrow> ob_terminal (ge_observation ev))
    \<and> (evs \<noteq> [] \<longrightarrow> ob_usage (ge_observation (last evs)) = Some (cd_usage d'))
    \<and> (cd_terminal d' \<longrightarrow> (us_complete (cd_usage d') \<longleftrightarrow> us_input_tokens (cd_usage d') \<noteq> None \<and> us_output_tokens (cd_usage d') \<noteq> None))"
  using assms
proof (induction data arbitrary: d evs)
  case (Cons x data)
  from Cons.prems(1) obtain d1 ev rest where ev: "decode_event env x d = Some (Inr (d1, ev))" and evs: "evs = ev # rest"
    and rest: "(cd_terminal d1 \<and> rest = [] \<and> d' = d1) \<or> (\<not> cd_terminal d1 \<and> decode_events env data d1 = Some (Inr (d', rest)))"
    by (auto split: option.splits sum.splits if_splits simp: res_map_Inr_iff)
  from ev obtain v kind where v: "d1 = read_event kind v d" "ob_terminal (ge_observation ev) = terminal_kind kind"
    "ob_usage (ge_observation ev) = Some (cd_usage d1)"
    "ob_error (ge_observation ev) = map_option fst (event_failure env kind v)" by (rule decode_event_Inr)
  have t: "cd_terminal d1 \<longleftrightarrow> ob_terminal (ge_observation ev)" using v(1,2) Cons.prems(2) by (simp add: read_event_terminal)
  have err: "ob_error (ge_observation ev) \<noteq> None \<longrightarrow> ob_terminal (ge_observation ev)"
    using v(2,4) by (auto simp: event_failure_def split: if_splits)
  show ?case
  proof (cases "cd_terminal d1")
    case True
    with rest evs t v(1-3) err read_event_complete [of kind v d] show ?thesis by auto
  next
    case False
    with rest have more: "decode_events env data d1 = Some (Inr (d', rest))" by simp
    have "rest = [] \<Longrightarrow> d' = d1" using more
      by (cases data) (auto split: option.splits sum.splits if_splits simp: res_map_Inr_iff)
    with Cons.IH [OF more False] evs t False err v(3) show ?thesis by (cases "rest = []") auto
  qed
qed simp

text \<open>
  C40. A stream ends once: of the events decoded from any chunk only the last may end the
  response, the decoder is finished exactly then, nothing is decoded afterwards, only that event
  carries an error, and its usage is complete exactly when both token totals are known.
\<close>

theorem stream_ends_once:
  assumes "decoder_push env bytes limit d = Some (Inr (d', evs))" and "\<not> cd_terminal d"
  shows "(\<forall>ev\<in>set (butlast evs). \<not> ob_terminal (ge_observation ev))
    \<and> (decoder_finish d' = Inr () \<longleftrightarrow> evs \<noteq> [] \<and> ob_terminal (ge_observation (last evs)))
    \<and> (decoder_finish d' = Inr () \<longrightarrow> decoder_push env rest limit d' = Some (Inr (d', []))
        \<and> (\<exists>u. ob_usage (ge_observation (last evs)) = Some u
            \<and> (us_complete u \<longleftrightarrow> us_input_tokens u \<noteq> None \<and> us_output_tokens u \<noteq> None)))
    \<and> (\<forall>ev\<in>set evs. ob_error (ge_observation ev) \<noteq> None \<longrightarrow> ob_terminal (ge_observation ev))"
proof -
  from assms obtain s data where "decode_events env data (d\<lparr>cd_sse := s\<rparr>) = Some (Inr (d', evs))"
    by (auto simp: decoder_push_def split: sum.splits)
  from decode_events_end [OF this] assms(2) have all:
    "\<forall>ev\<in>set (butlast evs). \<not> ob_terminal (ge_observation ev)"
    "cd_terminal d' \<longleftrightarrow> evs \<noteq> [] \<and> ob_terminal (ge_observation (last evs))"
    "\<forall>ev\<in>set evs. ob_error (ge_observation ev) \<noteq> None \<longrightarrow> ob_terminal (ge_observation ev)"
    "evs \<noteq> [] \<longrightarrow> ob_usage (ge_observation (last evs)) = Some (cd_usage d')"
    "cd_terminal d' \<longrightarrow> (us_complete (cd_usage d') \<longleftrightarrow> us_input_tokens (cd_usage d') \<noteq> None \<and> us_output_tokens (cd_usage d') \<noteq> None)"
    by simp_all
  have f: "decoder_finish d' = Inr () \<longleftrightarrow> cd_terminal d'" by (simp add: decoder_finish_def)
  show ?thesis unfolding f using all by (simp add: decoder_push_def)
qed

theorem stream_ends_once_witness:
  "\<exists>d evs. decoder_push ex_env [LF] 5 (decoder_default 0) = Some (Inr (d, evs))
     \<and> decoder_push ex_env ''more'' 5 d = Some (Inr (d, []))"
proof -
  from ex_push obtain d ev where p: "decoder_push ex_env [LF] 5 (decoder_default 0) = Some (Inr (d, [ev]))" "cd_terminal d" by blast
  from stream_ends_once [OF p(1), of "''more''"] p(2) show ?thesis
    using p(1) by (auto simp: decoder_default_def decoder_finish_def)
qed

end
