(* ===== verification/Safety_Guard.thy ===== *)
theory Safety_Guard
  imports Identity
begin

section \<open>Sessions the upstream rejected\<close>

text \<open>
  \<open>crates/xxgate-core/src/application/safety.rs\<close>: how often the upstream's safety policy
  rejected requests of a session, with the first rejection; from three on the session is
  blocked. \<open>restore\<close> merges what the database knows.
\<close>

type_synonym guard = "(session_key, nat \<times> err) hmap"

definition safety_blocked :: "err \<Rightarrow> err" where
  "safety_blocked previous = with_upstream
     (error_new 403 ''session_safety_blocked''
       (''The gateway blocked this session without contacting the upstream because at least 3 requests in this session were rejected by upstream safety policy. Previous rejection: '' @ err_message previous))
     (err_upstream previous)"

definition guard_check :: "session_key \<Rightarrow> guard \<Rightarrow> unit res" where
  "guard_check session g =
     (case hget g session of
        Some (n, previous) \<Rightarrow> if 3 \<le> n then Inl (safety_blocked previous) else Inr ()
      | None \<Rightarrow> Inr ())"

definition guard_restore :: "session_key \<Rightarrow> nat \<Rightarrow> err \<Rightarrow> guard \<Rightarrow> guard" where
  "guard_restore session n e g =
     (let entry = (case hget g session of None \<Rightarrow> (n, e) | Some x \<Rightarrow> x)
      in hput session (if fst entry < n then (n, e) else entry) g)"

definition guard_remember :: "session_key \<Rightarrow> err \<Rightarrow> guard \<Rightarrow> guard" where
  "guard_remember session e g =
     (let saved = with_upstream (error_new (err_status e) (err_code e) (err_message e)) (err_upstream e);
          entry = (case hget g session of None \<Rightarrow> (0, saved) | Some x \<Rightarrow> x)
      in hput session (min (fst entry + 1) 3, snd entry) g)"

definition guard_count :: "guard \<Rightarrow> session_key \<Rightarrow> nat" where
  "guard_count g session = (case hget g session of None \<Rightarrow> 0 | Some (n, _) \<Rightarrow> n)"

definition rejected :: "guard \<Rightarrow> session_key \<Rightarrow> bool" where
  "rejected g session \<longleftrightarrow> 3 \<le> guard_count g session"

lemma guard_check_iff: "guard_check session g = Inr () \<longleftrightarrow> \<not> rejected g session"
  by (auto simp: guard_check_def rejected_def guard_count_def split: option.splits)

lemma guard_check_fails: "rejected g session \<Longrightarrow> \<exists>e. guard_check session g = Inl e \<and> err_code e = ''session_safety_blocked''"
  by (auto simp: guard_check_def rejected_def guard_count_def safety_blocked_def with_upstream_def split: option.splits)

text \<open>What a session was once blocked for stays: counts never shrink below three.\<close>

definition guard_grows :: "guard \<Rightarrow> guard \<Rightarrow> bool" where
  "guard_grows g g' \<longleftrightarrow> (\<forall>session. rejected g session \<longrightarrow> rejected g' session)"

lemma guard_grows_refl: "guard_grows g g"
  by (simp add: guard_grows_def)

lemma guard_grows_trans: "guard_grows g g' \<Longrightarrow> guard_grows g' g'' \<Longrightarrow> guard_grows g g''"
  by (simp add: guard_grows_def)

lemma restore_grows: "guard_grows g (guard_restore session n e g)"
  by (auto simp: guard_grows_def rejected_def guard_count_def guard_restore_def Let_def split: option.splits)

lemma remember_grows: "guard_grows g (guard_remember session e g)"
  by (auto simp: guard_grows_def rejected_def guard_count_def guard_remember_def Let_def split: option.splits)

lemma remember_counts:
  "guard_count (guard_remember session e g) session = min (guard_count g session + 1) 3"
  by (auto simp: guard_count_def guard_remember_def Let_def split: option.splits)

end
