(* ===== verification/Gateway_Run.thy ===== *)
theory Gateway_Run
  imports Actions Safety_Guard Protocol Scheduling
begin

section \<open>One request through the gateway\<close>

text \<open>
  \<open>crates/xxgate-core/src/application/gateway.rs\<close>, \<open>start\<close> to \<open>finalize\<close>: a request is
  admitted, waits for an account, is sent upstream and its response is passed on. Requests
  run concurrently, so what a request finds when it looks at shared state, or what a call
  of the store, the scheduler or the upstream answers, may be anything at any time: the
  environment is a record of functions of a clock that every call advances. A future that
  is dropped because the client has gone or the gateway stops is an answer of the
  environment too, at any await. The provider and the ingress are the traits of
  \<open>protocol.rs\<close>: records of functions.

  The run keeps the execution's own state, its copy of the safety guard (which others
  change between its steps) and the trace of what it did to the world.
\<close>

subsection \<open>State\<close>

record request_record =
  rec_request_log_level :: "log_level option"
  rec_client_turn_state :: "turn_state_header option"
  rec_client_origin :: "client_origin option"
  rec_stateless :: bool
  rec_ingress_diagnostics :: "json option"
  rec_kind :: request_kind
  rec_compaction :: "compaction option"
  rec_stream :: "bool option"
  rec_search_price :: "search_price option"
  rec_id :: uuid
  rec_key_id :: uuid
  rec_group_id :: "uuid option"
  rec_client_session_id :: string
  rec_client_thread_id :: string
  rec_model :: string
  rec_provider :: string
  rec_upstream_model :: "string option"
  rec_response_model :: "string option"
  rec_requested_tier :: "string option"
  rec_reasoning_effort :: "string option"
  rec_account_id :: "uuid option"
  rec_binding_id :: "uuid option"
  rec_binding_generation :: "int option"
  rec_state :: string
  rec_created_at :: datetime
  rec_finished_at :: "datetime option"
  rec_queue_ms :: "nat option"
  rec_first_event_ms :: "nat option"
  rec_first_content_ms :: "nat option"
  rec_total_ms :: "nat option"
  rec_upstream_status :: "nat option"
  rec_upstream_headers_ms :: "nat option"
  rec_upstream_request_id :: "string option"
  rec_error_code :: "string option"
  rec_error_message :: "string option"
  rec_upstream_error :: "upstream_error option"
  rec_usage :: usage
  rec_valuation :: "valuation option"
  rec_config_version :: int
  rec_config_versions :: "int list"
  rec_body_bytes :: nat
  rec_upstream_attempts :: nat

definition summary_only :: "request_record \<Rightarrow> bool" where
  "summary_only r \<longleftrightarrow>
     (case rec_request_log_level r of None \<Rightarrow> False | Some level \<Rightarrow> level \<noteq> LogDebug)
     \<and> rec_state r = ''completed'' \<and> rec_error_code r = None \<and> rec_upstream_error r = None
     \<and> us_complete (rec_usage r) \<and> rec_upstream_attempts r \<le> 1"

record execution =
  xn_response_headers :: header_list
  xn_ticket :: bool
  xn_record :: request_record
  xn_price :: "price option"
  xn_finalized :: bool
  xn_terminal_delivered :: bool
  xn_unary :: "json option"
  xn_raw_body :: "string option"
  xn_safety_rejection :: "err option"

text \<open>What a run does to the world: store calls, sends, bytes for the client, permissions.\<close>

datatype effect =
    BegunRecord request_record
  | Committed binding int
  | SavedMappings uuid "id_mapping list"
  | UpdatedRecord request_record
  | FinishedRecord request_record
  | Summarized request_record
  | Logged string
  | BeganSend
  | BeganRecovery
  | SentUpstream prepared_request
  | Delivered string
  | Heartbeat
  | QuotaSeen uuid int "quota_window list" "extra_credits option"
  | Disabled uuid int disable_reason
  | SavedRejection session_key err
  | Paused
  | BegunAgain

record run =
  rn_clock :: nat
  rn_xn :: execution
  rn_guard :: guard
  rn_trace :: "effect list"
  rn_completed :: nat
  rn_failed :: nat

text \<open>An error the code returns, or the future being dropped at an await.\<close>

datatype leaving = ClientClosed | GatewayShutdown

datatype stop = Failed err | Dropped leaving

fun leaving_error :: "leaving \<Rightarrow> err" where
  "leaving_error ClientClosed = err_cancelled"
| "leaving_error GatewayShutdown = error_new 503 ''gateway_shutdown'' ''The gateway is shutting down''"

fun stop_error :: "stop \<Rightarrow> err" where
  "stop_error (Failed e) = e"
| "stop_error (Dropped l) = leaving_error l"

type_synonym 'a prog = "(run, stop, 'a) comp"

text \<open>
  An answer to an await; and what a waiting loop (\<open>select!\<close>) wakes up for: changed settings,
  a heartbeat that is due, the awaited value, the deadline, the end of the future.
\<close>

datatype 'a reply = Answer "'a res" | Left leaving

datatype 'a wake = Changed | Beat | Ready "'a res" | Deadline | Gone leaving

record environment =
  en_settings :: "nat \<Rightarrow> runtime_settings"
  en_elapsed :: "nat \<Rightarrow> nat"
  en_now :: "nat \<Rightarrow> datetime"
  en_guard :: "nat \<Rightarrow> guard \<Rightarrow> guard"
  en_closed :: "nat \<Rightarrow> bool"
  en_unit :: "nat \<Rightarrow> unit reply"
  en_check :: "nat \<Rightarrow> unit res"
  en_models :: "nat \<Rightarrow> model_spec list reply"
  en_prices :: "nat \<Rightarrow> price list reply"
  en_search_price :: "nat \<Rightarrow> search_price reply"
  en_bindings :: "nat \<Rightarrow> binding list reply"
  en_mappings :: "nat \<Rightarrow> id_mapping list reply"
  en_credentials :: "nat \<Rightarrow> credentials reply"
  en_rejection :: "nat \<Rightarrow> (nat \<times> err) option reply"
  en_account :: "nat \<Rightarrow> account option"
  en_lease :: "nat \<Rightarrow> dispatch_lease wake list"
  en_response :: "nat \<Rightarrow> (nat \<times> header_list) wake list"
  en_body :: "nat \<Rightarrow> string wake list"
  en_chunks :: "nat \<Rightarrow> string option wake list"
  en_delivery :: "nat \<Rightarrow> unit wake list"

record 'd ports =
  po_validate :: "gateway_request \<Rightarrow> model_spec \<Rightarrow> unit res"
  po_prepare :: "gateway_request \<Rightarrow> model_spec \<Rightarrow> account \<Rightarrow> credentials \<Rightarrow> identity_map
    \<Rightarrow> (prepared_request \<times> identity_map \<times> json option) res"
  po_headers :: "header_list \<Rightarrow> quota_window list \<times> extra_credits option"
  po_http_error :: "nat \<Rightarrow> string \<Rightarrow> err \<times> disable_reason option"
  po_recover_http :: "request_kind \<Rightarrow> prepared_request \<Rightarrow> nat \<Rightarrow> string
    \<Rightarrow> (encrypted_recovery option \<times> prepared_request) res"
  po_recover_stream :: "prepared_request \<Rightarrow> encrypted_error \<Rightarrow> (encrypted_recovery option \<times> prepared_request) res"
  po_recoverable :: "prepared_request \<Rightarrow> bool"
  po_decoder :: 'd
  po_push :: "string \<Rightarrow> nat \<Rightarrow> 'd \<times> identity_map \<Rightarrow> (('d \<times> identity_map) \<times> gateway_event list) res"
  po_finish :: "'d \<Rightarrow> unit res"
  po_compact_response :: "string \<Rightarrow> observation res"
  po_image_response :: "string \<Rightarrow> usage res"
  po_search_response :: "string \<Rightarrow> usage res"
  po_encode :: "protocol_document \<Rightarrow> string res"
  po_heartbeat :: "uuid \<Rightarrow> string"
  po_failure :: "uuid \<Rightarrow> err \<Rightarrow> string"
  po_unary :: "protocol_document \<Rightarrow> json option"
  po_v5 :: "uuid \<Rightarrow> string \<Rightarrow> string"
  po_ops :: dec_ops

subsection \<open>Steps\<close>

definition lift :: "'a res \<Rightarrow> 'a prog" where
  "lift r = (case r of Inl e \<Rightarrow> act_fail (Failed e) | Inr x \<Rightarrow> act_return x)"

definition fail_with :: "err \<Rightarrow> 'a prog" where
  "fail_with e = act_fail (Failed e)"

definition tick :: "nat prog" where
  "tick w = (Inr (rn_clock w), w\<lparr>rn_clock := Suc (rn_clock w)\<rparr>)"

definition emit :: "effect \<Rightarrow> unit prog" where
  "emit x w = (Inr (), w\<lparr>rn_trace := rn_trace w @ [x]\<rparr>)"

definition change :: "(execution \<Rightarrow> execution) \<Rightarrow> unit prog" where
  "change f w = (Inr (), w\<lparr>rn_xn := f (rn_xn w)\<rparr>)"

definition change_record :: "(request_record \<Rightarrow> request_record) \<Rightarrow> unit prog" where
  "change_record f = change (\<lambda>x. x\<lparr>xn_record := f (xn_record x)\<rparr>)"

abbreviation record_of :: "run \<Rightarrow> request_record" where
  "record_of w \<equiv> xn_record (rn_xn w)"

text \<open>A value that does not need an await, at the time it is read; a call that may fail.\<close>

definition observe :: "(nat \<Rightarrow> 'a) \<Rightarrow> 'a prog" where
  "observe f = act_bind tick (\<lambda>t. act_return (f t))"

definition check :: "(nat \<Rightarrow> 'a res) \<Rightarrow> 'a prog" where
  "check f = act_bind tick (\<lambda>t. lift (f t))"

text \<open>At an await others run and may change the guard.\<close>

definition others :: "environment \<Rightarrow> unit prog" where
  "others env = act_bind tick (\<lambda>t w. (Inr (), w\<lparr>rn_guard := en_guard env t (rn_guard w)\<rparr>))"

definition ask :: "environment \<Rightarrow> (nat \<Rightarrow> 'a reply) \<Rightarrow> 'a prog" where
  "ask env f =
     act_then (others env) (act_bind tick (\<lambda>t.
       case f t of Answer r \<Rightarrow> lift r | Left l \<Rightarrow> act_fail (Dropped l)))"

text \<open>A store call with an effect: it may have taken place although it failed.\<close>

definition call :: "environment \<Rightarrow> effect \<Rightarrow> unit prog" where
  "call env x = act_then (emit x) (ask env (en_unit env))"

text \<open>Handling a returned error; a dropped future is not caught.\<close>

definition attempt_to :: "'a prog \<Rightarrow> 'a res prog" where
  "attempt_to m w =
     (case m w of
        (Inl (Failed e), w') \<Rightarrow> (Inr (Inl e), w')
      | (Inl (Dropped l), w') \<Rightarrow> (Inl (Dropped l), w')
      | (Inr x, w') \<Rightarrow> (Inr (Inr x), w'))"

definition run_when :: "bool \<Rightarrow> unit prog \<Rightarrow> unit prog" where
  "run_when b m = (if b then m else act_return ())"

definition push_version :: "int \<Rightarrow> int list \<Rightarrow> int list" where
  "push_version v vs = (if vs \<noteq> [] \<and> last vs = v then vs else vs @ [v])"

text \<open>\<open>note_config\<close>, of the settings in force\<close>

definition note_config :: "environment \<Rightarrow> unit prog" where
  "note_config env = act_bind (observe (en_settings env)) (\<lambda>cfg.
     change_record (\<lambda>r. r\<lparr>rec_config_versions := push_version (rs_version cfg) (rec_config_versions r)\<rparr>))"

text \<open>
  A waiting loop: \<open>head\<close> runs before every wake-up, \<open>beat\<close> at a heartbeat. A list of wake-ups
  that ends before the value stands for a client that leaves then; a loop without a
  deadline (\<open>None\<close>) is never woken by one.
\<close>

fun await_loop :: "environment \<Rightarrow> unit prog \<Rightarrow> unit prog \<Rightarrow> err option \<Rightarrow> 'a wake list \<Rightarrow> 'a prog" where
  "await_loop env head beat late [] = act_fail (Dropped ClientClosed)"
| "await_loop env head beat late (w # ws) =
     act_then head (act_then (others env)
       (case w of
          Changed \<Rightarrow> await_loop env head beat late ws
        | Beat \<Rightarrow> act_then beat (await_loop env head beat late ws)
        | Ready r \<Rightarrow> lift r
        | Deadline \<Rightarrow> (case late of None \<Rightarrow> await_loop env head beat late ws | Some e \<Rightarrow> fail_with e)
        | Gone l \<Rightarrow> act_fail (Dropped l)))"

subsection \<open>Delivery and the safety guard\<close>

definition err_backpressure :: err where
  "err_backpressure = error_new 504 ''downstream_backpressure_timeout''
     ''The client did not receive data before the configured deadline''"

definition deliver :: "environment \<Rightarrow> unit prog" where
  "deliver env = act_bind (observe (en_delivery env))
     (\<lambda>ws. await_loop env (act_return ()) (act_return ()) (Some err_backpressure)
        (map (\<lambda>w. case w of Ready (Inl _) \<Rightarrow> Ready (Inl err_cancelled) | _ \<Rightarrow> w) ws))"

definition send :: "environment \<Rightarrow> effect \<Rightarrow> unit prog" where
  "send env x = act_then (check (en_check env)) (act_then (emit x) (deliver env))"

definition session_of :: "request_record \<Rightarrow> session_key" where
  "session_of r = \<lparr>sk_key_id = rec_key_id r, sk_client_session_id = rec_client_session_id r\<rparr>"

definition check_session_safety :: "unit prog" where
  "check_session_safety = act_bind (act_read (\<lambda>w.
     if rec_stateless (record_of w) then Inr () else guard_check (session_of (record_of w)) (rn_guard w))) lift"

definition observe_safety_rejection :: "err \<Rightarrow> unit prog" where
  "observe_safety_rejection e w =
     (Inr (),
      if err_code e = ''upstream_content_policy_violation'' \<and> \<not> rec_stateless (record_of w)
         \<and> xn_safety_rejection (rn_xn w) = None
      then w\<lparr>rn_guard := guard_remember (session_of (record_of w)) e (rn_guard w),
             rn_xn := (rn_xn w)\<lparr>xn_safety_rejection := Some e\<rparr>\<rparr>
      else w)"

subsection \<open>Finding an account\<close>

definition wait_for_account :: "environment \<Rightarrow> 'd ports \<Rightarrow> gateway_request \<Rightarrow> dispatch_lease prog" where
  "wait_for_account env po rq =
     act_bind (act_read (\<lambda>w. (xn_ticket (rn_xn w), rec_group_id (record_of w)))) (\<lambda>(ticket, group_id).
     act_then (change (\<lambda>x. x\<lparr>xn_ticket := False\<rparr>))
     (act_then (if ticket then act_return ()
                else act_then (lift (ok_or err_storage (map_option (\<lambda>_. ()) group_id))) (check (en_check env)))
     (act_bind (observe (en_lease env)) (\<lambda>ws.
        await_loop env (note_config env) (run_when (gq_stream rq) (send env Heartbeat)) None ws))))"

definition err_model_disabled :: "string \<Rightarrow> err" where
  "err_model_disabled before = error_new 400 ''model_disabled'' (''The model was disabled before '' @ before)"

definition err_route_changed :: "string \<Rightarrow> err" where
  "err_route_changed before = error_new 409 ''model_route_changed'' (''The model route changed before '' @ before)"

text \<open>The model as it is configured now, unless it was disabled or rerouted.\<close>

definition find_model :: "(model_spec \<Rightarrow> bool) \<Rightarrow> model_spec list \<Rightarrow> model_spec option" where
  "find_model p ms = List.find (\<lambda>m. p m \<and> ms_enabled m) ms"

definition current_model ::
  "environment \<Rightarrow> 'd ports \<Rightarrow> gateway_request \<Rightarrow> model_spec \<Rightarrow> string \<Rightarrow> model_spec prog" where
  "current_model env po rq model before =
     act_bind (ask env (en_models env)) (\<lambda>ms.
     act_bind (lift (ok_or (err_model_disabled before) (find_model (\<lambda>m. ms_id m = ms_id model) ms))) (\<lambda>m.
       if ms_upstream m \<noteq> ms_upstream model then fail_with (err_route_changed before)
       else act_then (lift (po_validate po rq m)) (act_return m)))"

text \<open>The binding is stored before the lease counts as bound; after a lost
  acknowledgement only the stored binding itself tells that it was.\<close>

definition bind_lease :: "environment \<Rightarrow> bool \<Rightarrow> dispatch_lease \<Rightarrow> unit prog" where
  "bind_lease env stateless l =
     (if stateless then check (en_check env)
      else if dl_needs_commit l then
        act_bind (attempt_to (call env (Committed (dl_binding l) (dl_expected_generation l)))) (\<lambda>r.
          case r of
            Inr _ \<Rightarrow> act_return ()
          | Inl e \<Rightarrow>
              act_bind (attempt_to (ask env (en_bindings env))) (\<lambda>b.
                case b of
                  Inr bs \<Rightarrow>
                    if bs \<noteq> [] \<and> bd_id (last bs) = bd_id (dl_binding l) then act_return ()
                    else act_then (emit Paused) (fail_with e)
                | Inl _ \<Rightarrow> act_then (emit Paused) (fail_with e)))
      else act_return ())"

fun import_previous :: "environment \<Rightarrow> 'd ports \<Rightarrow> binding \<Rightarrow> binding list \<Rightarrow> identity_map \<Rightarrow> identity_map prog" where
  "import_previous env po b [] ids = act_return ids"
| "import_previous env po b (p # ps) ids =
     (if bd_id p = bd_id b then import_previous env po b ps ids
      else act_bind (ask env (en_mappings env)) (\<lambda>ms.
        import_previous env po b ps (import_legacy_aliases (po_v5 po) p ms ids)))"

definition load_ids :: "environment \<Rightarrow> 'd ports \<Rightarrow> bool \<Rightarrow> binding \<Rightarrow> identity_map prog" where
  "load_ids env po stateless b =
     act_bind (if stateless then act_return [] else ask env (en_mappings env)) (\<lambda>ms.
       if \<not> stateless \<and> 1 < bd_generation b
       then act_bind (ask env (en_bindings env)) (\<lambda>bs. import_previous env po b bs (identity_new (po_v5 po) b ms))
       else act_return (identity_new (po_v5 po) b ms))"

definition save_pending :: "environment \<Rightarrow> bool \<Rightarrow> identity_map \<Rightarrow> identity_map prog" where
  "save_pending env stateless ids =
     (let (pending, ids') = take_pending ids in
      act_then (run_when (\<not> stateless) (call env (SavedMappings (bd_id (ids_binding ids')) pending))) (act_return ids'))"

definition choose_price :: "environment \<Rightarrow> gateway_request \<Rightarrow> model_spec \<Rightarrow> unit prog" where
  "choose_price env rq model =
     (if gq_kind rq = Search
      then act_bind (ask env (en_search_price env)) (\<lambda>p. change_record (\<lambda>r. r\<lparr>rec_search_price := Some p\<rparr>))
      else act_bind (ask env (en_prices env)) (\<lambda>ps.
        change (\<lambda>x. x\<lparr>xn_price := List.find (\<lambda>p. pr_model p = ms_upstream model) ps\<rparr>)))"

definition assign_account :: "gateway_request \<Rightarrow> uuid \<Rightarrow> binding \<Rightarrow> nat \<Rightarrow> request_record \<Rightarrow> request_record" where
  "assign_account rq account_id b ms r = r
     \<lparr>rec_account_id := Some account_id,
      rec_binding_id := (if gq_stateless rq then None else Some (bd_id b)),
      rec_binding_generation := (if gq_stateless rq then None else Some (bd_generation b)),
      rec_queue_ms := Some ms\<rparr>"

text \<open>Taking the permission to send; \<open>None\<close> when the reservation was lost meanwhile.\<close>

definition take_send :: "environment \<Rightarrow> bool prog" where
  "take_send env =
     act_bind (attempt_to (check (en_check env))) (\<lambda>r.
       case r of
         Inr _ \<Rightarrow> act_then (emit BeganSend) (act_return True)
       | Inl e \<Rightarrow> if err_code e = ''reservation_invalidated'' then act_return False else fail_with e)"

type_synonym dispatch = "dispatch_lease \<times> identity_map \<times> prepared_request \<times> json option"

definition dispatch_round ::
  "environment \<Rightarrow> 'd ports \<Rightarrow> gateway_request \<Rightarrow> model_spec \<Rightarrow> dispatch option prog" where
  "dispatch_round env po rq model =
     act_bind (wait_for_account env po rq) (\<lambda>l.
     act_then check_session_safety
     (act_then (bind_lease env (gq_stateless rq) l)
     (act_bind (load_ids env po (gq_stateless rq) (dl_binding l)) (\<lambda>ids.
      act_bind (ask env (en_credentials env)) (\<lambda>cr.
      act_bind (act_bind (observe (en_account env)) (\<lambda>a. lift (ok_or err_not_found a))) (\<lambda>a.
        if \<not> acc_enabled a then act_return None
        else
          act_bind (current_model env po rq model ''dispatch'') (\<lambda>m.
          act_bind (observe (en_elapsed env)) (\<lambda>ms.
          act_then (change_record (assign_account rq (acc_id a) (dl_binding l) ms))
          (act_bind (lift (po_prepare po rq m a cr ids)) (\<lambda>(prepared, ids1, rewrite).
           act_bind (save_pending env (gq_stateless rq) ids1) (\<lambda>ids2.
           act_then (choose_price env rq model)
           (act_bind (take_send env) (\<lambda>sent.
             act_return (if sent then Some (l, ids2, prepared, rewrite) else None))))))))))))))"

text \<open>Rounds until a reservation lasts; with no round left the client has gone.\<close>

fun dispatch_loop ::
  "nat \<Rightarrow> environment \<Rightarrow> 'd ports \<Rightarrow> gateway_request \<Rightarrow> model_spec \<Rightarrow> dispatch prog" where
  "dispatch_loop 0 env po rq model = act_fail (Dropped ClientClosed)"
| "dispatch_loop (Suc n) env po rq model =
     act_bind (dispatch_round env po rq model) (\<lambda>r.
       case r of None \<Rightarrow> dispatch_loop n env po rq model | Some d \<Rightarrow> act_return d)"

subsection \<open>The end of a request\<close>

definition failure_stage :: "err \<Rightarrow> request_record \<Rightarrow> string" where
  "failure_stage e r =
     (if err_code e = ''session_safety_blocked'' then ''safety_policy''
      else if rec_upstream_status r \<noteq> None then ''upstream_response''
      else if 0 < rec_upstream_attempts r then ''upstream_transport'' else ''queue_or_prepare'')"

definition diagnose :: "err option \<Rightarrow> request_record \<Rightarrow> request_record" where
  "diagnose e r =
     (case (e, rec_ingress_diagnostics r) of
        (Some err, Some d) \<Rightarrow> r\<lparr>rec_ingress_diagnostics := Some
          (jput ''error'' (JObj [(''code'', JStr (err_code err)), (''message'', JStr (err_message err)),
                                 (''status'', JNum (PosInt (err_status err)))])
             (jput ''failure_stage'' (JStr (failure_stage err r)) d))\<rparr>
      | _ \<Rightarrow> r)"

definition valuate :: "dec_ops \<Rightarrow> price option \<Rightarrow> request_record \<Rightarrow> request_record" where
  "valuate ops price r =
     (if rec_upstream_attempts r = 0
      then r\<lparr>rec_usage := usage_default\<lparr>us_complete := True, us_source := ''not_executed''\<rparr>,
             rec_valuation := Some \<lparr>va_status = ''not_executed'', va_price_version = None,
               va_cny = Some (dec_of_nat 0), va_items = []\<rparr>\<rparr>
      else if rec_kind r = Search
      then r\<lparr>rec_valuation := Some (value_search ops (us_search_calls (rec_usage r)) (rec_search_price r))\<rparr>
      else r\<lparr>rec_valuation := Some (value_usage ops (rec_usage r) (rec_requested_tier r) price)\<rparr>)"

definition close_record :: "dec_ops \<Rightarrow> price option \<Rightarrow> datetime \<Rightarrow> nat \<Rightarrow> err option \<Rightarrow> request_record \<Rightarrow> request_record" where
  "close_record ops price now ms e r =
     valuate ops price (diagnose e (r
       \<lparr>rec_finished_at := Some now, rec_total_ms := Some ms,
        rec_state := (case e of None \<Rightarrow> ''completed''
          | Some err \<Rightarrow> if err_code err = ''client_cancelled'' then ''cancelled'' else ''failed''),
        rec_error_code := map_option err_code e, rec_error_message := map_option err_message e,
        rec_upstream_error := Option.bind e err_upstream\<rparr>))"

text \<open>\<open>store\<close> is how the record's last version is written: within the request's future, which
  may be dropped, or after it.\<close>

definition finalize :: "environment \<Rightarrow> 'd ports \<Rightarrow> (effect \<Rightarrow> unit prog) \<Rightarrow> err option \<Rightarrow> unit prog" where
  "finalize env po store e =
     act_bind (observe (\<lambda>t. (en_now env t, en_elapsed env t))) (\<lambda>(now, ms).
     act_then (change (\<lambda>x. x\<lparr>xn_record := close_record (po_ops po) (xn_price x) now ms e (xn_record x)\<rparr>))
     (act_bind (act_read record_of) (\<lambda>r.
      act_then (store (FinishedRecord r)) (change (\<lambda>x. x\<lparr>xn_finalized := True\<rparr>)))))"

subsection \<open>Recovery\<close>

definition restart_record :: "request_record \<Rightarrow> request_record" where
  "restart_record r = r
     \<lparr>rec_upstream_attempts := 2, rec_upstream_status := None, rec_upstream_headers_ms := None,
      rec_upstream_request_id := None, rec_first_event_ms := None, rec_first_content_ms := None,
      rec_response_model := None, rec_usage := usage_default\<rparr>"

definition write_record :: "environment \<Rightarrow> unit prog" where
  "write_record env = act_bind (act_read record_of) (\<lambda>r. call env (UpdatedRecord r))"

definition begin_recovery :: "environment \<Rightarrow> 'd ports \<Rightarrow> gateway_request \<Rightarrow> model_spec \<Rightarrow> unit prog" where
  "begin_recovery env po rq model =
     act_then (call env (Logged ''encrypted_reasoning_recovery''))
     (act_then (current_model env po rq model ''recovery'')
     (act_then (check (en_check env))
     (act_then (emit BeganRecovery)
     (act_then (change_record restart_record) (write_record env)))))"

subsection \<open>A response in one piece\<close>

definition err_unary_timeout :: "request_kind \<Rightarrow> err" where
  "err_unary_timeout kind = error_new 504
     (if is_image kind then ''image_timeout'' else if kind = Compact then ''compact_timeout'' else ''search_timeout'')
     ''Upstream JSON response timed out''"

definition err_unary_large :: "request_kind \<Rightarrow> err" where
  "err_unary_large kind = error_new 502
     (if is_image kind then ''image_response_too_large''
      else if kind = Compact then ''compact_response_too_large'' else ''search_response_too_large'')
     ''Upstream JSON response exceeds the configured limit''"

definition first_time :: "nat option \<Rightarrow> nat \<Rightarrow> nat option" where
  "first_time old ms = (case old of None \<Rightarrow> Some ms | Some t \<Rightarrow> Some t)"

definition note_first_event :: "environment \<Rightarrow> unit prog" where
  "note_first_event env = act_bind (observe (en_elapsed env)) (\<lambda>ms.
     change_record (\<lambda>r. r\<lparr>rec_first_event_ms := first_time (rec_first_event_ms r) ms\<rparr>))"

fun receive_body :: "environment \<Rightarrow> request_kind \<Rightarrow> string option wake list \<Rightarrow> string \<Rightarrow> string prog" where
  "receive_body env kind [] body = act_fail (Dropped ClientClosed)"
| "receive_body env kind (w # ws) body =
     act_then (note_config env) (act_then (others env)
       (case w of
          Changed \<Rightarrow> receive_body env kind ws body
        | Beat \<Rightarrow> receive_body env kind ws body
        | Deadline \<Rightarrow> fail_with (err_unary_timeout kind)
        | Gone l \<Rightarrow> act_fail (Dropped l)
        | Ready (Inl e) \<Rightarrow> fail_with e
        | Ready (Inr None) \<Rightarrow> act_return body
        | Ready (Inr (Some chunk)) \<Rightarrow>
            act_bind (observe (en_settings env)) (\<lambda>cfg.
              if rs_sse_event_limit_bytes cfg < length body + length chunk then fail_with (err_unary_large kind)
              else act_then (check (en_check env))
                (act_then (run_when (chunk \<noteq> []) (note_first_event env))
                  (receive_body env kind ws (body @ chunk))))))"

definition set_output_observed :: "bool option \<Rightarrow> request_record \<Rightarrow> request_record" where
  "set_output_observed b r =
     r\<lparr>rec_compaction := map_option (\<lambda>c. c\<lparr>cm_output_observed := b\<rparr>) (rec_compaction r)\<rparr>"

definition read_unary :: "'d ports \<Rightarrow> request_kind \<Rightarrow> string \<Rightarrow> unit prog" where
  "read_unary po kind body =
     (if kind = Compact then
        act_bind (lift (po_compact_response po body)) (\<lambda>ob.
          change_record (\<lambda>r. set_output_observed (ob_compaction_output ob)
            (r\<lparr>rec_response_model := ob_response_model ob,
               rec_usage := (case ob_usage ob of None \<Rightarrow> rec_usage r | Some u \<Rightarrow> u)\<rparr>)))
      else
        act_bind (lift (if is_image kind then po_image_response po body else po_search_response po body)) (\<lambda>u.
          change_record (\<lambda>r. r\<lparr>rec_usage := u\<rparr>)))"

definition receive_unary :: "environment \<Rightarrow> 'd ports \<Rightarrow> unit prog" where
  "receive_unary env po =
     act_bind (act_read (\<lambda>w. rec_kind (record_of w))) (\<lambda>kind.
     act_bind (observe (en_chunks env)) (\<lambda>ws.
     act_bind (receive_body env kind ws []) (\<lambda>body.
     act_then (read_unary po kind body)
     (act_bind (observe (en_elapsed env)) (\<lambda>ms.
      act_then (change_record (\<lambda>r. r\<lparr>rec_first_content_ms := Some ms\<rparr>))
      (act_then (finalize env po (call env) None)
      (act_then (check (en_check env))
        (change (\<lambda>x. x\<lparr>xn_raw_body := Some body, xn_terminal_delivered := True\<rparr>)))))))))"

subsection \<open>A stream of events\<close>

text \<open>
  What the loop over the stream keeps: decoder and identifiers, the request as it would be
  sent again, and the first events, held back while a recovery is still possible.
\<close>

record 'd stream =
  st_decoder :: 'd
  st_ids :: identity_map
  st_prepared :: prepared_request
  st_buffering :: bool
  st_preamble :: "string list"
  st_preamble_bytes :: nat

datatype 'd outcome = Continue "'d stream" | Retry prepared_request | Finished

fun send_all :: "environment \<Rightarrow> string list \<Rightarrow> unit prog" where
  "send_all env [] = act_return ()"
| "send_all env (b # bs) = act_then (send env (Delivered b)) (send_all env bs)"

text \<open>The held events are let go when one comes that is not part of the preamble.\<close>

definition hold_event ::
  "environment \<Rightarrow> 'd ports \<Rightarrow> gateway_request \<Rightarrow> gateway_event \<Rightarrow> 'd stream \<Rightarrow> 'd stream prog" where
  "hold_event env po rq ev st =
     (if \<not> st_buffering st then act_return st
      else act_bind (lift (po_encode po (ge_document ev))) (\<lambda>bytes.
        if ob_recovery_preamble (ge_observation ev) \<and> length (st_preamble st) < 16
           \<and> st_preamble_bytes st + length bytes \<le> 64 * 1024
        then act_then (check (en_check env))
          (act_return (st\<lparr>st_preamble := st_preamble st @ [bytes],
             st_preamble_bytes := st_preamble_bytes st + length bytes\<rparr>))
        else act_then (run_when (gq_stream rq) (send_all env (st_preamble st)))
          (act_then (check (en_check env)) (act_return (st\<lparr>st_buffering := False, st_preamble := []\<rparr>)))))"

definition note_observation :: "nat \<Rightarrow> observation \<Rightarrow> request_record \<Rightarrow> request_record" where
  "note_observation ms ob r =
     (let r1 = (case ob_response_model ob of None \<Rightarrow> r | Some m \<Rightarrow> r\<lparr>rec_response_model := Some m\<rparr>);
          r2 = (case ob_compaction_output ob of None \<Rightarrow> r1 | Some b \<Rightarrow> set_output_observed (Some b) r1);
          r3 = (if ob_content ob then r2\<lparr>rec_first_content_ms := first_time (rec_first_content_ms r2) ms\<rparr> else r2)
      in (case ob_usage ob of None \<Rightarrow> r3 | Some u \<Rightarrow> r3\<lparr>rec_usage := u\<rparr>))"

definition tell_account :: "environment \<Rightarrow> dispatch_lease \<Rightarrow> observation \<Rightarrow> unit prog" where
  "tell_account env l ob =
     act_then (call env (QuotaSeen (acc_id (dl_account l)) (acc_version (dl_account l)) (ob_quotas ob) (ob_extra_credits ob)))
       (case ob_disable_reason ob of
          None \<Rightarrow> act_return ()
        | Some reason \<Rightarrow> call env (Disabled (acc_id (dl_account l)) (acc_version (dl_account l)) reason))"

definition send_event :: "environment \<Rightarrow> 'd ports \<Rightarrow> gateway_event \<Rightarrow> unit prog" where
  "send_event env po ev =
     act_bind (lift (po_encode po (ge_document ev))) (\<lambda>bytes. send env (Delivered bytes))"

text \<open>The event that ends the response: the record is closed before the client sees it.\<close>

definition end_stream :: "environment \<Rightarrow> 'd ports \<Rightarrow> gateway_request \<Rightarrow> gateway_event \<Rightarrow> 'd outcome prog" where
  "end_stream env po rq ev =
     act_then (run_when (\<not> gq_stream rq) (change (\<lambda>x. x\<lparr>xn_unary := po_unary po (ge_document ev)\<rparr>)))
     (act_then (finalize env po (call env) (ob_error (ge_observation ev)))
     (act_then (run_when (gq_stream rq) (send_event env po ev))
     (act_then (change (\<lambda>x. x\<lparr>xn_terminal_delivered := True\<rparr>))
        (case ob_error (ge_observation ev) of None \<Rightarrow> act_return Finished | Some e \<Rightarrow> fail_with e))))"

text \<open>Whether the event starts a recovery, and the request as the provider left it.\<close>

definition try_recover ::
  "environment \<Rightarrow> 'd ports \<Rightarrow> gateway_request \<Rightarrow> model_spec \<Rightarrow> gateway_event \<Rightarrow> 'd stream
     \<Rightarrow> (bool \<times> prepared_request) prog" where
  "try_recover env po rq model ev st =
     (case ob_encrypted_rejection (ge_observation ev) of
        None \<Rightarrow> act_return (False, st_prepared st)
      | Some e \<Rightarrow>
          if \<not> st_buffering st then act_return (False, st_prepared st)
          else act_bind (lift (po_recover_stream po (st_prepared st) e)) (\<lambda>(cleanup, prepared).
            case cleanup of
              None \<Rightarrow> act_return (False, prepared)
            | Some _ \<Rightarrow> act_then (begin_recovery env po rq model) (act_return (True, prepared))))"

definition handle_event ::
  "environment \<Rightarrow> 'd ports \<Rightarrow> gateway_request \<Rightarrow> model_spec \<Rightarrow> dispatch_lease \<Rightarrow> gateway_event \<Rightarrow> 'd stream
     \<Rightarrow> 'd outcome prog" where
  "handle_event env po rq model l ev st =
     act_bind (try_recover env po rq model ev st) (\<lambda>(retry, prepared).
       if retry then act_return (Retry prepared)
       else
         act_bind (hold_event env po rq ev (st\<lparr>st_prepared := prepared\<rparr>)) (\<lambda>st1.
         act_bind (observe (en_elapsed env)) (\<lambda>ms.
         act_then (change_record (note_observation ms (ge_observation ev)))
         (act_then (tell_account env l (ge_observation ev))
           (if ob_terminal (ge_observation ev) then end_stream env po rq ev
            else act_then (run_when (gq_stream rq \<and> \<not> st_buffering st1) (send_event env po ev))
              (act_return (Continue st1)))))))"

fun handle_events ::
  "environment \<Rightarrow> 'd ports \<Rightarrow> gateway_request \<Rightarrow> model_spec \<Rightarrow> dispatch_lease \<Rightarrow> gateway_event list \<Rightarrow> 'd stream
     \<Rightarrow> 'd outcome prog" where
  "handle_events env po rq model l [] st = act_return (Continue st)"
| "handle_events env po rq model l (ev # evs) st =
     act_bind (handle_event env po rq model l ev st) (\<lambda>r.
       case r of Continue st' \<Rightarrow> handle_events env po rq model l evs st' | _ \<Rightarrow> act_return r)"

definition latch_rejections :: "gateway_event list \<Rightarrow> unit prog" where
  "latch_rejections evs =
     act_each observe_safety_rejection (List.map_filter (\<lambda>ev. ob_error (ge_observation ev)) evs)"

definition handle_chunk ::
  "environment \<Rightarrow> 'd ports \<Rightarrow> gateway_request \<Rightarrow> model_spec \<Rightarrow> dispatch_lease \<Rightarrow> string \<Rightarrow> 'd stream
     \<Rightarrow> 'd outcome prog" where
  "handle_chunk env po rq model l chunk st =
     act_then (check (en_check env))
     (act_bind (observe (en_settings env)) (\<lambda>cfg.
      act_bind (lift (po_push po chunk (rs_sse_event_limit_bytes cfg) (st_decoder st, st_ids st))) (\<lambda>((d, ids), evs).
      act_then (latch_rejections evs)
      (act_then (run_when (evs \<noteq> []) (note_first_event env))
      (act_bind (save_pending env (gq_stateless rq) ids) (\<lambda>ids'.
       act_bind (handle_events env po rq model l evs (st\<lparr>st_decoder := d, st_ids := ids'\<rparr>)) (\<lambda>r.
       act_then (case r of Continue _ \<Rightarrow> check (en_check env) | _ \<Rightarrow> act_return ()) (act_return r))))))))"

definition err_idle :: err where
  "err_idle = error_new 504 ''upstream_idle_timeout'' ''Upstream SSE idle timeout''"

definition err_interrupted :: err where
  "err_interrupted = error_new 502 ''stream_interrupted'' ''Upstream closed before a terminal event''"

text \<open>The loop over the stream; the result is the request to send again, if any.\<close>

fun stream_loop ::
  "environment \<Rightarrow> 'd ports \<Rightarrow> gateway_request \<Rightarrow> model_spec \<Rightarrow> dispatch_lease \<Rightarrow> string option wake list
     \<Rightarrow> 'd stream \<Rightarrow> prepared_request option prog" where
  "stream_loop env po rq model l [] st = act_fail (Dropped ClientClosed)"
| "stream_loop env po rq model l (w # ws) st =
     act_then (note_config env) (act_then (others env)
       (case w of
          Changed \<Rightarrow> stream_loop env po rq model l ws st
        | Deadline \<Rightarrow> fail_with err_idle
        | Beat \<Rightarrow>
            act_then (run_when (st_buffering st \<and> gq_stream rq) (send env Heartbeat))
              (stream_loop env po rq model l ws st)
        | Gone x \<Rightarrow> act_fail (Dropped x)
        | Ready (Inl e) \<Rightarrow> fail_with e
        | Ready (Inr None) \<Rightarrow> act_then (lift (po_finish po (st_decoder st))) (fail_with err_interrupted)
        | Ready (Inr (Some chunk)) \<Rightarrow>
            act_bind (handle_chunk env po rq model l chunk st) (\<lambda>r.
              case r of
                Continue st' \<Rightarrow> stream_loop env po rq model l ws st'
              | Retry prepared \<Rightarrow> act_return (Some prepared)
              | Finished \<Rightarrow> act_return None)))"

subsection \<open>An attempt\<close>

definition err_headers_timeout :: err where
  "err_headers_timeout = error_new 504 ''upstream_headers_timeout'' ''Upstream response headers timed out''"

definition err_body_timeout :: err where
  "err_body_timeout = error_new 504 ''upstream_error_body_timeout'' ''Upstream error response timed out''"

definition request_id_of :: "header_list \<Rightarrow> string option" where
  "request_id_of headers =
     (case map_of headers ''x-request-id'' of
        None \<Rightarrow> None
      | Some v \<Rightarrow> if visible_ascii v \<and> length v \<le> 256 then Some v else None)"

definition success :: "nat \<Rightarrow> bool" where
  "success status \<longleftrightarrow> 200 \<le> status \<and> status < 300"

text \<open>The checks right before a send; the attempts already made are what is charged.\<close>

definition clear_to_send :: "environment \<Rightarrow> nat \<Rightarrow> unit prog" where
  "clear_to_send env sent =
     act_bind (observe (en_closed env)) (\<lambda>closed.
       if closed then fail_with err_cancelled
       else act_bind (attempt_to check_session_safety) (\<lambda>r.
         case r of
           Inr _ \<Rightarrow> act_return ()
         | Inl e \<Rightarrow> act_then (change_record (\<lambda>r. r\<lparr>rec_upstream_attempts := sent\<rparr>)) (fail_with e)))"

definition note_headers :: "environment \<Rightarrow> nat \<Rightarrow> header_list \<Rightarrow> unit prog" where
  "note_headers env status headers =
     act_bind (observe (en_elapsed env)) (\<lambda>ms.
       change_record (\<lambda>r. r\<lparr>rec_upstream_status := Some status, rec_upstream_headers_ms := Some ms,
         rec_upstream_request_id := request_id_of headers\<rparr>))"

text \<open>A response that is no success: recovered from on the first attempt, else the error.\<close>

definition keep_raw_body :: "environment \<Rightarrow> string \<Rightarrow> unit prog" where
  "keep_raw_body env body =
     act_then (check (en_check env))
       (change (\<lambda>x. x\<lparr>xn_raw_body := Some body,
          xn_record := (xn_record x)\<lparr>rec_usage := (rec_usage (xn_record x))
            \<lparr>us_source := ''search_http_error'', us_complete := True\<rparr>\<rparr>\<rparr>))"

definition refuse ::
  "environment \<Rightarrow> 'd ports \<Rightarrow> gateway_request \<Rightarrow> dispatch_lease \<Rightarrow> nat \<Rightarrow> string \<Rightarrow> 'a prog" where
  "refuse env po rq l status body =
     (let (e, disable) = po_http_error po status body in
      act_then (observe_safety_rejection e)
      (act_then (run_when (gq_kind rq = Search) (keep_raw_body env body))
      (act_then (case disable of
          None \<Rightarrow> act_return ()
        | Some reason \<Rightarrow> call env (Disabled (acc_id (dl_account l)) (acc_version (dl_account l)) reason))
        (fail_with e))))"

definition handle_failure ::
  "environment \<Rightarrow> 'd ports \<Rightarrow> gateway_request \<Rightarrow> model_spec \<Rightarrow> dispatch_lease \<Rightarrow> nat \<Rightarrow> prepared_request
     \<Rightarrow> prepared_request option prog" where
  "handle_failure env po rq model l status prepared =
     act_bind (observe (en_body env)) (\<lambda>ws.
     act_bind (await_loop env (note_config env) (act_return ()) (Some err_body_timeout) ws) (\<lambda>body.
     act_bind (act_read (\<lambda>w. rec_upstream_attempts (record_of w))) (\<lambda>attempts.
       if attempts = 1 then
         act_bind (lift (po_recover_http po (gq_kind rq) prepared status body)) (\<lambda>(cleanup, prepared').
           case cleanup of
             Some _ \<Rightarrow> act_then (begin_recovery env po rq model) (act_return (Some prepared'))
           | None \<Rightarrow> refuse env po rq l status body)
       else refuse env po rq l status body)))"

definition keep_turn_state :: "gateway_request \<Rightarrow> header_list \<Rightarrow> unit prog" where
  "keep_turn_state rq headers =
     (case map_of headers turn_state_name of
        None \<Rightarrow> act_return ()
      | Some v \<Rightarrow> run_when (gq_kind rq = Compact)
          (change (\<lambda>x. x\<lparr>xn_response_headers := AList.update turn_state_name v (xn_response_headers x)\<rparr>)))"

definition stream_start :: "'d ports \<Rightarrow> nat \<Rightarrow> identity_map \<Rightarrow> prepared_request \<Rightarrow> 'd stream" where
  "stream_start po attempts ids prepared =
     \<lparr>st_decoder = po_decoder po, st_ids = ids, st_prepared = prepared,
      st_buffering = (attempts = 1 \<and> po_recoverable po prepared), st_preamble = [], st_preamble_bytes = 0\<rparr>"

text \<open>\<open>None\<close>: the request is served; otherwise what to send in the second attempt.\<close>

definition attempt ::
  "environment \<Rightarrow> 'd ports \<Rightarrow> gateway_request \<Rightarrow> model_spec \<Rightarrow> dispatch_lease \<Rightarrow> nat \<Rightarrow> identity_map
     \<Rightarrow> prepared_request \<Rightarrow> prepared_request option prog" where
  "attempt env po rq model l sent ids prepared =
     act_then (clear_to_send env sent)
     (act_then (emit (SentUpstream prepared))
     (act_bind (observe (en_response env)) (\<lambda>ws.
      act_bind (await_loop env (note_config env) (act_return ()) (Some err_headers_timeout) ws) (\<lambda>(status, headers).
      act_then (note_headers env status headers)
      (act_then (call env (Logged ''upstream_attempt_headers''))
      (act_then (call env (QuotaSeen (acc_id (dl_account l)) (acc_version (dl_account l))
          (fst (po_headers po headers)) (snd (po_headers po headers))))
      (if \<not> success status then handle_failure env po rq model l status prepared
       else act_then (keep_turn_state rq headers)
         (if gq_kind rq = Search \<or> gq_kind rq = Compact \<or> is_image (gq_kind rq)
          then act_then (receive_unary env po) (act_return None)
          else
            act_bind (act_read (\<lambda>w. rec_upstream_attempts (record_of w))) (\<lambda>attempts.
            act_bind (observe (en_chunks env)) (\<lambda>chunks.
              stream_loop env po rq model l chunks (stream_start po attempts ids prepared)))))))))))"

text \<open>
  The loop \<open>'attempt\<close>: a fuel of two is enough, since a recovery is only begun at the first
  attempt and sets the number of attempts to two (\<open>Gateway_Sends\<close>).
\<close>

fun attempt_loop ::
  "nat \<Rightarrow> environment \<Rightarrow> 'd ports \<Rightarrow> gateway_request \<Rightarrow> model_spec \<Rightarrow> dispatch_lease \<Rightarrow> nat \<Rightarrow> identity_map
     \<Rightarrow> prepared_request \<Rightarrow> unit prog" where
  "attempt_loop 0 env po rq model l sent ids prepared = act_then (emit BegunAgain) (act_fail (Dropped ClientClosed))"
| "attempt_loop (Suc n) env po rq model l sent ids prepared =
     act_bind (attempt env po rq model l sent ids prepared) (\<lambda>r.
       case r of
         None \<Rightarrow> act_return ()
       | Some prepared' \<Rightarrow> attempt_loop n env po rq model l (Suc sent) ids prepared')"

definition start_record :: "gateway_request \<Rightarrow> dispatch_lease \<Rightarrow> nat \<Rightarrow> request_record \<Rightarrow> request_record" where
  "start_record rq l ms r =
     (assign_account rq (acc_id (dl_account l)) (dl_binding l) ms r)
       \<lparr>rec_state := ''inflight'', rec_upstream_attempts := 1\<rparr>"

definition execute ::
  "nat \<Rightarrow> environment \<Rightarrow> 'd ports \<Rightarrow> gateway_request \<Rightarrow> model_spec \<Rightarrow> unit prog" where
  "execute rounds env po rq model =
     act_bind (dispatch_loop rounds env po rq model) (\<lambda>(l, ids, prepared, rewrite).
     act_bind (observe (en_elapsed env)) (\<lambda>ms.
     act_then (change_record (start_record rq l ms))
     (act_then (write_record env)
     (act_then (case rewrite of None \<Rightarrow> act_return () | Some _ \<Rightarrow> call env (Logged ''request_rewritten''))
     (act_then (call env (Logged ''dispatched''))
        (attempt_loop 2 env po rq model l 0 ids prepared))))))"

subsection \<open>The task of a request\<close>

text \<open>A call made after the request's future ended: nothing drops it any more.\<close>

definition settle :: "environment \<Rightarrow> effect \<Rightarrow> unit prog" where
  "settle env x = act_then (emit x) (act_then (others env) (check (en_check env)))"

definition or_pause :: "unit prog \<Rightarrow> unit prog" where
  "or_pause m = act_bind (attempt_to m) (\<lambda>r. case r of Inr _ \<Rightarrow> act_return () | Inl _ \<Rightarrow> emit Paused)"

definition or_ignore :: "unit prog \<Rightarrow> unit prog" where
  "or_ignore m = act_then (attempt_to m) (act_return ())"

definition save_rejection :: "environment \<Rightarrow> unit prog" where
  "save_rejection env = act_bind (act_read rn_xn) (\<lambda>x.
     case xn_safety_rejection x of
       None \<Rightarrow> act_return ()
     | Some e \<Rightarrow>
         run_when (\<not> rec_stateless (xn_record x))
           (or_pause (settle env (SavedRejection (session_of (xn_record x)) e))))"

definition close_request :: "environment \<Rightarrow> 'd ports \<Rightarrow> err option \<Rightarrow> unit prog" where
  "close_request env po e = act_bind (act_read rn_xn) (\<lambda>x.
     if \<not> xn_finalized x then or_pause (finalize env po (settle env) e)
     else run_when (e \<noteq> None \<and> \<not> xn_terminal_delivered x)
       (or_ignore (settle env (Logged ''delivery_interrupted''))))"

definition summarize :: "environment \<Rightarrow> err option \<Rightarrow> unit prog" where
  "summarize env e = act_bind (act_read rn_xn) (\<lambda>x.
     run_when (e = None \<and> xn_finalized x \<and> summary_only (xn_record x))
       (or_ignore (settle env (Summarized (xn_record x)))))"

definition report :: "environment \<Rightarrow> 'd ports \<Rightarrow> gateway_request \<Rightarrow> uuid \<Rightarrow> err option \<Rightarrow> unit prog" where
  "report env po rq i e = act_bind (act_read rn_xn) (\<lambda>x.
     case e of
       None \<Rightarrow> (\<lambda>w. (Inr (), w\<lparr>rn_completed := Suc (rn_completed w)\<rparr>))
     | Some err \<Rightarrow>
         act_then (\<lambda>w. (Inr (), w\<lparr>rn_failed := Suc (rn_failed w)\<rparr>))
           (act_bind (observe (en_closed env)) (\<lambda>closed.
             run_when (gq_stream rq \<and> \<not> xn_terminal_delivered x \<and> \<not> closed)
               (or_ignore (settle env (Delivered (po_failure po i err)))))))"

text \<open>The spawned task; its result is what the request's future ended with.\<close>

definition request_task ::
  "nat \<Rightarrow> environment \<Rightarrow> 'd ports \<Rightarrow> gateway_request \<Rightarrow> model_spec \<Rightarrow> uuid \<Rightarrow> run \<Rightarrow> err option \<times> run" where
  "request_task rounds env po rq model i w =
     (let (r, w1) = execute rounds env po rq model w;
          e = (case r of Inl s \<Rightarrow> Some (stop_error s) | Inr _ \<Rightarrow> None)
      in (e, snd (act_then (save_rejection env) (act_then (note_config env)
            (act_then (close_request env po e) (act_then (summarize env e) (report env po rq i e)))) w1)))"

record completion =
  co_headers :: header_list
  co_status :: nat
  co_body :: json
  co_raw_body :: "string option"

definition completion_of :: "uuid \<Rightarrow> string \<Rightarrow> err option \<Rightarrow> execution \<Rightarrow> completion" where
  "completion_of i id_text e x =
     (case e of
        Some err \<Rightarrow>
          \<lparr>co_headers = xn_response_headers x,
           co_status = (if xn_raw_body x \<noteq> None
             then (case rec_upstream_status (xn_record x) of None \<Rightarrow> err_status err | Some s \<Rightarrow> s)
             else min (err_status err) 599),
           co_body = JObj [(''error'', JObj [(''code'', JStr (err_code err)),
             (''message'', JStr (client_message err)), (''type'', JStr ''gateway_error'')]), (''request_id'', JStr id_text)],
           co_raw_body = xn_raw_body x\<rparr>
      | None \<Rightarrow>
          \<lparr>co_headers = xn_response_headers x,
           co_status = (if xn_raw_body x \<noteq> None
             then (case rec_upstream_status (xn_record x) of None \<Rightarrow> 200 | Some s \<Rightarrow> s) else 200),
           co_body = (case xn_unary x of
             None \<Rightarrow> JObj [(''id'', JStr id_text), (''status'', JStr ''completed'')] | Some v \<Rightarrow> v),
           co_raw_body = xn_raw_body x\<rparr>)"

subsection \<open>Admission\<close>

definition err_not_configured :: err where
  "err_not_configured = error_new 400 ''model_not_configured'' ''The requested model is not enabled in the gateway''"

definition new_record ::
  "uuid \<Rightarrow> gateway_key \<Rightarrow> gateway_request \<Rightarrow> model_spec \<Rightarrow> runtime_settings \<Rightarrow> datetime \<Rightarrow> nat \<Rightarrow> request_record" where
  "new_record i key rq model cfg now body_bytes =
     \<lparr>rec_request_log_level = Some (rs_log_level cfg),
      rec_client_turn_state = Some (gq_client_turn_state rq),
      rec_client_origin = Some (gq_client_origin rq), rec_stateless = gq_stateless rq,
      rec_ingress_diagnostics = gq_ingress_diagnostics rq, rec_kind = gq_kind rq,
      rec_compaction = gq_compaction rq, rec_stream = Some (gq_stream rq), rec_search_price = None,
      rec_id = i, rec_key_id = gk_id key, rec_group_id = Some (gk_group_id key),
      rec_client_session_id = (if gq_stateless rq then [] else ci_session_id (gq_identity rq)),
      rec_client_thread_id = (if gq_stateless rq then [] else ci_thread_id (gq_identity rq)),
      rec_model = gq_model rq, rec_provider = mr_provider (ms_upstream model),
      rec_upstream_model = Some (mr_model (ms_upstream model)), rec_response_model = None,
      rec_requested_tier = gq_requested_tier rq, rec_reasoning_effort = gq_reasoning_effort rq,
      rec_account_id = None, rec_binding_id = None, rec_binding_generation = None,
      rec_state = ''queued'', rec_created_at = now, rec_finished_at = None, rec_queue_ms = None,
      rec_first_event_ms = None, rec_first_content_ms = None, rec_total_ms = None,
      rec_upstream_status = None, rec_upstream_headers_ms = None, rec_upstream_request_id = None,
      rec_error_code = None, rec_error_message = None, rec_upstream_error = None,
      rec_usage = usage_default, rec_valuation = None, rec_config_version = rs_version cfg,
      rec_config_versions = [rs_version cfg], rec_body_bytes = body_bytes, rec_upstream_attempts = 0\<rparr>"

definition new_execution :: "request_record \<Rightarrow> execution" where
  "new_execution r =
     \<lparr>xn_response_headers = [], xn_ticket = True, xn_record = r, xn_price = None, xn_finalized = False,
      xn_terminal_delivered = False, xn_unary = None, xn_raw_body = None, xn_safety_rejection = None\<rparr>"

text \<open>A session the database knows as rejected is restored before it is checked again.\<close>

definition admit_session :: "environment \<Rightarrow> session_key \<Rightarrow> unit prog" where
  "admit_session env session =
     (let checked = act_bind (act_read (\<lambda>w. guard_check session (rn_guard w))) lift in
      act_then checked
      (act_then (act_bind (ask env (en_rejection env)) (\<lambda>r w.
          (Inr (), case r of None \<Rightarrow> w | Some (n, e) \<Rightarrow> w\<lparr>rn_guard := guard_restore session n e (rn_guard w)\<rparr>)))
        checked))"

definition admit ::
  "environment \<Rightarrow> 'd ports \<Rightarrow> uuid \<Rightarrow> gateway_key \<Rightarrow> gateway_request \<Rightarrow> nat \<Rightarrow> model_spec prog" where
  "admit env po i key rq body_bytes =
     act_bind (ask env (en_models env)) (\<lambda>ms.
     act_bind (lift (ok_or err_not_configured (find_model (\<lambda>m. ms_id m = gq_model rq) ms))) (\<lambda>model.
     act_then (lift (po_validate po rq model))
     (act_then (run_when (\<not> gq_stateless rq) (admit_session env
        \<lparr>sk_key_id = gk_id key, sk_client_session_id = ci_session_id (gq_identity rq)\<rparr>))
     (act_then (check (en_check env))
     (act_bind (observe (\<lambda>t. (en_settings env t, en_now env t))) (\<lambda>(cfg, now).
      act_then (change (\<lambda>_. new_execution (new_record i key rq model cfg now body_bytes)))
      (act_then (act_bind (act_read record_of) (\<lambda>r. call env (BegunRecord r)))
        (act_return model))))))))"

text \<open>The whole of \<open>start\<close>, with its task run to the end.\<close>

definition gateway_start ::
  "nat \<Rightarrow> environment \<Rightarrow> 'd ports \<Rightarrow> uuid \<Rightarrow> string \<Rightarrow> gateway_key \<Rightarrow> gateway_request \<Rightarrow> nat
     \<Rightarrow> run \<Rightarrow> (stop + completion) \<times> run" where
  "gateway_start rounds env po i id_text key rq body_bytes w =
     (case admit env po i key rq body_bytes w of
        (Inl s, w1) \<Rightarrow> (Inl s, w1)
      | (Inr model, w1) \<Rightarrow>
          (case request_task rounds env po rq model i w1 of
             (e, w2) \<Rightarrow> (Inr (completion_of i id_text e (rn_xn w2)), w2)))"

end
