(* ===== verification/Gateway_Quiet.thy ===== *)
theory Gateway_Quiet
  imports Gateway_Run
begin

section \<open>Steps of a request that neither send nor answer\<close>

text \<open>
  Most steps of a run do not touch what its guarantees are about: they send nothing upstream,
  show the client no event, write no record and leave the number of attempts and the session
  of the record as they are. \<open>run_condition\<close> is what a condition has to satisfy to be kept
  by all of them; its lemmas go through the operations of \<open>Gateway_Run\<close> once.
\<close>

fun quiet :: "effect \<Rightarrow> bool" where
  "quiet (BegunRecord r) = False"
| "quiet (UpdatedRecord r) = False"
| "quiet (FinishedRecord r) = False"
| "quiet BeganSend = False"
| "quiet BeganRecovery = False"
| "quiet (SentUpstream p) = False"
| "quiet (Delivered b) = False"
| "quiet BegunAgain = False"
| "quiet _ = True"

definition same_request :: "request_record \<Rightarrow> request_record \<Rightarrow> bool" where
  "same_request r r' \<longleftrightarrow>
     rec_upstream_attempts r = rec_upstream_attempts r' \<and> session_of r = session_of r' \<and> rec_stateless r = rec_stateless r'"

lemma same_request_refl: "same_request r r"
  by (simp add: same_request_def)

lemma same_request_updates [simp]:
  "same_request r (r\<lparr>rec_config_versions := vs\<rparr>)" "same_request r (r\<lparr>rec_search_price := p\<rparr>)"
  "same_request r (r\<lparr>rec_first_event_ms := t\<rparr>)" "same_request r (r\<lparr>rec_first_content_ms := t\<rparr>)"
  "same_request r (r\<lparr>rec_usage := u\<rparr>)"
  "same_request r (r\<lparr>rec_upstream_status := s, rec_upstream_headers_ms := t, rec_upstream_request_id := i\<rparr>)"
  "same_request r (assign_account rq a bd ms r)" "same_request r (note_observation ms ob r)"
  "same_request r (set_output_observed b (r\<lparr>rec_response_model := m, rec_usage := u\<rparr>))"
  by (simp_all add: same_request_def session_of_def assign_account_def note_observation_def set_output_observed_def
      Let_def split: option.split)

lemma same_request_close: "same_request r (close_record ops p now ms e r)"
  by (simp add: same_request_def session_of_def close_record_def valuate_def diagnose_def split: option.split)

text \<open>The steps that only wait, those with an effect, then those that change the execution.\<close>

locale await_condition = kept cond for cond :: "run \<Rightarrow> bool" +
  fixes env :: environment
  assumes cond_clock: "cond w \<Longrightarrow> cond (w\<lparr>rn_clock := t\<rparr>)"
    and cond_others: "cond w \<Longrightarrow> cond (w\<lparr>rn_guard := en_guard env t (rn_guard w)\<rparr>)"
begin

lemma keeps_lift: "keeps (lift r)"
  by (simp add: lift_def keeps_return keeps_fail split: sum.split)

lemma keeps_fail_with: "keeps (fail_with e)"
  by (simp add: fail_with_def keeps_fail)

lemma keeps_tick: "keeps tick"
  by (simp add: keeps_def tick_def cond_clock)

lemma keeps_observe: "keeps (observe f)"
  unfolding observe_def by (intro keeps_bind keeps_tick keeps_return)

lemma keeps_check: "keeps (check f)"
  unfolding check_def by (intro keeps_bind keeps_tick keeps_lift)

lemma keeps_others: "keeps (others env)"
  unfolding others_def by (intro keeps_bind keeps_tick) (simp add: keeps_def cond_others)

lemma keeps_ask: "keeps (ask env f)"
  unfolding ask_def
  by (intro keeps_then keeps_bind keeps_others keeps_tick) (simp add: keeps_lift keeps_fail split: reply.split)

lemma keeps_attempt_to:
  assumes "keeps m"
  shows "keeps (attempt_to m)"
proof (rule keepsI)
  fix w assume "cond w"
  with assms have "cond (snd (m w))" by (simp add: keeps_def)
  then show "cond (snd (attempt_to m w))" by (auto simp: attempt_to_def split: prod.split sum.split stop.split)
qed

lemma keeps_when: "keeps m \<Longrightarrow> keeps (run_when b m)"
  by (simp add: run_when_def keeps_return)

end

locale step_condition = await_condition +
  assumes cond_quiet: "quiet x \<Longrightarrow> cond w \<Longrightarrow> cond (w\<lparr>rn_trace := rn_trace w @ [x]\<rparr>)"
begin

lemma keeps_emit: "quiet x \<Longrightarrow> keeps (emit x)"
  by (simp add: keeps_def emit_def cond_quiet)

lemma keeps_call: "quiet x \<Longrightarrow> keeps (call env x)"
  unfolding call_def by (intro keeps_then keeps_emit keeps_ask)

lemma keeps_settle: "quiet x \<Longrightarrow> keeps (settle env x)"
  unfolding settle_def by (intro keeps_then keeps_emit keeps_others keeps_check)

lemma keeps_or_pause: "keeps m \<Longrightarrow> keeps (or_pause m)"
  unfolding or_pause_def
  by (intro keeps_bind keeps_attempt_to) (simp_all add: keeps_return keeps_emit split: sum.split)

lemma keeps_or_ignore: "keeps m \<Longrightarrow> keeps (or_ignore m)"
  unfolding or_ignore_def by (intro keeps_then keeps_attempt_to keeps_return)

lemma keeps_save_rejection: "keeps (save_rejection env)"
  unfolding save_rejection_def
  by (auto intro!: keeps_bind keeps_read keeps_return keeps_when keeps_or_pause keeps_settle split: option.split)

lemma keeps_summarize: "keeps (summarize env e)"
  unfolding summarize_def by (intro keeps_bind keeps_read keeps_when keeps_or_ignore keeps_settle) simp

end

locale run_condition = step_condition +
  assumes cond_change: "cond w \<Longrightarrow> same_request (record_of w) (xn_record xn) \<Longrightarrow> cond (w\<lparr>rn_xn := xn\<rparr>)"
begin

lemma keeps_change: "(\<And>x. same_request (xn_record x) (xn_record (f x))) \<Longrightarrow> keeps (change f)"
  by (simp add: keeps_def change_def cond_change)

lemma keeps_change_record: "(\<And>r. same_request r (f r)) \<Longrightarrow> keeps (change_record f)"
  unfolding change_record_def by (intro keeps_change) simp

lemmas keeps_steps = keeps_return keeps_fail keeps_read keeps_bind keeps_then keeps_lift keeps_fail_with
  keeps_tick keeps_observe keeps_check keeps_others keeps_ask keeps_emit keeps_call keeps_change
  keeps_change_record keeps_attempt_to keeps_when

lemma keeps_note_config: "keeps (note_config env)"
  unfolding note_config_def by (intro keeps_steps) simp

lemma keeps_await: "keeps head \<Longrightarrow> keeps beat \<Longrightarrow> keeps (await_loop env head beat late ws)"
  by (induction ws) (auto intro!: keeps_steps split: wake.split option.split)

lemma keeps_deliver: "keeps (deliver env)"
  unfolding deliver_def by (intro keeps_steps keeps_await)

lemma keeps_send: "quiet x \<Longrightarrow> keeps (send env x)"
  unfolding send_def by (intro keeps_steps keeps_deliver)

lemma keeps_safety: "keeps check_session_safety"
  unfolding check_session_safety_def by (intro keeps_steps)

lemma keeps_wait: "keeps (wait_for_account env po rq)"
  unfolding wait_for_account_def
  by (intro keeps_steps keeps_await keeps_note_config keeps_send)
    (auto intro!: keeps_steps keeps_await keeps_note_config keeps_send simp: same_request_refl)

lemma keeps_current_model: "keeps (current_model env po rq model before)"
  unfolding current_model_def by (intro keeps_steps) (auto intro!: keeps_steps)

lemma keeps_bind_lease: "keeps (bind_lease env stateless l)"
  unfolding bind_lease_def by (auto intro!: keeps_steps split: sum.split)

lemma keeps_import: "keeps (import_previous env po b ps ids)"
  by (induction ps arbitrary: ids) (auto intro!: keeps_steps)

lemma keeps_load_ids: "keeps (load_ids env po stateless b)"
  unfolding load_ids_def by (auto intro!: keeps_steps keeps_import)

lemma keeps_save_pending: "keeps (save_pending env stateless ids)"
  unfolding save_pending_def Let_def by (auto intro!: keeps_steps split: prod.split)

lemma keeps_choose_price: "keeps (choose_price env rq model)"
  unfolding choose_price_def by (auto intro!: keeps_steps simp: same_request_refl)

lemma keeps_note_first_event: "keeps (note_first_event env)"
  unfolding note_first_event_def by (intro keeps_steps) simp

lemma keeps_receive_body: "keeps (receive_body env kind ws body)"
  by (induction ws arbitrary: body)
    (auto intro!: keeps_steps keeps_note_config keeps_note_first_event split: wake.split sum.split option.split)

lemma keeps_read_unary: "keeps (read_unary po kind body)"
  unfolding read_unary_def by (auto intro!: keeps_steps)

lemma keeps_tell_account: "keeps (tell_account env l ob)"
  unfolding tell_account_def by (auto intro!: keeps_steps split: option.split)

lemma keeps_note_headers: "keeps (note_headers env status headers)"
  unfolding note_headers_def by (intro keeps_steps) simp

lemma keeps_keep_turn_state: "keeps (keep_turn_state rq headers)"
  unfolding keep_turn_state_def by (auto intro!: keeps_steps simp: same_request_refl split: option.split)

lemma keeps_raw_body: "keeps (keep_raw_body env body)"
  unfolding keep_raw_body_def by (auto intro!: keeps_steps simp: same_request_def session_of_def)

end

end
