(* ===== verification/Gateway_Sends.thy ===== *)
theory Gateway_Sends
  imports Gateway_Quiet
begin

section \<open>What a request may send and show\<close>

text \<open>
  A reading of the trace: how often the request was sent and was permitted to be sent, whether
  the client has seen an event, the attempts in the record as last written and whether the
  record was closed. \<open>se_good\<close> says that every send was permitted, journaled before and made
  while the client had seen nothing and the record was open, and that every record that
  closes the request accounts for its sends.
\<close>

record seen =
  se_sends :: nat
  se_permits :: nat
  se_shown :: bool
  se_journal :: nat
  se_closed :: bool
  se_good :: bool

definition nothing_seen :: seen where
  "nothing_seen = \<lparr>se_sends = 0, se_permits = 0, se_shown = False, se_journal = 0, se_closed = False, se_good = True\<rparr>"

fun see :: "effect \<Rightarrow> seen \<Rightarrow> seen" where
  "see (SentUpstream p) s = s
     \<lparr>se_sends := Suc (se_sends s),
      se_good := se_good s \<and> se_sends s < se_permits s \<and> se_sends s < se_journal s
        \<and> \<not> se_shown s \<and> \<not> se_closed s\<rparr>"
| "see BeganSend s = s\<lparr>se_permits := Suc (se_permits s)\<rparr>"
| "see BeganRecovery s = s\<lparr>se_permits := Suc (se_permits s)\<rparr>"
| "see (Delivered b) s = s\<lparr>se_shown := True\<rparr>"
| "see (UpdatedRecord r) s = s\<lparr>se_journal := rec_upstream_attempts r\<rparr>"
| "see (FinishedRecord r) s = s
     \<lparr>se_closed := True,
      se_good := se_good s \<and> se_sends s \<le> rec_upstream_attempts r \<and> rec_upstream_attempts r \<le> se_sends s + 1\<rparr>"
| "see BegunAgain s = s\<lparr>se_good := False\<rparr>"
| "see _ s = s"

definition scan :: "effect list \<Rightarrow> seen" where
  "scan tr = fold see tr nothing_seen"

lemma scan_simps [simp]: "scan [] = nothing_seen" "scan (tr @ [x]) = see x (scan tr)"
  by (simp_all add: scan_def)

lemma see_quiet: "quiet x \<Longrightarrow> see x s = s"
  by (cases x) simp_all

abbreviation attempts_of :: "run \<Rightarrow> nat" where
  "attempts_of w \<equiv> rec_upstream_attempts (record_of w)"

definition sound :: "run \<Rightarrow> bool" where
  "sound w \<longleftrightarrow>
     se_good (scan (rn_trace w)) \<and> se_sends (scan (rn_trace w)) \<le> attempts_of w
     \<and> attempts_of w \<le> se_sends (scan (rn_trace w)) + 1 \<and> attempts_of w \<le> 2"

text \<open>Sends, permissions, journaled attempts, attempts, and whether an event was shown.\<close>

definition stage :: "nat \<Rightarrow> nat \<Rightarrow> nat \<Rightarrow> nat \<Rightarrow> bool set \<Rightarrow> run \<Rightarrow> bool" where
  "stage n p j a S w \<longleftrightarrow>
     (\<exists>sh\<in>S. scan (rn_trace w) = \<lparr>se_sends = n, se_permits = p, se_shown = sh, se_journal = j, se_closed = False, se_good = True\<rparr>)
     \<and> attempts_of w = a"

lemma stage_unseen:
  "stage n p j a {False} w \<longleftrightarrow>
     scan (rn_trace w) = \<lparr>se_sends = n, se_permits = p, se_shown = False, se_journal = j, se_closed = False, se_good = True\<rparr> \<and> attempts_of w = a"
  by (simp add: stage_def)

lemma stage_sound: "stage n p j a S w \<Longrightarrow> n \<le> a \<Longrightarrow> a \<le> n + 1 \<Longrightarrow> a \<le> 2 \<Longrightarrow> sound w"
  by (auto simp: stage_def sound_def)

lemma stage_weaken: "stage n p j a S w \<Longrightarrow> S \<subseteq> T \<Longrightarrow> stage n p j a T w"
  by (auto simp: stage_def)

interpretation stage: run_condition "stage n p j a S" env for n p j a S env
  by unfold_locales (auto simp: stage_def see_quiet same_request_def)

interpretation sound: run_condition sound env for env
  by unfold_locales (auto simp: sound_def see_quiet same_request_def)

subsection \<open>Rules\<close>

lemma stage_keeps:
  assumes "stage.keeps n p j a S m" and "n \<le> a" and "a \<le> n + 1" and "a \<le> 2"
  shows "runs (stage n p j a S) m (\<lambda>_. stage n p j a S) (\<lambda>_. sound)"
  by (rule runs_conseq [OF stage.keeps_runs [OF assms(1)]]) (auto intro: stage_sound [OF _ assms(2-4)])

lemma runs_emit: "(\<And>w. P w \<Longrightarrow> Q () (w\<lparr>rn_trace := rn_trace w @ [x]\<rparr>)) \<Longrightarrow> runs P (emit x) Q E"
  by (simp add: runs_def emit_def)

lemma runs_change: "(\<And>w. P w \<Longrightarrow> Q () (w\<lparr>rn_xn := f (rn_xn w)\<rparr>)) \<Longrightarrow> runs P (change f) Q E"
  by (simp add: runs_def change_def)

lemma runs_change_record:
  "(\<And>w. P w \<Longrightarrow> Q () (w\<lparr>rn_xn := (rn_xn w)\<lparr>xn_record := f (record_of w)\<rparr>\<rparr>)) \<Longrightarrow> runs P (change_record f) Q E"
  unfolding change_record_def by (rule runs_change) simp

lemma runs_attempt_to:
  assumes "runs P m (\<lambda>x. Q (Inr x)) (\<lambda>s w. case s of Failed e \<Rightarrow> Q (Inl e) w | Dropped l \<Rightarrow> E s w)"
  shows "runs P (attempt_to m) Q E"
  unfolding runs_def
proof (intro allI impI)
  fix w assume "P w"
  with assms have "case m w of (Inr x, w') \<Rightarrow> Q (Inr x) w' | (Inl s, w') \<Rightarrow> (case s of Failed e \<Rightarrow> Q (Inl e) w' | Dropped l \<Rightarrow> E s w')"
    by (simp add: runs_def)
  then show "case attempt_to m w of (Inr x, w') \<Rightarrow> Q x w' | (Inl e, w') \<Rightarrow> E e w'"
    by (auto simp: attempt_to_def split: prod.splits sum.splits stop.splits)
qed

lemma runs_fail_with: "(\<And>w. P w \<Longrightarrow> E (Failed e) w) \<Longrightarrow> runs P (fail_with e) Q E"
  unfolding fail_with_def by (rule runs_fail)

subsection \<open>Before the first send\<close>

abbreviation waiting :: "run \<Rightarrow> bool" where
  "waiting \<equiv> stage 0 0 0 0 {False}"

abbreviation permitted :: "run \<Rightarrow> bool" where
  "permitted \<equiv> stage 0 1 0 0 {False}"

lemma take_send_stage:
  "runs waiting (take_send env) (\<lambda>b. if b then permitted else waiting) (\<lambda>_. sound)"
  unfolding take_send_def
proof (rule runs_bind)
  show "runs waiting (attempt_to (check (en_check env))) (\<lambda>_. waiting) (\<lambda>_. sound)"
    by (rule stage_keeps) (intro stage.keeps_steps, simp_all)
next
  fix r :: "unit res"
  have perm: "runs waiting (emit BeganSend) (\<lambda>_. permitted) (\<lambda>_. sound)"
    by (rule runs_emit) (auto simp: stage_def)
  show "runs waiting (case r of
      Inl e \<Rightarrow> if err_code e = ''reservation_invalidated'' then act_return False else fail_with e
    | Inr _ \<Rightarrow> act_then (emit BeganSend) (act_return True)) (\<lambda>b. if b then permitted else waiting) (\<lambda>_. sound)"
  proof (cases r)
    case (Inl e)
    then show ?thesis by (auto intro!: runs_return runs_fail_with intro: stage_sound)
  next
    case (Inr u)
    then show ?thesis by (auto intro!: runs_then [OF perm] runs_return)
  qed
qed

definition chosen :: "'a option \<Rightarrow> run \<Rightarrow> bool" where
  "chosen r w = (case r of None \<Rightarrow> waiting w | Some _ \<Rightarrow> permitted w)"

lemma dispatch_round_stage: "runs waiting (dispatch_round env po rq model) chosen (\<lambda>_. sound)"
proof -
  have keep: "runs waiting m (\<lambda>_. waiting) (\<lambda>_. sound)" if "stage.keeps 0 0 0 0 {False} m" for m :: "'b prog"
    by (rule stage_keeps [OF that]) simp_all
  have last: "runs waiting (act_bind (take_send env) (\<lambda>sent. act_return (if sent then Some x else None))) chosen (\<lambda>_. sound)" for x :: dispatch
    by (rule runs_bind [OF take_send_stage]) (auto intro!: runs_return simp: chosen_def)
  show ?thesis
    unfolding dispatch_round_def
    by (rule runs_bind runs_then runs_case_prod runs_if keep stage.keeps_wait stage.keeps_safety
        stage.keeps_bind_lease stage.keeps_load_ids stage.keeps_ask stage.keeps_bind stage.keeps_observe
        stage.keeps_lift stage.keeps_current_model stage.keeps_change_record stage.keeps_save_pending
        stage.keeps_choose_price last same_request_updates
      | (rule runs_return, simp add: chosen_def))+
qed

lemma chosen_simps: "chosen None = waiting" "chosen (Some d) = permitted"
  by (simp_all add: chosen_def fun_eq_iff)

lemma dispatch_loop_stage: "runs waiting (dispatch_loop n env po rq model) (\<lambda>_. permitted) (\<lambda>_. sound)"
proof (induction n)
  case 0
  then show ?case by (auto intro!: runs_fail intro: stage_sound)
next
  case (Suc n)
  have "runs (chosen r) (case r of None \<Rightarrow> dispatch_loop n env po rq model | Some d \<Rightarrow> act_return d) (\<lambda>_. permitted) (\<lambda>_. sound)" for r
    using Suc by (cases r) (auto simp: chosen_simps intro!: runs_return)
  then show ?case unfolding dispatch_loop.simps by (rule runs_bind [OF dispatch_round_stage])
qed

subsection \<open>Recovery\<close>

lemma write_record_stage:
  assumes "n \<le> a" and "a \<le> n + 1" and "a \<le> 2"
  shows "runs (stage n p j a S) (write_record env) (\<lambda>_. stage n p a a S) (\<lambda>_. sound)"
  unfolding write_record_def call_def
proof (rule runs_bind)
  show "runs (stage n p j a S) (act_read record_of) (\<lambda>r w. stage n p j a S w \<and> rec_upstream_attempts r = a) (\<lambda>_. sound)"
    by (rule runs_read) (simp add: stage_def)
next
  fix r
  have "runs (stage n p a a S) (ask env (en_unit env)) (\<lambda>_. stage n p a a S) (\<lambda>_. sound)"
    by (rule stage_keeps [OF stage.keeps_ask assms])
  then show "runs (\<lambda>w. stage n p j a S w \<and> rec_upstream_attempts r = a)
      (act_then (emit (UpdatedRecord r)) (ask env (en_unit env))) (\<lambda>_. stage n p a a S) (\<lambda>_. sound)"
    by (intro runs_then) (rule runs_emit, auto simp: stage_def)
qed

abbreviation recovering :: "run \<Rightarrow> bool" where
  "recovering \<equiv> stage 1 2 2 2 {False}"

lemma begin_recovery_stage:
  "runs (stage 1 1 1 1 {False}) (begin_recovery env po rq model) (\<lambda>_. recovering) (\<lambda>_. sound)"
  unfolding begin_recovery_def
proof (intro runs_then)
  have keep: "runs (stage 1 1 1 1 {False}) m (\<lambda>_. stage 1 1 1 1 {False}) (\<lambda>_. sound)" if "stage.keeps 1 1 1 1 {False} m" for m :: "'b prog"
    by (rule stage_keeps [OF that]) simp_all
  show "runs (stage 1 1 1 1 {False}) (call env (Logged ''encrypted_reasoning_recovery'')) (\<lambda>_. stage 1 1 1 1 {False}) (\<lambda>_. sound)"
    by (rule keep) (simp add: stage.keeps_call)
  show "runs (stage 1 1 1 1 {False}) (current_model env po rq model ''recovery'') (\<lambda>_. stage 1 1 1 1 {False}) (\<lambda>_. sound)"
    by (rule keep [OF stage.keeps_current_model])
  show "runs (stage 1 1 1 1 {False}) (check (en_check env)) (\<lambda>_. stage 1 1 1 1 {False}) (\<lambda>_. sound)"
    by (rule keep [OF stage.keeps_check])
  show "runs (stage 1 1 1 1 {False}) (emit BeganRecovery) (\<lambda>_. stage 1 2 1 1 {False}) (\<lambda>_. sound)"
    by (rule runs_emit) (simp add: stage_unseen)
  show "runs (stage 1 2 1 1 {False}) (change_record restart_record) (\<lambda>_. stage 1 2 1 2 {False}) (\<lambda>_. sound)"
    by (rule runs_change_record) (simp add: stage_unseen restart_record_def)
  show "runs (stage 1 2 1 2 {False}) (write_record env) (\<lambda>_. recovering) (\<lambda>_. sound)"
    by (rule write_record_stage) simp_all
qed

subsection \<open>Closing the record\<close>

text \<open>Once the client may have seen an event only \<open>sound\<close> matters.\<close>

lemma sound_emit_delivered: "sound.keeps (emit (Delivered b))"
  by (rule sound.keepsI) (simp add: emit_def sound_def)

lemma sound_send: "sound.keeps (send env (Delivered b))"
  unfolding send_def by (intro sound.keeps_steps sound_emit_delivered sound.keeps_deliver)

lemma sound_send_event: "sound.keeps (send_event env po ev)"
  unfolding send_event_def by (intro sound.keeps_steps sound_send)

lemma sound_finish:
  assumes "sound.keeps rest"
  shows "runs (\<lambda>w. sound w \<and> rec_upstream_attempts r = attempts_of w) (act_then (emit (FinishedRecord r)) rest) (\<lambda>_. sound) (\<lambda>_. sound)"
  by (rule runs_then [OF _ sound.keeps_runs [OF assms]]) (rule runs_emit, auto simp: sound_def)

lemma finalize_sound:
  assumes "\<And>r. store (FinishedRecord r) = act_then (emit (FinishedRecord r)) rest" and "sound.keeps rest"
  shows "sound.keeps (finalize env po store e)"
proof -
  have "runs sound (finalize env po store e) (\<lambda>_. sound) (\<lambda>_. sound)"
    unfolding finalize_def
  proof (rule runs_bind [OF sound.keeps_runs [OF sound.keeps_observe]], rule runs_case_prod, rule runs_then)
    fix now ms
    show "runs sound (change (\<lambda>x. x\<lparr>xn_record := close_record (po_ops po) (xn_price x) now ms e (xn_record x)\<rparr>)) (\<lambda>_. sound) (\<lambda>_. sound)"
      by (rule sound.keeps_runs) (intro sound.keeps_change, simp add: same_request_close)
    show "runs sound (act_bind (act_read record_of) (\<lambda>r. act_then (store (FinishedRecord r)) (change (\<lambda>x. x\<lparr>xn_finalized := True\<rparr>))))
        (\<lambda>_. sound) (\<lambda>_. sound)"
    proof (rule runs_bind)
      show "runs sound (act_read record_of) (\<lambda>r w. sound w \<and> rec_upstream_attempts r = attempts_of w) (\<lambda>_. sound)"
        by (rule runs_read) simp
    next
      fix r
      show "runs (\<lambda>w. sound w \<and> rec_upstream_attempts r = attempts_of w)
          (act_then (store (FinishedRecord r)) (change (\<lambda>x. x\<lparr>xn_finalized := True\<rparr>))) (\<lambda>_. sound) (\<lambda>_. sound)"
        unfolding assms(1)
        by (rule runs_then [OF sound_finish [OF assms(2)]])
          (rule sound.keeps_runs, intro sound.keeps_change, simp add: same_request_refl)
    qed
  qed
  then show ?thesis by (simp add: sound.keeps_def runs_same)
qed

lemma finalize_call: "sound.keeps (finalize env po (call env) e)"
  by (rule finalize_sound [of "call env" "ask env (en_unit env)"]) (simp_all add: call_def sound.keeps_ask)

lemma finalize_settle: "sound.keeps (finalize env po (settle env) e)"
  by (rule finalize_sound [of "settle env" "act_then (others env) (check (en_check env))"])
    (simp_all add: settle_def sound.keeps_steps)

lemma receive_unary_sound: "sound.keeps (receive_unary env po)"
  unfolding receive_unary_def
  by (intro sound.keeps_steps sound.keeps_receive_body sound.keeps_read_unary finalize_call) (simp_all add: same_request_refl)

lemma end_stream_sound: "sound.keeps (end_stream env po rq ev)"
  unfolding end_stream_def
  by (intro sound.keeps_steps finalize_call sound_send_event)
    (auto simp: same_request_refl intro!: sound.keeps_steps split: option.split)

subsection \<open>Streams\<close>

text \<open>While events are held back the client has seen nothing; only the first attempt holds them.\<close>

definition streaming :: "nat \<Rightarrow> 'd stream \<Rightarrow> run \<Rightarrow> bool" where
  "streaming k st w \<longleftrightarrow>
     stage k k k k (if st_buffering st then {False} else UNIV) w \<and> (st_buffering st \<longrightarrow> k = 1)"

text \<open>A recovery was begun, at the first attempt.\<close>

definition recovered :: "nat \<Rightarrow> run \<Rightarrow> bool" where
  "recovered k w \<longleftrightarrow> recovering w \<and> k = 1"

fun outcome_ok :: "nat \<Rightarrow> 'd outcome \<Rightarrow> run \<Rightarrow> bool" where
  "outcome_ok k (Continue st) w = streaming k st w"
| "outcome_ok k (Retry p) w = recovered k w"
| "outcome_ok k Finished w = sound w"

lemma outcome_ok_eq:
  "outcome_ok k (Continue st) = streaming k st" "outcome_ok k (Retry p) = recovered k" "outcome_ok k Finished = sound"
  by (simp_all add: fun_eq_iff)

lemma streaming_sound: "streaming k st w \<Longrightarrow> k \<le> 2 \<Longrightarrow> sound w"
  by (auto simp: streaming_def intro: stage_sound split: if_splits)

lemma streaming_keeps:
  assumes "k \<le> 2" and "\<And>S. stage.keeps k k k k S m"
  shows "runs (streaming k st) m (\<lambda>_. streaming k st) (\<lambda>_. sound)"
proof -
  have "runs (\<lambda>w. stage k k k k S w \<and> b) m (\<lambda>_ w. stage k k k k S w \<and> b) (\<lambda>_. sound)" for S b
    using stage_keeps [OF assms(2), of S] assms(1) by (cases b) (auto simp: runs_def)
  then show ?thesis unfolding streaming_def .
qed

lemma streaming_free: "\<not> st_buffering st \<Longrightarrow> streaming k st = stage k k k k UNIV"
  by (simp add: streaming_def fun_eq_iff)

lemma streaming_held: "st_buffering st \<Longrightarrow> streaming k st w \<longleftrightarrow> stage 1 1 1 1 {False} w \<and> k = 1"
  by (auto simp: streaming_def)

lemma free_emit_delivered: "stage.keeps n p j a UNIV (emit (Delivered b))"
  by (rule stage.keepsI) (auto simp: emit_def stage_def)

lemma free_send: "stage.keeps n p j a UNIV (send env (Delivered b))"
  unfolding send_def by (intro stage.keeps_steps free_emit_delivered stage.keeps_deliver)

lemma free_send_all: "stage.keeps n p j a UNIV (send_all env bs)"
  by (induction bs) (auto intro!: stage.keeps_steps free_send)

lemma free_send_event: "stage.keeps n p j a UNIV (send_event env po ev)"
  unfolding send_event_def by (intro stage.keeps_steps free_send)

lemma try_recover_stage:
  assumes "k \<le> 2"
  shows "runs (streaming k st) (try_recover env po rq model ev st)
    (\<lambda>(retry, p). if retry then recovered k else streaming k (st\<lparr>st_prepared := p\<rparr>)) (\<lambda>_. sound)"
proof -
  have same: "streaming k (st\<lparr>st_prepared := p\<rparr>) = streaming k st" for p
    by (simp add: streaming_def fun_eq_iff)
  show ?thesis
  proof (cases "ob_encrypted_rejection (ge_observation ev)")
    case None
    then show ?thesis by (auto simp: try_recover_def same intro!: runs_return)
  next
    case (Some e)
    show ?thesis
    proof (cases "st_buffering st")
      case False
      then show ?thesis using Some by (auto simp: try_recover_def same intro!: runs_return)
    next
      case True
      have lift: "runs (streaming k st) (lift (po_recover_stream po (st_prepared st) e)) (\<lambda>_. streaming k st) (\<lambda>_. sound)"
        by (rule streaming_keeps [OF assms stage.keeps_lift])
      have rec: "runs (streaming k st) (begin_recovery env po rq model) (\<lambda>_. recovered k) (\<lambda>_. sound)"
      proof (cases "k = 1")
        case True
        with \<open>st_buffering st\<close> show ?thesis
          by (intro runs_conseq [OF begin_recovery_stage]) (simp_all add: streaming_held recovered_def)
      next
        case False
        with \<open>st_buffering st\<close> show ?thesis by (simp add: runs_def streaming_held)
      qed
      show ?thesis
        unfolding try_recover_def Some option.case
        using True by (auto simp: same intro!: runs_bind [OF lift] runs_return runs_then [OF rec] split: option.split)
    qed
  qed
qed

lemma hold_event_stage:
  assumes "k \<le> 2"
  shows "runs (streaming k st) (hold_event env po rq ev st) (\<lambda>st1. streaming k st1) (\<lambda>_. sound)"
proof (cases "st_buffering st")
  case False
  then show ?thesis by (simp add: hold_event_def runs_return)
next
  case True
  have keep: "runs (streaming k st) m (\<lambda>_. streaming k st) (\<lambda>_. sound)" if "\<And>S. stage.keeps k k k k S m" for m :: "'b prog"
    by (rule streaming_keeps [OF assms that])
  let ?free = "stage k k k k UNIV"
  have weaken: "streaming k st w \<Longrightarrow> ?free w" for w
    by (auto simp: streaming_def stage_def)
  have free: "runs ?free m (\<lambda>_. ?free) (\<lambda>_. sound)" if "stage.keeps k k k k UNIV m" for m :: "'b prog"
    by (rule stage_keeps [OF that]) (use assms in simp_all)
  have "runs ?free (act_then (run_when (gq_stream rq) (send_all env (st_preamble st)))
      (act_then (check (en_check env)) (act_return (st\<lparr>st_buffering := False, st_preamble := []\<rparr>))))
      (\<lambda>st1. streaming k st1) (\<lambda>_. sound)"
    by (rule runs_then [OF free [OF stage.keeps_when [OF free_send_all]]], rule runs_then [OF free [OF stage.keeps_check]],
        rule runs_return, simp add: streaming_free)
  then have release: "runs (streaming k st) (act_then (run_when (gq_stream rq) (send_all env (st_preamble st)))
      (act_then (check (en_check env)) (act_return (st\<lparr>st_buffering := False, st_preamble := []\<rparr>))))
      (\<lambda>st1. streaming k st1) (\<lambda>_. sound)"
    by (rule runs_conseq) (auto intro: weaken)
  have hold: "runs (streaming k st) (act_then (check (en_check env))
      (act_return (st\<lparr>st_preamble := ps, st_preamble_bytes := n\<rparr>))) (\<lambda>st1. streaming k st1) (\<lambda>_. sound)" for ps n
    by (rule runs_then [OF keep [OF stage.keeps_check] runs_return]) (simp add: streaming_def)
  show ?thesis
    unfolding hold_event_def
    using True by (auto intro!: runs_bind [OF keep [OF stage.keeps_lift]] runs_if hold release)
qed

lemma handle_event_stage:
  assumes "k \<le> 2"
  shows "runs (streaming k st) (handle_event env po rq model l ev st) (outcome_ok k) (\<lambda>_. sound)"
proof -
  have keep: "runs (streaming k st1) m (\<lambda>_. streaming k st1) (\<lambda>_. sound)" if "\<And>S. stage.keeps k k k k S m" for m :: "'b prog" and st1 :: "'a stream"
    by (rule streaming_keeps [OF assms that])
  have last: "runs (streaming k st1) (end_stream env po rq ev) (outcome_ok k) (\<lambda>_. sound)" for st1 :: "'a stream"
  proof -
    have fin: "runs sound (end_stream env po rq ev) (\<lambda>_. sound) (\<lambda>_. sound)"
      by (rule sound.keeps_runs [OF end_stream_sound])
    have "runs sound (end_stream env po rq ev) (outcome_ok k) (\<lambda>_. sound)"
      using fin unfolding end_stream_def
      by (auto simp: runs_def act_then_def act_bind_def act_return_def fail_with_def act_fail_def split: prod.splits sum.splits option.splits)
    then show ?thesis by (rule runs_conseq) (auto intro: streaming_sound [OF _ assms])
  qed
  have send: "runs (streaming k st1) (act_then (run_when (gq_stream rq \<and> \<not> st_buffering st1) (send_event env po ev)) (act_return (Continue st1)))
      (outcome_ok k) (\<lambda>_. sound)" for st1 :: "'a stream"
  proof (cases "st_buffering st1")
    case True
    then have "act_then (run_when (gq_stream rq \<and> \<not> st_buffering st1) (send_event env po ev)) (act_return (Continue st1))
        = (act_return (Continue st1) :: 'a outcome prog)"
      by (simp add: run_when_def act_then_def act_bind_def act_return_def fun_eq_iff)
    then show ?thesis by (simp add: runs_return)
  next
    case False
    have "runs (streaming k st1) (run_when (gq_stream rq \<and> \<not> st_buffering st1) (send_event env po ev)) (\<lambda>_. streaming k st1) (\<lambda>_. sound)"
      unfolding streaming_free [OF False]
      by (rule stage_keeps [OF stage.keeps_when [OF free_send_event]]) (use assms in simp_all)
    then show ?thesis by (rule runs_then) (simp add: runs_return)
  qed
  have after: "runs (streaming k st1) (act_bind (observe (en_elapsed env)) (\<lambda>ms.
       act_then (change_record (note_observation ms (ge_observation ev)))
       (act_then (tell_account env l (ge_observation ev))
         (if ob_terminal (ge_observation ev) then end_stream env po rq ev
          else act_then (run_when (gq_stream rq \<and> \<not> st_buffering st1) (send_event env po ev)) (act_return (Continue st1))))))
      (outcome_ok k) (\<lambda>_. sound)" for st1 :: "'a stream"
    by (rule runs_bind [OF keep [OF stage.keeps_observe]],
        rule runs_then [OF keep [OF stage.keeps_change_record]], simp,
        rule runs_then [OF keep [OF stage.keeps_tell_account]], rule runs_if, rule last, rule send)
  show ?thesis
    unfolding handle_event_def
  proof (rule runs_bind [OF try_recover_stage [OF assms]], rule runs_case_prod)
    fix x :: "bool \<times> prepared_request" and retry p
    assume x: "x = (retry, p)"
    show "runs ((\<lambda>(retry, p). if retry then recovered k else streaming k (st\<lparr>st_prepared := p\<rparr>)) x)
        (if retry then act_return (Retry p) else act_bind (hold_event env po rq ev (st\<lparr>st_prepared := p\<rparr>)) (\<lambda>st1.
         act_bind (observe (en_elapsed env)) (\<lambda>ms.
         act_then (change_record (note_observation ms (ge_observation ev)))
         (act_then (tell_account env l (ge_observation ev))
           (if ob_terminal (ge_observation ev) then end_stream env po rq ev
            else act_then (run_when (gq_stream rq \<and> \<not> st_buffering st1) (send_event env po ev)) (act_return (Continue st1)))))))
        (outcome_ok k) (\<lambda>_. sound)"
      unfolding x by (auto intro!: runs_return runs_bind [OF hold_event_stage [OF assms]] after)
  qed
qed

lemma handle_events_stage:
  "k \<le> 2 \<Longrightarrow> runs (streaming k st) (handle_events env po rq model l evs st) (outcome_ok k) (\<lambda>_. sound)"
proof (induction evs arbitrary: st)
  case Nil
  then show ?case by (simp add: runs_return)
next
  case (Cons ev evs)
  have "runs (outcome_ok k r) (case r of Continue st' \<Rightarrow> handle_events env po rq model l evs st' | _ \<Rightarrow> act_return r)
      (outcome_ok k) (\<lambda>_. sound)" for r :: "'a outcome"
    using Cons by (cases r) (auto simp: outcome_ok_eq intro!: runs_return)
  then show ?case unfolding handle_events.simps by (rule runs_bind [OF handle_event_stage [OF Cons.prems]])
qed

lemma latch_stage: "stage.keeps n p j a S (latch_rejections evs)"
proof -
  have "stage.keeps n p j a S (observe_safety_rejection e)" for e
    by (rule stage.keepsI) (simp add: observe_safety_rejection_def stage_def)
  then show ?thesis unfolding latch_rejections_def by (rule stage.keeps_each)
qed

lemma handle_chunk_stage:
  assumes "k \<le> 2"
  shows "runs (streaming k st) (handle_chunk env po rq model l chunk st) (outcome_ok k) (\<lambda>_. sound)"
proof -
  have keep: "runs (streaming k st) m (\<lambda>_. streaming k st) (\<lambda>_. sound)" if "\<And>S. stage.keeps k k k k S m" for m :: "'b prog"
    by (rule streaming_keeps [OF assms that])
  have same: "streaming k (st\<lparr>st_decoder := d, st_ids := ids\<rparr>) = streaming k st" for d ids
    by (simp add: streaming_def fun_eq_iff)
  have events: "runs (streaming k st) (handle_events env po rq model l evs (st\<lparr>st_decoder := d, st_ids := ids\<rparr>))
      (outcome_ok k) (\<lambda>_. sound)" for evs d ids
    using handle_events_stage [OF assms, of "st\<lparr>st_decoder := d, st_ids := ids\<rparr>"] by (simp add: same)
  have after: "runs (outcome_ok k r) (act_then (case r of Continue _ \<Rightarrow> check (en_check env) | _ \<Rightarrow> act_return ()) (act_return r))
      (outcome_ok k) (\<lambda>_. sound)" for r :: "'a outcome"
  proof (cases r)
    case (Continue st1)
    have "runs (streaming k st1) (check (en_check env)) (\<lambda>_. streaming k st1) (\<lambda>_. sound)"
      by (rule streaming_keeps [OF assms stage.keeps_check])
    then have "runs (streaming k st1) (act_then (check (en_check env)) (act_return (Continue st1))) (outcome_ok k) (\<lambda>_. sound)"
      by (rule runs_then) (simp add: runs_return)
    then show ?thesis by (simp add: Continue outcome_ok_eq)
  qed (simp_all add: act_then_def act_bind_def act_return_def runs_def)
  show ?thesis
    unfolding handle_chunk_def
    by (rule runs_then [OF keep [OF stage.keeps_check]], rule runs_bind [OF keep [OF stage.keeps_observe]],
        rule runs_bind [OF keep [OF stage.keeps_lift]], simp only: split_paired_all prod.case,
        rule runs_then [OF keep [OF latch_stage]],
        rule runs_then [OF keep [OF stage.keeps_when [OF stage.keeps_note_first_event]]],
        rule runs_bind [OF keep [OF stage.keeps_save_pending]], rule runs_bind [OF events], rule after)
qed

definition retry_ok :: "nat \<Rightarrow> prepared_request option \<Rightarrow> run \<Rightarrow> bool" where
  "retry_ok k r w \<longleftrightarrow> (case r of None \<Rightarrow> sound w | Some p \<Rightarrow> recovered k w)"

lemma retry_ok_eq: "retry_ok k None = sound" "retry_ok k (Some p) = recovered k"
  by (simp_all add: retry_ok_def fun_eq_iff)

lemma stream_loop_stage:
  "k \<le> 2 \<Longrightarrow> (st_buffering st \<longrightarrow> k = 1) \<Longrightarrow> runs (streaming k st) (stream_loop env po rq model l ws st)
     (retry_ok k) (\<lambda>_. sound)"
proof (induction ws arbitrary: st)
  case Nil
  then show ?case by (auto intro!: runs_fail intro: streaming_sound)
next
  case (Cons w ws)
  let ?Q = "retry_ok k"
  have keep: "runs (streaming k st) m (\<lambda>_. streaming k st) (\<lambda>_. sound)" if "\<And>S. stage.keeps k k k k S m" for m :: "'b prog"
    by (rule streaming_keeps [OF Cons.prems(1) that])
  have again: "runs (streaming k st') (stream_loop env po rq model l ws st') ?Q (\<lambda>_. sound)" for st'
  proof (cases "st_buffering st' \<longrightarrow> k = 1")
    case True
    then show ?thesis by (rule Cons.IH [OF Cons.prems(1)])
  next
    case False
    then show ?thesis by (simp add: runs_def streaming_def)
  qed
  have stop: "runs (streaming k st) (fail_with e) ?Q (\<lambda>_. sound)" "runs (streaming k st) (act_fail s) ?Q (\<lambda>_. sound)" for e s
    by (auto intro!: runs_fail runs_fail_with intro: streaming_sound [OF _ Cons.prems(1)])
  have chunk: "runs (streaming k st) (act_bind (handle_chunk env po rq model l c st) (\<lambda>r. case r of
        Continue st' \<Rightarrow> stream_loop env po rq model l ws st' | Retry prepared \<Rightarrow> act_return (Some prepared) | Finished \<Rightarrow> act_return None))
      ?Q (\<lambda>_. sound)" for c
  proof (rule runs_bind [OF handle_chunk_stage [OF Cons.prems(1)]])
    fix r :: "'a outcome"
    show "runs (outcome_ok k r) (case r of Continue st' \<Rightarrow> stream_loop env po rq model l ws st'
        | Retry prepared \<Rightarrow> act_return (Some prepared) | Finished \<Rightarrow> act_return None) ?Q (\<lambda>_. sound)"
      using again by (cases r) (auto simp: outcome_ok_eq retry_ok_eq intro!: runs_return)
  qed
  have beat: "stage.keeps k k k k S (run_when (st_buffering st \<and> gq_stream rq) (send env Heartbeat))" for S
    by (intro stage.keeps_when stage.keeps_send) simp
  show ?case
    unfolding stream_loop.simps
  proof (rule runs_then [OF keep [OF stage.keeps_note_config]], rule runs_then [OF keep [OF stage.keeps_others]], cases w)
    case (Ready r)
    show "runs (streaming k st) (case w of Changed \<Rightarrow> stream_loop env po rq model l ws st
        | Beat \<Rightarrow> act_then (run_when (st_buffering st \<and> gq_stream rq) (send env Heartbeat)) (stream_loop env po rq model l ws st)
        | Ready (Inl e) \<Rightarrow> fail_with e
        | Ready (Inr None) \<Rightarrow> act_then (lift (po_finish po (st_decoder st))) (fail_with err_interrupted)
        | Ready (Inr (Some chunk)) \<Rightarrow> act_bind (handle_chunk env po rq model l chunk st) (\<lambda>r.
              case r of Continue st' \<Rightarrow> stream_loop env po rq model l ws st'
              | Retry prepared \<Rightarrow> act_return (Some prepared) | Finished \<Rightarrow> act_return None)
        | Deadline \<Rightarrow> fail_with err_idle | Gone x \<Rightarrow> act_fail (Dropped x)) ?Q (\<lambda>_. sound)"
      unfolding Ready
      by (auto intro!: stop chunk runs_then [OF keep [OF stage.keeps_lift]] split: sum.split option.split)
  qed (auto intro!: again stop runs_then [OF keep [OF beat]])
qed

subsection \<open>An attempt\<close>

lemma clear_to_send_stage:
  assumes "sent \<le> 1"
  shows "runs (stage sent (Suc sent) (Suc sent) (Suc sent) {False}) (clear_to_send env sent)
    (\<lambda>_. stage sent (Suc sent) (Suc sent) (Suc sent) {False}) (\<lambda>_. sound)"
proof -
  let ?S = "stage sent (Suc sent) (Suc sent) (Suc sent) {False}"
  have keep: "runs ?S m (\<lambda>_. ?S) (\<lambda>_. sound)" if "stage.keeps sent (Suc sent) (Suc sent) (Suc sent) {False} m" for m :: "'b prog"
    by (rule stage_keeps [OF that]) (use assms in simp_all)
  have refuse: "runs ?S (act_then (change_record (\<lambda>r. r\<lparr>rec_upstream_attempts := sent\<rparr>)) (fail_with e)) (\<lambda>_. ?S) (\<lambda>_. sound)" for e
  proof (rule runs_then)
    show "runs ?S (change_record (\<lambda>r. r\<lparr>rec_upstream_attempts := sent\<rparr>)) (\<lambda>_. sound) (\<lambda>_. sound)"
      by (rule runs_change_record) (use assms in \<open>simp add: stage_unseen sound_def\<close>)
  qed (auto intro: runs_fail_with)
  have closed: "runs ?S (fail_with err_cancelled) (\<lambda>_. ?S) (\<lambda>_. sound)"
    by (rule runs_fail_with) (use assms in \<open>auto intro: stage_sound\<close>)
  have checked: "runs ?S (case r of Inl e \<Rightarrow> act_then (change_record (\<lambda>r. r\<lparr>rec_upstream_attempts := sent\<rparr>)) (fail_with e)
      | Inr _ \<Rightarrow> act_return ()) (\<lambda>_. ?S) (\<lambda>_. sound)" for r :: "unit res"
    by (cases r) (simp_all add: refuse runs_return)
  show ?thesis
    unfolding clear_to_send_def
    by (rule runs_bind [OF keep [OF stage.keeps_observe]], rule runs_if, rule closed,
        rule runs_bind [OF keep [OF stage.keeps_attempt_to [OF stage.keeps_safety]]], rule checked)
qed

lemma refuse_sound: "sound.keeps (refuse env po rq l status body :: 'b prog)"
proof -
  have "sound.keeps (observe_safety_rejection e)" for e
    by (rule sound.keepsI) (simp add: observe_safety_rejection_def sound_def)
  then show ?thesis
    unfolding refuse_def Let_def
    by (auto intro!: sound.keeps_steps sound.keeps_raw_body split: prod.split option.split)
qed

lemma refuse_fails: "\<exists>s w'. refuse env po rq l status body w = (Inl s, w')"
  by (auto simp: refuse_def act_then_def act_bind_def fail_with_def act_fail_def Let_def split: prod.split sum.split)

lemma runs_failing:
  assumes "\<And>w. \<exists>s w'. m w = (Inl s, w')" and "runs P m Q E"
  shows "runs P m Q' E"
  unfolding runs_def
proof (intro allI impI)
  fix w assume "P w"
  with assms(2) have "case m w of (Inr x, w') \<Rightarrow> Q x w' | (Inl e, w') \<Rightarrow> E e w'" by (simp add: runs_def)
  moreover obtain s w' where "m w = (Inl s, w')" using assms(1) by blast
  ultimately show "case m w of (Inl e, w') \<Rightarrow> E e w' | (Inr x, w') \<Rightarrow> Q' x w'" by simp
qed

lemma handle_failure_stage:
  assumes "1 \<le> k" and "k \<le> 2"
  shows "runs (stage k k k k {False}) (handle_failure env po rq model l status prepared)
    (retry_ok k) (\<lambda>_. sound)"
proof -
  let ?S = "stage k k k k {False}"
  let ?Q = "retry_ok k"
  have keep: "runs ?S m (\<lambda>_. ?S) (\<lambda>_. sound)" if "stage.keeps k k k k {False} m" for m :: "'b prog"
    by (rule stage_keeps [OF that]) (use assms in simp_all)
  have "runs sound (refuse env po rq l status body) ?Q (\<lambda>_. sound)" for body
    by (rule runs_failing [OF refuse_fails sound.keeps_runs [OF refuse_sound]])
  then have refuse: "runs ?S (refuse env po rq l status body) ?Q (\<lambda>_. sound)" for body
    by (rule runs_conseq) (use assms in \<open>auto intro: stage_sound\<close>)
  have recover: "runs ?S (act_then (begin_recovery env po rq model) (act_return (Some p))) ?Q (\<lambda>_. sound)" if "k = 1" for p
  proof -
    have "runs (stage 1 1 1 1 {False}) (act_then (begin_recovery env po rq model) (act_return (Some p))) (retry_ok 1) (\<lambda>_. sound)"
      by (rule runs_then [OF begin_recovery_stage], rule runs_return) (simp add: retry_ok_eq recovered_def)
    with that show ?thesis by simp
  qed
  have tell: "runs ?S (act_read (\<lambda>w. rec_upstream_attempts (record_of w))) (\<lambda>n w. ?S w \<and> n = k) (\<lambda>_. sound)"
    by (rule runs_read) (auto simp: stage_def)
  have decide: "runs (\<lambda>w. ?S w \<and> n = k)
      (if n = 1 then act_bind (lift (po_recover_http po (gq_kind rq) prepared status body)) (\<lambda>(cleanup, prepared').
           case cleanup of Some _ \<Rightarrow> act_then (begin_recovery env po rq model) (act_return (Some prepared'))
           | None \<Rightarrow> refuse env po rq l status body)
       else refuse env po rq l status body) ?Q (\<lambda>_. sound)" for n body
  proof (cases "n = k")
    case True
    have one: "runs ?S (case x of (cleanup, prepared') \<Rightarrow> (case cleanup of
           Some _ \<Rightarrow> act_then (begin_recovery env po rq model) (act_return (Some prepared'))
           | None \<Rightarrow> refuse env po rq l status body)) ?Q (\<lambda>_. sound)" if "k = 1" for x :: "encrypted_recovery option \<times> prepared_request"
      using refuse recover [OF that] by (cases x; cases "fst x") simp_all
    have "runs ?S (if n = 1 then act_bind (lift (po_recover_http po (gq_kind rq) prepared status body)) (\<lambda>(cleanup, prepared').
           case cleanup of Some _ \<Rightarrow> act_then (begin_recovery env po rq model) (act_return (Some prepared'))
           | None \<Rightarrow> refuse env po rq l status body)
       else refuse env po rq l status body) ?Q (\<lambda>_. sound)"
      by (rule runs_if, rule runs_bind [OF keep [OF stage.keeps_lift]], rule one) (use True refuse in simp_all)
    with True show ?thesis by simp
  qed (simp add: runs_def)
  show ?thesis
    unfolding handle_failure_def
    by (rule runs_bind [OF keep [OF stage.keeps_observe]],
        rule runs_bind [OF keep [OF stage.keeps_await [OF stage.keeps_note_config stage.keeps_return]]],
        rule runs_bind [OF tell], rule decide)
qed

lemma attempt_stage:
  assumes "sent \<le> 1"
  shows "runs (stage sent (Suc sent) (Suc sent) (Suc sent) {False}) (attempt env po rq model l sent ids prepared)
    (retry_ok (Suc sent)) (\<lambda>_. sound)"
proof -
  let ?k = "Suc sent"
  let ?S = "stage ?k ?k ?k ?k {False}"
  let ?Q = "retry_ok ?k"
  have keep: "runs ?S m (\<lambda>_. ?S) (\<lambda>_. sound)" if "stage.keeps ?k ?k ?k ?k {False} m" for m :: "'b prog"
    by (rule stage_keeps [OF that]) (use assms in simp_all)
  have go: "runs (stage sent ?k ?k ?k {False}) (emit (SentUpstream prepared)) (\<lambda>_. ?S) (\<lambda>_. sound)"
    by (rule runs_emit) (simp add: stage_unseen)
  have failed: "runs ?S (handle_failure env po rq model l status prepared) ?Q (\<lambda>_. sound)" for status
    by (rule handle_failure_stage) (use assms in auto)
  have unary: "runs ?S (act_then (receive_unary env po) (act_return None)) ?Q (\<lambda>_. sound)"
  proof (rule runs_then)
    show "runs ?S (receive_unary env po) (\<lambda>_. sound) (\<lambda>_. sound)"
      by (rule runs_conseq [OF sound.keeps_runs [OF receive_unary_sound]]) (use assms in \<open>auto intro: stage_sound\<close>)
  qed (simp add: runs_return retry_ok_eq)
  have tell: "runs ?S (act_read (\<lambda>w. rec_upstream_attempts (record_of w))) (\<lambda>n w. ?S w \<and> n = ?k) (\<lambda>_. sound)"
    by (rule runs_read) (auto simp: stage_def)
  have streamed: "runs (\<lambda>w. ?S w \<and> n = ?k) (act_bind (observe (en_chunks env))
      (\<lambda>chunks. stream_loop env po rq model l chunks (stream_start po n ids prepared))) ?Q (\<lambda>_. sound)" for n
  proof (cases "n = ?k")
    case True
    let ?st = "stream_start po n ids prepared"
    have first: "st_buffering ?st \<longrightarrow> ?k = 1" using True by (simp add: stream_start_def)
    have "runs (streaming ?k ?st) (stream_loop env po rq model l ws ?st) ?Q (\<lambda>_. sound)" for ws
      by (rule stream_loop_stage [OF _ first]) (use assms in simp)
    moreover have "?S w \<Longrightarrow> streaming ?k ?st w" for w
      using first by (auto simp: streaming_def intro: stage_weaken)
    ultimately have loop: "runs ?S (stream_loop env po rq model l ws ?st) ?Q (\<lambda>_. sound)" for ws
      by (blast intro: runs_conseq)
    from runs_bind [OF keep [OF stage.keeps_observe] loop] True show ?thesis by simp
  qed (simp add: runs_def)
  show ?thesis
    unfolding attempt_def
    by (rule runs_then [OF clear_to_send_stage [OF assms]], rule runs_then [OF go],
        rule runs_bind [OF keep [OF stage.keeps_observe]],
        rule runs_bind [OF keep [OF stage.keeps_await [OF stage.keeps_note_config stage.keeps_return]]],
        simp only: split_paired_all prod.case, rule runs_then [OF keep [OF stage.keeps_note_headers]],
        rule runs_then [OF keep [OF stage.keeps_call]], simp, rule runs_then [OF keep [OF stage.keeps_call]], simp,
        rule runs_if, rule failed, rule runs_then [OF keep [OF stage.keeps_keep_turn_state]], rule runs_if,
        rule unary, rule runs_bind [OF tell], rule streamed)
qed

lemma runs_never: "(\<And>w. \<not> P w) \<Longrightarrow> runs P m Q E"
  by (simp add: runs_def)

lemma runs_attempts:
  assumes "runs P (attempt env po rq model l sent ids prepared) R E"
    and "\<And>r. runs (R r) (case r of None \<Rightarrow> act_return () | Some p' \<Rightarrow> attempt_loop n env po rq model l (Suc sent) ids p') Q E"
  shows "runs P (attempt_loop (Suc n) env po rq model l sent ids prepared) Q E"
  unfolding attempt_loop.simps(2) by (rule runs_bind [OF assms])

lemma attempt_loop_sound:
  "runs (stage 0 1 1 1 {False}) (attempt_loop 2 env po rq model l 0 ids prepared) (\<lambda>_. sound) (\<lambda>_. sound)"
proof -
  have over: "runs (retry_ok 2 r) (case r of None \<Rightarrow> act_return () | Some p' \<Rightarrow> attempt_loop 0 env po rq model l (Suc 1) ids p')
      (\<lambda>_. sound) (\<lambda>_. sound)" for r
  proof (cases r)
    case None
    then show ?thesis by (simp add: retry_ok_eq runs_return)
  next
    case (Some p)
    then show ?thesis by (simp add: runs_never retry_ok_eq recovered_def)
  qed
  have two: "runs recovering (attempt env po rq model l 1 ids p) (retry_ok 2) (\<lambda>_. sound)" for p
    using attempt_stage [of 1] by (simp add: numeral_2_eq_2)
  have second: "runs recovering (attempt_loop 1 env po rq model l 1 ids p) (\<lambda>_. sound) (\<lambda>_. sound)" for p
    unfolding One_nat_def attempt_loop.simps(2) by (rule runs_bind [OF two [unfolded One_nat_def] over [unfolded One_nat_def]])
  have go_on: "runs (retry_ok 1 r) (case r of None \<Rightarrow> act_return () | Some p' \<Rightarrow> attempt_loop 1 env po rq model l 1 ids p')
      (\<lambda>_. sound) (\<lambda>_. sound)" for r
  proof (cases r)
    case None
    then show ?thesis by (simp add: retry_ok_eq runs_return)
  next
    case (Some p)
    have "runs (recovered 1) (attempt_loop 1 env po rq model l 1 ids p) (\<lambda>_. sound) (\<lambda>_. sound)"
      by (rule runs_conseq [OF second]) (simp_all add: recovered_def)
    with Some show ?thesis by (simp add: retry_ok_eq)
  qed
  have one: "runs (stage 0 1 1 1 {False}) (attempt env po rq model l 0 ids prepared) (retry_ok 1) (\<lambda>_. sound)"
    using attempt_stage [of 0] by simp
  show ?thesis unfolding numeral_2_eq_2 One_nat_def by (rule runs_attempts [OF one [unfolded One_nat_def] go_on [unfolded One_nat_def]])
qed

subsection \<open>The task\<close>

lemma execute_sound: "runs waiting (execute rounds env po rq model) (\<lambda>_. sound) (\<lambda>_. sound)"
proof -
  have keep: "runs (stage 0 1 j 1 {False}) m (\<lambda>_. stage 0 1 j 1 {False}) (\<lambda>_. sound)" if "stage.keeps 0 1 j 1 {False} m" for j and m :: "'b prog"
    by (rule stage_keeps [OF that]) simp_all
  have early: "runs permitted m (\<lambda>_. permitted) (\<lambda>_. sound)" if "stage.keeps 0 1 0 0 {False} m" for m :: "'b prog"
    by (rule stage_keeps [OF that]) simp_all
  have begun: "runs permitted (change_record (start_record rq l ms)) (\<lambda>_. stage 0 1 0 1 {False}) (\<lambda>_. sound)" for l ms
    by (rule runs_change_record) (simp add: stage_unseen start_record_def)
  have journal: "runs (stage 0 1 0 1 {False}) (write_record env) (\<lambda>_. stage 0 1 1 1 {False}) (\<lambda>_. sound)"
    by (rule write_record_stage) simp_all
  show ?thesis
    unfolding execute_def
    by (rule runs_bind [OF dispatch_loop_stage], simp only: split_paired_all prod.case,
        rule runs_bind [OF early [OF stage.keeps_observe]], rule runs_then [OF begun], rule runs_then [OF journal],
        rule runs_then [OF keep], simp add: stage.keeps_steps split: option.split,
        rule runs_then [OF keep [OF stage.keeps_call]], simp, rule attempt_loop_sound)
qed

lemma close_request_sound: "sound.keeps (close_request env po e)"
  unfolding close_request_def
  by (auto intro!: sound.keeps_steps sound.keeps_or_pause sound.keeps_or_ignore sound.keeps_settle finalize_settle)

lemma report_sound: "sound.keeps (report env po rq i e)"
proof -
  have "sound.keeps (\<lambda>w. (Inr (), w\<lparr>rn_completed := Suc (rn_completed w)\<rparr>))"
    by (rule sound.keepsI) (simp add: sound_def)
  moreover have "sound.keeps (\<lambda>w. (Inr (), w\<lparr>rn_failed := Suc (rn_failed w)\<rparr>))"
    by (rule sound.keepsI) (simp add: sound_def)
  moreover have "sound.keeps (settle env (Delivered b))" for b
    unfolding settle_def by (intro sound.keeps_steps sound_emit_delivered)
  ultimately show ?thesis
    unfolding report_def
    by (auto intro!: sound.keeps_bind sound.keeps_then sound.keeps_read sound.keeps_observe sound.keeps_when
        sound.keeps_or_ignore split: option.split)
qed

lemma request_task_sound: "waiting w \<Longrightarrow> sound (snd (request_task rounds env po rq model i w))"
proof -
  assume "waiting w"
  with execute_sound have ended: "sound (snd (execute rounds env po rq model w))" by (rule runsD)
  have "sound.keeps (act_then (save_rejection env) (act_then (note_config env)
            (act_then (close_request env po e) (act_then (summarize env e) (report env po rq i e)))))" for e
    by (intro sound.keeps_then sound.keeps_save_rejection sound.keeps_note_config close_request_sound
        sound.keeps_summarize report_sound)
  moreover obtain r w1 where run: "execute rounds env po rq model w = (r, w1)" by (rule prod.exhaust)
  ultimately show ?thesis using ended unfolding request_task_def by (simp add: sound.keeps_def Let_def)
qed

end
