(* ===== verification/Gateway_Ends.thy ===== *)
theory Gateway_Ends
  imports Gateway_Quiet "HOL-Library.Sublist"
begin

section \<open>How every request ends\<close>

text \<open>
  A condition that no step can break, whatever it writes, goes through every operation of a
  run: \<open>any_condition\<close>. The counters of finished requests and the growth of the trace are
  such conditions until the task reports. What remains is the end of the task itself, where
  nothing can be dropped any more: the record is closed or dispatching is paused.
\<close>

locale any_condition = run_condition +
  assumes cond_emit: "cond w \<Longrightarrow> cond (w\<lparr>rn_trace := rn_trace w @ [x]\<rparr>)"
    and cond_xn: "cond w \<Longrightarrow> cond (w\<lparr>rn_xn := xn\<rparr>)"
    and cond_guard: "cond w \<Longrightarrow> cond (w\<lparr>rn_guard := g\<rparr>)"
begin

lemma any_emit: "keeps (emit x)"
  by (rule keepsI) (simp add: emit_def cond_emit)

lemma any_change: "keeps (change f)"
  by (rule keepsI) (simp add: change_def cond_xn)

lemma any_change_record: "keeps (change_record f)"
  unfolding change_record_def by (rule any_change)

lemma any_call: "keeps (call env x)"
  unfolding call_def by (intro keeps_then any_emit keeps_ask)

lemma any_settle: "keeps (settle env x)"
  unfolding settle_def by (intro keeps_then any_emit keeps_others keeps_check)

lemma any_send: "keeps (send env x)"
  unfolding send_def by (intro keeps_then any_emit keeps_check keeps_deliver)

lemma any_observe_rejection: "keeps (observe_safety_rejection e)"
proof (rule keepsI)
  fix w assume "cond w"
  then have "cond (w\<lparr>rn_guard := g\<rparr>)" for g by (rule cond_guard)
  then have "cond (w\<lparr>rn_guard := g, rn_xn := xn\<rparr>)" for g xn
    using cond_xn [of "w\<lparr>rn_guard := g\<rparr>" xn] by simp
  with \<open>cond w\<close> show "cond (snd (observe_safety_rejection e w))" by (simp add: observe_safety_rejection_def)
qed

lemmas any_steps = keeps_return keeps_fail keeps_read keeps_bind keeps_then keeps_lift keeps_fail_with
  keeps_tick keeps_observe keeps_check keeps_others keeps_ask keeps_attempt_to keeps_when keeps_each
  any_emit any_change any_change_record any_call any_settle any_send any_observe_rejection
  keeps_await keeps_note_config

lemma any_take_send: "keeps (take_send env)"
  unfolding take_send_def by (auto intro!: any_steps split: sum.split)

lemma any_dispatch_round: "keeps (dispatch_round env po rq model)"
  unfolding dispatch_round_def
  by (auto intro!: any_steps keeps_wait keeps_safety keeps_bind_lease keeps_load_ids keeps_current_model
      keeps_save_pending keeps_choose_price any_take_send)

lemma any_dispatch: "keeps (dispatch_loop n env po rq model)"
  by (induction n) (auto intro!: any_steps any_dispatch_round split: option.split)

lemma any_write_record: "keeps (write_record env)"
  unfolding write_record_def by (intro any_steps)

lemma any_recovery: "keeps (begin_recovery env po rq model)"
  unfolding begin_recovery_def by (intro any_steps keeps_current_model any_write_record)

lemma any_finalize: "(\<And>x. keeps (store x)) \<Longrightarrow> keeps (finalize env po store e)"
  unfolding finalize_def by (auto intro!: any_steps)

lemma any_unary: "keeps (receive_unary env po)"
  unfolding receive_unary_def by (intro any_steps keeps_receive_body keeps_read_unary any_finalize)

lemma any_send_event: "keeps (send_event env po ev)"
  unfolding send_event_def by (intro any_steps)

lemma any_end_stream: "keeps (end_stream env po rq ev)"
  unfolding end_stream_def by (auto intro!: any_steps any_finalize any_send_event split: option.split)

lemma any_send_all: "keeps (send_all env bs)"
  by (induction bs) (auto intro!: any_steps)

lemma any_hold: "keeps (hold_event env po rq ev st)"
  unfolding hold_event_def by (auto intro!: any_steps any_send_all)

lemma any_try_recover: "keeps (try_recover env po rq model ev st)"
  unfolding try_recover_def by (auto intro!: any_steps any_recovery split: option.split)

lemma any_event: "keeps (handle_event env po rq model l ev st)"
  unfolding handle_event_def
  by (auto intro!: any_steps any_try_recover any_hold keeps_tell_account any_end_stream any_send_event)

lemma any_events: "keeps (handle_events env po rq model l evs st)"
  by (induction evs arbitrary: st) (auto intro!: any_steps any_event split: outcome.split)

lemma any_chunk: "keeps (handle_chunk env po rq model l chunk st)"
  unfolding handle_chunk_def latch_rejections_def
  by (auto intro!: any_steps keeps_note_first_event keeps_save_pending any_events split: outcome.split)

lemma any_stream: "keeps (stream_loop env po rq model l ws st)"
  by (induction ws arbitrary: st)
    (auto intro!: any_steps any_chunk split: wake.split sum.split option.split outcome.split)

lemma any_clear: "keeps (clear_to_send env sent)"
  unfolding clear_to_send_def by (auto intro!: any_steps keeps_safety split: sum.split)

lemma any_refuse: "keeps (refuse env po rq l status body)"
  unfolding refuse_def Let_def
  by (auto intro!: any_steps keeps_raw_body split: prod.split option.split)

lemma any_failure: "keeps (handle_failure env po rq model l status prepared)"
  unfolding handle_failure_def by (auto intro!: any_steps any_recovery any_refuse split: option.split)

lemma any_attempt: "keeps (attempt env po rq model l sent ids prepared)"
  unfolding attempt_def
  by (auto intro!: any_steps any_clear keeps_note_headers keeps_keep_turn_state any_failure any_unary any_stream)

lemma any_attempts: "keeps (attempt_loop n env po rq model l sent ids prepared)"
  by (induction n arbitrary: sent prepared) (auto intro!: any_steps any_attempt split: option.split)

lemma any_execute: "keeps (execute rounds env po rq model)"
  unfolding execute_def
  by (auto intro!: any_steps any_dispatch any_write_record any_attempts split: option.split)

lemma any_close: "keeps (close_request env po e)"
  unfolding close_request_def
  by (auto intro!: any_steps keeps_or_pause keeps_or_ignore any_finalize)

end

subsection \<open>Counters and the trace\<close>

definition counted :: "nat \<Rightarrow> nat \<Rightarrow> run \<Rightarrow> bool" where
  "counted c f w \<longleftrightarrow> rn_completed w = c \<and> rn_failed w = f"

interpretation counted: any_condition "counted c f" env for c f env
  by unfold_locales (simp_all add: counted_def)

definition extends :: "effect list \<Rightarrow> run \<Rightarrow> bool" where
  "extends tr w \<longleftrightarrow> prefix tr (rn_trace w)"

interpretation extends: any_condition "extends tr" env for tr env
  by unfold_locales (auto simp: extends_def intro: prefix_order.trans)

subsection \<open>The end of the task\<close>

definition settled :: "run \<Rightarrow> bool" where
  "settled w \<longleftrightarrow> xn_finalized (rn_xn w) \<or> Paused \<in> set (rn_trace w)"

interpretation settled: step_condition settled env for env
  by unfold_locales (auto simp: settled_def)

text \<open>A call made after the future's end is not dropped, so an error of it is seen.\<close>

definition undropped :: "stop \<Rightarrow> bool" where
  "undropped s \<longleftrightarrow> (\<exists>e. s = Failed e)"

definition smooth :: "'a prog \<Rightarrow> bool" where
  "smooth m \<longleftrightarrow> (\<forall>w. \<exists>x w'. m w = (Inr x, w'))"

lemma smooth_runs: "smooth m \<Longrightarrow> runs P m (\<lambda>_ _. True) E"
  unfolding smooth_def runs_def by (metis (no_types, lifting) old.prod.case old.sum.simps(6))

lemma smooth_bind: "smooth m \<Longrightarrow> (\<And>x. smooth (f x)) \<Longrightarrow> smooth (act_bind m f)"
  unfolding smooth_def act_bind_def by (metis (no_types, lifting) old.prod.case old.sum.simps(6))

lemma smooth_then: "smooth m \<Longrightarrow> smooth n \<Longrightarrow> smooth (act_then m n)"
  unfolding act_then_def by (rule smooth_bind)

lemma smooth_basic:
  "smooth (act_return x)" "smooth (act_read f)" "smooth (emit y)" "smooth (change h)" "smooth (change_record k)"
  "smooth (observe o')"
  by (simp_all add: smooth_def act_return_def act_read_def emit_def change_def change_record_def observe_def
      act_bind_def tick_def)

lemma smooth_when: "smooth m \<Longrightarrow> smooth (run_when b m)"
  by (simp add: run_when_def smooth_basic)

text \<open>A program whose only failures are errors can be caught.\<close>

definition catchable :: "'a prog \<Rightarrow> bool" where
  "catchable m \<longleftrightarrow> runs (\<lambda>_. True) m (\<lambda>_ _. True) (\<lambda>s _. undropped s)"

lemma smooth_attempt: "catchable m \<Longrightarrow> smooth (attempt_to m)"
  unfolding smooth_def
proof
  fix w assume c: "catchable m"
  obtain r w' where r: "m w = (r, w')" by (rule prod.exhaust)
  have "case r of Inr _ \<Rightarrow> True | Inl s \<Rightarrow> undropped s"
    by (rule runs_apply [OF c [unfolded catchable_def] TrueI r])
  then show "\<exists>x w'. attempt_to m w = (Inr x, w')"
    by (cases r) (auto simp: attempt_to_def r undropped_def)
qed

lemma smooth_or_pause: "catchable m \<Longrightarrow> smooth (or_pause m)"
  unfolding or_pause_def
  by (intro smooth_bind smooth_attempt) (simp_all add: smooth_basic split: sum.split)

lemma smooth_or_ignore: "catchable m \<Longrightarrow> smooth (or_ignore m)"
  unfolding or_ignore_def by (intro smooth_then smooth_attempt smooth_basic)

lemma catchable_settle: "catchable (settle env x)"
  by (auto simp: catchable_def runs_def settle_def act_then_def act_bind_def emit_def others_def tick_def check_def
      lift_def act_fail_def act_return_def undropped_def split: sum.split)

lemma finalize_ends:
  "runs (\<lambda>_. True) (finalize env po (settle env) e) (\<lambda>_ w. xn_finalized (rn_xn w)) (\<lambda>s _. undropped s)"
proof -
  have last: "runs (\<lambda>_. True) (change (\<lambda>x. x\<lparr>xn_finalized := True\<rparr>)) (\<lambda>_ w. xn_finalized (rn_xn w)) (\<lambda>s _. undropped s)"
    by (simp add: runs_def change_def)
  show ?thesis
    unfolding finalize_def
    by (rule runs_bind [OF smooth_runs [OF smooth_basic(6)]], rule runs_case_prod,
        rule runs_then [OF smooth_runs [OF smooth_basic(4)]], rule runs_bind [OF smooth_runs [OF smooth_basic(2)]],
        rule runs_then [OF catchable_settle [unfolded catchable_def] last])
qed

lemma catchable_finalize: "catchable (finalize env po (settle env) e)"
  unfolding catchable_def by (rule runs_conseq [OF finalize_ends]) simp_all

lemma close_request_settles: "settled (snd (close_request env po e w))"
proof (cases "xn_finalized (rn_xn w)")
  case True
  have "settled.keeps (run_when b (or_ignore (settle env (Logged k))))" for b k
    by (intro settled.keeps_when settled.keeps_or_ignore settled.keeps_settle) simp
  with True show ?thesis
    by (simp add: close_request_def act_bind_def act_read_def settled.keeps_def) (simp add: settled_def)
next
  case False
  obtain r w' where ended: "finalize env po (settle env) e w = (r, w')" by (rule prod.exhaust)
  have "case r of Inr _ \<Rightarrow> xn_finalized (rn_xn w') | Inl s \<Rightarrow> undropped s"
    by (rule runs_apply [OF finalize_ends TrueI ended])
  then have "settled (snd (or_pause (finalize env po (settle env) e) w))"
    by (cases r) (auto simp: ended or_pause_def act_bind_def attempt_to_def act_return_def emit_def settled_def undropped_def)
  with False show ?thesis by (simp add: close_request_def act_bind_def act_read_def)
qed

lemma smooth_task:
  "smooth (save_rejection env)" "smooth (note_config env)" "smooth (close_request env po e)" "smooth (summarize env e)"
  unfolding save_rejection_def note_config_def close_request_def summarize_def
  by (auto intro!: smooth_bind smooth_basic smooth_when smooth_or_pause smooth_or_ignore catchable_settle
      catchable_finalize split: option.split)

lemma smooth_snd: "smooth m \<Longrightarrow> snd (act_then m n w) = snd (n (snd (m w)))"
proof -
  assume "smooth m"
  then obtain x w' where "m w = (Inr x, w')" unfolding smooth_def by blast
  then show ?thesis by (simp add: act_then_def act_bind_def)
qed

end
