(* ===== verification/Gateway_Example.thy ===== *)
theory Gateway_Example
  imports Gateway_Ends Sched_Example
begin

section \<open>A request to run\<close>

text \<open>
  An environment in which everything works and a provider whose only event reports
  encrypted content it cannot read, which is recovered from once: the request is sent twice.
\<close>

definition ex_spec :: model_spec where
  "ex_spec = \<lparr>ms_id = ''m'', ms_upstream = ex_model, ms_enabled = True,
     ms_capabilities = capabilities_default, ms_version = 1\<rparr>"

definition ex_request :: gateway_request where
  "ex_request = \<lparr>gq_client_turn_state = \<lparr>ts_present = False, ts_total_values = 0, ts_omitted_values = 0, ts_values = []\<rparr>,
     gq_client_origin = client_origin_default, gq_client_metadata_present = False, gq_identity_headers = [],
     gq_stateless = False, gq_ingress_diagnostics = None, gq_kind = Responses, gq_compaction = None,
     gq_search_options = \<lparr>so_query = None, so_beta = None, so_client_metadata_present = False\<rparr>,
     gq_identity = \<lparr>ci_session_id = ''s'', ci_thread_id = ''x'', ci_turn_id = None\<rparr>,
     gq_model = ''m'', gq_stream = True, gq_requested_tier = None, gq_reasoning_effort = None,
     gq_identifier_inputs = [], gq_document = \<lparr>doc_format = ''codex'', doc_value = JNull\<rparr>\<rparr>"

definition ex_prepared :: prepared_request where
  "ex_prepared = \<lparr>pq_method = ''POST'', pq_url = ''u'', pq_headers = [], pq_body = [], pq_account_id = Some 5,
     pq_profile_version = 1, pq_tls_backend = ''rustls''\<rparr>"

definition ex_event :: gateway_event where
  "ex_event = \<lparr>ge_document = \<lparr>doc_format = ''codex'', doc_value = JNull\<rparr>,
     ge_observation = observation_default\<lparr>ob_encrypted_rejection := Some Reasoning, ob_terminal := True\<rparr>\<rparr>"

definition ex_env :: environment where
  "ex_env =
     \<lparr>en_settings = (\<lambda>_. settings_default), en_elapsed = (\<lambda>_. 0), en_now = (\<lambda>_. 0), en_guard = (\<lambda>_ g. g),
      en_closed = (\<lambda>_. False), en_unit = (\<lambda>_. Answer (Inr ())), en_check = (\<lambda>_. Inr ()),
      en_models = (\<lambda>_. Answer (Inr [ex_spec])), en_prices = (\<lambda>_. Answer (Inr [])),
      en_search_price = (\<lambda>_. Left ClientClosed), en_bindings = (\<lambda>_. Answer (Inr [ex_binding])),
      en_mappings = (\<lambda>_. Answer (Inr [])),
      en_credentials = (\<lambda>_. Answer (Inr \<lparr>cr_access_token = ''t'', cr_refresh_token = [], cr_id_token = [], cr_expires_at = None\<rparr>)),
      en_rejection = (\<lambda>_. Answer (Inr None)), en_account = (\<lambda>_. Some (ex_account 5)),
      en_lease = (\<lambda>_. [Ready (Inr (ex_lease 3 ''x'' False 0))]), en_response = (\<lambda>_. [Ready (Inr (200, []))]),
      en_body = (\<lambda>_. []), en_chunks = (\<lambda>_. [Ready (Inr (Some ''c''))]), en_delivery = (\<lambda>_. [Ready (Inr ())])\<rparr>"

definition ex_ports :: "unit ports" where
  "ex_ports =
     \<lparr>po_validate = (\<lambda>_ _. Inr ()), po_prepare = (\<lambda>_ _ _ _ ids. Inr (ex_prepared, ids, None)),
      po_headers = (\<lambda>_. ([], None)), po_http_error = (\<lambda>_ _. (err_storage, None)),
      po_recover_http = (\<lambda>_ p _ _. Inr (None, p)),
      po_recover_stream = (\<lambda>p k. Inr (Some \<lparr>er_error_kind = k, er_fields_removed = 1, er_null_content_removed = 0,
         er_empty_items_removed = 0, er_tool_parts_replaced = 0, er_tool_outputs_changed = 0\<rparr>, p)),
      po_recoverable = (\<lambda>_. True), po_decoder = (), po_push = (\<lambda>_ _ st. Inr (st, [ex_event])),
      po_finish = (\<lambda>_. Inr ()), po_compact_response = (\<lambda>_. Inl err_storage), po_image_response = (\<lambda>_. Inl err_storage),
      po_search_response = (\<lambda>_. Inl err_storage), po_encode = (\<lambda>_. Inr ''e''), po_heartbeat = (\<lambda>_. ''h''),
      po_failure = (\<lambda>_ _. ''f''), po_unary = (\<lambda>_. None), po_v5 = (\<lambda>_ s. s), po_ops = ex_ops\<rparr>"

definition ex_run :: run where
  "ex_run = \<lparr>rn_clock = 0, rn_xn = new_execution (new_record 0 ex_key ex_request ex_spec settings_default 0 0), rn_guard = [], rn_trace = [], rn_completed = 0, rn_failed = 0\<rparr>"

lemma ex_run_trace: "rn_trace ex_run = []"
  by (simp add: ex_run_def)

text \<open>The same run while the request's session is blocked.\<close>

definition ex_blocked :: run where
  "ex_blocked = ex_run\<lparr>rn_guard := [(ex_session, (3, error_new 400 ''upstream_content_policy_violation'' ''no''))]\<rparr>"

lemma ex_blocked_session: "\<not> rec_stateless (record_of ex_blocked)"
  by (simp add: ex_blocked_def ex_run_def new_execution_def new_record_def ex_request_def)

lemma ex_blocked_rejected: "rejected (rn_guard ex_blocked) (session_of (record_of ex_blocked))"
  by (simp add: ex_blocked_def ex_run_def new_execution_def new_record_def ex_request_def session_of_def
      rejected_def guard_count_def ex_session_def ex_key_def)

end
