(* ===== verification/Gateway_Theorems.thy ===== *)
theory Gateway_Theorems
  imports Gateway_Sends Gateway_Example
begin

section \<open>Properties of a request's run\<close>

text \<open>
  The trace of \<open>gateway_start\<close> in plain words, from the reading of \<open>Gateway_Sends\<close>: what
  precedes a send, what a closed record says; that every admitted request is closed and
  counted; that a session the guard rejects is not sent.
\<close>

subsection \<open>Reading a trace\<close>

fun is_send :: "effect \<Rightarrow> bool" where
  "is_send (SentUpstream p) = True"
| "is_send _ = False"

definition sends :: "effect list \<Rightarrow> nat" where
  "sends tr = length (filter is_send tr)"

fun is_permit :: "effect \<Rightarrow> bool" where
  "is_permit BeganSend = True"
| "is_permit BeganRecovery = True"
| "is_permit _ = False"

definition permits :: "effect list \<Rightarrow> nat" where
  "permits tr = length (filter is_permit tr)"

definition shown :: "effect list \<Rightarrow> bool" where
  "shown tr \<longleftrightarrow> (\<exists>b. Delivered b \<in> set tr)"

definition closed :: "effect list \<Rightarrow> bool" where
  "closed tr \<longleftrightarrow> (\<exists>r. FinishedRecord r \<in> set tr)"

text \<open>The number of attempts in the record as it was last written.\<close>

fun journaled_from :: "nat \<Rightarrow> effect list \<Rightarrow> nat" where
  "journaled_from n [] = n"
| "journaled_from n (UpdatedRecord r # tr) = journaled_from (rec_upstream_attempts r) tr"
| "journaled_from n (x # tr) = journaled_from n tr"

definition journaled :: "effect list \<Rightarrow> nat" where
  "journaled tr = journaled_from 0 tr"

lemma journaled_from_snoc:
  "journaled_from n (tr @ [x]) = (case x of UpdatedRecord r \<Rightarrow> rec_upstream_attempts r | _ \<Rightarrow> journaled_from n tr)"
  by (induction n tr rule: journaled_from.induct) (simp_all split: effect.split)

lemma scan_reads:
  "se_sends (scan tr) = sends tr \<and> se_permits (scan tr) = permits tr \<and> se_shown (scan tr) = shown tr
     \<and> se_journal (scan tr) = journaled tr \<and> se_closed (scan tr) = closed tr"
proof (induction tr rule: rev_induct)
  case Nil
  then show ?case by (simp add: nothing_seen_def sends_def permits_def shown_def journaled_def closed_def)
next
  case (snoc x tr)
  then show ?case
    by (cases x) (auto simp: sends_def permits_def shown_def journaled_def closed_def journaled_from_snoc)
qed

lemma see_good: "se_good (see x s) \<Longrightarrow> se_good s"
  by (cases x) simp_all

lemma scan_append: "scan (tr @ tr') = fold see tr' (scan tr)"
  by (simp add: scan_def)

lemma fold_good: "se_good (fold see tr s) \<Longrightarrow> se_good s"
  by (induction tr arbitrary: s) (auto dest: see_good)

lemma good_prefix: "se_good (scan (pre @ x # post)) \<Longrightarrow> se_good (see x (scan pre))"
  by (simp add: scan_append) (rule fold_good)

lemma good_send:
  "se_good (scan (pre @ SentUpstream p # post)) \<Longrightarrow>
     sends pre < permits pre \<and> sends pre < journaled pre \<and> \<not> shown pre \<and> \<not> closed pre"
  using good_prefix [of pre "SentUpstream p" post] by (simp add: scan_reads)

lemma good_finish:
  "se_good (scan (pre @ FinishedRecord r # post)) \<Longrightarrow>
     sends pre \<le> rec_upstream_attempts r \<and> rec_upstream_attempts r \<le> sends pre + 1"
  using good_prefix [of pre "FinishedRecord r" post] by (simp add: scan_reads)

lemma good_once: "se_good (scan tr) \<Longrightarrow> BegunAgain \<notin> set tr"
proof
  assume good: "se_good (scan tr)" and "BegunAgain \<in> set tr"
  then obtain pre post where "tr = pre @ BegunAgain # post" by (auto dest: split_list)
  with good have "se_good (see BegunAgain (scan pre))" using good_prefix by blast
  then show False by simp
qed

subsection \<open>Admission\<close>

definition unread :: "run \<Rightarrow> bool" where
  "unread w \<longleftrightarrow> scan (rn_trace w) = nothing_seen"

interpretation unread: run_condition unread env for env
  by unfold_locales (auto simp: unread_def see_quiet)

lemma admit_session_unread: "unread.keeps (admit_session env session)"
proof -
  have restored: "unread.keeps (\<lambda>w. (Inr (), case r of None \<Rightarrow> w | Some (n, e) \<Rightarrow> w\<lparr>rn_guard := guard_restore session n e (rn_guard w)\<rparr>))" for r
    by (rule unread.keepsI) (simp add: unread_def split: option.split prod.split)
  show ?thesis
    unfolding admit_session_def Let_def by (intro unread.keeps_steps restored)
qed

lemma admit_waiting: "runs unread (admit env po i key rq body_bytes) (\<lambda>_. waiting) (\<lambda>_. unread)"
proof -
  have keep: "runs unread m (\<lambda>_. unread) (\<lambda>_. unread)" if "unread.keeps m" for m :: "'b prog"
    by (rule unread.keeps_runs [OF that])
  have fresh: "runs unread (change (\<lambda>_. new_execution (new_record i key rq model cfg now body_bytes))) (\<lambda>_. waiting) (\<lambda>_. unread)" for model cfg now
    by (rule runs_change) (simp add: unread_def stage_unseen nothing_seen_def new_execution_def new_record_def)
  have begin_: "runs waiting (act_bind (act_read record_of) (\<lambda>r. call env (BegunRecord r))) (\<lambda>_. waiting) (\<lambda>_. unread)"
  proof (rule runs_bind)
    fix r
    have "stage.keeps 0 0 0 0 {False} (emit (BegunRecord r))"
      by (rule stage.keepsI) (simp add: emit_def stage_unseen)
    then have "stage.keeps 0 0 0 0 {False} (call env (BegunRecord r))"
      unfolding call_def by (intro stage.keeps_then stage.keeps_ask)
    then show "runs waiting (call env (BegunRecord r)) (\<lambda>_. waiting) (\<lambda>_. unread)"
      by (rule runs_conseq [OF stage.keeps_runs]) (simp_all add: stage_unseen unread_def nothing_seen_def)
  qed (simp add: runs_read)
  show ?thesis
    unfolding admit_def
    by (rule runs_bind [OF keep [OF unread.keeps_ask]], rule runs_bind [OF keep [OF unread.keeps_lift]],
        rule runs_then [OF keep [OF unread.keeps_lift]],
        rule runs_then [OF keep [OF unread.keeps_when [OF admit_session_unread]]],
        rule runs_then [OF keep [OF unread.keeps_check]], rule runs_bind [OF keep [OF unread.keeps_observe]],
        simp only: split_paired_all prod.case, rule runs_then [OF fresh], rule runs_then [OF begin_],
        rule runs_return)
qed

lemma gateway_start_good:
  assumes "rn_trace w = []"
  shows "se_good (scan (rn_trace (snd (gateway_start rounds env po i id_text key rq body_bytes w))))
    \<and> se_sends (scan (rn_trace (snd (gateway_start rounds env po i id_text key rq body_bytes w)))) \<le> 2"
proof -
  have "unread w" using assms by (simp add: unread_def)
  obtain r w1 where adm: "admit env po i key rq body_bytes w = (r, w1)" by (rule prod.exhaust)
  have now: "case r of Inr _ \<Rightarrow> waiting w1 | Inl _ \<Rightarrow> unread w1"
    by (rule runs_apply [OF admit_waiting \<open>unread w\<close> adm])
  show ?thesis
  proof (cases r)
    case (Inl s)
    with now have "unread w1" by simp
    with adm Inl show ?thesis by (simp add: gateway_start_def unread_def nothing_seen_def)
  next
    case (Inr model)
    with now have "waiting w1" by simp
    then have "sound (snd (request_task rounds env po rq model i w1))" by (rule request_task_sound)
    moreover have "snd (gateway_start rounds env po i id_text key rq body_bytes w) = snd (request_task rounds env po rq model i w1)"
      using adm Inr by (simp add: gateway_start_def split: prod.split)
    ultimately show ?thesis by (auto simp: sound_def)
  qed
qed

text \<open>
  C6. A request is sent upstream at most twice, whatever the upstream, the store, the other
  requests and the client do: every send has its own permission of the scheduler's lease,
  its attempt was written to the request's record before, and it is made while the client
  has been shown nothing and the record is not closed; a third attempt is never begun.
\<close>

theorem sends_guarded:
  assumes "rn_trace w = []"
    and "tr = rn_trace (snd (gateway_start rounds env po i id_text key rq body_bytes w))"
  shows "sends tr \<le> 2 \<and> BegunAgain \<notin> set tr
    \<and> (\<forall>pre p post. tr = pre @ SentUpstream p # post \<longrightarrow>
         sends pre < permits pre \<and> sends pre < journaled pre \<and> \<not> shown pre \<and> \<not> closed pre)"
proof -
  from gateway_start_good [OF assms(1)] have good: "se_good (scan tr)" and few: "se_sends (scan tr) \<le> 2"
    unfolding assms(2) by blast+
  from few have "sends tr \<le> 2" by (simp add: scan_reads)
  then show ?thesis using good good_send good_once by blast
qed

theorem sends_guarded_witness:
  "let tr = rn_trace (snd (gateway_start 1 ex_env ex_ports 3 ''3'' ex_key ex_request 10 ex_run))
   in sends tr \<le> 2 \<and> BegunAgain \<notin> set tr
    \<and> (\<forall>pre p post. tr = pre @ SentUpstream p # post \<longrightarrow>
         sends pre < permits pre \<and> sends pre < journaled pre \<and> \<not> shown pre \<and> \<not> closed pre)"
  unfolding Let_def by (rule sends_guarded [OF ex_run_trace refl])

text \<open>
  C7. Every version of the record that closes the request accounts for what was sent: the
  attempts it states are at least the sends made and at most one more (the attempt that
  ended before its send).
\<close>

theorem closed_record_accounts:
  assumes "rn_trace w = []"
    and "tr = rn_trace (snd (gateway_start rounds env po i id_text key rq body_bytes w))"
  shows "\<forall>pre r post. tr = pre @ FinishedRecord r # post \<longrightarrow>
     sends pre \<le> rec_upstream_attempts r \<and> rec_upstream_attempts r \<le> sends pre + 1 \<and> sends post = 0"
proof (intro allI impI)
  fix pre r post assume tr: "tr = pre @ FinishedRecord r # post"
  from gateway_start_good [OF assms(1)] have good: "se_good (scan (pre @ FinishedRecord r # post))"
    unfolding tr [symmetric] assms(2) by blast
  have "\<not> is_send x" if "x \<in> set post" for x
  proof
    assume "is_send x"
    then obtain p where "x = SentUpstream p" by (cases x) simp_all
    with that obtain a b where "post = a @ SentUpstream p # b" by (auto dest: split_list)
    with good have "se_good (scan ((pre @ FinishedRecord r # a) @ SentUpstream p # b))" by simp
    from good_send [OF this] have "\<not> closed (pre @ FinishedRecord r # a)" by blast
    then show False by (auto simp: closed_def)
  qed
  then have "sends post = 0" by (simp add: sends_def filter_empty_conv)
  with good_finish [OF good]
  show "sends pre \<le> rec_upstream_attempts r \<and> rec_upstream_attempts r \<le> sends pre + 1 \<and> sends post = 0" by blast
qed

theorem closed_record_accounts_witness:
  "let tr = rn_trace (snd (gateway_start 1 ex_env ex_ports 3 ''3'' ex_key ex_request 10 ex_run))
   in \<forall>pre r post. tr = pre @ FinishedRecord r # post \<longrightarrow>
     sends pre \<le> rec_upstream_attempts r \<and> rec_upstream_attempts r \<le> sends pre + 1 \<and> sends post = 0"
  unfolding Let_def by (rule closed_record_accounts [OF ex_run_trace refl])

subsection \<open>The end of a request\<close>

definition written :: "effect list \<Rightarrow> run \<Rightarrow> bool" where
  "written tr w \<longleftrightarrow> rn_trace w = tr"

interpretation written: await_condition "written tr" env for tr env
  by unfold_locales (simp_all add: written_def)

definition recorded :: "uuid \<Rightarrow> run \<Rightarrow> bool" where
  "recorded i w \<longleftrightarrow> (\<exists>r. prefix [BegunRecord r] (rn_trace w) \<and> rec_id r = i \<and> rec_upstream_attempts r = 0)"

lemma admit_session_written: "written.keeps tr (admit_session env session)"
proof -
  have restored: "written.keeps tr (\<lambda>w. (Inr (), case r of None \<Rightarrow> w | Some (n, e) \<Rightarrow> w\<lparr>rn_guard := guard_restore session n e (rn_guard w)\<rparr>))" for r
    by (rule written.keepsI) (simp add: written_def split: option.split prod.split)
  show ?thesis
    unfolding admit_session_def Let_def
    by (intro written.keeps_then written.keeps_bind written.keeps_read written.keeps_lift written.keeps_ask restored)
qed

lemma admit_recorded: "runs (written []) (admit env po i key rq body_bytes) (\<lambda>_. recorded i) (\<lambda>_ _. True)"
proof -
  have keep: "runs (written []) m (\<lambda>_. written []) (\<lambda>_ _. True)" if "written.keeps [] m" for m :: "'b prog"
    by (rule runs_conseq [OF written.keeps_runs [OF that]]) simp_all
  have fresh: "runs (written []) (change (\<lambda>_. new_execution (new_record i key rq model cfg now body_bytes)))
      (\<lambda>_ w. written [] w \<and> rec_id (record_of w) = i \<and> attempts_of w = 0) (\<lambda>_ _. True)" for model cfg now
    by (rule runs_change) (simp add: written_def new_execution_def new_record_def)
  have begun: "runs (\<lambda>w. written [] w \<and> rec_id (record_of w) = i \<and> attempts_of w = 0)
      (act_bind (act_read record_of) (\<lambda>r. call env (BegunRecord r))) (\<lambda>_. recorded i) (\<lambda>_ _. True)"
  proof (rule runs_bind)
    show "runs (\<lambda>w. written [] w \<and> rec_id (record_of w) = i \<and> attempts_of w = 0) (act_read record_of)
        (\<lambda>r w. written [] w \<and> rec_id r = i \<and> rec_upstream_attempts r = 0) (\<lambda>_ _. True)"
      by (rule runs_read) simp
  next
    fix r
    have "runs (written [BegunRecord r]) (ask env (en_unit env)) (\<lambda>_. written [BegunRecord r]) (\<lambda>_ _. True)"
      by (rule runs_conseq [OF written.keeps_runs [OF written.keeps_ask]]) simp_all
    then have asked: "runs (\<lambda>w. written [BegunRecord r] w \<and> rec_id r = i \<and> rec_upstream_attempts r = 0)
        (ask env (en_unit env)) (\<lambda>_. recorded i) (\<lambda>_ _. True)"
    proof (cases "rec_id r = i \<and> rec_upstream_attempts r = 0")
      case True
      from \<open>runs (written [BegunRecord r]) (ask env (en_unit env)) (\<lambda>_. written [BegunRecord r]) (\<lambda>_ _. True)\<close>
      show ?thesis
      proof (rule runs_conseq)
        show "written [BegunRecord r] w \<Longrightarrow> recorded i w" for w
          using True by (auto simp: written_def recorded_def)
      qed simp_all
    next
      case False
      then show ?thesis by (intro runs_never) blast
    qed
    show "runs (\<lambda>w. written [] w \<and> rec_id r = i \<and> rec_upstream_attempts r = 0) (call env (BegunRecord r))
        (\<lambda>_. recorded i) (\<lambda>_ _. True)"
      unfolding call_def by (rule runs_then [OF runs_emit asked]) (simp add: written_def)
  qed
  show ?thesis
    unfolding admit_def
    by (rule runs_bind [OF keep [OF written.keeps_ask]], rule runs_bind [OF keep [OF written.keeps_lift]],
        rule runs_then [OF keep [OF written.keeps_lift]],
        rule runs_then [OF keep [OF written.keeps_when [OF admit_session_written]]],
        rule runs_then [OF keep [OF written.keeps_check]], rule runs_bind [OF keep [OF written.keeps_observe]],
        simp only: split_paired_all prod.case, rule runs_then [OF fresh], rule runs_then [OF begun],
        rule runs_return)
qed

interpretation recorded: any_condition "recorded i" env for i env
  by unfold_locales (auto simp: recorded_def)

lemma request_task_snd:
  assumes "execute rounds env po rq model w = (r, w1)"
    and "e = (case r of Inl s \<Rightarrow> Some (stop_error s) | Inr _ \<Rightarrow> None)"
  shows "request_task rounds env po rq model i w = (e, snd (report env po rq i e (snd (summarize env e
     (snd (close_request env po e (snd (note_config env (snd (save_rejection env w1)))))))))) "
  unfolding request_task_def assms(1) Let_def prod.case assms(2) [symmetric]
  by (simp add: smooth_snd [OF smooth_task(1)] smooth_snd [OF smooth_task(2)] smooth_snd [OF smooth_task(3)]
      smooth_snd [OF smooth_task(4)])

lemma report_counts:
  assumes "counted c f w"
  shows "if e = None then counted (Suc c) f (snd (report env po rq i e w)) else counted c (Suc f) (snd (report env po rq i e w))"
proof (cases e)
  case None
  with assms show ?thesis by (simp add: report_def act_bind_def act_read_def counted_def)
next
  case (Some err)
  have "counted.keeps c (Suc f) (act_bind (observe (en_closed env)) (\<lambda>closed.
       run_when (gq_stream rq \<and> \<not> xn_terminal_delivered x \<and> \<not> closed) (or_ignore (settle env (Delivered b)))))" for x b
    by (intro counted.keeps_bind counted.keeps_observe counted.keeps_when counted.keeps_or_ignore counted.any_settle)
  moreover have "counted c (Suc f) (w\<lparr>rn_failed := Suc (rn_failed w)\<rparr>)"
    using assms by (simp add: counted_def)
  ultimately have "counted c (Suc f) (snd (act_bind (observe (en_closed env)) (\<lambda>closed.
       run_when (gq_stream rq \<and> \<not> xn_terminal_delivered (rn_xn w) \<and> \<not> closed)
         (or_ignore (settle env (Delivered (po_failure po i err))))) (w\<lparr>rn_failed := Suc (rn_failed w)\<rparr>)))"
    by (rule counted.keepsD)
  with Some show ?thesis by (simp add: report_def act_then_def act_bind_def act_read_def)
qed

lemma report_settled: "settled.keeps (report env po rq i e)"
proof -
  have "settled.keeps (\<lambda>w. (Inr (), w\<lparr>rn_completed := Suc (rn_completed w)\<rparr>))"
    by (rule settled.keepsI) (simp add: settled_def)
  moreover have "settled.keeps (\<lambda>w. (Inr (), w\<lparr>rn_failed := Suc (rn_failed w)\<rparr>))"
    by (rule settled.keepsI) (simp add: settled_def)
  moreover have "settled.keeps (emit (Delivered b))" for b
    by (rule settled.keepsI) (simp add: settled_def emit_def)
  then have "settled.keeps (settle env (Delivered b))" for b
    unfolding settle_def by (intro settled.keeps_then settled.keeps_others settled.keeps_check)
  ultimately show ?thesis
    unfolding report_def
    by (auto intro!: settled.keeps_bind settled.keeps_then settled.keeps_read settled.keeps_observe settled.keeps_when
        settled.keeps_or_ignore split: option.split)
qed

lemma report_recorded: "recorded.keeps i (report env po rq j e)"
proof -
  have "recorded.keeps i (\<lambda>w. (Inr (), w\<lparr>rn_completed := Suc (rn_completed w)\<rparr>))"
    by (rule recorded.keepsI) (simp add: recorded_def)
  moreover have "recorded.keeps i (\<lambda>w. (Inr (), w\<lparr>rn_failed := Suc (rn_failed w)\<rparr>))"
    by (rule recorded.keepsI) (simp add: recorded_def)
  ultimately show ?thesis
    unfolding report_def
    by (auto intro!: recorded.keeps_bind recorded.keeps_then recorded.keeps_read recorded.keeps_observe
        recorded.keeps_when recorded.keeps_or_ignore recorded.any_settle split: option.split)
qed

lemma request_task_ends:
  assumes "recorded i w" and "counted c f w" and "request_task rounds env po rq model i w = (e, w')"
  shows "recorded i w' \<and> settled w' \<and> (if e = None then counted (Suc c) f w' else counted c (Suc f) w')"
proof -
  obtain r w1 where run: "execute rounds env po rq model w = (r, w1)" by (rule prod.exhaust)
  define w5 where "w5 = snd (summarize env e (snd (close_request env po e (snd (note_config env (snd (save_rejection env w1)))))))"
  from request_task_snd [OF run refl, of i] assms(3)
  have w': "w' = snd (report env po rq i e w5)" by (simp add: w5_def)
  have "recorded i w1" and "counted c f w1"
    using recorded.keepsD [OF recorded.any_execute assms(1)] counted.keepsD [OF counted.any_execute assms(2)] run
    by (metis snd_conv)+
  from this(1) have "recorded i w5"
    unfolding w5_def
    by (intro recorded.keepsD [OF recorded.keeps_summarize] recorded.keepsD [OF recorded.any_close]
        recorded.keepsD [OF recorded.keeps_note_config] recorded.keepsD [OF recorded.keeps_save_rejection])
  moreover from \<open>counted c f w1\<close> have "counted c f w5"
    unfolding w5_def
    by (intro counted.keepsD [OF counted.keeps_summarize] counted.keepsD [OF counted.any_close]
        counted.keepsD [OF counted.keeps_note_config] counted.keepsD [OF counted.keeps_save_rejection])
  moreover have "settled w5"
    unfolding w5_def by (rule settled.keepsD [OF settled.keeps_summarize close_request_settles])
  ultimately show ?thesis
    unfolding w' by (intro conjI recorded.keepsD [OF report_recorded] settled.keepsD [OF report_settled] report_counts)
qed

lemma admit_counted: "counted.keeps c f (admit env po i key rq body_bytes)"
proof -
  have "counted.keeps c f (\<lambda>w. (Inr (), case r of None \<Rightarrow> w | Some (n, e) \<Rightarrow> w\<lparr>rn_guard := guard_restore session n e (rn_guard w)\<rparr>))" for r session
    by (rule counted.keepsI) (simp add: counted_def split: option.split prod.split)
  then have "counted.keeps c f (admit_session env session)" for session
    unfolding admit_session_def Let_def by (intro counted.any_steps)
  then show ?thesis
    unfolding admit_def by (auto intro!: counted.any_steps)
qed



subsection \<open>Rejected sessions\<close>

text \<open>Other requests only add to the guard; then a blocked session stays blocked.\<close>

definition blocked :: "environment \<Rightarrow> nat \<Rightarrow> run \<Rightarrow> bool" where
  "blocked env n w \<longleftrightarrow>
     (\<forall>t g. guard_grows g (en_guard env t g)) \<and> rejected (rn_guard w) (session_of (record_of w))
     \<and> \<not> rec_stateless (record_of w) \<and> sends (rn_trace w) = n"

lemma sends_snoc: "\<not> is_send x \<Longrightarrow> sends (tr @ [x]) = sends tr"
  by (simp add: sends_def)

lemma quiet_no_send: "quiet x \<Longrightarrow> \<not> is_send x"
  by (cases x) simp_all

interpretation blocked: run_condition "blocked env n" env for env n
  by unfold_locales (auto simp: blocked_def sends_snoc quiet_no_send guard_grows_def same_request_def)

lemma blocked_emit: "\<not> is_send x \<Longrightarrow> blocked.keeps env n (emit x)"
  by (rule blocked.keepsI) (simp add: blocked_def emit_def sends_snoc)

lemma blocked_settle: "\<not> is_send x \<Longrightarrow> blocked.keeps env n (settle env x)"
  unfolding settle_def by (intro blocked.keeps_then blocked.keeps_others blocked.keeps_check blocked_emit)

lemma blocked_finalize: "blocked.keeps env n (finalize env po (settle env) e)"
  unfolding finalize_def
  by (auto intro!: blocked.keeps_steps blocked_settle same_request_close simp: same_request_refl)

lemma blocked_close: "blocked.keeps env n (close_request env po e)"
  unfolding close_request_def
  by (auto intro!: blocked.keeps_steps blocked.keeps_or_pause blocked.keeps_or_ignore blocked_finalize blocked_settle)

lemma blocked_report: "blocked.keeps env n (report env po rq i e)"
proof -
  have "blocked.keeps env n (\<lambda>w. (Inr (), w\<lparr>rn_completed := Suc (rn_completed w)\<rparr>))"
    by (rule blocked.keepsI) (simp add: blocked_def)
  moreover have "blocked.keeps env n (\<lambda>w. (Inr (), w\<lparr>rn_failed := Suc (rn_failed w)\<rparr>))"
    by (rule blocked.keepsI) (simp add: blocked_def)
  ultimately show ?thesis
    unfolding report_def
    by (auto intro!: blocked.keeps_bind blocked.keeps_then blocked.keeps_read blocked.keeps_observe
        blocked.keeps_when blocked.keeps_or_ignore blocked_settle split: option.split)
qed

lemma blocked_checked: "runs (blocked env n) check_session_safety (\<lambda>_ _. False) (\<lambda>_. blocked env n)"
  by (auto simp: runs_def check_session_safety_def act_bind_def act_read_def lift_def act_fail_def act_return_def
      blocked_def guard_check_iff split: sum.split)

lemma blocked_dispatch: "runs (blocked env n) (dispatch_loop k env po rq model) (\<lambda>_ _. False) (\<lambda>_. blocked env n)"
proof (induction k)
  case 0
  then show ?case by (simp add: runs_fail)
next
  case (Suc k)
  have "runs (blocked env n) (dispatch_round env po rq model) (\<lambda>_ _. False) (\<lambda>_. blocked env n)"
    unfolding dispatch_round_def
    by (rule runs_bind [OF blocked.keeps_runs [OF blocked.keeps_wait]], rule runs_then [OF blocked_checked], rule runs_never)
      simp
  then show ?case by (simp add: runs_bind runs_never)
qed

lemma blocked_execute: "runs (blocked env n) (execute rounds env po rq model) (\<lambda>_ _. False) (\<lambda>_. blocked env n)"
  unfolding execute_def by (rule runs_bind [OF blocked_dispatch]) (simp add: runs_never)

text \<open>
  C9. A request whose session the gateway blocks, because the upstream's safety policy has
  rejected three requests of it, is never sent: if the guard blocks the session when the task
  begins (other requests may have caused that after this one was admitted), the task fails
  and sends nothing, whatever happens meanwhile.
\<close>

theorem blocked_session_unsent:
  assumes "\<forall>t g. guard_grows g (en_guard env t g)"
    and "rejected (rn_guard w) (session_of (record_of w))" and "\<not> rec_stateless (record_of w)"
    and "request_task rounds env po rq model i w = (e, w')"
  shows "e \<noteq> None \<and> sends (rn_trace w') = sends (rn_trace w)"
proof -
  let ?B = "blocked env (sends (rn_trace w))"
  have entry: "?B w" using assms(1-3) by (simp add: blocked_def)
  obtain r w1 where run: "execute rounds env po rq model w = (r, w1)" by (rule prod.exhaust)
  have "case r of Inr _ \<Rightarrow> False | Inl _ \<Rightarrow> ?B w1"
    by (rule runs_apply [OF blocked_execute entry run])
  then obtain s where r: "r = Inl s" and w1: "?B w1" by (auto split: sum.splits)
  from request_task_snd [OF run refl, of i] assms(4) r have e: "e = Some (stop_error s)" and w': "w' = snd (report env po rq i e (snd (summarize env e
     (snd (close_request env po e (snd (note_config env (snd (save_rejection env w1)))))))))" by simp_all
  from w1 have "?B w'"
    unfolding w'
    by (intro blocked.keepsD [OF blocked_report] blocked.keepsD [OF blocked.keeps_summarize] blocked.keepsD [OF blocked_close]
        blocked.keepsD [OF blocked.keeps_note_config] blocked.keepsD [OF blocked.keeps_save_rejection])
  with e show ?thesis by (simp add: blocked_def)
qed

theorem blocked_session_unsent_witness:
  "case request_task 1 ex_env ex_ports ex_request ex_spec 3 ex_blocked of
     (e, w') \<Rightarrow> e \<noteq> None \<and> sends (rn_trace w') = sends (rn_trace ex_blocked)"
proof (cases "request_task 1 ex_env ex_ports ex_request ex_spec 3 ex_blocked")
  case (Pair e w')
  then have "e \<noteq> None \<and> sends (rn_trace w') = sends (rn_trace ex_blocked)"
    by (rule blocked_session_unsent [rotated 3])
      (simp_all add: ex_env_def guard_grows_refl ex_blocked_rejected ex_blocked_session)
  with Pair show ?thesis by simp
qed

end
