(* ===== verification/Pg_Requests.thy ===== *)
theory Pg_Requests
  imports Gateway_Run
begin

section \<open>The tables of requests\<close>

text \<open>
  \<open>crates/xxgate-postgres/src/requests.rs\<close> with \<open>account_spending_increment.sql\<close>: a request's row
  is inserted when it is accepted, updated while it is open and closed once; closing it adds it
  to the totals of its hour and to the ledger and the hourly totals of its account. Totals are
  rows of sums updated in place (\<open>ON CONFLICT DO UPDATE\<close>): \<open>rolled_up\<close> is what they mean. One
  transaction is one function of the tables. Valuations have at most eight places, which is the
  scale of the \<open>NUMERIC\<close> column, so amounts are exact; \<open>hour_of\<close> is \<open>date_trunc\<close> in the time
  zone of the database session, and clock readings are arguments.
\<close>

subsection \<open>Sums kept in rows\<close>

definition upsert :: "'k \<Rightarrow> 'v::comm_monoid_add \<Rightarrow> ('k, 'v) hmap \<Rightarrow> ('k, 'v) hmap" where
  "upsert k v m = (case hget m k of None \<Rightarrow> hput k v m | Some w \<Rightarrow> hput k (w + v) m)"

locale rollup =
  fixes key :: "'e \<Rightarrow> 'k" and amount :: "'e \<Rightarrow> 'v::comm_monoid_add"
begin

definition rolled_up :: "'e list \<Rightarrow> 'k \<Rightarrow> 'v option" where
  "rolled_up es k =
     (if k \<in> key ` set es then Some (sum_list (map amount (filter (\<lambda>e. key e = k) es))) else None)"

lemma rolled_up_Nil: "rolled_up [] k = None"
  by (simp add: rolled_up_def)

lemma upsert_rolled_up:
  "hget m = rolled_up es \<Longrightarrow> hget (upsert (key e) (amount e) m) = rolled_up (es @ [e])"
proof
  fix k assume m: "hget m = rolled_up es"
  have "filter (\<lambda>x. key x = key e) es = []" if "key e \<notin> key ` set es"
    using that by (induction es) auto
  with m show "hget (upsert (key e) (amount e) m) k = rolled_up (es @ [e]) k"
    by (auto simp: upsert_def rolled_up_def fun_eq_iff split: option.split if_splits)
qed

lemma prune_rolled_up:
  assumes "hget m = rolled_up es"
  shows "hget (filter (\<lambda>(k, _). p k) m) = rolled_up (filter (\<lambda>e. p (key e)) es)"
proof
  fix k
  have "hget (filter (\<lambda>(k, _). p k) m) k = (if p k then hget m k else None)"
    by (induction m) auto
  moreover have "filter (\<lambda>e. key e = k) (filter (\<lambda>e. p (key e)) es) = filter (\<lambda>e. key e = k) es" if "p k"
    using that by (auto simp: filter_filter intro: filter_cong)
  moreover have "k \<in> key ` set (filter (\<lambda>e. p (key e)) es) \<longleftrightarrow> p k \<and> k \<in> key ` set es" by auto
  ultimately show "hget (filter (\<lambda>(k, _). p k) m) k = rolled_up (filter (\<lambda>e. p (key e)) es) k"
    using assms by (auto simp: rolled_up_def)
qed

end

subsection \<open>The totals of an hour\<close>

datatype totals = Totals
  (t_requests: nat) (t_completed: nat) (t_failed: nat) (t_cancelled: nat)
  (t_input: nat) (t_output: nat) (t_cached: nat) (t_images: nat) (t_cny: rat)
  (t_unpriced: nat) (t_incomplete: nat) (t_duration: nat) (t_search_calls: nat) (t_search_cny: rat)

definition add_totals :: "totals \<Rightarrow> totals \<Rightarrow> totals" where
  "add_totals a b = Totals (t_requests a + t_requests b) (t_completed a + t_completed b) (t_failed a + t_failed b)
     (t_cancelled a + t_cancelled b) (t_input a + t_input b) (t_output a + t_output b) (t_cached a + t_cached b)
     (t_images a + t_images b) (t_cny a + t_cny b) (t_unpriced a + t_unpriced b) (t_incomplete a + t_incomplete b)
     (t_duration a + t_duration b) (t_search_calls a + t_search_calls b) (t_search_cny a + t_search_cny b)"

instantiation totals :: comm_monoid_add
begin

definition zero_totals :: totals where
  "0 = Totals 0 0 0 0 0 0 0 0 0 0 0 0 0 0"

definition plus_totals :: "totals \<Rightarrow> totals \<Rightarrow> totals" where
  "a + b = add_totals a b"

instance
  by standard (simp_all add: zero_totals_def plus_totals_def add_totals_def)

end

definition counted :: "bool \<Rightarrow> nat" where
  "counted b = (if b then 1 else 0)"

definition cost_of :: "request_record \<Rightarrow> rat option" where
  "cost_of r = map_option dec_value (Option.bind (rec_valuation r) va_cny)"

definition or_zero :: "'a::zero option \<Rightarrow> 'a" where
  "or_zero v = (case v of None \<Rightarrow> 0 | Some x \<Rightarrow> x)"

type_synonym hour_slot = "int \<times> uuid \<times> uuid \<times> string \<times> string \<times> string"

definition hourly_key :: "(datetime \<Rightarrow> int) \<Rightarrow> request_record \<Rightarrow> hour_slot" where
  "hourly_key hour_of r =
     (hour_of (rec_created_at r), or_zero (rec_account_id r), rec_key_id r, rec_provider r, rec_model r,
      case us_service_tier (rec_usage r) of None \<Rightarrow> ''unknown'' | Some t \<Rightarrow> t)"

definition hourly_totals :: "request_record \<Rightarrow> totals" where
  "hourly_totals r =
     (let u = rec_usage r; cost = cost_of r in
      Totals 1 (counted (rec_state r = ''completed''))
        (counted (rec_state r \<in> {''failed'', ''interrupted'', ''rejected''})) (counted (rec_state r = ''cancelled''))
        (or_zero (us_input_tokens u)) (or_zero (us_output_tokens u)) (or_zero (us_cached_input_tokens u))
        (us_image_count u) (or_zero cost) (counted (cost = None))
        (counted (\<not> us_complete u \<and> 0 < rec_upstream_attempts r)) (or_zero (rec_total_ms r)) (us_search_calls u)
        (if rec_kind r = Search then or_zero cost else 0))"

subsection \<open>The spending of an account\<close>

text \<open>Token sums that stay \<open>NULL\<close> until a value is known.\<close>

definition add_known :: "nat option \<Rightarrow> nat option \<Rightarrow> nat option" where
  "add_known a b = (if a = None \<and> b = None then None else Some (or_zero a + or_zero b))"

lemma add_known_simps [simp]:
  "add_known None b = b" "add_known a None = a" "add_known (Some x) (Some y) = Some (x + y)"
  by (cases a; cases b; simp add: add_known_def or_zero_def)+

datatype spending = Spending
  (sp_cny: rat) (sp_requests: nat) (sp_unpriced: nat) (sp_codex_cny: rat) (sp_codex_requests: nat)
  (sp_codex_unpriced: nat) (sp_input: "nat option") (sp_output: "nat option") (sp_missing: nat)

definition add_spent :: "spending \<Rightarrow> spending \<Rightarrow> spending" where
  "add_spent a b = Spending (sp_cny a + sp_cny b) (sp_requests a + sp_requests b) (sp_unpriced a + sp_unpriced b)
     (sp_codex_cny a + sp_codex_cny b) (sp_codex_requests a + sp_codex_requests b)
     (sp_codex_unpriced a + sp_codex_unpriced b) (add_known (sp_input a) (sp_input b))
     (add_known (sp_output a) (sp_output b)) (sp_missing a + sp_missing b)"

instantiation spending :: comm_monoid_add
begin

definition zero_spending :: spending where
  "0 = Spending 0 0 0 0 0 0 None None 0"

definition plus_spending :: "spending \<Rightarrow> spending \<Rightarrow> spending" where
  "a + b = add_spent a b"

instance
proof
  fix a b c :: spending
  have assoc: "add_known (add_known x y) z = add_known x (add_known y z)" for x y z
    by (cases x; cases y; cases z; simp)
  have comm: "add_known x y = add_known y x" for x y
    by (cases x; cases y; simp)
  show "a + b + c = a + (b + c)" by (simp add: plus_spending_def add_spent_def assoc)
  show "a + b = b + a" by (simp add: plus_spending_def add_spent_def comm [of "sp_input a"] comm [of "sp_output a"])
  show "0 + a = a" by (simp add: plus_spending_def add_spent_def zero_spending_def)
qed

end

record spend_entry =
  se_request :: uuid
  se_account :: uuid
  se_finished_at :: datetime
  se_cny :: "rat option"
  se_codex_main :: bool
  se_input :: "nat option"
  se_output :: "nat option"

definition hour_ns :: int where
  "hour_ns = 3600 * 1000000000"

text \<open>\<open>date_trunc('hour', t, 'UTC')\<close>\<close>

definition utc_hour :: "datetime \<Rightarrow> datetime" where
  "utc_hour t = t - t mod hour_ns"

definition spend_key :: "spend_entry \<Rightarrow> uuid \<times> datetime" where
  "spend_key e = (se_account e, utc_hour (se_finished_at e))"

definition spend_amount :: "spend_entry \<Rightarrow> spending" where
  "spend_amount e =
     Spending (or_zero (se_cny e)) 1 (counted (se_cny e = None)) (if se_codex_main e then or_zero (se_cny e) else 0)
       (counted (se_codex_main e)) (counted (se_codex_main e \<and> se_cny e = None)) (se_input e) (se_output e)
       (counted (se_input e = None \<or> se_output e = None))"

interpretation hours: rollup "hourly_key hour_of" hourly_totals for hour_of .

interpretation spent: rollup spend_key spend_amount .

subsection \<open>Rows and operations\<close>

record request_row =
  qr_record :: request_record
  qr_finished_at :: "datetime option"
  qr_detail :: "string option"

record logged =
  lo_at :: datetime
  lo_kind :: string
  lo_actor :: string
  lo_request :: "uuid option"
  lo_account :: "uuid option"

record books =
  bo_requests :: "(uuid, request_row) hmap"
  bo_hourly :: "(hour_slot, totals) hmap"
  bo_entries :: "(uuid, spend_entry) hmap"
  bo_spending :: "(uuid \<times> datetime, spending) hmap"
  bo_events :: "logged list"

definition books_empty :: books where
  "books_empty = \<lparr>bo_requests = [], bo_hourly = [], bo_entries = [], bo_spending = [], bo_events = []\<rparr>"

type_synonym 'a booking = "books \<Rightarrow> 'a res \<times> books"

definition note_event :: "datetime \<Rightarrow> string \<Rightarrow> request_record \<Rightarrow> uuid option \<Rightarrow> books \<Rightarrow> books" where
  "note_event now kind r account db = db\<lparr>bo_events := bo_events db
     @ [\<lparr>lo_at = now, lo_kind = kind, lo_actor = ''gateway'', lo_request = Some (rec_id r), lo_account = account\<rparr>]\<rparr>"

definition open_row :: "books \<Rightarrow> uuid \<Rightarrow> bool" where
  "open_row db i \<longleftrightarrow> (case hget (bo_requests db) i of None \<Rightarrow> False | Some w \<Rightarrow> qr_finished_at w = None)"

definition begin_request :: "datetime \<Rightarrow> request_record \<Rightarrow> unit booking" where
  "begin_request now r db =
     (if hget (bo_requests db) (rec_id r) \<noteq> None then (Inl err_storage, db)
      else (Inr (), note_event now (if rec_state r = ''rejected'' then ''request_rejected'' else ''request_accepted'') r None
        (db\<lparr>bo_requests := hput (rec_id r) \<lparr>qr_record = r, qr_finished_at = None, qr_detail = None\<rparr> (bo_requests db)\<rparr>)))"

definition update_request :: "request_record \<Rightarrow> unit booking" where
  "update_request r db =
     (Inr (), if open_row db (rec_id r)
      then db\<lparr>bo_requests := hput (rec_id r) \<lparr>qr_record = r, qr_finished_at = None, qr_detail = None\<rparr> (bo_requests db)\<rparr>
      else db)"

definition codex_main :: "request_record \<Rightarrow> bool" where
  "codex_main r \<longleftrightarrow> 0 < rec_upstream_attempts r
     \<and> (case rec_upstream_model r of None \<Rightarrow> rec_model r | Some m \<Rightarrow> m) \<noteq> ''gpt-5.3-codex-spark''"

definition entry_of :: "uuid \<Rightarrow> datetime \<Rightarrow> request_record \<Rightarrow> spend_entry" where
  "entry_of account finished_at r =
     \<lparr>se_request = rec_id r, se_account = account, se_finished_at = finished_at, se_cny = cost_of r,
      se_codex_main = codex_main r, se_input = us_input_tokens (rec_usage r), se_output = us_output_tokens (rec_usage r)\<rparr>"

text \<open>\<open>account_spending_increment.sql\<close>\<close>

definition add_spending :: "spend_entry \<Rightarrow> books \<Rightarrow> books" where
  "add_spending e db =
     (if hget (bo_entries db) (se_request e) \<noteq> None then db
      else db\<lparr>bo_entries := hput (se_request e) e (bo_entries db),
              bo_spending := upsert (spend_key e) (spend_amount e) (bo_spending db)\<rparr>)"

definition close_row :: "datetime \<Rightarrow> request_record \<Rightarrow> books \<Rightarrow> books" where
  "close_row finished_at r db = db\<lparr>bo_requests :=
     hput (rec_id r) \<lparr>qr_record = r, qr_finished_at = Some finished_at, qr_detail = Some ''full''\<rparr> (bo_requests db)\<rparr>"

definition add_hourly :: "(datetime \<Rightarrow> int) \<Rightarrow> request_record \<Rightarrow> books \<Rightarrow> books" where
  "add_hourly hour_of r db = db\<lparr>bo_hourly := upsert (hourly_key hour_of r) (hourly_totals r) (bo_hourly db)\<rparr>"

definition finish_request :: "(datetime \<Rightarrow> int) \<Rightarrow> datetime \<Rightarrow> request_record \<Rightarrow> unit booking" where
  "finish_request hour_of now r db =
     (let finished_at = (case rec_finished_at r of None \<Rightarrow> now | Some t \<Rightarrow> t) in
      if \<not> open_row db (rec_id r) then (Inr (), db)
      else if 2 ^ 63 \<le> us_search_calls (rec_usage r) then (Inl err_storage, db)
      else
        let db1 = add_hourly hour_of r (close_row finished_at r db);
            db2 = (case rec_account_id r of None \<Rightarrow> db1 | Some a \<Rightarrow> add_spending (entry_of a finished_at r) db1)
        in (Inr (), note_event now ''request_finished'' r (rec_account_id r) db2))"

definition append_event :: "logged \<Rightarrow> unit booking" where
  "append_event e db = (Inr (), db\<lparr>bo_events := bo_events db @ [e]\<rparr>)"

definition strip_details :: "request_record \<Rightarrow> request_record" where
  "strip_details r = r\<lparr>rec_ingress_diagnostics := None, rec_client_turn_state := None,
     rec_usage := (rec_usage r)\<lparr>us_raw_usage := JNull\<rparr>\<rparr>"

definition summarizable :: "books \<Rightarrow> uuid \<Rightarrow> request_row \<Rightarrow> bool" where
  "summarizable db i w \<longleftrightarrow>
     rec_state (qr_record w) = ''completed'' \<and> qr_finished_at w \<noteq> None \<and> qr_detail w \<noteq> Some ''summary''
     \<and> \<not> (\<exists>e\<in>set (bo_events db). lo_request e = Some i
            \<and> lo_kind e \<in> {''delivery_interrupted'', ''encrypted_reasoning_recovery''})"

definition summarize_request :: "request_record \<Rightarrow> unit booking" where
  "summarize_request r db =
     (if \<not> summary_only r then (Inr (), db)
      else case hget (bo_requests db) (rec_id r) of
        None \<Rightarrow> (Inr (), db)
      | Some w \<Rightarrow>
          if \<not> summarizable db (rec_id r) w then (Inr (), db)
          else (Inr (), db\<lparr>bo_requests := hput (rec_id r)
                  (w\<lparr>qr_record := strip_details (qr_record w), qr_detail := Some ''summary''\<rparr>) (bo_requests db),
                bo_events := filter (\<lambda>e. \<not> (lo_request e = Some (rec_id r) \<and> lo_actor e = ''gateway''
                  \<and> lo_kind e \<in> {''request_rewritten'', ''dispatched'', ''upstream_attempt_headers''})) (bo_events db)\<rparr>))"

definition interrupted_message :: string where
  "interrupted_message = ''Process exited before a final outcome was persisted; request was not replayed''"

text \<open>\<open>at\<close> and \<open>measured\<close> are the two readings of the clock.\<close>

definition interrupted_record :: "dec_ops \<Rightarrow> datetime \<Rightarrow> datetime \<Rightarrow> request_record \<Rightarrow> request_record" where
  "interrupted_record ops finished measured r =
     (let r1 = r\<lparr>rec_finished_at := Some finished, rec_state := ''interrupted'',
                rec_error_code := Some ''process_interrupted'', rec_error_message := Some interrupted_message,
                rec_total_ms := Some (nat (max 0 ((measured - rec_created_at r) div 1000000))),
                rec_usage := (rec_usage r)\<lparr>us_complete := False\<rparr>\<rparr>
      in if rec_kind r = Search
         then r1\<lparr>rec_valuation := Some (value_search ops (us_search_calls (rec_usage r)) (rec_search_price r))\<rparr>
         else r1)"

fun reconcile_rows ::
  "(datetime \<Rightarrow> int) \<Rightarrow> dec_ops \<Rightarrow> (uuid \<Rightarrow> datetime \<times> datetime \<times> datetime) \<Rightarrow> request_record list \<Rightarrow> unit booking" where
  "reconcile_rows hour_of ops clock [] db = (Inr (), db)"
| "reconcile_rows hour_of ops clock (r # rs) db =
     (let (finished, measured, now) = clock (rec_id r) in
      case finish_request hour_of now (interrupted_record ops finished measured r) db of
        (Inl e, db') \<Rightarrow> (Inl e, db')
      | (Inr _, db') \<Rightarrow> reconcile_rows hour_of ops clock rs db')"

definition open_records :: "books \<Rightarrow> request_record list" where
  "open_records db = map qr_record (filter (\<lambda>w. qr_finished_at w = None) (hvals (bo_requests db)))"

definition reconcile_interrupted ::
  "(datetime \<Rightarrow> int) \<Rightarrow> dec_ops \<Rightarrow> (uuid \<Rightarrow> datetime \<times> datetime \<times> datetime) \<Rightarrow> nat booking" where
  "reconcile_interrupted hour_of ops clock db =
     (let rs = open_records db in
      case reconcile_rows hour_of ops clock rs db of
        (Inl e, db') \<Rightarrow> (Inl e, db')
      | (Inr _, db') \<Rightarrow> (Inr (length rs), db'))"

definition days :: "nat \<Rightarrow> int" where
  "days n = int n * 24 * hour_ns"

text \<open>The statements of \<open>cleanup\<close> on these tables.\<close>

definition cleanup :: "datetime \<Rightarrow> nat \<Rightarrow> nat \<Rightarrow> books \<Rightarrow> books" where
  "cleanup now request_days audit_days db =
     (let cut = utc_hour (now - days 31) in
      db\<lparr>bo_entries := filter (\<lambda>(_, e). cut \<le> se_finished_at e) (bo_entries db),
         bo_spending := filter (\<lambda>((_, hour), _). cut \<le> hour) (bo_spending db),
         bo_requests := filter (\<lambda>(_, w). \<not> (qr_finished_at w \<noteq> None
           \<and> rec_created_at (qr_record w) < now - days request_days)) (bo_requests db),
         bo_events := filter (\<lambda>e. \<not> ((lo_request e \<noteq> None \<and> lo_at e < now - days request_days)
           \<or> (lo_request e = None \<and> (lo_at e < now - days audit_days)))) (bo_events db)\<rparr>)"

end
