(* ===== verification/Pg_Ledger.thy ===== *)
theory Pg_Ledger
  imports Pg_Requests "HOL-Library.Multiset"
begin

section \<open>What the tables of requests promise\<close>

text \<open>
  The abstract ledger behind the tables of \<open>Pg_Requests\<close>: the requests that are open, those
  that were booked, in order, and the spending still kept. The tables refine it: every
  operation is a sequence of its steps, and the rows of totals are the sums of what is booked.
\<close>

subsection \<open>The ledger\<close>

record ledger =
  ld_accepted :: "uuid list"
  ld_open :: "uuid set"
  ld_booked :: "request_record list"
  ld_spent :: "spend_entry list"

definition ledger_empty :: ledger where
  "ledger_empty = \<lparr>ld_accepted = [], ld_open = {}, ld_booked = [], ld_spent = []\<rparr>"

definition accept :: "uuid \<Rightarrow> ledger \<Rightarrow> ledger" where
  "accept i l = l\<lparr>ld_accepted := ld_accepted l @ [i], ld_open := insert i (ld_open l)\<rparr>"

definition book :: "datetime \<Rightarrow> request_record \<Rightarrow> ledger \<Rightarrow> ledger" where
  "book t r l = l
     \<lparr>ld_open := ld_open l - {rec_id r}, ld_booked := ld_booked l @ [r],
      ld_spent := ld_spent l @ (case rec_account_id r of
          None \<Rightarrow> []
        | Some a \<Rightarrow> if rec_id r \<in> se_request ` set (ld_spent l) then [] else [entry_of a t r])\<rparr>"

definition forget :: "datetime \<Rightarrow> ledger \<Rightarrow> ledger" where
  "forget t l = l\<lparr>ld_spent := filter (\<lambda>e. utc_hour t \<le> se_finished_at e) (ld_spent l)\<rparr>"

inductive ledger_step :: "ledger \<Rightarrow> ledger \<Rightarrow> bool" where
  step_accept: "i \<notin> ld_open l \<Longrightarrow> ledger_step l (accept i l)"
| step_book: "rec_id r \<in> ld_open l \<Longrightarrow> ledger_step l (book t r l)"
| step_forget: "ledger_step l (forget t l)"

abbreviation ledger_steps :: "ledger \<Rightarrow> ledger \<Rightarrow> bool" where
  "ledger_steps \<equiv> ledger_step\<^sup>*\<^sup>*"

text \<open>Every accepted request is open or booked, once for each time it was accepted.\<close>

definition balanced :: "ledger \<Rightarrow> bool" where
  "balanced l \<longleftrightarrow> finite (ld_open l)
     \<and> mset (ld_accepted l) = mset (map rec_id (ld_booked l)) + mset_set (ld_open l)"

lemma step_balanced: "ledger_step l l' \<Longrightarrow> balanced l \<Longrightarrow> balanced l'"
proof (induction rule: ledger_step.induct)
  case (step_book r l t)
  then have "mset_set (ld_open l) = add_mset (rec_id r) (mset_set (ld_open l - {rec_id r}))"
    by (simp add: balanced_def mset_set.remove)
  with step_book show ?case by (simp add: balanced_def book_def)
qed (simp_all add: balanced_def accept_def forget_def)

interpretation bookkeeping: invariant_system "\<lambda>l. l = ledger_empty" ledger_step balanced
proof unfold_locales
  show "l = ledger_empty \<Longrightarrow> balanced l" for l by (simp add: balanced_def ledger_empty_def)
  show "balanced l \<Longrightarrow> ledger_step l l' \<Longrightarrow> balanced l'" for l l' by (rule step_balanced)
qed

subsection \<open>The tables represent a ledger\<close>

definition entries_of :: "books \<Rightarrow> spend_entry list \<Rightarrow> bool" where
  "entries_of db es \<longleftrightarrow> hwf (bo_entries db)
     \<and> (\<forall>i e. hget (bo_entries db) i = Some e \<longleftrightarrow> e \<in> set es \<and> se_request e = i)"

definition rows_ok :: "books \<Rightarrow> bool" where
  "rows_ok db \<longleftrightarrow> hwf (bo_requests db)
     \<and> (\<forall>i w. hget (bo_requests db) i = Some w \<longrightarrow> rec_id (qr_record w) = i)"

definition represents :: "(datetime \<Rightarrow> int) \<Rightarrow> books \<Rightarrow> ledger \<Rightarrow> bool" where
  "represents hour_of db l \<longleftrightarrow>
     rows_ok db \<and> ld_open l = Collect (open_row db) \<and> entries_of db (ld_spent l)
     \<and> hget (bo_hourly db) = hours.rolled_up hour_of (ld_booked l)
     \<and> hget (bo_spending db) = spent.rolled_up (ld_spent l)"

lemma empty_represents: "represents hour_of books_empty ledger_empty"
  by (auto simp: represents_def rows_ok_def entries_of_def books_empty_def ledger_empty_def open_row_def
      hours.rolled_up_Nil spent.rolled_up_Nil hwf_def)

lemma open_row_iff: "open_row db i \<longleftrightarrow> (\<exists>w. hget (bo_requests db) i = Some w \<and> qr_finished_at w = None)"
  by (simp add: open_row_def split: option.split)

lemma open_row_put:
  "bo_requests db' = hput i w (bo_requests db) \<Longrightarrow>
     Collect (open_row db') = (if qr_finished_at w = None then insert i (Collect (open_row db)) else Collect (open_row db) - {i})"
  by (auto simp: open_row_def split: if_splits)

lemma represents_cong:
  assumes "bo_requests db' = bo_requests db" "bo_hourly db' = bo_hourly db" "bo_entries db' = bo_entries db"
    "bo_spending db' = bo_spending db"
  shows "represents hour_of db' l \<longleftrightarrow> represents hour_of db l"
proof -
  have "open_row db' = open_row db" using assms(1) by (simp add: open_row_def fun_eq_iff)
  with assms show ?thesis by (simp add: represents_def rows_ok_def entries_of_def)
qed

lemma begin_refines:
  assumes "represents hour_of db l"
  shows "\<exists>l'. ledger_steps l l' \<and> represents hour_of (snd (begin_request now r db)) l'
    \<and> ld_accepted l' = ld_accepted l @ (if fst (begin_request now r db) = Inr () then [rec_id r] else [])"
proof (cases "hget (bo_requests db) (rec_id r)")
  case None
  with assms have "rec_id r \<notin> ld_open l" by (simp add: represents_def open_row_def)
  then have "ledger_steps l (accept (rec_id r) l)" by (blast intro: step_accept)
  moreover have "represents hour_of (snd (begin_request now r db)) (accept (rec_id r) l)"
    using assms None
    by (auto simp: represents_def begin_request_def note_event_def accept_def rows_ok_def entries_of_def open_row_def)
  ultimately show ?thesis using None by (auto simp: begin_request_def accept_def)
next
  case (Some w)
  then have "begin_request now r db = (Inl err_storage, db)" by (simp add: begin_request_def)
  with assms show ?thesis by auto
qed

lemma update_represents: "represents hour_of db l \<Longrightarrow> represents hour_of (snd (update_request r db)) l"
  by (auto simp: represents_def update_request_def rows_ok_def entries_of_def open_row_def split: option.splits if_splits)

lemma append_represents: "represents hour_of db l \<Longrightarrow> represents hour_of (snd (append_event e db)) l"
  by (simp add: append_event_def) (rule represents_cong [THEN iffD2], simp_all)

lemma entries_known: "entries_of db es \<Longrightarrow> i \<in> se_request ` set es \<longleftrightarrow> hget (bo_entries db) i \<noteq> None"
proof
  assume es: "entries_of db es"
  show "hget (bo_entries db) i \<noteq> None" if "i \<in> se_request ` set es"
  proof -
    from that obtain e where "e \<in> set es" "se_request e = i" by blast
    with es have "hget (bo_entries db) i = Some e" unfolding entries_of_def by blast
    then show ?thesis by simp
  qed
  show "i \<in> se_request ` set es" if "hget (bo_entries db) i \<noteq> None"
    using that es unfolding entries_of_def by (metis imageI not_None_eq)
qed

lemma add_entry:
  assumes es: "entries_of db es" and new: "hget (bo_entries db) (se_request e) = None"
  shows "entries_of (add_spending e db) (es @ [e])"
proof -
  from new entries_known [OF es, of "se_request e"] have "se_request e \<notin> se_request ` set es" by simp
  then have "\<forall>x\<in>set es. se_request x \<noteq> se_request e" by (metis imageI)
  with es new show ?thesis unfolding entries_of_def add_spending_def by auto
qed

lemma note_represents: "represents hour_of (note_event now k r a db) l \<longleftrightarrow> represents hour_of db l"
  by (rule represents_cong) (simp_all add: note_event_def)

lemma finish_refines:
  assumes rep: "represents hour_of db l"
  shows "\<exists>l'. ledger_steps l l' \<and> represents hour_of (snd (finish_request hour_of now r db)) l' \<and> ld_accepted l' = ld_accepted l"
proof (cases "open_row db (rec_id r) \<and> us_search_calls (rec_usage r) < 2 ^ 63")
  case False
  then have "snd (finish_request hour_of now r db) = db" by (auto simp: finish_request_def Let_def)
  with rep show ?thesis by auto
next
  case True
  let ?t = "case rec_finished_at r of None \<Rightarrow> now | Some t \<Rightarrow> t"
  let ?l = "book ?t r l"
  from True rep have "rec_id r \<in> ld_open l" by (simp add: represents_def)
  then have "ledger_step l ?l" by (rule step_book)
  moreover have acc: "ld_accepted ?l = ld_accepted l" by (simp add: book_def)
  moreover have "represents hour_of (snd (finish_request hour_of now r db)) ?l"
  proof -
    let ?db = "add_hourly hour_of r (close_row ?t r db)"
    have rows: "rows_ok ?db" using rep by (auto simp: represents_def rows_ok_def add_hourly_def close_row_def)
    have opened: "Collect (open_row ?db) = ld_open ?l"
      using rep open_row_put [of ?db "rec_id r" "\<lparr>qr_record = r, qr_finished_at = Some ?t, qr_detail = Some ''full''\<rparr>" db]
      by (simp add: represents_def add_hourly_def close_row_def book_def)
    have hourly: "hget (bo_hourly ?db) = hours.rolled_up hour_of (ld_booked ?l)"
      using rep hours.upsert_rolled_up [of "bo_hourly db" hour_of "ld_booked l" r]
      by (simp add: represents_def add_hourly_def close_row_def book_def)
    have base: "entries_of ?db (ld_spent l)" "hget (bo_spending ?db) = spent.rolled_up (ld_spent l)"
      using rep by (simp_all add: represents_def entries_of_def add_hourly_def close_row_def)
    show ?thesis
    proof (cases "rec_account_id r")
      case None
      then have "snd (finish_request hour_of now r db) = note_event now ''request_finished'' r None ?db" "ld_spent ?l = ld_spent l"
        using True by (simp_all add: finish_request_def Let_def book_def)
      with rows opened hourly base show ?thesis by (simp add: note_represents) (simp add: represents_def)
    next
      case (Some a)
      let ?e = "entry_of a ?t r"
      have e: "se_request ?e = rec_id r" by (simp add: entry_of_def)
      have run: "snd (finish_request hour_of now r db) = note_event now ''request_finished'' r (Some a) (add_spending ?e ?db)"
        using True Some by (simp add: finish_request_def Let_def)
      note known = entries_known [OF base(1), of "rec_id r"]
      have "represents hour_of (add_spending ?e ?db) ?l"
      proof (cases "hget (bo_entries ?db) (rec_id r)")
        case None
        with known Some have l: "ld_spent ?l = ld_spent l @ [?e]" by (simp add: book_def)
        have "entries_of (add_spending ?e ?db) (ld_spent l @ [?e])"
          by (rule add_entry [OF base(1)]) (use None e in simp)
        moreover have "hget (bo_spending (add_spending ?e ?db)) = spent.rolled_up (ld_spent l @ [?e])"
          using spent.upsert_rolled_up [OF base(2)] None e by (simp add: add_spending_def)
        moreover have "open_row (add_spending ?e ?db) = open_row ?db" "rows_ok (add_spending ?e ?db)"
          "bo_hourly (add_spending ?e ?db) = bo_hourly ?db"
          using rows by (simp_all add: add_spending_def open_row_def rows_ok_def fun_eq_iff)
        ultimately show ?thesis using opened hourly l by (simp add: represents_def)
      next
        case (Some e')
        with known \<open>rec_account_id r = Some a\<close> have "ld_spent ?l = ld_spent l" by (simp add: book_def)
        moreover from Some e have "add_spending ?e ?db = ?db" by (simp add: add_spending_def)
        ultimately show ?thesis using rows opened hourly base by (simp add: represents_def)
      qed
      with run show ?thesis by (simp add: note_represents)
    qed
  qed
  ultimately show ?thesis by blast
qed

lemma summarize_represents:
  assumes rep: "represents hour_of db l"
  shows "represents hour_of (snd (summarize_request r db)) l"
proof (cases "hget (bo_requests db) (rec_id r)")
  case (Some w)
  show ?thesis
  proof (cases "summary_only r \<and> summarizable db (rec_id r) w")
    case True
    let ?w = "w\<lparr>qr_record := strip_details (qr_record w), qr_detail := Some ''summary''\<rparr>"
    let ?db = "snd (summarize_request r db)"
    have parts: "bo_requests ?db = hput (rec_id r) ?w (bo_requests db)" "bo_hourly ?db = bo_hourly db"
      "bo_entries ?db = bo_entries db" "bo_spending ?db = bo_spending db"
      using True Some by (simp_all add: summarize_request_def)
    from True obtain t where closed: "qr_finished_at w = Some t" by (auto simp: summarizable_def)
    with Some have "\<not> open_row db (rec_id r)" by (simp add: open_row_def)
    then have "Collect (open_row ?db) = Collect (open_row db)"
      using open_row_put [OF parts(1)] closed by auto
    moreover have "rec_id (strip_details (qr_record w)) = rec_id r"
      using rep Some by (simp add: represents_def rows_ok_def strip_details_def)
    ultimately show ?thesis
      using rep parts by (simp add: represents_def rows_ok_def entries_of_def)
  next
    case False
    with Some have "snd (summarize_request r db) = db" by (auto simp: summarize_request_def)
    with rep show ?thesis by simp
  qed
next
  case None
  then have "snd (summarize_request r db) = db" by (simp add: summarize_request_def)
  with rep show ?thesis by simp
qed

lemma reconcile_refines:
  "represents hour_of db l \<Longrightarrow> \<exists>l'. ledger_steps l l' \<and> represents hour_of (snd (reconcile_rows hour_of ops clock rs db)) l'
     \<and> ld_accepted l' = ld_accepted l"
proof (induction rs arbitrary: db l)
  case Nil
  then show ?case by auto
next
  case (Cons r rs)
  obtain finished measured now where clock: "clock (rec_id r) = (finished, measured, now)" by (cases "clock (rec_id r)")
  let ?r = "interrupted_record ops finished measured r"
  obtain x db1 where run: "finish_request hour_of now ?r db = (x, db1)" by (cases "finish_request hour_of now ?r db")
  from finish_refines [OF Cons.prems, of now ?r] run obtain l1 where
    first: "ledger_steps l l1" "represents hour_of db1 l1" "ld_accepted l1 = ld_accepted l" by auto
  show ?case
  proof (cases x)
    case (Inl e)
    with run clock first show ?thesis by auto
  next
    case (Inr u)
    from Cons.IH [OF first(2)] obtain l2 where
      "ledger_steps l1 l2" "represents hour_of (snd (reconcile_rows hour_of ops clock rs db1)) l2" "ld_accepted l2 = ld_accepted l1"
      by blast
    with run clock Inr first show ?thesis by (auto intro: rtranclp_trans)
  qed
qed

lemma hwf_filter: "hwf m \<Longrightarrow> hwf (filter p m)"
  by (induction m) (auto simp: hwf_def)

lemma filter_get:
  assumes "hwf m"
  shows "hget (filter (\<lambda>(k, v). p k v) m) k = Some v \<longleftrightarrow> hget m k = Some v \<and> p k v"
  using assms by (auto simp: hget_mem_iff hwf_filter)

lemma utc_hour_mult: "utc_hour t = hour_ns * (t div hour_ns)"
  by (simp add: utc_hour_def minus_mod_eq_mult_div)

lemma utc_hour_below: "utc_hour t \<le> t"
  by (simp add: utc_hour_def hour_ns_def)

text \<open>A whole hour is before a time exactly when it is before the time's hour.\<close>

lemma utc_hour_le: "utc_hour t \<le> s \<longleftrightarrow> utc_hour t \<le> utc_hour s"
proof
  have h: "hour_ns > 0" by (simp add: hour_ns_def)
  assume "utc_hour t \<le> s"
  then have "utc_hour t div hour_ns \<le> s div hour_ns" using h by (rule zdiv_mono1)
  with h show "utc_hour t \<le> utc_hour s" by (simp add: utc_hour_mult)
next
  assume "utc_hour t \<le> utc_hour s"
  with utc_hour_below [of s] show "utc_hour t \<le> s" by simp
qed

lemma cleanup_refines:
  assumes rep: "represents hour_of db l"
  shows "\<exists>l'. ledger_steps l l' \<and> represents hour_of (cleanup now rd ad db) l' \<and> ld_accepted l' = ld_accepted l"
proof (intro exI conjI)
  let ?t = "now - days 31" and ?db = "cleanup now rd ad db"
  let ?l = "forget ?t l"
  show "ledger_steps l ?l" by (blast intro: step_forget)
  show "ld_accepted ?l = ld_accepted l" by (simp add: forget_def)
  have rows: "rows_ok db" and entries: "entries_of db (ld_spent l)" using rep by (simp_all add: represents_def)
  have get: "hget (bo_requests ?db) i = Some w \<longleftrightarrow> hget (bo_requests db) i = Some w
      \<and> \<not> (qr_finished_at w \<noteq> None \<and> rec_created_at (qr_record w) < now - days rd)" for i w
    using rows by (simp add: cleanup_def Let_def rows_ok_def filter_get)
  have "open_row ?db i \<longleftrightarrow> open_row db i" for i
    unfolding open_row_iff get by blast
  then have "open_row ?db = open_row db" by (rule ext)
  then have opened: "Collect (open_row ?db) = ld_open ?l" using rep by (simp add: represents_def forget_def)
  have "rows_ok ?db"
    using rows get unfolding rows_ok_def by (auto simp: cleanup_def Let_def hwf_filter)
  moreover have "entries_of ?db (ld_spent ?l)"
    using entries by (auto simp: entries_of_def cleanup_def Let_def hwf_filter filter_get forget_def)
  moreover have "hget (bo_spending ?db) = spent.rolled_up (ld_spent ?l)"
  proof -
    have "bo_spending ?db = filter (\<lambda>(k, _). utc_hour ?t \<le> snd k) (bo_spending db)"
      by (simp add: cleanup_def Let_def case_prod_beta')
    moreover have "ld_spent ?l = filter (\<lambda>e. utc_hour ?t \<le> snd (spend_key e)) (ld_spent l)"
      using utc_hour_le [of ?t] by (simp add: forget_def spend_key_def)
    ultimately show ?thesis
      using rep spent.prune_rolled_up [of "bo_spending db" "ld_spent l" "\<lambda>k. utc_hour ?t \<le> snd k"]
      by (simp add: represents_def)
  qed
  ultimately show "represents hour_of ?db ?l"
    using opened rep by (simp add: represents_def cleanup_def forget_def Let_def)
qed

subsection \<open>Any sequence of operations\<close>

datatype command =
    Begin datetime request_record
  | Update request_record
  | Finish datetime request_record
  | Summarize request_record
  | Append logged
  | Reconcile "uuid \<Rightarrow> datetime \<times> datetime \<times> datetime"
  | Cleanup datetime nat nat

fun exec :: "(datetime \<Rightarrow> int) \<Rightarrow> dec_ops \<Rightarrow> command \<Rightarrow> books \<Rightarrow> books" where
  "exec hour_of ops (Begin now r) db = snd (begin_request now r db)"
| "exec hour_of ops (Update r) db = snd (update_request r db)"
| "exec hour_of ops (Finish now r) db = snd (finish_request hour_of now r db)"
| "exec hour_of ops (Summarize r) db = snd (summarize_request r db)"
| "exec hour_of ops (Append e) db = snd (append_event e db)"
| "exec hour_of ops (Reconcile clock) db = snd (reconcile_interrupted hour_of ops clock db)"
| "exec hour_of ops (Cleanup now rd ad) db = cleanup now rd ad db"

text \<open>The requests a command newly_accepted: a transaction that inserts their row.\<close>

fun newly_accepted :: "command \<Rightarrow> books \<Rightarrow> uuid list" where
  "newly_accepted (Begin now r) db = (if fst (begin_request now r db) = Inr () then [rec_id r] else [])"
| "newly_accepted _ db = []"

fun execs :: "(datetime \<Rightarrow> int) \<Rightarrow> dec_ops \<Rightarrow> command list \<Rightarrow> uuid list \<times> books \<Rightarrow> uuid list \<times> books" where
  "execs hour_of ops [] s = s"
| "execs hour_of ops (c # cs) (ids, db) = execs hour_of ops cs (ids @ newly_accepted c db, exec hour_of ops c db)"

lemma exec_refines:
  assumes rep: "represents hour_of db l"
  shows "\<exists>l'. ledger_steps l l' \<and> represents hour_of (exec hour_of ops c db) l' \<and> ld_accepted l' = ld_accepted l @ newly_accepted c db"
proof (cases c)
  case (Begin now r)
  with begin_refines [OF rep, of now r] show ?thesis by simp
next
  case (Update r)
  with update_represents [OF rep] show ?thesis by auto
next
  case (Finish now r)
  with finish_refines [OF rep, of now r] show ?thesis by simp
next
  case (Summarize r)
  with summarize_represents [OF rep] show ?thesis by auto
next
  case (Append e)
  with append_represents [OF rep] show ?thesis by auto
next
  case (Reconcile clock)
  have "snd (reconcile_interrupted hour_of ops clock db)
      = snd (reconcile_rows hour_of ops clock (open_records db) db)"
    by (simp add: reconcile_interrupted_def Let_def split: prod.split sum.split)
  with reconcile_refines [OF rep] Reconcile show ?thesis by simp
next
  case (Cleanup now rd ad)
  with cleanup_refines [OF rep] show ?thesis by simp
qed

lemma execs_refine:
  "represents hour_of db l \<Longrightarrow> ld_accepted l = ids \<Longrightarrow>
     \<exists>l'. ledger_steps l l' \<and> represents hour_of (snd (execs hour_of ops cs (ids, db))) l'
       \<and> ld_accepted l' = fst (execs hour_of ops cs (ids, db))"
proof (induction cs arbitrary: ids db l)
  case (Cons c cs)
  from exec_refines [OF Cons.prems(1), of ops c] obtain l1 where
    first: "ledger_steps l l1" "represents hour_of (exec hour_of ops c db) l1" "ld_accepted l1 = ids @ newly_accepted c db"
    using Cons.prems(2) by blast
  from Cons.IH [OF first(2,3)] obtain l2 where "ledger_steps l1 l2"
    "represents hour_of (snd (execs hour_of ops cs (ids @ newly_accepted c db, exec hour_of ops c db))) l2"
    "ld_accepted l2 = fst (execs hour_of ops cs (ids @ newly_accepted c db, exec hour_of ops c db))" by blast
  with first(1) show ?case by (auto intro: rtranclp_trans)
qed auto

text \<open>
  C15. The tables of requests implement a ledger. Whatever sequence of operations runs on them,
  with repeated closings, restarts that close interrupted requests and clean-ups in between,
  there is a ledger reached by accepting, booking and forgetting alone of which the tables are
  the sums: each hour's row is the total of the requests booked in it, each account's hour the
  total of its spending entries still kept, and every accepted request is open or was booked
  exactly once.
\<close>

theorem books_refine_ledger:
  "\<exists>l. ledger_steps ledger_empty l
     \<and> represents hour_of (snd (execs hour_of ops cs ([], books_empty))) l
     \<and> ld_accepted l = fst (execs hour_of ops cs ([], books_empty))
     \<and> mset (ld_accepted l) = mset (map rec_id (ld_booked l)) + mset_set (ld_open l)"
proof -
  have "ld_accepted ledger_empty = []" by (simp add: ledger_empty_def)
  from execs_refine [OF empty_represents this] obtain l where
    "ledger_steps ledger_empty l" "represents hour_of (snd (execs hour_of ops cs ([], books_empty))) l"
    "ld_accepted l = fst (execs hour_of ops cs ([], books_empty))" by blast
  with bookkeeping.steps_inv [OF bookkeeping.inv_init [OF refl], of l] show ?thesis by (auto simp: balanced_def)
qed

text \<open>
  A request that was never sent is booked at no cost when the gateway closes it, but as an
  unpriced one when it is closed after a restart.
\<close>

lemma interrupted_unsent_unpriced:
  assumes "rec_upstream_attempts r = 0" and "rec_kind r \<noteq> Search" and "rec_valuation r = None"
  shows "t_unpriced (hourly_totals (interrupted_record ops finished measured r)) = 1
    \<and> t_unpriced (hourly_totals (valuate ops price r)) = 0"
  using assms by (simp add: hourly_totals_def interrupted_record_def valuate_def cost_of_def counted_def Let_def)

end
