(* ===== verification/Memory.thy ===== *)
theory Memory
  imports Settings Floats
begin

section \<open>Admission by measured memory\<close>

text \<open>
  \<open>crates/xxgate-core/src/memory.rs\<close>: requests are read only while every memory domain (the
  host and the cgroups) is below a threshold, with hysteresis, and only so many at a time. A
  \<open>Mutex\<close> makes each operation atomic, so an operation is a function of the state and of
  what the probe and the clock answer. The probe of Linux follows below; those of macOS and
  Windows call system libraries.
\<close>

record mem_domain =
  md_source :: string
  md_limit_bytes :: nat
  md_used_bytes :: nat
  md_available_bytes :: nat

fun f64_times :: "f64 \<Rightarrow> f64 \<Rightarrow> f64" where
  "f64_times (Fin a) (Fin b) = f64_of_rat (a * b)"
| "f64_times _ _ = NotANumber"

fun f64_over :: "f64 \<Rightarrow> f64 \<Rightarrow> f64" where
  "f64_over (Fin a) (Fin b) =
     (if b = 0 then (if a = 0 then NotANumber else if 0 < a then PosInf else NegInf) else f64_of_rat (a / b))"
| "f64_over _ _ = NotANumber"

fun f64_le :: "f64 \<Rightarrow> f64 \<Rightarrow> bool" where
  "f64_le NotANumber _ = False"
| "f64_le _ NotANumber = False"
| "f64_le a b = (\<not> f64_less b a)"

text \<open>All operands are finite and not negative here, so the infinities need no arithmetic.\<close>

definition mem_pressure :: "mem_domain \<Rightarrow> f64" where
  "mem_pressure d =
     f64_over (f64_times (f64_of_rat (of_nat (md_used_bytes d))) (Fin 100)) (f64_of_rat (of_nat (md_limit_bytes d)))"

record mem_status =
  mt_domains :: "mem_domain list"
  mt_reject_percent :: nat
  mt_resume_percent :: nat
  mt_blocked :: bool
  mt_reading_requests :: nat
  mt_reader_limit :: nat
  mt_probe_error :: "string option"

record mem_state =
  ms_last :: "instant option"
  ms_sample :: "mem_domain list option"
  ms_probe_error :: "string option"
  ms_blocked :: bool
  ms_readers :: nat

definition mem_new :: mem_state where
  "mem_new = \<lparr>ms_last = None, ms_sample = None, ms_probe_error = None, ms_blocked = False, ms_readers = 0\<rparr>"

text \<open>What the outside answers to one operation: two clock readings, the probe and the settings.\<close>

record mem_io =
  io_now :: instant
  io_after :: instant
  io_probe :: "string + mem_domain list"
  io_settings :: runtime_settings

definition valid_sample :: "mem_domain list \<Rightarrow> bool" where
  "valid_sample ds \<longleftrightarrow>
     ds \<noteq> [] \<and> (\<forall>d\<in>set ds. 0 < md_limit_bytes d \<and> md_available_bytes d \<le> md_limit_bytes d)"

definition take_sample :: "mem_io \<Rightarrow> mem_state \<Rightarrow> mem_state" where
  "take_sample io st =
     (case io_probe io of
        Inr ds \<Rightarrow>
          if valid_sample ds then st\<lparr>ms_sample := Some ds, ms_probe_error := None, ms_last := Some (io_after io)\<rparr>
          else st\<lparr>ms_sample := None, ms_probe_error := Some ''memory_probe_unavailable'', ms_last := Some (io_after io)\<rparr>
      | Inl _ \<Rightarrow>
          st\<lparr>ms_sample := None, ms_probe_error := Some ''memory_probe_unavailable'', ms_last := Some (io_after io)\<rparr>)"

definition sample_due :: "mem_io \<Rightarrow> mem_state \<Rightarrow> bool" where
  "sample_due io st \<longleftrightarrow> (case ms_last st of None \<Rightarrow> True | Some t \<Rightarrow> 20 * 1000000 \<le> io_now io - t)"

definition above :: "runtime_settings \<Rightarrow> mem_domain list \<Rightarrow> bool" where
  "above cfg ds \<longleftrightarrow> (\<exists>d\<in>set ds. f64_le (Fin (of_nat (rs_memory_reject_percent cfg))) (mem_pressure d))"

definition below :: "runtime_settings \<Rightarrow> mem_domain list \<Rightarrow> bool" where
  "below cfg ds \<longleftrightarrow> (\<forall>d\<in>set ds. f64_le (mem_pressure d) (Fin (of_nat (rs_memory_resume_percent cfg))))"

definition hysteresis :: "runtime_settings \<Rightarrow> mem_domain list option \<Rightarrow> bool \<Rightarrow> bool" where
  "hysteresis cfg sample blocked =
     (case sample of
        None \<Rightarrow> blocked
      | Some ds \<Rightarrow> if above cfg ds then True else if below cfg ds then False else blocked)"

definition status_of :: "runtime_settings \<Rightarrow> mem_state \<Rightarrow> mem_status" where
  "status_of cfg st =
     \<lparr>mt_domains = (case ms_sample st of None \<Rightarrow> [] | Some ds \<Rightarrow> ds),
      mt_reject_percent = rs_memory_reject_percent cfg, mt_resume_percent = rs_memory_resume_percent cfg,
      mt_blocked = (ms_blocked st \<or> ms_probe_error st \<noteq> None), mt_reading_requests = ms_readers st,
      mt_reader_limit = rs_request_read_concurrency cfg, mt_probe_error = ms_probe_error st\<rparr>"

definition status_locked :: "mem_io \<Rightarrow> bool \<Rightarrow> mem_state \<Rightarrow> mem_status \<times> mem_state" where
  "status_locked io fresh st =
     (let st1 = (if fresh \<or> sample_due io st then take_sample io st else st);
          st2 = st1\<lparr>ms_blocked := hysteresis (io_settings io) (ms_sample st1) (ms_blocked st1)\<rparr>
      in (status_of (io_settings io) st2, st2))"

record mem_rejection =
  mr_error :: err
  mr_status :: mem_status

definition rejection_of :: "mem_status \<Rightarrow> bool \<Rightarrow> mem_rejection" where
  "rejection_of status reader_limit =
     \<lparr>mr_error =
        (if mt_probe_error status \<noteq> None
         then error_new 503 ''memory_probe_unavailable'' ''Actual memory usage is unavailable; retry later''
         else if reader_limit
         then error_new 429 ''request_read_limit'' ''Too many requests are reading or parsing their bodies; retry later''
         else error_new 429 ''memory_pressure''
           ''Actual host or container memory usage is above the admission threshold; retry later''),
      mr_status = status\<rparr>"

text \<open>A permit is the value \<open>()\<close>; dropping it is \<open>leave\<close>.\<close>

definition enter :: "mem_io \<Rightarrow> mem_state \<Rightarrow> (mem_rejection + unit) \<times> mem_state" where
  "enter io st =
     (let (status, st1) = status_locked io True st in
      if mt_blocked status then (Inl (rejection_of status False), st1)
      else if mt_reader_limit status \<le> ms_readers st1 then (Inl (rejection_of status True), st1)
      else (Inr (), st1\<lparr>ms_readers := Suc (ms_readers st1)\<rparr>))"

definition check_memory :: "mem_io \<Rightarrow> bool \<Rightarrow> mem_state \<Rightarrow> (mem_rejection + unit) \<times> mem_state" where
  "check_memory io fresh st =
     (let (status, st1) = status_locked io fresh st
      in (if mt_blocked status then Inl (rejection_of status False) else Inr (), st1))"

definition leave :: "mem_state \<Rightarrow> mem_state" where
  "leave st = st\<lparr>ms_readers := ms_readers st - 1, ms_last := None\<rparr>"

subsection \<open>The permits in use\<close>

text \<open>The state with the number of permits that were given and not yet dropped.\<close>

inductive mem_step :: "mem_state \<times> nat \<Rightarrow> mem_state \<times> nat \<Rightarrow> bool" where
  step_enter: "enter io st = (Inr (), st') \<Longrightarrow> mem_step (st, n) (st', Suc n)"
| step_refused: "enter io st = (Inl e, st') \<Longrightarrow> mem_step (st, n) (st', n)"
| step_check: "check_memory io fresh st = (r, st') \<Longrightarrow> mem_step (st, n) (st', n)"
| step_status: "status_locked io False st = (s, st') \<Longrightarrow> mem_step (st, n) (st', n)"
| step_leave: "mem_step (st, Suc n) (leave st, n)"

definition mem_reachable :: "mem_state \<Rightarrow> nat \<Rightarrow> bool" where
  "mem_reachable st n \<longleftrightarrow> reach (\<lambda>w. w = (mem_new, 0)) mem_step (st, n)"

lemma status_readers: "status_locked io fresh st = (s, st') \<Longrightarrow> ms_readers st' = ms_readers st"
  by (auto simp: status_locked_def Let_def take_sample_def split: sum.splits if_splits)

lemma enter_readers:
  "enter io st = (r, st') \<Longrightarrow> ms_readers st' = (case r of Inr _ \<Rightarrow> Suc (ms_readers st) | Inl _ \<Rightarrow> ms_readers st)"
  by (auto simp: enter_def status_readers split: prod.splits if_splits)

lemma check_readers: "check_memory io fresh st = (r, st') \<Longrightarrow> ms_readers st' = ms_readers st"
  by (auto simp: check_memory_def status_readers split: prod.splits)

lemma step_readers: "mem_step w w' \<Longrightarrow> ms_readers (fst w) = snd w \<Longrightarrow> ms_readers (fst w') = snd w'"
proof (induction rule: mem_step.induct)
  case step_leave
  then show ?case by (simp add: leave_def)
qed (auto simp: check_readers status_readers dest: enter_readers)

interpretation permits: invariant_system "\<lambda>w. w = (mem_new, 0)" mem_step "\<lambda>w. ms_readers (fst w) = snd w"
  by unfold_locales (simp_all add: mem_new_def step_readers)

lemma reachable_readers: "mem_reachable st n \<Longrightarrow> ms_readers st = n"
  using permits.reach_inv unfolding mem_reachable_def by fastforce

text \<open>What has to hold for a request to be let in.\<close>

definition lets_in :: "mem_io \<Rightarrow> bool \<Rightarrow> bool" where
  "lets_in io blocked \<longleftrightarrow>
     (case io_probe io of
        Inl _ \<Rightarrow> False
      | Inr ds \<Rightarrow> valid_sample ds \<and> \<not> above (io_settings io) ds \<and> (below (io_settings io) ds \<or> \<not> blocked))"

lemma fresh_status:
  "status_locked io True st = (s, st') \<Longrightarrow>
     mt_blocked s = (\<not> lets_in io (ms_blocked st)) \<and> mt_reader_limit s = rs_request_read_concurrency (io_settings io)"
  by (auto simp: status_locked_def Let_def take_sample_def status_of_def hysteresis_def lets_in_def
      split: sum.splits if_splits)

text \<open>
  C16. Memory admission. The number of readers is always that of the permits in use, and a
  request is let in exactly if the probe answers now with a usable sample in which no domain
  reaches the upper threshold, the gate is open already or every domain is back below the lower
  one, and fewer permits are in use than the settings allow.
\<close>

theorem memory_admits:
  assumes "mem_reachable st n"
  shows "ms_readers st = n
    \<and> ((\<exists>st'. enter io st = (Inr (), st')) \<longleftrightarrow>
        lets_in io (ms_blocked st) \<and> n < rs_request_read_concurrency (io_settings io))"
proof -
  obtain s st1 where run: "status_locked io True st = (s, st1)" by (cases "status_locked io True st")
  with reachable_readers [OF assms] have readers: "ms_readers st = n" "ms_readers st1 = n" by (simp_all add: status_readers)
  have "(\<exists>st'. enter io st = (Inr (), st')) \<longleftrightarrow> \<not> mt_blocked s \<and> n < mt_reader_limit s"
    using run readers by (auto simp: enter_def)
  with fresh_status [OF run] readers show ?thesis by simp
qed

lemma find_upto:
  "a \<le> n \<Longrightarrow> n \<le> b \<Longrightarrow> P n \<Longrightarrow> (\<And>m. a \<le> m \<Longrightarrow> m < n \<Longrightarrow> \<not> P m) \<Longrightarrow> List.find P [a..b] = Some n"
proof (induction "nat (n - a)" arbitrary: a)
  case 0
  then show ?case by (simp add: upto_rec1)
next
  case (Suc k)
  then have "a < n" "k = nat (n - (a + 1))" by simp_all
  with Suc.hyps(1) [of "a + 1"] Suc.prems show ?case by (simp add: upto_rec1)
qed

lemma ex_exponent: "f64_exponent 1 = Some (- 52)"
  unfolding f64_exponent_def by (rule find_upto) (auto simp: two_to_def not_less one_le_power)

lemma ex_one: "f64_of_rat 1 = Fin 1"
  by (simp add: f64_of_rat_def ex_exponent two_to_def round_half_even_def Let_def)

lemma ex_zero: "f64_of_rat 0 = Fin 0"
proof -
  have "f64_exponent 0 = Some (- 1074)"
    unfolding f64_exponent_def by (rule find_upto) (auto simp: two_to_def)
  then show ?thesis by (simp add: f64_of_rat_def two_to_def round_half_even_def Let_def)
qed

definition ex_io :: mem_io where
  "ex_io = \<lparr>io_now = 0, io_after = 0,
     io_probe = Inr [\<lparr>md_source = ''host'', md_limit_bytes = 1, md_used_bytes = 0, md_available_bytes = 1\<rparr>],
     io_settings = settings_default\<rparr>"

lemma ex_sample: "lets_in ex_io blocked"
  by (simp add: ex_io_def lets_in_def valid_sample_def above_def below_def mem_pressure_def ex_one ex_zero settings_default_def)

lemma ex_reached: "mem_reachable mem_new 0"
  unfolding mem_reachable_def by (rule reach_init) simp

text \<open>The first request is let in.\<close>

theorem memory_admits_witness: "mem_reachable mem_new 0 \<and> (\<exists>st'. enter ex_io mem_new = (Inr (), st'))"
proof -
  have "(0 :: nat) < rs_request_read_concurrency (io_settings ex_io)" by (simp add: ex_io_def settings_default_def)
  with memory_admits [OF ex_reached, of ex_io] ex_sample ex_reached show ?thesis by blast
qed

end
