(* ===== verification/Memory_Probe.thy ===== *)
theory Memory_Probe
  imports Memory
begin

section \<open>The memory domains of Linux\<close>

text \<open>
  The Linux probe of \<open>memory.rs\<close>: the host from \<open>/proc/meminfo\<close>, and every cgroup that
  limits this process, found from its membership and the mounts and followed up to the mount
  point. The files are the parameter \<open>files\<close>; a path is the list of its components.
\<close>

subsection \<open>Text\<close>

definition split_lines :: "string \<Rightarrow> string list" where
  "split_lines s =
     (let ls = split_on CHR 0x0A s
      in map (\<lambda>l. case strip_suffix [CHR 0x0D] l of None \<Rightarrow> l | Some m \<Rightarrow> m) (butlast ls)
         @ (if last ls = [] then [] else [last ls]))"

function split_words :: "string list \<Rightarrow> string list" where
  "split_words cs =
     (case dropWhile is_whitespace cs of
        [] \<Rightarrow> []
      | c # rest \<Rightarrow> concat (takeWhile (\<lambda>c. \<not> is_whitespace c) (c # rest))
          # split_words (dropWhile (\<lambda>c. \<not> is_whitespace c) (c # rest)))"
  by pat_completeness auto
termination
proof (relation "measure length")
  fix cs c rest assume split: "dropWhile is_whitespace cs = (c :: string) # rest"
  then have "\<not> is_whitespace c" using hd_dropWhile [of is_whitespace cs] by simp
  moreover have "length (dropWhile (\<lambda>c. \<not> is_whitespace c) rest) \<le> length rest" by (rule length_dropWhile_le)
  moreover have "Suc (length rest) \<le> length cs" using split length_dropWhile_le [of is_whitespace cs] by simp
  ultimately show "(dropWhile (\<lambda>c. \<not> is_whitespace c) (c # rest), cs) \<in> measure length" by simp
qed simp

declare split_words.simps [simp del]

definition words_of :: "string \<Rightarrow> string list" where
  "words_of s = split_words (str_chars s)"

text \<open>\<open>splitn(3, ':')\<close>\<close>

definition split_three :: "string \<Rightarrow> string list" where
  "split_three s =
     (case split_once CHR '':'' s of
        None \<Rightarrow> [s]
      | Some (a, rest) \<Rightarrow> (case split_once CHR '':'' rest of None \<Rightarrow> [a, rest] | Some (b, c) \<Rightarrow> [a, b, c]))"

fun split_once_text :: "string \<Rightarrow> string \<Rightarrow> (string \<times> string) option" where
  "split_once_text p [] = (if p = [] then Some ([], []) else None)"
| "split_once_text p (c # cs) =
     (if starts_with p (c # cs) then Some ([], drop (length p) (c # cs))
      else case split_once_text p cs of None \<Rightarrow> None | Some (a, b) \<Rightarrow> Some (c # a, b))"

text \<open>\<open>str::replace\<close> of a pattern of four bytes.\<close>

function replace_four :: "string \<Rightarrow> string \<Rightarrow> string \<Rightarrow> string" where
  "replace_four p w [] = []"
| "replace_four p w (c # cs) =
     (if starts_with p (c # cs) \<and> length p = 4 then w @ replace_four p w (drop 3 cs) else c # replace_four p w cs)"
  by pat_completeness auto
termination by (relation "measure (\<lambda>(p, w, s). length s)") auto

definition unescape_mount :: "string \<Rightarrow> string" where
  "unescape_mount s =
     replace_four [CHR 0x5C, CHR ''1'', CHR ''3'', CHR ''4''] [CHR 0x5C]
      (replace_four [CHR 0x5C, CHR ''0'', CHR ''1'', CHR ''2''] [CHR 0x0A]
       (replace_four [CHR 0x5C, CHR ''0'', CHR ''1'', CHR ''1''] [CHR 0x09]
        (replace_four [CHR 0x5C, CHR ''0'', CHR ''4'', CHR ''0''] [CHR 0x20] s)))"

subsection \<open>The host\<close>

definition mem_domain_new :: "string \<Rightarrow> nat \<Rightarrow> nat \<Rightarrow> string + mem_domain" where
  "mem_domain_new source whole available =
     (if whole = 0 \<or> whole < available then Inl ''invalid_memory_counter''
      else Inr \<lparr>md_source = source, md_limit_bytes = whole, md_used_bytes = whole - available,
             md_available_bytes = available\<rparr>)"

definition parse_u64 :: "string \<Rightarrow> nat option" where
  "parse_u64 s = parse_nat_below (2 ^ 64) s"

definition meminfo_line :: "string \<Rightarrow> string \<Rightarrow> nat option" where
  "meminfo_line name line =
     (case split_once CHR '':'' line of
        None \<Rightarrow> None
      | Some (key, v) \<Rightarrow>
          if key \<noteq> name then None
          else case words_of v of
            [] \<Rightarrow> None
          | w # _ \<Rightarrow> (case parse_u64 w of None \<Rightarrow> None | Some n \<Rightarrow> if n * 1024 < 2 ^ 64 then Some (n * 1024) else None))"

definition meminfo_bytes :: "string \<Rightarrow> string \<Rightarrow> nat option" where
  "meminfo_bytes content name =
     (case List.map_filter (meminfo_line name) (split_lines content) of [] \<Rightarrow> None | n # _ \<Rightarrow> Some n)"

definition host_linux :: "string \<Rightarrow> string + mem_domain" where
  "host_linux content =
     and_then (ok_or ''missing_memtotal'' (meminfo_bytes content ''MemTotal'')) (\<lambda>whole.
     and_then (ok_or ''missing_memavailable'' (meminfo_bytes content ''MemAvailable'')) (\<lambda>available.
       mem_domain_new ''host'' whole available))"

subsection \<open>Paths\<close>

datatype part = RootDir | CurDir | ParentDir | Normal string

type_synonym path = "part list"

definition part_of :: "string \<Rightarrow> part list" where
  "part_of s = (if s = [] \<or> s = ''.'' then [] else if s = ''..'' then [ParentDir] else [Normal s])"

definition path_of :: "string \<Rightarrow> path" where
  "path_of s =
     (let parts = split_on CHR ''/'' s in
      (if starts_with ''/'' s then [RootDir] else if hd parts = ''.'' then [CurDir] else [])
      @ concat (map part_of parts))"

definition strip_path :: "path \<Rightarrow> path \<Rightarrow> path option" where
  "strip_path base p = (if take (length base) p = base then Some (drop (length base) p) else None)"

definition join_path :: "path \<Rightarrow> path \<Rightarrow> path" where
  "join_path p q =
     (case q of RootDir # _ \<Rightarrow> q | _ \<Rightarrow> if p = [] then q else p @ filter (\<lambda>x. x \<noteq> CurDir) q)"

definition pop_path :: "path \<Rightarrow> path option" where
  "pop_path p = (if p = [] \<or> last p = RootDir then None else Some (butlast p))"

subsection \<open>Control groups\<close>

datatype file_result = Content string | NotFound | Unreadable

record file_system =
  fs_read :: "path \<Rightarrow> file_result"
  fs_is_dir :: "path \<Rightarrow> bool"

definition file_number :: "file_system \<Rightarrow> path \<Rightarrow> string + nat" where
  "file_number files p =
     (case fs_read files p of
        Content s \<Rightarrow> ok_or ''invalid_memory_counter'' (parse_u64 (str_trim s))
      | _ \<Rightarrow> Inl ''memory_counter_unreadable'')"

text \<open>The domain of one directory, if it limits memory.\<close>

definition limit_domain :: "file_system \<Rightarrow> bool \<Rightarrow> path \<Rightarrow> string + mem_domain list" where
  "limit_domain files v2 p =
     (case fs_read files (join_path p [Normal (if v2 then ''memory.max'' else ''memory.limit_in_bytes'')]) of
        NotFound \<Rightarrow> Inr []
      | Unreadable \<Rightarrow> Inl ''cgroup_counter_unreadable''
      | Content raw \<Rightarrow>
          if str_trim raw = ''max'' then Inr []
          else and_then (ok_or ''invalid_cgroup_limit'' (parse_u64 (str_trim raw))) (\<lambda>limit.
            if 0 < limit \<and> limit < 2 ^ 60 then
              res_map (\<lambda>current. [\<lparr>md_source = (if v2 then ''cgroup_v2'' else ''cgroup_v1''), md_limit_bytes = limit,
                  md_used_bytes = current, md_available_bytes = limit - current\<rparr>])
                (file_number files (join_path p [Normal (if v2 then ''memory.current'' else ''memory.usage_in_bytes'')]))
            else Inr []))"

text \<open>The loop from a directory up to the mount point.\<close>

function climb :: "file_system \<Rightarrow> bool \<Rightarrow> path \<Rightarrow> path \<Rightarrow> string + mem_domain list" where
  "climb files v2 mountpoint p =
     and_then (limit_domain files v2 p) (\<lambda>ds.
       if p = mountpoint then Inr ds
       else case pop_path p of
         None \<Rightarrow> Inl ''invalid_cgroup_mount''
       | Some q \<Rightarrow>
           if take (length mountpoint) q \<noteq> mountpoint then Inl ''invalid_cgroup_mount''
           else res_map ((@) ds) (climb files v2 mountpoint q))"
  by pat_completeness auto
termination
  by (relation "measure (\<lambda>(files, v2, m, p). length p)") (auto simp: pop_path_def split: if_splits)

declare climb.simps [simp del]

definition mount_fields :: "bool \<Rightarrow> string \<Rightarrow> (path \<times> path) option" where
  "mount_fields v2 mount =
     (case split_once_text '' - '' mount of
        None \<Rightarrow> None
      | Some (l, r) \<Rightarrow>
          let left = words_of l; right = words_of r in
          if length left < 5 \<or> length right < 3
             \<or> \<not> ((v2 \<and> right ! 0 = ''cgroup2'')
                  \<or> (\<not> v2 \<and> right ! 0 = ''cgroup'' \<and> ''memory'' \<in> set (split_on CHR '','' (right ! 2))))
          then None
          else Some (path_of (unescape_mount (left ! 3)), path_of (unescape_mount (left ! 4))))"

definition relative_member :: "path \<Rightarrow> path \<Rightarrow> path option" where
  "relative_member base member = (if member = [RootDir] then Some [] else strip_path base member)"

text \<open>The domains of one mount, or \<open>None\<close> where the mount is not the membership's.\<close>

definition mount_domains ::
  "file_system \<Rightarrow> bool \<Rightarrow> path \<Rightarrow> string \<Rightarrow> string + mem_domain list option" where
  "mount_domains files v2 member mount =
     (case mount_fields v2 mount of
        None \<Rightarrow> Inr None
      | Some (base, mountpoint) \<Rightarrow>
          (case relative_member base member of
             None \<Rightarrow> Inr None
           | Some relative \<Rightarrow>
               if ParentDir \<in> set relative then Inl ''invalid_cgroup_path''
               else
                 let p = join_path mountpoint relative in
                 if \<not> fs_is_dir files p then Inl ''cgroup_path_unavailable''
                 else res_map Some (climb files v2 mountpoint p)))"

definition member_fields :: "string \<Rightarrow> (bool \<times> path) option" where
  "member_fields line =
     (case split_three line of
        [a, b, c] \<Rightarrow>
          let v2 = (a = ''0'' \<and> b = []) in
          if \<not> v2 \<and> ''memory'' \<notin> set (split_on CHR '','' b) then None else Some (v2, path_of c)
      | _ \<Rightarrow> None)"

definition member_domains :: "file_system \<Rightarrow> string \<Rightarrow> string \<Rightarrow> string + mem_domain list" where
  "member_domains files mountinfo line =
     (case member_fields line of
        None \<Rightarrow> Inr []
      | Some (v2, member) \<Rightarrow>
          and_then (each_res (mount_domains files v2 member) (split_lines mountinfo)) (\<lambda>found.
            if \<forall>f\<in>set found. f = None then Inl ''cgroup_mount_not_found''
            else Inr (concat (List.map_filter id found))))"

definition cgroup_domains :: "file_system \<Rightarrow> string \<Rightarrow> string \<Rightarrow> string + mem_domain list" where
  "cgroup_domains files membership mountinfo =
     res_map concat (each_res (member_domains files mountinfo) (split_lines membership))"

definition read_text :: "file_system \<Rightarrow> string \<Rightarrow> string + string" where
  "read_text files name =
     (case fs_read files (path_of name) of Content s \<Rightarrow> Inr s | _ \<Rightarrow> Inl ''memory_counter_unreadable'')"

definition system_sample :: "file_system \<Rightarrow> string + mem_domain list" where
  "system_sample files =
     and_then (read_text files ''/proc/meminfo'') (\<lambda>meminfo.
     and_then (host_linux meminfo) (\<lambda>host.
     and_then (read_text files ''/proc/self/cgroup'') (\<lambda>membership.
     and_then (read_text files ''/proc/self/mountinfo'') (\<lambda>mountinfo.
       res_map ((#) host) (cgroup_domains files membership mountinfo)))))"

subsection \<open>Every ancestor counts\<close>

definition ancestors :: "path \<Rightarrow> path \<Rightarrow> path list" where
  "ancestors mountpoint relative = map (\<lambda>n. mountpoint @ take n relative) (rev [0..<Suc (length relative)])"

lemma ancestors_Nil [simp]: "ancestors m [] = [m]"
  by (simp add: ancestors_def)

lemma ancestors_snoc [simp]: "ancestors m (r @ [x]) = (m @ r @ [x]) # ancestors m r"
  by (simp add: ancestors_def)

lemma pop_snoc: "x \<noteq> RootDir \<Longrightarrow> pop_path (p @ [x]) = Some p"
  by (simp add: pop_path_def)

text \<open>
  The climb from a directory below a mount point checks every directory from it up to and
  including the mount point, each once and nearest first, so no tighter limit of a parent is
  missed; it stops at the first counter it cannot read, and never leaves the mount.
\<close>

lemma climb_covers_ancestors:
  assumes "RootDir \<notin> set relative"
  shows "climb files v2 mountpoint (mountpoint @ relative)
    = res_map concat (each_res (limit_domain files v2) (ancestors mountpoint relative))"
  using assms
proof (induction relative rule: rev_induct)
  case Nil
  then show ?case
    by (subst climb.simps) (simp add: each_res_Cons and_then_def res_map_def split: sum.splits)
next
  case (snoc x r)
  then have "x \<noteq> RootDir" by auto
  with pop_snoc [of x "mountpoint @ r"] have pop: "pop_path (mountpoint @ r @ [x]) = Some (mountpoint @ r)" by simp
  from snoc have "climb files v2 mountpoint (mountpoint @ r)
    = res_map concat (each_res (limit_domain files v2) (ancestors mountpoint r))" by simp
  with pop show ?case
    by (subst climb.simps) (simp add: each_res_Cons and_then_def res_map_def split: sum.splits)
qed

text \<open>A process in the group \<open>a\<close> of a mount, where only the mount point sets a limit.\<close>

definition ex_files :: file_system where
  "ex_files = \<lparr>fs_read = (\<lambda>p.
       if p = [RootDir, Normal ''m'', Normal ''memory.max''] then Content ''100''
       else if p = [RootDir, Normal ''m'', Normal ''memory.current''] then Content ''40'' else NotFound),
     fs_is_dir = (\<lambda>_. True)\<rparr>"

lemma ex_counters: "str_trim ''100'' = ''100''" "str_trim ''40'' = ''40''" "is_digit CHR ''1''" "is_digit CHR ''0''"
    "is_digit CHR ''4''" "digits_value ''100'' = 100" "digits_value ''40'' = 40"
  by code_simp+

lemma ex_numbers: "parse_u64 ''100'' = Some 100" "parse_u64 ''40'' = Some 40"
  by (simp_all add: parse_u64_def parse_nat_below_def ex_counters)

lemma ex_limits:
  "limit_domain ex_files True [RootDir, Normal ''m'', Normal ''a''] = Inr []"
  "limit_domain ex_files True [RootDir, Normal ''m''] =
     Inr [\<lparr>md_source = ''cgroup_v2'', md_limit_bytes = 100, md_used_bytes = 40, md_available_bytes = 60\<rparr>]"
  by (simp_all add: limit_domain_def join_path_def ex_files_def file_number_def ex_counters ex_numbers res_map_def
      ok_or_def)

lemma ex_climb: "res_map concat (each_res (limit_domain ex_files True) (ancestors [RootDir, Normal ''m''] [Normal ''a'']))
    = Inr [\<lparr>md_source = ''cgroup_v2'', md_limit_bytes = 100, md_used_bytes = 40, md_available_bytes = 60\<rparr>]"
  using ancestors_snoc [of "[RootDir, Normal ''m'']" "[]" "Normal ''a''"]
  by (simp add: ex_limits res_map_def)

lemma climb_covers_ancestors_witness:
  "RootDir \<notin> set [Normal ''a''] \<and>
   climb ex_files True [RootDir, Normal ''m''] ([RootDir, Normal ''m''] @ [Normal ''a''])
    = Inr [\<lparr>md_source = ''cgroup_v2'', md_limit_bytes = 100, md_used_bytes = 40, md_available_bytes = 60\<rparr>]"
  using climb_covers_ancestors [of "[Normal ''a'']" ex_files True "[RootDir, Normal ''m'']"] ex_climb by simp

end
