(* ===== verification/Control_Calls.thy ===== *)
theory Control_Calls
  imports Account_Control Protocol
begin

section \<open>Control calls to the provider\<close>

text \<open>
  \<open>credentials\<close>, \<open>collect_quotas\<close> and \<open>read_limited\<close> of
  \<open>crates/xxgate-core/src/application/gateway.rs\<close>: requests the gateway makes for itself, with
  an account's credentials, to refresh them and to ask for its quotas.

  The state is what one such operation works on: the gateway, the log of the requests it handed
  to the transport, and two scripts of what it cannot choose: the \<open>replies\<close> of the network, and
  the \<open>turns\<close>, one for each of its steps, in which other operations change the gateway before the
  step is made, or the process dies. A step is one transaction of the store, one operation under
  the lock \<open>mutations\<close> or one handing over of a request; it is not interrupted. The locks of an
  account make its operations of one kind run one after the other. Clock readings of one operation
  are one argument, the adapter's methods and the cipher are the fields of \<open>control_env\<close>.
\<close>

datatype wire_reply = Answer nat "(err + string) list" | NoReply err | NoAnswer

datatype halt = Failed err | Panicked | Died

datatype purpose =
    ForRefresh | ForQuota | ForCredits | ForReset reset_operation | ForAuthorization | ForModels

datatype turn = Others "gateway \<Rightarrow> gateway" | Dies

record control =
  ct_gateway :: gateway
  ct_sent :: "(purpose \<times> prepared_request) list"
  ct_replies :: "wire_reply list"
  ct_turns :: "turn list"

type_synonym 'a ctl = "(control, halt, 'a) comp"

subsection \<open>Steps\<close>

definition ctl_step :: "'a ctl \<Rightarrow> 'a ctl" where
  "ctl_step m s =
     (case ct_turns s of
        [] \<Rightarrow> m s
      | Dies # ts \<Rightarrow> (Inl Died, s\<lparr>ct_turns := ts\<rparr>)
      | Others f # ts \<Rightarrow> m (s\<lparr>ct_gateway := f (ct_gateway s), ct_turns := ts\<rparr>))"

definition on_gateway :: "'a act \<Rightarrow> 'a ctl" where
  "on_gateway m = ctl_step (\<lambda>s.
     case m (ct_gateway s) of
       (Inl e, g) \<Rightarrow> (Inl (Failed e), s\<lparr>ct_gateway := g\<rparr>)
     | (Inr x, g) \<Rightarrow> (Inr x, s\<lparr>ct_gateway := g\<rparr>))"

definition hand_over :: "purpose \<Rightarrow> prepared_request \<Rightarrow> wire_reply ctl" where
  "hand_over p request = ctl_step (\<lambda>s.
     (Inr (case ct_replies s of [] \<Rightarrow> NoAnswer | r # _ \<Rightarrow> r),
      s\<lparr>ct_sent := ct_sent s @ [(p, request)], ct_replies := tl (ct_replies s)\<rparr>))"

definition ctl_res :: "'a res \<Rightarrow> 'a ctl" where
  "ctl_res r = (case r of Inl e \<Rightarrow> act_fail (Failed e) | Inr x \<Rightarrow> act_return x)"

text \<open>A state in which nothing else happens: no other operations, no lost store calls.\<close>

definition calm :: "control \<Rightarrow> bool" where
  "calm s \<longleftrightarrow> ct_turns s = [] \<and> gw_faults (ct_gateway s) = []"

lemma calm_gateway:
  "calm s \<Longrightarrow> on_gateway m s =
     (case m (ct_gateway s) of (r, g) \<Rightarrow> (case r of Inl e \<Rightarrow> Inl (Failed e) | Inr x \<Rightarrow> Inr x, s\<lparr>ct_gateway := g\<rparr>))"
  by (simp add: calm_def on_gateway_def ctl_step_def split: prod.split sum.split)

lemma calm_store:
  "calm s \<Longrightarrow> on_gateway (act_store f) s =
     (case fst (f (gw_db (ct_gateway s))) of Inl e \<Rightarrow> Inl (Failed e) | Inr x \<Rightarrow> Inr x,
      s\<lparr>ct_gateway := (ct_gateway s)\<lparr>gw_db := snd (f (gw_db (ct_gateway s)))\<rparr>\<rparr>)"
  by (simp add: calm_gateway) (simp add: calm_def act_store_def)

lemma calm_account:
  "calm s \<Longrightarrow> sched_account (gw_sched (ct_gateway s)) i = Some a \<Longrightarrow> on_gateway (current_account i) s = (Inr a, s)"
  by (simp add: calm_gateway current_account_def act_bind_def act_read_def act_or_def act_return_def)

lemma calm_hand_over:
  "calm s \<Longrightarrow> hand_over p request s = (Inr (case ct_replies s of [] \<Rightarrow> NoAnswer | r # _ \<Rightarrow> r),
     s\<lparr>ct_sent := ct_sent s @ [(p, request)], ct_replies := tl (ct_replies s)\<rparr>)"
  by (simp add: calm_def hand_over_def ctl_step_def)

lemma calm_updates [simp]:
  "calm (s\<lparr>ct_sent := xs\<rparr>) = calm s" "calm (s\<lparr>ct_replies := rs\<rparr>) = calm s"
  "calm (s\<lparr>ct_gateway := (ct_gateway s)\<lparr>gw_db := db\<rparr>\<rparr>) = calm s"
  "calm (s\<lparr>ct_gateway := (ct_gateway s)\<lparr>gw_sched := sc\<rparr>\<rparr>) = calm s"
  by (simp_all add: calm_def)

text \<open>Matching on a result; a process that died or panicked does not get there.\<close>

definition ctl_try :: "'a ctl \<Rightarrow> 'a res ctl" where
  "ctl_try m s =
     (case m s of
        (Inr x, s') \<Rightarrow> (Inr (Inr x), s')
      | (Inl (Failed e), s') \<Rightarrow> (Inr (Inl e), s')
      | (Inl x, s') \<Rightarrow> (Inl x, s'))"

subsection \<open>Bodies\<close>

definition err_body_too_large :: err where
  "err_body_too_large =
     error_new 502 ''upstream_body_too_large'' ''Upstream control response exceeds its size limit''"

fun read_limited :: "nat \<Rightarrow> string \<Rightarrow> (err + string) list \<Rightarrow> string res" where
  "read_limited limit body [] = Inr body"
| "read_limited limit body (Inl e # cs) = Inl e"
| "read_limited limit body (Inr c # cs) =
     (if limit < length body + length c then Inl err_body_too_large else read_limited limit (body @ c) cs)"

text \<open>A request under a deadline: \<open>NoAnswer\<close> is a deadline that passed at any point of it.\<close>

definition control_call ::
  "purpose \<Rightarrow> nat \<Rightarrow> err \<Rightarrow> prepared_request \<Rightarrow> (nat \<times> string) ctl" where
  "control_call p limit timeout request =
     act_bind (hand_over p request) (\<lambda>r.
       case r of
         NoAnswer \<Rightarrow> act_fail (Failed timeout)
       | NoReply e \<Rightarrow> act_fail (Failed e)
       | Answer status chunks \<Rightarrow> ctl_res (res_map (Pair status) (read_limited limit [] chunks)))"

subsection \<open>Credentials\<close>

record control_env =
  ck_now :: datetime
  ck_decrypt :: "uuid \<Rightarrow> string \<Rightarrow> credentials res"
  ck_encrypt :: "uuid \<Rightarrow> credentials \<Rightarrow> string res"
  ck_header_ok :: "string \<Rightarrow> bool"
  ck_refresh_request :: "account \<Rightarrow> credentials \<Rightarrow> prepared_request res"
  ck_refreshed :: "nat \<Rightarrow> string \<Rightarrow> credentials \<Rightarrow> account \<Rightarrow> credentials res"
  ck_quota_request :: "account \<Rightarrow> credentials \<Rightarrow> prepared_request res"
  ck_quota_response :: "string \<Rightarrow> quota_window list res option"
  ck_extra_response :: "string \<Rightarrow> extra_credits res"
  ck_http_error :: "nat \<Rightarrow> string \<Rightarrow> err \<times> disable_reason option"
  ck_credits_request :: "account \<Rightarrow> credentials \<Rightarrow> prepared_request res"
  ck_credits_response :: "string \<Rightarrow> reset_credits res"
  ck_reset_request :: "account \<Rightarrow> credentials \<Rightarrow> reset_operation \<Rightarrow> prepared_request res"
  ck_reset_response :: "string \<Rightarrow> reset_result res"

definition second :: int where
  "second = 1000000000"

definition refresh_due :: "datetime \<Rightarrow> credentials \<Rightarrow> bool" where
  "refresh_due now c \<longleftrightarrow> (case cr_expires_at c of None \<Rightarrow> False | Some t \<Rightarrow> t \<le> now + 120 * second)"

definition expired :: "datetime \<Rightarrow> credentials \<Rightarrow> bool" where
  "expired now c \<longleftrightarrow> (case cr_expires_at c of None \<Rightarrow> False | Some t \<Rightarrow> t \<le> now)"

definition err_oauth_expired :: err where
  "err_oauth_expired = error_new 401 ''oauth_invalid'' ''The upstream authorization has expired''"

definition err_oauth_timeout :: err where
  "err_oauth_timeout = error_new 504 ''oauth_timeout'' ''OAuth refresh timed out''"

text \<open>Without a refresh token.\<close>

definition cannot_refresh :: "control_env \<Rightarrow> uuid \<Rightarrow> bool \<Rightarrow> account \<Rightarrow> credentials \<Rightarrow> credentials ctl" where
  "cannot_refresh env i force a c =
     (if expired (ck_now env) c
      then act_then (on_gateway (disable_observed (ck_now env) i (acc_version a) OauthInvalid))
             (act_fail (Failed err_oauth_expired))
      else if force then act_fail (Failed (err_invalid ''No refresh token is available''))
      else act_return c)"

definition store_refreshed :: "control_env \<Rightarrow> uuid \<Rightarrow> account \<Rightarrow> credentials \<Rightarrow> credentials ctl" where
  "store_refreshed env i a c =
     act_then (ctl_res (credentials_validate (ck_header_ok env) c)) (
     act_bind (ctl_res (ck_encrypt env i c)) (\<lambda>text.
     act_then (on_gateway (
       act_bind (act_store (pg_update_credentials (ck_now env) i text (cr_expires_at c) (acc_credential_version a)))
         (\<lambda>updated. act_sched (update_account updated)))) (
       act_return c)))"

definition refresh :: "control_env \<Rightarrow> uuid \<Rightarrow> account \<Rightarrow> credentials \<Rightarrow> credentials ctl" where
  "refresh env i a c =
     act_bind (ctl_res (ck_refresh_request env a c)) (\<lambda>request.
     act_bind (ctl_try (act_bind (control_call ForRefresh (128 * 1024) err_oauth_timeout request)
         (\<lambda>(status, body). ctl_res (ck_refreshed env status body c a)))) (\<lambda>result.
       case result of
         Inr c' \<Rightarrow> store_refreshed env i a c'
       | Inl e \<Rightarrow>
           act_then (if err_code e = ''oauth_invalid''
             then on_gateway (disable_observed (ck_now env) i (acc_version a) OauthInvalid) else act_return ())
           (act_fail (Failed e))))"

definition gateway_credentials :: "control_env \<Rightarrow> uuid \<Rightarrow> bool \<Rightarrow> credentials ctl" where
  "gateway_credentials env i force =
     act_bind (on_gateway (current_account i)) (\<lambda>a.
     act_bind (on_gateway (act_store (pg_credentials i))) (\<lambda>text.
     act_bind (ctl_res (ck_decrypt env i text)) (\<lambda>c.
       if \<not> force \<and> \<not> refresh_due (ck_now env) c then act_return c
       else if cr_refresh_token c = [] then cannot_refresh env i force a c
       else refresh env i a c)))"

subsection \<open>Quotas\<close>

definition err_quota_timeout :: err where
  "err_quota_timeout = error_new 504 ''quota_timeout'' ''Quota collection timed out''"

definition ctl_panic :: "'a option \<Rightarrow> 'a ctl" where
  "ctl_panic m = (case m of None \<Rightarrow> act_fail Panicked | Some x \<Rightarrow> act_return x)"

definition ok_status :: "nat \<Rightarrow> bool" where
  "ok_status status \<longleftrightarrow> 200 \<le> status \<and> status < 300"

definition quota_refused :: "control_env \<Rightarrow> uuid \<Rightarrow> account \<Rightarrow> nat \<Rightarrow> string \<Rightarrow> quota_window list ctl" where
  "quota_refused env i a status body =
     (let (e, reason) = ck_http_error env status body in
      act_then (case reason of
          None \<Rightarrow> act_return ()
        | Some r \<Rightarrow> on_gateway (disable_observed (ck_now env) i (acc_version a) r))
        (act_fail (Failed e)))"

definition collect_quotas :: "control_env \<Rightarrow> uuid \<Rightarrow> quota_window list ctl" where
  "collect_quotas env i =
     act_bind (gateway_credentials env i False) (\<lambda>c.
     act_bind (on_gateway (current_account i)) (\<lambda>a.
     act_bind (ctl_res (ck_quota_request env a c)) (\<lambda>request.
     act_bind (control_call ForQuota (256 * 1024) err_quota_timeout request) (\<lambda>(status, body).
       if \<not> ok_status status then quota_refused env i a status body
       else
         act_bind (ctl_panic (ck_quota_response env body)) (\<lambda>ws.
         act_bind (ctl_res ws) (\<lambda>windows.
         act_bind (ctl_res (ck_extra_response env body)) (\<lambda>credits.
         act_then (on_gateway (apply_quota_observation (ck_now env) i (acc_version a) windows (Some credits) True))
           (act_return windows))))))))"

end
