(* ===== verification/Reset_Redeem.thy ===== *)
theory Reset_Redeem
  imports Control_Calls "HOL-Library.Sublist"
begin

section \<open>Spending a reset credit\<close>

text \<open>
  \<open>crates/xxgate-core/src/application/resets.rs\<close>: asking for an account's reset credits and
  spending one of them. The operation is written to the database before it is sent, and the
  request carries its identifier, so an outcome that was not seen can be asked for again. The
  operations of one account run one after the other (\<open>reset_locks\<close>); they can fail or the process
  can die at any of their steps, store calls can lose their acknowledgement, and anything that
  leaves this account's operations alone can happen in between.
\<close>

definition err_reset_timeout :: err where
  "err_reset_timeout = error_new 504 ''reset_timeout'' (uni
     [0x989D, 0x5EA6, 0x91CD, 0x7F6E, 0x63A5, 0x53E3, 0x8D85, 0x65F6, 0xFF1B, 0x6267, 0x884C, 0x7ED3, 0x679C,
      0x672A, 0x786E, 0x8BA4, 0x65F6, 0x8BF7, 0x91CD, 0x8BD5, 0x539F, 0x64CD, 0x4F5C])"

definition err_reset_unqueried :: err where
  "err_reset_unqueried = err_invalid (uni
     [0x8BF7, 0x5148, 0x67E5, 0x8BE2, 0x91CD, 0x7F6E, 0x6B21, 0x6570, 0xFF0C, 0x518D, 0x9009, 0x62E9, 0x672C,
      0x6B21, 0x64CD, 0x4F5C])"

definition err_reset_other_credit :: err where
  "err_reset_other_credit = err_invalid (uni
     [0x540C, 0x4E00, 0x64CD, 0x4F5C, 0x6807, 0x8BC6, 0x4E0D, 0x80FD, 0x66F4, 0x6362, 0x91CD, 0x7F6E, 0x51ED,
      0x636E])"

definition err_reset_pending :: err where
  "err_reset_pending = error_new 409 ''reset_pending'' (uni
     [0x4E0A, 0x4E00, 0x6B21, 0x91CD, 0x7F6E, 0x7ED3, 0x679C, 0x5C1A, 0x672A, 0x786E, 0x8BA4, 0xFF0C, 0x8BF7,
      0x5148, 0x6838, 0x5B9E, 0x539F, 0x64CD, 0x4F5C])"

definition err_no_reset_credit :: err where
  "err_no_reset_credit = error_new 409 ''no_reset_credit'' (uni
     [0x6CA1, 0x6709, 0x5C1A, 0x672A, 0x8FC7, 0x671F, 0x7684, 0x53EF, 0x7528, 0x91CD, 0x7F6E, 0x6B21, 0x6570])"

definition err_credit_changed :: err where
  "err_credit_changed = error_new 409 ''reset_credit_changed'' (uni
     [0x53EF, 0x7528, 0x91CD, 0x7F6E, 0x5217, 0x8868, 0x5DF2, 0x53D8, 0x5316, 0xFF0C, 0x8BF7, 0x91CD, 0x65B0,
      0x67E5, 0x8BE2, 0x540E, 0x64CD, 0x4F5C])"

subsection \<open>The operations\<close>

definition reset_control :: "control_env \<Rightarrow> purpose \<Rightarrow> prepared_request \<Rightarrow> string ctl" where
  "reset_control env p request =
     act_bind (control_call p (512 * 1024) err_reset_timeout request) (\<lambda>(status, body).
       if ok_status status then act_return body else act_fail (Failed (fst (ck_http_error env status body))))"

definition fetch_reset_credits :: "control_env \<Rightarrow> uuid \<Rightarrow> reset_credits ctl" where
  "fetch_reset_credits env i =
     act_bind (gateway_credentials env i False) (\<lambda>c.
     act_bind (on_gateway (current_account i)) (\<lambda>a.
     act_bind (ctl_res (ck_credits_request env a c)) (\<lambda>request.
     act_bind (reset_control env ForCredits request) (\<lambda>body.
     act_bind (ctl_res (ck_credits_response env body)) (\<lambda>credits.
     act_then (on_gateway (act_store (pg_save_reset_credits i credits))) (act_return credits))))))"

definition collect_reset_credits :: "control_env \<Rightarrow> uuid \<Rightarrow> reset_credits ctl" where
  "collect_reset_credits env i = fetch_reset_credits env i"

definition chosen_credit :: "datetime \<Rightarrow> string \<Rightarrow> reset_credits \<Rightarrow> reset_credit res" where
  "chosen_credit now expected credits =
     (case credits_next credits now of
        None \<Rightarrow> Inl err_no_reset_credit
      | Some next \<Rightarrow> if rc_id next \<noteq> expected then Inl err_credit_changed else Inr next)"

definition new_operation :: "control_env \<Rightarrow> uuid \<Rightarrow> uuid \<Rightarrow> string \<Rightarrow> reset_operation ctl" where
  "new_operation env i operation expected =
     act_bind (on_gateway (act_store (pg_reset_operation i None))) (\<lambda>pending.
       if pending \<noteq> None then act_fail (Failed err_reset_pending)
       else
         act_bind (fetch_reset_credits env i) (\<lambda>credits.
         act_bind (ctl_res (chosen_credit (ck_now env) expected credits)) (\<lambda>next.
           act_return \<lparr>ro_id = operation, ro_account_id = i, ro_credit_id = rc_id next,
                       ro_created_at = ck_now env, ro_result = None\<rparr>)))"

definition send_reset :: "control_env \<Rightarrow> reset_operation \<Rightarrow> prepared_request \<Rightarrow> reset_result ctl" where
  "send_reset env op request =
     act_bind (reset_control env (ForReset op) request) (\<lambda>body. ctl_res (ck_reset_response env body))"

definition note_unconfirmed :: "uuid \<Rightarrow> unit tx" where
  "note_unconfirmed i db = (Inr (), log_event ''quota_reset_unconfirmed'' ''admin'' (Some i) db)"

text \<open>From the credentials to the outcome: what can be prepared is prepared before the operation is
  written, and it is written before it is sent.\<close>

definition execute_reset :: "control_env \<Rightarrow> uuid \<Rightarrow> reset_operation \<Rightarrow> reset_operation ctl" where
  "execute_reset env i op =
     act_bind (gateway_credentials env i False) (\<lambda>c.
     act_bind (on_gateway (current_account i)) (\<lambda>a.
     act_bind (ctl_res (ck_reset_request env a c op)) (\<lambda>request.
     act_bind (on_gateway (act_store (pg_reset_operation i (Some (ro_id op))))) (\<lambda>found.
     act_then (if found = None then on_gateway (act_store (pg_begin_reset op)) else act_return ()) (
     act_bind (ctl_try (send_reset env op request)) (\<lambda>result.
       case result of
         Inl e \<Rightarrow> act_then (on_gateway (act_store (note_unconfirmed i))) (act_fail (Failed e))
       | Inr r \<Rightarrow>
           let finished = op\<lparr>ro_result := Some r\<rparr> in
           act_then (on_gateway (act_store (pg_finish_reset finished))) (act_return finished)))))))"

definition consume_reset :: "control_env \<Rightarrow> uuid \<Rightarrow> uuid \<Rightarrow> string \<Rightarrow> reset_operation ctl" where
  "consume_reset env i operation expected =
     (if operation = 0 \<or> blank expected \<or> length expected > 512 then act_fail (Failed err_reset_unqueried)
      else
        act_bind (on_gateway (act_store (pg_reset_operation i (Some operation)))) (\<lambda>existing.
          case existing of
            Some op \<Rightarrow>
              if ro_credit_id op \<noteq> expected then act_fail (Failed err_reset_other_credit)
              else if ro_result op \<noteq> None then act_return op
              else execute_reset env i op
          | None \<Rightarrow> act_bind (new_operation env i operation expected) (execute_reset env i)))"

end
