(* ===== verification/Reset_Journal.thy ===== *)
theory Reset_Journal
  imports Reset_Redeem
begin

section \<open>One reset at a time\<close>

text \<open>
  What the journal of reset operations guarantees for one account: every request that spends a
  credit belongs to a journaled operation and to the credit journaled with it, and another
  operation is journaled and sent only when the outcome of the one before is written down. It is
  an invariant of everything the account's operations can do, with anything that leaves the
  account's operations alone in between.
\<close>

definition rows_of :: "uuid \<Rightarrow> pg \<Rightarrow> reset_row list" where
  "rows_of a db = filter (\<lambda>r. ro_account_id (rr_operation r) = a) (pg_resets db)"

definition row_id :: "reset_row \<Rightarrow> uuid" where
  "row_id r = ro_id (rr_operation r)"

definition reset_requests :: "control \<Rightarrow> reset_operation list" where
  "reset_requests s = List.map_filter (\<lambda>(p, _). case p of ForReset op \<Rightarrow> Some op | _ \<Rightarrow> None) (ct_sent s)"

definition journal_ok :: "reset_row list \<times> reset_operation list \<Rightarrow> bool" where
  "journal_ok v \<longleftrightarrow> (case v of (rows, sent) \<Rightarrow>
     (\<forall>r\<in>set rows. rr_completed r \<longleftrightarrow> ro_result (rr_operation r) \<noteq> None)
     \<and> distinct (map row_id rows)
     \<and> (\<forall>r\<in>set (butlast rows). rr_completed r)
     \<and> (\<forall>op\<in>set sent. \<exists>r\<in>set rows. row_id r = ro_id op \<and> ro_credit_id (rr_operation r) = ro_credit_id op)
     \<and> subseq (remdups_adj (map ro_id sent)) (map row_id rows))"

text \<open>What other operations leave alone, and what a state says of the account.\<close>

definition leaves :: "uuid \<Rightarrow> (gateway \<Rightarrow> gateway) \<Rightarrow> bool" where
  "leaves a f \<longleftrightarrow> (\<forall>g. rows_of a (gw_db (f g)) = rows_of a (gw_db g))"

definition turns_ok :: "uuid \<Rightarrow> turn list \<Rightarrow> bool" where
  "turns_ok a ts \<longleftrightarrow> (\<forall>f. Others f \<in> set ts \<longrightarrow> leaves a f)"

definition view :: "uuid \<Rightarrow> control \<Rightarrow> reset_row list \<times> reset_operation list" where
  "view a s = (rows_of a (gw_db (ct_gateway s)), reset_requests s)"

definition sees :: "uuid \<Rightarrow> (reset_row list \<times> reset_operation list \<Rightarrow> bool) \<Rightarrow> control \<Rightarrow> bool" where
  "sees a R s \<longleftrightarrow> turns_ok a (ct_turns s) \<and> R (view a s)"

lemma sees_turn:
  assumes "sees a R s" and "ct_turns s = t # ts"
  shows "sees a R (s\<lparr>ct_turns := ts\<rparr>)"
    and "t = Others f \<Longrightarrow> sees a R (s\<lparr>ct_gateway := f (ct_gateway s), ct_turns := ts\<rparr>)"
  using assms by (auto simp: sees_def view_def turns_ok_def leaves_def reset_requests_def)

lemma view_turns [simp]: "view a (s\<lparr>ct_turns := ts\<rparr>) = view a s"
  by (simp add: view_def reset_requests_def)

subsection \<open>Rules for the steps\<close>

lemma runs_ctl_step:
  assumes "runs (sees a R) m Q E" and "\<And>s. sees a R s \<Longrightarrow> E Died s"
  shows "runs (sees a R) (ctl_step m) Q E"
  unfolding runs_def
proof (intro allI impI)
  fix s assume s: "sees a R s"
  show "case ctl_step m s of (Inl e, s') \<Rightarrow> E e s' | (Inr x, s') \<Rightarrow> Q x s'"
  proof (cases "ct_turns s")
    case Nil
    with assms(1) s show ?thesis by (simp add: ctl_step_def runs_def)
  next
    case (Cons t ts)
    show ?thesis
    proof (cases t)
      case (Others f)
      with sees_turn(2) [OF s Cons] have "sees a R (s\<lparr>ct_gateway := f (ct_gateway s), ct_turns := ts\<rparr>)" by simp
      with assms(1) Cons Others show ?thesis by (simp add: ctl_step_def runs_def)
    next
      case Dies
      with sees_turn(1) [OF s Cons] assms(2) Cons show ?thesis by (simp add: ctl_step_def)
    qed
  qed
qed

text \<open>An action of the gateway, by what it does to the account's rows.\<close>

definition rows_and :: "uuid \<Rightarrow> (reset_row list \<times> reset_operation list \<Rightarrow> bool) \<Rightarrow> reset_operation list \<Rightarrow> gateway \<Rightarrow> bool" where
  "rows_and a R sent g \<longleftrightarrow> R (rows_of a (gw_db g), sent)"

lemma runs_on_gateway:
  assumes "\<And>sent. runs (rows_and a R sent) m (\<lambda>x. rows_and a (Q x) sent) (\<lambda>e. rows_and a (E (Failed e)) sent)"
    and "\<And>v. R v \<Longrightarrow> E Died v"
  shows "runs (sees a R) (on_gateway m) (\<lambda>x. sees a (Q x)) (\<lambda>e. sees a (E e))"
  unfolding on_gateway_def
proof (rule runs_ctl_step)
  show "sees a R s \<Longrightarrow> sees a (E Died) s" for s using assms(2) by (simp add: sees_def)
  show "runs (sees a R) (\<lambda>s. case m (ct_gateway s) of
       (Inl e, g) \<Rightarrow> (Inl (Failed e), s\<lparr>ct_gateway := g\<rparr>)
     | (Inr x, g) \<Rightarrow> (Inr x, s\<lparr>ct_gateway := g\<rparr>)) (\<lambda>x. sees a (Q x)) (\<lambda>e. sees a (E e))"
    unfolding runs_def
  proof (intro allI impI)
    fix s assume s: "sees a R s"
    obtain r g where run: "m (ct_gateway s) = (r, g)" by (cases "m (ct_gateway s)")
    from s have "rows_and a R (reset_requests s) (ct_gateway s)" by (simp add: sees_def view_def rows_and_def)
    from runs_apply [OF assms(1) this run] s run
    show "case (case m (ct_gateway s) of (Inl e, g) \<Rightarrow> (Inl (Failed e), s\<lparr>ct_gateway := g\<rparr>)
          | (Inr x, g) \<Rightarrow> (Inr x, s\<lparr>ct_gateway := g\<rparr>)) of
        (Inl e, s') \<Rightarrow> sees a (E e) s' | (Inr x, s') \<Rightarrow> sees a (Q x) s'"
      by (auto simp: sees_def view_def rows_and_def reset_requests_def split: sum.splits)
  qed
qed

subsection \<open>What leaves the account's operations alone\<close>

interpretation spared: state_condition "\<lambda>g. rows_of a (gw_db g) = w" for a w
  by unfold_locales simp

interpretation quiet: kept "sees a R" for a R .

lemma spared_store: "(\<And>db. rows_of a (snd (f db)) = rows_of a db) \<Longrightarrow> spared.keeps a w (act_store f)"
  by (rule spared.keeps_store) simp

lemma spared_sched: "spared.keeps a w (act_sched f)"
  by (rule spared.keeps_sched) simp

lemma rows_of_same: "pg_resets db' = pg_resets db \<Longrightarrow> rows_of a db' = rows_of a db"
  by (simp add: rows_of_def)

lemma same_resets:
  "pg_resets (snd (pg_set_enabled now i e reason v actor db)) = pg_resets db"
  "pg_resets (snd (pg_extra_credits_of i db)) = pg_resets db"
  "pg_resets (snd (pg_save_extra_credits i c db)) = pg_resets db"
  "pg_resets (snd (pg_quotas i db)) = pg_resets db"
  "pg_resets (snd (pg_credentials i db)) = pg_resets db"
  "pg_resets (snd (pg_update_credentials now i secret expiry expected db)) = pg_resets db"
  "pg_resets (snd (pg_save_reset_credits i cs db)) = pg_resets db"
  "pg_resets (snd (pg_reset_operation i m db)) = pg_resets db"
  "pg_resets (snd (note_unconfirmed i db)) = pg_resets db"
  by (simp_all add: pg_set_enabled_def pg_extra_credits_of_def pg_save_extra_credits_def pg_quotas_def
      pg_credentials_def pg_update_credentials_def pg_save_reset_credits_def pg_reset_operation_def
      note_unconfirmed_def log_event_def put_row_def Let_def split: option.split)

lemma fold_snapshot_resets: "pg_resets (fold (insert_snapshot i) ws db) = pg_resets db"
  by (induction ws arbitrary: db) (simp_all add: insert_snapshot_def Let_def split: option.split)

lemma same_resets_quotas: "pg_resets (snd (pg_save_quotas i ws db)) = pg_resets db"
  by (simp add: pg_save_quotas_def fold_snapshot_resets)

lemmas spared_stores = same_resets [THEN rows_of_same, THEN spared_store]
  same_resets_quotas [THEN rows_of_same, THEN spared_store]

lemmas spared_rules = spared.keeps_return spared.keeps_fail spared.keeps_read spared.keeps_or spared_sched spared_stores
  spared.keeps_then spared.keeps_bind spared.keeps_try

lemma spared_current: "spared.keeps a w (current_account i)"
  unfolding current_account_def by (intro spared_rules)

lemma spared_commit: "spared.keeps a w (commit_enabled now i e reason v)"
  unfolding commit_enabled_def by (intro spared_rules) (simp split: sum.split add: spared_rules)

lemma spared_disable: "spared.keeps a w (disable_observed now i v reason)"
  unfolding disable_observed_def
  by (intro spared.keeps_bind spared_current) (auto intro!: spared_rules spared_commit split: option.split)

lemma spared_extra: "spared.keeps a w (extra_available now x)"
  unfolding extra_available_def by (auto intro!: spared_rules)

lemma spared_reconcile: "spared.keeps a w (reconcile_quota_locked now x b)"
  unfolding reconcile_quota_locked_def Let_def by (auto intro!: spared_rules spared_extra spared_commit)

lemma spared_observation: "spared.keeps a w (apply_quota_observation now i v ws c b)"
  unfolding apply_quota_observation_def
  by (auto intro!: spared_rules spared_current spared_reconcile split: option.split)

lemma quiet_gateway:
  fixes m :: "'x act"
  assumes "\<And>w. spared.keeps a w m"
  shows "quiet.keeps a R (on_gateway m)"
proof -
  have "runs (rows_and a R sent) m (\<lambda>_. rows_and a R sent) (\<lambda>_. rows_and a R sent)" for sent
    unfolding runs_same rows_and_def
  proof (intro allI impI)
    fix g :: gateway assume "R (rows_of a (gw_db g), sent)"
    with spared.keepsD [OF assms [of "rows_of a (gw_db g)"], of g] show "R (rows_of a (gw_db (snd (m g))), sent)" by simp
  qed
  then have "runs (sees a R) (on_gateway m) (\<lambda>_. sees a R) (\<lambda>_. sees a R)" by (rule runs_on_gateway)
  then show ?thesis by (simp add: quiet.keeps_def runs_same)
qed

lemma quiet_hand_over:
  assumes "\<And>op. p \<noteq> ForReset op"
  shows "quiet.keeps a R (hand_over p request)"
proof -
  have sent: "(case p of ForReset op \<Rightarrow> Some op | _ \<Rightarrow> None) = None" using assms by (cases p) auto
  have "runs (sees a R) (hand_over p request) (\<lambda>_. sees a R) (\<lambda>_. sees a R)"
    unfolding hand_over_def
    by (rule runs_ctl_step)
      (auto simp: runs_def sees_def view_def reset_requests_def map_filter_def sent split: list.split)
  then show ?thesis by (simp add: quiet.keeps_def runs_same)
qed

lemma quiet_res: "quiet.keeps a R (ctl_res r)"
  by (simp add: ctl_res_def quiet.keeps_return quiet.keeps_fail split: sum.split)

lemma quiet_panic: "quiet.keeps a R (ctl_panic m)"
  by (simp add: ctl_panic_def quiet.keeps_return quiet.keeps_fail split: option.split)

lemma quiet_try: "quiet.keeps a R m \<Longrightarrow> quiet.keeps a R (ctl_try m)"
  by (auto simp: quiet.keeps_def ctl_try_def split: prod.splits sum.splits halt.splits)

lemmas quiet_rules = quiet.keeps_return quiet.keeps_fail quiet.keeps_bind quiet.keeps_then quiet_res quiet_panic
  quiet_gateway spared_current spared_disable spared_observation spared_stores

lemma quiet_call:
  assumes "\<And>op. p \<noteq> ForReset op"
  shows "quiet.keeps a R (control_call p limit timeout request)"
  unfolding control_call_def
  by (intro quiet.keeps_bind quiet_hand_over assms) (auto split: wire_reply.split intro: quiet_rules)

lemma quiet_refresh: "quiet.keeps a R (refresh env i x c)"
proof -
  have "quiet.keeps a R (store_refreshed env i x c')" for c'
    unfolding store_refreshed_def by (intro quiet_rules spared_rules)
  moreover have "quiet.keeps a R (control_call ForRefresh limit timeout request)" for limit timeout request
    by (rule quiet_call) simp
  ultimately show ?thesis
    unfolding refresh_def by (auto intro!: quiet_rules quiet_try split: sum.split)
qed

lemma quiet_credentials: "quiet.keeps a R (gateway_credentials env i force)"
proof -
  have "quiet.keeps a R (cannot_refresh env i force x c)" for x c
    unfolding cannot_refresh_def by (auto intro!: quiet_rules)
  then show ?thesis
    unfolding gateway_credentials_def by (auto intro!: quiet_rules quiet_refresh)
qed

lemma quiet_control:
  assumes "\<And>op. p \<noteq> ForReset op"
  shows "quiet.keeps a R (reset_control env p request)"
  unfolding reset_control_def using quiet_call [OF assms] by (auto intro!: quiet_rules)

lemma quiet_fetch: "quiet.keeps a R (fetch_reset_credits env i)"
  unfolding fetch_reset_credits_def by (intro quiet_rules quiet_credentials quiet_control) simp_all

lemma quiet_collect_quotas: "quiet.keeps a R (collect_quotas env i)"
proof -
  have "quiet.keeps a R (quota_refused env i x status body)" for x status body
    unfolding quota_refused_def by (auto intro!: quiet_rules split: option.split prod.split)
  moreover have "quiet.keeps a R (control_call ForQuota limit timeout request)" for limit timeout request
    by (rule quiet_call) simp
  ultimately show ?thesis
    unfolding collect_quotas_def by (auto intro!: quiet_rules quiet_credentials split: prod.split)
qed

subsection \<open>The stages of an operation\<close>

definition fresh :: "uuid \<Rightarrow> reset_operation \<Rightarrow> reset_row list \<times> reset_operation list \<Rightarrow> bool" where
  "fresh a op v \<longleftrightarrow> journal_ok v \<and> ro_account_id op = a \<and> ro_result op = None
     \<and> ro_id op \<notin> row_id ` set (fst v) \<and> (\<forall>r\<in>set (fst v). rr_completed r)"

definition pending :: "uuid \<Rightarrow> reset_operation \<Rightarrow> reset_row list \<times> reset_operation list \<Rightarrow> bool" where
  "pending a op v \<longleftrightarrow> journal_ok v \<and> ro_account_id op = a
     \<and> (\<exists>r\<in>set (fst v). row_id r = ro_id op \<and> ro_credit_id (rr_operation r) = ro_credit_id op \<and> \<not> rr_completed r)"

definition outcome_written :: "reset_operation \<Rightarrow> reset_row list \<times> reset_operation list \<Rightarrow> bool" where
  "outcome_written op v \<longleftrightarrow> journal_ok v \<and> ro_result op \<noteq> None \<and> (\<exists>r\<in>set (fst v). rr_operation r = op \<and> rr_completed r)"

lemma pending_last:
  assumes "pending a op v"
  obtains b r where "fst v = b @ [r]" "row_id r = ro_id op" "ro_credit_id (rr_operation r) = ro_credit_id op"
    "\<not> rr_completed r" "\<forall>x\<in>set b. rr_completed x" "ro_id op \<notin> row_id ` set b"
proof -
  obtain rows sent where v: "v = (rows, sent)" by (cases v)
  with assms obtain r where r: "r \<in> set rows" "row_id r = ro_id op" "ro_credit_id (rr_operation r) = ro_credit_id op"
    "\<not> rr_completed r" and J: "journal_ok (rows, sent)" by (auto simp: pending_def)
  then have b: "\<forall>x\<in>set (butlast rows). rr_completed x" and "distinct (map row_id rows)" by (simp_all add: journal_ok_def)
  from r b have "r = last rows" and "rows \<noteq> []"
    by (metis append_butlast_last_id empty_iff list.set(1) rotate1.simps(2) set_ConsD set_rotate1, metis empty_iff list.set(1))
  then have rows: "rows = butlast rows @ [r]" by simp
  have "distinct (map row_id (butlast rows @ [r]))" using \<open>distinct (map row_id rows)\<close> rows by metis
  then have "ro_id op \<notin> row_id ` set (butlast rows)" using r(2) by simp
  with that [of "butlast rows" r] v rows r b show ?thesis by simp
qed

lemma remdups_adj_grows:
  assumes "subseq (remdups_adj xs) (b @ [z])"
  shows "subseq (remdups_adj (xs @ [z])) (b @ [z])"
proof (cases xs rule: rev_cases)
  case Nil
  then show ?thesis by (simp add: subseq_drop_many)
next
  case (snoc ys y)
  then have two: "remdups_adj (xs @ [z]) = remdups_adj xs @ (if y = z then [] else [z])"
    using remdups_adj_append_two [of ys y z] by simp
  show ?thesis
  proof (cases "y = z")
    case True
    with two assms show ?thesis by simp
  next
    case False
    from assms obtain p q where parts: "remdups_adj xs = p @ q" "subseq p b" "subseq q [z]"
      by (rule subseq_appendE)
    have "q = []"
    proof (rule ccontr)
      assume "q \<noteq> []"
      with parts(3) have "last q = z" by (cases q) (auto elim: list_emb.cases split: if_splits)
      with \<open>q \<noteq> []\<close> parts(1) have "last (remdups_adj xs) = z" by simp
      with snoc False show False by simp
    qed
    with parts two False show ?thesis by (simp add: list_emb_append_mono)
  qed
qed

lemma pending_sent:
  assumes "pending a op (rows, sent)"
  shows "pending a op (rows, sent @ [op])"
proof -
  from assms obtain b r where "fst (rows, sent) = b @ [r]" "row_id r = ro_id op"
    "ro_credit_id (rr_operation r) = ro_credit_id op" by (rule pending_last)
  with assms show ?thesis
    using remdups_adj_grows [of "map ro_id sent" "map row_id b" "ro_id op"] by (auto simp: pending_def journal_ok_def)
qed

lemma fresh_begins: "fresh a op (rows, sent) \<Longrightarrow> pending a op (rows @ [\<lparr>rr_operation = op, rr_completed = False\<rparr>], sent)"
  by (auto simp: fresh_def pending_def journal_ok_def row_id_def subseq_rev_drop_many dest: in_set_butlastD)

definition finish_row :: "reset_operation \<Rightarrow> reset_row \<Rightarrow> reset_row" where
  "finish_row op r =
     (if row_id r = ro_id op \<and> \<not> rr_completed r then \<lparr>rr_operation = op, rr_completed = True\<rparr> else r)"

lemma pending_finishes:
  assumes "pending a op (rows, sent)"
  shows "outcome_written (op\<lparr>ro_result := Some x\<rparr>) (map (finish_row (op\<lparr>ro_result := Some x\<rparr>)) rows, sent)"
proof -
  from assms obtain b r where r: "fst (rows, sent) = b @ [r]" "row_id r = ro_id op" "ro_credit_id (rr_operation r) = ro_credit_id op"
    "\<not> rr_completed r" "\<forall>x\<in>set b. rr_completed x" "ro_id op \<notin> row_id ` set b"
    by (rule pending_last)
  then have "map (finish_row (op\<lparr>ro_result := Some x\<rparr>)) b = b" by (intro map_idI) (auto simp: finish_row_def)
  with r have rows: "map (finish_row (op\<lparr>ro_result := Some x\<rparr>)) rows
      = b @ [\<lparr>rr_operation = op\<lparr>ro_result := Some x\<rparr>, rr_completed = True\<rparr>]"
    by (simp add: finish_row_def)
  from assms r show ?thesis unfolding rows by (auto simp: outcome_written_def pending_def journal_ok_def row_id_def)
qed

subsection \<open>The operations keep the journal\<close>

definition lookup :: "uuid option \<Rightarrow> reset_row list \<Rightarrow> reset_operation option" where
  "lookup m rows =
     map_option rr_operation (List.find (\<lambda>r. case m of None \<Rightarrow> \<not> rr_completed r | Some i \<Rightarrow> row_id r = i) rows)"

lemma find_filter: "List.find P (filter Q xs) = List.find (\<lambda>x. Q x \<and> P x) xs"
  by (induction xs) auto

lemma reset_operation_rows: "fst (pg_reset_operation a m db) = Inr (lookup m (rows_of a db))"
  by (cases m) (simp_all add: pg_reset_operation_def lookup_def rows_of_def find_filter row_id_def)

lemma begin_rows:
  assumes "ro_account_id op = a"
  shows "rows_of a (snd (pg_begin_reset op db)) =
    (case fst (pg_begin_reset op db) of Inl _ \<Rightarrow> rows_of a db
       | Inr _ \<Rightarrow> rows_of a db @ [\<lparr>rr_operation = op, rr_completed = False\<rparr>])"
  using assms by (simp add: pg_begin_reset_def rows_of_def log_event_def)

lemma finish_rows:
  assumes "ro_account_id op = a"
  shows "rows_of a (snd (pg_finish_reset op db)) =
    (case fst (pg_finish_reset op db) of Inl _ \<Rightarrow> rows_of a db | Inr _ \<Rightarrow> map (finish_row op) (rows_of a db))"
proof -
  have "filter (\<lambda>r. ro_account_id (rr_operation r) = a)
      (map (\<lambda>r. if reset_open op r then \<lparr>rr_operation = op, rr_completed = True\<rparr> else r) rs)
    = map (finish_row op) (filter (\<lambda>r. ro_account_id (rr_operation r) = a) rs)" for rs
    using assms by (induction rs) (auto simp: reset_open_def finish_row_def row_id_def)
  then show ?thesis by (simp add: pg_finish_reset_def rows_of_def log_event_def)
qed

lemma lookup_mem:
  "lookup m rows = Some op \<Longrightarrow> \<exists>r\<in>set rows. rr_operation r = op
     \<and> (case m of None \<Rightarrow> \<not> rr_completed r | Some i \<Rightarrow> row_id r = i)"
  by (cases m) (auto simp: lookup_def find_Some_iff intro!: bexI [OF _ nth_mem])

lemma lookup_None:
  "lookup m rows = None \<longleftrightarrow> (\<forall>r\<in>set rows. case m of None \<Rightarrow> rr_completed r | Some i \<Rightarrow> row_id r \<noteq> i)"
  by (cases m) (auto simp: lookup_def find_None_iff)

lemma lookup_account: "lookup m (rows_of a db) = Some op \<Longrightarrow> ro_account_id op = a"
  using lookup_mem by (fastforce simp: rows_of_def)

definition found :: "uuid \<Rightarrow> uuid option \<Rightarrow> reset_operation option \<Rightarrow> reset_row list \<times> reset_operation list \<Rightarrow> bool" where
  "found a m x v \<longleftrightarrow> x = lookup m (fst v) \<and> (\<forall>op. x = Some op \<longrightarrow> ro_account_id op = a)"

lemma runs_lookup:
  "runs (sees a R) (on_gateway (act_store (pg_reset_operation a m)))
     (\<lambda>x. sees a (\<lambda>v. R v \<and> found a m x v)) (\<lambda>_. sees a R)"
proof (rule runs_on_gateway)
  show "runs (rows_and a R sent) (act_store (pg_reset_operation a m))
     (\<lambda>x. rows_and a (\<lambda>v. R v \<and> found a m x v) sent) (\<lambda>_. rows_and a R sent)" for sent
    by (rule runs_store)
      (auto simp: rows_and_def found_def reset_operation_rows rows_of_same [OF same_resets(8)] intro: lookup_account)
qed

lemma runs_begin:
  assumes "ro_account_id op = a"
  shows "runs (sees a (fresh a op)) (on_gateway (act_store (pg_begin_reset op)))
     (\<lambda>_. sees a (pending a op)) (\<lambda>_. sees a journal_ok)"
proof (rule runs_on_gateway)
  have ok: "fresh a op v \<Longrightarrow> journal_ok v" "pending a op v \<Longrightarrow> journal_ok v" for v
    by (simp_all add: fresh_def pending_def)
  then show "fresh a op v \<Longrightarrow> journal_ok v" for v by simp
  show "runs (rows_and a (fresh a op) sent) (act_store (pg_begin_reset op))
     (\<lambda>_. rows_and a (pending a op) sent) (\<lambda>_. rows_and a journal_ok sent)" for sent
    by (rule runs_store)
      (auto simp: rows_and_def begin_rows [OF assms] fresh_begins ok intro: ok(2) [OF fresh_begins] split: sum.split)
qed

lemma runs_finish:
  assumes "ro_account_id op = a"
  shows "runs (sees a (pending a op)) (on_gateway (act_store (pg_finish_reset (op\<lparr>ro_result := Some x\<rparr>))))
     (\<lambda>_. sees a (outcome_written (op\<lparr>ro_result := Some x\<rparr>))) (\<lambda>_. sees a journal_ok)"
proof (rule runs_on_gateway)
  let ?done = "op\<lparr>ro_result := Some x\<rparr>"
  have fin: "ro_account_id ?done = a" using assms by simp
  have ok: "pending a op v \<Longrightarrow> journal_ok v" "outcome_written ?done v \<Longrightarrow> journal_ok v" for v
    by (simp_all add: pending_def outcome_written_def)
  then show "pending a op v \<Longrightarrow> journal_ok v" for v by simp
  show "runs (rows_and a (pending a op) sent) (act_store (pg_finish_reset ?done))
     (\<lambda>_. rows_and a (outcome_written ?done) sent) (\<lambda>_. rows_and a journal_ok sent)" for sent
    by (rule runs_store)
      (auto simp: rows_and_def finish_rows [OF fin] pending_finishes ok(1) intro: ok(2) [OF pending_finishes] split: sum.split)
qed

lemma runs_reset_sent:
  "runs (sees a (pending a op)) (hand_over (ForReset op) request) (\<lambda>_. sees a (pending a op)) (\<lambda>_. sees a (pending a op))"
  unfolding hand_over_def
  by (rule runs_ctl_step)
    (auto simp: runs_def sees_def view_def reset_requests_def map_filter_def intro: pending_sent)

lemma runs_send_reset:
  "runs (sees a (pending a op)) (send_reset env op request) (\<lambda>_. sees a (pending a op)) (\<lambda>_. sees a (pending a op))"
    (is "runs ?P _ (\<lambda>_. ?P) (\<lambda>_. ?P)")
proof -
  have answer: "runs ?P (case r of NoAnswer \<Rightarrow> act_fail (Failed err_reset_timeout) | NoReply e \<Rightarrow> act_fail (Failed e)
      | Answer status chunks \<Rightarrow> ctl_res (res_map (Pair status) (read_limited (512 * 1024) [] chunks))) (\<lambda>_. ?P) (\<lambda>_. ?P)"
    for r by (cases r) (simp_all add: quiet.keeps_runs quiet_rules)
  have body: "runs ?P (case x of (status, body) \<Rightarrow>
      if ok_status status then act_return body else act_fail (Failed (fst (ck_http_error env status body)))) (\<lambda>_. ?P) (\<lambda>_. ?P)"
    for x by (cases x) (simp add: quiet.keeps_runs quiet_rules)
  show ?thesis
    unfolding send_reset_def reset_control_def control_call_def
    by (rule runs_bind [OF runs_bind [OF runs_bind [OF runs_reset_sent answer] body] quiet.keeps_runs [OF quiet_res]])
qed

lemma sees_mono: "(\<And>v. R v \<Longrightarrow> R' v) \<Longrightarrow> sees a R s \<Longrightarrow> sees a R' s"
  by (simp add: sees_def)

lemma runs_quiet:
  assumes "quiet.keeps a R m" and "\<And>v. R v \<Longrightarrow> E v"
  shows "runs (sees a R) m (\<lambda>_. sees a R) (\<lambda>_. sees a E)"
  using quiet.keeps_runs [OF assms(1)] by (rule runs_conseq) (auto intro: sees_mono [OF assms(2)])

definition started :: "uuid \<Rightarrow> reset_operation \<Rightarrow> reset_row list \<times> reset_operation list \<Rightarrow> bool" where
  "started a op v \<longleftrightarrow> fresh a op v \<or> pending a op v"

lemma started_ok: "started a op v \<Longrightarrow> journal_ok v"
  by (auto simp: started_def fresh_def pending_def)

lemma started_found:
  assumes "started a op v" and "found a (Some (ro_id op)) x v"
  shows "if x = None then fresh a op v else pending a op v"
proof (cases x)
  case None
  with assms(2) have "lookup (Some (ro_id op)) (fst v) = None" by (simp add: found_def)
  then have "\<forall>r\<in>set (fst v). row_id r \<noteq> ro_id op" by (simp add: lookup_None)
  with assms(1) None show ?thesis by (auto simp: started_def pending_def)
next
  case (Some y)
  with assms(2) have "lookup (Some (ro_id op)) (fst v) = Some y" by (simp add: found_def)
  from lookup_mem [OF this] have "ro_id op \<in> row_id ` set (fst v)" by force
  with assms(1) Some show ?thesis by (auto simp: started_def fresh_def)
qed

definition answered :: "uuid \<Rightarrow> uuid \<Rightarrow> string \<Rightarrow> reset_operation \<Rightarrow> control \<Rightarrow> bool" where
  "answered a i credit op s \<longleftrightarrow> sees a (outcome_written op) s \<and> ro_id op = i \<and> ro_credit_id op = credit"

lemma runs_execute:
  assumes "ro_account_id op = a"
  shows "runs (sees a (started a op)) (execute_reset env a op) (answered a (ro_id op) (ro_credit_id op)) (\<lambda>_. sees a journal_ok)"
proof -
  have look: "runs (sees a (started a op)) (on_gateway (act_store (pg_reset_operation a (Some (ro_id op)))))
      (\<lambda>x. sees a (\<lambda>v. started a op v \<and> found a (Some (ro_id op)) x v)) (\<lambda>_. sees a journal_ok)"
    using runs_lookup [of a "started a op" "Some (ro_id op)"]
    by (rule runs_conseq) (auto intro: sees_mono [OF started_ok])
  have journal: "runs (sees a (\<lambda>v. started a op v \<and> found a (Some (ro_id op)) x v))
      (if x = None then on_gateway (act_store (pg_begin_reset op)) else act_return ())
      (\<lambda>_. sees a (pending a op)) (\<lambda>_. sees a journal_ok)" for x
  proof (cases "x = None")
    case True
    then have "sees a (\<lambda>v. started a op v \<and> found a (Some (ro_id op)) x v) s \<Longrightarrow> sees a (fresh a op) s" for s
      by (elim sees_mono [rotated]) (auto dest: started_found)
    then show ?thesis using True runs_conseq [OF runs_begin [OF assms]] by simp
  next
    case False
    then show ?thesis by (auto intro!: runs_return elim!: sees_mono [rotated] dest: started_found)
  qed
  have tried: "runs (sees a (pending a op)) (ctl_try (send_reset env op request))
      (\<lambda>_. sees a (pending a op)) (\<lambda>_. sees a journal_ok)" for request
    using runs_send_reset [of a op env request]
    by (fastforce simp: runs_def ctl_try_def sees_def pending_def split: prod.splits sum.splits halt.splits)
  have noted: "runs (sees a (pending a op)) (on_gateway (act_store (note_unconfirmed a)))
      (\<lambda>_. sees a journal_ok) (\<lambda>_. sees a journal_ok)"
    by (rule runs_conseq [OF runs_quiet [OF quiet_gateway [OF spared_stores(9)]]]) (auto simp: sees_def pending_def)
  have outcome: "runs (sees a (pending a op)) (case r of
      Inl e \<Rightarrow> act_then (on_gateway (act_store (note_unconfirmed a))) (act_fail (Failed e))
    | Inr x \<Rightarrow> let finished = op\<lparr>ro_result := Some x\<rparr> in
        act_then (on_gateway (act_store (pg_finish_reset finished))) (act_return finished))
    (answered a (ro_id op) (ro_credit_id op)) (\<lambda>_. sees a journal_ok)" for r
  proof (cases r)
    case (Inl e)
    then show ?thesis using runs_then [OF noted runs_fail] by simp
  next
    case (Inr x)
    have "runs (sees a (outcome_written (op\<lparr>ro_result := Some x\<rparr>))) (act_return (op\<lparr>ro_result := Some x\<rparr>))
        (answered a (ro_id op) (ro_credit_id op)) (\<lambda>_. sees a journal_ok)"
      by (rule runs_return) (simp add: answered_def)
    with Inr show ?thesis using runs_then [OF runs_finish [OF assms]] by (simp add: Let_def)
  qed
  show ?thesis
    unfolding execute_reset_def
    by (intro runs_bind [OF runs_quiet [OF quiet_credentials started_ok]]
        runs_bind [OF runs_quiet [OF quiet_gateway [OF spared_current] started_ok]]
        runs_bind [OF runs_quiet [OF quiet_res started_ok]] runs_bind [OF look] runs_then [OF journal]
        runs_bind [OF tried outcome])
qed

lemma journal_found:
  assumes "journal_ok v" and "found a (Some i) (Some op) v"
  shows "ro_id op = i" and "ro_account_id op = a" and "ro_result op \<noteq> None \<Longrightarrow> outcome_written op v"
    and "ro_result op = None \<Longrightarrow> started a op v"
proof -
  from assms(2) have "lookup (Some i) (fst v) = Some op" and account: "ro_account_id op = a" by (simp_all add: found_def)
  from lookup_mem [OF this(1)] obtain r where r: "r \<in> set (fst v)" "rr_operation r = op" "row_id r = i" by auto
  then show "ro_id op = i" by (simp add: row_id_def)
  show "ro_account_id op = a" by (rule account)
  from assms(1) r have completed: "rr_completed r \<longleftrightarrow> ro_result op \<noteq> None" by (auto simp: journal_ok_def)
  with assms(1) r show "ro_result op \<noteq> None \<Longrightarrow> outcome_written op v" by (auto simp: outcome_written_def)
  from completed assms(1) r account show "ro_result op = None \<Longrightarrow> started a op v"
    by (auto simp: started_def pending_def row_id_def)
qed

lemma runs_new:
  "runs (sees a (\<lambda>v. journal_ok v \<and> found a (Some i) None v)) (new_operation env a i credit)
     (\<lambda>op s. sees a (started a op) s \<and> ro_id op = i \<and> ro_credit_id op = credit \<and> ro_account_id op = a)
     (\<lambda>_. sees a journal_ok)"
proof -
  let ?R = "\<lambda>v. journal_ok v \<and> found a (Some i) None v"
  let ?S = "\<lambda>v. ?R v \<and> found a None None v"
  let ?new = "\<lambda>next. \<lparr>ro_id = i, ro_account_id = a, ro_credit_id = rc_id next, ro_created_at = ck_now env, ro_result = None\<rparr>"
  have look: "runs (sees a ?R) (on_gateway (act_store (pg_reset_operation a None)))
      (\<lambda>x. sees a (\<lambda>v. ?R v \<and> found a None x v)) (\<lambda>_. sees a journal_ok)"
    using runs_lookup [of a ?R None] by (rule runs_conseq) (auto simp: sees_def)
  have S: "?S v \<Longrightarrow> fresh a (?new nx) v" for v nx
  proof -
    assume v: "?S v"
    then have "lookup (Some i) (fst v) = None" "lookup None (fst v) = None" by (simp_all add: found_def)
    with v show "fresh a (?new nx) v" by (auto simp: fresh_def lookup_None)
  qed
  have chosen: "chosen_credit now credit credits = Inr nx \<Longrightarrow> rc_id nx = credit" for now credits nx
    by (auto simp: chosen_credit_def split: option.splits if_splits)
  have pick: "runs (sees a ?S) (act_bind (ctl_res (chosen_credit (ck_now env) credit credits)) (\<lambda>next. act_return (?new next)))
      (\<lambda>op s. sees a (started a op) s \<and> ro_id op = i \<and> ro_credit_id op = credit \<and> ro_account_id op = a)
      (\<lambda>_. sees a journal_ok)" for credits
  proof (cases "chosen_credit (ck_now env) credit credits")
    case (Inl e)
    then show ?thesis by (simp add: runs_def ctl_res_def act_bind_def act_fail_def sees_def)
  next
    case (Inr nx)
    have "act_bind (ctl_res (Inr nx)) f = f nx" for f :: "reset_credit \<Rightarrow> reset_operation ctl"
      by (rule ext) (simp add: ctl_res_def act_bind_def act_return_def)
    moreover have "sees a ?S s \<Longrightarrow> sees a (started a (?new nx)) s" for s
      using S unfolding started_def sees_def by blast
    ultimately show ?thesis using chosen [OF Inr] Inr by (auto intro!: runs_return)
  qed
  show ?thesis
    unfolding new_operation_def
  proof (rule runs_bind [OF look], cases)
    fix x :: "reset_operation option"
    assume "x = None"
    then show "runs (sees a (\<lambda>v. ?R v \<and> found a None x v)) (if x \<noteq> None then act_fail (Failed err_reset_pending)
        else act_bind (fetch_reset_credits env a) (\<lambda>credits.
         act_bind (ctl_res (chosen_credit (ck_now env) credit credits)) (\<lambda>next. act_return (?new next))))
      (\<lambda>op s. sees a (started a op) s \<and> ro_id op = i \<and> ro_credit_id op = credit \<and> ro_account_id op = a)
      (\<lambda>_. sees a journal_ok)"
      using runs_bind [OF runs_quiet [OF quiet_fetch [of a ?S env a], of journal_ok] pick] by simp
  next
    fix x :: "reset_operation option"
    assume "x \<noteq> None"
    then show "runs (sees a (\<lambda>v. ?R v \<and> found a None x v)) (if x \<noteq> None then act_fail (Failed err_reset_pending)
        else act_bind (fetch_reset_credits env a) (\<lambda>credits.
         act_bind (ctl_res (chosen_credit (ck_now env) credit credits)) (\<lambda>next. act_return (?new next))))
      (\<lambda>op s. sees a (started a op) s \<and> ro_id op = i \<and> ro_credit_id op = credit \<and> ro_account_id op = a)
      (\<lambda>_. sees a journal_ok)"
      by (auto intro!: runs_fail simp: sees_def)
  qed
qed

lemma runs_consume: "runs (sees a journal_ok) (consume_reset env a i credit) (answered a i credit) (\<lambda>_. sees a journal_ok)"
proof -
  let ?P = "\<lambda>x. sees a (\<lambda>v. journal_ok v \<and> found a (Some i) x v)"
  have old: "runs (?P (Some op)) (if ro_credit_id op \<noteq> credit then act_fail (Failed err_reset_other_credit)
      else if ro_result op \<noteq> None then act_return op else execute_reset env a op)
      (answered a i credit) (\<lambda>_. sees a journal_ok)" for op
  proof -
    have ids: "?P (Some op) s \<Longrightarrow> ro_id op = i \<and> ro_account_id op = a" for s
      using journal_found(1,2) [of "view a s" a i op] by (simp add: sees_def)
    have settle: "?P (Some op) s \<Longrightarrow> ro_result op \<noteq> None \<Longrightarrow> ro_credit_id op = credit \<Longrightarrow> answered a i credit op s" for s
      using ids [of s] by (auto simp: answered_def sees_def dest: journal_found(3))
    have go: "runs (?P (Some op)) (execute_reset env a op) (answered a i credit) (\<lambda>_. sees a journal_ok)"
      if "ro_result op = None" "ro_credit_id op = credit"
    proof (cases "ro_id op = i \<and> ro_account_id op = a")
      case True
      then have account: "ro_account_id op = a" by simp
      have "?P (Some op) s \<Longrightarrow> sees a (started a op) s" for s
        using that(1) by (auto simp: sees_def dest: journal_found(4))
      with runs_conseq [OF runs_execute [OF account]] True that(2) show ?thesis by simp
    next
      case False
      then have "\<not> ?P (Some op) s" for s using ids by blast
      then show ?thesis by (simp add: runs_def)
    qed
    show ?thesis
      by (intro runs_if runs_fail runs_return settle go) (simp_all add: sees_def)
  qed
  have new: "runs (?P None) (act_bind (new_operation env a i credit) (execute_reset env a))
      (answered a i credit) (\<lambda>_. sees a journal_ok)"
  proof (rule runs_bind [OF runs_new])
    fix op :: reset_operation
    show "runs (\<lambda>s. sees a (started a op) s \<and> ro_id op = i \<and> ro_credit_id op = credit \<and> ro_account_id op = a)
        (execute_reset env a op) (answered a i credit) (\<lambda>_. sees a journal_ok)"
    proof (cases "ro_id op = i \<and> ro_credit_id op = credit \<and> ro_account_id op = a")
      case True
      then have "ro_account_id op = a" by simp
      from runs_conseq [OF runs_execute [OF this]] True show ?thesis by simp
    next
      case False
      then show ?thesis by (auto simp: runs_def)
    qed
  qed
  have look: "runs (sees a journal_ok) (on_gateway (act_store (pg_reset_operation a (Some i)))) ?P (\<lambda>_. sees a journal_ok)"
    by (rule runs_lookup)
  have body: "runs (?P x) (case x of
        Some op \<Rightarrow> if ro_credit_id op \<noteq> credit then act_fail (Failed err_reset_other_credit)
          else if ro_result op \<noteq> None then act_return op else execute_reset env a op
      | None \<Rightarrow> act_bind (new_operation env a i credit) (execute_reset env a))
      (answered a i credit) (\<lambda>_. sees a journal_ok)" for x
    using old new by (cases x) simp_all
  show ?thesis
    unfolding consume_reset_def by (intro runs_if runs_fail runs_bind [OF look body])
qed

end
