(* ===== verification/Reset_Theorems.thy ===== *)
theory Reset_Theorems
  imports Reset_Journal Account_Theorems
begin

section \<open>Resets, whatever happens\<close>

text \<open>
  The operations of one account as a transition system: any of them can run, to its end or to the
  step at which the process dies, with any replies of the network and any changes other operations
  make to what is not this account's journal.
\<close>

inductive reset_step :: "uuid \<Rightarrow> control \<Rightarrow> control \<Rightarrow> bool" for a where
  consumes: "reset_step a s (snd (consume_reset env a i credit s))"
| collects_credits: "reset_step a s (snd (collect_reset_credits env a s))"
| collects_quotas: "reset_step a s (snd (collect_quotas env a s))"
| refreshes: "reset_step a s (snd (gateway_credentials env a force s))"
| others: "leaves a f \<Longrightarrow> reset_step a s (s\<lparr>ct_gateway := f (ct_gateway s)\<rparr>)"
| script: "turns_ok a ts \<Longrightarrow> reset_step a s (s\<lparr>ct_replies := rs, ct_turns := ts\<rparr>)"

definition unused :: "uuid \<Rightarrow> control \<Rightarrow> bool" where
  "unused a s \<longleftrightarrow> rows_of a (gw_db (ct_gateway s)) = [] \<and> ct_sent s = [] \<and> ct_turns s = []"

abbreviation control_reachable :: "uuid \<Rightarrow> control \<Rightarrow> bool" where
  "control_reachable a \<equiv> reach (unused a) (reset_step a)"

lemma reset_step_ok: "reset_step a s t \<Longrightarrow> sees a journal_ok s \<Longrightarrow> sees a journal_ok t"
proof (induction rule: reset_step.induct)
  case (consumes s env i credit)
  obtain r s' where "consume_reset env a i credit s = (r, s')" by (cases "consume_reset env a i credit s")
  moreover from runs_apply [OF runs_consume consumes this] have "sees a journal_ok s'"
    by (cases r) (auto simp: answered_def sees_def outcome_written_def)
  ultimately show ?case by simp
next
  case (collects_credits s env)
  then show ?case unfolding collect_reset_credits_def by (rule quiet.keepsD [OF quiet_fetch])
next
  case (collects_quotas s env)
  then show ?case by (rule quiet.keepsD [OF quiet_collect_quotas])
next
  case (refreshes s env force)
  then show ?case by (rule quiet.keepsD [OF quiet_credentials])
qed (simp_all add: sees_def view_def leaves_def reset_requests_def)

interpretation journaling: invariant_system "unused a" "reset_step a" "sees a journal_ok" for a
proof unfold_locales
  show "unused a s \<Longrightarrow> sees a journal_ok s" for s
    by (simp add: unused_def sees_def view_def turns_ok_def journal_ok_def reset_requests_def map_filter_def)
  show "sees a journal_ok s \<Longrightarrow> reset_step a s t \<Longrightarrow> sees a journal_ok t" for s t
    by (rule reset_step_ok)
qed

text \<open>An operation of another account is one of the changes that leave this one's journal alone.\<close>

lemma other_account_leaves:
  assumes "ro_account_id op \<noteq> a"
  shows "rows_of a (snd (pg_begin_reset op db)) = rows_of a db"
    and "rows_of a (snd (pg_finish_reset op db)) = rows_of a db"
proof -
  have "filter (\<lambda>r. ro_account_id (rr_operation r) = a)
      (map (\<lambda>r. if reset_open op r then \<lparr>rr_operation = op, rr_completed = True\<rparr> else r) rs)
    = filter (\<lambda>r. ro_account_id (rr_operation r) = a) rs" for rs
    using assms by (induction rs) (auto simp: reset_open_def)
  with assms show "rows_of a (snd (pg_begin_reset op db)) = rows_of a db"
    and "rows_of a (snd (pg_finish_reset op db)) = rows_of a db"
    by (simp_all add: pg_begin_reset_def pg_finish_reset_def rows_of_def log_event_def)
qed

text \<open>
  C19. A reset credit is never spent twice and no second one is spent by accident. Whatever fails,
  whenever the process dies and however often an operation is tried again: every request that
  spends a credit belongs to a journaled operation of the account and spends the credit journaled
  with it; the requests of one operation are sent one after the other, in the order in which the
  operations were journaled; and every journaled operation but the last has its outcome written
  down, so a second operation is sent only after the outcome of the first is durable.
\<close>

theorem resets_one_at_a_time:
  assumes "control_reachable a s"
  defines "rows \<equiv> rows_of a (gw_db (ct_gateway s))" and "sent \<equiv> reset_requests s"
  shows "(\<forall>op\<in>set sent. \<exists>r\<in>set rows. row_id r = ro_id op \<and> ro_credit_id (rr_operation r) = ro_credit_id op)
    \<and> distinct (map row_id rows)
    \<and> subseq (remdups_adj (map ro_id sent)) (map row_id rows)
    \<and> (\<forall>r\<in>set (butlast rows). rr_completed r \<and> ro_result (rr_operation r) \<noteq> None)"
proof -
  have "journal_ok (rows, sent)"
    using journaling.reach_inv [OF assms(1)] by (simp add: sees_def view_def rows_def sent_def)
  then show ?thesis by (auto simp: journal_ok_def dest: in_set_butlastD)
qed

text \<open>
  C20. What the operation returns is durable, and asking again is safe: an outcome that is returned
  is written down as the outcome of the operation and the credit asked for, and asking again for
  the same operation, with a database that answers, gives the same outcome and sends nothing.
\<close>

theorem reset_outcome_durable:
  assumes "control_reachable a s" and "consume_reset env a i credit s = (Inr op, s')"
  shows "ro_id op = i \<and> ro_credit_id op = credit \<and> ro_result op \<noteq> None
    \<and> (\<exists>r\<in>set (rows_of a (gw_db (ct_gateway s'))). rr_operation r = op \<and> rr_completed r)
    \<and> (\<forall>env' t. rows_of a (gw_db (ct_gateway t)) = rows_of a (gw_db (ct_gateway s'))
         \<longrightarrow> ct_turns t = [] \<longrightarrow> gw_faults (ct_gateway t) = []
         \<longrightarrow> consume_reset env' a i credit t = (Inr op, t))"
proof -
  from runs_apply [OF runs_consume journaling.reach_inv [OF assms(1)] assms(2)]
  have ids: "ro_id op = i" "ro_credit_id op = credit" and outcome_written: "outcome_written op (view a s')" by (simp_all add: answered_def sees_def)
  from outcome_written obtain r where r: "r \<in> set (rows_of a (gw_db (ct_gateway s')))" "rr_operation r = op" "rr_completed r"
    and result: "ro_result op \<noteq> None" and ok: "journal_ok (view a s')" by (auto simp: outcome_written_def view_def)
  from assms(2) have valid: "\<not> (i = 0 \<or> blank credit \<or> length credit > 512)"
    by (auto simp: consume_reset_def act_fail_def split: if_splits)
  have again: "consume_reset env' a i credit t = (Inr op, t)"
    if rows: "rows_of a (gw_db (ct_gateway t)) = rows_of a (gw_db (ct_gateway s'))"
      and works: "ct_turns t = []" "gw_faults (ct_gateway t) = []" for env' t
  proof -
    from r(1,2) ids(1) have "lookup (Some i) (rows_of a (gw_db (ct_gateway s'))) \<noteq> None"
      by (auto simp: lookup_None row_id_def)
    then obtain op' where "lookup (Some i) (rows_of a (gw_db (ct_gateway s'))) = Some op'" by auto
    moreover from lookup_mem [OF this] obtain r' where
      "r' \<in> set (rows_of a (gw_db (ct_gateway s')))" "rr_operation r' = op'" "row_id r' = i" by auto
    moreover have "distinct (map row_id (rows_of a (gw_db (ct_gateway s'))))"
      using ok by (simp add: journal_ok_def view_def)
    moreover have "row_id r = i" using r(2) ids(1) by (simp add: row_id_def)
    ultimately have "lookup (Some i) (rows_of a (gw_db (ct_gateway s'))) = Some op"
      using r(1,2) by (metis distinct_map inj_onD)
    then have "fst (pg_reset_operation a (Some i) (gw_db (ct_gateway t))) = Inr (Some op)"
      by (simp add: reset_operation_rows rows)
    moreover have "snd (pg_reset_operation a (Some i) db) = db" for db by (simp add: pg_reset_operation_def)
    ultimately have "on_gateway (act_store (pg_reset_operation a (Some i))) t = (Inr (Some op), t)"
      using works by (simp add: on_gateway_def ctl_step_def act_store_def)
    with valid ids(2) result show ?thesis
      by (auto simp: consume_reset_def act_bind_def act_return_def)
  qed
  show ?thesis using ids result r again by blast
qed

subsection \<open>An operation whose outcome stays unknown\<close>

definition rx_credit :: reset_credit where
  "rx_credit = \<lparr>rc_id = ''c'', rc_reset_type = ''codex_rate_limits'', rc_status = ''available'', rc_granted_at = 0,
     rc_expires_at = None, rc_title = None, rc_description = None\<rparr>"

definition rx_request :: prepared_request where
  "rx_request = \<lparr>pq_method = ''GET'', pq_url = ''u'', pq_headers = [], pq_body = [], pq_account_id = Some 5,
     pq_profile_version = 1, pq_tls_backend = ''rustls''\<rparr>"

definition rx_env :: control_env where
  "rx_env = \<lparr>ck_now = 0,
     ck_decrypt = (\<lambda>_ _. Inr \<lparr>cr_access_token = ''a'', cr_refresh_token = [], cr_id_token = [], cr_expires_at = None\<rparr>),
     ck_encrypt = (\<lambda>_ _. Inr ''e''), ck_header_ok = (\<lambda>_. True),
     ck_refresh_request = (\<lambda>_ _. Inr rx_request), ck_refreshed = (\<lambda>_ _ c _. Inr c),
     ck_quota_request = (\<lambda>_ _. Inr rx_request), ck_quota_response = (\<lambda>_. Some (Inr [])),
     ck_extra_response = (\<lambda>_. Inl err_not_found), ck_http_error = (\<lambda>_ _. (err_not_found, None)),
     ck_credits_request = (\<lambda>_ _. Inr rx_request),
     ck_credits_response = (\<lambda>_. Inr \<lparr>rcs_available_count = 2, rcs_credits = [rx_credit], rcs_observed_at = 0\<rparr>),
     ck_reset_request = (\<lambda>_ _ _. Inr rx_request),
     ck_reset_response = (\<lambda>_. Inr \<lparr>rt_code = ResetDone, rt_windows_reset = 2\<rparr>)\<rparr>"

definition rx_start :: control where
  "rx_start = \<lparr>ct_gateway = ex_gateway ex_s0 [], ct_sent = [],
     ct_replies = [Answer 200 [Inr ''x''], NoAnswer, Answer 200 [Inr ''x'']], ct_turns = []\<rparr>"

definition rx_lost :: control where
  "rx_lost = snd (consume_reset rx_env 5 77 ''c'' rx_start)"

definition rx_operation :: reset_operation where
  "rx_operation = \<lparr>ro_id = 77, ro_account_id = 5, ro_credit_id = ''c'', ro_created_at = 0, ro_result = None\<rparr>"

lemma rx_text: "\<not> blank ''c''"
  by code_simp

lemma rx_account: "sched_account ex_s0 5 = Some (ex_account 5)"
  by (simp add: sched_account_def ex_s0_def sched_new_def collect_map_def)

lemma rx_credentials: "calm s \<Longrightarrow> gw_sched (ct_gateway s) = ex_s0 \<Longrightarrow> pg_accounts (gw_db (ct_gateway s)) = pg_accounts ex_db \<Longrightarrow>
    gateway_credentials rx_env 5 False s =
      (Inr \<lparr>cr_access_token = ''a'', cr_refresh_token = [], cr_id_token = [], cr_expires_at = None\<rparr>, s)"
  by (simp add: gateway_credentials_def act_bind_def act_return_def calm_account calm_store rx_account
      pg_credentials_def live_row_def ctl_res_def rx_env_def refresh_due_def ex_db_def ex_row_def)

lemma rx_env_sel:
  "ck_now rx_env = 0" "ck_credits_request rx_env a c = Inr rx_request" "ck_reset_request rx_env a c op = Inr rx_request"
  "ck_credits_response rx_env b = Inr \<lparr>rcs_available_count = 2, rcs_credits = [rx_credit], rcs_observed_at = 0\<rparr>"
  "ck_reset_response rx_env b = Inr \<lparr>rt_code = ResetDone, rt_windows_reset = 2\<rparr>"
  by (simp_all add: rx_env_def)

lemma rx_chosen: "chosen_credit 0 ''c'' \<lparr>rcs_available_count = 2, rcs_credits = [rx_credit], rcs_observed_at = 0\<rparr> = Inr rx_credit"
  by (simp add: chosen_credit_def credits_next_def credit_available_def rx_credit_def)

lemma rx_credit_id: "rc_id rx_credit = ''c''"
  by (simp add: rx_credit_def)

lemmas rx_eval = consume_reset_def rx_text execute_reset_def new_operation_def fetch_reset_credits_def rx_credentials
  calm_store calm_account calm_hand_over rx_account rx_env_sel rx_chosen reset_control_def control_call_def send_reset_def ok_status_def
  act_bind_def act_then_def act_return_def act_fail_def ctl_res_def ctl_try_def
  pg_reset_operation_def pg_save_reset_credits_def pg_begin_reset_def pg_finish_reset_def note_unconfirmed_def log_event_def
  reset_open_def

lemma rx_lost_run:
  "consume_reset rx_env 5 77 ''c'' rx_start = (Inl (Failed err_reset_timeout), rx_lost)
   \<and> reset_requests rx_lost = [rx_operation]
   \<and> rows_of 5 (gw_db (ct_gateway rx_lost)) = [\<lparr>rr_operation = rx_operation, rr_completed = False\<rparr>]"
  unfolding rx_lost_def
  by (simp add: rx_eval rx_start_def calm_def ex_db_def reset_requests_def rows_of_def map_filter_def rx_operation_def rx_credit_id)

lemma rx_retry:
  "\<exists>s. consume_reset rx_env 5 77 ''c'' rx_lost = (Inr (rx_operation\<lparr>ro_result := Some \<lparr>rt_code = ResetDone, rt_windows_reset = 2\<rparr>\<rparr>), s)"
  unfolding rx_lost_def
  by (simp add: rx_eval rx_start_def calm_def ex_db_def rx_operation_def rx_credit_id Let_def)

lemma rx_reachable: "control_reachable 5 rx_lost"
proof -
  have "unused 5 rx_start" by (simp add: unused_def rx_start_def ex_db_def rows_of_def)
  then have "control_reachable 5 rx_start" by (rule reach_init)
  then show ?thesis unfolding rx_lost_def by (rule reach_step) (rule consumes)
qed

text \<open>The request was sent, its outcome is unknown: the operation is journaled with its credit.\<close>

theorem resets_one_at_a_time_witness:
  "control_reachable 5 rx_lost \<and> reset_requests rx_lost = [rx_operation]
     \<and> (\<exists>r\<in>set (rows_of 5 (gw_db (ct_gateway rx_lost))). row_id r = 77 \<and> ro_credit_id (rr_operation r) = ''c'')"
  using resets_one_at_a_time [OF rx_reachable] rx_lost_run rx_reachable by (simp add: rx_operation_def)

text \<open>Trying it again gives the outcome, which is then written down.\<close>

theorem reset_outcome_durable_witness:
  "\<exists>op s. control_reachable 5 rx_lost \<and> consume_reset rx_env 5 77 ''c'' rx_lost = (Inr op, s)
     \<and> (\<exists>r\<in>set (rows_of 5 (gw_db (ct_gateway s))). rr_operation r = op \<and> rr_completed r)"
proof -
  from rx_retry obtain s where "consume_reset rx_env 5 77 ''c'' rx_lost
      = (Inr (rx_operation\<lparr>ro_result := Some \<lparr>rt_code = ResetDone, rt_windows_reset = 2\<rparr>\<rparr>), s)" by blast
  with reset_outcome_durable [OF rx_reachable this] rx_reachable show ?thesis by blast
qed

end
