(* ===== verification/Codex_Oauth.thy ===== *)
theory Codex_Oauth
  imports Codex_Prepare Codex_Quota Resets
begin

section \<open>OAuth credentials and control requests\<close>

text \<open>
  \<open>provider/oauth.rs\<close>, \<open>provider/resets.rs\<close>, the request of \<open>provider/quota.rs\<close> and the
  search response of \<open>provider/mod.rs\<close>: the requests the adapter makes for the gateway itself and
  what it reads from their responses. Reading JSON, base64 and dates are parameters, and so is
  serde's derived reading of reset credits and results, which is generated code.
\<close>

record codex_control =
  cx_prep :: prep_env
  cx_base64 :: "string \<Rightarrow> string option"
  cx_rfc3339 :: "string \<Rightarrow> datetime option"
  cx_timestamp :: "int \<Rightarrow> datetime option"
  cx_num :: "jnum \<Rightarrow> string"
  cx_read_credits :: "string \<Rightarrow> reset_credits option"
  cx_read_result :: "string \<Rightarrow> reset_result option"
  cx_now :: datetime

definition cx_parse :: "codex_control \<Rightarrow> string \<Rightarrow> json option" where
  "cx_parse cx = pr_parse (cx_prep cx)"

subsection \<open>Requests\<close>

definition CLIENT_ID :: string where
  "CLIENT_ID = ''app_EMoamEEZ73f0CkXaXp7hrann''"

definition ISSUER :: string where
  "ISSUER = ''https://auth.openai.com''"

definition oauth_control :: "codex_control \<Rightarrow> string \<Rightarrow> json \<Rightarrow> prepared_request" where
  "oauth_control cx url body =
     \<lparr>pq_method = ''POST'', pq_url = url, pq_headers = set_header ''content-type'' ''application/json'' [],
      pq_body = pr_print (cx_prep cx) body, pq_account_id = None, pq_profile_version = 1, pq_tls_backend = ''native''\<rparr>"

definition refresh_request :: "codex_control \<Rightarrow> account \<Rightarrow> credentials \<Rightarrow> prepared_request res" where
  "refresh_request cx a c = Inr
     ((oauth_control cx (ISSUER @ ''/oauth/token'')
        (JObj [(''client_id'', JStr CLIENT_ID), (''grant_type'', JStr ''refresh_token''),
               (''refresh_token'', JStr (cr_refresh_token c))]))
      \<lparr>pq_account_id := Some (acc_id a), pq_profile_version := acc_version a\<rparr>)"

definition quota_request :: "codex_control \<Rightarrow> account \<Rightarrow> credentials \<Rightarrow> prepared_request res" where
  "quota_request cx a c =
     (let trimmed = trim_end_char CHR ''/'' (acc_upstream_base_url a);
          base = (case strip_suffix ''/codex'' trimmed of None \<Rightarrow> trimmed | Some b \<Rightarrow> b)
      in res_map (\<lambda>hs. \<lparr>pq_method = ''GET'', pq_url = base @ ''/wham/usage'', pq_headers = hs, pq_body = [],
           pq_account_id = Some (acc_id a), pq_profile_version = acc_version a,
           pq_tls_backend = cp_tls_backend (acc_profile a)\<rparr>) (auth_headers (cx_prep cx) a c))"

text \<open>\<open>trim_end_matches\<close> of a text removes it as often as it is there; the fuel is the length.\<close>

fun trim_end_text :: "nat \<Rightarrow> string \<Rightarrow> string \<Rightarrow> string" where
  "trim_end_text 0 p s = s"
| "trim_end_text (Suc n) p s =
     (case strip_suffix p s of None \<Rightarrow> s | Some t \<Rightarrow> if p = [] then s else trim_end_text n p t)"

definition err_reset_unsupported :: err where
  "err_reset_unsupported = err_invalid (uni [0x6B64, 0x8D26, 0x6237, 0x4E0D, 0x652F, 0x6301] @ '' Codex ''
     @ uni [0x989D, 0x5EA6, 0x91CD, 0x7F6E])"

definition reset_body :: "codex_control \<Rightarrow> reset_operation \<Rightarrow> json" where
  "reset_body cx op =
     JObj [(''credit_id'', JStr (ro_credit_id op)), (''redeem_request_id'', JStr (pr_uuid_text (cx_prep cx) (ro_id op)))]"

definition resets_request ::
  "codex_control \<Rightarrow> account \<Rightarrow> credentials \<Rightarrow> reset_operation option \<Rightarrow> prepared_request res" where
  "resets_request cx a c operation =
     (if acc_provider a \<noteq> ''openai'' \<or> acc_access_kind a \<noteq> ''codex_oauth'' then Inl err_reset_unsupported
      else res_map (\<lambda>r.
        let url = trim_end_text (length (pq_url r)) ''/usage'' (pq_url r) @ ''/rate-limit-reset-credits'' in
        case operation of
          None \<Rightarrow> r\<lparr>pq_url := url\<rparr>
        | Some op \<Rightarrow> r\<lparr>pq_method := ''POST'', pq_url := url @ ''/consume'',
              pq_headers := set_header ''content-type'' ''application/json'' (pq_headers r),
              pq_body := pr_print (cx_prep cx) (reset_body cx op)\<rparr>) (quota_request cx a c))"

definition err_invalid_reset :: err where
  "err_invalid_reset = error_new 502 ''invalid_reset_response'' (uni
     [0x4E0A, 0x6E38, 0x91CD, 0x7F6E, 0x54CD, 0x5E94, 0x65E0, 0x6CD5, 0x8BC6, 0x522B, 0xFF0C, 0x8BF7, 0x91CD,
      0x65B0, 0x67E5, 0x8BE2, 0x6216, 0x6838, 0x5B9E, 0x539F, 0x64CD, 0x4F5C])"

definition reset_credits_read :: "codex_control \<Rightarrow> string \<Rightarrow> reset_credits res" where
  "reset_credits_read cx body =
     and_then (ok_or err_invalid_reset (cx_read_credits cx body)) (\<lambda>cs.
       if (\<exists>c\<in>set (rcs_credits cs). blank (rc_id c) \<or> length (rc_id c) > 512)
          \<or> \<not> distinct (map rc_id (rcs_credits cs)) then Inl err_invalid_reset
       else Inr (credits_sort (cs\<lparr>rcs_observed_at := cx_now cx\<rparr>)))"

definition reset_result_read :: "codex_control \<Rightarrow> string \<Rightarrow> reset_result res" where
  "reset_result_read cx body = ok_or err_invalid_reset (cx_read_result cx body)"

definition err_search_json :: err where
  "err_search_json = error_new 502 ''invalid_search_response'' ''Search returned invalid JSON''"

definition err_search_output :: err where
  "err_search_output = error_new 502 ''invalid_search_response'' ''Search returned no output field''"

definition search_response :: "(string \<Rightarrow> json option) \<Rightarrow> string \<Rightarrow> usage res" where
  "search_response parse body =
     and_then (ok_or err_search_json (parse body)) (\<lambda>v.
       if str_field v ''output'' = None then Inl err_search_output
       else Inr (usage_default\<lparr>us_search_calls := 1, us_source := ''search_response'', us_complete := True\<rparr>))"

subsection \<open>Credentials (oauth.rs)\<close>

definition dotted_part :: "nat \<Rightarrow> string \<Rightarrow> string option" where
  "dotted_part n s = (let parts = split_on CHR ''.'' s in if n < length parts then Some (parts ! n) else None)"

definition jwt :: "codex_control \<Rightarrow> string \<Rightarrow> json option" where
  "jwt cx token = Option.bind (Option.bind (dotted_part 1 token) (cx_base64 cx)) (cx_parse cx)"

definition err_no_access_token :: err where
  "err_no_access_token = error_new 502 ''invalid_oauth_response'' ''OAuth response omitted access_token''"

definition token_expiry :: "codex_control \<Rightarrow> json \<Rightarrow> string \<Rightarrow> datetime option" where
  "token_expiry cx v access =
     or_else
       (map_option (\<lambda>n. cx_now cx + n * 1000000000)
         (filter_option (\<lambda>n. 0 < n \<and> n < 31536000) (Option.bind (jget v ''expires_in'') as_i64)))
       (Option.bind (Option.bind (jwt cx access) (\<lambda>c. Option.bind (jget c ''exp'') as_i64)) (cx_timestamp cx))"

definition kept_token :: "json \<Rightarrow> string \<Rightarrow> string option \<Rightarrow> string" where
  "kept_token v name previous =
     (case or_else (str_field v name) previous of None \<Rightarrow> [] | Some t \<Rightarrow> t)"

definition tokens :: "codex_control \<Rightarrow> json \<Rightarrow> credentials option \<Rightarrow> credentials res" where
  "tokens cx v previous =
     res_map (\<lambda>access.
       \<lparr>cr_access_token = access,
        cr_refresh_token = kept_token v ''refresh_token'' (map_option cr_refresh_token previous),
        cr_id_token = kept_token v ''id_token'' (map_option cr_id_token previous),
        cr_expires_at = token_expiry cx v access\<rparr>)
       (ok_or err_no_access_token (filter_option (\<lambda>t. t \<noteq> []) (str_field v ''access_token'')))"

record subscription_details =
  sd_active_until :: "datetime option"
  sd_last_checked_at :: "datetime option"

record account_details =
  ad_account_id :: string
  ad_email :: "string option"
  ad_plan_type :: "string option"
  ad_subscription :: "subscription_details option"

definition auth_name :: string where
  "auth_name = ''https://api.openai.com/auth''"

definition auth_claim :: "json \<Rightarrow> string \<Rightarrow> json option" where
  "auth_claim claims field = or_else (Option.bind (jget claims auth_name) (\<lambda>v. jget v field)) (jget claims field)"

definition claim_account_id :: "json \<Rightarrow> string option" where
  "claim_account_id v =
     filter_option (\<lambda>s. s \<noteq> [])
       (Option.bind (or_else (jpath v [auth_name, ''chatgpt_account_id'']) (jget v ''chatgpt_account_id'')) as_str)"

definition plan_claim :: "json \<Rightarrow> string option" where
  "plan_claim v = Option.bind (auth_claim v ''chatgpt_plan_type'') as_str"

definition known_plans :: "string set" where
  "known_plans = {''free'', ''plus'', ''pro'', ''go'', ''team'', ''business'', ''enterprise'', ''edu''}"

definition has_snapshot :: "string \<Rightarrow> json \<Rightarrow> bool" where
  "has_snapshot plan v \<longleftrightarrow>
     (case plan_claim v of None \<Rightarrow> False | Some p \<Rightarrow> lower p = lower plan)
     \<and> auth_claim v ''chatgpt_subscription_active_until'' \<noteq> None"

definition date_claim :: "codex_control \<Rightarrow> json \<Rightarrow> string \<Rightarrow> datetime option" where
  "date_claim cx v field = Option.bind (Option.bind (auth_claim v field) as_str) (cx_rfc3339 cx)"

definition subscription_of :: "codex_control \<Rightarrow> json list \<Rightarrow> string option \<Rightarrow> subscription_details option" where
  "subscription_of cx claims plan =
     Option.bind (filter_option (\<lambda>p. p \<noteq> ''free'') plan) (\<lambda>p.
       map_option (\<lambda>v. \<lparr>sd_active_until = date_claim cx v ''chatgpt_subscription_active_until'',
                       sd_last_checked_at = date_claim cx v ''chatgpt_subscription_last_checked''\<rparr>)
         (List.find (has_snapshot p) (rev claims)))"

definition err_no_account_claim :: err where
  "err_no_account_claim = err_invalid ''Credential claims do not contain a ChatGPT account ID''"

definition claims_of :: "codex_control \<Rightarrow> credentials \<Rightarrow> json list" where
  "claims_of cx c = List.map_filter (jwt cx) [cr_id_token c, cr_access_token c]"

definition account_details_of :: "codex_control \<Rightarrow> credentials \<Rightarrow> account_details res" where
  "account_details_of cx c =
     res_map (\<lambda>account.
       let own = filter (\<lambda>v. claim_account_id v = Some account) (claims_of cx c);
           plan = filter_option (\<lambda>p. p \<in> known_plans) (map_option lower (find_map plan_claim (rev own)))
       in \<lparr>ad_account_id = account, ad_email = find_map (\<lambda>v. str_field v ''email'') own,
           ad_plan_type = plan, ad_subscription = subscription_of cx own plan\<rparr>)
       (ok_or err_no_account_claim (find_map claim_account_id (claims_of cx c)))"

definition err_grant_dead :: err where
  "err_grant_dead = error_new 401 ''oauth_invalid'' ''OAuth refresh authorization is no longer valid''"

definition err_refresh_failed :: err where
  "err_refresh_failed = error_new 502 ''oauth_refresh_failed'' ''OAuth refresh failed temporarily''"

definition err_other_account :: err where
  "err_other_account = error_new 401 ''oauth_invalid'' ''Refreshed credentials belong to a different upstream account''"

definition dead_grant :: "string \<Rightarrow> bool" where
  "dead_grant code \<longleftrightarrow>
     code \<in> {''invalid_grant'', ''refresh_token_expired'', ''refresh_token_reused'', ''refresh_token_invalidated''}"

definition refusal_code :: "json \<Rightarrow> string" where
  "refusal_code v =
     (case Option.bind (or_else (jpath v [''error'', ''code'']) (or_else (jget v ''error'') (jget v ''code''))) as_str of
        None \<Rightarrow> [] | Some s \<Rightarrow> s)"

definition refreshed :: "codex_control \<Rightarrow> nat \<Rightarrow> string \<Rightarrow> credentials \<Rightarrow> account \<Rightarrow> credentials res" where
  "refreshed cx status body previous a =
     (let v = (case cx_parse cx body of None \<Rightarrow> JNull | Some v \<Rightarrow> v) in
      if \<not> (200 \<le> status \<and> status < 300)
      then Inl (if status = 401 \<or> dead_grant (refusal_code v) then err_grant_dead else err_refresh_failed)
      else and_then (tokens cx v (Some previous)) (\<lambda>c.
        and_then (account_details_of cx c) (\<lambda>d.
          if ad_account_id d \<noteq> acc_upstream_account_id a then Inl err_other_account else Inr c)))"

lemma refreshed_account:
  assumes "refreshed cx status body previous a = Inr c"
  shows "\<exists>d. account_details_of cx c = Inr d \<and> ad_account_id d = acc_upstream_account_id a" and "cr_access_token c \<noteq> []"
  using assms
  by (auto simp: refreshed_def Let_def and_then_Inr_iff tokens_def res_map_Inr_iff ok_or_Inr_iff filter_option_def
      split: if_splits option.splits)

text \<open>A response that omits the refresh token keeps the old one; one that names an empty one loses it.\<close>

lemma refresh_token_kept:
  "tokens cx v (Some previous) = Inr c \<Longrightarrow> str_field v ''refresh_token'' = None \<Longrightarrow> cr_refresh_token c = cr_refresh_token previous"
  by (auto simp: tokens_def kept_token_def res_map_Inr_iff)

lemma empty_refresh_token_replaces:
  "tokens cx v (Some previous) = Inr c \<Longrightarrow> str_field v ''refresh_token'' = Some [] \<Longrightarrow> cr_refresh_token c = []"
  by (auto simp: tokens_def kept_token_def res_map_Inr_iff)

end
