(* ===== verification/Control_Codex.thy ===== *)
theory Control_Codex
  imports Control_Calls Codex_Oauth Codex_Errors Account_Theorems
begin

section \<open>Credentials of Codex accounts\<close>

text \<open>
  The gateway's control operations over the Codex adapter: what the adapter's methods are for
  \<open>Control_Calls\<close>, and what becomes of an account's credentials.
\<close>

record cipher =
  cy_decrypt :: "uuid \<Rightarrow> string \<Rightarrow> credentials res"
  cy_encrypt :: "uuid \<Rightarrow> credentials \<Rightarrow> string res"
  cy_lossy :: "string \<Rightarrow> string"

definition codex_control_env :: "codex_control \<Rightarrow> cipher \<Rightarrow> control_env" where
  "codex_control_env cx ci =
     \<lparr>ck_now = cx_now cx, ck_decrypt = cy_decrypt ci, ck_encrypt = cy_encrypt ci,
      ck_header_ok = pr_header_ok (cx_prep cx),
      ck_refresh_request = refresh_request cx, ck_refreshed = refreshed cx,
      ck_quota_request = quota_request cx,
      ck_quota_response = quota_response (cx_parse cx) (cx_timestamp cx) (cx_now cx),
      ck_extra_response = credit_response (cx_parse cx) (cx_num cx) (cx_now cx),
      ck_http_error = classify_error (cx_parse cx) (cy_lossy ci),
      ck_credits_request = (\<lambda>a c. resets_request cx a c None), ck_credits_response = reset_credits_read cx,
      ck_reset_request = (\<lambda>a c op. resets_request cx a c (Some op)), ck_reset_response = reset_result_read cx\<rparr>"

lemma codex_control_env_sel [simp]:
  "ck_now (codex_control_env cx ci) = cx_now cx" "ck_decrypt (codex_control_env cx ci) = cy_decrypt ci"
  "ck_refresh_request (codex_control_env cx ci) = refresh_request cx" "ck_refreshed (codex_control_env cx ci) = refreshed cx"
  by (simp_all add: codex_control_env_def)

subsection \<open>What credentials are used\<close>

text \<open>The account a control operation read, and the credentials stored for it then.\<close>

definition belongs :: "codex_control \<Rightarrow> credentials \<Rightarrow> account \<Rightarrow> bool" where
  "belongs cx c a \<longleftrightarrow> (\<exists>d. account_details_of cx c = Inr d \<and> ad_account_id d = acc_upstream_account_id a)"

lemma ctl_res_Inr: "ctl_res r s = (Inr x, s') \<longleftrightarrow> r = Inr x \<and> s' = s"
  by (auto simp: ctl_res_def act_fail_def act_return_def split: sum.split)

lemma ctl_try_Inr: "ctl_try m s = (Inr r, s') \<longleftrightarrow>
    (\<exists>x. m s = (Inr x, s') \<and> r = Inr x) \<or> (\<exists>e. m s = (Inl (Failed e), s') \<and> r = Inl e)"
  by (auto simp: ctl_try_def split: prod.split sum.split halt.split)

lemma act_fail_not [simp]: "act_fail e s \<noteq> (Inr x, s')"
  by (simp add: act_fail_def)

lemma then_Inr: "act_then m n s = (Inr y, s') \<longleftrightarrow> (\<exists>x t. m s = (Inr x, t) \<and> n t = (Inr y, s'))"
  by (simp add: act_then_def bind_Inr)

lemma refresh_belongs:
  assumes "refresh (codex_control_env cx ci) i a c0 s = (Inr c, s')"
  shows "belongs cx c a \<and> cr_access_token c \<noteq> []"
proof -
  from assms obtain request result t where
    tried: "ctl_try (act_bind (control_call ForRefresh (128 * 1024) err_oauth_timeout request)
         (\<lambda>(status, body). ctl_res (refreshed cx status body c0 a))) s = (Inr result, t)"
    and rest: "(case result of Inr c' \<Rightarrow> store_refreshed (codex_control_env cx ci) i a c' | Inl e \<Rightarrow>
           act_then (if err_code e = ''oauth_invalid''
             then on_gateway (disable_observed (ck_now (codex_control_env cx ci)) i (acc_version a) OauthInvalid) else act_return ())
           (act_fail (Failed e))) t = (Inr c, s')"
    by (auto simp: refresh_def bind_Inr ctl_res_Inr)
  show ?thesis
  proof (cases result)
    case (Inl e)
    with rest show ?thesis by (simp add: then_Inr)
  next
    case (Inr r)
    with rest have "c = r" by (auto simp: store_refreshed_def bind_Inr then_Inr act_return_def)
    with tried Inr obtain status body where "refreshed cx status body c0 a = Inr c"
      by (auto simp: ctl_try_Inr bind_Inr ctl_res_Inr split: prod.splits)
    with refreshed_account show ?thesis by (auto simp: belongs_def)
  qed
qed

text \<open>The state in which the next step is made.\<close>

definition arrive :: "control \<Rightarrow> control" where
  "arrive s =
     (case ct_turns s of
        Others f # ts \<Rightarrow> s\<lparr>ct_gateway := f (ct_gateway s), ct_turns := ts\<rparr>
      | Dies # ts \<Rightarrow> s\<lparr>ct_turns := ts\<rparr>
      | [] \<Rightarrow> s)"

lemma arrive_sent [simp]: "ct_sent (arrive s) = ct_sent s"
  by (simp add: arrive_def split: list.split turn.split)

lemma on_gateway_Inr:
  assumes "on_gateway m s = (Inr x, s')"
  obtains g where "m (ct_gateway (arrive s)) = (Inr x, g)" "s' = (arrive s)\<lparr>ct_gateway := g\<rparr>"
  using assms
  by (auto simp: on_gateway_def ctl_step_def arrive_def split: list.splits turn.splits prod.splits sum.splits)

lemma current_account_step:
  "on_gateway (current_account i) s = (Inr a, s') \<Longrightarrow>
     s' = arrive s \<and> sched_account (gw_sched (ct_gateway (arrive s))) i = Some a"
  by (elim on_gateway_Inr)
    (auto simp: current_account_def act_bind_def act_read_def act_or_def act_return_def act_fail_def split: option.splits)

lemma pg_credentials_step:
  assumes "on_gateway (act_store (pg_credentials i)) s = (Inr secret, s')"
  shows "ct_sent s' = ct_sent s \<and> (\<exists>row. live_row (gw_db (ct_gateway (arrive s))) i = Some row \<and> row_credentials row = secret)"
  using assms
  by (elim on_gateway_Inr) (auto simp: act_store_def pg_credentials_def split: list.splits fault.splits option.splits)

text \<open>
  C21. Credentials never change hands. Whatever other operations do in between and however store
  calls go, the credentials a control operation works with are those stored for the account, used
  as they are while they are not due or cannot be refreshed but are still valid, or freshly
  refreshed ones with an access token whose own claims name the upstream account of the account
  they are used for.
\<close>

theorem credentials_belong:
  assumes "gateway_credentials (codex_control_env cx ci) i force s = (Inr c, s')"
  shows "\<exists>a row c0. sched_account (gw_sched (ct_gateway (arrive s))) i = Some a
    \<and> live_row (gw_db (ct_gateway (arrive (arrive s)))) i = Some row
    \<and> cy_decrypt ci i (row_credentials row) = Inr c0
    \<and> (if \<not> force \<and> \<not> refresh_due (cx_now cx) c0 then c = c0 \<and> ct_sent s' = ct_sent s
       else if cr_refresh_token c0 = [] then c = c0 \<and> ct_sent s' = ct_sent s \<and> \<not> expired (cx_now cx) c0 \<and> \<not> force
       else belongs cx c a \<and> cr_access_token c \<noteq> [])"
proof -
  from assms obtain a s1 secret s2 c0 where account: "on_gateway (current_account i) s = (Inr a, s1)"
    and stored: "on_gateway (act_store (pg_credentials i)) s1 = (Inr secret, s2)"
    and secret: "cy_decrypt ci i secret = Inr c0"
    and rest: "(if \<not> force \<and> \<not> refresh_due (cx_now cx) c0 then act_return c0
       else if cr_refresh_token c0 = [] then cannot_refresh (codex_control_env cx ci) i force a c0
       else refresh (codex_control_env cx ci) i a c0) s2 = (Inr c, s')"
    by (auto simp: gateway_credentials_def bind_Inr ctl_res_Inr)
  from current_account_step [OF account] have a: "s1 = arrive s" "sched_account (gw_sched (ct_gateway (arrive s))) i = Some a"
    by simp_all
  from pg_credentials_step [OF stored [unfolded a(1)]] obtain row where
    row: "live_row (gw_db (ct_gateway (arrive (arrive s)))) i = Some row" "row_credentials row = secret"
    and sent: "ct_sent s2 = ct_sent s" by auto
  have "if \<not> force \<and> \<not> refresh_due (cx_now cx) c0 then c = c0 \<and> ct_sent s' = ct_sent s
       else if cr_refresh_token c0 = [] then c = c0 \<and> ct_sent s' = ct_sent s \<and> \<not> expired (cx_now cx) c0 \<and> \<not> force
       else belongs cx c a \<and> cr_access_token c \<noteq> []"
    using rest sent refresh_belongs
    by (auto simp: cannot_refresh_def act_return_def then_Inr split: if_splits)
  with a(2) row secret show ?thesis by blast
qed

subsection \<open>What a refused refresh does\<close>

text \<open>The account as the scheduler and the database know it, in step.\<close>

definition in_step :: "uuid \<Rightarrow> account \<Rightarrow> account_row \<Rightarrow> gateway \<Rightarrow> bool" where
  "in_step i a row g \<longleftrightarrow>
     sched_account (gw_sched g) i = Some a \<and> live_row (gw_db g) i = Some row
     \<and> acc_enabled a \<and> acc_version (row_account row) = acc_version a
     \<and> acc_id (row_account row) = i \<and> i \<notin> sc_deleted_accounts (gw_sched g)"

definition switched_off :: "uuid \<Rightarrow> disable_reason \<Rightarrow> gateway \<Rightarrow> bool" where
  "switched_off i reason g \<longleftrightarrow>
     (\<exists>a row. sched_account (gw_sched g) i = Some a \<and> live_row (gw_db g) i = Some row \<and> row_account row = a
       \<and> \<not> acc_enabled a \<and> acc_disable_reason a = Some reason)"

lemma disable_observed_oauth:
  assumes "in_step i a row g" and "gw_faults g = []"
  shows "\<exists>g'. disable_observed now i (acc_version a) OauthInvalid g = (Inr (), g') \<and> switched_off i OauthInvalid g'"
  using assms
  by (auto simp: in_step_def disable_observed_def commit_enabled_def quota_reason_def current_account_def act_bind_def
      act_then_def act_try_def act_read_def act_or_def act_return_def act_sched_def act_store_def pg_set_enabled_def
      block_account_def update_account_def switched_off_def sched_account_def live_row_def put_row_def log_event_def
      Let_def split: option.splits if_splits)

lemma calm_refresh_answer:
  assumes "calm s" and "ct_replies s = Answer status chunks # rs" and "read_limited (128 * 1024) [] chunks = Inr body"
    and "refreshed cx status body c0 a = Inl e"
  shows "\<exists>s1. refresh (codex_control_env cx ci) i a c0 s =
      act_then (if err_code e = ''oauth_invalid''
        then on_gateway (disable_observed (cx_now cx) i (acc_version a) OauthInvalid) else act_return ())
      (act_fail (Failed e)) s1 \<and> calm s1 \<and> ct_gateway s1 = ct_gateway s"
proof -
  have "control_call ForRefresh (128 * 1024) err_oauth_timeout request s =
      (Inr (status, body), s\<lparr>ct_sent := ct_sent s @ [(ForRefresh, request)], ct_replies := rs\<rparr>)" for request
    using assms(1-3) by (simp add: control_call_def act_bind_def calm_hand_over ctl_res_def act_return_def)
  with assms(1,4) show ?thesis
    by (auto simp: refresh_def refresh_request_def act_bind_def ctl_res_def act_return_def act_fail_def ctl_try_def)
qed

text \<open>
  Only a dead grant costs an account. When the authorization server refuses to refresh the
  credentials of an enabled account, the account is switched off for an invalid authorization, in
  the scheduler and in the database, exactly if the answer is 401 or names a dead grant; after any
  other refusal the call fails as temporary and the gateway is as it was.
\<close>

lemma refresh_refused:
  assumes "calm s" and "in_step i a row (ct_gateway s)"
    and "cy_decrypt ci i (row_credentials row) = Inr c0" and "cr_refresh_token c0 \<noteq> []"
    and "force \<or> refresh_due (cx_now cx) c0"
    and "ct_replies s = Answer status chunks # rs" and "read_limited (128 * 1024) [] chunks = Inr body"
    and "\<not> ok_status status"
  shows "\<exists>e s'. gateway_credentials (codex_control_env cx ci) i force s = (Inl (Failed e), s')
    \<and> (if status = 401 \<or> dead_grant (refusal_code (case cx_parse cx body of None \<Rightarrow> JNull | Some v \<Rightarrow> v))
       then e = err_grant_dead \<and> switched_off i OauthInvalid (ct_gateway s')
       else e = err_refresh_failed \<and> ct_gateway s' = ct_gateway s)"
proof -
  let ?v = "case cx_parse cx body of None \<Rightarrow> JNull | Some v \<Rightarrow> v"
  let ?e = "if status = 401 \<or> dead_grant (refusal_code ?v) then err_grant_dead else err_refresh_failed"
  have refused: "refreshed cx status body c0 a = Inl ?e"
    using assms(8) by (simp add: refreshed_def ok_status_def Let_def)
  have run: "gateway_credentials (codex_control_env cx ci) i force s = refresh (codex_control_env cx ci) i a c0 s"
    using assms(1-5)
    by (auto simp: gateway_credentials_def act_bind_def calm_account calm_store pg_credentials_def in_step_def
        ctl_res_def act_return_def)
  from calm_refresh_answer [OF assms(1,6,7) refused] obtain s1 where
    rest: "refresh (codex_control_env cx ci) i a c0 s = act_then (if err_code ?e = ''oauth_invalid''
        then on_gateway (disable_observed (cx_now cx) i (acc_version a) OauthInvalid) else act_return ())
      (act_fail (Failed ?e)) s1" and s1: "calm s1" "ct_gateway s1 = ct_gateway s" by blast
  from assms(2) s1 have "in_step i a row (ct_gateway s1)" "gw_faults (ct_gateway s1) = []" by (simp_all add: calm_def)
  from disable_observed_oauth [OF this] obtain g' where off:
    "disable_observed (cx_now cx) i (acc_version a) OauthInvalid (ct_gateway s1) = (Inr (), g')"
    "switched_off i OauthInvalid g'" by blast
  show ?thesis
  proof (cases "status = 401 \<or> dead_grant (refusal_code ?v)")
    case True
    then have "?e = err_grant_dead" by simp
    moreover have "err_code err_grant_dead = ''oauth_invalid''" by (simp add: err_grant_dead_def error_new_def)
    ultimately show ?thesis
      using True off s1 by (simp add: run rest act_then_def act_bind_def calm_gateway act_fail_def)
  next
    case False
    then have "?e = err_refresh_failed" by simp
    moreover have "err_code err_refresh_failed \<noteq> ''oauth_invalid''" by (simp add: err_refresh_failed_def error_new_def)
    ultimately show ?thesis
      using False s1 by (simp add: run rest act_then_def act_bind_def act_return_def act_fail_def)
  qed
qed

subsection \<open>A refresh that is refused\<close>

definition cx_example :: codex_control where
  "cx_example =
     \<lparr>cx_prep = \<lparr>pr_parse = (\<lambda>_. None), pr_print = (\<lambda>_. []), pr_header_ok = (\<lambda>_. True), pr_v5 = (\<lambda>_ s. s),
        pr_reparse = Some, pr_uuid_text = show_nat, pr_v5_text = (\<lambda>_ s. s)\<rparr>,
      cx_base64 = Some, cx_rfc3339 = (\<lambda>_. None), cx_timestamp = Some, cx_num = (\<lambda>_. []),
      cx_read_credits = (\<lambda>_. None), cx_read_result = (\<lambda>_. None), cx_now = 0\<rparr>"

definition cy_example :: cipher where
  "cy_example =
     \<lparr>cy_decrypt = (\<lambda>_ _. Inr \<lparr>cr_access_token = ''a'', cr_refresh_token = ''r'', cr_id_token = [], cr_expires_at = None\<rparr>),
      cy_encrypt = (\<lambda>_ _. Inr ''e''), cy_lossy = id\<rparr>"

definition cx_state :: control where
  "cx_state = \<lparr>ct_gateway = ex_gateway ex_s0 [], ct_sent = [], ct_replies = [Answer 401 []], ct_turns = []\<rparr>"

lemma cx_in_step: "in_step 5 (ex_account 5) (ex_row 5) (ct_gateway cx_state)"
  by (simp add: in_step_def cx_state_def sched_account_def ex_s0_def sched_new_def collect_map_def live_row_def ex_db_def
      ex_account_def)

text \<open>The grant is dead: the account is switched off.\<close>

lemma refresh_refused_witness:
  "calm cx_state \<and> in_step 5 (ex_account 5) (ex_row 5) (ct_gateway cx_state)
   \<and> (\<exists>s'. gateway_credentials (codex_control_env cx_example cy_example) 5 True cx_state = (Inl (Failed err_grant_dead), s')
        \<and> switched_off 5 OauthInvalid (ct_gateway s'))"
proof -
  have "calm cx_state" by (simp add: calm_def cx_state_def)
  from refresh_refused [OF this cx_in_step, of cy_example _ True cx_example 401 "[]" "[]" "[]"] cx_in_step this
  show ?thesis by (auto simp: cy_example_def cx_state_def ok_status_def)
qed

text \<open>Credentials that do not expire are used as they are stored.\<close>

theorem credentials_belong_witness:
  "\<exists>c s' a row c0. gateway_credentials (codex_control_env cx_example cy_example) 5 False cx_state = (Inr c, s')
     \<and> sched_account (gw_sched (ct_gateway (arrive cx_state))) 5 = Some a
     \<and> live_row (gw_db (ct_gateway (arrive (arrive cx_state)))) 5 = Some row
     \<and> cy_decrypt cy_example 5 (row_credentials row) = Inr c0 \<and> c = c0"
proof -
  let ?c = "\<lparr>cr_access_token = ''a'', cr_refresh_token = ''r'', cr_id_token = [], cr_expires_at = None\<rparr> :: credentials"
  have calm: "calm cx_state" by (simp add: calm_def cx_state_def)
  have "sched_account (gw_sched (ct_gateway cx_state)) 5 = Some (ex_account 5)"
    "live_row (gw_db (ct_gateway cx_state)) 5 = Some (ex_row 5)" using cx_in_step by (simp_all add: in_step_def)
  with calm obtain s' where run: "gateway_credentials (codex_control_env cx_example cy_example) 5 False cx_state = (Inr ?c, s')"
    by (auto simp: gateway_credentials_def act_bind_def calm_account calm_store pg_credentials_def ctl_res_def
        act_return_def cy_example_def refresh_due_def)
  have "\<not> refresh_due (cx_now cx_example) ?c" by (simp add: refresh_due_def)
  with credentials_belong [OF run] run show ?thesis by (auto simp: cy_example_def)
qed

end
