(* ===== verification/Codex_Authorization.thy ===== *)
theory Codex_Authorization
  imports Codex_Oauth
begin

section \<open>Authorizing an account\<close>

text \<open>
  \<open>provider/oauth_response.rs\<close>, \<open>provider/oauth_browser.rs\<close> and the device authorization of
  \<open>provider/oauth.rs\<close>: what is kept of an answer of the authorization server, the callback of a
  browser authorization, and the requests that exchange a code for credentials. Parsing a URL,
  SHA-256 with base64, form encoding and random secrets are parameters.
\<close>

subsection \<open>Answers of the authorization server\<close>

datatype content = ContentJson | ContentHtml | ContentOther

record oauth_diagnostics =
  od_status :: nat
  od_error_code :: "string option"
  od_request_id :: "string option"
  od_cf_ray :: "string option"
  od_content :: content
  od_challenge :: bool

record oauth_response =
  or_body :: json
  or_diagnostics :: oauth_diagnostics

definition known_oauth_codes :: "string set" where
  "known_oauth_codes =
     {''unsupported_country_region_territory'', ''device_authentication_disabled'', ''device_auth_disabled'',
      ''authorization_pending'', ''slow_down'', ''access_denied'', ''expired_token'', ''invalid_client'',
      ''invalid_grant'', ''rate_limit_exceeded''}"

definition raw_code :: "json \<Rightarrow> string option" where
  "raw_code body =
     Option.bind
       (or_else (jpath body [''error'', ''code''])
         (or_else (jpath body [''error'', ''type''])
           (or_else (filter_option is_string (jget body ''error'')) (jget body ''code''))))
       as_str"

definition safe_header :: "headers \<Rightarrow> string \<Rightarrow> string option" where
  "safe_header h name =
     filter_option (\<lambda>s. s \<noteq> [] \<and> length s \<le> 256
         \<and> (\<forall>c\<in>set s. is_alnum c \<or> c \<in> {CHR ''-'', CHR ''_'', CHR ''.'', CHR '':''}))
       (header_str h name)"

definition decode_oauth :: "(string \<Rightarrow> json option) \<Rightarrow> nat \<Rightarrow> headers \<Rightarrow> string \<Rightarrow> oauth_response" where
  "decode_oauth parse status h bytes =
     (let body = (case parse bytes of None \<Rightarrow> JNull | Some v \<Rightarrow> v);
          html = (case header_str h ''content-type'' of None \<Rightarrow> False | Some s \<Rightarrow> starts_with ''text/html'' s)
      in \<lparr>or_body = body, or_diagnostics =
           \<lparr>od_status = status,
            od_error_code = map_option (\<lambda>c. if c \<in> known_oauth_codes then c else ''unrecognized'') (raw_code body),
            od_request_id = safe_header h ''x-request-id'', od_cf_ray = safe_header h ''cf-ray'',
            od_content = (if is_object body \<or> is_array body then ContentJson else if html then ContentHtml else ContentOther),
            od_challenge = (header_str h ''cf-mitigated'' = Some ''challenge'')\<rparr>\<rparr>)"

definition oauth_status :: "oauth_response \<Rightarrow> nat" where
  "oauth_status r = od_status (or_diagnostics r)"

definition oauth_pending :: "oauth_response \<Rightarrow> bool" where
  "oauth_pending r \<longleftrightarrow>
     (let d = or_diagnostics r in
      \<not> (od_challenge d \<or> od_content d \<noteq> ContentJson)
      \<and> od_status d \<in> {403, 404} \<and> od_error_code d \<in> {None, Some ''authorization_pending''})"

definition oauth_problem :: "oauth_diagnostics \<Rightarrow> string \<times> string" where
  "oauth_problem d =
     (if od_error_code d = Some ''unsupported_country_region_territory'' then
        (''oauth_region_unsupported'',
         ''OpenAI '' @ uni [0x62D2, 0x7EDD, 0x4E86, 0x5F53, 0x524D, 0x7F51, 0x7EDC, 0x51FA, 0x53E3, 0x6240, 0x5728,
           0x5730, 0x533A, 0x7684, 0x6388, 0x6743, 0x8BF7, 0x6C42, 0xFF08]
         @ ''unsupported_country_region_territory'' @ uni [0xFF09, 0x3002, 0x8FD9, 0x4E0D, 0x662F, 0x8D26, 0x6237,
           0x672A, 0x5F00, 0x542F, 0x8BBE, 0x5907, 0x6388, 0x6743, 0x3002])
      else if od_challenge d \<or> (od_content d = ContentHtml \<and> od_status d = 403) then
        (''oauth_network_challenge'',
         ''OpenAI '' @ uni [0x6388, 0x6743, 0x63A5, 0x53E3, 0x8FD4, 0x56DE, 0x4E86, 0x7F51, 0x7EDC, 0x5B89, 0x5168,
           0x9A8C, 0x8BC1, 0x9875, 0x9762, 0xFF0C, 0x7F51, 0x5173, 0x65E0, 0x6CD5, 0x7EE7, 0x7EED, 0x8BBE, 0x5907,
           0x6388, 0x6743, 0x3002])
      else if od_error_code d \<in> {Some ''device_authentication_disabled'', Some ''device_auth_disabled''} then
        (''oauth_device_disabled'',
         ''OpenAI '' @ uni [0x660E, 0x786E, 0x62A5, 0x544A, 0x8BBE, 0x5907, 0x6388, 0x6743, 0x672A, 0x5F00, 0x542F,
           0xFF0C, 0x8BF7, 0x68C0, 0x67E5, 0x8D26, 0x6237, 0x6216, 0x5DE5, 0x4F5C, 0x533A, 0x7684, 0x8BBE, 0x5907,
           0x6388, 0x6743, 0x8BBE, 0x7F6E, 0x3002])
      else if od_status d = 429 then
        (''oauth_rate_limited'',
         ''OpenAI '' @ uni [0x6388, 0x6743, 0x63A5, 0x53E3, 0x6682, 0x65F6, 0x9650, 0x6D41, 0xFF0C, 0x8BF7, 0x7A0D,
           0x540E, 0x518D, 0x8BD5, 0x3002])
      else if od_status d = 200 then
        (''invalid_oauth_response'',
         ''OpenAI '' @ uni [0x6388, 0x6743, 0x63A5, 0x53E3, 0x8FD4, 0x56DE, 0x4E86, 0x65E0, 0x6CD5, 0x8BC6, 0x522B,
           0x7684, 0x54CD, 0x5E94, 0x3002])
      else
        (''oauth_upstream_rejected'',
         ''OpenAI '' @ uni [0x6388, 0x6743, 0x63A5, 0x53E3, 0x62D2, 0x7EDD, 0x4E86, 0x8BF7, 0x6C42, 0x3002, 0x53EF,
           0x5728, 0x64CD, 0x4F5C, 0x5BA1, 0x8BA1, 0x4E2D, 0x67E5, 0x770B, 0x8131, 0x654F, 0x8BCA, 0x65AD, 0x4FE1,
           0x606F, 0x3002]))"

definition oauth_error :: "oauth_response \<Rightarrow> err" where
  "oauth_error r =
     (let (code, message) = oauth_problem (or_diagnostics r) in
      error_new 502 code (message @ uni [0xFF08] @ ''HTTP '' @ show_nat (oauth_status r) @ uni [0xFF09]))"

subsection \<open>Device authorization\<close>

record device_code =
  dc_auth_id :: string
  dc_user_code :: string
  dc_interval :: json

definition clamp :: "nat \<Rightarrow> nat \<Rightarrow> nat \<Rightarrow> nat" where
  "clamp lo hi n = max lo (min n hi)"

definition poll_seconds :: "device_code \<Rightarrow> nat" where
  "poll_seconds c =
     clamp 3 60
       (case or_else (as_u64 (dc_interval c)) (Option.bind (as_str (dc_interval c)) (parse_nat_below (2 ^ 64))) of
          None \<Rightarrow> 5 | Some n \<Rightarrow> n)"

definition device_start :: "codex_control \<Rightarrow> prepared_request" where
  "device_start cx = oauth_control cx (ISSUER @ ''/api/accounts/deviceauth/usercode'') (JObj [(''client_id'', JStr CLIENT_ID)])"

definition device_poll :: "codex_control \<Rightarrow> device_code \<Rightarrow> prepared_request" where
  "device_poll cx c =
     oauth_control cx (ISSUER @ ''/api/accounts/deviceauth/token'')
       (JObj [(''device_auth_id'', JStr (dc_auth_id c)), (''user_code'', JStr (dc_user_code c))])"

text \<open>A form, encoded by the crate \<open>url\<close>.\<close>

type_synonym form_encoder = "(string \<times> string) list \<Rightarrow> string"

definition exchange_form :: "form_encoder \<Rightarrow> string \<Rightarrow> string \<Rightarrow> string \<Rightarrow> string" where
  "exchange_form encode code redirect verifier =
     encode [(''grant_type'', ''authorization_code''), (''code'', code), (''redirect_uri'', redirect),
             (''client_id'', CLIENT_ID), (''code_verifier'', verifier)]"

definition err_no_code :: err where
  "err_no_code = error_new 502 ''invalid_oauth_response'' ''Device authorization omitted authorization code''"

definition err_no_verifier :: err where
  "err_no_verifier = error_new 502 ''invalid_oauth_response'' ''Device authorization omitted PKCE verifier''"

definition exchange_device :: "codex_control \<Rightarrow> form_encoder \<Rightarrow> json \<Rightarrow> prepared_request res" where
  "exchange_device cx encode v =
     and_then (ok_or err_no_code (str_field v ''authorization_code'')) (\<lambda>code.
     and_then (ok_or err_no_verifier (str_field v ''code_verifier'')) (\<lambda>verifier.
       Inr ((oauth_control cx (ISSUER @ ''/oauth/token'') JNull)
         \<lparr>pq_body := exchange_form encode code (ISSUER @ ''/deviceauth/callback'') verifier,
          pq_headers := set_header ''content-type'' ''application/x-www-form-urlencoded''
            (set_header ''content-type'' ''application/json'' [])\<rparr>)))"

subsection \<open>Browser authorization\<close>

record browser_authorization =
  ba_state :: string
  ba_verifier :: string

definition REDIRECT_URI :: string where
  "REDIRECT_URI = ''http://localhost:1455/auth/callback''"

definition authorization_pairs :: "(string \<Rightarrow> string) \<Rightarrow> browser_authorization \<Rightarrow> (string \<times> string) list" where
  "authorization_pairs challenge auth =
     [(''response_type'', ''code''), (''client_id'', CLIENT_ID), (''redirect_uri'', REDIRECT_URI),
      (''scope'', ''openid profile email offline_access api.connectors.read api.connectors.invoke''),
      (''code_challenge'', challenge (ba_verifier auth)), (''code_challenge_method'', ''S256''),
      (''id_token_add_organizations'', ''true''), (''codex_cli_simplified_flow'', ''true''),
      (''state'', ba_state auth), (''originator'', ''codex_cli_rs'')]"

text \<open>What the crate \<open>url\<close> gives of a parsed callback.\<close>

record callback_url =
  cu_origin :: string
  cu_path :: string
  cu_username :: string
  cu_password :: "string option"
  cu_fragment :: "string option"
  cu_pairs :: "(string \<times> string) list"

definition err_callback_long :: err where
  "err_callback_long = err_invalid (uni
     [0x56DE, 0x8C03, 0x94FE, 0x63A5, 0x8FC7, 0x957F, 0xFF0C, 0x8BF7, 0x7C98, 0x8D34, 0x6D4F, 0x89C8, 0x5668, 0x5730,
      0x5740, 0x680F, 0x4E2D, 0x7684, 0x5B8C, 0x6574, 0x94FE, 0x63A5, 0x3002])"

definition err_callback_incomplete :: err where
  "err_callback_incomplete = err_invalid (uni
     [0x8BF7, 0x7C98, 0x8D34, 0x5B8C, 0x6574, 0x7684, 0x56DE, 0x8C03, 0x94FE, 0x63A5, 0x3002])"

definition err_callback_other :: err where
  "err_callback_other = err_invalid (uni
     [0x56DE, 0x8C03, 0x5730, 0x5740, 0x4E0D, 0x5339, 0x914D, 0xFF0C, 0x5E94, 0x4E3A]
     @ '' http://localhost:1455/auth/callback '' @ uni
     [0x5F00, 0x5934, 0x7684, 0x5B8C, 0x6574, 0x94FE, 0x63A5, 0x3002])"

definition err_callback_repeated :: err where
  "err_callback_repeated = err_invalid (uni
     [0x56DE, 0x8C03, 0x94FE, 0x63A5, 0x5305, 0x542B, 0x91CD, 0x590D, 0x7684, 0x6388, 0x6743, 0x53C2, 0x6570, 0x3002])"

definition err_state_missing :: err where
  "err_state_missing = error_new 400 ''oauth_state_missing'' (uni [0x56DE, 0x8C03, 0x94FE, 0x63A5, 0x7F3A, 0x5C11]
     @ '' state'' @ uni [0xFF0C, 0x8BF7, 0x590D, 0x5236, 0x5B8C, 0x6574, 0x94FE, 0x63A5, 0x3002])"

definition err_state_mismatch :: err where
  "err_state_mismatch = error_new 400 ''oauth_state_mismatch'' (uni
     [0x6B64, 0x56DE, 0x8C03, 0x94FE, 0x63A5, 0x4E0D, 0x5C5E, 0x4E8E, 0x672C, 0x6B21, 0x6388, 0x6743, 0xFF0C, 0x8BF7,
      0x4F7F, 0x7528, 0x5F53, 0x524D, 0x751F, 0x6210, 0x7684, 0x6388, 0x6743, 0x94FE, 0x63A5, 0x3002])"

definition err_authorization_denied :: err where
  "err_authorization_denied = error_new 400 ''oauth_authorization_denied'' (''OpenAI '' @ uni
     [0x672A, 0x5B8C, 0x6210, 0x6388, 0x6743, 0xFF0C, 0x8BF7, 0x91CD, 0x65B0, 0x751F, 0x6210, 0x94FE, 0x63A5, 0x5E76,
      0x5B8C, 0x6210, 0x6388, 0x6743, 0x3002])"

definition err_code_missing :: err where
  "err_code_missing = error_new 400 ''oauth_code_missing'' (uni
     [0x56DE, 0x8C03, 0x94FE, 0x63A5, 0x7F3A, 0x5C11, 0x6709, 0x6548, 0x7684] @ '' code'' @ uni
     [0xFF0C, 0x8BF7, 0x5B8C, 0x6210, 0x6388, 0x6743, 0x540E, 0x590D, 0x5236, 0x5B8C, 0x6574, 0x94FE, 0x63A5, 0x3002])"

definition unique_pair :: "(string \<times> string) list \<Rightarrow> string \<Rightarrow> string option res" where
  "unique_pair pairs key =
     (case filter (\<lambda>(k, _). k = key) pairs of
        [] \<Rightarrow> Inr None
      | [(_, v)] \<Rightarrow> Inr (Some v)
      | _ \<Rightarrow> Inl err_callback_repeated)"

definition callback_place :: "callback_url \<Rightarrow> bool" where
  "callback_place u \<longleftrightarrow>
     cu_origin u = ''http://localhost:1455'' \<and> cu_path u = ''/auth/callback'' \<and> cu_username u = []
     \<and> cu_password u = None \<and> cu_fragment u = None"

definition callback_code :: "(string \<Rightarrow> callback_url option) \<Rightarrow> browser_authorization \<Rightarrow> string \<Rightarrow> string res" where
  "callback_code parse_url auth text =
     (let callback = str_trim text in
      if length callback > 16384 then Inl err_callback_long
      else and_then (ok_or err_callback_incomplete (parse_url callback)) (\<lambda>u.
        if \<not> callback_place u then Inl err_callback_other
        else and_then (unique_pair (cu_pairs u) ''state'') (\<lambda>given.
          and_then (ok_or err_state_missing given) (\<lambda>state.
            if state \<noteq> ba_state auth then Inl err_state_mismatch
            else and_then (unique_pair (cu_pairs u) ''error'') (\<lambda>denied.
              if denied \<noteq> None then Inl err_authorization_denied
              else and_then (unique_pair (cu_pairs u) ''code'') (\<lambda>code.
                ok_or err_code_missing
                  (filter_option (\<lambda>c. c \<noteq> [] \<and> length c \<le> 8192 \<and> \<not> has_control c) code)))))))"

definition browser_exchange :: "form_encoder \<Rightarrow> browser_authorization \<Rightarrow> string \<Rightarrow> prepared_request" where
  "browser_exchange encode auth code =
     \<lparr>pq_method = ''POST'', pq_url = ISSUER @ ''/oauth/token'',
      pq_headers = set_header ''content-type'' ''application/x-www-form-urlencoded'' [],
      pq_body = exchange_form encode code REDIRECT_URI (ba_verifier auth), pq_account_id = None,
      pq_profile_version = 1, pq_tls_backend = ''native''\<rparr>"

subsection \<open>What these functions promise\<close>

text \<open>A code is accepted only from the callback of this authorization.\<close>

lemma unique_pair_Some: "unique_pair pairs key = Inr (Some v) \<Longrightarrow> filter (\<lambda>(k, _). k = key) pairs = [(key, v)]"
proof -
  assume *: "unique_pair pairs key = Inr (Some v)"
  then obtain k where k: "filter (\<lambda>(k, _). k = key) pairs = [(k, v)]"
    by (auto simp: unique_pair_def split: list.splits)
  then have "(k, v) \<in> set (filter (\<lambda>(k, _). k = key) pairs)" by simp
  then have "k = key" by auto
  with k show ?thesis by simp
qed

lemma unique_pair_None: "unique_pair pairs key = Inr None \<Longrightarrow> key \<notin> fst ` set pairs"
  by (auto simp: unique_pair_def filter_empty_conv split: list.splits)

lemma callback_bound:
  assumes "callback_code parse_url auth text = Inr code"
  obtains u where "parse_url (str_trim text) = Some u" "callback_place u" "(''state'', ba_state auth) \<in> set (cu_pairs u)"
    "(''code'', code) \<in> set (cu_pairs u)" "''error'' \<notin> fst ` set (cu_pairs u)" "code \<noteq> []"
proof -
  from assms obtain u state where u: "parse_url (str_trim text) = Some u" "callback_place u"
    and state: "unique_pair (cu_pairs u) ''state'' = Inr (Some state)" "state = ba_state auth"
    and error: "unique_pair (cu_pairs u) ''error'' = Inr None"
    and code: "unique_pair (cu_pairs u) ''code'' = Inr (Some code)" "code \<noteq> []"
    by (auto simp: callback_code_def Let_def and_then_Inr_iff ok_or_Inr_iff filter_option_def
        split: if_splits option.splits)
  have "(''state'', state) \<in> set (filter (\<lambda>(k, _). k = ''state'') (cu_pairs u))"
    using unique_pair_Some [OF state(1)] by simp
  moreover have "(''code'', code) \<in> set (filter (\<lambda>(k, _). k = ''code'') (cu_pairs u))"
    using unique_pair_Some [OF code(1)] by simp
  ultimately show thesis using that [OF u] state(2) unique_pair_None [OF error] code(2) by simp
qed

text \<open>What is logged of an answer is one of a few known values or harmless.\<close>

lemma diagnostics_harmless:
  "od_error_code (or_diagnostics (decode_oauth parse status h bytes)) = Some c \<Longrightarrow> c \<in> insert ''unrecognized'' known_oauth_codes"
  by (auto simp: decode_oauth_def Let_def split: if_splits)

lemma poll_seconds_bounds: "3 \<le> poll_seconds c \<and> poll_seconds c \<le> 60"
  by (simp add: poll_seconds_def clamp_def)

end
