(* ===== verification/Oauth_Flows.thy ===== *)
theory Oauth_Flows
  imports Control_Codex Codex_Authorization
begin

section \<open>Authorizations in progress\<close>

text \<open>
  \<open>crates/xxgate-server/src/http/oauth.rs\<close> and \<open>oauth_browser.rs\<close>: the administrator starts an
  authorization, completes or cancels it, and the credentials it yields are stored for an account.
  The handlers work on the table of authorizations (\<open>AppState::oauth\<close>) and on the gateway; the
  part of a handler between two waits is one action. Fresh identifiers, secrets and the clock are
  arguments. \<open>sr_exchanges\<close> records the exchanges that were started.
\<close>

datatype flow_status = Starting | Pending | Exchanging | Completed account | FlowFailed err

record start_input =
  st_name :: string
  st_account_id :: "uuid option"
  st_group_ids :: "uuid list"

record flow =
  fl_expires :: instant
  fl_status :: flow_status
  fl_browser :: "(start_input \<times> browser_authorization) option"

record server =
  sr_gateway :: gateway
  sr_flows :: "(uuid, flow) hmap"
  sr_exchanges :: "(uuid \<times> browser_authorization \<times> string) list"

type_synonym 'a srv = "(server, err, 'a) comp"

definition srv_gateway :: "'a act \<Rightarrow> 'a srv" where
  "srv_gateway m s = (case m (sr_gateway s) of (r, g) \<Rightarrow> (r, s\<lparr>sr_gateway := g\<rparr>))"

definition srv_res :: "'a res \<Rightarrow> ('s, err, 'a) comp" where
  "srv_res r = (case r of Inl e \<Rightarrow> act_fail e | Inr x \<Rightarrow> act_return x)"

subsection \<open>Starting\<close>

definition err_name_required :: err where
  "err_name_required = err_invalid ''An account name is required''"

definition err_browser_name :: err where
  "err_browser_name = err_invalid (uni
     [0x8BF7, 0x8F93, 0x5165, 0x8D26, 0x6237, 0x540D, 0x79F0, 0xFF0C, 0x957F, 0x5EA6, 0x4E0D, 0x80FD, 0x8D85, 0x8FC7]
     @ '' 128 '' @ uni [0x5B57, 0x8282, 0x3002])"

definition err_too_many_flows :: err where
  "err_too_many_flows = error_new 429 ''too_many_oauth_flows'' ''Too many pending authorizations''"

definition err_too_many_browser_flows :: err where
  "err_too_many_browser_flows = error_new 429 ''too_many_oauth_flows'' (uni
     [0x5F85, 0x5904, 0x7406, 0x7684, 0x6388, 0x6743, 0x8FC7, 0x591A, 0xFF0C, 0x8BF7, 0x5B8C, 0x6210, 0x6216, 0x53D6,
      0x6D88, 0x5DF2, 0x6709, 0x6388, 0x6743, 0x3002])"

definition check_input :: "err \<Rightarrow> start_input \<Rightarrow> unit srv" where
  "check_input bad_name input =
     (if blank (st_name input) \<or> length (st_name input) > 128 then act_fail bad_name
      else case st_account_id input of
        None \<Rightarrow> srv_gateway (validate_selection (st_group_ids input))
      | Some i \<Rightarrow> act_bind (srv_gateway (current_account i)) (\<lambda>_. act_return ()))"

definition live_flows :: "instant \<Rightarrow> (uuid, flow) hmap \<Rightarrow> (uuid, flow) hmap" where
  "live_flows now fs = filter (\<lambda>(_, f). now < fl_expires f) fs"

definition insert_flow :: "instant \<Rightarrow> err \<Rightarrow> uuid \<Rightarrow> flow \<Rightarrow> unit srv" where
  "insert_flow now too_many i f s =
     (let live = live_flows now (sr_flows s) in
      if 16 \<le> length live then (Inl too_many, s\<lparr>sr_flows := live\<rparr>)
      else (Inr (), s\<lparr>sr_flows := hput i f live\<rparr>))"

definition put_flow :: "uuid \<Rightarrow> flow \<Rightarrow> unit srv" where
  "put_flow i f s = (Inr (), s\<lparr>sr_flows := hput i f (sr_flows s)\<rparr>)"

definition drop_flow :: "uuid \<Rightarrow> unit srv" where
  "drop_flow i s = (Inr (), s\<lparr>sr_flows := hdel i (sr_flows s)\<rparr>)"

definition browser_start :: "instant \<Rightarrow> uuid \<Rightarrow> browser_authorization \<Rightarrow> start_input \<Rightarrow> unit srv" where
  "browser_start now i auth input =
     act_then (check_input err_browser_name input)
       (insert_flow now err_too_many_browser_flows i
          \<lparr>fl_expires = now + 900000, fl_status = Pending, fl_browser = Some (input, auth)\<rparr>)"

text \<open>A device authorization: before its first request, and with the answer to it.\<close>

definition device_begin :: "instant \<Rightarrow> uuid \<Rightarrow> start_input \<Rightarrow> unit srv" where
  "device_begin now i input =
     act_then (check_input err_name_required input)
       (insert_flow now err_too_many_flows i \<lparr>fl_expires = now + 900000, fl_status = Starting, fl_browser = None\<rparr>)"

definition set_status :: "uuid \<Rightarrow> flow_status \<Rightarrow> unit srv" where
  "set_status i v =
     act_bind (act_read (\<lambda>s. hget (sr_flows s) i)) (\<lambda>found.
       case found of None \<Rightarrow> act_return () | Some f \<Rightarrow> put_flow i (f\<lparr>fl_status := v\<rparr>))"

definition device_answered :: "(json \<Rightarrow> device_code option) \<Rightarrow> uuid \<Rightarrow> oauth_response res \<Rightarrow> device_code srv" where
  "device_answered read_code i answer =
     (case answer of
        Inl e \<Rightarrow> act_then (drop_flow i) (act_fail e)
      | Inr r \<Rightarrow>
          if oauth_status r \<noteq> 200 then act_then (drop_flow i) (act_fail (oauth_error r))
          else case read_code (or_body r) of
            None \<Rightarrow> act_then (drop_flow i) (act_fail (oauth_error r))
          | Some c \<Rightarrow> act_then (set_status i Pending) (act_return c))"

subsection \<open>Completing\<close>

definition err_flow_expired :: err where
  "err_flow_expired = error_new 410 ''oauth_flow_expired'' (uni
     [0x6388, 0x6743, 0x5DF2, 0x8FC7, 0x671F, 0x6216, 0x670D, 0x52A1, 0x5DF2, 0x91CD, 0x542F, 0xFF0C, 0x8BF7, 0x91CD,
      0x65B0, 0x751F, 0x6210, 0x6388, 0x6743, 0x94FE, 0x63A5, 0x3002])"

definition err_flow_consumed :: err where
  "err_flow_consumed = error_new 409 ''oauth_flow_consumed'' (uni
     [0x672C, 0x6B21, 0x6388, 0x6743, 0x5DF2, 0x63D0, 0x4EA4, 0xFF0C, 0x8BF7, 0x7B49, 0x5F85, 0x7ED3, 0x679C, 0xFF1B,
      0x5931, 0x8D25, 0x540E, 0x9700, 0x91CD, 0x65B0, 0x751F, 0x6210, 0x94FE, 0x63A5, 0x3002])"

definition err_exchange_running :: err where
  "err_exchange_running = error_new 409 ''oauth_exchange_in_progress'' (uni
     [0x6B63, 0x5728, 0x5151, 0x6362, 0x51ED, 0x8BC1, 0xFF0C, 0x8BF7, 0x7B49, 0x5F85, 0x7ED3, 0x679C, 0x3002])"

definition find_flow :: "instant \<Rightarrow> uuid \<Rightarrow> err \<Rightarrow> flow srv" where
  "find_flow now i missing =
     act_bind (act_read (\<lambda>s. filter_option (\<lambda>f. now < fl_expires f) (hget (sr_flows s) i))) (act_or missing)"

definition start_exchange :: "uuid \<Rightarrow> browser_authorization \<Rightarrow> string \<Rightarrow> unit srv" where
  "start_exchange i auth code s = (Inr (), s\<lparr>sr_exchanges := sr_exchanges s @ [(i, auth, code)]\<rparr>)"

definition browser_complete ::
  "(string \<Rightarrow> callback_url option) \<Rightarrow> form_encoder \<Rightarrow> instant \<Rightarrow> uuid \<Rightarrow> string \<Rightarrow> (start_input \<times> prepared_request) srv" where
  "browser_complete parse_url encode now i callback =
     act_bind (find_flow now i err_flow_expired) (\<lambda>f.
       case fl_browser f of
         None \<Rightarrow> act_fail err_flow_consumed
       | Some (input, auth) \<Rightarrow>
           act_bind (srv_res (callback_code parse_url auth callback)) (\<lambda>code.
           act_then (put_flow i (f\<lparr>fl_browser := None, fl_status := Exchanging\<rparr>)) (
           act_then (start_exchange i auth code) (
           act_return (input, browser_exchange encode auth code)))))"

text \<open>The end of the task that exchanges a code or polls for a device.\<close>

definition flow_done :: "instant \<Rightarrow> uuid \<Rightarrow> account res \<Rightarrow> unit srv" where
  "flow_done now i result =
     act_bind (act_read (\<lambda>s. hget (sr_flows s) i)) (\<lambda>found.
       case found of
         None \<Rightarrow> act_return ()
       | Some f \<Rightarrow> put_flow i (f\<lparr>fl_status := (case result of Inr a \<Rightarrow> Completed a | Inl e \<Rightarrow> FlowFailed e),
                                fl_expires := now + 300000\<rparr>))"

definition browser_cancel :: "uuid \<Rightarrow> unit srv" where
  "browser_cancel i =
     act_bind (act_read (\<lambda>s. hget (sr_flows s) i)) (\<lambda>found.
       case found of
         None \<Rightarrow> act_return ()
       | Some f \<Rightarrow>
           if fl_status f = Exchanging then act_fail err_exchange_running
           else if fl_browser f \<noteq> None then drop_flow i
           else act_return ())"

definition flow_status_of :: "instant \<Rightarrow> uuid \<Rightarrow> flow_status srv" where
  "flow_status_of now i = act_bind (find_flow now i err_not_found) (\<lambda>f. act_return (fl_status f))"

subsection \<open>Waiting for a device\<close>

datatype poll_event = ShutDown | DeadlinePassed | Polled "oauth_response res"

definition err_device_expired :: err where
  "err_device_expired = error_new 408 ''oauth_expired'' ''Device authorization expired''"

text \<open>The rounds of the loop; \<open>None\<close> while it still waits.\<close>

fun poll_device :: "poll_event list \<Rightarrow> json res option" where
  "poll_device [] = None"
| "poll_device (ShutDown # es) = Some (Inl err_cancelled)"
| "poll_device (DeadlinePassed # es) = Some (Inl err_device_expired)"
| "poll_device (Polled (Inl e) # es) = Some (Inl e)"
| "poll_device (Polled (Inr r) # es) =
     (if oauth_status r = 200 then Some (Inr (or_body r))
      else if \<not> oauth_pending r then Some (Inl (oauth_error r))
      else poll_device es)"

definition exchanged_tokens :: "codex_control \<Rightarrow> oauth_response res \<Rightarrow> credentials res" where
  "exchanged_tokens cx answer =
     and_then answer (\<lambda>r. if oauth_status r \<noteq> 200 then Inl (oauth_error r) else tokens cx (or_body r) None)"

subsection \<open>Storing credentials\<close>

definition err_authorized_other :: err where
  "err_authorized_other = err_invalid ''Authorization belongs to a different ChatGPT account''"

definition err_account_exists :: err where
  "err_account_exists = error_new 409 ''account_already_exists''
     ''This ChatGPT account is already managed; authorize it from its account settings''"

definition new_account ::
  "datetime \<Rightarrow> runtime_settings \<Rightarrow> client_profile \<Rightarrow> uuid \<Rightarrow> start_input \<Rightarrow> string \<Rightarrow> datetime option \<Rightarrow> account" where
  "new_account now settings profile i input upstream expires_at =
     \<lparr>acc_id = i, acc_group_ids = st_group_ids input, acc_name = st_name input, acc_provider = ''openai'',
      acc_access_kind = ''codex_oauth'', acc_enabled = False, acc_codex_only = False, acc_use_extra_credits = False,
      acc_disable_reason = Some AdminDisabled, acc_max_inflight = rs_default_account_concurrency settings,
      acc_upstream_account_id = upstream, acc_upstream_base_url = ''https://chatgpt.com/backend-api/codex'',
      acc_models = [], acc_models_restricted = False, acc_model_catalog = None, acc_profile = profile, acc_version = 0,
      acc_credential_version = 0, acc_credential_expires_at = expires_at, acc_created_at = now, acc_updated_at = now\<rparr>"

text \<open>\<open>validate\<close> is \<open>Account::validate\<close> for the server's configuration.\<close>

definition save_credentials ::
  "codex_control \<Rightarrow> cipher \<Rightarrow> (account \<Rightarrow> unit res) \<Rightarrow> client_profile \<Rightarrow> uuid \<Rightarrow> start_input \<Rightarrow> credentials \<Rightarrow> account act" where
  "save_credentials cx ci validate profile new_id input c =
     act_then (srv_res (credentials_validate (pr_header_ok (cx_prep cx)) c)) (
     act_bind (srv_res (account_details_of cx c)) (\<lambda>d.
     act_bind
       (case st_account_id input of
          Some i \<Rightarrow>
            act_bind (current_account i) (\<lambda>a.
              if acc_upstream_account_id a \<noteq> ad_account_id d then act_fail err_authorized_other
              else act_bind (srv_res (cy_encrypt ci i c)) (\<lambda>secret.
                act_store (pg_update_credentials (cx_now cx) i secret (cr_expires_at c) (acc_credential_version a))))
        | None \<Rightarrow>
            act_bind (act_read (\<lambda>g. hvals (sc_accounts (gw_sched g)))) (\<lambda>accounts.
              if \<exists>a\<in>set accounts. acc_upstream_account_id a = ad_account_id d then act_fail err_account_exists
              else act_bind (act_read gw_settings) (\<lambda>settings.
                let a = new_account (cx_now cx) settings profile new_id input (ad_account_id d) (cr_expires_at c) in
                act_then (srv_res (validate a)) (
                act_bind (srv_res (cy_encrypt ci new_id c)) (\<lambda>secret.
                act_store (pg_put_account (cx_now cx) a (Some secret) None))))))
       (\<lambda>a. act_then (act_sched (update_account a)) (act_return a))))"

end
