(* ===== verification/Oauth_Theorems.thy ===== *)
theory Oauth_Theorems
  imports Oauth_Flows
begin

section \<open>Authorizations are used once\<close>

text \<open>
  The handlers of \<open>Oauth_Flows\<close> as a transition system over the table of authorizations, with any
  other change of the gateway in between, and what credentials can be stored for which account.
\<close>

inductive flow_step :: "(string \<Rightarrow> callback_url option) \<Rightarrow> server \<Rightarrow> server \<Rightarrow> bool" for parse_url where
  starts_browser: "hget (sr_flows s) i = None \<Longrightarrow> i \<notin> fst ` set (sr_exchanges s)
    \<Longrightarrow> flow_step parse_url s (snd (browser_start now i auth input s))"
| starts_device: "hget (sr_flows s) i = None \<Longrightarrow> i \<notin> fst ` set (sr_exchanges s)
    \<Longrightarrow> flow_step parse_url s (snd (device_begin now i input s))"
| device_answers: "flow_step parse_url s (snd (device_answered read_code i answer s))"
| completes: "flow_step parse_url s (snd (browser_complete parse_url encode now i callback s))"
| ends_flow: "flow_step parse_url s (snd (flow_done now i result s))"
| cancels: "flow_step parse_url s (snd (browser_cancel i s))"
| asks_status: "flow_step parse_url s (snd (flow_status_of now i s))"
| others_act: "flow_step parse_url s (s\<lparr>sr_gateway := g\<rparr>)"

definition flows_ok :: "(string \<Rightarrow> callback_url option) \<Rightarrow> server \<Rightarrow> bool" where
  "flows_ok parse_url s \<longleftrightarrow>
     hwf (sr_flows s) \<and> length (sr_flows s) \<le> 16
     \<and> distinct (map fst (sr_exchanges s))
     \<and> (\<forall>i f. hget (sr_flows s) i = Some f \<longrightarrow> fl_browser f \<noteq> None \<longrightarrow> i \<notin> fst ` set (sr_exchanges s))
     \<and> (\<forall>(i, auth, code)\<in>set (sr_exchanges s). \<exists>callback. callback_code parse_url auth callback = Inr code)"

definition no_flows :: "server \<Rightarrow> bool" where
  "no_flows s \<longleftrightarrow> sr_flows s = [] \<and> sr_exchanges s = []"

abbreviation flows_reachable :: "(string \<Rightarrow> callback_url option) \<Rightarrow> server \<Rightarrow> bool" where
  "flows_reachable parse_url \<equiv> reach no_flows (flow_step parse_url)"

subsection \<open>The table\<close>

lemma length_put: "length (hput k v m) = (if hget m k = None then Suc (length m) else length m)"
  by (induction m) auto

lemma length_hdel: "length (hdel k m) \<le> length m"
  by (simp add: AList.delete_eq)

lemma hget_live:
  assumes "hwf m"
  shows "hget (live_flows now m) i = Some f \<Longrightarrow> hget m i = Some f" and "hwf (live_flows now m)"
    and "length (live_flows now m) \<le> length m"
  using assms by (auto simp: live_flows_def hwf_def distinct_map_filter dest!: map_of_SomeD)

lemma flows_ok_cong:
  "sr_flows t = sr_flows s \<Longrightarrow> sr_exchanges t = sr_exchanges s \<Longrightarrow> flows_ok parse_url t = flows_ok parse_url s"
  by (simp add: flows_ok_def)

lemma flows_ok_insert:
  assumes "flows_ok parse_url s" and "i \<notin> fst ` set (sr_exchanges s)"
  shows "flows_ok parse_url (snd (insert_flow now e i f s))"
  using assms hget_live [of "sr_flows s" now] length_put [of i f "live_flows now (sr_flows s)"]
  by (auto simp: flows_ok_def insert_flow_def Let_def split: if_splits)

lemma flows_ok_put:
  assumes "flows_ok parse_url s" and "hget (sr_flows s) i = Some f'" and "fl_browser f = None \<or> fl_browser f = fl_browser f'"
  shows "flows_ok parse_url (s\<lparr>sr_flows := hput i f (sr_flows s)\<rparr>)"
proof -
  from assms(1,2) have "fl_browser f' \<noteq> None \<longrightarrow> i \<notin> fst ` set (sr_exchanges s)" unfolding flows_ok_def by blast
  with assms(3) have "fl_browser f \<noteq> None \<longrightarrow> i \<notin> fst ` set (sr_exchanges s)" by metis
  with assms(1,2) length_put [of i f "sr_flows s"] show ?thesis unfolding flows_ok_def by simp
qed

lemma flows_ok_drop: "flows_ok parse_url s \<Longrightarrow> flows_ok parse_url (s\<lparr>sr_flows := hdel i (sr_flows s)\<rparr>)"
  using length_hdel [of i "sr_flows s"] by (auto simp: flows_ok_def)

lemma flows_ok_exchange:
  assumes "flows_ok parse_url s" and "hget (sr_flows s) i = Some f" and "fl_browser f \<noteq> None"
    and "callback_code parse_url auth callback = Inr code"
  shows "flows_ok parse_url (s\<lparr>sr_flows := hput i (f\<lparr>fl_browser := None, fl_status := Exchanging\<rparr>) (sr_flows s),
    sr_exchanges := sr_exchanges s @ [(i, auth, code)]\<rparr>)"
  using assms length_put [of i _ "sr_flows s"] by (auto simp: flows_ok_def)

subsection \<open>The handlers\<close>

lemma check_input_flows:
  "sr_flows (snd (check_input e input s)) = sr_flows s" "sr_exchanges (snd (check_input e input s)) = sr_exchanges s"
  by (auto simp: check_input_def act_fail_def srv_gateway_def act_bind_def act_return_def
      split: option.split prod.split sum.split)

lemma start_keeps_ok:
  assumes "flows_ok parse_url s" and "i \<notin> fst ` set (sr_exchanges s)"
  shows "flows_ok parse_url (snd (act_then (check_input e input) (insert_flow now e' i f) s))"
proof -
  obtain r t where run: "check_input e input s = (r, t)" by (cases "check_input e input s")
  then have t: "sr_flows t = sr_flows s" "sr_exchanges t = sr_exchanges s" using check_input_flows [of e input s] by simp_all
  with assms have "flows_ok parse_url t" "i \<notin> fst ` set (sr_exchanges t)" by (simp_all cong: flows_ok_cong)
  with flows_ok_insert run show ?thesis by (auto simp: act_then_def act_bind_def split: sum.split)
qed

lemma find_flow_cases:
  "find_flow now i e s = (case filter_option (\<lambda>f. now < fl_expires f) (hget (sr_flows s) i) of
     None \<Rightarrow> (Inl e, s) | Some f \<Rightarrow> (Inr f, s))"
  by (simp add: find_flow_def act_bind_def act_read_def act_or_def act_fail_def act_return_def split: option.split)

lemma flow_step_ok: "flow_step parse_url s t \<Longrightarrow> flows_ok parse_url s \<Longrightarrow> flows_ok parse_url t"
proof (induction rule: flow_step.induct)
  case (starts_browser s i now auth input)
  then show ?case unfolding browser_start_def by (intro start_keeps_ok) simp_all
next
  case (starts_device s i now input)
  then show ?case unfolding device_begin_def by (intro start_keeps_ok) simp_all
next
  case (device_answers s read_code i answer)
  have drop: "flows_ok parse_url (snd (act_then (drop_flow i) (act_fail e) s))" for e :: err
    using flows_ok_drop [OF device_answers] by (simp add: act_then_def act_bind_def drop_flow_def act_fail_def)
  have "flows_ok parse_url (snd (act_then (set_status i Pending) (act_return c) s))" for c :: device_code
    using device_answers flows_ok_put [OF device_answers]
    by (auto simp: act_then_def act_bind_def set_status_def act_read_def act_return_def put_flow_def split: option.split)
  with drop show ?case by (auto simp: device_answered_def split: sum.split option.split)
next
  case (completes s encode now i callback)
  then show ?case
    by (auto simp: browser_complete_def act_bind_def act_then_def find_flow_cases srv_res_def act_fail_def act_return_def
        put_flow_def start_exchange_def filter_option_def intro: flows_ok_exchange
        split: option.splits sum.splits if_splits prod.splits)
next
  case (ends_flow s now i result)
  then show ?case
    by (auto simp: flow_done_def act_bind_def act_read_def act_return_def put_flow_def intro!: flows_ok_put split: option.split)
next
  case (cancels s i)
  then show ?case
    by (auto simp: browser_cancel_def act_bind_def act_read_def act_return_def act_fail_def drop_flow_def
        intro: flows_ok_drop split: option.split)
next
  case (asks_status s now i)
  then show ?case
    by (auto simp: flow_status_of_def act_bind_def find_flow_cases act_return_def split: option.split)
qed (simp cong: flows_ok_cong)

interpretation authorizing: invariant_system no_flows "flow_step parse_url" "flows_ok parse_url" for parse_url
proof unfold_locales
  show "no_flows s \<Longrightarrow> flows_ok parse_url s" for s by (simp add: no_flows_def flows_ok_def)
  show "flows_ok parse_url s \<Longrightarrow> flow_step parse_url s t \<Longrightarrow> flows_ok parse_url t" for s t by (rule flow_step_ok)
qed

text \<open>
  C22. An authorization is used once and only by its own callback. However authorizations are
  started, completed, repeated, cancelled and left to expire, at most sixteen are kept; a code is
  exchanged with the verifier of an authorization at most once; and the code comes from a callback
  at the redirect address, without an error, that carries the secret state of this authorization.
\<close>

theorem authorization_used_once:
  assumes "flows_reachable parse_url s"
  shows "length (sr_flows s) \<le> 16 \<and> distinct (map fst (sr_exchanges s))
    \<and> (\<forall>(i, auth, code)\<in>set (sr_exchanges s). \<exists>text u. parse_url (str_trim text) = Some u \<and> callback_place u
         \<and> (''state'', ba_state auth) \<in> set (cu_pairs u) \<and> (''code'', code) \<in> set (cu_pairs u)
         \<and> ''error'' \<notin> fst ` set (cu_pairs u))"
proof -
  have ok: "flows_ok parse_url s" by (rule authorizing.reach_inv [OF assms])
  have "\<exists>text u. parse_url (str_trim text) = Some u \<and> callback_place u
         \<and> (''state'', ba_state auth) \<in> set (cu_pairs u) \<and> (''code'', code) \<in> set (cu_pairs u)
         \<and> ''error'' \<notin> fst ` set (cu_pairs u)" if "(i, auth, code) \<in> set (sr_exchanges s)" for i auth code
  proof -
    from ok that obtain callback where "callback_code parse_url auth callback = Inr code"
      by (auto simp: flows_ok_def)
    then show ?thesis by (rule callback_bound) blast
  qed
  with ok show ?thesis by (auto simp: flows_ok_def)
qed

subsection \<open>Credentials and accounts\<close>

lemma srv_res_Inr: "srv_res r s = (Inr x, s') \<longleftrightarrow> r = Inr x \<and> s' = s"
  by (auto simp: srv_res_def act_fail_def act_return_def split: sum.split)

lemma act_store_Inr:
  assumes "act_store f g = (Inr x, g')"
  shows "fst (f (gw_db g)) = Inr x" "gw_db g' = snd (f (gw_db g))"
  using assms by (auto simp: act_store_def split: list.splits fault.splits)

lemma updated_credentials:
  assumes "act_store (pg_update_credentials now i secret expiry v) g = (Inr a, g')"
  shows "\<exists>row. live_row (gw_db g') i = Some row \<and> row_account row = a \<and> row_credentials row = secret"
  using act_store_Inr [OF assms]
  by (auto simp: pg_update_credentials_def live_row_def put_row_def log_event_def Let_def split: option.splits if_splits)

lemma created_account:
  assumes "act_store (pg_put_account now b (Some secret) None) g = (Inr a, g')"
  shows "a = b\<lparr>acc_updated_at := now, acc_version := 1, acc_credential_version := 1\<rparr>
    \<and> (\<exists>row. live_row (gw_db g') (acc_id b) = Some row \<and> row_account row = a \<and> row_credentials row = secret)"
  using act_store_Inr [OF assms]
  by (auto simp: pg_put_account_def store_account_def live_row_def put_row_def log_event_def link_groups_def Let_def
      split: option.splits if_splits)

text \<open>
  C23. An authorization is only ever stored for the account it belongs to. Credentials that were
  accepted are in the database, for an existing account only if their claims name its upstream
  account, and otherwise for a new account that no known account shares its upstream account with
  and that stays off until an administrator enables it.
\<close>

theorem authorization_binds:
  assumes "save_credentials cx ci validate profile i input c g = (Inr a, g')"
  shows "\<exists>d row. account_details_of cx c = Inr d
    \<and> live_row (gw_db g') (case st_account_id input of Some j \<Rightarrow> j | None \<Rightarrow> i) = Some row \<and> row_account row = a
    \<and> cy_encrypt ci (case st_account_id input of Some j \<Rightarrow> j | None \<Rightarrow> i) c = Inr (row_credentials row)
    \<and> (case st_account_id input of
         Some j \<Rightarrow> \<exists>b. sched_account (gw_sched g) j = Some b \<and> acc_upstream_account_id b = ad_account_id d
       | None \<Rightarrow> (\<forall>b\<in>set (hvals (sc_accounts (gw_sched g))). acc_upstream_account_id b \<noteq> ad_account_id d)
           \<and> acc_id a = i \<and> acc_upstream_account_id a = ad_account_id d
           \<and> \<not> acc_enabled a \<and> acc_disable_reason a = Some AdminDisabled)"
proof -
  from assms obtain d where d: "account_details_of cx c = Inr d"
    by (auto simp: save_credentials_def bind_Inr then_Inr srv_res_Inr)
  show ?thesis
  proof (cases "st_account_id input")
    case (Some j)
    with assms d obtain b secret g1 where "sched_account (gw_sched g) j = Some b" "acc_upstream_account_id b = ad_account_id d"
      and "cy_encrypt ci j c = Inr secret"
      and store: "act_store (pg_update_credentials (cx_now cx) j secret (cr_expires_at c) (acc_credential_version b)) g = (Inr a, g1)"
      and "gw_db g' = gw_db g1"
      by (auto simp: save_credentials_def bind_Inr then_Inr srv_res_Inr current_account_def act_read_def act_or_def
          act_return_def act_fail_def act_sched_def split: option.splits if_splits)
    with Some d updated_credentials [OF store] show ?thesis by auto
  next
    case None
    let ?new = "new_account (cx_now cx) (gw_settings g) profile i input (ad_account_id d) (cr_expires_at c)"
    from None assms d obtain secret g1 where
      "\<forall>b\<in>set (hvals (sc_accounts (gw_sched g))). acc_upstream_account_id b \<noteq> ad_account_id d"
      and "cy_encrypt ci i c = Inr secret"
      and store: "act_store (pg_put_account (cx_now cx) ?new (Some secret) None) g = (Inr a, g1)"
      and "gw_db g' = gw_db g1"
      by (auto simp: save_credentials_def bind_Inr then_Inr srv_res_Inr act_read_def act_return_def act_fail_def act_sched_def
          Let_def split: if_splits)
    with None d created_account [OF store] show ?thesis by (auto simp: new_account_def)
  qed
qed

subsection \<open>An authorization from start to end\<close>

definition ox_auth :: browser_authorization where
  "ox_auth = \<lparr>ba_state = ''s'', ba_verifier = ''v''\<rparr>"

definition ox_input :: start_input where
  "ox_input = \<lparr>st_name = ''n'', st_account_id = Some 5, st_group_ids = []\<rparr>"

definition ox_parse :: "string \<Rightarrow> callback_url option" where
  "ox_parse text = Some \<lparr>cu_origin = ''http://localhost:1455'', cu_path = ''/auth/callback'', cu_username = [],
     cu_password = None, cu_fragment = None, cu_pairs = [(''state'', ''s''), (''code'', ''c'')]\<rparr>"

definition ox_start :: server where
  "ox_start = \<lparr>sr_gateway = ex_gateway ex_s0 [], sr_flows = [], sr_exchanges = []\<rparr>"

definition ox_flow :: flow where
  "ox_flow = \<lparr>fl_expires = 900000, fl_status = Pending, fl_browser = Some (ox_input, ox_auth)\<rparr>"

lemma ox_account: "current_account 5 (ex_gateway ex_s0 []) = (Inr (ex_account 5), ex_gateway ex_s0 [])"
  by (simp add: current_account_def act_bind_def act_read_def act_or_def act_return_def sched_account_def ex_s0_def
      sched_new_def collect_map_def)

lemma ox_name: "\<not> blank ''n''"
  by code_simp

lemma ox_begun: "snd (browser_start 0 9 ox_auth ox_input ox_start) = ox_start\<lparr>sr_flows := [(9, ox_flow)]\<rparr>"
  by (simp add: browser_start_def check_input_def ox_input_def ox_name act_then_def act_bind_def srv_gateway_def
      ox_start_def ox_account act_return_def insert_flow_def live_flows_def ox_flow_def)

lemma ox_texts: "str_trim ''x'' = ''x''" "\<not> has_control ''c''"
  by code_simp+

lemma ox_code: "callback_code ox_parse ox_auth ''x'' = Inr ''c''"
  by (simp add: callback_code_def ox_texts ox_parse_def callback_place_def unique_pair_def ox_auth_def filter_option_def)

lemma ox_completed: "sr_exchanges (snd (browser_complete ox_parse (\<lambda>_. []) 1 9 ''x'' (ox_start\<lparr>sr_flows := [(9, ox_flow)]\<rparr>)))
    = [(9, ox_auth, ''c'')]"
  by (simp add: browser_complete_def act_bind_def act_then_def find_flow_cases filter_option_def ox_flow_def srv_res_def
      ox_code act_return_def put_flow_def start_exchange_def ox_start_def)

theorem authorization_used_once_witness:
  "\<exists>s. flows_reachable ox_parse s \<and> sr_exchanges s = [(9, ox_auth, ''c'')] \<and> distinct (map fst (sr_exchanges s))"
proof -
  have "no_flows ox_start" by (simp add: no_flows_def ox_start_def)
  then have "flows_reachable ox_parse ox_start" by (rule reach_init)
  moreover have "flow_step ox_parse ox_start (ox_start\<lparr>sr_flows := [(9, ox_flow)]\<rparr>)"
    unfolding ox_begun [symmetric] by (rule starts_browser) (simp_all add: ox_start_def)
  ultimately have "flows_reachable ox_parse (ox_start\<lparr>sr_flows := [(9, ox_flow)]\<rparr>)" by (rule reach_step)
  then have reached: "flows_reachable ox_parse
      (snd (browser_complete ox_parse (\<lambda>_. []) 1 9 ''x'' (ox_start\<lparr>sr_flows := [(9, ox_flow)]\<rparr>)))"
    by (rule reach_step) (rule completes)
  with authorization_used_once [OF reached] ox_completed show ?thesis by blast
qed

definition ox_control :: codex_control where
  "ox_control = cx_example\<lparr>cx_prep := (cx_prep cx_example)
     \<lparr>pr_parse := (\<lambda>_. Some (JObj [(''chatgpt_account_id'', JStr ''u'')]))\<rparr>\<rparr>"

definition ox_credentials :: credentials where
  "ox_credentials = \<lparr>cr_access_token = ''a.b.c'', cr_refresh_token = ''r'', cr_id_token = [], cr_expires_at = None\<rparr>"

lemma ox_details: "\<exists>d. account_details_of ox_control ox_credentials = Inr d \<and> ad_account_id d = ''u''"
proof -
  have "claims_of ox_control ox_credentials = [JObj [(''chatgpt_account_id'', JStr ''u'')]]"
    by (simp add: claims_of_def map_filter_def jwt_def dotted_part_def ox_credentials_def ox_control_def cx_example_def
        cx_parse_def)
  moreover have "claim_account_id (JObj [(''chatgpt_account_id'', JStr ''u'')]) = Some ''u''" by code_simp
  ultimately show ?thesis by (simp add: account_details_of_def Let_def)
qed

theorem authorization_binds_witness:
  "\<exists>a g' d row. save_credentials ox_control cy_example (\<lambda>_. Inr ()) (acc_profile (ex_account 5)) 8 ox_input ox_credentials (ex_gateway ex_s0 [])
      = (Inr a, g') \<and> account_details_of ox_control ox_credentials = Inr d
    \<and> live_row (gw_db g') 5 = Some row \<and> row_account row = a"
proof -
  from ox_details obtain d where d: "account_details_of ox_control ox_credentials = Inr d" "ad_account_id d = ''u''" by blast
  have "credentials_validate (pr_header_ok (cx_prep ox_control)) ox_credentials = Inr ()"
    by (simp add: credentials_validate_def ox_credentials_def ox_control_def cx_example_def)
  with d obtain a g' where run: "save_credentials ox_control cy_example (\<lambda>_. Inr ()) (acc_profile (ex_account 5)) 8 ox_input
      ox_credentials (ex_gateway ex_s0 []) = (Inr a, g')"
    by (simp add: save_credentials_def act_then_def act_bind_def srv_res_def act_return_def ox_input_def ox_account
        act_store_def pg_update_credentials_def live_row_def ex_db_def ex_row_def cy_example_def act_sched_def Let_def
        ex_account_def)
  from authorization_binds [OF run] obtain d row where "account_details_of ox_control ox_credentials = Inr d"
    "live_row (gw_db g') 5 = Some row" "row_account row = a" by (auto simp: ox_input_def)
  with run show ?thesis by blast
qed

end
