(* ===== verification/Pg_Access.thy ===== *)
theory Pg_Access
  imports Gateway_State
begin

section \<open>Administrators, keys and groups in the database\<close>

text \<open>
  \<open>crates/xxgate-postgres/src\<close>: \<open>access.rs\<close> and \<open>groups.rs\<close> over the tables \<open>administrators\<close>,
  \<open>admin_sessions\<close>, \<open>api_keys\<close> and \<open>routing_groups\<close>, whose constraints are those of \<open>migrations/\<close>.
  \<open>pg_groups\<close> is the primary key of \<open>routing_groups\<close>, which other transactions read. One
  transaction is one function; \<open>now\<close> is the database's clock, \<open>lower\<close> its lower case function.
\<close>

record key_row =
  kr_key :: gateway_key
  kr_hash :: string
  kr_deleted :: bool

record access =
  ab_pg :: pg
  ab_admin :: "string option"
  ab_sessions :: "(string, uuid \<times> datetime) hmap"
  ab_keys :: "key_row list"
  ab_groups :: "group_row list"

type_synonym 'a access_tx = "access \<Rightarrow> 'a res \<times> access"

definition log_access :: "string \<Rightarrow> access \<Rightarrow> access" where
  "log_access kind db = db\<lparr>ab_pg := log_event kind ''admin'' None (ab_pg db)\<rparr>"

subsection \<open>The administrator (access.rs)\<close>

definition initialize_admin :: "string \<Rightarrow> bool access_tx" where
  "initialize_admin hash db =
     (if ab_admin db = None then (Inr True, db\<lparr>ab_admin := Some hash\<rparr>) else (Inr False, db))"

definition admin_password_hash :: "string option access_tx" where
  "admin_password_hash db = (Inr (ab_admin db), db)"

definition put_admin_session :: "string \<Rightarrow> uuid \<Rightarrow> datetime \<Rightarrow> unit access_tx" where
  "put_admin_session hash i expires db =
     (if hget (ab_sessions db) hash \<noteq> None \<or> i \<in> fst ` set (hvals (ab_sessions db)) then (Inl err_storage, db)
      else (Inr (), db\<lparr>ab_sessions := hput hash (i, expires) (ab_sessions db)\<rparr>))"

definition admin_session :: "datetime \<Rightarrow> string \<Rightarrow> (uuid \<times> datetime) option access_tx" where
  "admin_session now hash db = (Inr (filter_option (\<lambda>(_, expires). now < expires) (hget (ab_sessions db) hash)), db)"

definition delete_admin_session :: "string \<Rightarrow> unit access_tx" where
  "delete_admin_session hash db = (Inr (), db\<lparr>ab_sessions := hdel hash (ab_sessions db)\<rparr>)"

text \<open>The statement of \<open>cleanup\<close> (\<open>requests.rs\<close>) on this table.\<close>

definition drop_expired_sessions :: "datetime \<Rightarrow> unit access_tx" where
  "drop_expired_sessions now db =
     (Inr (), db\<lparr>ab_sessions := filter (\<lambda>(_, _, expires). \<not> expires < now) (ab_sessions db)\<rparr>)"

subsection \<open>Keys (access.rs)\<close>

definition live_key :: "uuid \<Rightarrow> key_row \<Rightarrow> bool" where
  "live_key i r \<longleftrightarrow> gk_id (kr_key r) = i \<and> \<not> kr_deleted r"

definition write_key :: "(gateway_key \<Rightarrow> gateway_key) \<Rightarrow> uuid \<Rightarrow> access \<Rightarrow> access" where
  "write_key f i db =
     db\<lparr>ab_keys := map (\<lambda>r. if live_key i r then r\<lparr>kr_key := f (kr_key r)\<rparr> else r) (ab_keys db)\<rparr>"

definition pg_delete_key :: "uuid \<Rightarrow> unit access_tx" where
  "pg_delete_key i db =
     (if \<not> (\<exists>r\<in>set (ab_keys db). live_key i r) then (Inl err_not_found, db)
      else (Inr (), log_access ''key_deleted'' (db\<lparr>ab_keys := map (\<lambda>r.
        if live_key i r
        then r\<lparr>kr_key := (kr_key r)\<lparr>gk_enabled := False, gk_group_id := DEFAULT_GROUP_ID\<rparr>, kr_deleted := True\<rparr>
        else r) (ab_keys db)\<rparr>)))"

definition pg_keys :: "gateway_key list access_tx" where
  "pg_keys db =
     (Inr (sort_key (\<lambda>k. - gk_created_at k) (map kr_key (filter (\<lambda>r. \<not> kr_deleted r) (ab_keys db)))), db)"

definition validate_groups :: "uuid list \<Rightarrow> access \<Rightarrow> unit res" where
  "validate_groups ids db =
     (if \<exists>i\<in>set ids. i \<notin> gr_id ` set (ab_groups db)
      then Inl (error_new 400 ''group_not_found'' ''One or more selected groups do not exist'') else Inr ())"

definition pg_put_key :: "gateway_key \<Rightarrow> string \<Rightarrow> unit access_tx" where
  "pg_put_key k hash db =
     (case validate_groups [gk_group_id k] db of
        Inl e \<Rightarrow> (Inl e, db)
      | Inr _ \<Rightarrow>
          if \<exists>r\<in>set (ab_keys db). gk_id (kr_key r) = gk_id k \<or> kr_hash r = hash then (Inl err_storage, db)
          else (Inr (), log_access ''key_created''
            (db\<lparr>ab_keys := ab_keys db @ [\<lparr>kr_key = k\<lparr>gk_last_used_at := None\<rparr>, kr_hash = hash, kr_deleted = False\<rparr>]\<rparr>)))"

text \<open>Two statements without a transaction around them: finding the key, and noting its use.\<close>

definition usable_key :: "string \<Rightarrow> key_row \<Rightarrow> bool" where
  "usable_key hash r \<longleftrightarrow> kr_hash r = hash \<and> gk_enabled (kr_key r) \<and> \<not> kr_deleted r"

definition find_key :: "string \<Rightarrow> gateway_key option access_tx" where
  "find_key hash db = (Inr (map_option kr_key (List.find (usable_key hash) (ab_keys db))), db)"

definition touch_key :: "datetime \<Rightarrow> uuid \<Rightarrow> unit access_tx" where
  "touch_key now i db =
     (Inr (), db\<lparr>ab_keys := map (\<lambda>r.
        if gk_id (kr_key r) = i
           \<and> (case gk_last_used_at (kr_key r) of None \<Rightarrow> True | Some t \<Rightarrow> t < now - 60 * 1000000000)
        then r\<lparr>kr_key := (kr_key r)\<lparr>gk_last_used_at := Some now\<rparr>\<rparr> else r) (ab_keys db)\<rparr>)"

definition pg_set_key_enabled :: "uuid \<Rightarrow> bool \<Rightarrow> gateway_key access_tx" where
  "pg_set_key_enabled i enabled db =
     (case List.find (live_key i) (ab_keys db) of
        None \<Rightarrow> (Inl err_not_found, db)
      | Some r \<Rightarrow> (Inr ((kr_key r)\<lparr>gk_enabled := enabled\<rparr>),
          log_access ''key_updated'' (write_key (\<lambda>k. k\<lparr>gk_enabled := enabled\<rparr>) i db)))"

definition pg_update_key :: "uuid \<Rightarrow> string \<Rightarrow> uuid \<Rightarrow> gateway_key access_tx" where
  "pg_update_key i name gid db =
     (case validate_groups [gid] db of
        Inl e \<Rightarrow> (Inl e, db)
      | Inr _ \<Rightarrow>
          (case List.find (live_key i) (ab_keys db) of
             None \<Rightarrow> (Inl err_not_found, db)
           | Some r \<Rightarrow> (Inr ((kr_key r)\<lparr>gk_name := name, gk_group_id := gid\<rparr>),
               log_access ''key_updated'' (write_key (\<lambda>k. k\<lparr>gk_name := name, gk_group_id := gid\<rparr>) i db))))"

subsection \<open>Groups (groups.rs)\<close>

definition err_group_name :: err where
  "err_group_name = error_new 409 ''group_name_exists'' ''A group with this name already exists''"

definition err_group_in_use :: err where
  "err_group_in_use = error_new 409 ''group_in_use'' ''Move the group's keys and accounts before deleting it''"

definition err_default_group :: err where
  "err_default_group = error_new 409 ''default_group_required'' ''The default group cannot be deleted''"

definition pg_group_rows :: "group_row list access_tx" where
  "pg_group_rows db = (Inr (sort_key (\<lambda>g. (gr_created_at g, gr_id g)) (ab_groups db)), db)"

definition create_group :: "(string \<Rightarrow> string) \<Rightarrow> datetime \<Rightarrow> uuid \<Rightarrow> string \<Rightarrow> group_row access_tx" where
  "create_group lower now i name db =
     (case group_validate_name name of
        Inl e \<Rightarrow> (Inl e, db)
      | Inr _ \<Rightarrow>
          let g = \<lparr>gr_id = i, gr_name = str_trim name, gr_created_at = now, gr_updated_at = now\<rparr> in
          if \<exists>h\<in>set (ab_groups db). gr_id h = i \<or> lower (gr_name h) = lower (gr_name g) then (Inl err_group_name, db)
          else (Inr g, log_access ''group_created''
            (db\<lparr>ab_groups := ab_groups db @ [g], ab_pg := (ab_pg db)\<lparr>pg_groups := insert i (pg_groups (ab_pg db))\<rparr>\<rparr>)))"

definition rename_group :: "(string \<Rightarrow> string) \<Rightarrow> datetime \<Rightarrow> uuid \<Rightarrow> string \<Rightarrow> group_row access_tx" where
  "rename_group lower now i name db =
     (case group_validate_name name of
        Inl e \<Rightarrow> (Inl e, db)
      | Inr _ \<Rightarrow>
          (case List.find (\<lambda>g. gr_id g = i) (ab_groups db) of
             None \<Rightarrow> (Inl err_not_found, db)
           | Some g \<Rightarrow>
               if \<exists>h\<in>set (ab_groups db). gr_id h \<noteq> i \<and> lower (gr_name h) = lower (str_trim name)
               then (Inl err_group_name, db)
               else let g' = g\<lparr>gr_name := str_trim name, gr_updated_at := now\<rparr> in
                 (Inr g', log_access ''group_updated''
                   (db\<lparr>ab_groups := map (\<lambda>h. if gr_id h = i then g' else h) (ab_groups db)\<rparr>))))"

text \<open>The foreign keys of \<open>api_keys\<close> and \<open>account_groups\<close> hold a group back.\<close>

definition group_used :: "uuid \<Rightarrow> access \<Rightarrow> bool" where
  "group_used i db \<longleftrightarrow>
     (\<exists>r\<in>set (ab_keys db). gk_group_id (kr_key r) = i) \<or> (\<exists>p\<in>pg_account_groups (ab_pg db). snd p = i)"

definition delete_group :: "uuid \<Rightarrow> unit access_tx" where
  "delete_group i db =
     (if i = DEFAULT_GROUP_ID then (Inl err_default_group, db)
      else if i \<notin> gr_id ` set (ab_groups db) then (Inl err_not_found, db)
      else if group_used i db then (Inl err_group_in_use, db)
      else (Inr (), log_access ''group_deleted''
        (db\<lparr>ab_groups := filter (\<lambda>g. gr_id g \<noteq> i) (ab_groups db),
            ab_pg := (ab_pg db)\<lparr>pg_groups := pg_groups (ab_pg db) - {i}\<rparr>\<rparr>)))"

end
