(* ===== verification/Admin_Access.thy ===== *)
theory Admin_Access
  imports Pg_Access Account_Control Codex_Ingress Codex_Resolve
begin

section \<open>Administrators and keys at the server\<close>

text \<open>
  \<open>crates/xxgate-server/src/http\<close>: \<open>auth.rs\<close>, and the handlers of \<open>admin.rs\<close> and \<open>groups.rs\<close>
  that change keys and groups. The handlers work on the gateway, on the tables of
  \<open>Pg_Access\<close> beside its own and on the recent attempts to sign in. Handlers that change keys hold
  the lock \<open>mutations\<close>, so one runs after the other. Random secrets, identifiers and clock
  readings are arguments; the digest SHA-256 and the check of an Argon2 hash are parameters.
  \<open>fr_verified\<close> records the digest of each new session with the time and the password that was found
  right, \<open>fr_left\<close> the sessions signed out, \<open>fr_run\<close> how often the server was restarted,
  \<open>fr_tried\<close> the attempts let through to the password check, each with the run it fell in, and
  \<open>fr_now\<close> the last reading of the run's monotone clock.
\<close>

record front =
  fr_gateway :: gateway
  fr_tables :: access
  fr_attempts :: "instant list"
  fr_run :: nat
  fr_tried :: "(nat \<times> instant) list"
  fr_now :: instant
  fr_verified :: "(string \<times> datetime \<times> string) list"
  fr_left :: "string set"

type_synonym 'a fr = "(front, err, 'a) comp"

definition access_tables :: "front \<Rightarrow> access" where
  "access_tables s = (fr_tables s)\<lparr>ab_pg := gw_db (fr_gateway s)\<rparr>"

definition with_tables :: "access \<Rightarrow> fault list \<Rightarrow> front \<Rightarrow> front" where
  "with_tables db fs s =
     s\<lparr>fr_tables := db, fr_gateway := (fr_gateway s)\<lparr>gw_db := ab_pg db, gw_faults := fs\<rparr>\<rparr>"

definition fr_store :: "'a access_tx \<Rightarrow> 'a fr" where
  "fr_store f s =
     (let db = access_tables s; fs = gw_faults (fr_gateway s) in
      case fs of
        LostBefore # _ \<Rightarrow> (Inl err_storage, with_tables db (tl fs) s)
      | LostAfter # _ \<Rightarrow> (Inl err_storage, with_tables (snd (f db)) (tl fs) s)
      | _ \<Rightarrow> (fst (f db), with_tables (snd (f db)) (tl fs) s))"

definition fr_gate :: "'a act \<Rightarrow> 'a fr" where
  "fr_gate m s = (case m (fr_gateway s) of (r, g) \<Rightarrow> (r, s\<lparr>fr_gateway := g\<rparr>))"

definition fr_sched :: "(sched \<Rightarrow> sched) \<Rightarrow> unit fr" where
  "fr_sched f = fr_gate (act_sched f)"

subsection \<open>Signing in (auth.rs)\<close>

record auth_env =
  ae_hash :: "string \<Rightarrow> string"
  ae_verify :: "string \<Rightarrow> string \<Rightarrow> bool"

definition hash_password :: "(string \<Rightarrow> string res) \<Rightarrow> string \<Rightarrow> string res" where
  "hash_password argon2 password =
     (if length password < 12 \<or> 1024 < length password
      then Inl (err_invalid ''Password must contain 12 to 1024 bytes'') else argon2 password)"

definition verify_password :: "auth_env \<Rightarrow> string \<Rightarrow> string \<Rightarrow> bool" where
  "verify_password env password hash \<longleftrightarrow> \<not> 1024 < length password \<and> ae_verify env password hash"

definition err_csrf :: err where
  "err_csrf = error_new 403 ''csrf_required'' ''The administrative CSRF header is required''"

definition err_cross_site :: err where
  "err_cross_site = error_new 403 ''cross_site_request'' ''Cross-site administrative requests are not allowed''"

definition csrf :: "header_list \<Rightarrow> unit res" where
  "csrf headers =
     (if header_text_of headers ''x-xxgate-csrf'' \<noteq> Some ''1'' then Inl err_csrf
      else if header_text_of headers ''sec-fetch-site'' = Some ''cross-site'' then Inl err_cross_site
      else Inr ())"

definition cookie :: "header_list \<Rightarrow> string option" where
  "cookie headers =
     Option.bind (header_text_of headers ''cookie'') (\<lambda>v.
       filter_option (\<lambda>s. length s \<le> 128)
         (find_map (\<lambda>part. strip_prefix ''xxgate_session='' (str_trim part)) (split_on CHR '';'' v)))"

definition err_login_required :: err where
  "err_login_required = error_new 401 ''admin_login_required'' ''Sign in as administrator''"

definition err_session_expired :: err where
  "err_session_expired = error_new 401 ''admin_login_required'' ''The administrator session has expired''"

definition fr_res :: "'a res \<Rightarrow> 'a fr" where
  "fr_res r = (case r of Inl e \<Rightarrow> act_fail e | Inr x \<Rightarrow> act_return x)"

text \<open>\<open>Inr ()\<close>: the request goes on to its handler.\<close>

definition admin_guard :: "auth_env \<Rightarrow> datetime \<Rightarrow> string \<Rightarrow> header_list \<Rightarrow> unit fr" where
  "admin_guard env now method headers =
     act_then (if method \<in> {''GET'', ''HEAD''} then act_return () else fr_res (csrf headers)) (
     act_bind (act_or err_login_required (cookie headers)) (\<lambda>v.
     act_bind (fr_store (admin_session now (ae_hash env v))) (\<lambda>found.
     act_bind (act_or err_session_expired found) (\<lambda>_. act_return ()))))"

definition err_login_rate :: err where
  "err_login_rate = error_new 429 ''login_rate_limited'' ''Too many login attempts; try again in one minute''"

definition err_invalid_login :: err where
  "err_invalid_login = error_new 401 ''invalid_login'' ''Incorrect administrator password''"

definition login_admit :: "instant \<Rightarrow> unit fr" where
  "login_admit now s =
     (let recent = filter (\<lambda>t. now - t < 60000) (fr_attempts s) in
      if 10 \<le> length recent then (Inl err_login_rate, s\<lparr>fr_attempts := recent, fr_now := now\<rparr>)
      else (Inr (), s\<lparr>fr_attempts := recent @ [now], fr_tried := fr_tried s @ [(fr_run s, now)], fr_now := now\<rparr>))"

definition note_verified :: "string \<Rightarrow> datetime \<Rightarrow> string \<Rightarrow> unit fr" where
  "note_verified digest now password s =
     (Inr (), s\<lparr>fr_verified := fr_verified s @ [(digest, now, password)]\<rparr>)"

definition twelve_hours :: datetime where
  "twelve_hours = 12 * 3600 * 1000000000"

definition append_admin_event :: "string \<Rightarrow> unit access_tx" where
  "append_admin_event kind db = (Inr (), log_access kind db)"

definition session_cookie :: "bool \<Rightarrow> string \<Rightarrow> string" where
  "session_cookie secure secret =
     ''xxgate_session='' @ secret @ ''; HttpOnly; SameSite=Strict; Path=/api/admin; Max-Age=43200''
       @ (if secure then ''; Secure'' else '''')"

text \<open>\<open>HeaderValue::from_str\<close> succeeds.\<close>

definition header_bytes_ok :: "string \<Rightarrow> bool" where
  "header_bytes_ok s \<longleftrightarrow> (\<forall>c\<in>set s. byte c = 9 \<or> (32 \<le> byte c \<and> byte c \<noteq> 127))"

text \<open>The part of \<open>login\<close> behind the limit, and the whole handler: the answer is the cookie.\<close>

definition login_verify ::
  "auth_env \<Rightarrow> bool \<Rightarrow> datetime \<Rightarrow> uuid \<Rightarrow> string \<Rightarrow> string \<Rightarrow> string fr" where
  "login_verify env secure utc i secret password =
     act_bind (fr_store admin_password_hash) (\<lambda>found.
     act_bind (act_or err_storage found) (\<lambda>hash.
       if \<not> verify_password env password hash then act_fail err_invalid_login
       else
         act_then (note_verified (ae_hash env secret) utc password) (
         act_then (fr_store (put_admin_session (ae_hash env secret) i (utc + twelve_hours))) (
         act_then (fr_store (append_admin_event ''admin_login'')) (
         if header_bytes_ok (session_cookie secure secret) then act_return (session_cookie secure secret)
         else act_fail err_storage)))))"

definition login ::
  "auth_env \<Rightarrow> bool \<Rightarrow> instant \<Rightarrow> datetime \<Rightarrow> uuid \<Rightarrow> string \<Rightarrow> header_list \<Rightarrow> string \<Rightarrow> string fr" where
  "login env secure now utc i secret headers password =
     act_then (fr_res (csrf headers)) (
     act_then (login_admit now) (login_verify env secure utc i secret password))"

definition note_left :: "string \<Rightarrow> unit fr" where
  "note_left digest s = (Inr (), s\<lparr>fr_left := insert digest (fr_left s)\<rparr>)"

definition logout :: "auth_env \<Rightarrow> header_list \<Rightarrow> string fr" where
  "logout env headers =
     act_then
       (case cookie headers of
          None \<Rightarrow> act_return ()
        | Some v \<Rightarrow> act_then (fr_store (delete_admin_session (ae_hash env v))) (note_left (ae_hash env v)))
       (act_return ''xxgate_session=; HttpOnly; SameSite=Strict; Path=/api/admin; Max-Age=0'')"

subsection \<open>Actions that keep a condition of this state\<close>

locale front_condition = kept cond for cond :: "front \<Rightarrow> bool" +
  assumes cond_lost: "cond s \<Longrightarrow> cond (with_tables (access_tables s) fs s)"
begin

lemma keeps_tables:
  assumes "\<And>s fs. cond s \<Longrightarrow> cond (with_tables (snd (f (access_tables s))) fs s)"
  shows "keeps (fr_store f)"
  by (rule keepsI) (auto simp: fr_store_def Let_def assms cond_lost split: list.split fault.split)

lemma keeps_reading: "(\<And>db. snd (f db) = db) \<Longrightarrow> keeps (fr_store f)"
  by (rule keeps_tables) (simp add: cond_lost)

lemma keeps_res: "keeps (fr_res r)"
  by (simp add: fr_res_def keeps_return keeps_fail split: sum.split)

lemma keeps_gate:
  assumes "\<And>s. cond s \<Longrightarrow> cond (s\<lparr>fr_gateway := snd (m (fr_gateway s))\<rparr>)"
  shows "keeps (fr_gate m)"
  using assms by (auto simp: keeps_def fr_gate_def split: prod.split) (metis snd_conv)

end

end
