(* ===== verification/Admin_Keys.thy ===== *)
theory Admin_Keys
  imports Admin_Access
begin

section \<open>Keys and groups at the server\<close>

text \<open>
  The key a client presents (\<open>gateway_key\<close> of \<open>auth.rs\<close>), and the handlers of \<open>admin.rs\<close> and
  \<open>groups.rs\<close> for keys and groups. A handler blocks a key in the scheduler before its row
  changes, and copies what the database then says; when it cannot tell, dispatch is paused.
\<close>

subsection \<open>Presenting a key (auth.rs)\<close>

definition err_key_required :: err where
  "err_key_required = error_new 401 ''invalid_api_key'' ''A valid gateway API key is required''"

definition err_key_invalid :: err where
  "err_key_invalid = error_new 401 ''invalid_api_key'' ''The gateway API key is invalid or disabled''"

definition bearer :: "header_list \<Rightarrow> string option" where
  "bearer headers =
     filter_option (\<lambda>s. starts_with ''sk-'' s \<and> length s \<le> 256)
       (Option.bind (header_text_of headers ''authorization'') (strip_prefix ''Bearer ''))"

definition key_by_hash :: "datetime \<Rightarrow> string \<Rightarrow> gateway_key option fr" where
  "key_by_hash now hash =
     act_bind (fr_store (find_key hash)) (\<lambda>found.
       case found of
         None \<Rightarrow> act_return None
       | Some k \<Rightarrow> act_then (fr_store (touch_key now (gk_id k))) (act_return (Some k)))"

definition present_key :: "auth_env \<Rightarrow> datetime \<Rightarrow> header_list \<Rightarrow> gateway_key fr" where
  "present_key env now headers =
     act_bind (act_or err_key_required (bearer headers)) (\<lambda>secret.
     act_bind (key_by_hash now (ae_hash env secret)) (act_or err_key_invalid))"

subsection \<open>Changing keys (admin.rs)\<close>

definition err_key_name :: err where
  "err_key_name = err_invalid ''Key name must contain 1 to 128 bytes''"

definition check_key_name :: "string \<Rightarrow> unit res" where
  "check_key_name name = (if blank name \<or> 128 < length name then Inl err_key_name else Inr ())"

definition reconcile_keys :: "unit fr" where
  "reconcile_keys =
     act_bind (act_try (fr_store pg_keys)) (\<lambda>r.
       case r of
         Inr ks \<Rightarrow> act_each (\<lambda>k. fr_sched (update_key k)) ks
       | Inl _ \<Rightarrow> fr_sched (set_paused True))"

text \<open>\<open>random\<close> is the text of the random part of the secret.\<close>

definition create_key ::
  "auth_env \<Rightarrow> datetime \<Rightarrow> uuid \<Rightarrow> string \<Rightarrow> string \<Rightarrow> uuid \<Rightarrow> (gateway_key \<times> string) fr" where
  "create_key env now i random name gid =
     act_then (fr_res (check_key_name name)) (
     let secret = ''sk-'' @ random;
         k = \<lparr>gk_id = i, gk_group_id = gid, gk_name = name, gk_prefix = take_chars 11 secret,
              gk_enabled = True, gk_created_at = now, gk_last_used_at = None\<rparr>
     in act_then (fr_gate (validate_selection [gid])) (
        act_then (fr_store (pg_put_key k (ae_hash env secret))) (
        act_then (fr_sched (update_key k)) (act_return (k, secret)))))"

definition changed_key :: "uuid \<Rightarrow> gateway_key access_tx \<Rightarrow> gateway_key fr" where
  "changed_key i f =
     act_then (fr_sched (block_key i)) (
     act_bind (act_try (fr_store f)) (\<lambda>r.
       case r of
         Inr k \<Rightarrow> act_then (fr_sched (update_key k)) (act_return k)
       | Inl e \<Rightarrow> act_then reconcile_keys (act_fail e)))"

definition enable_key :: "uuid \<Rightarrow> bool \<Rightarrow> gateway_key fr" where
  "enable_key i enabled = changed_key i (pg_set_key_enabled i enabled)"

definition rename_key :: "uuid \<Rightarrow> string \<Rightarrow> uuid \<Rightarrow> gateway_key fr" where
  "rename_key i name gid =
     act_then (fr_res (check_key_name name)) (
     act_then (fr_gate (validate_selection [gid])) (changed_key i (pg_update_key i name gid)))"

definition admin_delete_key :: "uuid \<Rightarrow> unit fr" where
  "admin_delete_key i =
     act_then (fr_sched (block_key i)) (
     act_bind (act_try (fr_store (pg_delete_key i))) (\<lambda>r.
       case r of
         Inl e \<Rightarrow> act_then reconcile_keys (act_fail e)
       | Inr _ \<Rightarrow> fr_sched (remove_key i)))"

subsection \<open>Groups (groups.rs)\<close>

definition admin_create_group :: "(string \<Rightarrow> string) \<Rightarrow> datetime \<Rightarrow> uuid \<Rightarrow> string \<Rightarrow> group_row fr" where
  "admin_create_group lc now i name = fr_store (create_group lc now i name)"

definition admin_rename_group :: "(string \<Rightarrow> string) \<Rightarrow> datetime \<Rightarrow> uuid \<Rightarrow> string \<Rightarrow> group_row fr" where
  "admin_rename_group lc now i name = fr_store (rename_group lc now i name)"

definition admin_remove_group :: "uuid \<Rightarrow> unit fr" where
  "admin_remove_group i = fr_store (delete_group i)"

record group_view =
  gv_group :: group_row
  gv_default :: bool
  gv_accounts :: nat
  gv_enabled :: nat
  gv_keys :: nat

definition group_views :: "account list \<Rightarrow> gateway_key list \<Rightarrow> group_row list \<Rightarrow> group_view list" where
  "group_views accounts ks gs = map (\<lambda>g.
     let members = filter (\<lambda>a. gr_id g \<in> set (acc_group_ids a)) accounts in
     \<lparr>gv_group = g, gv_default = (gr_id g = DEFAULT_GROUP_ID), gv_accounts = length members,
      gv_enabled = length (filter acc_enabled members),
      gv_keys = length (filter (\<lambda>k. gk_group_id k = gr_id g) ks)\<rparr>) gs"

definition admin_list_groups :: "group_view list fr" where
  "admin_list_groups =
     act_bind (act_read (\<lambda>s. hvals (sc_accounts (gw_sched (fr_gateway s))))) (\<lambda>accounts.
     act_bind (fr_store pg_keys) (\<lambda>ks.
     act_bind (fr_store pg_group_rows) (\<lambda>gs.
       act_return (group_views accounts ks gs))))"

end
