(* ===== verification/Access_Theorems.thy ===== *)
theory Access_Theorems
  imports Admin_Keys Account_Theorems
begin

section \<open>Who gets in\<close>

text \<open>
  The handlers of \<open>Admin_Access\<close> and \<open>Admin_Keys\<close> as a transition system, with lost store calls,
  restarts of the server and any other change of the gateway between them, and what holds in every
  state of it: of administrative sessions, of the attempts to sign in, and of the scheduler's
  copies of the keys.
\<close>

text \<open>
  Starting the server: the scheduler takes the keys of the database, the recent attempts to sign in
  are forgotten, and the new process has a monotone clock of its own.
\<close>

definition server_started :: "account list \<Rightarrow> binding list \<Rightarrow> front \<Rightarrow> front" where
  "server_started accounts bindings s =
     s\<lparr>fr_gateway := (fr_gateway s)\<lparr>gw_sched := sched_new accounts bindings
         (sort_key (\<lambda>k. - gk_created_at k) (map kr_key (filter (\<lambda>r. \<not> kr_deleted r) (ab_keys (fr_tables s)))))\<rparr>,
       fr_attempts := [], fr_run := Suc (fr_run s), fr_now := 0\<rparr>"

definition keys_apart :: "sched \<Rightarrow> (uuid, gateway_key) hmap \<times> uuid set \<times> uuid set" where
  "keys_apart s = (sc_keys s, sc_blocked_keys s, sc_deleted_keys s)"

inductive front_step :: "auth_env \<Rightarrow> front \<Rightarrow> front \<Rightarrow> bool" for env where
  signs_in: "fr_now s \<le> now \<Longrightarrow> ae_hash env secret \<notin> fst ` set (fr_verified s) \<union> fr_left s
    \<Longrightarrow> front_step env s (snd (login env secure now utc i secret headers password s))"
| signs_out: "front_step env s (snd (logout env headers s))"
| asks: "front_step env s (snd (admin_guard env t method headers s))"
| presents: "front_step env s (snd (present_key env t headers s))"
| cleans_up: "front_step env s (snd (fr_store (drop_expired_sessions t) s))"
| first_start: "front_step env s (snd (fr_store (initialize_admin hash) s))"
| creates_key: "front_step env s (snd (create_key env t i random name gid s))"
| enables_key: "front_step env s (snd (enable_key i b s))"
| renames_key: "front_step env s (snd (rename_key i name gid s))"
| deletes_key: "front_step env s (snd (admin_delete_key i s))"
| creates_group: "front_step env s (snd (admin_create_group lc t i name s))"
| renames_group: "front_step env s (snd (admin_rename_group lc t i name s))"
| removes_group: "front_step env s (snd (admin_remove_group i s))"
| lists_groups: "front_step env s (snd (admin_list_groups s))"
| restarts: "front_step env s (server_started accounts bindings s)"
| others_act: "keys_apart (gw_sched g) = keys_apart (gw_sched (fr_gateway s))
    \<Longrightarrow> front_step env s (s\<lparr>fr_gateway := g\<rparr>)"

text \<open>A database with no sessions and no keys yet, before the first start.\<close>

definition front_new :: "front \<Rightarrow> bool" where
  "front_new s \<longleftrightarrow> ab_sessions (fr_tables s) = [] \<and> ab_keys (fr_tables s) = [] \<and> fr_attempts s = [] \<and> fr_tried s = []
     \<and> fr_verified s = [] \<and> fr_left s = {} \<and> keys_apart (gw_sched (fr_gateway s)) = ([], {}, {})"

abbreviation front_reachable :: "auth_env \<Rightarrow> front \<Rightarrow> bool" where
  "front_reachable env \<equiv> reach front_new (front_step env)"

subsection \<open>What the handlers leave alone\<close>

lemma with_tables_simps [simp]:
  "fr_tables (with_tables db fs s) = db" "fr_attempts (with_tables db fs s) = fr_attempts s"
  "fr_tried (with_tables db fs s) = fr_tried s" "fr_run (with_tables db fs s) = fr_run s" "fr_now (with_tables db fs s) = fr_now s"
  "fr_verified (with_tables db fs s) = fr_verified s" "fr_left (with_tables db fs s) = fr_left s"
  "gw_sched (fr_gateway (with_tables db fs s)) = gw_sched (fr_gateway s)"
  by (simp_all add: with_tables_def)

lemma access_tables_simps [simp]:
  "ab_sessions (access_tables s) = ab_sessions (fr_tables s)" "ab_admin (access_tables s) = ab_admin (fr_tables s)"
  "ab_keys (access_tables s) = ab_keys (fr_tables s)" "ab_groups (access_tables s) = ab_groups (fr_tables s)"
  by (simp_all add: access_tables_def)

lemma log_access_simps [simp]:
  "ab_sessions (log_access k db) = ab_sessions db" "ab_admin (log_access k db) = ab_admin db"
  "ab_keys (log_access k db) = ab_keys db" "ab_groups (log_access k db) = ab_groups db"
  by (simp_all add: log_access_def)

definition login_view :: "front \<Rightarrow> instant list \<times> nat \<times> (nat \<times> instant) list \<times> instant" where
  "login_view s = (fr_attempts s, fr_run s, fr_tried s, fr_now s)"

definition session_view ::
  "front \<Rightarrow> (string, uuid \<times> datetime) hmap \<times> string option \<times> (string \<times> datetime \<times> string) list \<times> string set" where
  "session_view s = (ab_sessions (fr_tables s), ab_admin (fr_tables s), fr_verified s, fr_left s)"

interpretation logins: front_condition "\<lambda>s. login_view s = v" for v
  by unfold_locales (simp add: login_view_def)

interpretation sess: front_condition "\<lambda>s. session_view s = v" for v
  by unfold_locales (simp add: session_view_def)

lemma logins_store: "logins.keeps v (fr_store f)"
  by (rule logins.keeps_tables) (simp add: login_view_def)

lemma logins_gate: "logins.keeps v (fr_gate m)"
  by (rule logins.keeps_gate) (simp add: login_view_def)

definition spares_sessions :: "'a access_tx \<Rightarrow> bool" where
  "spares_sessions f \<longleftrightarrow> (\<forall>db. ab_sessions (snd (f db)) = ab_sessions db \<and> ab_admin (snd (f db)) = ab_admin db)"

lemma sess_store: "spares_sessions f \<Longrightarrow> sess.keeps v (fr_store f)"
  by (rule sess.keeps_tables) (simp add: session_view_def spares_sessions_def)

lemma sess_gate: "sess.keeps v (fr_gate m)"
  by (rule sess.keeps_gate) (simp add: session_view_def)

lemma spares_sessions_simps [simp]:
  "spares_sessions pg_keys" "spares_sessions pg_group_rows" "spares_sessions (pg_put_key k h)"
  "spares_sessions (find_key h)" "spares_sessions (touch_key t i)" "spares_sessions (pg_set_key_enabled i b)"
  "spares_sessions (pg_update_key i name gid)" "spares_sessions (pg_delete_key i)"
  "spares_sessions (create_group lc t i name)" "spares_sessions (rename_group lc t i name)"
  "spares_sessions (delete_group i)" "spares_sessions (admin_session t h)" "spares_sessions (append_admin_event kind)"
  "spares_sessions admin_password_hash"
  by (simp_all add: spares_sessions_def pg_keys_def pg_group_rows_def pg_put_key_def find_key_def touch_key_def
      pg_set_key_enabled_def pg_update_key_def pg_delete_key_def create_group_def rename_group_def delete_group_def
      admin_session_def append_admin_event_def admin_password_hash_def write_key_def Let_def split: sum.split option.split)

lemmas handler_defs = admin_guard_def present_key_def key_by_hash_def create_key_def enable_key_def rename_key_def
  changed_key_def reconcile_keys_def admin_delete_key_def admin_create_group_def admin_rename_group_def
  admin_remove_group_def admin_list_groups_def fr_sched_def

lemmas logins_rules = logins.keeps_return logins.keeps_fail logins.keeps_read logins.keeps_or logins.keeps_res
  logins.keeps_bind logins.keeps_then logins.keeps_try logins.keeps_each logins_store logins_gate

lemmas sess_rules = sess.keeps_return sess.keeps_fail sess.keeps_read sess.keeps_or sess.keeps_res
  sess.keeps_bind sess.keeps_then sess.keeps_try sess.keeps_each sess_store sess_gate

lemma logins_kept:
  "logins.keeps v (admin_guard env t method headers)" "logins.keeps v (present_key env t headers)"
  "logins.keeps v (create_key env t i random name gid)" "logins.keeps v (enable_key i b)"
  "logins.keeps v (rename_key i name gid)" "logins.keeps v (admin_delete_key i)"
  "logins.keeps v (admin_create_group lc t i name)" "logins.keeps v (admin_rename_group lc t i name)"
  "logins.keeps v (admin_remove_group i)" "logins.keeps v admin_list_groups"
  by (auto simp: handler_defs Let_def intro!: logins_rules split: option.split sum.split)

lemma sess_kept:
  "sess.keeps v (admin_guard env t method headers)" "sess.keeps v (present_key env t headers)"
  "sess.keeps v (create_key env t i random name gid)" "sess.keeps v (enable_key i b)"
  "sess.keeps v (rename_key i name gid)" "sess.keeps v (admin_delete_key i)"
  "sess.keeps v (admin_create_group lc t i name)" "sess.keeps v (admin_rename_group lc t i name)"
  "sess.keeps v (admin_remove_group i)" "sess.keeps v admin_list_groups"
  by (auto simp: handler_defs Let_def intro!: sess_rules split: option.split sum.split)

lemma runs_tables:
  assumes "\<And>s fs. P s \<Longrightarrow> E err_storage (with_tables (access_tables s) fs s)"
    and "\<And>s fs. P s \<Longrightarrow> E err_storage (with_tables (snd (f (access_tables s))) fs s)"
    and "\<And>s fs x. P s \<Longrightarrow> fst (f (access_tables s)) = Inr x \<Longrightarrow> Q x (with_tables (snd (f (access_tables s))) fs s)"
    and "\<And>s fs e. P s \<Longrightarrow> fst (f (access_tables s)) = Inl e \<Longrightarrow> E e (with_tables (snd (f (access_tables s))) fs s)"
  shows "runs P (fr_store f) Q E"
  using assms by (auto simp: runs_def fr_store_def Let_def split: list.split fault.split sum.split)

subsection \<open>Attempts to sign in\<close>

text \<open>The attempts of one run.\<close>

definition tried_in :: "nat \<Rightarrow> front \<Rightarrow> instant list" where
  "tried_in n s = map snd (filter (\<lambda>(m, _). m = n) (fr_tried s))"

definition rate_ok :: "front \<Rightarrow> bool" where
  "rate_ok s \<longleftrightarrow>
     fr_attempts s = filter (\<lambda>t. fr_now s - t < 60000) (tried_in (fr_run s) s)
     \<and> (\<forall>t\<in>set (tried_in (fr_run s) s). t \<le> fr_now s)
     \<and> (\<forall>n t. length (filter (\<lambda>x. t \<le> x \<and> x < t + 60000) (tried_in n s)) \<le> 10)
     \<and> (\<forall>x\<in>set (fr_tried s). fst x \<le> fr_run s)"

lemma rate_ok_view: "login_view s = login_view s' \<Longrightarrow> rate_ok s \<Longrightarrow> rate_ok s'"
  by (simp add: rate_ok_def login_view_def tried_in_def)

lemma rate_ok_admit:
  assumes "rate_ok s" and "fr_now s \<le> now"
  shows "rate_ok (snd (login_admit now s))"
proof -
  let ?tried = "tried_in (fr_run s) s"
  let ?recent = "filter (\<lambda>t. now - t < 60000) ?tried"
  have recent: "filter (\<lambda>t. now - t < 60000) (fr_attempts s) = ?recent"
    using assms by (auto simp: rate_ok_def intro!: filter_cong)
  have old: "\<forall>t\<in>set ?tried. t \<le> now" using assms unfolding rate_ok_def by (meson le_trans)
  have tried: "length (filter (\<lambda>x. t \<le> x \<and> x < t + 60000) (tried_in n s)) \<le> 10" for n t
    using assms(1) unfolding rate_ok_def by blast
  have runs: "\<forall>x\<in>set (fr_tried s). fst x \<le> fr_run s" using assms(1) unfolding rate_ok_def by blast
  have window: "length (filter (\<lambda>x. t \<le> x \<and> x < t + 60000) (?tried @ [now])) \<le> 10" if "length ?recent < 10" for t
  proof (cases "t \<le> now \<and> now < t + 60000")
    case True
    have "length (filter (\<lambda>x. t \<le> x \<and> x < t + 60000) ?tried)
        = length (filter (\<lambda>x. t \<le> x \<and> x < t + 60000) ?recent)"
      using True by (auto intro!: arg_cong [where f = length] filter_cong)
    also have "\<dots> \<le> length ?recent" by (rule length_filter_le)
    finally show ?thesis using that True by simp
  next
    case False
    with tried [of t "fr_run s"] show ?thesis by (auto split: if_splits)
  qed
  show ?thesis
  proof (cases "10 \<le> length ?recent")
    case True
    then show ?thesis using old tried runs by (auto simp: login_admit_def Let_def recent rate_ok_def tried_in_def)
  next
    case False
    define s' where "s' = s\<lparr>fr_attempts := ?recent @ [now], fr_tried := fr_tried s @ [(fr_run s, now)], fr_now := now\<rparr>"
    have s': "snd (login_admit now s) = s'" using False by (simp add: login_admit_def Let_def recent s'_def)
    have log: "tried_in n s' = (if n = fr_run s then ?tried @ [now] else tried_in n s)" for n
      by (simp add: tried_in_def s'_def)
    have same: "fr_attempts s' = ?recent @ [now]" "fr_run s' = fr_run s" "fr_now s' = now"
      "set (fr_tried s') = insert (fr_run s, now) (set (fr_tried s))" by (simp_all add: s'_def)
    have "length (filter (\<lambda>x. t \<le> x \<and> x < t + 60000) (tried_in n s')) \<le> 10" for n t
      using window [of t] tried [of t n] False unfolding log by (cases "n = fr_run s") (simp_all only: if_True if_False refl not_le)
    with old runs show ?thesis unfolding s' rate_ok_def same by (simp add: log)
  qed
qed

lemma logins_verify: "logins.keeps v (login_verify env secure utc i secret password)"
proof -
  have "logins.keeps v (note_verified h t p)" for h t p
    by (rule logins.keepsI) (simp add: note_verified_def login_view_def)
  then show ?thesis unfolding login_verify_def by (auto intro!: logins_rules)
qed

lemma logins_logout: "logins.keeps v (logout env headers)"
proof -
  have "logins.keeps v (note_left h)" for h by (rule logins.keepsI) (simp add: note_left_def login_view_def)
  then show ?thesis unfolding logout_def by (auto intro!: logins_rules split: option.split)
qed

lemma rate_keeps: "(\<And>v. logins.keeps v m) \<Longrightarrow> rate_ok s \<Longrightarrow> rate_ok (snd (m s))"
  using logins.keepsD [of "login_view s" m s] rate_ok_view [of s "snd (m s)"] by metis

lemma rate_login:
  assumes "rate_ok s" and "fr_now s \<le> now"
  shows "rate_ok (snd (login env secure now utc i secret headers password s))"
proof (cases "csrf headers")
  case (Inl e)
  with assms show ?thesis by (simp add: login_def fr_res_def act_then_def act_bind_def act_fail_def)
next
  case (Inr u)
  obtain r s1 where admit: "login_admit now s = (r, s1)" by fastforce
  with rate_ok_admit [OF assms] have s1: "rate_ok s1" by simp
  have "snd (login env secure now utc i secret headers password s) =
      (case r of Inl e \<Rightarrow> s1 | Inr _ \<Rightarrow> snd (login_verify env secure utc i secret password s1))"
    using Inr admit by (simp add: login_def fr_res_def act_then_def act_bind_def act_return_def split: sum.split)
  then show ?thesis using s1 rate_keeps [OF logins_verify s1] by (simp split: sum.split)
qed

lemma rate_step: "front_step env s t \<Longrightarrow> rate_ok s \<Longrightarrow> rate_ok t"
proof (induction rule: front_step.induct)
  case (signs_in s now secret secure utc i headers password)
  then show ?case by (simp add: rate_login)
next
  case (restarts s accounts bindings)
  then show ?case
    by (fastforce simp: rate_ok_def server_started_def tried_in_def filter_empty_conv)
next
  case (others_act g s)
  then show ?case by (simp add: rate_ok_def tried_in_def)
qed (erule rate_keeps [rotated], rule logins_kept logins_logout logins_store)+

lemma rate_reachable: "front_reachable env s \<Longrightarrow> rate_ok s"
proof (induction rule: reach.induct)
  case (reach_init s)
  then show ?case by (simp add: front_new_def rate_ok_def tried_in_def)
qed (rule rate_step)

subsection \<open>Administrative sessions\<close>

definition sessions_ok :: "auth_env \<Rightarrow> front \<Rightarrow> bool" where
  "sessions_ok env s \<longleftrightarrow> hwf (ab_sessions (fr_tables s))
     \<and> (\<forall>h i e. hget (ab_sessions (fr_tables s)) h = Some (i, e) \<longrightarrow>
        h \<notin> fr_left s \<and> (\<exists>t p. (h, t, p) \<in> set (fr_verified s) \<and> e = t + twelve_hours))
     \<and> (\<forall>(h, t, p)\<in>set (fr_verified s). \<exists>hash. ab_admin (fr_tables s) = Some hash \<and> verify_password env p hash)"

lemma sessions_ok_view: "session_view s = session_view s' \<Longrightarrow> sessions_ok env s = sessions_ok env s'"
  by (simp add: sessions_ok_def session_view_def)

lemma sessions_ok_sub:
  assumes "sessions_ok env s" and "hwf (ab_sessions (fr_tables s'))"
    and "\<And>h x. hget (ab_sessions (fr_tables s')) h = Some x \<Longrightarrow> hget (ab_sessions (fr_tables s)) h = Some x"
    and "ab_admin (fr_tables s') = ab_admin (fr_tables s)" "fr_verified s' = fr_verified s" "fr_left s' = fr_left s"
  shows "sessions_ok env s'"
  using assms(1-3) unfolding sessions_ok_def assms(4-6) by blast

lemma hget_filter: "hwf m \<Longrightarrow> hget (filter P m) h = Some x \<Longrightarrow> hget m h = Some x" and hwf_filter: "hwf m \<Longrightarrow> hwf (filter P m)"
  by (auto simp: hwf_def distinct_map_filter dest!: map_of_SomeD)

lemma sess_keeps: "(\<And>v. sess.keeps v m) \<Longrightarrow> sessions_ok env s \<Longrightarrow> sessions_ok env (snd (m s))"
  using sess.keepsD [of "session_view s" m s] sessions_ok_view [of s "snd (m s)"] by metis

lemma sess_runs:
  assumes "\<And>v. sess.keeps v m" and "\<And>s s'. session_view s = session_view s' \<Longrightarrow> P s \<Longrightarrow> P s'"
  shows "runs P m (\<lambda>_. P) (\<lambda>_. P)"
  unfolding runs_same using assms(1) assms(2) sess.keepsD by metis

text \<open>The session about to be given: its digest is new, or already recorded with the right password.\<close>

definition fresh_session :: "auth_env \<Rightarrow> string \<Rightarrow> front \<Rightarrow> bool" where
  "fresh_session env h s \<longleftrightarrow> sessions_ok env s \<and> h \<notin> fst ` set (fr_verified s) \<union> fr_left s"

definition given :: "auth_env \<Rightarrow> string \<Rightarrow> datetime \<Rightarrow> front \<Rightarrow> bool" where
  "given env h t s \<longleftrightarrow> sessions_ok env s \<and> h \<notin> fr_left s \<and> (\<exists>p. (h, t, p) \<in> set (fr_verified s))"

lemma runs_password:
  "runs (fresh_session env h) (fr_store admin_password_hash) (\<lambda>found s. fresh_session env h s \<and> ab_admin (fr_tables s) = found)
     (\<lambda>_. sessions_ok env)"
  by (rule runs_tables) (auto simp: admin_password_hash_def fresh_session_def sessions_ok_def)

lemma runs_note:
  assumes "verify_password env p hash"
  shows "runs (\<lambda>s. fresh_session env h s \<and> ab_admin (fr_tables s) = Some hash) (note_verified h t p) (\<lambda>_. given env h t) E"
proof -
  have "given env h t (snd (note_verified h t p s))" if s: "fresh_session env h s" "ab_admin (fr_tables s) = Some hash" for s
  proof -
    let ?s = "snd (note_verified h t p s)"
    have seen: "fr_verified ?s = fr_verified s @ [(h, t, p)]" "fr_tables ?s = fr_tables s" "fr_left ?s = fr_left s"
      by (simp_all add: note_verified_def)
    from s have ok: "sessions_ok env s" and "h \<notin> fr_left s" by (simp_all add: fresh_session_def)
    have "sessions_ok env ?s"
      unfolding sessions_ok_def seen
    proof (intro conjI allI impI)
      show "hwf (ab_sessions (fr_tables s))" using ok by (simp add: sessions_ok_def)
      show "\<forall>(h, t, p)\<in>set (fr_verified s @ [(h, t, p)]). \<exists>hash. ab_admin (fr_tables s) = Some hash \<and> verify_password env p hash"
        using ok s(2) assms by (auto simp: sessions_ok_def)
      fix h' i e assume got: "hget (ab_sessions (fr_tables s)) h' = Some (i, e)"
      then show "h' \<notin> fr_left s" using ok unfolding sessions_ok_def by blast
      from got ok have "\<exists>t p. (h', t, p) \<in> set (fr_verified s) \<and> e = t + twelve_hours"
        unfolding sessions_ok_def by blast
      then show "\<exists>t' p'. (h', t', p') \<in> set (fr_verified s @ [(h, t, p)]) \<and> e = t' + twelve_hours"
        by (metis Un_iff set_append)
    qed
    then show ?thesis using \<open>h \<notin> fr_left s\<close> by (auto simp: given_def seen)
  qed
  then show ?thesis by (auto simp: runs_def note_verified_def)
qed

lemma given_put: "given env h t s \<Longrightarrow> given env h t (with_tables (snd (put_admin_session h i (t + twelve_hours) (access_tables s))) fs s)"
  by (auto simp: given_def sessions_ok_def put_admin_session_def)

lemma given_tables: "given env h t s \<Longrightarrow> given env h t (with_tables (access_tables s) fs s)"
  by (simp add: given_def sessions_ok_def)

lemma runs_put_session:
  "runs (given env h t) (fr_store (put_admin_session h i (t + twelve_hours))) (\<lambda>_. given env h t) (\<lambda>_. sessions_ok env)"
proof (intro runs_tables)
  have weak: "given env h t s \<Longrightarrow> sessions_ok env s" for s by (simp add: given_def)
  fix s :: front and fs assume s: "given env h t s"
  show "sessions_ok env (with_tables (access_tables s) fs s)" using given_tables [OF s] weak by blast
  show "sessions_ok env (with_tables (snd (put_admin_session h i (t + twelve_hours) (access_tables s))) fs s)"
    using given_put [OF s] weak by blast
  then show "sessions_ok env (with_tables (snd (put_admin_session h i (t + twelve_hours) (access_tables s))) fs s)" .
  show "given env h t (with_tables (snd (put_admin_session h i (t + twelve_hours) (access_tables s))) fs s)"
    using given_put [OF s] .
qed

lemma runs_login_verify:
  "runs (fresh_session env (ae_hash env secret)) (login_verify env secure utc i secret password)
     (\<lambda>_. sessions_ok env) (\<lambda>_. sessions_ok env)"
  unfolding login_verify_def
proof (rule runs_bind [OF runs_password])
  fix found
  let ?h = "ae_hash env secret"
  let ?rest = "act_then (note_verified ?h utc password) (
         act_then (fr_store (put_admin_session ?h i (utc + twelve_hours))) (
         act_then (fr_store (append_admin_event ''admin_login'')) (
         if header_bytes_ok (session_cookie secure secret) then act_return (session_cookie secure secret)
         else act_fail err_storage)))"
  have event: "runs (given env ?h utc) (fr_store (append_admin_event ''admin_login'')) (\<lambda>_. given env ?h utc) (\<lambda>_. sessions_ok env)"
    by (rule runs_tables) (auto simp: given_def sessions_ok_def append_admin_event_def)
  have "runs (\<lambda>s. fresh_session env ?h s \<and> ab_admin (fr_tables s) = Some hash) ?rest (\<lambda>_. sessions_ok env) (\<lambda>_. sessions_ok env)"
    if "verify_password env password hash" for hash
    by (intro runs_then [OF runs_note [OF that]] runs_then [OF runs_put_session] runs_then [OF event])
      (auto simp: given_def intro: runs_return runs_fail)
  then show "runs (\<lambda>s. fresh_session env ?h s \<and> ab_admin (fr_tables s) = found)
     (act_bind (act_or err_storage found)
       (\<lambda>hash. if \<not> verify_password env password hash then act_fail err_invalid_login else ?rest))
     (\<lambda>_. sessions_ok env) (\<lambda>_. sessions_ok env)"
    by (cases found) (auto simp: act_or_def fresh_session_def runs_def act_bind_def act_fail_def act_return_def)
qed

lemma sessions_login:
  assumes "fresh_session env (ae_hash env secret) s"
  shows "sessions_ok env (snd (login env secure now utc i secret headers password s))"
proof -
  have admit: "runs (fresh_session env h) (login_admit now) (\<lambda>_. fresh_session env h) (\<lambda>_. fresh_session env h)" for h
    by (simp add: runs_same fresh_session_def sessions_ok_def login_admit_def Let_def)
  have weak: "fresh_session env h s' \<Longrightarrow> sessions_ok env s'" for h s' by (simp add: fresh_session_def)
  have "runs (fresh_session env (ae_hash env secret)) (login env secure now utc i secret headers password)
      (\<lambda>_. sessions_ok env) (\<lambda>_. sessions_ok env)"
    unfolding login_def fr_res_def
    by (intro runs_then [OF _ runs_then [OF runs_conseq [OF admit] runs_login_verify]])
      (auto split: sum.split intro: runs_return runs_fail weak)
  with assms show ?thesis by (simp add: runs_same)
qed

lemma sessions_logout: "sessions_ok env s \<Longrightarrow> sessions_ok env (snd (logout env headers s))"
proof -
  have drop: "runs (sessions_ok env) (fr_store (delete_admin_session h))
      (\<lambda>_ s. sessions_ok env s \<and> hget (ab_sessions (fr_tables s)) h = None) (\<lambda>_. sessions_ok env)" for h
    by (rule runs_tables) (auto simp: sessions_ok_def delete_admin_session_def)
  have left: "runs (\<lambda>s. sessions_ok env s \<and> hget (ab_sessions (fr_tables s)) h = None) (note_left h)
      (\<lambda>_. sessions_ok env) (\<lambda>_. sessions_ok env)" for h
    by (auto simp: runs_def note_left_def sessions_ok_def)
  have "runs (sessions_ok env) (logout env headers) (\<lambda>_. sessions_ok env) (\<lambda>_. sessions_ok env)"
    unfolding logout_def
    by (rule runs_then [where R = "sessions_ok env"])
      (auto intro: runs_return runs_then [OF drop left] split: option.split)
  then show "sessions_ok env s \<Longrightarrow> ?thesis" by (simp add: runs_same)
qed

lemma sessions_step: "front_step env s t \<Longrightarrow> sessions_ok env s \<Longrightarrow> sessions_ok env t"
proof (induction rule: front_step.induct)
  case (signs_in s now secret secure utc i headers password)
  then show ?case by (intro sessions_login) (simp add: fresh_session_def)
next
  case (signs_out s headers)
  then show ?case by (rule sessions_logout)
next
  case (cleans_up s ct)
  have "runs (sessions_ok env) (fr_store (drop_expired_sessions ct)) (\<lambda>_. sessions_ok env) (\<lambda>_. sessions_ok env)"
  proof (rule runs_tables)
    fix s :: front and fs assume s: "sessions_ok env s"
    then have "hwf (ab_sessions (fr_tables s))" by (simp add: sessions_ok_def)
    then show drop: "sessions_ok env (with_tables (snd (drop_expired_sessions ct (access_tables s))) fs s)"
      by (intro sessions_ok_sub [OF s]) (auto simp: drop_expired_sessions_def hwf_filter dest: hget_filter)
    then show "sessions_ok env (with_tables (snd (drop_expired_sessions ct (access_tables s))) fs s)" .
    then show "sessions_ok env (with_tables (snd (drop_expired_sessions ct (access_tables s))) fs s)" .
    from s show "sessions_ok env (with_tables (access_tables s) fs s)" by (simp add: sessions_ok_def)
  qed
  with cleans_up show ?case by (simp add: runs_same)
next
  case (first_start s hash)
  have "runs (sessions_ok env) (fr_store (initialize_admin hash)) (\<lambda>_. sessions_ok env) (\<lambda>_. sessions_ok env)"
    by (rule runs_tables) (auto simp: sessions_ok_def initialize_admin_def)
  with first_start show ?case by (simp add: runs_same)
next
  case (restarts s accounts bindings)
  then show ?case by (simp add: sessions_ok_def server_started_def)
next
  case (others_act g s)
  then show ?case by (simp add: sessions_ok_def)
qed (erule sess_keeps [rotated], rule sess_kept)+

lemma sessions_reachable: "front_reachable env s \<Longrightarrow> sessions_ok env s"
proof (induction rule: reach.induct)
  case (reach_init s)
  then show ?case by (simp add: front_new_def sessions_ok_def hwf_def)
qed (rule sessions_step)

text \<open>What passing the guard takes.\<close>

lemma reading_result: "fr_store f s = (Inr x, s') \<Longrightarrow> fst (f (access_tables s)) = Inr x"
  by (auto simp: fr_store_def Let_def split: list.splits fault.splits)

lemma guard_passed:
  assumes "admin_guard env t method headers s = (Inr u, s')"
  obtains v i e where "cookie headers = Some v" "hget (ab_sessions (fr_tables s)) (ae_hash env v) = Some (i, e)" "t < e"
    "method \<in> {''GET'', ''HEAD''} \<or> csrf headers = Inr ()"
proof -
  let ?check = "if method \<in> {''GET'', ''HEAD''} then act_return () else fr_res (csrf headers)"
  from assms obtain c s1 where check: "?check s = (Inr c, s1)"
    and rest: "act_bind (act_or err_login_required (cookie headers)) (\<lambda>v.
      act_bind (fr_store (admin_session t (ae_hash env v))) (\<lambda>found.
      act_bind (act_or err_session_expired found) (\<lambda>_. act_return ()))) s1 = (Inr u, s')"
    unfolding admin_guard_def act_then_def bind_Inr by blast
  have s1: "s1 = s" and ok: "method \<in> {''GET'', ''HEAD''} \<or> csrf headers = Inr ()"
    using check by (auto simp: fr_res_def act_return_def act_fail_def split: if_splits sum.splits)
  from rest obtain v where v: "cookie headers = Some v"
    by (cases "cookie headers") (auto simp: act_or_def act_fail_def act_bind_def)
  from rest v obtain found s2 where found: "fr_store (admin_session t (ae_hash env v)) s = (Inr found, s2)"
    and "found \<noteq> None"
    unfolding s1 by (auto simp: act_or_def bind_Inr act_return_def act_fail_def split: option.splits)
  then obtain p where "fst (admin_session t (ae_hash env v) (access_tables s)) = Inr (Some p)" using reading_result by fastforce
  then obtain i e where "hget (ab_sessions (fr_tables s)) (ae_hash env v) = Some (i, e)" "t < e"
    by (auto simp: admin_session_def filter_option_def split: option.splits if_splits)
  then show thesis using that v ok by blast
qed

text \<open>
  C24. Administrative requests: one that passes the guard carries the cookie of a session that was
  given less than twelve hours before to somebody who entered the password whose hash is stored,
  and that has not been signed out since; one that can change anything also carries the CSRF header
  and does not come from another site. This holds whatever was lost, restarted or cleaned up.
\<close>

theorem admin_needs_login:
  assumes "front_reachable env s" and "fst (admin_guard env t method headers s) = Inr ()"
  shows "\<exists>v since password hash. cookie headers = Some v
    \<and> (ae_hash env v, since, password) \<in> set (fr_verified s) \<and> t < since + twelve_hours
    \<and> ab_admin (fr_tables s) = Some hash \<and> verify_password env password hash
    \<and> ae_hash env v \<notin> fr_left s
    \<and> (method \<notin> {''GET'', ''HEAD''} \<longrightarrow> header_text_of headers ''x-xxgate-csrf'' = Some ''1''
         \<and> header_text_of headers ''sec-fetch-site'' \<noteq> Some ''cross-site'')"
proof -
  from assms(2) obtain s' where "admin_guard env t method headers s = (Inr (), s')" by (metis prod.collapse)
  then obtain v i e where v: "cookie headers = Some v" "hget (ab_sessions (fr_tables s)) (ae_hash env v) = Some (i, e)" "t < e"
    and c: "method \<in> {''GET'', ''HEAD''} \<or> csrf headers = Inr ()" by (rule guard_passed)
  have ok: "sessions_ok env s" using assms(1) by (rule sessions_reachable)
  with v(2) have left: "ae_hash env v \<notin> fr_left s" unfolding sessions_ok_def by blast
  from ok v(2) obtain since p where since: "(ae_hash env v, since, p) \<in> set (fr_verified s)" "e = since + twelve_hours"
    unfolding sessions_ok_def by blast
  with ok obtain hash where "ab_admin (fr_tables s) = Some hash" "verify_password env p hash"
    unfolding sessions_ok_def by blast
  moreover have "method \<notin> {''GET'', ''HEAD''} \<longrightarrow> header_text_of headers ''x-xxgate-csrf'' = Some ''1''
      \<and> header_text_of headers ''sec-fetch-site'' \<noteq> Some ''cross-site''"
    using c unfolding csrf_def by (metis Inl_Inr_False)
  ultimately show ?thesis using v(1,3) left since by blast
qed

text \<open>
  C25. Guessing is slow: in no minute of the monotone clock of one run of the server are more than ten
  passwords checked, and a sign-in that succeeds, or is refused for its password, is one of those.
  A restart forgets the attempts before it.
\<close>

theorem login_rate:
  assumes "front_reachable env s" and "fr_now s \<le> now"
    and "login env secure now utc i secret headers password s = (r, s')"
  shows "length (filter (\<lambda>x. t \<le> x \<and> x < t + 60000) (tried_in n s')) \<le> 10
    \<and> ((\<exists>c. r = Inr c) \<or> r = Inl err_invalid_login \<longrightarrow> now \<in> set (tried_in (fr_run s') s'))"
proof (intro conjI impI)
  have "rate_ok s'" using rate_login [OF rate_reachable [OF assms(1)] assms(2)] assms(3) by (metis snd_conv)
  then show "length (filter (\<lambda>x. t \<le> x \<and> x < t + 60000) (tried_in n s')) \<le> 10" unfolding rate_ok_def by blast
  assume r: "(\<exists>c. r = Inr c) \<or> r = Inl err_invalid_login"
  obtain a s1 where admit: "login_admit now s = (a, s1)" by fastforce
  have c: "csrf headers = Inr ()"
    using r assms(3)
    by (auto simp: login_def csrf_def fr_res_def act_then_def act_bind_def act_fail_def err_csrf_def
        err_cross_site_def err_invalid_login_def error_new_def split: if_splits)
  have "a \<noteq> Inl e" for e
    using r assms(3) c admit
    by (auto simp: login_def fr_res_def act_then_def act_bind_def act_return_def err_invalid_login_def
        login_admit_def Let_def err_login_rate_def error_new_def split: if_splits)
  then have now: "now \<in> set (tried_in (fr_run s1) s1)" and a: "a = Inr ()"
    using admit by (auto simp: login_admit_def Let_def tried_in_def image_iff split: if_splits)
  have "snd (login_verify env secure utc i secret password s1) = s'"
    using assms(3) c admit a by (simp add: login_def fr_res_def act_then_def act_bind_def act_return_def)
  moreover have "logins.keeps (login_view s1) (login_verify env secure utc i secret password)" by (rule logins_verify)
  note logins.keepsD [OF this, of s1]
  ultimately show "now \<in> set (tried_in (fr_run s') s')" using now by (simp add: login_view_def tried_in_def)
qed

text \<open>A first start, a sign-in and an administrative request.\<close>

definition ex_auth :: auth_env where
  "ex_auth = \<lparr>ae_hash = (\<lambda>s. s), ae_verify = (\<lambda>p h. p = h)\<rparr>"

definition ex_front :: front where
  "ex_front = \<lparr>fr_gateway = ex_gateway (sched_new [] [] []) [],
     fr_tables = \<lparr>ab_pg = ex_db, ab_admin = None, ab_sessions = [], ab_keys = [],
       ab_groups = [\<lparr>gr_id = 7, gr_name = ''g'', gr_created_at = 0, gr_updated_at = 0\<rparr>]\<rparr>,
     fr_attempts = [], fr_run = 0, fr_tried = [], fr_now = 0, fr_verified = [], fr_left = {}\<rparr>"

definition ex_login_headers :: header_list where
  "ex_login_headers = [(''x-xxgate-csrf'', ''1'')]"

definition ex_admin_headers :: header_list where
  "ex_admin_headers = [(''cookie'', ''a=b; xxgate_session=s1''), (''x-xxgate-csrf'', ''1'')]"

definition ex_started :: front where
  "ex_started = snd (fr_store (initialize_admin ''pw'') ex_front)"

definition ex_signed_in :: front where
  "ex_signed_in = snd (login ex_auth True 5 7 1 ''s1'' ex_login_headers ''pw'' ex_started)"

lemma ex_front_reach: "front_reachable ex_auth ex_front"
  by (rule reach_init) (simp add: front_new_def ex_front_def keys_apart_def sched_new_def collect_map_def)

lemma ex_started_reach: "front_reachable ex_auth ex_started"
  unfolding ex_started_def by (rule reach_step [OF ex_front_reach first_start])

lemma ex_started_fields: "fr_now ex_started = 0" "fr_verified ex_started = []" "fr_left ex_started = {}"
  by (simp_all add: ex_started_def fr_store_def Let_def ex_front_def)

lemma ex_signed_in_reach: "front_reachable ex_auth ex_signed_in"
  unfolding ex_signed_in_def
  by (rule reach_step [OF ex_started_reach signs_in]) (simp_all add: ex_started_fields)

lemma ex_signing:
  "csrf ex_login_headers = Inr ()" "csrf ex_admin_headers = Inr ()" "cookie ex_admin_headers = Some ''s1''"
  "header_bytes_ok (session_cookie True ''s1'')"
  by code_simp+

lemma ex_started_eq: "ex_started = ex_front\<lparr>fr_tables := (fr_tables ex_front)\<lparr>ab_admin := Some ''pw''\<rparr>\<rparr>"
  by (simp add: ex_started_def fr_store_def Let_def ex_front_def access_tables_def with_tables_def initialize_admin_def
      ex_gateway_def)

lemma ex_signed_in_eq:
  "fr_now ex_signed_in = 5" "fr_attempts ex_signed_in = [5]" "ab_admin (fr_tables ex_signed_in) = Some ''pw''"
  "hget (ab_sessions (fr_tables ex_signed_in)) ''s1'' = Some (1, 7 + twelve_hours)"
  "gw_faults (fr_gateway ex_signed_in) = []"
  by (simp_all add: ex_signed_in_def login_def ex_signing fr_res_def act_then_def act_bind_def act_return_def act_or_def
      login_admit_def Let_def ex_started_eq ex_front_def login_verify_def fr_store_def access_tables_def with_tables_def
      admin_password_hash_def verify_password_def ex_auth_def note_verified_def put_admin_session_def append_admin_event_def
      log_access_def log_event_def ex_gateway_def)

theorem admin_needs_login_witness: "\<exists>v. cookie ex_admin_headers = Some v \<and> ae_hash ex_auth v \<notin> fr_left ex_signed_in"
proof -
  have "fst (admin_guard ex_auth 8 ''PUT'' ex_admin_headers ex_signed_in) = Inr ()"
    by (simp add: admin_guard_def fr_res_def act_then_def act_bind_def act_return_def act_or_def ex_signing fr_store_def
        Let_def admin_session_def filter_option_def ex_auth_def ex_signed_in_eq twelve_hours_def)
  from admin_needs_login [OF ex_signed_in_reach this] show ?thesis by blast
qed

theorem login_rate_witness:
  "\<exists>n. 6 \<in> set (tried_in n (snd (login ex_auth True 6 7 2 ''s2'' ex_login_headers ''no'' ex_signed_in)))"
proof -
  have "fst (login ex_auth True 6 7 2 ''s2'' ex_login_headers ''no'' ex_signed_in) = Inl err_invalid_login"
    by (simp add: login_def ex_signing fr_res_def act_then_def act_bind_def act_return_def act_fail_def act_or_def
        login_admit_def Let_def login_verify_def fr_store_def admin_password_hash_def verify_password_def ex_auth_def
        ex_signed_in_eq)
  moreover have "fr_now ex_signed_in \<le> 6" by (simp add: ex_signed_in_eq)
  ultimately show ?thesis using login_rate [OF ex_signed_in_reach _ prod.collapse [symmetric], of 6] by blast
qed

end
