(* ===== verification/Key_Theorems.thy ===== *)
theory Key_Theorems
  imports Access_Theorems
begin

section \<open>Keys that were switched off\<close>

text \<open>
  The scheduler decides over its copies of the keys. Here: whatever store calls are lost, a copy it
  may use says what the database says, and a deleted key is never let in again. \<open>key_rows_ok\<close> is
  what the tables keep, \<open>granted\<close> what a row of the database allows.
\<close>

definition same_grant :: "gateway_key \<Rightarrow> gateway_key \<Rightarrow> bool" where
  "same_grant a b \<longleftrightarrow> gk_enabled a = gk_enabled b \<and> gk_group_id a = gk_group_id b \<and> gk_name a = gk_name b"

definition granted :: "access \<Rightarrow> uuid \<Rightarrow> gateway_key \<Rightarrow> bool" where
  "granted db i k \<longleftrightarrow> (\<exists>r\<in>set (ab_keys db). live_key i r \<and> same_grant (kr_key r) k)"

definition key_rows_ok :: "access \<Rightarrow> bool" where
  "key_rows_ok db \<longleftrightarrow> distinct (map (\<lambda>r. gk_id (kr_key r)) (ab_keys db)) \<and> distinct (map kr_hash (ab_keys db))
     \<and> (\<forall>r\<in>set (ab_keys db). kr_deleted r \<longrightarrow> \<not> gk_enabled (kr_key r) \<and> gk_group_id (kr_key r) = DEFAULT_GROUP_ID)"

definition deleted_keys :: "access \<Rightarrow> (string \<times> uuid) set" where
  "deleted_keys db = (\<lambda>r. (kr_hash r, gk_id (kr_key r))) ` {r \<in> set (ab_keys db). kr_deleted r}"

definition keys_ok :: "(string \<times> uuid) set \<Rightarrow> front \<Rightarrow> bool" where
  "keys_ok D s \<longleftrightarrow> key_rows_ok (fr_tables s) \<and> D \<subseteq> deleted_keys (fr_tables s)
     \<and> (\<forall>i k. hget (sc_keys (gw_sched (fr_gateway s))) i = Some k \<longrightarrow>
          gk_id k = i \<and> (i \<in> sc_blocked_keys (gw_sched (fr_gateway s)) \<or> granted (fr_tables s) i k))"

lemma same_grant_refl [simp]: "same_grant k k"
  by (simp add: same_grant_def)

lemma keys_same [simp]:
  "granted (access_tables s) = granted (fr_tables s)" "key_rows_ok (access_tables s) = key_rows_ok (fr_tables s)"
  "deleted_keys (access_tables s) = deleted_keys (fr_tables s)"
  by (auto simp: granted_def key_rows_ok_def deleted_keys_def fun_eq_iff)

interpretation keys: front_condition "keys_ok D" for D
  by unfold_locales (simp add: keys_ok_def)

lemma keys_runs_iff: "keys.keeps D m \<longleftrightarrow> runs (keys_ok D) m (\<lambda>_. keys_ok D) (\<lambda>_. keys_ok D)"
  by (simp add: keys.keeps_def runs_same)

subsection \<open>Transactions\<close>

text \<open>A transaction that touches at most the grant of one key, or none.\<close>

definition changes_only :: "uuid set \<Rightarrow> 'a access_tx \<Rightarrow> bool" where
  "changes_only I f \<longleftrightarrow> (\<forall>db. key_rows_ok db \<longrightarrow>
     key_rows_ok (snd (f db)) \<and> deleted_keys db \<subseteq> deleted_keys (snd (f db))
     \<and> (\<forall>j k. j \<notin> I \<longrightarrow> granted db j k \<longrightarrow> granted (snd (f db)) j k))"

lemma changes_onlyD:
  assumes "changes_only I f" and "key_rows_ok db"
  shows "key_rows_ok (snd (f db))" "deleted_keys db \<subseteq> deleted_keys (snd (f db))"
    "j \<notin> I \<Longrightarrow> granted db j k \<Longrightarrow> granted (snd (f db)) j k"
  using assms unfolding changes_only_def by blast+

lemma keys_ok_tables:
  assumes "changes_only I f" and "keys_ok D s" and "I \<subseteq> sc_blocked_keys (gw_sched (fr_gateway s))"
  shows "keys_ok D (with_tables (snd (f (access_tables s))) fs s)"
proof -
  from assms(2) have rows: "key_rows_ok (access_tables s)" by (simp add: keys_ok_def)
  note c = changes_onlyD [OF assms(1) rows]
  have "D \<subseteq> deleted_keys (snd (f (access_tables s)))" using assms(2) c(2) by (auto simp: keys_ok_def)
  with assms(2,3) c(1,3) show ?thesis unfolding keys_ok_def by (simp, blast)
qed

lemma keys_store: "changes_only {} f \<Longrightarrow> keys.keeps D (fr_store f)"
  by (rule keys.keeps_tables) (rule keys_ok_tables [where I = "{}"], simp_all)

lemma changes_none:
  assumes "\<And>db. ab_keys (snd (f db)) = ab_keys db"
  shows "changes_only I f"
  using assms by (simp add: changes_only_def key_rows_ok_def deleted_keys_def granted_def)

text \<open>Rewriting rows one by one, without changing what identifies them.\<close>

lemma changes_rows:
  assumes "\<And>db. ab_keys (snd (f db)) = ab_keys db \<or> ab_keys (snd (f db)) = map g (ab_keys db)"
    and g: "\<And>r. gk_id (kr_key (g r)) = gk_id (kr_key r)" "\<And>r. kr_hash (g r) = kr_hash r"
      "\<And>r. kr_deleted r \<Longrightarrow> kr_deleted (g r)"
    and off: "\<And>r. kr_deleted (g r) \<Longrightarrow> kr_deleted r \<and> same_grant (kr_key (g r)) (kr_key r)
      \<or> \<not> gk_enabled (kr_key (g r)) \<and> gk_group_id (kr_key (g r)) = DEFAULT_GROUP_ID"
    and others: "\<And>r. \<not> kr_deleted r \<Longrightarrow> gk_id (kr_key r) \<notin> I
      \<Longrightarrow> \<not> kr_deleted (g r) \<and> same_grant (kr_key (g r)) (kr_key r)"
  shows "changes_only I f"
proof -
  have "key_rows_ok db' \<and> deleted_keys db \<subseteq> deleted_keys db' \<and> (\<forall>j k. j \<notin> I \<longrightarrow> granted db j k \<longrightarrow> granted db' j k)"
    if db: "key_rows_ok db" and eq: "ab_keys db' = map g (ab_keys db)" for db db' :: access
  proof (intro conjI allI impI)
    show "key_rows_ok db'"
      unfolding key_rows_ok_def eq
    proof (intro conjI ballI impI)
      show "distinct (map (\<lambda>r. gk_id (kr_key r)) (map g (ab_keys db)))" "distinct (map kr_hash (map g (ab_keys db)))"
        using db by (simp_all add: key_rows_ok_def comp_def g)
      fix r' assume "r' \<in> set (map g (ab_keys db))" "kr_deleted r'"
      then obtain r where r: "r \<in> set (ab_keys db)" "r' = g r" "kr_deleted (g r)" by auto
      have "\<not> gk_enabled (kr_key (g r)) \<and> gk_group_id (kr_key (g r)) = DEFAULT_GROUP_ID"
        using off [OF r(3)] db r(1) unfolding key_rows_ok_def same_grant_def by metis
      then show "\<not> gk_enabled (kr_key r')" "gk_group_id (kr_key r') = DEFAULT_GROUP_ID" by (simp_all add: r(2))
    qed
    show "deleted_keys db \<subseteq> deleted_keys db'"
    proof
      fix p assume "p \<in> deleted_keys db"
      then obtain r where r: "r \<in> set (ab_keys db)" "kr_deleted r" "p = (kr_hash r, gk_id (kr_key r))"
        by (auto simp: deleted_keys_def)
      then have "g r \<in> set (ab_keys db')" "kr_deleted (g r)" "p = (kr_hash (g r), gk_id (kr_key (g r)))"
        by (simp_all add: eq g)
      then show "p \<in> deleted_keys db'" unfolding deleted_keys_def by blast
    qed
    fix j k assume j: "j \<notin> I" and "granted db j k"
    then obtain r where r: "r \<in> set (ab_keys db)" "live_key j r" "same_grant (kr_key r) k" by (auto simp: granted_def)
    with j others [of r] have "live_key j (g r)" "same_grant (kr_key (g r)) k"
      by (auto simp: live_key_def same_grant_def g)
    with r(1) show "granted db' j k" unfolding granted_def eq by auto
  qed
  note mapped = this
  show ?thesis
    unfolding changes_only_def
  proof (intro allI impI)
    fix db assume db: "key_rows_ok db"
    let ?db = "snd (f db)"
    show "key_rows_ok ?db \<and> deleted_keys db \<subseteq> deleted_keys ?db \<and> (\<forall>j k. j \<notin> I \<longrightarrow> granted db j k \<longrightarrow> granted ?db j k)"
    proof (cases "ab_keys ?db = ab_keys db")
      case True
      with db show ?thesis by (simp add: key_rows_ok_def deleted_keys_def granted_def)
    next
      case False
      with assms(1) [of db] have "ab_keys ?db = map g (ab_keys db)" by blast
      with mapped db show ?thesis by blast
    qed
  qed
qed

lemma changes_nothing:
  "changes_only I pg_keys" "changes_only I pg_group_rows" "changes_only I (find_key h)"
  "changes_only I (create_group lc t i name)" "changes_only I (rename_group lc t i name)"
  "changes_only I (delete_group i)" "changes_only I (admin_session t h)" "changes_only I (append_admin_event kind)"
  "changes_only I admin_password_hash" "changes_only I (put_admin_session h i e)"
  "changes_only I (delete_admin_session h)" "changes_only I (drop_expired_sessions t)"
  "changes_only I (initialize_admin h)"
  by (rule changes_none;
      simp add: pg_keys_def pg_group_rows_def find_key_def create_group_def rename_group_def delete_group_def
        admin_session_def append_admin_event_def admin_password_hash_def put_admin_session_def delete_admin_session_def
        drop_expired_sessions_def initialize_admin_def Let_def split: sum.split option.split)+

lemma changes_touch: "changes_only {} (touch_key t i)"
  by (rule changes_rows [where g = "\<lambda>r. if gk_id (kr_key r) = i
        \<and> (case gk_last_used_at (kr_key r) of None \<Rightarrow> True | Some u \<Rightarrow> u < t - 60 * 1000000000)
        then r\<lparr>kr_key := (kr_key r)\<lparr>gk_last_used_at := Some t\<rparr>\<rparr> else r"])
    (auto simp: touch_key_def same_grant_def split: if_splits)

lemma changes_write:
  assumes "\<And>k. gk_id (h k) = gk_id k"
    and "\<And>db. ab_keys (snd (f db)) = ab_keys db \<or> ab_keys (snd (f db)) = ab_keys (write_key h i db)"
  shows "changes_only {i} f"
proof (rule changes_rows [where g = "\<lambda>r. if live_key i r then r\<lparr>kr_key := h (kr_key r)\<rparr> else r"])
  show "ab_keys (snd (f db)) = ab_keys db
      \<or> ab_keys (snd (f db)) = map (\<lambda>r. if live_key i r then r\<lparr>kr_key := h (kr_key r)\<rparr> else r) (ab_keys db)" for db
    using assms(2) [of db] by (simp add: write_key_def)
qed (auto simp: live_key_def assms(1) split: if_splits)

lemma changes_set_enabled: "changes_only {i} (pg_set_key_enabled i b)"
  by (rule changes_write [where h = "\<lambda>k. k\<lparr>gk_enabled := b\<rparr>"]) (auto simp: pg_set_key_enabled_def split: option.split)

lemma changes_update_key: "changes_only {i} (pg_update_key i name gid)"
  by (rule changes_write [where h = "\<lambda>k. k\<lparr>gk_name := name, gk_group_id := gid\<rparr>"])
    (auto simp: pg_update_key_def split: option.split sum.split)

lemma changes_delete: "changes_only {i} (pg_delete_key i)"
  by (rule changes_rows [where g = "\<lambda>r. if live_key i r
        then r\<lparr>kr_key := (kr_key r)\<lparr>gk_enabled := False, gk_group_id := DEFAULT_GROUP_ID\<rparr>, kr_deleted := True\<rparr>
        else r"]) (auto simp: pg_delete_key_def live_key_def split: if_splits)

lemma changes_put: "changes_only {} (pg_put_key k h)"
  unfolding changes_only_def
proof (intro allI impI)
  fix db assume db: "key_rows_ok db"
  let ?db = "snd (pg_put_key k h db)"
  let ?r = "\<lparr>kr_key = k\<lparr>gk_last_used_at := None\<rparr>, kr_hash = h, kr_deleted = False\<rparr>"
  have "ab_keys ?db = ab_keys db \<or> (ab_keys ?db = ab_keys db @ [?r]
      \<and> (\<forall>r\<in>set (ab_keys db). gk_id (kr_key r) \<noteq> gk_id k \<and> kr_hash r \<noteq> h))"
    by (auto simp: pg_put_key_def split: sum.split)
  then show "key_rows_ok ?db \<and> deleted_keys db \<subseteq> deleted_keys ?db
      \<and> (\<forall>j k. j \<notin> {} \<longrightarrow> granted db j k \<longrightarrow> granted ?db j k)"
    using db by (auto simp: key_rows_ok_def deleted_keys_def granted_def) blast+
qed

subsection \<open>What answers mean\<close>

definition answers :: "uuid \<Rightarrow> gateway_key access_tx \<Rightarrow> bool" where
  "answers i f \<longleftrightarrow> changes_only {i} f \<and> (\<forall>db k. fst (f db) = Inr k \<longrightarrow> gk_id k = i \<and> granted (snd (f db)) i k)"

lemma find_live: "List.find (live_key i) rs = Some r \<Longrightarrow> r \<in> set rs \<and> live_key i r"
  by (auto simp: find_Some_iff)

lemma answers_write:
  assumes "changes_only {i} f" and "\<And>k. gk_id (h k) = gk_id k"
    and "\<And>db k. fst (f db) = Inr k \<Longrightarrow> \<exists>r. List.find (live_key i) (ab_keys db) = Some r \<and> k = h (kr_key r)
      \<and> ab_keys (snd (f db)) = ab_keys (write_key h i db)"
  shows "answers i f"
  unfolding answers_def
proof (intro conjI allI impI)
  fix db k assume "fst (f db) = Inr k"
  from assms(3) [OF this] obtain r where r: "r \<in> set (ab_keys db)" "live_key i r" "k = h (kr_key r)"
    and eq: "ab_keys (snd (f db)) = ab_keys (write_key h i db)"
    using find_live by blast
  then show "gk_id k = i" using assms(2) by (simp add: live_key_def)
  have "r\<lparr>kr_key := k\<rparr> \<in> set (ab_keys (snd (f db)))" using r unfolding eq write_key_def by auto
  moreover have "live_key i (r\<lparr>kr_key := k\<rparr>)" using r(2,3) assms(2) by (simp add: live_key_def)
  ultimately show "granted (snd (f db)) i k" unfolding granted_def by force
qed (rule assms(1))

lemma answers_set_enabled: "answers i (pg_set_key_enabled i b)"
  by (rule answers_write [OF changes_set_enabled, where h = "\<lambda>k. k\<lparr>gk_enabled := b\<rparr>"])
    (auto simp: pg_set_key_enabled_def split: option.splits)

lemma answers_update_key: "answers i (pg_update_key i name gid)"
  by (rule answers_write [OF changes_update_key, where h = "\<lambda>k. k\<lparr>gk_name := name, gk_group_id := gid\<rparr>"])
    (auto simp: pg_update_key_def split: option.splits sum.splits)

subsection \<open>Scheduler operations\<close>

definition has_grant :: "(string \<times> uuid) set \<Rightarrow> gateway_key \<Rightarrow> front \<Rightarrow> bool" where
  "has_grant D k s \<longleftrightarrow> keys_ok D s \<and> granted (fr_tables s) (gk_id k) k"

lemma fr_sched_run: "fr_sched f s = (Inr (), s\<lparr>fr_gateway := (fr_gateway s)\<lparr>gw_sched := f (gw_sched (fr_gateway s))\<rparr>\<rparr>)"
  by (simp add: fr_sched_def fr_gate_def act_sched_def)

lemma keys_update: "runs (has_grant D k) (fr_sched (update_key k)) (\<lambda>_. keys_ok D) E"
  by (auto simp: runs_def fr_sched_run has_grant_def keys_ok_def update_key_def)

lemma keys_update_all: "runs (\<lambda>s. keys_ok D s \<and> (\<forall>k\<in>set ks. granted (fr_tables s) (gk_id k) k))
    (act_each (\<lambda>k. fr_sched (update_key k)) ks) (\<lambda>_. keys_ok D) (\<lambda>_. keys_ok D)"
proof -
  let ?P = "\<lambda>s. keys_ok D s \<and> (\<forall>k\<in>set ks. granted (fr_tables s) (gk_id k) k)"
  have "runs ?P (fr_sched (update_key k)) (\<lambda>_. ?P) (\<lambda>_. keys_ok D)" if "k \<in> set ks" for k
    using that by (auto simp: runs_def fr_sched_run keys_ok_def update_key_def)
  then show ?thesis by (rule runs_conseq [OF runs_each]) auto
qed

lemma keys_block: "runs (keys_ok D) (fr_sched (block_key i))
    (\<lambda>_ s. keys_ok D s \<and> i \<in> sc_blocked_keys (gw_sched (fr_gateway s))) E"
  by (auto simp: runs_def fr_sched_run keys_ok_def block_key_def)

lemma keys_pause: "keys.keeps D (fr_sched (set_paused True))"
  by (auto simp: keys.keeps_def fr_sched_run keys_ok_def set_paused_def)

lemma keys_remove: "runs (keys_ok D) (fr_sched (remove_key i)) (\<lambda>_. keys_ok D) E"
  by (auto simp: runs_def fr_sched_run keys_ok_def remove_key_def)

subsection \<open>The handlers\<close>

lemma runs_changes:
  assumes "changes_only I f"
  shows "runs (\<lambda>s. keys_ok D s \<and> I \<subseteq> sc_blocked_keys (gw_sched (fr_gateway s))) (fr_store f)
    (\<lambda>x s. keys_ok D s) (\<lambda>_. keys_ok D)"
  using keys_ok_tables [OF assms] keys.cond_lost by (intro runs_tables) blast+

lemma granted_live: "r \<in> set (ab_keys db) \<Longrightarrow> \<not> kr_deleted r \<Longrightarrow> granted db (gk_id (kr_key r)) (kr_key r)"
  using same_grant_refl unfolding granted_def live_key_def by blast

lemma keys_reconcile: "keys.keeps D reconcile_keys"
proof -
  let ?Q = "\<lambda>ks s. keys_ok D s \<and> (\<forall>k\<in>set ks. granted (fr_tables s) (gk_id k) k)"
  have list: "runs (keys_ok D) (fr_store pg_keys) ?Q (\<lambda>_. keys_ok D)"
    by (rule runs_tables) (auto simp: keys_ok_def pg_keys_def granted_live)
  have "runs (keys_ok D) (act_try (fr_store pg_keys)) (\<lambda>r. case r of Inr ks \<Rightarrow> ?Q ks | Inl _ \<Rightarrow> keys_ok D) (\<lambda>_. keys_ok D)"
    by (rule runs_try, rule runs_conseq [OF list]) auto
  then have "runs (keys_ok D) reconcile_keys (\<lambda>_. keys_ok D) (\<lambda>_. keys_ok D)"
    unfolding reconcile_keys_def
  proof (rule runs_bind)
    fix r
    show "runs (case r of Inr ks \<Rightarrow> ?Q ks | Inl _ \<Rightarrow> keys_ok D)
        (case r of Inl _ \<Rightarrow> fr_sched (set_paused True) | Inr ks \<Rightarrow> act_each (\<lambda>k. fr_sched (update_key k)) ks)
        (\<lambda>_. keys_ok D) (\<lambda>_. keys_ok D)"
      using keys_pause [of D] keys_update_all [of D] by (cases r) (simp_all add: keys_runs_iff)
  qed
  then show ?thesis by (simp add: keys_runs_iff)
qed

lemma keys_changed:
  assumes "answers i f"
  shows "keys.keeps D (changed_key i f)"
proof -
  let ?B = "\<lambda>s. keys_ok D s \<and> i \<in> sc_blocked_keys (gw_sched (fr_gateway s))"
  from assms have c: "changes_only {i} f" by (simp add: answers_def)
  have store: "runs ?B (fr_store f) (has_grant D) (\<lambda>_. keys_ok D)"
  proof (rule runs_tables)
    fix s fs assume s: "?B s"
    then show "keys_ok D (with_tables (access_tables s) fs s)" by (simp add: keys.cond_lost)
    show ok: "keys_ok D (with_tables (snd (f (access_tables s))) fs s)" using s by (intro keys_ok_tables [OF c]) auto
    then show "keys_ok D (with_tables (snd (f (access_tables s))) fs s)" .
    fix k assume "fst (f (access_tables s)) = Inr k"
    with assms ok show "has_grant D k (with_tables (snd (f (access_tables s))) fs s)"
      by (auto simp: answers_def has_grant_def)
  qed
  have "runs ?B (act_try (fr_store f)) (\<lambda>r. case r of Inr k \<Rightarrow> has_grant D k | Inl _ \<Rightarrow> keys_ok D) (\<lambda>_. keys_ok D)"
    by (rule runs_try, rule runs_conseq [OF store]) auto
  then have "runs ?B (act_bind (act_try (fr_store f)) (\<lambda>r. case r of
        Inr k \<Rightarrow> act_then (fr_sched (update_key k)) (act_return k) | Inl e \<Rightarrow> act_then reconcile_keys (act_fail e)))
      (\<lambda>_. keys_ok D) (\<lambda>_. keys_ok D)"
  proof (rule runs_bind)
    fix r
    show "runs (case r of Inr k \<Rightarrow> has_grant D k | Inl _ \<Rightarrow> keys_ok D)
        (case r of Inl e \<Rightarrow> act_then reconcile_keys (act_fail e)
         | Inr k \<Rightarrow> act_then (fr_sched (update_key k)) (act_return k)) (\<lambda>_. keys_ok D) (\<lambda>_. keys_ok D)"
    proof (cases r)
      case (Inl e)
      with keys.keeps_then [OF keys_reconcile keys.keeps_fail, of D e] show ?thesis by (simp add: keys_runs_iff)
    next
      case (Inr k)
      then show ?thesis by (simp add: runs_then [OF keys_update runs_return])
    qed
  qed
  then show ?thesis unfolding changed_key_def keys_runs_iff by (rule runs_then [OF keys_block])
qed

lemma keys_delete: "keys.keeps D (admin_delete_key i)"
proof -
  let ?B = "\<lambda>s. keys_ok D s \<and> i \<in> sc_blocked_keys (gw_sched (fr_gateway s))"
  have store: "runs ?B (fr_store (pg_delete_key i)) (\<lambda>_. keys_ok D) (\<lambda>_. keys_ok D)"
    by (rule runs_conseq [OF runs_changes [OF changes_delete [of i], of D]]) auto
  have "runs ?B (act_bind (act_try (fr_store (pg_delete_key i))) (\<lambda>r. case r of
        Inl e \<Rightarrow> act_then reconcile_keys (act_fail e) | Inr _ \<Rightarrow> fr_sched (remove_key i)))
      (\<lambda>_. keys_ok D) (\<lambda>_. keys_ok D)"
  proof (rule runs_bind [OF runs_try [OF store]])
    fix r :: "err + unit"
    show "runs (keys_ok D) (case r of Inl e \<Rightarrow> act_then reconcile_keys (act_fail e) | Inr _ \<Rightarrow> fr_sched (remove_key i))
        (\<lambda>_. keys_ok D) (\<lambda>_. keys_ok D)"
      using keys.keeps_then [OF keys_reconcile keys.keeps_fail, of D] keys_remove [of D i "\<lambda>_. keys_ok D"]
      by (cases r) (simp_all add: keys_runs_iff)
  qed
  then show ?thesis unfolding admin_delete_key_def keys_runs_iff by (rule runs_then [OF keys_block])
qed

lemma validate_sched: "gw_sched (snd (validate_selection ids g)) = gw_sched g"
  by (auto simp: validate_selection_def act_bind_def act_store_def pg_list_groups_def act_fail_def act_return_def
      split: list.split fault.split)

lemma keys_validate: "keys.keeps D (fr_gate (validate_selection ids))"
  by (rule keys.keeps_gate) (simp add: keys_ok_def validate_sched)

lemma keys_create: "keys.keeps D (create_key env t i random name gid)"
proof -
  have put: "runs (keys_ok D) (fr_store (pg_put_key k h)) (\<lambda>_. has_grant D k) (\<lambda>_. keys_ok D)" for k h
  proof (rule runs_tables)
    fix s fs assume s: "keys_ok D s"
    then show "keys_ok D (with_tables (access_tables s) fs s)" by (simp add: keys.cond_lost)
    show ok: "keys_ok D (with_tables (snd (pg_put_key k h (access_tables s))) fs s)"
      using s by (intro keys_ok_tables [OF changes_put]) auto
    then show "keys_ok D (with_tables (snd (pg_put_key k h (access_tables s))) fs s)" .
    fix u assume "fst (pg_put_key k h (access_tables s)) = Inr u"
    then have "granted (snd (pg_put_key k h (access_tables s))) (gk_id k) k"
      by (auto simp: pg_put_key_def granted_def live_key_def same_grant_def split: sum.splits if_splits)
    with ok show "has_grant D k (with_tables (snd (pg_put_key k h (access_tables s))) fs s)" by (simp add: has_grant_def)
  qed
  have "keys.keeps D (act_then (fr_store (pg_put_key k h)) (act_then (fr_sched (update_key k)) (act_return x)))"
    for k h and x :: "gateway_key \<times> string"
    unfolding keys_runs_iff by (rule runs_then [OF put runs_then [OF keys_update runs_return]])
  then show ?thesis
    unfolding create_key_def Let_def
    by (intro keys.keeps_then [OF keys.keeps_res] keys.keeps_then [OF keys_validate])
qed

lemmas keys_rules = keys.keeps_return keys.keeps_fail keys.keeps_read keys.keeps_or keys.keeps_res keys.keeps_bind
  keys.keeps_then keys_store keys_validate

lemma keys_login: "keys.keeps D (login env secure now utc i secret headers password)"
proof -
  have "keys.keeps D (login_admit now)" "keys.keeps D (note_verified h t p)" for h t p
    by (simp_all add: keys.keeps_def login_admit_def note_verified_def keys_ok_def Let_def)
  then show ?thesis
    unfolding login_def login_verify_def by (auto intro!: keys_rules changes_nothing)
qed

lemma keys_kept:
  "keys.keeps D (logout env headers)" "keys.keeps D (admin_guard env t method headers)"
  "keys.keeps D (present_key env t headers)" "keys.keeps D (enable_key i b)"
  "keys.keeps D (rename_key i name gid)" "keys.keeps D (admin_create_group lc t i name)"
  "keys.keeps D (admin_rename_group lc t i name)" "keys.keeps D (admin_remove_group i)"
  "keys.keeps D admin_list_groups"
proof -
  have "keys.keeps D (note_left h)" for h by (simp add: keys.keeps_def note_left_def keys_ok_def)
  then show "keys.keeps D (logout env headers)"
    unfolding logout_def by (auto intro!: keys_rules changes_nothing split: option.split)
qed (auto simp: admin_guard_def present_key_def key_by_hash_def enable_key_def rename_key_def admin_create_group_def
    admin_rename_group_def admin_remove_group_def admin_list_groups_def split: option.split
    intro!: keys_rules changes_nothing changes_touch keys_changed answers_set_enabled answers_update_key)

lemma keys_start:
  assumes "keys_ok D s"
  shows "keys_ok D (server_started accounts bindings s)"
proof -
  let ?ks = "sort_key (\<lambda>k. - gk_created_at k) (map kr_key (filter (\<lambda>r. \<not> kr_deleted r) (ab_keys (fr_tables s))))"
  have "granted (fr_tables s) (gk_id k) k" if "k \<in> set ?ks" for k
    using that by (auto simp: granted_live)
  with assms collect_map_spec [of gk_id ?ks] show ?thesis
    unfolding keys_ok_def server_started_def sched_new_def by simp blast
qed

lemma keys_step: "front_step env s t \<Longrightarrow> keys_ok D s \<Longrightarrow> keys_ok D t"
proof (induction rule: front_step.induct)
  case (restarts s accounts bindings)
  then show ?case by (rule keys_start)
next
  case (others_act g s)
  then show ?case by (simp add: keys_ok_def keys_apart_def)
next
  case (creates_key s)
  then show ?case using keys.keepsD [OF keys_create] by blast
next
  case (deletes_key s)
  then show ?case using keys.keepsD [OF keys_delete] by blast
next
  case (signs_in s)
  then show ?case using keys.keepsD [OF keys_login] by blast
qed (erule keys.keepsD [rotated], rule keys_kept keys_store | rule changes_nothing)+

lemma keys_reachable: "front_reachable env s \<Longrightarrow> keys_ok {} s"
proof (induction rule: reach.induct)
  case (reach_init s)
  then show ?case by (simp add: front_new_def keys_ok_def key_rows_ok_def keys_apart_def)
qed (rule keys_step)

lemma keys_from:
  assumes "front_reachable env s" and "(front_step env)\<^sup>*\<^sup>* s t"
  shows "keys_ok (deleted_keys (fr_tables s)) t"
  using assms(2)
proof (induction rule: rtranclp_induct)
  case base
  from keys_reachable [OF assms(1)] show ?case by (simp add: keys_ok_def)
qed (rule keys_step)

subsection \<open>What it means for keys\<close>

text \<open>
  C26. The scheduler's copy of a key may be out of date only while it is blocked: an unblocked copy
  has the state, the group and the name that the key's row has, and the row is not deleted. Changes
  whose commit was made and whose acknowledgement was lost, failing reloads and restarts included.
\<close>

theorem key_copies_agree:
  assumes "front_reachable env s" and "hget (sc_keys (gw_sched (fr_gateway s))) i = Some k"
    and "i \<notin> sc_blocked_keys (gw_sched (fr_gateway s))"
  shows "\<exists>r\<in>set (ab_keys (fr_tables s)). gk_id (kr_key r) = i \<and> \<not> kr_deleted r
    \<and> gk_enabled k = gk_enabled (kr_key r) \<and> gk_group_id k = gk_group_id (kr_key r) \<and> gk_name k = gk_name (kr_key r)"
proof -
  from keys_reachable [OF assms(1)] assms(2,3) have "granted (fr_tables s) i k" unfolding keys_ok_def by blast
  then show ?thesis unfolding granted_def live_key_def same_grant_def by auto
qed

text \<open>
  C27. Deleting a key is final: once its row is deleted, no later request with its secret gets in,
  whatever was changed, lost or restarted since, and the scheduler has no copy of it that is not
  blocked.
\<close>

theorem deleted_key_refused:
  assumes "front_reachable env s" and "r \<in> set (ab_keys (fr_tables s))" and "kr_deleted r"
    and "(front_step env)\<^sup>*\<^sup>* s t" and "bearer headers = Some secret" and "ae_hash env secret = kr_hash r"
  shows "fst (present_key env now headers t) \<in> {Inl err_key_invalid, Inl err_storage}
    \<and> (hget (sc_keys (gw_sched (fr_gateway t))) (gk_id (kr_key r)) = None
       \<or> gk_id (kr_key r) \<in> sc_blocked_keys (gw_sched (fr_gateway t)))"
proof -
  have t: "keys_ok (deleted_keys (fr_tables s)) t" using assms(1,4) by (rule keys_from)
  have "(kr_hash r, gk_id (kr_key r)) \<in> deleted_keys (fr_tables s)" using assms(2,3) unfolding deleted_keys_def by blast
  with t have "(kr_hash r, gk_id (kr_key r)) \<in> deleted_keys (fr_tables t)" unfolding keys_ok_def by blast
  then obtain r' where r': "r' \<in> set (ab_keys (fr_tables t))" "kr_deleted r'" "kr_hash r' = kr_hash r"
    "gk_id (kr_key r') = gk_id (kr_key r)" by (auto simp: deleted_keys_def)
  from t have rows: "key_rows_ok (fr_tables t)" by (simp add: keys_ok_def)
  have hash: "q = r'" if "q \<in> set (ab_keys (fr_tables t))" "kr_hash q = kr_hash r" for q
    using rows r'(1,3) that unfolding key_rows_ok_def distinct_map inj_on_def by metis
  have ident: "q = r'" if "q \<in> set (ab_keys (fr_tables t))" "gk_id (kr_key q) = gk_id (kr_key r)" for q
    using rows r'(1,4) that unfolding key_rows_ok_def distinct_map inj_on_def by metis
  have "List.find (usable_key (kr_hash r)) (ab_keys (fr_tables t)) = None"
    using hash r'(2) unfolding find_None_iff usable_key_def by blast
  then have "find_key (kr_hash r) (access_tables t) = (Inr None, access_tables t)" by (simp add: find_key_def)
  then have "fst (present_key env now headers t) \<in> {Inl err_key_invalid, Inl err_storage}"
    using assms(5,6)
    by (auto simp: present_key_def act_or_def act_bind_def act_return_def act_fail_def key_by_hash_def fr_store_def
        Let_def split: list.split fault.split)
  moreover have "\<not> granted (fr_tables t) (gk_id (kr_key r)) k" for k
    using ident r'(2) unfolding granted_def live_key_def by blast
  ultimately show ?thesis using t unfolding keys_ok_def by (metis option.exhaust)
qed

text \<open>A key is created and used, then deleted with the acknowledgement lost.\<close>

definition ex_keyed :: front where
  "ex_keyed = snd (create_key ex_auth 7 11 ''k1'' ''app'' 7 ex_front)"

definition ex_app_key :: gateway_key where
  "ex_app_key = \<lparr>gk_id = 11, gk_group_id = 7, gk_name = ''app'', gk_prefix = ''sk-k1'', gk_enabled = True,
     gk_created_at = 7, gk_last_used_at = None\<rparr>"

definition ex_lost :: front where
  "ex_lost = snd (admin_delete_key 11 (ex_keyed\<lparr>fr_gateway := (fr_gateway ex_keyed)\<lparr>gw_faults := [LostAfter]\<rparr>\<rparr>))"

lemma ex_key_texts: "check_key_name ''app'' = Inr ()" "take_chars 11 ''sk-k1'' = ''sk-k1''"
  "bearer [(''authorization'', ''Bearer sk-k1'')] = Some ''sk-k1''"
  by code_simp+

lemmas access_defs = fr_res_def act_then_def act_bind_def act_return_def act_fail_def act_or_def act_try_def Let_def
  fr_store_def access_tables_def with_tables_def fr_gate_def fr_sched_def act_sched_def log_access_def log_event_def

lemma ex_keyed_eq:
  "fr_tables ex_keyed = log_access ''key_created''
     ((fr_tables ex_front)\<lparr>ab_keys := [\<lparr>kr_key = ex_app_key, kr_hash = ''sk-k1'', kr_deleted = False\<rparr>]\<rparr>)"
  "gw_sched (fr_gateway ex_keyed) = update_key ex_app_key (sched_new [] [] [])"
  "gw_db (fr_gateway ex_keyed) = log_event ''key_created'' ''admin'' None ex_db"
  "gw_faults (fr_gateway ex_keyed) = []"
  by (simp_all add: ex_keyed_def create_key_def access_defs ex_key_texts validate_selection_def act_store_def
      pg_list_groups_def ex_front_def ex_gateway_def pg_put_key_def validate_groups_def ex_auth_def ex_app_key_def ex_db_def)

lemma ex_keyed_reach: "front_reachable ex_auth ex_keyed"
  unfolding ex_keyed_def by (rule reach_step [OF ex_front_reach creates_key])

lemma ex_lost_reach: "front_reachable ex_auth ex_lost"
  unfolding ex_lost_def
  by (rule reach_step [OF reach_step [OF ex_keyed_reach others_act] deletes_key]) simp

theorem key_copies_agree_witness:
  "\<exists>r\<in>set (ab_keys (fr_tables ex_keyed)). gk_id (kr_key r) = 11 \<and> gk_enabled (kr_key r)"
  using key_copies_agree [OF ex_keyed_reach, of 11 ex_app_key]
  by (simp add: ex_keyed_eq update_key_def sched_new_def collect_map_def ex_app_key_def)

theorem deleted_key_refused_witness:
  "fst (present_key ex_auth 9 [(''authorization'', ''Bearer sk-k1'')] ex_lost) \<in> {Inl err_key_invalid, Inl err_storage}"
proof -
  let ?r = "\<lparr>kr_key = ex_app_key\<lparr>gk_enabled := False, gk_group_id := DEFAULT_GROUP_ID\<rparr>, kr_hash = ''sk-k1'', kr_deleted = True\<rparr>"
  have "ab_keys (fr_tables ex_lost) = [?r]"
    by (simp add: ex_lost_def admin_delete_key_def access_defs ex_keyed_eq pg_delete_key_def live_key_def ex_app_key_def
        reconcile_keys_def pg_keys_def)
  then have "?r \<in> set (ab_keys (fr_tables ex_lost))" by simp
  from deleted_key_refused [OF ex_lost_reach this _ rtranclp.rtrancl_refl ex_key_texts(3)] show ?thesis
    by (simp add: ex_auth_def)
qed

end
