(* ===== verification/Json_Gate.thy ===== *)
theory Json_Gate
  imports Memory Actions
begin

section \<open>Building a document under pressure\<close>

text \<open>
  \<open>crates/xxgate-core/src/memory_json.rs\<close>: the values of a body are built one by one, and the
  memory in use is measured before the first and then every 4096 values, and before a long text.
  serde_json's scanner is a parameter: \<open>raw\<close> is what it hands to the visitor, in the order of the
  text, with the places where it finds a syntax error. The measurements are numbered: \<open>io k\<close> is
  what the outside answers to the \<open>k\<close>-th.
\<close>

text \<open>The flag of a sequence or map says that its end is found; \<open>None\<close> is a number that is not finite.\<close>

datatype raw =
    RawNull
  | RawBool bool
  | RawNum "jnum option"
  | RawStr string
  | RawArr "raw list" bool
  | RawObj "(string \<times> raw) list" bool
  | RawBad

datatype parse_stop = InvalidJson | MemoryRejected mem_rejection

record gate =
  gt_memory :: mem_state
  gt_tick :: nat
  gt_nodes :: nat

type_synonym 'a gated = "(gate, parse_stop, 'a) comp"

definition measure_memory :: "(nat \<Rightarrow> mem_io) \<Rightarrow> unit gated" where
  "measure_memory io g =
     (case check_memory (io (gt_tick g)) True (gt_memory g) of
        (Inl e, st) \<Rightarrow> (Inl (MemoryRejected e), g\<lparr>gt_memory := st, gt_tick := Suc (gt_tick g)\<rparr>)
      | (Inr _, st) \<Rightarrow> (Inr (), g\<lparr>gt_memory := st, gt_tick := Suc (gt_tick g)\<rparr>))"

definition node_check :: "(nat \<Rightarrow> mem_io) \<Rightarrow> bool \<Rightarrow> unit gated" where
  "node_check io force g =
     (let n = Suc (gt_nodes g); g1 = g\<lparr>gt_nodes := n\<rparr>
      in if force \<or> n mod 4096 = 0 then measure_memory io g1 else (Inr (), g1))"

definition long_text :: "string \<Rightarrow> bool" where
  "long_text s \<longleftrightarrow> 1024 * 1024 < length s"

fun build :: "(nat \<Rightarrow> mem_io) \<Rightarrow> raw \<Rightarrow> json gated"
  and build_list :: "(nat \<Rightarrow> mem_io) \<Rightarrow> raw list \<Rightarrow> json list gated"
  and build_map :: "(nat \<Rightarrow> mem_io) \<Rightarrow> (string \<times> raw) list \<Rightarrow> (string, json) hmap \<Rightarrow> (string, json) hmap gated" where
  "build io RawNull = act_then (node_check io False) (act_return JNull)"
| "build io (RawBool b) = act_then (node_check io False) (act_return (JBool b))"
| "build io (RawNum n) = act_then (node_check io False)
     (case n of None \<Rightarrow> act_fail InvalidJson | Some x \<Rightarrow> act_return (JNum x))"
| "build io (RawStr s) = act_then (node_check io False)
     (act_then (if long_text s then node_check io True else act_return ()) (act_return (JStr s)))"
| "build io (RawArr xs ended) = act_then (node_check io False)
     (act_bind (build_list io xs) (\<lambda>vs. if ended then act_return (JArr vs) else act_fail InvalidJson))"
| "build io (RawObj xs ended) = act_then (node_check io False)
     (act_bind (build_map io xs []) (\<lambda>m. if ended then act_return (JObj m) else act_fail InvalidJson))"
| "build io RawBad = act_then (node_check io False) (act_fail InvalidJson)"
| "build_list io [] = act_return []"
| "build_list io (x # xs) = act_bind (build io x) (\<lambda>v. act_bind (build_list io xs) (\<lambda>vs. act_return (v # vs)))"
| "build_map io [] m = act_return m"
| "build_map io ((k, x) # xs) m = act_bind (build io x) (\<lambda>v. build_map io xs (hput k v m))"

definition memory_parse :: "(nat \<Rightarrow> mem_io) \<Rightarrow> raw \<Rightarrow> bool \<Rightarrow> json gated" where
  "memory_parse io raw ended =
     act_then (measure_memory io) (
     act_then (\<lambda>g. (Inr (), g\<lparr>gt_nodes := 0\<rparr>)) (
     act_bind (build io raw) (\<lambda>v. if ended then act_return v else act_fail InvalidJson)))"

subsection \<open>Reading without measuring\<close>

fun plain :: "raw \<Rightarrow> json option"
  and plain_list :: "raw list \<Rightarrow> json list option"
  and plain_map :: "(string \<times> raw) list \<Rightarrow> (string, json) hmap \<Rightarrow> (string, json) hmap option" where
  "plain RawNull = Some JNull"
| "plain (RawBool b) = Some (JBool b)"
| "plain (RawNum n) = map_option JNum n"
| "plain (RawStr s) = Some (JStr s)"
| "plain (RawArr xs ended) = (if ended then map_option JArr (plain_list xs) else None)"
| "plain (RawObj xs ended) = (if ended then map_option JObj (plain_map xs []) else None)"
| "plain RawBad = None"
| "plain_list [] = Some []"
| "plain_list (x # xs) = Option.bind (plain x) (\<lambda>v. map_option ((#) v) (plain_list xs))"
| "plain_map [] m = Some m"
| "plain_map ((k, x) # xs) m = Option.bind (plain x) (\<lambda>v. plain_map xs (hput k v m))"

fun raw_nodes :: "raw \<Rightarrow> nat" where
  "raw_nodes (RawArr xs ended) = Suc (sum_list (map raw_nodes xs))"
| "raw_nodes (RawObj xs ended) = Suc (sum_list (map (\<lambda>(k, x). raw_nodes x) xs))"
| "raw_nodes r = 1"

text \<open>
  What a computation may do: it gives the plain value, or fails where the plain reading does, or
  was stopped by a measurement; \<open>measured\<close> says that it measured often enough for its values.
\<close>

definition measured :: "(nat \<Rightarrow> mem_io) \<Rightarrow> nat \<Rightarrow> gate \<Rightarrow> gate \<Rightarrow> bool" where
  "measured io n g g' \<longleftrightarrow> gt_nodes g + n \<le> gt_nodes g' \<and> gt_nodes g' div 4096 + gt_tick g \<le> gt_tick g' + gt_nodes g div 4096
     \<and> gt_tick g \<le> gt_tick g'"

definition rejected_at :: "(nat \<Rightarrow> mem_io) \<Rightarrow> gate \<Rightarrow> gate \<Rightarrow> mem_rejection \<Rightarrow> bool" where
  "rejected_at io g g' e \<longleftrightarrow>
     (\<exists>k st. gt_tick g \<le> k \<and> k < gt_tick g' \<and> fst (check_memory (io k) True st) = Inl e)"

definition follows :: "(nat \<Rightarrow> mem_io) \<Rightarrow> nat \<Rightarrow> 'a option \<Rightarrow> gate \<Rightarrow> (parse_stop + 'a) \<times> gate \<Rightarrow> bool" where
  "follows io n p g res \<longleftrightarrow>
     (case res of
        (Inr v, g') \<Rightarrow> p = Some v \<and> measured io n g g'
      | (Inl InvalidJson, g') \<Rightarrow> p = None \<and> gt_tick g \<le> gt_tick g'
      | (Inl (MemoryRejected e), g') \<Rightarrow> rejected_at io g g' e)"

lemma rejected_later: "gt_tick g \<le> gt_tick g1 \<Longrightarrow> rejected_at io g1 g2 e \<Longrightarrow> rejected_at io g g2 e"
  unfolding rejected_at_def by (meson le_trans)

lemma follows_bind:
  assumes "follows io n p g (m g)" and "\<And>v g'. p = Some v \<Longrightarrow> follows io k (q v) g' (f v g')"
  shows "follows io (n + k) (Option.bind p q) g (act_bind m f g)"
proof (cases "m g")
  case (Pair r g1)
  show ?thesis
  proof (cases r)
    case (Inl s)
    with Pair assms(1) show ?thesis by (cases s) (simp_all add: follows_def act_bind_def)
  next
    case (Inr v)
    with Pair assms(1) have p: "p = Some v" and m: "measured io n g g1" by (simp_all add: follows_def)
    from assms(2) [OF p, of g1] have f: "follows io k (q v) g1 (f v g1)" .
    have "follows io (n + k) (q v) g (f v g1)"
    proof (cases "f v g1")
      case (Pair r2 g2)
      with f m show ?thesis
        by (cases r2) (auto simp: follows_def measured_def rejected_later split: parse_stop.splits)
    qed
    with Pair Inr p show ?thesis by (simp add: act_bind_def)
  qed
qed

lemma follows_return: "follows io 0 (Some v) g (act_return v g)"
  by (simp add: follows_def act_return_def measured_def)

lemma follows_fail: "follows io 0 None g (act_fail InvalidJson g)"
  by (simp add: follows_def act_fail_def)

lemma follows_measure: "follows io 0 (Some ()) g (measure_memory io g)"
  by (auto simp: follows_def measure_memory_def measured_def rejected_at_def split: prod.split sum.split)
    (metis fst_conv lessI order_refl)

lemma div_Suc_le: "Suc n mod 4096 \<noteq> 0 \<Longrightarrow> Suc n div 4096 = n div (4096 :: nat)"
  by (simp add: div_Suc)

lemma follows_node: "follows io 1 (Some ()) g (node_check io force g)"
proof -
  let ?g = "g\<lparr>gt_nodes := Suc (gt_nodes g)\<rparr>"
  have step: "Suc (gt_nodes g) div 4096 \<le> Suc (gt_nodes g div 4096)" by (simp add: div_Suc)
  obtain r g' where run: "measure_memory io ?g = (r, g')" by fastforce
  then have g': "gt_nodes g' = Suc (gt_nodes g)" "gt_tick g' = Suc (gt_tick g)"
    by (auto simp: measure_memory_def split: prod.splits sum.splits)
  have "follows io 0 (Some ()) ?g (r, g')" using follows_measure [of io ?g] run by simp
  then have "follows io 1 (Some ()) g (r, g')"
    using g' step by (auto simp: follows_def measured_def rejected_at_def split: sum.splits parse_stop.splits)
  then show ?thesis
    using run div_Suc_le [of "gt_nodes g"]
    by (auto simp: node_check_def Let_def follows_def measured_def)
qed

lemma follows_after:
  "(\<And>g'. follows io k q g' (f g')) \<Longrightarrow> follows io (Suc k) q g (act_then (node_check io force) f g)"
  using follows_bind [where m = "node_check io force" and f = "\<lambda>_. f" and q = "\<lambda>_. q" and k = k, OF follows_node]
  by (simp add: act_then_def)

lemma follows_less: "follows io n p g res \<Longrightarrow> follows io 0 p g res"
  by (auto simp: follows_def measured_def split: sum.splits parse_stop.splits)

lemma follows_ended:
  assumes "follows io n p g (m g)"
  shows "follows io n (if b then map_option f p else None) g
    (act_bind m (\<lambda>v. if b then act_return (f v) else act_fail InvalidJson) g)"
proof -
  have "follows io (n + 0) (Option.bind p (\<lambda>v. if b then Some (f v) else None)) g
      (act_bind m (\<lambda>v. if b then act_return (f v) else act_fail InvalidJson) g)"
    by (rule follows_bind [where m = m, OF assms]) (simp add: follows_return follows_fail)
  moreover have "Option.bind p (\<lambda>v. if b then Some (f v) else None) = (if b then map_option f p else None)"
    by (cases p) simp_all
  ultimately show ?thesis by simp
qed

lemma follows_text:
  "follows io 0 (Some v) g (act_then (if b then node_check io True else act_return ()) (act_return v) g)"
proof (cases b)
  case True
  then show ?thesis using follows_less [OF follows_after [OF follows_return]] by simp
next
  case False
  then show ?thesis by (simp add: act_then_def act_bind_def act_return_def follows_def measured_def)
qed

lemma follows_build:
  "follows io (raw_nodes r) (plain r) g (build io r g)"
  "follows io (sum_list (map raw_nodes xs)) (plain_list xs) g (build_list io xs g)"
  "follows io (sum_list (map (\<lambda>(k, x). raw_nodes x) ps)) (plain_map ps m) g (build_map io ps m g)"
proof (induction io r and io xs and io ps m arbitrary: g and g and g rule: build_build_list_build_map.induct)
  case (3 io n)
  show ?case by (cases n) (simp_all add: follows_after follows_return follows_fail)
next
  case (4 io s)
  show ?case by (simp add: follows_after follows_text)
next
  case (9 io x xs)
  have "follows io (sum_list (map raw_nodes xs) + 0) (Option.bind (plain_list xs) (\<lambda>vs. Some (v # vs))) g'
      (act_bind (build_list io xs) (\<lambda>vs. act_return (v # vs)) g')" for v g'
    by (rule follows_bind [where m = "build_list io xs", OF 9(2)]) (rule follows_return)
  then have "follows io (raw_nodes x + sum_list (map raw_nodes xs))
      (Option.bind (plain x) (\<lambda>v. Option.bind (plain_list xs) (\<lambda>vs. Some (v # vs)))) g (build_list io (x # xs) g)"
    by (simp only: build_list.simps) (rule follows_bind [where m = "build io x", OF 9(1)], simp)
  moreover have "Option.bind (plain_list xs) (\<lambda>vs. Some (v # vs)) = map_option ((#) v) (plain_list xs)" for v
    by (cases "plain_list xs") simp_all
  ultimately show ?case by simp
next
  case (11 io k x xs m)
  show ?case
    using follows_bind [where m = "build io x" and f = "\<lambda>v. build_map io xs (hput k v m)", OF 11(1) 11(2)] by simp
qed (simp_all add: follows_after follows_return follows_fail follows_ended)

text \<open>What is left once the first measurement has found room.\<close>

lemma parse_after:
  assumes "memory_parse io raw ended g = (r, g')" "measure_memory io g = (Inr u, g1)"
  shows "follows io (raw_nodes raw) (if ended then plain raw else None) (g1\<lparr>gt_nodes := 0\<rparr>) (r, g')"
    "gt_tick g1 = Suc (gt_tick g)"
proof -
  have "act_bind (build io raw) (\<lambda>v. if ended then act_return v else act_fail InvalidJson) (g1\<lparr>gt_nodes := 0\<rparr>) = (r, g')"
    using assms by (simp add: memory_parse_def act_then_def act_bind_def)
  moreover have "follows io (raw_nodes raw) (if ended then map_option (\<lambda>v. v) (plain raw) else None) (g1\<lparr>gt_nodes := 0\<rparr>)
      (act_bind (build io raw) (\<lambda>v. if ended then act_return v else act_fail InvalidJson) (g1\<lparr>gt_nodes := 0\<rparr>))"
    by (rule follows_ended [where m = "build io raw" and f = "\<lambda>v. v", OF follows_build(1)])
  ultimately show "follows io (raw_nodes raw) (if ended then plain raw else None) (g1\<lparr>gt_nodes := 0\<rparr>) (r, g')"
    by (cases ended) (simp_all add: option.map_ident)
  show "gt_tick g1 = Suc (gt_tick g)"
    using assms(2) by (auto simp: measure_memory_def split: prod.splits sum.splits)
qed

lemma parse_value:
  assumes "memory_parse io raw ended g = (Inr v, g')"
  shows "ended" "plain raw = Some v"
proof -
  obtain u g1 where "measure_memory io g = (Inr u, g1)"
    using assms by (auto simp: memory_parse_def act_then_def act_bind_def split: prod.splits sum.splits)
  from parse_after(1) [OF assms this] show "ended" "plain raw = Some v"
    by (simp_all add: follows_def split: if_splits)
qed

text \<open>
  C30. Building a document under measurement: the outcome is the value the text has, or invalid
  where the text is, unless a measurement made in between rejected it; and a document of \<open>n\<close> values
  is built only after at least \<open>1 + n div 4096\<close> measurements that found room.
\<close>

theorem measured_parse:
  assumes "memory_parse io raw ended g = (r, g')"
  shows "(case r of
      Inr v \<Rightarrow> ended \<and> plain raw = Some v \<and> gt_tick g + 1 + raw_nodes raw div 4096 \<le> gt_tick g'
    | Inl InvalidJson \<Rightarrow> \<not> ended \<or> plain raw = None
    | Inl (MemoryRejected e) \<Rightarrow> \<exists>k st. gt_tick g \<le> k \<and> k < gt_tick g' \<and> fst (check_memory (io k) True st) = Inl e)"
proof -
  obtain r1 g1 where first: "measure_memory io g = (r1, g1)" by fastforce
  show ?thesis
  proof (cases r1)
    case (Inl e)
    with assms first follows_measure [of io g] have "r = Inl e" "g' = g1" and f: "follows io 0 (Some ()) g (Inl e, g1)"
      by (simp_all add: memory_parse_def act_then_def act_bind_def)
    then show ?thesis by (cases e) (auto simp: follows_def rejected_at_def)
  next
    case (Inr u)
    from parse_after [OF assms first [unfolded Inr]] show ?thesis
      by (auto simp: follows_def measured_def rejected_at_def div_le_mono
          split: sum.splits parse_stop.splits if_splits) (meson Suc_leD)
  qed
qed

text \<open>A map that repeats a key, read while there is room.\<close>

definition ex_raw :: raw where
  "ex_raw = RawObj [(''a'', RawNum (Some (PosInt 1))), (''a'', RawArr [RawNull] True)] True"

definition ex_gate :: gate where
  "ex_gate = \<lparr>gt_memory = mem_new, gt_tick = 0, gt_nodes = 0\<rparr>"

lemma ex_room: "fst (check_memory ex_io True st) = Inr ()"
proof -
  obtain s st1 where run: "status_locked ex_io True st = (s, st1)" by fastforce
  with fresh_status [OF run] ex_sample have "\<not> mt_blocked s" by simp
  with run show ?thesis by (simp add: check_memory_def)
qed

theorem measured_parse_witness:
  "\<exists>g'. memory_parse (\<lambda>_. ex_io) ex_raw True ex_gate = (Inr (JObj [(''a'', JArr [JNull])]), g') \<and> 1 \<le> gt_tick g'"
proof -
  obtain r g' where run: "memory_parse (\<lambda>_. ex_io) ex_raw True ex_gate = (r, g')" by fastforce
  have "plain ex_raw = Some (JObj [(''a'', JArr [JNull])])" by (simp add: ex_raw_def)
  with measured_parse [OF run] have "r = Inr (JObj [(''a'', JArr [JNull])]) \<and> 1 \<le> gt_tick g'"
    by (auto simp: ex_room split: sum.splits parse_stop.splits)
  with run show ?thesis by simp
qed

end
