(* ===== verification/Public_Door.thy ===== *)
theory Public_Door
  imports Admin_Keys Json_Gate Codex_Parse Pg_Requests
begin

section \<open>The public endpoints\<close>

text \<open>
  \<open>crates/xxgate-server/src/http/public.rs\<close>: from the HTTP request of a client to the start of the
  request pipeline, and the record of a request that does not get that far. The state is what one
  request works on: keys and gateway (\<open>front\<close>), the memory gate, the bytes of buffered bodies, the
  records of requests, what is known of the request so far (\<open>RejectedContext\<close>) and what was handed
  to the pipeline. The pipeline itself (\<open>Gateway::start\<close>, \<open>Gateway_Run\<close>) is the argument \<open>de_start\<close>;
  serde's readings and printings are arguments too.
\<close>

record rejected_context =
  rj_client_turn_state :: "turn_state_header option"
  rj_compaction :: "compaction option"
  rj_stateless :: bool
  rj_diagnostics :: json
  rj_stage :: string
  rj_stream :: "bool option"
  rj_key_id :: "uuid option"
  rj_group_id :: "uuid option"
  rj_session :: string
  rj_thread :: string
  rj_model :: string
  rj_bytes :: nat

definition context_default :: rejected_context where
  "context_default =
     \<lparr>rj_client_turn_state = None, rj_compaction = None, rj_stateless = False, rj_diagnostics = JNull,
      rj_stage = [], rj_stream = None, rj_key_id = None, rj_group_id = None, rj_session = [], rj_thread = [],
      rj_model = [], rj_bytes = 0\<rparr>"

text \<open>\<open>Lost\<close>: the task of the request ended without an answer.\<close>

datatype started_response = Streaming | Complete completion | LostTask

type_synonym admitted = "uuid \<times> gateway_key \<times> gateway_request \<times> nat"

record door =
  dr_front :: front
  dr_memory :: mem_state
  dr_tick :: nat
  dr_used :: nat
  dr_lease :: nat
  dr_books :: books
  dr_context :: rejected_context
  dr_started :: "admitted list"

type_synonym 'a dr = "(door, err, 'a) comp"

datatype body_frame = DataFrame string | OtherFrame | BrokenFrame | LateFrame

record http_request =
  hq_method :: string
  hq_path :: string
  hq_query :: "string option"
  hq_headers :: header_list
  hq_body :: "body_frame list"

record http_reply =
  hr_status :: nat
  hr_headers :: header_list
  hr_body :: "string + json"

record door_env =
  de_auth :: auth_env
  de_parse :: parse_env
  de_io :: "nat \<Rightarrow> mem_io"
  de_now :: datetime
  de_done :: datetime
  de_elapsed :: nat
  de_raw :: "string \<Rightarrow> raw \<times> bool"
  de_start :: "admitted \<Rightarrow> front \<times> books \<Rightarrow> started_response res \<times> front \<times> books"
  de_status :: "mem_status \<Rightarrow> json"
  de_origin :: "json \<Rightarrow> client_origin option"
  de_hour :: "datetime \<Rightarrow> int"
  de_id_text :: "uuid \<Rightarrow> string"

subsection \<open>Buffered bytes (scheduling.rs)\<close>

definition bytes_grow :: "nat \<Rightarrow> unit dr" where
  "bytes_grow n d =
     (if 2 ^ 64 \<le> dr_used d + n then (Inl err_storage, d)
      else (Inr (), d\<lparr>dr_used := dr_used d + n, dr_lease := dr_lease d + n\<rparr>))"

definition bytes_resize :: "nat \<Rightarrow> unit dr" where
  "bytes_resize n d =
     (if dr_lease d \<le> n then bytes_grow (n - dr_lease d) d
      else (Inr (), d\<lparr>dr_used := dr_used d - (dr_lease d - n), dr_lease := n\<rparr>))"

definition bytes_drop :: "door \<Rightarrow> door" where
  "bytes_drop d = d\<lparr>dr_used := dr_used d - dr_lease d, dr_lease := 0\<rparr>"

subsection \<open>Steps\<close>

definition in_context :: "(rejected_context \<Rightarrow> rejected_context) \<Rightarrow> unit dr" where
  "in_context f d = (Inr (), d\<lparr>dr_context := f (dr_context d)\<rparr>)"

definition at_stage :: "string \<Rightarrow> unit dr" where
  "at_stage name = in_context (\<lambda>c. c\<lparr>rj_stage := name\<rparr>)"

definition set_member :: "string \<Rightarrow> json \<Rightarrow> json \<Rightarrow> json" where
  "set_member k w v = (case v of JNull \<Rightarrow> JObj [(k, w)] | _ \<Rightarrow> jput k w v)"

definition note_diagnostic :: "string \<Rightarrow> json \<Rightarrow> unit dr" where
  "note_diagnostic k w = in_context (\<lambda>c. c\<lparr>rj_diagnostics := set_member k w (rj_diagnostics c)\<rparr>)"

definition door_res :: "'a res \<Rightarrow> 'a dr" where
  "door_res r = (case r of Inl e \<Rightarrow> act_fail e | Inr x \<Rightarrow> act_return x)"

definition on_front :: "'a fr \<Rightarrow> 'a dr" where
  "on_front m d = (case m (dr_front d) of (r, s) \<Rightarrow> (r, d\<lparr>dr_front := s\<rparr>))"

definition memory_report :: "door_env \<Rightarrow> mem_status \<Rightarrow> door \<Rightarrow> json" where
  "memory_report env status d =
     (let g = fr_gateway (dr_front d); queue = sched_stats (gw_settings g) 0 (gw_sched g) in
      JObj [(''snapshot'', de_status env status), (''inflight_requests'', json_nat (qs_inflight queue)),
            (''queued_requests'', json_nat (qs_queued queue)),
            (''body_bytes_read'', json_nat (rj_bytes (dr_context d)))])"

definition memory_rejection :: "door_env \<Rightarrow> mem_rejection \<Rightarrow> 'a dr" where
  "memory_rejection env e =
     act_bind (act_read (memory_report env (mr_status e))) (\<lambda>report.
     act_then (note_diagnostic ''memory'' report) (act_fail (mr_error e)))"

definition on_memory :: "door_env \<Rightarrow> (mem_io \<Rightarrow> mem_state \<Rightarrow> (mem_rejection + unit) \<times> mem_state) \<Rightarrow> unit dr" where
  "on_memory env f d =
     (case f (de_io env (dr_tick d)) (dr_memory d) of
        (r, st) \<Rightarrow>
          let d1 = d\<lparr>dr_memory := st, dr_tick := Suc (dr_tick d)\<rparr>
          in case r of Inl e \<Rightarrow> memory_rejection env e d1 | Inr _ \<Rightarrow> (Inr (), d1))"

definition leave_memory :: "door \<Rightarrow> door" where
  "leave_memory d = d\<lparr>dr_memory := leave (dr_memory d)\<rparr>"

subsection \<open>Reading the body\<close>

definition err_body_read :: err where
  "err_body_read = error_new 400 ''body_read_failed'' ''Unable to read request body''"

definition err_request_large :: err where
  "err_request_large = error_new 413 ''request_too_large'' ''The request exceeds the configured size limit''"

definition err_request_timeout :: err where
  "err_request_timeout = error_new 408 ''body_timeout'' ''Request body timed out''"

definition body_limit :: "door_env \<Rightarrow> door \<Rightarrow> nat" where
  "body_limit env d = rs_request_body_limit_bytes (io_settings (de_io env (dr_tick d)))"

text \<open>\<open>LateFrame\<close>: thirty seconds have passed before the next frame.\<close>

fun read_frames :: "door_env \<Rightarrow> string \<Rightarrow> body_frame list \<Rightarrow> string dr" where
  "read_frames env body [] = act_return body"
| "read_frames env body (LateFrame # fs) = act_fail err_request_timeout"
| "read_frames env body (BrokenFrame # fs) = act_fail err_body_read"
| "read_frames env body (OtherFrame # fs) = read_frames env body fs"
| "read_frames env body (DataFrame bytes # fs) =
     (let size = length body + length bytes in
      act_then (in_context (\<lambda>c. c\<lparr>rj_bytes := size\<rparr>)) (
      act_bind (act_read (body_limit env)) (\<lambda>limit.
        if limit < size then act_fail err_request_large
        else act_then (on_memory env (\<lambda>io. check_memory io False)) (
          act_then (bytes_resize size) (read_frames env (body @ bytes) fs)))))"

definition err_not_json :: err where
  "err_not_json = err_invalid ''The body must contain valid JSON''"

definition parse_body :: "door_env \<Rightarrow> string \<Rightarrow> json dr" where
  "parse_body env body d =
     (let (raw, ended) = de_raw env body;
          (r, g) = memory_parse (de_io env) raw ended
            \<lparr>gt_memory = dr_memory d, gt_tick = dr_tick d, gt_nodes = 0\<rparr>;
          d1 = d\<lparr>dr_memory := gt_memory g, dr_tick := gt_tick g\<rparr>
      in case r of
           Inr v \<Rightarrow> (Inr v, d1)
         | Inl (MemoryRejected e) \<Rightarrow> memory_rejection env e d1
         | Inl InvalidJson \<Rightarrow>
             act_then (note_diagnostic ''body_status'' (JStr ''invalid_json'')) (act_fail err_not_json) d1)"

subsection \<open>A request up to its start\<close>

definition err_content_encoding :: err where
  "err_content_encoding = error_new 415 ''content_encoding_unsupported'' ''Send an uncompressed JSON request''"

definition err_image_json :: err where
  "err_image_json = error_new 415 ''image_json_required''
     ''Codex Images requires application/json; use images with image_url for edits''"

definition other_content_type :: "header_list \<Rightarrow> bool" where
  "other_content_type headers =
     (case map_of headers ''content-type'' of
        None \<Rightarrow> False
      | Some v \<Rightarrow> \<not> visible_ascii v
          \<or> map ascii_lower (str_trim (hd (split_on CHR '';'' v))) \<noteq> ''application/json'')"

definition check_encoding :: "header_list \<Rightarrow> request_kind \<Rightarrow> unit res" where
  "check_encoding headers kind =
     (if map_of headers ''content-encoding'' \<noteq> None then Inl err_content_encoding
      else if is_image kind \<and> other_content_type headers then Inl err_image_json
      else Inr ())"

definition parse_kind :: "parse_env \<Rightarrow> http_request \<Rightarrow> json \<Rightarrow> request_kind \<Rightarrow> gateway_request res" where
  "parse_kind env rq doc kind =
     (case kind of
        Search \<Rightarrow> parse_search env (hq_headers rq) doc (hq_query rq)
      | Compact \<Rightarrow> parse_request env (hq_headers rq) doc Compact
      | Responses \<Rightarrow> parse_request env (hq_headers rq) doc Responses
      | _ \<Rightarrow> parse_images env (hq_headers rq) doc kind)"

definition received :: "door_env \<Rightarrow> http_request \<Rightarrow> request_kind \<Rightarrow> unit dr" where
  "received env rq kind = in_context (\<lambda>c. c
     \<lparr>rj_compaction := (if kind = Compact then Some \<lparr>cm_method = CompactCall, cm_output_observed = None\<rparr>
        else rj_compaction c),
      rj_client_turn_state := Some (turn_state_capture (pa_base64 (de_parse env)) (hq_headers rq)),
      rj_diagnostics := diagnostics (pa_json (de_parse env)) (hq_method rq) (hq_path rq) (hq_headers rq) None kind\<rparr>)"

definition model_named :: "json \<Rightarrow> string" where
  "model_named doc =
     (case filter_option (\<lambda>s. length s \<le> 160 \<and> \<not> has_control s) (str_field doc ''model'') of None \<Rightarrow> [] | Some s \<Rightarrow> s)"

definition stream_named :: "json \<Rightarrow> request_kind \<Rightarrow> bool option" where
  "stream_named doc kind =
     (if kind \<noteq> Responses then Some False
      else if is_object doc then (case jget doc ''stream'' of None \<Rightarrow> Some False | Some v \<Rightarrow> as_bool v)
      else None)"

definition seen_body :: "door_env \<Rightarrow> http_request \<Rightarrow> request_kind \<Rightarrow> json \<Rightarrow> nat \<Rightarrow> unit dr" where
  "seen_body env rq kind doc n = in_context (\<lambda>c. c
     \<lparr>rj_diagnostics := set_member ''body_bytes'' (json_nat n)
        (diagnostics (pa_json (de_parse env)) (hq_method rq) (hq_path rq) (hq_headers rq) (Some doc) kind),
      rj_compaction := (if kind = Responses
        then (case inspect_compaction (pa_json (de_parse env)) (hq_headers rq) doc of Inl _ \<Rightarrow> None | Inr c \<Rightarrow> c)
        else rj_compaction c),
      rj_stream := stream_named doc kind, rj_model := model_named doc\<rparr>)"

definition understood :: "gateway_request \<Rightarrow> unit dr" where
  "understood p = in_context (\<lambda>c. let c1 = c\<lparr>rj_stateless := gq_stateless p\<rparr> in
     if gq_stateless p then c1
     else c1\<lparr>rj_session := ci_session_id (gq_identity p), rj_thread := ci_thread_id (gq_identity p)\<rparr>)"

definition start_request :: "door_env \<Rightarrow> admitted \<Rightarrow> started_response dr" where
  "start_request env a d =
     (case de_start env a (dr_front d, dr_books d) of
        (r, s, b) \<Rightarrow> (r, d\<lparr>dr_front := s, dr_books := b, dr_started := dr_started d @ [a]\<rparr>))"

text \<open>A permit is given back, a lease dropped, however its scope ends; a started request keeps its lease.\<close>

definition with_permit :: "'a dr \<Rightarrow> 'a dr" where
  "with_permit m d = (case m d of (r, d1) \<Rightarrow> (r, leave_memory d1))"

definition with_lease :: "'a dr \<Rightarrow> 'a dr" where
  "with_lease m d =
     (case m (d\<lparr>dr_lease := 0\<rparr>) of
        (Inl e, d1) \<Rightarrow> (Inl e, bytes_drop d1)
      | (Inr x, d1) \<Rightarrow> (Inr x, d1\<lparr>dr_lease := 0\<rparr>))"

definition read_and_start ::
  "door_env \<Rightarrow> http_request \<Rightarrow> uuid \<Rightarrow> request_kind \<Rightarrow> gateway_key \<Rightarrow> started_response dr" where
  "read_and_start env rq i kind key =
     act_then (at_stage ''body_read'') (
     act_bind (read_frames env [] (hq_body rq)) (\<lambda>body.
     act_then (at_stage ''json_parse'') (
     act_then (on_memory env (\<lambda>io. check_memory io True)) (
     act_bind (parse_body env body) (\<lambda>doc.
     act_then (seen_body env rq kind doc (length body)) (
     act_then (at_stage ''ingress_validation'') (
     act_bind (door_res (parse_kind (de_parse env) rq doc kind)) (\<lambda>p.
     act_then (understood p) (
     act_bind (act_read (\<lambda>d. rj_diagnostics (dr_context d))) (\<lambda>report.
     act_then (at_stage ''admission'') (
     act_then (on_memory env (\<lambda>io. check_memory io True)) (
       start_request env (i, key, p\<lparr>gq_ingress_diagnostics := Some report\<rparr>, length body)))))))))))))"

definition door_inner :: "door_env \<Rightarrow> http_request \<Rightarrow> uuid \<Rightarrow> request_kind \<Rightarrow> started_response dr" where
  "door_inner env rq i kind =
     act_then (received env rq kind) (
     act_then (at_stage ''authentication'') (
     act_bind (on_front (present_key (de_auth env) (de_now env) (hq_headers rq))) (\<lambda>key.
     act_then (in_context (\<lambda>c. c\<lparr>rj_key_id := Some (gk_id key), rj_group_id := Some (gk_group_id key)\<rparr>)) (
     act_then (at_stage ''memory_admission'') (
     act_then (on_memory env enter) (
       with_permit (
         act_then (at_stage ''body_encoding'') (
         act_then (door_res (check_encoding (hq_headers rq) kind))
           (with_lease (read_and_start env rq i kind key))))))))))"

subsection \<open>The answer\<close>

definition err_execution_lost :: err where
  "err_execution_lost = error_new 503 ''execution_lost'' ''Request execution ended unexpectedly''"

definition extend_headers :: "header_list \<Rightarrow> header_list \<Rightarrow> header_list" where
  "extend_headers old new = filter (\<lambda>(k, _). k \<notin> fst ` set new) old @ new"

definition status_code :: "nat \<Rightarrow> nat \<Rightarrow> nat" where
  "status_code fallback s = (if 100 \<le> s \<and> s \<le> 999 then s else fallback)"

definition started_reply :: "completion option \<Rightarrow> http_reply" where
  "started_reply finished =
     (case finished of
        None \<Rightarrow> \<lparr>hr_status = 200,
          hr_headers = [(''content-type'', ''text/event-stream; charset=utf-8''), (''x-accel-buffering'', ''no'')],
          hr_body = Inl []\<rparr>
      | Some c \<Rightarrow> \<lparr>hr_status = status_code 502 (co_status c),
          hr_headers = extend_headers [(''content-type'', ''application/json'')] (co_headers c),
          hr_body = (case co_raw_body c of Some b \<Rightarrow> Inl b | None \<Rightarrow> Inr (co_body c))\<rparr>)"

definition retry_codes :: "string set" where
  "retry_codes = {''memory_pressure'', ''memory_probe_unavailable'', ''request_read_limit''}"

definition error_reply :: "err \<Rightarrow> http_reply" where
  "error_reply e =
     \<lparr>hr_status = status_code 500 (err_status e),
      hr_headers = (''content-type'', ''application/json'')
        # (if err_code e \<in> retry_codes then [(''retry-after'', ''5'')] else []),
      hr_body = Inr (JObj [(''error'', JObj [(''code'', JStr (err_code e)), (''message'', JStr (err_message e))])])\<rparr>"

definition with_request_id :: "door_env \<Rightarrow> uuid \<Rightarrow> http_reply \<Rightarrow> http_reply" where
  "with_request_id env i r = r\<lparr>hr_headers := set_header ''x-request-id'' (de_id_text env i) (hr_headers r)\<rparr>"

subsection \<open>The record of a rejected request\<close>

definition reported_failure :: "err \<Rightarrow> rejected_context \<Rightarrow> json" where
  "reported_failure e c =
     (let stage = (if err_code e = ''session_safety_blocked'' then ''safety_policy'' else rj_stage c) in
      set_member ''error'' (JObj [(''code'', JStr (err_code e)), (''message'', JStr (err_message e)),
          (''status'', json_nat (err_status e))])
        (set_member ''body_bytes'' (json_nat (rj_bytes c))
          (set_member ''failure_stage'' (JStr stage) (rj_diagnostics c))))"

definition rejected_record ::
  "door_env \<Rightarrow> runtime_settings \<Rightarrow> uuid \<Rightarrow> request_kind \<Rightarrow> err \<Rightarrow> rejected_context \<Rightarrow> request_record" where
  "rejected_record env cfg i kind e c =
     \<lparr>rec_request_log_level = Some (rs_log_level cfg), rec_client_turn_state = rj_client_turn_state c,
      rec_client_origin = de_origin env (jindex (reported_failure e c) ''client_origin''),
      rec_stateless = rj_stateless c, rec_ingress_diagnostics = Some (reported_failure e c), rec_kind = kind,
      rec_compaction = rj_compaction c,
      rec_stream = (if kind \<noteq> Responses then Some False else rj_stream c), rec_search_price = None,
      rec_id = i, rec_key_id = (case rj_key_id c of None \<Rightarrow> 0 | Some k \<Rightarrow> k), rec_group_id = rj_group_id c,
      rec_client_session_id = rj_session c, rec_client_thread_id = rj_thread c,
      rec_model = rj_model c, rec_provider = ''openai'', rec_upstream_model = None, rec_response_model = None,
      rec_requested_tier = None, rec_reasoning_effort = None, rec_account_id = None, rec_binding_id = None,
      rec_binding_generation = None, rec_state = ''rejected'', rec_created_at = de_now env,
      rec_finished_at = Some (de_done env), rec_queue_ms = None, rec_first_event_ms = None,
      rec_first_content_ms = None, rec_total_ms = Some (de_elapsed env), rec_upstream_status = None,
      rec_upstream_headers_ms = None, rec_upstream_request_id = None, rec_error_code = Some (err_code e),
      rec_error_message = Some (err_message e), rec_upstream_error = err_upstream e,
      rec_usage = usage_default\<lparr>us_complete := True, us_source := ''not_executed''\<rparr>,
      rec_valuation = Some \<lparr>va_status = ''not_executed'', va_price_version = None,
        va_cny = Some (dec_of_nat 0), va_items = []\<rparr>,
      rec_config_version = rs_version cfg, rec_config_versions = [rs_version cfg], rec_body_bytes = rj_bytes c,
      rec_upstream_attempts = 0\<rparr>"

definition on_books :: "unit booking \<Rightarrow> unit dr" where
  "on_books f d =
     (let g = fr_gateway (dr_front d); d0 = d\<lparr>dr_front := (dr_front d)\<lparr>fr_gateway := g\<lparr>gw_faults := tl (gw_faults g)\<rparr>\<rparr>\<rparr>
      in case gw_faults g of
        LostBefore # _ \<Rightarrow> (Inl err_storage, d0)
      | LostAfter # _ \<Rightarrow> (Inl err_storage, d0\<lparr>dr_books := snd (f (dr_books d))\<rparr>)
      | _ \<Rightarrow> (fst (f (dr_books d)), d0\<lparr>dr_books := snd (f (dr_books d))\<rparr>))"

definition save_rejected :: "door_env \<Rightarrow> request_record \<Rightarrow> unit dr" where
  "save_rejected env r =
     act_then (on_books (begin_request (de_done env) r)) (on_books (finish_request (de_hour env) (de_done env) r))"

definition reject :: "door_env \<Rightarrow> uuid \<Rightarrow> request_kind \<Rightarrow> err \<Rightarrow> http_reply dr" where
  "reject env i kind e =
     act_bind (act_read (\<lambda>d. rejected_record env (gw_settings (fr_gateway (dr_front d))) i kind e (dr_context d))) (\<lambda>r.
     act_bind (act_try (save_rejected env r)) (\<lambda>_. act_return (error_reply e)))"

definition handle :: "door_env \<Rightarrow> http_request \<Rightarrow> uuid \<Rightarrow> request_kind \<Rightarrow> http_reply dr" where
  "handle env rq i kind =
     act_then (in_context (\<lambda>_. context_default)) (
     act_bind (act_try (door_inner env rq i kind)) (\<lambda>r.
     act_bind
       (case r of
          Inl e \<Rightarrow> reject env i kind e
        | Inr LostTask \<Rightarrow> reject env i kind err_execution_lost
        | Inr Streaming \<Rightarrow> act_return (started_reply None)
        | Inr (Complete c) \<Rightarrow> act_return (started_reply (Some c)))
       (\<lambda>reply. act_return (with_request_id env i reply))))"

end
