(* ===== verification/Door_Theorems.thy ===== *)
theory Door_Theorems
  imports Public_Door Key_Theorems
begin

section \<open>What gets through the door, and what a refusal leaves\<close>

text \<open>
  Two views of one request: the permit and the buffered bytes it holds are given back however it
  ends; and what is handed to the pipeline is what the client sent.
\<close>

subsection \<open>Conditions of a request's state\<close>

text \<open>The gate of memory_json.rs leaves the readers alone and only counts on.\<close>

lemma readers_check: "ms_readers (snd (check_memory io fresh st)) = ms_readers st"
  using check_readers by (metis prod.collapse)

interpretation reading: kept "\<lambda>g. ms_readers (gt_memory g) = n \<and> t \<le> gt_tick g" for n t .

lemma reading_measure: "reading.keeps n t (measure_memory io)"
proof (rule reading.keepsI)
  fix g :: gate assume "ms_readers (gt_memory g) = n \<and> t \<le> gt_tick g"
  with readers_check [of "io (gt_tick g)" True "gt_memory g"]
  show "ms_readers (gt_memory (snd (measure_memory io g))) = n \<and> t \<le> gt_tick (snd (measure_memory io g))"
    by (auto simp: measure_memory_def split: prod.split sum.split)
qed

lemma reading_node: "reading.keeps n t (node_check io force)"
  using reading.keepsD [OF reading_measure] by (auto simp: reading.keeps_def node_check_def Let_def)

lemmas reading_rules = reading.keeps_return reading.keeps_fail reading.keeps_bind reading.keeps_then reading_node

lemma reading_build:
  "reading.keeps n t (build io r)" "reading.keeps n t (build_list io xs)" "reading.keeps n t (build_map io ps m)"
proof (induction io r and io xs and io ps m rule: build_build_list_build_map.induct)
  case (3 io k)
  show ?case by (cases k) (auto intro!: reading_rules)
qed (auto intro!: reading_rules)

lemma reading_parse: "reading.keeps n t (memory_parse io raw ended)"
proof -
  have "reading.keeps n t (\<lambda>g. (Inr (), g\<lparr>gt_nodes := 0\<rparr>) :: (parse_stop + unit) \<times> gate)" by (simp add: reading.keeps_def)
  then show ?thesis
    unfolding memory_parse_def
    by (intro reading.keeps_then [OF reading_measure] reading.keeps_then) (auto intro!: reading_rules reading_build)
qed

text \<open>
  What a condition of the whole state needs to be kept by the steps that do not take or give
  anything: it does not look at what is known of the request, nor at the front, and allows the
  memory gate to be asked.
\<close>

locale door_condition = kept cond for cond :: "door \<Rightarrow> bool" +
  assumes about_context: "cond d \<Longrightarrow> cond (d\<lparr>dr_context := c\<rparr>)"
    and about_front: "cond d \<Longrightarrow> cond (d\<lparr>dr_front := f\<rparr>)"
    and about_memory: "\<lbrakk>cond d; ms_readers st = ms_readers (dr_memory d); dr_tick d \<le> k\<rbrakk>
      \<Longrightarrow> cond (d\<lparr>dr_memory := st, dr_tick := k\<rparr>)"
begin

lemma keeps_context: "keeps (in_context f)"
  by (simp add: keeps_def in_context_def about_context)

lemma keeps_front: "keeps (on_front m)"
  by (simp add: keeps_def on_front_def about_front split: prod.split)

lemma keeps_res: "keeps (door_res r)"
  by (simp add: door_res_def keeps_return keeps_fail split: sum.split)

lemma keeps_rejection: "keeps (memory_rejection env e)"
  unfolding memory_rejection_def note_diagnostic_def
  by (intro keeps_bind keeps_then keeps_read keeps_fail keeps_context)

lemma keeps_invalid: "keeps (act_then (note_diagnostic k w) (act_fail e))"
  unfolding note_diagnostic_def by (intro keeps_then keeps_context keeps_fail)

lemma keeps_check: "keeps (on_memory env (\<lambda>io. check_memory io b))"
proof (rule keepsI)
  fix d assume d: "cond d"
  obtain r st where run: "check_memory (de_io env (dr_tick d)) b (dr_memory d) = (r, st)" by fastforce
  with readers_check [of "de_io env (dr_tick d)" b "dr_memory d"] about_memory [OF d, of st "Suc (dr_tick d)"]
  have "cond (d\<lparr>dr_memory := st, dr_tick := Suc (dr_tick d)\<rparr>)" by simp
  then show "cond (snd (on_memory env (\<lambda>io. check_memory io b) d))"
    using run keepsD [OF keeps_rejection] by (auto simp: on_memory_def Let_def split: sum.split)
qed

lemma keeps_parse: "keeps (parse_body env body)"
proof (rule keepsI)
  fix d assume d: "cond d"
  obtain raw ended where raw: "de_raw env body = (raw, ended)" by fastforce
  let ?g = "\<lparr>gt_memory = dr_memory d, gt_tick = dr_tick d, gt_nodes = 0\<rparr>"
  obtain r g where run: "memory_parse (de_io env) raw ended ?g = (r, g)" by fastforce
  have "ms_readers (gt_memory g) = ms_readers (dr_memory d) \<and> dr_tick d \<le> gt_tick g"
    using reading.keepsD [OF reading_parse, of ?g "ms_readers (dr_memory d)" "dr_tick d" "de_io env" raw ended] run by simp
  with about_memory [OF d] have h: "cond (d\<lparr>dr_memory := gt_memory g, dr_tick := gt_tick g\<rparr>)" by blast
  show "cond (snd (parse_body env body d))"
    using raw run h keepsD [OF keeps_rejection h] keepsD [OF keeps_invalid h]
    by (auto simp: parse_body_def Let_def split: sum.split parse_stop.split)
qed

lemmas keeps_steps = keeps_return keeps_fail keeps_read keeps_bind keeps_then keeps_context keeps_front keeps_res
  keeps_check keeps_parse

end

subsection \<open>Permits and buffered bytes\<close>

definition holding :: "nat \<Rightarrow> nat \<Rightarrow> door \<Rightarrow> bool" where
  "holding readers used d \<longleftrightarrow> ms_readers (dr_memory d) = readers \<and> dr_used d = used + dr_lease d"

interpretation hold: door_condition "holding readers used" for readers used
  by unfold_locales (simp_all add: holding_def)

lemma hold_resize: "hold.keeps n u (bytes_resize k)"
  by (auto simp: hold.keeps_def bytes_resize_def bytes_grow_def holding_def)

lemma hold_start: "hold.keeps n u (start_request env a)"
  by (simp add: hold.keeps_def start_request_def holding_def split: prod.split)

lemma hold_frames: "hold.keeps n u (read_frames env body fs)"
  by (induction env body fs rule: read_frames.induct) (auto simp: Let_def intro!: hold.keeps_steps hold_resize)

lemma hold_read_start: "hold.keeps n u (read_and_start env rq i kind key)"
  unfolding read_and_start_def at_stage_def seen_body_def understood_def
  by (intro hold.keeps_then hold.keeps_bind hold_frames hold_start hold.keeps_steps)

text \<open>The whole of the handler up to the start of the request: \<open>resting\<close> is a request that holds nothing.\<close>

definition resting :: "nat \<Rightarrow> nat \<Rightarrow> door \<Rightarrow> bool" where
  "resting readers used d \<longleftrightarrow> ms_readers (dr_memory d) = readers \<and> dr_used d = used \<and> dr_lease d = 0"

definition handed :: "nat \<Rightarrow> nat \<Rightarrow> door \<Rightarrow> bool" where
  "handed readers used d \<longleftrightarrow> ms_readers (dr_memory d) = readers \<and> used \<le> dr_used d \<and> dr_lease d = 0"

interpretation rest: door_condition "resting readers used" for readers used
  by unfold_locales (simp_all add: resting_def)

lemma rest_runs: "rest.keeps n u m \<Longrightarrow> runs (resting n u) m (\<lambda>_. resting n u) (\<lambda>_. resting n u)"
  by (rule rest.keeps_runs)

lemma runs_enter: "runs (resting n u) (on_memory env enter) (\<lambda>_. resting (Suc n) u) (\<lambda>_. resting n u)"
proof -
  have "case on_memory env enter d of (Inr x, d') \<Rightarrow> resting (Suc n) u d' | (Inl e, d') \<Rightarrow> resting n u d'"
    if d: "resting n u d" for d
  proof -
    obtain r st where run: "enter (de_io env (dr_tick d)) (dr_memory d) = (r, st)" by fastforce
    let ?d = "d\<lparr>dr_memory := st, dr_tick := Suc (dr_tick d)\<rparr>"
    show ?thesis
    proof (cases r)
      case (Inr x)
      with run enter_readers [OF run] d show ?thesis by (simp add: on_memory_def resting_def)
    next
      case (Inl e)
      with enter_readers [OF run] d have h: "resting n u ?d" by (simp add: resting_def)
      have "on_memory env enter d = memory_rejection env e ?d" using run Inl by (simp add: on_memory_def)
      moreover have "fst (memory_rejection env e ?d :: (err + unit) \<times> door) = Inl (mr_error e)"
        by (simp add: memory_rejection_def note_diagnostic_def in_context_def act_then_def act_bind_def act_read_def
            act_fail_def)
      moreover have "resting n u (snd (memory_rejection env e ?d :: (err + unit) \<times> door))"
        by (rule rest.keepsD [OF rest.keeps_rejection h])
      ultimately show ?thesis
        by (cases "memory_rejection env e ?d :: (err + unit) \<times> door") simp
    qed
  qed
  then show ?thesis by (simp add: runs_def)
qed

lemma runs_lease:
  assumes "\<And>n u. hold.keeps n u m"
  shows "runs (resting n u) (with_lease m) (\<lambda>_. handed n u) (\<lambda>_. resting n u)"
proof -
  have "case with_lease m d of (Inr x, d') \<Rightarrow> handed n u d' | (Inl e, d') \<Rightarrow> resting n u d'" if d: "resting n u d" for d
  proof -
    obtain r d1 where run: "m (d\<lparr>dr_lease := 0\<rparr>) = (r, d1)" by fastforce
    from d have "holding n u (d\<lparr>dr_lease := 0\<rparr>)" by (simp add: holding_def resting_def)
    from hold.keepsD [OF assms this] run have "holding n u d1" by simp
    with run show ?thesis
      by (cases r) (auto simp: with_lease_def bytes_drop_def holding_def handed_def resting_def)
  qed
  then show ?thesis by (simp add: runs_def)
qed

lemma runs_permit:
  assumes "runs P m (\<lambda>_. handed (Suc n) u) (\<lambda>_. resting (Suc n) u)"
  shows "runs P (with_permit m) (\<lambda>_. handed n u) (\<lambda>_. resting n u)"
proof -
  have "case with_permit m d of (Inr x, d') \<Rightarrow> handed n u d' | (Inl e, d') \<Rightarrow> resting n u d'" if "P d" for d
    using runs_apply [OF assms that]
    by (cases "m d") (auto simp: with_permit_def leave_memory_def leave_def handed_def resting_def split: sum.splits)
  then show ?thesis by (simp add: runs_def)
qed

lemma runs_inner:
  "runs (resting n u) (door_inner env rq i kind) (\<lambda>_. handed n u) (\<lambda>_. resting n u)"
proof -
  let ?body = "\<lambda>key. act_then (at_stage ''body_encoding'') (
         act_then (door_res (check_encoding (hq_headers rq) kind))
           (with_lease (read_and_start env rq i kind key)))"
  have body: "runs (resting (Suc n) u) (?body key) (\<lambda>_. handed (Suc n) u) (\<lambda>_. resting (Suc n) u)" for key
    unfolding at_stage_def
    by (intro runs_then [OF rest_runs [OF rest.keeps_context]] runs_then [OF rest_runs [OF rest.keeps_res]] runs_lease hold_read_start)
  show ?thesis
    unfolding door_inner_def at_stage_def received_def
    by (intro runs_then [OF rest_runs [OF rest.keeps_context]] runs_bind [OF rest_runs [OF rest.keeps_front]]
        runs_then [OF runs_enter] runs_permit body [unfolded at_stage_def])
qed

subsection \<open>A refused request\<close>

lemma begin_then_finish:
  assumes "hget (bo_requests b) (rec_id r) = None" "us_search_calls (rec_usage r) < 2 ^ 63" "rec_account_id r = None"
    "rec_finished_at r = Some t"
  shows "\<exists>b1 b2. begin_request now r b = (Inr (), b1) \<and> finish_request hour now r b1 = (Inr (), b2)
    \<and> bo_requests b2 = hput (rec_id r) \<lparr>qr_record = r, qr_finished_at = Some t, qr_detail = Some ''full''\<rparr> (bo_requests b)
    \<and> bo_entries b2 = bo_entries b \<and> bo_spending b2 = bo_spending b"
  using assms by (simp add: begin_request_def finish_request_def note_event_def open_row_def Let_def add_hourly_def close_row_def)

definition refusal :: "door_env \<Rightarrow> uuid \<Rightarrow> request_kind \<Rightarrow> err \<Rightarrow> door \<Rightarrow> request_record" where
  "refusal env i kind e d = rejected_record env (gw_settings (fr_gateway (dr_front d))) i kind e (dr_context d)"

lemma refusal_simps:
  "rec_id (refusal env i kind e d) = i" "us_search_calls (rec_usage (refusal env i kind e d)) < 2 ^ 63"
  "rec_account_id (refusal env i kind e d) = None" "rec_finished_at (refusal env i kind e d) = Some (de_done env)"
  "rec_state (refusal env i kind e d) = ''rejected''" "rec_error_code (refusal env i kind e d) = Some (err_code e)"
  "rec_upstream_attempts (refusal env i kind e d) = 0" "cost_of (refusal env i kind e d) = Some 0"
  by (simp_all add: refusal_def rejected_record_def Let_def usage_default_def cost_of_def dec_of_nat_def)

lemma reject_books:
  assumes "gw_faults (fr_gateway (dr_front d)) = []" "hget (bo_requests (dr_books d)) i = None"
  obtains d1 where "reject env i kind e d = (Inr (error_reply e), d1)" "dr_memory d1 = dr_memory d" "dr_used d1 = dr_used d"
    "hget (bo_requests (dr_books d1)) i =
      Some \<lparr>qr_record = refusal env i kind e d, qr_finished_at = Some (de_done env), qr_detail = Some ''full''\<rparr>"
    "\<And>j. j \<noteq> i \<Longrightarrow> hget (bo_requests (dr_books d1)) j = hget (bo_requests (dr_books d)) j"
    "bo_entries (dr_books d1) = bo_entries (dr_books d)" "bo_spending (dr_books d1) = bo_spending (dr_books d)"
proof -
  let ?r = "refusal env i kind e d"
  obtain b1 b2 where b: "begin_request (de_done env) ?r (dr_books d) = (Inr (), b1)"
      "finish_request (de_hour env) (de_done env) ?r b1 = (Inr (), b2)"
      "bo_requests b2 = hput i \<lparr>qr_record = ?r, qr_finished_at = Some (de_done env), qr_detail = Some ''full''\<rparr> (bo_requests (dr_books d))"
      "bo_entries b2 = bo_entries (dr_books d)" "bo_spending b2 = bo_spending (dr_books d)"
    using begin_then_finish [OF _ refusal_simps(2-4), unfolded refusal_simps(1)] assms(2) by blast
  obtain d1 where "reject env i kind e d = (Inr (error_reply e), d1)" "dr_memory d1 = dr_memory d" "dr_used d1 = dr_used d"
      "dr_books d1 = b2"
    using b(1,2) assms(1)
    by (simp add: reject_def save_rejected_def on_books_def act_then_def act_bind_def act_try_def act_read_def act_return_def
        Let_def refusal_def [symmetric])
  with b(3-5) that show thesis by auto
qed


subsection \<open>What is handed to the pipeline\<close>

definition undisturbed :: "admitted list \<Rightarrow> nat \<Rightarrow> door \<Rightarrow> bool" where
  "undisturbed xs k d \<longleftrightarrow> dr_started d = xs \<and> k \<le> dr_tick d"

interpretation still: door_condition "undisturbed xs k" for xs k
  by unfold_locales (simp_all add: undisturbed_def)

lemma still_resize: "still.keeps xs k (bytes_resize n)"
  by (simp add: still.keeps_def bytes_resize_def bytes_grow_def undisturbed_def)

lemma still_frames: "still.keeps xs k (read_frames env body fs)"
  by (induction env body fs rule: read_frames.induct) (auto simp: Let_def intro!: still.keeps_steps still_resize)

lemma still_enter: "still.keeps xs k (on_memory env enter)"
proof (rule still.keepsI)
  fix d assume d: "undisturbed xs k d"
  obtain r st where run: "enter (de_io env (dr_tick d)) (dr_memory d) = (r, st)" by fastforce
  from d have "undisturbed xs k (d\<lparr>dr_memory := st, dr_tick := Suc (dr_tick d)\<rparr>)" by (simp add: undisturbed_def)
  then show "undisturbed xs k (snd (on_memory env enter d))"
    using run still.keepsD [OF still.keeps_rejection] by (auto simp: on_memory_def Let_def split: sum.split)
qed

text \<open>The body as the client sent it, if all of it came in time.\<close>

fun sent_body :: "body_frame list \<Rightarrow> string option" where
  "sent_body [] = Some []"
| "sent_body (DataFrame bytes # fs) = map_option ((@) bytes) (sent_body fs)"
| "sent_body (OtherFrame # fs) = sent_body fs"
| "sent_body _ = None"

definition within_limit :: "door_env \<Rightarrow> nat \<Rightarrow> string \<Rightarrow> bool" where
  "within_limit env k body \<longleftrightarrow>
     body = [] \<or> (\<exists>j\<ge>k. length body \<le> rs_request_body_limit_bytes (io_settings (de_io env j)))"

lemma frame_read:
  assumes "read_frames env body (DataFrame bytes # fs) d = (Inr all, d')"
  obtains d1 where "length body + length bytes \<le> rs_request_body_limit_bytes (io_settings (de_io env (dr_tick d)))"
    "dr_tick d \<le> dr_tick d1" "read_frames env (body @ bytes) fs d1 = (Inr all, d')"
proof -
  let ?c = "\<lambda>c. c\<lparr>rj_bytes := length body + length bytes\<rparr>"
  let ?d = "d\<lparr>dr_context := ?c (dr_context d)\<rparr>"
  have limit: "length body + length bytes \<le> rs_request_body_limit_bytes (io_settings (de_io env (dr_tick d)))"
    using assms by (auto simp: Let_def act_then_def act_bind_def in_context_def act_read_def body_limit_def act_fail_def
        split: if_splits)
  obtain x1 d1 x2 d2 where steps: "on_memory env (\<lambda>io. check_memory io False) ?d = (Inr x1, d1)"
      "bytes_resize (length body + length bytes) d1 = (Inr x2, d2)" "read_frames env (body @ bytes) fs d2 = (Inr all, d')"
    using assms limit by (auto simp: Let_def act_then_def act_bind_def in_context_def act_read_def body_limit_def
        split: prod.splits sum.splits)
  have "undisturbed (dr_started d) (dr_tick d) ?d" by (simp add: undisturbed_def)
  from still.keepsD [OF still.keeps_check this, of env False] steps(1)
  have "undisturbed (dr_started d) (dr_tick d) d1" by simp
  from still.keepsD [OF still_resize this, of "length body + length bytes"] steps(2)
  have "dr_tick d \<le> dr_tick d2" by (simp add: undisturbed_def)
  with limit steps(3) that show thesis by blast
qed

lemma frames_sent:
  "read_frames env body fs d = (Inr all, d') \<Longrightarrow> k \<le> dr_tick d \<Longrightarrow>
     \<exists>rest. sent_body fs = Some rest \<and> all = body @ rest \<and> (rest = [] \<or> within_limit env k all)"
proof (induction env body fs arbitrary: d rule: read_frames.induct)
  case (5 env body bytes fs)
  obtain d1 where d1: "length (body @ bytes) \<le> rs_request_body_limit_bytes (io_settings (de_io env (dr_tick d)))"
      "dr_tick d \<le> dr_tick d1" "read_frames env (body @ bytes) fs d1 = (Inr all, d')"
    using frame_read [OF 5(2)] by (metis length_append)
  with 5(3) have later: "k \<le> dr_tick d1" by simp
  have "\<not> length body + length bytes < length body + length bytes" by simp
  from 5(1) [OF refl this d1(3) later] obtain rest where rest: "sent_body fs = Some rest" "all = (body @ bytes) @ rest"
      "rest = [] \<or> within_limit env k all" by blast
  have "within_limit env k (body @ bytes)" unfolding within_limit_def using d1(1) 5(3) by blast
  with rest show ?case by auto
qed (auto simp: act_return_def act_fail_def)

text \<open>A value returned under a condition, and what is known of it.\<close>

lemma runs_result:
  assumes "still.keeps xs k m" "\<And>d x d'. undisturbed xs k d \<Longrightarrow> m d = (Inr x, d') \<Longrightarrow> known x"
  shows "runs (undisturbed xs k) m (\<lambda>x d. undisturbed xs k d \<and> known x) (\<lambda>_. undisturbed xs k)"
  using assms(2) still.keepsD [OF assms(1)] by (fastforce simp: runs_def split: prod.split sum.split)

lemma runs_known: "(b \<Longrightarrow> runs P m Q E) \<Longrightarrow> runs (\<lambda>d. P d \<and> b) m Q E"
  by (simp add: runs_def)

definition as_sent :: "door_env \<Rightarrow> http_request \<Rightarrow> uuid \<Rightarrow> request_kind \<Rightarrow> door \<Rightarrow> admitted \<Rightarrow> bool" where
  "as_sent env rq i kind d a \<longleftrightarrow>
     (\<exists>key body raw doc p report. a = (i, key, p\<lparr>gq_ingress_diagnostics := Some report\<rparr>, length body)
        \<and> fst (present_key (de_auth env) (de_now env) (hq_headers rq) (dr_front d)) = Inr key
        \<and> check_encoding (hq_headers rq) kind = Inr ()
        \<and> sent_body (hq_body rq) = Some body \<and> within_limit env (dr_tick d) body
        \<and> de_raw env body = (raw, True) \<and> plain raw = Some doc
        \<and> parse_kind (de_parse env) rq doc kind = Inr p)"

definition at_most_sent :: "door_env \<Rightarrow> http_request \<Rightarrow> uuid \<Rightarrow> request_kind \<Rightarrow> door \<Rightarrow> door \<Rightarrow> bool" where
  "at_most_sent env rq i kind d0 d \<longleftrightarrow>
     dr_started d = dr_started d0 \<or> (\<exists>a. dr_started d = dr_started d0 @ [a] \<and> as_sent env rq i kind d0 a)"

lemma parsed_value:
  assumes "parse_body env body d = (Inr doc, d')"
  shows "\<exists>raw. de_raw env body = (raw, True) \<and> plain raw = Some doc"
proof -
  obtain raw ended where raw: "de_raw env body = (raw, ended)" by fastforce
  let ?g = "\<lparr>gt_memory = dr_memory d, gt_tick = dr_tick d, gt_nodes = 0\<rparr>"
  obtain r g where run: "memory_parse (de_io env) raw ended ?g = (r, g)" by fastforce
  have "r = Inr doc"
    using assms raw run
    by (auto simp: parse_body_def Let_def memory_rejection_def act_bind_def act_then_def act_read_def act_fail_def
        note_diagnostic_def in_context_def split: sum.splits parse_stop.splits)
  with run parse_value [of "de_io env" raw ended ?g doc g] raw show ?thesis by auto
qed

text \<open>Reading, parsing and starting, once the key and the headers are accepted.\<close>

lemma runs_read_start:
  assumes "fst (present_key (de_auth env) (de_now env) (hq_headers rq) (dr_front d0)) = Inr key"
    "check_encoding (hq_headers rq) kind = Inr ()"
  shows "runs (undisturbed (dr_started d0) (dr_tick d0)) (read_and_start env rq i kind key)
    (\<lambda>_. at_most_sent env rq i kind d0) (\<lambda>_. at_most_sent env rq i kind d0)"
    (is "runs ?Q _ ?F ?E")
proof -
  have weak: "runs ?Q m R (\<lambda>_. ?Q) \<Longrightarrow> runs ?Q m R ?E" for m :: "'x dr" and R
    by (erule runs_conseq) (simp_all add: at_most_sent_def undisturbed_def)
  have step: "still.keeps (dr_started d0) (dr_tick d0) m \<Longrightarrow> runs ?Q m (\<lambda>_. ?Q) ?E" for m :: "'x dr"
    by (rule weak) (rule still.keeps_runs)
  have body: "runs ?Q (read_frames env [] (hq_body rq))
      (\<lambda>b d. ?Q d \<and> (sent_body (hq_body rq) = Some b \<and> within_limit env (dr_tick d0) b)) ?E"
    by (rule weak, rule runs_result [OF still_frames], drule frames_sent [where k = "dr_tick d0"])
      (auto simp: undisturbed_def within_limit_def)
  have doc: "runs ?Q (parse_body env b) (\<lambda>doc d. ?Q d \<and> (\<exists>raw. de_raw env b = (raw, True) \<and> plain raw = Some doc)) ?E" for b
    by (rule weak, rule runs_result [OF still.keeps_parse]) (rule parsed_value)
  have request: "runs ?Q (door_res r) (\<lambda>p d. ?Q d \<and> r = Inr p) ?E" for r :: "gateway_request res"
    by (rule weak, rule runs_result [OF still.keeps_res])
      (auto simp: door_res_def act_fail_def act_return_def split: sum.splits)
  have start: "as_sent env rq i kind d0 a \<Longrightarrow> runs ?Q (start_request env a) ?F ?E" for a
    by (cases a) (auto simp: runs_def start_request_def at_most_sent_def undisturbed_def split: prod.split sum.split)
  show ?thesis
    unfolding read_and_start_def at_stage_def seen_body_def understood_def
    apply (rule runs_then [OF step [OF still.keeps_context]])
    apply (rule runs_bind [OF body], rule runs_known)
    apply (rule runs_then [OF step [OF still.keeps_context]], rule runs_then [OF step [OF still.keeps_check]])
    apply (rule runs_bind [OF doc], rule runs_known)
    apply (rule runs_then [OF step [OF still.keeps_context]], rule runs_then [OF step [OF still.keeps_context]])
    apply (rule runs_bind [OF request], rule runs_known)
    apply (rule runs_then [OF step [OF still.keeps_context]], rule runs_bind [OF step [OF still.keeps_read]])
    apply (rule runs_then [OF step [OF still.keeps_context]], rule runs_then [OF step [OF still.keeps_check]])
    using assms by (intro start) (auto simp: as_sent_def)
qed

lemma still_reject: "still.keeps xs k (reject env i kind e)"
proof -
  have "still.keeps xs k (on_books f)" for f
    by (auto simp: still.keeps_def on_books_def Let_def undisturbed_def split: list.split fault.split)
  then show ?thesis
    unfolding reject_def save_rejected_def
    by (intro still.keeps_bind still.keeps_read still.keeps_try still.keeps_then still.keeps_return)
qed

lemma runs_inner_sent:
  "runs (\<lambda>d. undisturbed (dr_started d0) (dr_tick d0) d \<and> dr_front d = dr_front d0) (door_inner env rq i kind)
    (\<lambda>_. at_most_sent env rq i kind d0) (\<lambda>_. at_most_sent env rq i kind d0)"
    (is "runs ?P _ ?F ?E")
proof -
  let ?Q = "undisturbed (dr_started d0) (dr_tick d0)"
  have weak: "runs R m S (\<lambda>_. ?Q) \<Longrightarrow> runs R m S ?E" for m :: "'x dr" and R S
    by (erule runs_conseq) (simp_all add: at_most_sent_def undisturbed_def)
  have step: "still.keeps (dr_started d0) (dr_tick d0) m \<Longrightarrow> runs ?Q m (\<lambda>_. ?Q) ?E" for m :: "'x dr"
    by (rule weak) (rule still.keeps_runs)
  have known_yet: "runs ?P (in_context f) (\<lambda>_. ?P) ?E" for f
    by (simp add: runs_def in_context_def undisturbed_def)
  have key: "runs ?P (on_front (present_key (de_auth env) (de_now env) (hq_headers rq)))
      (\<lambda>key d. ?Q d \<and> fst (present_key (de_auth env) (de_now env) (hq_headers rq) (dr_front d0)) = Inr key) ?E"
    by (auto simp: runs_def on_front_def undisturbed_def at_most_sent_def split: prod.split sum.split)
  have encoding: "runs ?Q (door_res r) (\<lambda>_ d. ?Q d \<and> r = Inr ()) ?E" for r :: "unit res"
    by (rule weak, rule runs_result [OF still.keeps_res])
      (auto simp: door_res_def act_fail_def act_return_def split: sum.splits)
  have permit: "runs ?Q m ?F ?E \<Longrightarrow> runs ?Q (with_permit m) ?F ?E" for m :: "started_response dr"
    by (fastforce simp: runs_def with_permit_def leave_memory_def at_most_sent_def split: prod.splits sum.splits)
  have lease: "runs ?Q (with_lease m) ?F ?E" if m: "runs ?Q m ?F ?E" for m :: "started_response dr"
  proof -
    have "?Q d \<Longrightarrow> at_most_sent env rq i kind d0 (snd (m (d\<lparr>dr_lease := 0\<rparr>)))" for d
      using runsD [OF m, of "d\<lparr>dr_lease := 0\<rparr>"] by (simp add: undisturbed_def)
    then show ?thesis
      by (fastforce simp: runs_def with_lease_def bytes_drop_def at_most_sent_def split: prod.splits sum.splits)
  qed
  show ?thesis
    unfolding door_inner_def at_stage_def received_def
    apply (rule runs_then [OF known_yet], rule runs_then [OF known_yet])
    apply (rule runs_bind [OF key], rule runs_known)
    apply (rule runs_then [OF step [OF still.keeps_context]], rule runs_then [OF step [OF still.keeps_context]])
    apply (rule runs_then [OF step [OF still_enter]], rule permit)
    apply (rule runs_then [OF step [OF still.keeps_context]], rule runs_then [OF encoding], rule runs_known)
    by (intro lease runs_read_start)
qed

text \<open>
  C29. However a request ends, the pipeline has been given at most one request for it; and that one
  belongs to the key that the presented secret had then, has passed the checks of encoding and
  content type, and is what \<open>parse_request\<close>, \<open>parse_images\<close> or \<open>parse_search\<close> makes of the document
  that all the bytes the client sent are the text of, no more of them than the configured limit.
\<close>

theorem started_as_sent:
  "dr_started (snd (handle env rq i kind d)) = dr_started d
   \<or> (\<exists>a. dr_started (snd (handle env rq i kind d)) = dr_started d @ [a] \<and> as_sent env rq i kind d a)"
proof -
  let ?d = "d\<lparr>dr_context := context_default\<rparr>"
  obtain r d1 where inner: "door_inner env rq i kind ?d = (r, d1)" by fastforce
  have "undisturbed (dr_started d) (dr_tick d) ?d \<and> dr_front ?d = dr_front d" by (simp add: undisturbed_def)
  from runs_apply [OF runs_inner_sent this inner] have sent: "at_most_sent env rq i kind d d1" by (cases r) simp_all
  have same: "dr_started (snd (reject env i kind e d1)) = dr_started d1" for e
    using still.keepsD [OF still_reject, of "dr_started d1" 0 d1 env i kind e] by (simp add: undisturbed_def)
  have "dr_started (snd (handle env rq i kind d)) = dr_started d1"
    using inner same
    by (auto simp: handle_def in_context_def act_then_def act_bind_def act_try_def act_return_def
        split: prod.splits sum.splits started_response.splits) (metis snd_conv)+
  with sent show ?thesis by (simp add: at_most_sent_def)
qed

text \<open>A request that brings no key.\<close>

definition ex_door :: door where
  "ex_door = \<lparr>dr_front = ex_front, dr_memory = mem_new, dr_tick = 0, dr_used = 5, dr_lease = 0, dr_books = books_empty,
     dr_context = context_default, dr_started = []\<rparr>"

definition ex_door_env :: door_env where
  "ex_door_env = \<lparr>de_auth = ex_auth, de_parse = ex_parse, de_io = (\<lambda>_. ex_io), de_now = 1, de_done = 2, de_elapsed = 1,
     de_raw = (\<lambda>_. (RawBad, True)), de_start = (\<lambda>a (f, b). (Inr Streaming, f, b)), de_status = (\<lambda>_. JNull),
     de_origin = (\<lambda>_. None), de_hour = (\<lambda>t. t), de_id_text = (\<lambda>i. ''1'')\<rparr>"

definition ex_http :: http_request where
  "ex_http = \<lparr>hq_method = ''POST'', hq_path = ''/v1/responses'', hq_query = None, hq_headers = [], hq_body = []\<rparr>"

lemma ex_no_key: "bearer [] = None"
  by code_simp


end
