(* ===== verification/Pg_Settings.thy ===== *)
theory Pg_Settings
  imports Gateway_State Pricing
begin

section \<open>Settings, models, prices and subscriptions in the database\<close>

text \<open>
  \<open>crates/xxgate-postgres/src\<close>: \<open>settings.rs\<close>, \<open>model_version.rs\<close> and the subscription statements
  of \<open>accounts.rs\<close>, over the tables \<open>settings\<close>, \<open>model_catalog\<close>, \<open>prices\<close>, \<open>search_prices\<close>,
  \<open>model_discovery_version\<close> and \<open>account_subscriptions\<close>. One transaction is one function.
  Versions are unbounded integers; \<open>co_order\<close> is the collation of the database, by which texts are
  ordered.
\<close>

record configuration =
  cf_pg :: pg
  cf_settings :: "(int \<times> runtime_settings) option"
  cf_models :: "(string, model_spec) hmap"
  cf_prices :: "(int \<times> price) list"
  cf_price_serial :: int
  cf_search :: "(int \<times> search_price) list"
  cf_search_serial :: int
  cf_discovery :: "string option"
  cf_subscriptions :: "(uuid, subscription_snapshot) hmap"

type_synonym 'a config_tx = "configuration \<Rightarrow> 'a res \<times> configuration"

definition log_config :: "string \<Rightarrow> uuid option \<Rightarrow> configuration \<Rightarrow> configuration" where
  "log_config kind account db = db\<lparr>cf_pg := log_event kind ''admin'' account (cf_pg db)\<rparr>"

subsection \<open>Settings\<close>

definition pg_settings :: "runtime_settings config_tx" where
  "pg_settings db =
     (case cf_settings db of
        None \<Rightarrow> (Inr settings_default, db\<lparr>cf_settings := Some (1, settings_default)\<rparr>)
      | Some (_, s) \<Rightarrow> (Inr s, db))"

definition pg_save_settings :: "runtime_settings \<Rightarrow> int \<Rightarrow> runtime_settings config_tx" where
  "pg_save_settings s expected db =
     (case settings_validate s of
        Inl e \<Rightarrow> (Inl e, db)
      | Inr _ \<Rightarrow>
          let saved = s\<lparr>rs_version := expected + 1\<rparr> in
          (case cf_settings db of
             None \<Rightarrow> (Inl err_storage, db)
           | Some (version, _) \<Rightarrow>
               if version \<noteq> expected then (Inl err_conflict, db)
               else (Inr saved, log_config ''settings_changed'' None (db\<lparr>cf_settings := Some (rs_version saved, saved)\<rparr>))))"

subsection \<open>Models\<close>

definition pg_models :: "(string \<Rightarrow> 'o :: linorder) \<Rightarrow> model_spec list config_tx" where
  "pg_models co_order db = (Inr (map snd (sort_key (co_order \<circ> fst) (cf_models db))), db)"

definition model_version_of :: "configuration \<Rightarrow> string \<Rightarrow> int" where
  "model_version_of db i = (case hget (cf_models db) i of None \<Rightarrow> 0 | Some m \<Rightarrow> ms_version m)"

definition pg_put_model :: "model_spec \<Rightarrow> model_spec config_tx" where
  "pg_put_model m db =
     (case model_spec_validate m of
        Inl e \<Rightarrow> (Inl e, db)
      | Inr _ \<Rightarrow>
          if model_version_of db (ms_id m) \<noteq> ms_version m then (Inl err_conflict, db)
          else
            let m' = m\<lparr>ms_version := ms_version m + 1\<rparr>
            in (Inr m', log_config ''model_updated'' None (db\<lparr>cf_models := hput (ms_id m) m' (cf_models db)\<rparr>)))"

subsection \<open>Prices\<close>

text \<open>\<open>DISTINCT ON\<close>: of each model the row with the highest version.\<close>

definition latest_price :: "configuration \<Rightarrow> model_ref \<Rightarrow> price option" where
  "latest_price db m =
     map_option snd (foldl (\<lambda>best row. case best of
         None \<Rightarrow> Some row | Some (v, _) \<Rightarrow> if v < fst row then Some row else best)
       None (filter (\<lambda>(_, p). pr_model p = m) (cf_prices db)))"

definition pg_prices :: "(model_ref \<Rightarrow> 'o :: linorder) \<Rightarrow> price list config_tx" where
  "pg_prices co_order db =
     (Inr (List.map_filter (latest_price db) (sort_key co_order (remdups (map (pr_model \<circ> snd) (cf_prices db))))), db)"

definition pg_put_price :: "price \<Rightarrow> price config_tx" where
  "pg_put_price p db =
     (case price_validate p of
        Inl e \<Rightarrow> (Inl e, db)
      | Inr _ \<Rightarrow>
          let v = cf_price_serial db + 1; p' = p\<lparr>pr_version := v\<rparr>
          in (Inr p', log_config ''price_updated'' None
               (db\<lparr>cf_prices := cf_prices db @ [(v, p')], cf_price_serial := v\<rparr>)))"

definition latest_search :: "configuration \<Rightarrow> (int \<times> search_price) option" where
  "latest_search db =
     foldl (\<lambda>best row. case best of None \<Rightarrow> Some row | Some (v, _) \<Rightarrow> if v < fst row then Some row else best)
       None (cf_search db)"

definition search_price_default :: search_price where
  "search_price_default = \<lparr>sp_version = 0, sp_per_call = None\<rparr>"

definition pg_search_price :: "search_price config_tx" where
  "pg_search_price db =
     (Inr (case latest_search db of None \<Rightarrow> search_price_default | Some (_, p) \<Rightarrow> p), db)"

definition pg_put_search_price :: "search_price \<Rightarrow> search_price config_tx" where
  "pg_put_search_price p db =
     (case search_price_validate p of
        Inl e \<Rightarrow> (Inl e, db)
      | Inr _ \<Rightarrow>
          if (case latest_search db of None \<Rightarrow> 0 | Some (v, _) \<Rightarrow> v) \<noteq> sp_version p then (Inl err_conflict, db)
          else
            let v = cf_search_serial db + 1; p' = p\<lparr>sp_version := v\<rparr>
            in (Inr p', log_config ''search_price_updated'' None
                 (db\<lparr>cf_search := cf_search db @ [(v, p')], cf_search_serial := v\<rparr>)))"

subsection \<open>The version of model discovery\<close>

definition pg_discovery_version :: "string option config_tx" where
  "pg_discovery_version db = (Inr (cf_discovery db), db)"

definition pg_save_discovery_version :: "string \<Rightarrow> unit config_tx" where
  "pg_save_discovery_version v db = (Inr (), db\<lparr>cf_discovery := Some v\<rparr>)"

subsection \<open>Subscriptions\<close>

definition err_subscription_changed :: err where
  "err_subscription_changed = error_new 409 ''subscription_account_changed''
     (uni [0x8D26, 0x6237, 0x6216, 0x6388, 0x6743, 0x5DF2, 0x53D8, 0x66F4, 0xFF0C, 0x8BF7, 0x91CD, 0x65B0, 0x67E5,
       0x8BE2, 0x5957, 0x9910, 0x4FE1, 0x606F])"

definition pg_subscription :: "uuid \<Rightarrow> subscription_snapshot option config_tx" where
  "pg_subscription i db =
     (Inr (case live_row (cf_pg db) i of
        None \<Rightarrow> None
      | Some r \<Rightarrow> filter_option (\<lambda>s. sub_upstream_account_id s = acc_upstream_account_id (row_account r))
          (hget (cf_subscriptions db) i)), db)"

definition pg_save_subscription :: "account \<Rightarrow> subscription_snapshot \<Rightarrow> unit config_tx" where
  "pg_save_subscription expected s db =
     (case live_row (cf_pg db) (acc_id expected) of
        None \<Rightarrow> (Inl err_not_found, db)
      | Some r \<Rightarrow>
          let a = row_account r in
          if acc_version a \<noteq> acc_version expected \<or> acc_credential_version a \<noteq> acc_credential_version expected
             \<or> acc_upstream_account_id a \<noteq> sub_upstream_account_id s
          then (Inl err_subscription_changed, db)
          else (Inr (), log_config ''subscription_refreshed'' (Some (acc_id expected))
            (db\<lparr>cf_subscriptions :=
               (case hget (cf_subscriptions db) (acc_id expected) of
                  Some old \<Rightarrow> if sub_last_checked_at old \<le> sub_last_checked_at s
                    then hput (acc_id expected) s (cf_subscriptions db) else cf_subscriptions db
                | None \<Rightarrow> hput (acc_id expected) s (cf_subscriptions db))\<rparr>)))"

end
