(* ===== verification/Admin_Settings.thy ===== *)
theory Admin_Settings
  imports Pg_Settings Account_Control Codex_Oauth Admin_Access
begin

section \<open>Changing settings, models and prices\<close>

text \<open>
  The handlers of \<open>crates/xxgate-server/src/http/admin.rs\<close> that change the settings, the configured
  models, prices and that create an account. The settings in force (\<open>LiveSettings\<close>) are those of the
  gateway; \<open>si_tables\<close> are the tables of \<open>Pg_Settings\<close> beside the gateway's own. A store call may be
  lost, before or after it took effect, as the gateway's faults say. The log level follows the
  published settings and is not a state of its own.
\<close>

record site =
  si_gateway :: gateway
  si_tables :: configuration

type_synonym 'a si = "(site, err, 'a) comp"

definition site_tables :: "site \<Rightarrow> configuration" where
  "site_tables s = (si_tables s)\<lparr>cf_pg := gw_db (si_gateway s)\<rparr>"

definition with_site :: "configuration \<Rightarrow> fault list \<Rightarrow> site \<Rightarrow> site" where
  "with_site db fs s =
     s\<lparr>si_tables := db, si_gateway := (si_gateway s)\<lparr>gw_db := cf_pg db, gw_faults := fs\<rparr>\<rparr>"

definition si_store :: "'a config_tx \<Rightarrow> 'a si" where
  "si_store f s =
     (let db = site_tables s; fs = gw_faults (si_gateway s) in
      case fs of
        LostBefore # _ \<Rightarrow> (Inl err_storage, with_site db (tl fs) s)
      | LostAfter # _ \<Rightarrow> (Inl err_storage, with_site (snd (f db)) (tl fs) s)
      | _ \<Rightarrow> (fst (f db), with_site (snd (f db)) (tl fs) s))"

definition si_gate :: "'a act \<Rightarrow> 'a si" where
  "si_gate m s = (case m (si_gateway s) of (r, g) \<Rightarrow> (r, s\<lparr>si_gateway := g\<rparr>))"

subsection \<open>Settings\<close>

definition publish :: "runtime_settings \<Rightarrow> unit si" where
  "publish cfg = si_gate (\<lambda>g. (Inr (), g\<lparr>gw_settings := cfg\<rparr>))"

text \<open>A commit can succeed although its acknowledgement was lost.\<close>

definition reload_settings :: "unit si" where
  "reload_settings =
     act_bind (act_try (si_store pg_settings)) (\<lambda>persisted.
       case persisted of
         Inr cfg \<Rightarrow> publish cfg
       | Inl _ \<Rightarrow> si_gate (act_sched (set_paused True)))"

definition admin_save_settings :: "runtime_settings \<Rightarrow> runtime_settings si" where
  "admin_save_settings input =
     act_then (act_res (settings_validate input)) (
     act_bind (act_try (si_store (pg_save_settings input (rs_version input)))) (\<lambda>r.
       case r of
         Inr saved \<Rightarrow> act_then (publish saved) (act_return saved)
       | Inl e \<Rightarrow>
           act_then reload_settings (act_fail e)))"

subsection \<open>Models and prices\<close>

text \<open>The order in which the models are listed does not matter for a price.\<close>

definition admin_save_model :: "model_spec \<Rightarrow> model_spec si" where
  "admin_save_model m = si_store (pg_put_model m)"

definition err_price_model :: err where
  "err_price_model = err_invalid ''Configure the model before setting its price''"

definition admin_save_price :: "price \<Rightarrow> price si" where
  "admin_save_price p =
     act_bind (si_store (pg_models (\<lambda>_. 0 :: nat))) (\<lambda>models.
       if \<exists>m\<in>set models. ms_upstream m = pr_model p then si_store (pg_put_price p)
       else act_fail err_price_model)"

definition admin_save_search_price :: "search_price \<Rightarrow> search_price si" where
  "admin_save_search_price p = si_store (pg_put_search_price p)"

subsection \<open>A new account\<close>

record create_account =
  ca_codex_only :: bool
  ca_use_extra_credits :: bool
  ca_name :: string
  ca_group_ids :: "uuid list"
  ca_credentials :: credentials
  ca_upstream_account_id :: "string option"
  ca_upstream_base_url :: "string option"
  ca_max_inflight :: "nat option"
  ca_models :: "string list"

definition err_already_managed :: err where
  "err_already_managed = error_new 409 ''account_already_exists'' ''This ChatGPT account is already managed''"

definition created_account ::
  "datetime \<Rightarrow> runtime_settings \<Rightarrow> client_profile \<Rightarrow> uuid \<Rightarrow> create_account \<Rightarrow> string \<Rightarrow> account" where
  "created_account now cfg profile i input upstream =
     \<lparr>acc_id = i, acc_group_ids = ca_group_ids input, acc_name = ca_name input, acc_provider = ''openai'',
      acc_access_kind = ''codex_oauth'', acc_enabled = False, acc_codex_only = ca_codex_only input,
      acc_use_extra_credits = ca_use_extra_credits input, acc_disable_reason = Some AdminDisabled,
      acc_max_inflight = (case ca_max_inflight input of None \<Rightarrow> rs_default_account_concurrency cfg | Some n \<Rightarrow> n),
      acc_upstream_account_id = upstream,
      acc_upstream_base_url =
        (case ca_upstream_base_url input of None \<Rightarrow> ''https://chatgpt.com/backend-api/codex'' | Some u \<Rightarrow> u),
      acc_models = ca_models input, acc_models_restricted = False, acc_model_catalog = None, acc_profile = profile,
      acc_version = 0, acc_credential_version = 0,
      acc_credential_expires_at = cr_expires_at (ca_credentials input), acc_created_at = now, acc_updated_at = now\<rparr>"

text \<open>\<open>validate\<close> is \<open>Account::validate\<close> for the server's configuration, \<open>profile\<close> the default of \<open>ClientProfile\<close>.\<close>

definition admin_create_account ::
  "codex_control \<Rightarrow> (uuid \<Rightarrow> credentials \<Rightarrow> string res) \<Rightarrow> (account \<Rightarrow> unit res) \<Rightarrow> client_profile \<Rightarrow> uuid
     \<Rightarrow> create_account \<Rightarrow> account act" where
  "admin_create_account cx encrypt validate profile i input =
     act_then (act_res (credentials_validate (pr_header_ok (cx_prep cx)) (ca_credentials input))) (
     act_bind (case ca_upstream_account_id input of
         Some u \<Rightarrow> act_return u
       | None \<Rightarrow> act_res (res_map ad_account_id (account_details_of cx (ca_credentials input)))) (\<lambda>upstream.
     act_bind (act_read gw_settings) (\<lambda>cfg.
       let a = created_account (cx_now cx) cfg profile i input upstream in
       act_then (act_res (validate a)) (
       act_then (validate_selection (acc_group_ids a)) (
       act_bind (act_read (\<lambda>g. hvals (sc_accounts (gw_sched g)))) (\<lambda>accounts.
         if \<exists>b\<in>set accounts. acc_upstream_account_id b = acc_upstream_account_id a then act_fail err_already_managed
         else
           act_bind (act_res (encrypt i (ca_credentials input))) (\<lambda>secret.
           act_bind (act_store (pg_put_account (cx_now cx) a (Some secret) None)) (\<lambda>stored.
           act_then (act_sched (update_account stored)) (act_return stored)))))))))"

end
