(* ===== verification/Settings_Theorems.thy ===== *)
theory Settings_Theorems
  imports Admin_Settings Account_Theorems
begin

section \<open>Settings are versioned, and in force as stored\<close>

text \<open>
  The step relation of everything that touches the settings: the handlers, whatever the database
  answers or loses; anything else the gateway does, which never publishes settings nor unpauses; and
  a restart, which reads the settings first.
\<close>

inductive site_step :: "site \<Rightarrow> site \<Rightarrow> bool" where
  saves_settings: "site_step s (snd (admin_save_settings input s))"
| saves_model: "site_step s (snd (admin_save_model m s))"
| saves_price: "site_step s (snd (admin_save_price p s))"
| saves_search_price: "site_step s (snd (admin_save_search_price sp s))"
| works_on: "\<lbrakk>gw_settings g = gw_settings (si_gateway s); sc_paused (gw_sched (si_gateway s)) \<Longrightarrow> sc_paused (gw_sched g)\<rbrakk>
    \<Longrightarrow> site_step s (s\<lparr>si_gateway := g\<rparr>)"
| restarts: "\<lbrakk>pg_settings (site_tables s) = (Inr cfg, db); gw_settings g = cfg; gw_db g = cf_pg db\<rbrakk>
    \<Longrightarrow> site_step s \<lparr>si_gateway = g, si_tables = db\<rparr>"

definition fresh_site :: "site \<Rightarrow> bool" where
  "fresh_site s \<longleftrightarrow> cf_settings (si_tables s) = Some (1, settings_default) \<and> gw_settings (si_gateway s) = settings_default"

abbreviation site_reachable :: "site \<Rightarrow> bool" where
  "site_reachable \<equiv> reach fresh_site site_step"

definition stored_ok :: "configuration \<Rightarrow> bool" where
  "stored_ok db \<longleftrightarrow> (\<exists>c. cf_settings db = Some (rs_version c, c) \<and> settings_validate c = Inr ())"

definition in_force :: "site \<Rightarrow> bool" where
  "in_force s \<longleftrightarrow> cf_settings (si_tables s) = Some (rs_version (gw_settings (si_gateway s)), gw_settings (si_gateway s))"

definition site_ok :: "site \<Rightarrow> bool" where
  "site_ok s \<longleftrightarrow> stored_ok (si_tables s) \<and> settings_validate (gw_settings (si_gateway s)) = Inr ()
     \<and> (sc_paused (gw_sched (si_gateway s)) \<or> in_force s)"

text \<open>What is stored later: a higher version, or the same.\<close>

definition moves_on :: "configuration \<Rightarrow> configuration \<Rightarrow> bool" where
  "moves_on db db' \<longleftrightarrow> (\<forall>v c. cf_settings db = Some (v, c) \<longrightarrow>
     (\<exists>v' c'. cf_settings db' = Some (v', c') \<and> (v < v' \<or> v' = v \<and> c' = c)))"

lemma moves_on_refl: "cf_settings db' = cf_settings db \<Longrightarrow> moves_on db db'"
  by (simp add: moves_on_def)

lemma moves_on_trans: "moves_on a b \<Longrightarrow> moves_on b c \<Longrightarrow> moves_on a c"
  unfolding moves_on_def by (metis order.strict_trans)

subsection \<open>Store calls\<close>

lemma si_store_run:
  assumes "si_store f s = (r, s')"
  shows "gw_settings (si_gateway s') = gw_settings (si_gateway s)" "gw_sched (si_gateway s') = gw_sched (si_gateway s)"
    "si_tables s' = site_tables s \<or> si_tables s' = snd (f (site_tables s))"
    "r = Inr x \<Longrightarrow> fst (f (site_tables s)) = Inr x \<and> si_tables s' = snd (f (site_tables s))"
  using assms by (auto simp: si_store_def with_site_def Let_def split: list.splits fault.splits)

lemma site_tables_settings [simp]: "cf_settings (site_tables s) = cf_settings (si_tables s)"
  by (simp add: site_tables_def)

lemma log_config_settings [simp]: "cf_settings (log_config k a db) = cf_settings db"
  by (simp add: log_config_def)

text \<open>A transaction that leaves the settings alone.\<close>

lemma untouched_step:
  assumes "\<And>db. cf_settings (snd (f db)) = cf_settings db" "si_store f s = (r, s')"
  shows "cf_settings (si_tables s') = cf_settings (si_tables s)"
    "gw_settings (si_gateway s') = gw_settings (si_gateway s)" "gw_sched (si_gateway s') = gw_sched (si_gateway s)"
  using si_store_run [OF assms(2)] assms(1) by (metis site_tables_settings)+

lemma untouched_txs:
  "cf_settings (snd (pg_put_model m db)) = cf_settings db" "cf_settings (snd (pg_put_price p db)) = cf_settings db"
  "cf_settings (snd (pg_put_search_price sp db)) = cf_settings db" "cf_settings (snd (pg_models k db)) = cf_settings db"
  by (simp_all add: pg_put_model_def pg_put_price_def pg_put_search_price_def pg_models_def Let_def split: sum.split)

lemma version_unchecked: "settings_validate (c\<lparr>rs_version := v\<rparr>) = settings_validate c"
  by (simp add: settings_validate_def)

lemma saved_settings:
  assumes "stored_ok db"
  shows "stored_ok (snd (pg_save_settings c v db))" "moves_on db (snd (pg_save_settings c v db))"
    "fst (pg_save_settings c v db) = Inr saved \<Longrightarrow> saved = c\<lparr>rs_version := v + 1\<rparr> \<and> settings_validate c = Inr ()
       \<and> cf_settings (snd (pg_save_settings c v db)) = Some (rs_version saved, saved) \<and> (\<exists>old. cf_settings db = Some (v, old))"
  using assms
  by (auto simp: stored_ok_def moves_on_def version_unchecked pg_save_settings_def Let_def split: sum.splits option.splits if_splits)

text \<open>Reading them: the row is there.\<close>

lemma read_settings:
  "stored_ok db \<Longrightarrow> snd (pg_settings db) = db"
  "stored_ok db \<Longrightarrow> fst (pg_settings db) = Inr c \<Longrightarrow> cf_settings db = Some (rs_version c, c)"
  by (auto simp: stored_ok_def pg_settings_def)

subsection \<open>The handler\<close>

lemma pause_runs:
  "si_gate (act_sched (set_paused True)) s = (Inr (), s\<lparr>si_gateway := (si_gateway s)\<lparr>gw_sched := set_paused True (gw_sched (si_gateway s))\<rparr>\<rparr>)"
  by (simp add: si_gate_def act_sched_def)

lemma publish_runs:
  "publish c s = (Inr (), s\<lparr>si_gateway := (si_gateway s)\<lparr>gw_settings := c\<rparr>\<rparr>)"
  by (simp add: publish_def si_gate_def)

lemma site_tables_ok: "stored_ok (site_tables s) \<longleftrightarrow> stored_ok (si_tables s)"
  by (simp add: stored_ok_def)

lemma reload_outcome:
  assumes ok: "stored_ok (si_tables s)" "settings_validate (gw_settings (si_gateway s)) = Inr ()"
  obtains s' where "reload_settings s = (Inr (), s')" "site_ok s'" "cf_settings (si_tables s') = cf_settings (si_tables s)"
proof -
  obtain r s1 where run: "si_store pg_settings s = (r, s1)" by fastforce
  note ran = si_store_run [OF run]
  have same: "cf_settings (si_tables s1) = cf_settings (si_tables s)"
    using ran(3) read_settings(1) [of "site_tables s"] ok(1) by (metis site_tables_ok site_tables_settings)
  then have s1: "stored_ok (si_tables s1)" using ok(1) by (simp add: stored_ok_def)
  show thesis
  proof (cases r)
    case (Inr cfg)
    with ran(4) [of cfg] read_settings(2) [of "site_tables s" cfg] ok(1)
    have "cf_settings (si_tables s) = Some (rs_version cfg, cfg)" by (simp add: site_tables_ok)
    with same s1 run Inr that show thesis
      by (auto simp: reload_settings_def act_bind_def act_try_def publish_runs site_ok_def in_force_def stored_ok_def)
  next
    case (Inl e)
    with s1 ok(2) ran(1) run same that show thesis
      by (auto simp: reload_settings_def act_bind_def act_try_def pause_runs site_ok_def set_paused_def)
  qed
qed

lemma save_outcome:
  assumes ok: "site_ok s" and run: "admin_save_settings c s = (r, s')"
  shows "site_ok s' \<and> moves_on (si_tables s) (si_tables s')
    \<and> (\<forall>saved. r = Inr saved \<longrightarrow> saved = c\<lparr>rs_version := rs_version c + 1\<rparr> \<and> in_force s'
       \<and> gw_settings (si_gateway s') = saved \<and> (\<exists>old. cf_settings (si_tables s) = Some (rs_version c, old)))"
proof (cases "settings_validate c")
  case (Inl e)
  with run ok show ?thesis by (auto simp: admin_save_settings_def act_then_def act_bind_def act_res_def act_fail_def moves_on_refl)
next
  case (Inr u)
  let ?f = "pg_save_settings c (rs_version c)"
  from ok have stored: "stored_ok (site_tables s)" and valid: "settings_validate (gw_settings (si_gateway s)) = Inr ()"
    by (simp_all add: site_ok_def site_tables_ok)
  obtain r1 s1 where first: "si_store ?f s = (r1, s1)" by fastforce
  note ran = si_store_run [OF first]
  from ran(3) have "stored_ok (si_tables s1) \<and> moves_on (site_tables s) (si_tables s1)"
    using stored saved_settings(1,2) [OF stored] moves_on_refl by metis
  then have s1: "stored_ok (si_tables s1)" "moves_on (si_tables s) (si_tables s1)"
    by (simp_all add: moves_on_def)
  show ?thesis
  proof (cases r1)
    case (Inr x)
    with ran(4) [of x] saved_settings(3) [OF stored, of c "rs_version c" x]
    have x: "x = c\<lparr>rs_version := rs_version c + 1\<rparr>" "settings_validate c = Inr ()"
      "cf_settings (si_tables s1) = Some (rs_version x, x)" "\<exists>old. cf_settings (si_tables s) = Some (rs_version c, old)"
      by (auto simp del: site_tables_settings) (metis site_tables_settings)
    have "r = Inr x" "s' = s1\<lparr>si_gateway := (si_gateway s1)\<lparr>gw_settings := x\<rparr>\<rparr>"
      using run first Inr \<open>settings_validate c = Inr u\<close>
      by (simp_all add: admin_save_settings_def act_then_def act_bind_def act_res_def act_return_def act_try_def publish_runs)
    with x s1 show ?thesis by (simp add: site_ok_def in_force_def version_unchecked)
  next
    case (Inl e)
    from valid ran(1) have "settings_validate (gw_settings (si_gateway s1)) = Inr ()" by simp
    from reload_outcome [OF s1(1) this] obtain s2 where "reload_settings s1 = (Inr (), s2)" "site_ok s2"
        "cf_settings (si_tables s2) = cf_settings (si_tables s1)" .
    with run first Inl s1(2) \<open>settings_validate c = Inr u\<close> show ?thesis
      by (auto simp: admin_save_settings_def act_then_def act_bind_def act_res_def act_return_def act_fail_def act_try_def
          moves_on_def)
  qed
qed

subsection \<open>Every step\<close>

lemma site_ok_untouched:
  assumes "site_ok s" "cf_settings (si_tables s') = cf_settings (si_tables s)"
    "gw_settings (si_gateway s') = gw_settings (si_gateway s)"
    "sc_paused (gw_sched (si_gateway s)) \<Longrightarrow> sc_paused (gw_sched (si_gateway s'))"
  shows "site_ok s' \<and> moves_on (si_tables s) (si_tables s')"
  using assms by (auto simp: site_ok_def stored_ok_def in_force_def moves_on_refl)

lemma untouched_ok:
  assumes "\<And>db. cf_settings (snd (f db)) = cf_settings db" "site_ok s"
  shows "site_ok (snd (si_store f s)) \<and> moves_on (si_tables s) (si_tables (snd (si_store f s)))"
  using untouched_step [OF assms(1), where s = s] site_ok_untouched [OF assms(2)] by (metis prod.collapse)

lemma price_ok:
  assumes "site_ok s"
  shows "site_ok (snd (admin_save_price p s)) \<and> moves_on (si_tables s) (si_tables (snd (admin_save_price p s)))"
proof -
  obtain r s1 where first: "si_store (pg_models (\<lambda>_. 0 :: nat)) s = (r, s1)" by fastforce
  have s1: "site_ok s1" "moves_on (si_tables s) (si_tables s1)"
    using untouched_ok [OF untouched_txs(4) [where k = "\<lambda>_. 0 :: nat"] assms] first by simp_all
  have "snd (admin_save_price p s) \<in> {s1, snd (si_store (pg_put_price p) s1)}"
    using first by (auto simp: admin_save_price_def act_bind_def act_fail_def split: sum.split)
  then show ?thesis
    using s1 untouched_ok [OF untouched_txs(2) [where p = p] s1(1)] moves_on_trans [OF s1(2)] by auto
qed

lemma site_step_ok: "site_step s s' \<Longrightarrow> site_ok s \<Longrightarrow> site_ok s' \<and> moves_on (si_tables s) (si_tables s')"
proof (induction rule: site_step.induct)
  case (saves_settings s input)
  then show ?case using save_outcome [of s input] by (metis prod.collapse)
next
  case (saves_model s m)
  then show ?case unfolding admin_save_model_def by (intro untouched_ok untouched_txs)
next
  case (saves_price s p)
  then show ?case by (rule price_ok)
next
  case (saves_search_price s sp)
  then show ?case unfolding admin_save_search_price_def by (intro untouched_ok untouched_txs)
next
  case (works_on g s)
  then show ?case by (intro site_ok_untouched) simp_all
next
  case (restarts s cfg db g)
  then have stored: "stored_ok (site_tables s)" by (simp add: site_ok_def site_tables_ok)
  from restarts read_settings [OF this] have "db = site_tables s" "cf_settings (si_tables s) = Some (rs_version cfg, cfg)"
    by (metis snd_conv, metis fst_conv site_tables_settings)
  with restarts stored show ?case by (auto simp: site_ok_def stored_ok_def in_force_def moves_on_refl)
qed

lemma fresh_site_ok: "fresh_site s \<Longrightarrow> site_ok s"
  by (simp add: fresh_site_def site_ok_def stored_ok_def in_force_def settings_default_valid)
    (simp add: settings_default_def)

interpretation sites: invariant_system fresh_site site_step site_ok
  using site_step_ok by unfold_locales (auto intro: fresh_site_ok)

lemma steps_move_on: "site_ok s \<Longrightarrow> site_step\<^sup>*\<^sup>* s t \<Longrightarrow> moves_on (si_tables s) (si_tables t)"
  by (rotate_tac 1, induction rule: rtranclp_induct)
    (auto intro: moves_on_refl moves_on_trans dest: site_step_ok sites.steps_inv)

subsection \<open>Properties\<close>

text \<open>
  C31. Whatever is saved, lost on the way or restarted: the settings in force pass the validation,
  and they are the stored ones unless dispatching is paused.
\<close>

theorem settings_in_force:
  assumes "site_reachable s"
  shows "settings_validate (gw_settings (si_gateway s)) = Inr ()
    \<and> (sc_paused (gw_sched (si_gateway s))
       \<or> cf_settings (si_tables s) = Some (rs_version (gw_settings (si_gateway s)), gw_settings (si_gateway s)))"
  using sites.reach_inv [OF assms] by (simp add: site_ok_def in_force_def)

text \<open>
  C32. A save of settings succeeds only over the version it was made from, takes effect at once
  under the next version, and is not overwritten unseen: from then on the stored version is that one
  with exactly these settings, or a higher one.
\<close>

theorem settings_not_lost:
  assumes "site_reachable s" and "admin_save_settings input s = (Inr saved, s')" and "site_step\<^sup>*\<^sup>* s' t"
  shows "(\<exists>old. cf_settings (si_tables s) = Some (rs_version input, old))
    \<and> saved = input\<lparr>rs_version := rs_version input + 1\<rparr> \<and> gw_settings (si_gateway s') = saved
    \<and> (\<exists>v c. cf_settings (si_tables t) = Some (v, c) \<and> (rs_version saved < v \<or> v = rs_version saved \<and> c = saved))"
proof -
  have ok: "site_ok s" by (rule sites.reach_inv [OF assms(1)])
  note outcome = save_outcome [OF ok assms(2)]
  then have "cf_settings (si_tables s') = Some (rs_version saved, saved)" by (simp add: in_force_def)
  with steps_move_on [OF _ assms(3)] outcome have
    "\<exists>v c. cf_settings (si_tables t) = Some (v, c) \<and> (rs_version saved < v \<or> v = rs_version saved \<and> c = saved)"
    unfolding moves_on_def by blast
  with outcome show ?thesis by blast
qed

text \<open>A first save whose acknowledgement is lost, and one that a stale page sends afterwards.\<close>

definition ex_site :: site where
  "ex_site = \<lparr>si_gateway = ex_gateway (sched_new [] [] []) [],
     si_tables = \<lparr>cf_pg = ex_db, cf_settings = Some (1, settings_default), cf_models = [], cf_prices = [],
       cf_price_serial = 0, cf_search = [], cf_search_serial = 0, cf_discovery = None, cf_subscriptions = []\<rparr>\<rparr>"

lemma ex_site_reach: "site_reachable ex_site"
  by (rule reach_init) (simp add: fresh_site_def ex_site_def ex_gateway_def)

definition ex_saved :: site where
  "ex_saved = snd (admin_save_settings (settings_default\<lparr>rs_queue_capacity := 9\<rparr>) ex_site)"

lemma ex_valid: "settings_validate (settings_default\<lparr>rs_queue_capacity := 9\<rparr>) = Inr ()"
  by (simp add: settings_validate_def settings_default_def)

lemmas site_defs = act_then_def act_bind_def act_return_def act_fail_def act_try_def act_res_def si_store_def
  site_tables_def with_site_def Let_def publish_runs pg_save_settings_def

lemma ex_saved_run:
  "admin_save_settings (settings_default\<lparr>rs_queue_capacity := 9\<rparr>) ex_site
     = (Inr (settings_default\<lparr>rs_version := 2, rs_queue_capacity := 9\<rparr>), ex_saved)"
  unfolding ex_saved_def
  by (simp add: admin_save_settings_def site_defs ex_valid ex_site_def ex_gateway_def) (simp add: settings_default_def)

theorem settings_in_force_witness:
  "sc_paused (gw_sched (si_gateway ex_saved)) \<or> cf_settings (si_tables ex_saved)
     = Some (rs_version (gw_settings (si_gateway ex_saved)), gw_settings (si_gateway ex_saved))"
  using settings_in_force [OF reach_step [OF ex_site_reach saves_settings]] unfolding ex_saved_def by blast

theorem settings_not_lost_witness:
  "gw_settings (si_gateway ex_saved) = settings_default\<lparr>rs_version := 2, rs_queue_capacity := 9\<rparr>"
  using settings_not_lost [OF ex_site_reach ex_saved_run rtranclp.rtrancl_refl] by simp

end
