(* ===== verification/Discovery_Version.thy ===== *)
theory Discovery_Version
  imports Settings_Theorems
begin

section \<open>The version used for model discovery\<close>

text \<open>
  \<open>crates/xxgate-codex/src/model_version.rs\<close>, \<open>crates/xxgate-server/src/model_version.rs\<close>: the gateway
  presents itself to the models endpoint with the latest stable release of the Codex client it has
  seen. \<open>dv_version\<close> is the static \<open>VERSION\<close>; the stored one is in the tables of \<open>Pg_Settings\<close>. serde's
  reading of a release is the parameter \<open>re_release\<close>, and that of a list of releases, each printed
  again, \<open>re_list\<close>; \<open>None\<close> is a text they reject.
\<close>

subsection \<open>Versions (xxgate-codex)\<close>

definition CODEX_VERSION :: string where
  "CODEX_VERSION = ''0.153.4''"

definition version_part :: "string \<Rightarrow> nat option" where
  "version_part s =
     (if s = [] \<or> \<not> (\<forall>c\<in>set s. is_digit c) \<or> 1 < length s \<and> starts_with ''0'' s then None
      else parse_nat_below (2 ^ 32) s)"

definition parse_version :: "string \<Rightarrow> (nat \<times> nat \<times> nat) option" where
  "parse_version v =
     (case map version_part (split_on CHR ''.'' v) of
        [Some a, Some b, Some c] \<Rightarrow> Some (a, b, c)
      | _ \<Rightarrow> None)"

definition current_version :: "string option \<Rightarrow> string" where
  "current_version guard = (case guard of None \<Rightarrow> CODEX_VERSION | Some v \<Rightarrow> v)"

text \<open>
  The second component of the result is what \<open>update\<close> returns. The \<open>unwrap\<close> of the previous
  version never fails: it is the baseline or was parsed before it was kept.
\<close>

definition advance :: "string option \<Rightarrow> string \<Rightarrow> string option \<times> bool" where
  "advance guard v =
     (case parse_version v of
        None \<Rightarrow> (guard, False)
      | Some n \<Rightarrow>
          (case parse_version (current_version guard) of
             Some p \<Rightarrow> if n \<le> p then (guard, False) else (Some v, True)
           | None \<Rightarrow> (guard, False)))"

subsection \<open>Releases (xxgate-server)\<close>

record release =
  rl_tag_name :: string
  rl_prerelease :: bool
  rl_draft :: bool

datatype page = NoPage | Page nat "string option list"

record release_env =
  re_release :: "string \<Rightarrow> release option"
  re_list :: "string \<Rightarrow> string list option"

definition release_version :: "release_env \<Rightarrow> string \<Rightarrow> string option" where
  "release_version env body =
     Option.bind (re_release env body) (\<lambda>r.
       if rl_prerelease r \<or> rl_draft r then None
       else Option.bind (strip_prefix ''rust-v'' (rl_tag_name r)) (\<lambda>v.
         if parse_version v = None then None else Some v))"

fun page_body :: "string \<Rightarrow> string option list \<Rightarrow> string option" where
  "page_body body [] = Some body"
| "page_body body (None # cs) = None"
| "page_body body (Some c # cs) = (if 1024 * 1024 < length body + length c then None else page_body (body @ c) cs)"

definition fetch_body :: "page \<Rightarrow> string option" where
  "fetch_body p =
     (case p of NoPage \<Rightarrow> None | Page status chunks \<Rightarrow> if 400 \<le> status \<and> status < 600 then None else page_body [] chunks)"

text \<open>\<open>max_by_key\<close> keeps the later of equal ones.\<close>

definition latest_version :: "string list \<Rightarrow> string option" where
  "latest_version vs =
     foldl (\<lambda>best v. case best of
         None \<Rightarrow> Some v
       | Some b \<Rightarrow> if the (parse_version v) < the (parse_version b) then Some b else Some v) None vs"

definition fetch_version :: "release_env \<Rightarrow> page \<Rightarrow> page \<Rightarrow> string option" where
  "fetch_version env latest releases =
     (case Option.bind (fetch_body latest) (release_version env) of
        Some v \<Rightarrow> Some v
      | None \<Rightarrow>
          Option.bind (Option.bind (fetch_body releases) (re_list env)) (\<lambda>bodies.
            latest_version (List.map_filter (release_version env) bodies)))"

record discovery =
  dv_version :: "string option"
  dv_site :: site

type_synonym 'a disc = "(discovery, err, 'a) comp"

definition dv_store :: "'a config_tx \<Rightarrow> 'a disc" where
  "dv_store f d = (case si_store f (dv_site d) of (r, s) \<Rightarrow> (r, d\<lparr>dv_site := s\<rparr>))"

definition update_version :: "string \<Rightarrow> unit disc" where
  "update_version v d = (Inr (), d\<lparr>dv_version := fst (advance (dv_version d) v)\<rparr>)"

definition restore_version :: "unit disc" where
  "restore_version =
     act_bind (dv_store pg_discovery_version) (\<lambda>stored.
       case stored of None \<Rightarrow> act_return () | Some v \<Rightarrow> update_version v)"

definition newer :: "string \<Rightarrow> string \<Rightarrow> bool" where
  "newer v w \<longleftrightarrow>
     (case (parse_version v, parse_version w) of
        (Some a, Some b) \<Rightarrow> b < a
      | (Some _, None) \<Rightarrow> True
      | _ \<Rightarrow> False)"

text \<open>One round of the task; a round that fails is logged only.\<close>

definition version_round :: "release_env \<Rightarrow> page \<Rightarrow> page \<Rightarrow> unit disc" where
  "version_round env latest releases =
     (case fetch_version env latest releases of
        None \<Rightarrow> act_return ()
      | Some v \<Rightarrow>
          act_bind (act_read (\<lambda>d. newer v (current_version (dv_version d)))) (\<lambda>is_newer.
            if is_newer then act_then (dv_store (pg_save_discovery_version v)) (update_version v) else act_return ()))"

subsection \<open>Facts about versions\<close>

lemma release_version_parses: "release_version env b = Some v \<Longrightarrow> parse_version v \<noteq> None"
  by (auto simp: release_version_def bind_eq_Some_conv split: if_splits)

lemma latest_parses:
  assumes "latest_version vs = Some v"
  shows "v \<in> set vs"
proof -
  let ?f = "\<lambda>best w. case best of None \<Rightarrow> Some w
     | Some b \<Rightarrow> if the (parse_version w) < the (parse_version b) then Some b else Some w"
  have "foldl ?f best xs = Some v \<Longrightarrow> v \<in> set xs \<or> best = Some v" for best xs
    by (induction xs arbitrary: best) (fastforce split: option.splits if_splits)+
  from this [of None vs] assms show ?thesis by (simp add: latest_version_def)
qed

lemma fetch_parses:
  assumes "fetch_version env latest releases = Some v"
  shows "parse_version v \<noteq> None"
proof (cases "Option.bind (fetch_body latest) (release_version env)")
  case (Some w)
  with assms have "Option.bind (fetch_body latest) (release_version env) = Some v" by (simp add: fetch_version_def)
  then show ?thesis by (auto simp: bind_eq_Some_conv dest: release_version_parses)
next
  case None
  with assms obtain bodies where "latest_version (List.map_filter (release_version env) bodies) = Some v"
    by (auto simp: fetch_version_def bind_eq_Some_conv)
  from latest_parses [OF this] show ?thesis
    using release_version_parses by (fastforce simp: List.map_filter_def)
qed

lemma baseline_version: "parse_version CODEX_VERSION = Some (0, 153, 4)"
proof -
  have split: "split_on CHR ''.'' CODEX_VERSION = [''0'', ''153'', ''4'']" by code_simp
  have digits: "is_digit CHR ''0''" "is_digit CHR ''1''" "is_digit CHR ''5''" "is_digit CHR ''3''" "is_digit CHR ''4''"
    by code_simp+
  show ?thesis
    by (simp add: parse_version_def split version_part_def digits parse_nat_below_def digits_value_def starts_with_def)
qed

subsection \<open>Runs of the process\<close>

text \<open>
  Rounds with whatever pages the network gives and whatever store calls are lost, everything else
  the server does, and restarts, after which the stored version is restored first.
\<close>

inductive discovery_step :: "release_env \<Rightarrow> discovery \<Rightarrow> discovery \<Rightarrow> bool" for env where
  round: "discovery_step env d (snd (version_round env latest releases d))"
| elsewhere: "cf_discovery (si_tables s) = cf_discovery (si_tables (dv_site d)) \<Longrightarrow> discovery_step env d (d\<lparr>dv_site := s\<rparr>)"
| restarted: "\<lbrakk>cf_discovery (si_tables s) = cf_discovery (si_tables (dv_site d));
    restore_version \<lparr>dv_version = None, dv_site = s\<rparr> = (Inr (), d')\<rbrakk> \<Longrightarrow> discovery_step env d d'"

definition discovery_new :: "discovery \<Rightarrow> bool" where
  "discovery_new d \<longleftrightarrow> dv_version d = None \<and> cf_discovery (si_tables (dv_site d)) = None"

abbreviation discovery_reachable :: "release_env \<Rightarrow> discovery \<Rightarrow> bool" where
  "discovery_reachable env \<equiv> reach discovery_new (discovery_step env)"

definition version_number :: "string \<Rightarrow> nat \<times> nat \<times> nat" where
  "version_number v = the (parse_version v)"

definition in_use :: "discovery \<Rightarrow> nat \<times> nat \<times> nat" where
  "in_use d = version_number (current_version (dv_version d))"

text \<open>What is in use was stored before, and nothing older has been stored since.\<close>

definition kept_version :: "discovery \<Rightarrow> bool" where
  "kept_version d \<longleftrightarrow>
     parse_version (current_version (dv_version d)) \<noteq> None
     \<and> (\<forall>w. cf_discovery (si_tables (dv_site d)) = Some w \<longrightarrow> parse_version w \<noteq> None)
     \<and> (\<forall>v. dv_version d = Some v \<longrightarrow>
          (\<exists>w. cf_discovery (si_tables (dv_site d)) = Some w \<and> version_number v \<le> version_number w))"

lemma advance_number:
  assumes "parse_version (current_version guard) \<noteq> None" "parse_version v \<noteq> None"
  shows "parse_version (current_version (fst (advance guard v))) \<noteq> None"
    "version_number (current_version (fst (advance guard v)))
       = max (version_number (current_version guard)) (version_number v)"
    "fst (advance guard v) = guard \<or> fst (advance guard v) = Some v"
  using assms by (auto simp: advance_def version_number_def current_version_def max_def split: option.splits)

lemma site_tables_discovery [simp]: "cf_discovery (site_tables s) = cf_discovery (si_tables s)"
  by (simp add: site_tables_def)

lemma round_kept:
  assumes "kept_version d"
  shows "kept_version (snd (version_round env latest releases d)) \<and> in_use d \<le> in_use (snd (version_round env latest releases d))"
proof (cases "fetch_version env latest releases")
  case None
  with assms show ?thesis by (simp add: version_round_def act_return_def)
next
  case (Some v)
  have v: "parse_version v \<noteq> None" by (rule fetch_parses [OF Some])
  show ?thesis
  proof (cases "newer v (current_version (dv_version d))")
    case False
    with Some assms show ?thesis by (simp add: version_round_def act_return_def act_bind_def act_read_def)
  next
    case True
    with v assms have more: "version_number (current_version (dv_version d)) < version_number v"
      by (auto simp: newer_def kept_version_def version_number_def split: option.splits)
    obtain r s where run: "si_store (pg_save_discovery_version v) (dv_site d) = (r, s)" by fastforce
    have stored: "cf_discovery (si_tables s) \<in> {cf_discovery (si_tables (dv_site d)), Some v}"
        "r = Inr () \<Longrightarrow> cf_discovery (si_tables s) = Some v"
      using si_store_run(3,4) [OF run] by (auto simp: pg_save_discovery_version_def)
    let ?d = "d\<lparr>dv_site := s\<rparr>"
    have kept: "kept_version ?d"
      using assms stored(1) v more by (fastforce simp: kept_version_def current_version_def)
    have "snd (version_round env latest releases d) = (case r of Inl e \<Rightarrow> ?d | Inr _ \<Rightarrow> snd (update_version v ?d))"
      using Some True run
      by (simp add: version_round_def act_bind_def act_then_def act_read_def dv_store_def split: sum.split)
    moreover have "kept_version (snd (update_version v ?d)) \<and> in_use d \<le> in_use (snd (update_version v ?d))"
      if "r = Inr ()"
      using advance_number [of "dv_version d" v] assms v stored(2) [OF that] more
      by (auto simp: kept_version_def update_version_def in_use_def max_def current_version_def)
    ultimately show ?thesis using kept by (cases r) (simp_all add: in_use_def)
  qed
qed

lemma restore_kept:
  assumes "kept_version d" "cf_discovery (si_tables s) = cf_discovery (si_tables (dv_site d))"
    "restore_version \<lparr>dv_version = None, dv_site = s\<rparr> = (Inr (), d')"
  shows "kept_version d' \<and> in_use d \<le> in_use d'"
proof -
  obtain r s1 where run: "si_store pg_discovery_version s = (r, s1)" by fastforce
  have s1: "cf_discovery (si_tables s1) = cf_discovery (si_tables (dv_site d))"
      "\<And>x. r = Inr x \<Longrightarrow> x = cf_discovery (si_tables (dv_site d))"
    using si_store_run(3,4) [OF run] assms(2) by (auto simp: pg_discovery_version_def)
  let ?d = "\<lparr>dv_version = None, dv_site = s1\<rparr>"
  obtain x where r: "r = Inr x" and d': "d' = (case x of None \<Rightarrow> ?d | Some v \<Rightarrow> snd (update_version v ?d))"
    using assms(3) run
    by (auto simp: restore_version_def act_bind_def act_return_def dv_store_def update_version_def
        split: sum.splits option.splits prod.splits)
  have base: "parse_version (current_version None) \<noteq> None"
    by (simp add: current_version_def baseline_version)
  show ?thesis
  proof (cases x)
    case None
    with r s1(2) [OF r] assms(1) base d' s1(1) show ?thesis
      by (auto simp: kept_version_def in_use_def)
  next
    case (Some w)
    with r s1(2) [OF r] assms(1) have w: "parse_version w \<noteq> None" by (auto simp: kept_version_def)
    have used: "in_use d \<le> max (version_number (current_version None)) (version_number w)"
      using assms(1) Some s1(2) [OF r]
      by (cases "dv_version d") (auto simp: kept_version_def in_use_def current_version_def max_def)
    show ?thesis
      using advance_number [OF base w] used d' Some s1(1) s1(2) [OF r] w assms(1)
      by (auto simp: kept_version_def update_version_def in_use_def max_def)
  qed
qed

lemma discovery_kept:
  "discovery_step env d d' \<Longrightarrow> kept_version d \<Longrightarrow> kept_version d' \<and> in_use d \<le> in_use d'"
proof (induction rule: discovery_step.induct)
  case (round d latest releases)
  then show ?case by (rule round_kept)
next
  case (elsewhere s d)
  then show ?case by (simp add: kept_version_def in_use_def)
next
  case (restarted s d d')
  from restore_kept [OF restarted(3,1,2)] show ?case .
qed

text \<open>
  C33. The version that is used for model discovery never goes down: not by a release that is
  withdrawn, not by a lost acknowledgement and not by a restart.
\<close>

theorem discovery_never_falls:
  assumes "discovery_reachable env d" and "(discovery_step env)\<^sup>*\<^sup>* d d'"
  shows "parse_version (current_version (dv_version d)) \<noteq> None
    \<and> the (parse_version (current_version (dv_version d))) \<le> the (parse_version (current_version (dv_version d')))"
proof -
  have kept: "kept_version d"
    using assms(1)
  proof (induction rule: reach.induct)
    case (reach_init d)
    then show ?case by (simp add: discovery_new_def kept_version_def current_version_def baseline_version)
  next
    case (reach_step d d')
    then show ?case using discovery_kept by blast
  qed
  have "kept_version d' \<and> in_use d \<le> in_use d'"
    using assms(2) by (induction rule: rtranclp_induct) (use kept in simp, meson discovery_kept order_trans)
  with kept show ?thesis by (simp add: kept_version_def in_use_def version_number_def)
qed

text \<open>A release is stored, its acknowledgement lost, and found again after a restart.\<close>

definition ex_releases :: release_env where
  "ex_releases = \<lparr>re_release = (\<lambda>_. Some \<lparr>rl_tag_name = ''rust-v0.154.0'', rl_prerelease = False, rl_draft = False\<rparr>),
     re_list = (\<lambda>_. None)\<rparr>"

definition ex_discovery :: discovery where
  "ex_discovery = \<lparr>dv_version = None, dv_site = ex_site\<lparr>si_gateway := (si_gateway ex_site)\<lparr>gw_faults := [LostAfter]\<rparr>\<rparr>\<rparr>"

definition ex_lost_version :: discovery where
  "ex_lost_version = snd (version_round ex_releases (Page 200 []) NoPage ex_discovery)"

lemma ex_version: "parse_version ''0.154.0'' = Some (0, 154, 0)" "strip_prefix ''rust-v'' ''rust-v0.154.0'' = Some ''0.154.0''"
proof -
  have split: "split_on CHR ''.'' ''0.154.0'' = [''0'', ''154'', ''0'']" by code_simp
  have digits: "is_digit CHR ''0''" "is_digit CHR ''1''" "is_digit CHR ''5''" "is_digit CHR ''4''"
    by code_simp+
  show "parse_version ''0.154.0'' = Some (0, 154, 0)"
    by (simp add: parse_version_def split version_part_def digits parse_nat_below_def digits_value_def starts_with_def)
  show "strip_prefix ''rust-v'' ''rust-v0.154.0'' = Some ''0.154.0''" by code_simp
qed

lemma ex_fetched: "fetch_version ex_releases (Page 200 []) NoPage = Some ''0.154.0''"
  by (simp add: fetch_version_def fetch_body_def release_version_def ex_releases_def ex_version)

theorem discovery_never_falls_witness:
  "the (parse_version (current_version (dv_version ex_discovery)))
     \<le> the (parse_version (current_version (dv_version (snd (restore_version
          \<lparr>dv_version = None, dv_site = dv_site ex_lost_version\<rparr>)))))"
proof -
  have start: "discovery_reachable ex_releases ex_discovery"
    by (rule reach_init) (simp add: discovery_new_def ex_discovery_def ex_site_def)
  have round: "discovery_step ex_releases ex_discovery ex_lost_version"
    unfolding ex_lost_version_def by (rule discovery_step.round)
  have "gw_faults (si_gateway (dv_site ex_lost_version)) = []" "cf_discovery (si_tables (dv_site ex_lost_version)) \<noteq> None"
    unfolding ex_lost_version_def
    by (simp_all add: version_round_def ex_fetched act_bind_def act_then_def act_read_def newer_def current_version_def
        baseline_version ex_version ex_discovery_def ex_site_def ex_gateway_def dv_store_def si_store_def with_site_def
        Let_def pg_save_discovery_version_def)
  then obtain d' where d': "restore_version \<lparr>dv_version = None, dv_site = dv_site ex_lost_version\<rparr> = (Inr (), d')"
    by (auto simp: restore_version_def dv_store_def si_store_def Let_def pg_discovery_version_def act_bind_def
        act_return_def update_version_def)
  have "(discovery_step ex_releases)\<^sup>*\<^sup>* ex_discovery d'"
    using round restarted [OF refl d'] by (meson r_into_rtranclp rtranclp.rtrancl_into_rtrancl)
  from discovery_never_falls [OF start this] d' show ?thesis by simp
qed

end
