(* ===== verification/Model_Catalog.thy ===== *)
theory Model_Catalog
  imports Discovery_Version Control_Codex "HOL-Library.List_Lexorder"
begin

section \<open>Discovering models\<close>

text \<open>
  \<open>crates/xxgate-codex/src/provider/models.rs\<close>, \<open>crates/xxgate-core/src/application/catalog.rs\<close>,
  \<open>crates/xxgate-server/src/http/public_models.rs\<close> and the listing of \<open>public.rs\<close>: asking the provider
  for an account's models, keeping the catalog and configuring the new ones, and the models offered
  to the holders of a key. The parser of URLs is the parameter \<open>add_query\<close>: the URL with the
  query parameter \<open>client_version\<close>, if there is one.
\<close>

subsection \<open>The adapter (provider/models.rs)\<close>

text \<open>\<open>str::replace\<close> of a text that is not empty.\<close>

fun replace_text :: "string \<Rightarrow> string \<Rightarrow> string \<Rightarrow> string" where
  "replace_text p r [] = []"
| "replace_text p r (c # cs) =
     (if starts_with p (c # cs) then r @ replace_text p r (drop (length p - 1) cs) else c # replace_text p r cs)"

definition discovering :: "account \<Rightarrow> string \<Rightarrow> account" where
  "discovering a version =
     a\<lparr>acc_profile := (acc_profile a)
        \<lparr>cp_codex_version := version,
         cp_user_agent := replace_text (''codex_cli_rs/'' @ cp_codex_version (acc_profile a))
           (''codex_cli_rs/'' @ version) (cp_user_agent (acc_profile a))\<rparr>\<rparr>"

definition models_request ::
  "codex_control \<Rightarrow> (string \<Rightarrow> string \<Rightarrow> string option) \<Rightarrow> string \<Rightarrow> account \<Rightarrow> credentials \<Rightarrow> prepared_request res" where
  "models_request cx add_query version a c =
     (let b = discovering a version in
      and_then (auth_headers (cx_prep cx) b c) (\<lambda>headers.
        if \<not> pr_header_ok (cx_prep cx) version then Inl (err_invalid ''Invalid models client version'')
        else case add_query (trim_end_char CHR ''/'' (acc_upstream_base_url b) @ ''/models'') version of
          None \<Rightarrow> Inl (err_invalid ''Invalid models URL'')
        | Some url \<Rightarrow> Inr
            \<lparr>pq_method = ''GET'', pq_url = url, pq_headers = set_header ''version'' version headers, pq_body = [],
             pq_account_id = Some (acc_id b), pq_profile_version = acc_version b,
             pq_tls_backend = cp_tls_backend (acc_profile b)\<rparr>))"

definition err_models :: "nat list \<Rightarrow> string \<Rightarrow> nat list \<Rightarrow> err" where
  "err_models before name after = error_new 502 ''invalid_models_response'' (uni before @ name @ uni after)"

definition err_models_json :: err where
  "err_models_json = err_models [0x4E0A, 0x6E38, 0x6A21, 0x578B, 0x76EE, 0x5F55, 0x4E0D, 0x662F, 0x6709, 0x6548, 0x7684]
     '' JSON'' [0x3002]"

definition err_models_missing :: err where
  "err_models_missing = err_models [0x4E0A, 0x6E38, 0x54CD, 0x5E94, 0x7F3A, 0x5C11] '' models '' [0x5217, 0x8868, 0x3002]"

definition err_models_many :: err where
  "err_models_many = error_new 502 ''models_catalog_too_large''
     (uni [0x4E0A, 0x6E38, 0x6A21, 0x578B, 0x76EE, 0x5F55, 0x8D85, 0x8FC7, 0x5927, 0x5C0F, 0x9650, 0x5236, 0x3002])"

definition err_model_name :: err where
  "err_model_name = err_models [0x4E0A, 0x6E38, 0x6A21, 0x578B, 0x76EE, 0x5F55, 0x5305, 0x542B, 0x65E0, 0x6548, 0x7684,
     0x6A21, 0x578B, 0x540D, 0x79F0, 0x3002] [] []"

definition discovered_of :: "json \<Rightarrow> discovered_model res" where
  "discovered_of v =
     (case filter_option (\<lambda>s. \<not> blank s \<and> length s \<le> 160 \<and> \<not> has_control s) (str_field v ''slug'') of
        None \<Rightarrow> Inl err_model_name
      | Some i \<Rightarrow> Inr
          \<lparr>dm_id = i,
           dm_display_name = (case filter_option (\<lambda>s. length s \<le> 256 \<and> \<not> has_control s) (str_field v ''display_name'') of
             None \<Rightarrow> i | Some s \<Rightarrow> s),
           dm_context_window = filter_option (\<lambda>n. 0 < n) (Option.bind (jget v ''context_window'') as_i64),
           dm_raw = Some v\<rparr>)"

text \<open>\<open>BTreeMap\<close>: ordered by the bytes of the names, a later entry replaces an earlier one.\<close>

definition models_response :: "(string \<Rightarrow> json option) \<Rightarrow> string \<Rightarrow> discovered_model list res" where
  "models_response parse body =
     (case parse body of
        None \<Rightarrow> Inl err_models_json
      | Some v \<Rightarrow>
          (case jget v ''models'' of
             Some (JArr models) \<Rightarrow>
               if 2000 < length models then Inl err_models_many
               else res_map (\<lambda>m. map snd (sort_key (\<lambda>(k, _). map byte k) m))
                 (fold_res (\<lambda>x m. res_map (\<lambda>d. hput (dm_id d) d m) (discovered_of x)) models [])
           | _ \<Rightarrow> Inl err_models_missing))"

subsection \<open>Synchronizing (application/catalog.rs)\<close>

record catalog_run =
  cn_control :: control
  cn_tables :: configuration

type_synonym 'a cat = "(catalog_run, halt, 'a) comp"

definition cat_control :: "'a ctl \<Rightarrow> 'a cat" where
  "cat_control m s = (case m (cn_control s) of (r, c) \<Rightarrow> (r, s\<lparr>cn_control := c\<rparr>))"

text \<open>A part under the lock \<open>mutations\<close>, on the gateway and the tables of \<open>Pg_Settings\<close>.\<close>

definition cat_site :: "'a si \<Rightarrow> 'a cat" where
  "cat_site m s =
     (case ct_turns (cn_control s) of
        Dies # ts \<Rightarrow> (Inl Died, s\<lparr>cn_control := (cn_control s)\<lparr>ct_turns := ts\<rparr>\<rparr>)
      | ts \<Rightarrow>
          let g = (case ts of Others f # _ \<Rightarrow> f (ct_gateway (cn_control s)) | _ \<Rightarrow> ct_gateway (cn_control s));
              (r, t) = m \<lparr>si_gateway = g, si_tables = cn_tables s\<rparr>
          in (case r of Inl e \<Rightarrow> Inl (Failed e) | Inr x \<Rightarrow> Inr x,
              s\<lparr>cn_control := (cn_control s)\<lparr>ct_gateway := si_gateway t, ct_turns := tl ts\<rparr>, cn_tables := si_tables t\<rparr>))"

definition err_sync_timeout :: err where
  "err_sync_timeout = error_new 504 ''model_sync_timeout'' (uni
     [0x83B7, 0x53D6, 0x4E0A, 0x6E38, 0x6A21, 0x578B, 0x76EE, 0x5F55, 0x8D85, 0x65F6, 0x3002])"

record models_env =
  md_control :: control_env
  md_request :: "account \<Rightarrow> credentials \<Rightarrow> prepared_request res"
  md_response :: "string \<Rightarrow> discovered_model list res"

definition fetch_models :: "models_env \<Rightarrow> uuid \<Rightarrow> discovered_model list ctl" where
  "fetch_models env i =
     act_bind (gateway_credentials (md_control env) i False) (\<lambda>c.
     act_bind (on_gateway (current_account i)) (\<lambda>a.
     act_bind (ctl_res (md_request env a c)) (\<lambda>request.
     act_bind (control_call ForModels (8 * 1024 * 1024) err_sync_timeout request) (\<lambda>(status, body).
       if ok_status status then ctl_res (md_response env body)
       else
         let (e, reason) = ck_http_error (md_control env) status body in
         act_then (case reason of
             None \<Rightarrow> act_return ()
           | Some r \<Rightarrow> on_gateway (disable_observed (ck_now (md_control env)) i (acc_version a) r))
           (act_fail (Failed e))))))"

definition catalog_default :: account_model_catalog where
  "catalog_default = \<lparr>mc_models = [], mc_synced_at = None, mc_attempted_at = None, mc_error = None\<rparr>"

definition upstream_ref :: "account \<Rightarrow> discovered_model \<Rightarrow> model_ref" where
  "upstream_ref a m = \<lparr>mr_provider = acc_provider a, mr_access_kind = acc_access_kind a, mr_model = dm_id m\<rparr>"

definition known_model :: "account \<Rightarrow> discovered_model \<Rightarrow> model_spec \<Rightarrow> bool" where
  "known_model a m c \<longleftrightarrow> ms_id c = dm_id m \<or> ms_upstream c = upstream_ref a m"

definition new_spec :: "account \<Rightarrow> discovered_model \<Rightarrow> model_spec" where
  "new_spec a m =
     \<lparr>ms_id = dm_id m, ms_upstream = upstream_ref a m, ms_enabled = True, ms_capabilities = capabilities_default,
      ms_version = 0\<rparr>"

fun add_models :: "account \<Rightarrow> discovered_model list \<Rightarrow> model_spec list \<Rightarrow> unit si" where
  "add_models a [] configured = act_return ()"
| "add_models a (m # ms) configured =
     (if \<exists>c\<in>set configured. known_model a m c then add_models a ms configured
      else act_bind (si_store (pg_put_model (new_spec a m))) (\<lambda>spec. add_models a ms (configured @ [spec])))"

definition next_catalog :: "datetime \<Rightarrow> account \<Rightarrow> discovered_model list res \<Rightarrow> account_model_catalog" where
  "next_catalog now a result =
     (let old = (case acc_model_catalog a of None \<Rightarrow> catalog_default | Some c \<Rightarrow> c) in
      case result of
        Inr models \<Rightarrow> \<lparr>mc_models = models, mc_synced_at = Some now, mc_attempted_at = Some now, mc_error = None\<rparr>
      | Inl e \<Rightarrow> old\<lparr>mc_attempted_at := Some now, mc_error := Some e\<rparr>)"

definition record_sync :: "datetime \<Rightarrow> uuid \<Rightarrow> discovered_model list res \<Rightarrow> discovered_model list si" where
  "record_sync now i result =
     act_bind (si_gate (current_account i)) (\<lambda>a.
     act_then
       (case result of
          Inl _ \<Rightarrow> act_return ()
        | Inr models \<Rightarrow> act_bind (si_store (pg_models (\<lambda>_. 0 :: nat))) (add_models a models)) (
     act_bind (si_gate (act_store (pg_save_model_catalog i (next_catalog now a result)))) (\<lambda>updated.
     act_then (si_gate (act_sched (update_account updated))) (
     act_then (si_gate (act_store (\<lambda>db. (Inr (), log_event
         (if isl result then ''models_sync_failed'' else ''models_synchronized'') ''model_catalog'' (Some i) db)))) (
       act_res result)))))"

definition sync_models :: "models_env \<Rightarrow> uuid \<Rightarrow> discovered_model list cat" where
  "sync_models env i =
     act_bind (cat_control (ctl_try (fetch_models env i))) (\<lambda>result.
       cat_site (record_sync (ck_now (md_control env)) i result))"

end
