(* ===== verification/Model_Listing.thy ===== *)
theory Model_Listing
  imports Model_Catalog
begin

section \<open>The models offered to a key\<close>

text \<open>
  \<open>crates/xxgate-server/src/http/public_models.rs\<close>, the handler \<open>models\<close> of \<open>public.rs\<close> and
  \<open>account_identity\<close> of \<open>admin.rs\<close>. Accounts come in the order of a hash map; \<open>select_models\<close> makes
  the listing independent of it.
\<close>

definition plan_rank :: "string option \<Rightarrow> nat" where
  "plan_rank plan =
     (if plan = Some ''pro'' then 0 else if plan = Some ''plus'' then 1 else if plan = Some ''free'' then 2 else 3)"

definition listed_for :: "uuid \<Rightarrow> client_source \<Rightarrow> account \<Rightarrow> bool" where
  "listed_for gid source a \<longleftrightarrow> acc_enabled a \<and> gid \<in> set (acc_group_ids a) \<and> accepts a source"

definition capability :: "account \<Rightarrow> model_spec \<Rightarrow> json option" where
  "capability a m =
     (if \<not> ms_enabled m \<or> \<not> supports a (ms_upstream m) then None
      else Option.bind (acc_model_catalog a) (\<lambda>c.
           Option.bind (List.find (\<lambda>d. dm_id d = mr_model (ms_upstream m)) (mc_models c)) (\<lambda>d.
             filter_option is_object (dm_raw d))))"

definition ranked :: "(nat \<times> account) list \<Rightarrow> (nat \<times> account) list" where
  "ranked accounts = sort_key (\<lambda>(rank, a). (rank, acc_id a)) accounts"

definition offered :: "uuid \<Rightarrow> client_source \<Rightarrow> model_spec \<Rightarrow> nat \<times> account \<Rightarrow> json option" where
  "offered gid source m x = (if listed_for gid source (snd x) then capability (snd x) m else None)"

definition select_models :: "(nat \<times> account) list \<Rightarrow> uuid \<Rightarrow> client_source \<Rightarrow> model_spec list \<Rightarrow> json list" where
  "select_models accounts gid source models =
     List.map_filter (\<lambda>m. map_option (jput ''slug'' (JStr (ms_id m)))
       (find_map (offered gid source m) (ranked accounts))) models"

definition account_identity :: "codex_control \<Rightarrow> cipher \<Rightarrow> uuid \<Rightarrow> account_details option act" where
  "account_identity cx ci i =
     act_bind (act_store (pg_credentials i)) (\<lambda>text.
     act_bind (act_res (cy_decrypt ci i text)) (\<lambda>c.
       act_return (case account_details_of cx c of Inl _ \<Rightarrow> None | Inr d \<Rightarrow> Some d)))"

fun rank_accounts ::
  "codex_control \<Rightarrow> cipher \<Rightarrow> (account \<Rightarrow> bool) \<Rightarrow> account list \<Rightarrow> (nat \<times> account) list act" where
  "rank_accounts cx ci keep [] = act_return []"
| "rank_accounts cx ci keep (a # as) =
     (if keep a
      then act_bind (account_identity cx ci (acc_id a)) (\<lambda>d.
           act_bind (rank_accounts cx ci keep as) (\<lambda>rest.
             act_return ((plan_rank (Option.bind d ad_plan_type), a) # rest)))
      else rank_accounts cx ci keep as)"

definition public_catalog ::
  "codex_control \<Rightarrow> cipher \<Rightarrow> uuid \<Rightarrow> client_source \<Rightarrow> model_spec list \<Rightarrow> json list act" where
  "public_catalog cx ci gid source models =
     act_bind (act_read (\<lambda>g. hvals (sc_accounts (gw_sched g)))) (\<lambda>accounts.
     act_bind (rank_accounts cx ci (\<lambda>a. listed_for gid source a \<and> (\<exists>m\<in>set models. capability a m \<noteq> None)) accounts)
       (\<lambda>xs. act_return (select_models xs gid source models)))"

text \<open>The handler, once the key is accepted.\<close>

definition list_models ::
  "(string \<Rightarrow> 'o :: linorder) \<Rightarrow> codex_control \<Rightarrow> cipher \<Rightarrow> gateway_key \<Rightarrow> client_source \<Rightarrow> json si" where
  "list_models co_order cx ci key source =
     act_bind (si_store (pg_models co_order)) (\<lambda>all.
     act_bind (act_read (\<lambda>s. filter (\<lambda>m. ms_enabled m
         \<and> supports_group_model (gw_sched (si_gateway s)) (gk_group_id key) (ms_upstream m) source) all)) (\<lambda>models.
     act_bind (si_gate (public_catalog cx ci (gk_group_id key) source models)) (\<lambda>capabilities.
       act_return (JObj
         [(''object'', JStr ''list''),
          (''data'', JArr (map (\<lambda>m. JObj [(''id'', JStr (ms_id m)), (''object'', JStr ''model''),
             (''owned_by'', JStr ''xxgate'')]) models)),
          (''models'', JArr capabilities)]))))"

subsection \<open>The listing does not depend on the order of the accounts\<close>

lemma find_map_None: "find_map f xs = None \<longleftrightarrow> (\<forall>x\<in>set xs. f x = None)"
  by (induction xs) (auto split: option.split)

lemma set_map_filter: "v \<in> set (List.map_filter f xs) \<longleftrightarrow> (\<exists>x\<in>set xs. f x = Some v)"
  by (induction xs) (auto simp: map_filter_simps split: option.split)

text \<open>In a sorted list, the first that offers something has the least key of those that do.\<close>

lemma find_map_least:
  fixes k :: "'a \<Rightarrow> 'k :: linorder"
  assumes "sorted (map k xs)" "find_map f xs = Some v"
  shows "\<exists>x\<in>set xs. f x = Some v \<and> (\<forall>y\<in>set xs. f y \<noteq> None \<longrightarrow> k x \<le> k y)"
  using assms
proof (induction xs)
  case (Cons x xs)
  show ?case
  proof (cases "f x")
    case None
    with Cons obtain z where "z \<in> set xs" "f z = Some v" "\<forall>y\<in>set xs. f y \<noteq> None \<longrightarrow> k z \<le> k y" by auto
    with None show ?thesis by auto
  next
    case (Some w)
    with Cons.prems show ?thesis by auto
  qed
qed simp

abbreviation place :: "nat \<times> account \<Rightarrow> nat \<times> uuid" where
  "place x \<equiv> (fst x, acc_id (snd x))"

lemma ranked_sorted: "sorted (map place (ranked accounts))" "set (ranked accounts) = set accounts"
proof -
  have "(\<lambda>(rank, a). (rank, acc_id a)) = place" by auto
  then have "ranked accounts = sort_key place accounts" by (simp add: ranked_def)
  then show "sorted (map place (ranked accounts))" by simp
  show "set (ranked accounts) = set accounts" by (simp add: ranked_def)
qed

definition best_offer :: "(nat \<times> account) set \<Rightarrow> uuid \<Rightarrow> client_source \<Rightarrow> model_spec \<Rightarrow> json \<Rightarrow> bool" where
  "best_offer accounts gid source m raw \<longleftrightarrow>
     (\<exists>x\<in>accounts. offered gid source m x = Some raw
        \<and> (\<forall>y\<in>accounts. offered gid source m y \<noteq> None \<longrightarrow> place x \<le> place y))"

lemma chosen_iff:
  assumes "inj_on (acc_id \<circ> snd) (set accounts)"
  shows "find_map (offered gid source m) (ranked accounts) = Some raw \<longleftrightarrow> best_offer (set accounts) gid source m raw"
proof
  assume "find_map (offered gid source m) (ranked accounts) = Some raw"
  from find_map_least [OF ranked_sorted(1) this] show "best_offer (set accounts) gid source m raw"
    unfolding best_offer_def ranked_sorted(2) by blast
next
  assume "best_offer (set accounts) gid source m raw"
  then obtain x where x: "x \<in> set accounts" "offered gid source m x = Some raw"
      "\<And>y. y \<in> set accounts \<Longrightarrow> offered gid source m y \<noteq> None \<Longrightarrow> place x \<le> place y"
    unfolding best_offer_def by blast
  then have "find_map (offered gid source m) (ranked accounts) \<noteq> None"
    unfolding find_map_None ranked_sorted(2) by fastforce
  then obtain w where w: "find_map (offered gid source m) (ranked accounts) = Some w" by blast
  from find_map_least [OF ranked_sorted(1) w] obtain y where y: "y \<in> set accounts" "offered gid source m y = Some w"
      "\<And>z. z \<in> set accounts \<Longrightarrow> offered gid source m z \<noteq> None \<Longrightarrow> place y \<le> place z"
    unfolding ranked_sorted(2) by blast
  have "place x \<le> place y" using x(3) [OF y(1)] y(2) by simp
  moreover have "place y \<le> place x" using y(3) [OF x(1)] x(2) by simp
  ultimately have "place x = place y" by (rule antisym)
  then have "x = y" using inj_onD [OF assms _ x(1) y(1)] by simp
  with x(2) y(2) w show "find_map (offered gid source m) (ranked accounts) = Some raw" by simp
qed

text \<open>
  C35. The listing of models depends on the accounts only, not on the order they come in. A model
  is listed exactly if an enabled account of the key's group that takes the client offers it; the
  object shown is one such account's own, of the smallest rank, which \<open>rank_accounts\<close> takes from
  the plan, and then the smallest identifier, and names the model as it is configured here.
\<close>

theorem listing_chooses_best:
  assumes ids: "inj_on (acc_id \<circ> snd) (set accounts)"
  shows "(\<forall>accounts'. set accounts' = set accounts
       \<longrightarrow> select_models accounts' gid source models = select_models accounts gid source models)
    \<and> (\<forall>v. v \<in> set (select_models accounts gid source models) \<longleftrightarrow>
       (\<exists>m\<in>set models. \<exists>x\<in>set accounts. \<exists>raw. offered gid source m x = Some raw \<and> v = jput ''slug'' (JStr (ms_id m)) raw
          \<and> (\<forall>y\<in>set accounts. offered gid source m y \<noteq> None
               \<longrightarrow> (fst x, acc_id (snd x)) \<le> (fst y, acc_id (snd y)))))"
proof (intro conjI allI impI)
  fix accounts' assume same: "set accounts' = set accounts"
  have "find_map (offered gid source m) (ranked accounts') = find_map (offered gid source m) (ranked accounts)" for m
    using chosen_iff [of accounts' gid source m] chosen_iff [OF ids, of gid source m] ids
    unfolding same by (metis option.exhaust)
  then show "select_models accounts' gid source models = select_models accounts gid source models"
    by (simp add: select_models_def)
next
  fix v
  have "v \<in> set (select_models accounts gid source models) \<longleftrightarrow>
      (\<exists>m\<in>set models. \<exists>raw. find_map (offered gid source m) (ranked accounts) = Some raw
         \<and> v = jput ''slug'' (JStr (ms_id m)) raw)"
    by (auto simp: select_models_def set_map_filter)
  also have "\<dots> \<longleftrightarrow> (\<exists>m\<in>set models. \<exists>x\<in>set accounts. \<exists>raw. offered gid source m x = Some raw
         \<and> v = jput ''slug'' (JStr (ms_id m)) raw
         \<and> (\<forall>y\<in>set accounts. offered gid source m y \<noteq> None \<longrightarrow> place x \<le> place y))"
    unfolding chosen_iff [OF ids] best_offer_def by blast
  finally show "v \<in> set (select_models accounts gid source models) \<longleftrightarrow>
       (\<exists>m\<in>set models. \<exists>x\<in>set accounts. \<exists>raw. offered gid source m x = Some raw \<and> v = jput ''slug'' (JStr (ms_id m)) raw
          \<and> (\<forall>y\<in>set accounts. offered gid source m y \<noteq> None
               \<longrightarrow> (fst x, acc_id (snd x)) \<le> (fst y, acc_id (snd y))))" .
qed

text \<open>Two accounts of a group that know the model: the one with the better plan speaks.\<close>

definition ex_offer :: "uuid \<Rightarrow> string \<Rightarrow> account" where
  "ex_offer i text = (ex_account i)\<lparr>acc_model_catalog := Some \<lparr>mc_models =
     [\<lparr>dm_id = ''m'', dm_display_name = ''m'', dm_context_window = None, dm_raw = Some (JObj [(''by'', JStr text)])\<rparr>],
     mc_synced_at = Some 0, mc_attempted_at = Some 0, mc_error = None\<rparr>\<rparr>"

definition ex_alias :: model_spec where
  "ex_alias = \<lparr>ms_id = ''alias'', ms_upstream = \<lparr>mr_provider = ''openai'', mr_access_kind = ''codex_oauth'', mr_model = ''m''\<rparr>,
     ms_enabled = True, ms_capabilities = capabilities_default, ms_version = 1\<rparr>"

theorem listing_chooses_best_witness:
  "jput ''slug'' (JStr ''alias'') (JObj [(''by'', JStr ''pro'')])
     \<in> set (select_models [(2, ex_offer 5 ''free''), (0, ex_offer 6 ''pro'')] 7 Unknown [ex_alias])"
proof -
  let ?accounts = "[(2 :: nat, ex_offer 5 ''free''), (0, ex_offer 6 ''pro'')]"
  have inj: "inj_on (acc_id \<circ> snd) (set ?accounts)" by (simp add: ex_offer_def ex_account_def)
  have offers: "offered 7 Unknown ex_alias (0, ex_offer 6 ''pro'') = Some (JObj [(''by'', JStr ''pro'')])"
    by (simp add: offered_def listed_for_def capability_def ex_offer_def ex_alias_def ex_account_def accepts_def
        supports_def filter_option_def)
  have least: "\<forall>y\<in>set ?accounts. offered 7 Unknown ex_alias y \<noteq> None \<longrightarrow>
      (fst (0 :: nat, ex_offer 6 ''pro''), acc_id (snd (0 :: nat, ex_offer 6 ''pro''))) \<le> (fst y, acc_id (snd y))"
    by simp
  have slug: "jput ''slug'' (JStr ''alias'') (JObj [(''by'', JStr ''pro'')])
      = jput ''slug'' (JStr (ms_id ex_alias)) (JObj [(''by'', JStr ''pro'')])" by (simp add: ex_alias_def)
  have members: "ex_alias \<in> set [ex_alias]" "(0, ex_offer 6 ''pro'') \<in> set ?accounts" by simp_all
  show ?thesis
    by (rule iffD2 [OF spec [OF conjunct2 [OF listing_chooses_best [OF inj]]]])
      (rule bexI [OF _ members(1)], rule bexI [OF _ members(2)], rule exI, rule conjI [OF offers conjI [OF slug least]])
qed

end
