(* ===== verification/Catalog_Theorems.thy ===== *)
theory Catalog_Theorems
  imports Model_Listing
begin

section \<open>What synchronizing models changes\<close>

definition models_ok :: "configuration \<Rightarrow> bool" where
  "models_ok db \<longleftrightarrow> hwf (cf_models db) \<and> (\<forall>k m. hget (cf_models db) k = Some m \<longrightarrow> ms_id m = k \<and> 1 \<le> ms_version m)"

definition still_configured :: "(string, model_spec) hmap \<Rightarrow> site \<Rightarrow> bool" where
  "still_configured old s \<longleftrightarrow> models_ok (si_tables s)
     \<and> (\<forall>k m. hget old k = Some m \<longrightarrow> hget (cf_models (si_tables s)) k = Some m)"

interpretation stays: kept "still_configured old" for old .

lemma site_tables_models [simp]: "cf_models (site_tables s) = cf_models (si_tables s)"
  by (simp add: site_tables_def)

lemma models_ok_site [simp]: "models_ok (site_tables s) = models_ok (si_tables s)"
  by (simp add: models_ok_def)

lemma stays_gate: "stays.keeps old (si_gate m)"
  by (simp add: stays.keeps_def si_gate_def still_configured_def split: prod.split)

lemma stays_store:
  assumes "\<And>db. models_ok db \<Longrightarrow> models_ok (snd (f db))
    \<and> (\<forall>k m. hget (cf_models db) k = Some m \<longrightarrow> hget (cf_models (snd (f db))) k = Some m)"
  shows "stays.keeps old (si_store f)"
proof (rule stays.keepsI)
  fix s assume s: "still_configured old s"
  obtain r s' where run: "si_store f s = (r, s')" by fastforce
  have "models_ok (site_tables s)" using s by (simp add: still_configured_def)
  from si_store_run(3) [OF run] assms [OF this] s show "still_configured old (snd (si_store f s))"
    unfolding run by (auto simp: still_configured_def)
qed

lemma new_model_tx:
  assumes "models_ok db" "ms_version m = 0"
  shows "models_ok (snd (pg_put_model m db))
    \<and> (\<forall>k x. hget (cf_models db) k = Some x \<longrightarrow> hget (cf_models (snd (pg_put_model m db))) k = Some x)"
    "fst (pg_put_model m db) = Inr c \<Longrightarrow> ms_id c = ms_id m \<and> ms_upstream c = ms_upstream m
       \<and> hget (cf_models (snd (pg_put_model m db))) (ms_id m) = Some c"
proof -
  have absent: "model_version_of db (ms_id m) = 0 \<Longrightarrow> hget (cf_models db) (ms_id m) = None"
    using assms(1) by (fastforce simp: models_ok_def model_version_of_def split: option.splits)
  show "models_ok (snd (pg_put_model m db))
    \<and> (\<forall>k x. hget (cf_models db) k = Some x \<longrightarrow> hget (cf_models (snd (pg_put_model m db))) k = Some x)"
    using assms absent by (auto simp: pg_put_model_def models_ok_def log_config_def Let_def split: sum.split)
  show "fst (pg_put_model m db) = Inr c \<Longrightarrow> ms_id c = ms_id m \<and> ms_upstream c = ms_upstream m
       \<and> hget (cf_models (snd (pg_put_model m db))) (ms_id m) = Some c"
    by (auto simp: pg_put_model_def log_config_def Let_def split: sum.splits if_splits)
qed

lemma stays_put: "ms_version m = 0 \<Longrightarrow> stays.keeps old (si_store (pg_put_model m))"
  by (intro stays_store new_model_tx)

lemma stays_list: "stays.keeps old (si_store (pg_models k))"
  by (rule stays_store) (simp add: pg_models_def)

lemma new_spec_version [simp]: "ms_version (new_spec a m) = 0"
  by (simp add: new_spec_def)

lemma stays_add: "stays.keeps old (add_models a ms configured)"
  by (induction a ms configured rule: add_models.induct)
    (auto intro!: stays.keeps_return stays.keeps_bind stays_put)

lemma stays_record: "stays.keeps old (record_sync now i result)"
proof -
  have result: "stays.keeps old (act_res result)"
    by (simp add: act_res_def stays.keeps_return stays.keeps_fail split: sum.split)
  have adding: "stays.keeps old (case result of Inl _ \<Rightarrow> act_return ()
      | Inr models \<Rightarrow> act_bind (si_store (pg_models (\<lambda>_. 0 :: nat))) (add_models a models))" for a
    by (cases result) (auto intro!: stays.keeps_return stays.keeps_bind stays_list stays_add)
  show ?thesis
    unfolding record_sync_def
    by (intro stays.keeps_bind stays.keeps_then stays_gate adding result)
qed

text \<open>Nothing is configured that was not found.\<close>

definition only_found :: "(string, model_spec) hmap \<Rightarrow> string set \<Rightarrow> site \<Rightarrow> bool" where
  "only_found old names s \<longleftrightarrow>
     (\<forall>k. hget (cf_models (si_tables s)) k \<noteq> None \<longrightarrow> hget old k \<noteq> None \<or> k \<in> names)"

interpretation found: kept "only_found old names" for old names .

lemma found_gate: "found.keeps old names (si_gate m)"
  by (simp add: found.keeps_def si_gate_def only_found_def split: prod.split)

lemma found_store:
  assumes "\<And>db k. hget (cf_models (snd (f db))) k \<noteq> None \<Longrightarrow> hget (cf_models db) k \<noteq> None \<or> k \<in> names"
  shows "found.keeps old names (si_store f)"
proof (rule found.keepsI)
  fix s assume s: "only_found old names s"
  obtain r s' where run: "si_store f s = (r, s')" by fastforce
  from si_store_run(3) [OF run] s assms [of "site_tables s"] show "only_found old names (snd (si_store f s))"
    unfolding run only_found_def by (metis site_tables_models snd_conv)
qed

lemma found_put: "ms_id m \<in> names \<Longrightarrow> found.keeps old names (si_store (pg_put_model m))"
  by (rule found_store) (auto simp: pg_put_model_def log_config_def Let_def split: sum.splits if_splits)

lemma found_list: "found.keeps old names (si_store (pg_models k))"
  by (rule found_store) (simp add: pg_models_def)

lemma found_add: "dm_id ` set ms \<subseteq> names \<Longrightarrow> found.keeps old names (add_models a ms configured)"
  by (induction a ms configured rule: add_models.induct)
    (auto intro!: found.keeps_return found.keeps_bind found_put simp: new_spec_def)

definition names_of :: "discovered_model list res \<Rightarrow> string set" where
  "names_of result = (case result of Inl _ \<Rightarrow> {} | Inr models \<Rightarrow> dm_id ` set models)"

lemma found_record: "found.keeps old (names_of result) (record_sync now i result)"
proof -
  have result: "found.keeps old (names_of result) (act_res result)"
    by (simp add: act_res_def found.keeps_return found.keeps_fail split: sum.split)
  have adding: "found.keeps old (names_of result) (case result of Inl _ \<Rightarrow> act_return ()
      | Inr models \<Rightarrow> act_bind (si_store (pg_models (\<lambda>_. 0 :: nat))) (add_models a models))" for a
    by (cases result) (auto intro!: found.keeps_return found.keeps_bind found_list found_add simp: names_of_def)
  show ?thesis
    unfolding record_sync_def
    by (intro found.keeps_bind found.keeps_then found_gate adding result)
qed

text \<open>Every discovered model is known afterwards.\<close>

definition configured_for :: "account \<Rightarrow> discovered_model \<Rightarrow> configuration \<Rightarrow> bool" where
  "configured_for a m db \<longleftrightarrow> (\<exists>k c. hget (cf_models db) k = Some c \<and> known_model a m c)"

lemma stays_configured:
  "stays.keeps (cf_models (si_tables s)) m \<Longrightarrow> models_ok (si_tables s) \<Longrightarrow> m s = (r, s')
     \<Longrightarrow> models_ok (si_tables s') \<and> (\<forall>k c. hget (cf_models (si_tables s)) k = Some c \<longrightarrow> hget (cf_models (si_tables s')) k = Some c)"
  using stays.keepsD [of "cf_models (si_tables s)" m s] by (simp add: still_configured_def)

lemma add_models_all:
  assumes "add_models a ms configured s = (Inr (), s')" "models_ok (si_tables s)"
    "\<forall>c\<in>set configured. \<exists>k. hget (cf_models (si_tables s)) k = Some c"
  shows "\<forall>m\<in>set ms. configured_for a m (si_tables s')"
  using assms
proof (induction a ms configured arbitrary: s rule: add_models.induct)
  case (2 a m ms configured)
  show ?case
  proof (cases "\<exists>c\<in>set configured. known_model a m c")
    case True
    then obtain c k where c: "known_model a m c" "hget (cf_models (si_tables s)) k = Some c" using 2(5) by blast
    from True 2(3) have run: "add_models a ms configured s = (Inr (), s')" by simp
    from stays_configured [OF stays_add 2(4) run] c have "configured_for a m (si_tables s')"
      unfolding configured_for_def by blast
    with 2(1) [OF True run 2(4,5)] show ?thesis by simp
  next
    case False
    with 2(3) obtain spec s1 where put: "si_store (pg_put_model (new_spec a m)) s = (Inr spec, s1)"
      and run: "add_models a ms (configured @ [spec]) s1 = (Inr (), s')"
      by (auto simp: bind_Inr)
    from 2(4) have ok: "models_ok (site_tables s)" by simp
    from si_store_run(4) [OF put, of spec] new_model_tx(2) [OF ok new_spec_version, of a m spec]
    have spec: "ms_id spec = dm_id m" "hget (cf_models (si_tables s1)) (dm_id m) = Some spec"
      by (simp_all add: new_spec_def)
    note s1 = stays_configured [OF stays_put [OF new_spec_version] 2(4) put]
    have "\<forall>c\<in>set (configured @ [spec]). \<exists>k. hget (cf_models (si_tables s1)) k = Some c"
      using s1 2(5) spec(2) by fastforce
    from 2(2) [OF False run] s1 this have "\<forall>m\<in>set ms. configured_for a m (si_tables s')" by blast
    moreover have "configured_for a m (si_tables s')"
      using stays_configured [OF stays_add conjunct1 [OF s1] run] spec by (auto simp: configured_for_def known_model_def)
    ultimately show ?thesis by simp
  qed
qed simp

subsection \<open>The account's own catalog\<close>

lemma act_store_run:
  assumes "act_store f g = (r, g')"
  shows "gw_sched g' = gw_sched g" "gw_db g' = gw_db g \<or> gw_db g' = snd (f (gw_db g))"
    "r = Inr x \<Longrightarrow> fst (f (gw_db g)) = Inr x \<and> gw_db g' = snd (f (gw_db g))"
  using assms by (auto simp: act_store_def split: list.splits fault.splits)

definition row_of :: "site \<Rightarrow> uuid \<Rightarrow> account_row option" where
  "row_of s i = live_row (gw_db (si_gateway s)) i"

lemma save_catalog_row:
  assumes "si_gate (act_store (pg_save_model_catalog i c)) s = (r, s')"
  shows "si_tables s' = si_tables s"
    "row_of s' i = row_of s i \<or> (\<exists>row. row_of s i = Some row
       \<and> row_of s' i = Some (row\<lparr>row_account := (row_account row)\<lparr>acc_model_catalog := Some c\<rparr>\<rparr>))"
    "r = Inr a \<Longrightarrow> \<exists>row. row_of s' i = Some row \<and> row_account row = a \<and> acc_model_catalog a = Some c"
proof -
  obtain g where run: "act_store (pg_save_model_catalog i c) (si_gateway s) = (r, g)" and s': "s' = s\<lparr>si_gateway := g\<rparr>"
    using assms by (auto simp: si_gate_def split: prod.splits)
  let ?db = "gw_db (si_gateway s)"
  have tx: "live_row (snd (pg_save_model_catalog i c ?db)) i = live_row ?db i
      \<or> (\<exists>row. live_row ?db i = Some row \<and> live_row (snd (pg_save_model_catalog i c ?db)) i
           = Some (row\<lparr>row_account := (row_account row)\<lparr>acc_model_catalog := Some c\<rparr>\<rparr>))"
    "fst (pg_save_model_catalog i c ?db) = Inr a \<Longrightarrow> \<exists>row. live_row (snd (pg_save_model_catalog i c ?db)) i = Some row
       \<and> row_account row = a \<and> acc_model_catalog a = Some c" for a
    by (auto simp: pg_save_model_catalog_def live_row_def put_row_def Let_def split: option.splits if_splits)
  show "si_tables s' = si_tables s" by (simp add: s')
  show "row_of s' i = row_of s i \<or> (\<exists>row. row_of s i = Some row
       \<and> row_of s' i = Some (row\<lparr>row_account := (row_account row)\<lparr>acc_model_catalog := Some c\<rparr>\<rparr>))"
    using act_store_run(2) [OF run] tx(1) by (auto simp: row_of_def s')
  show "r = Inr a \<Longrightarrow> \<exists>row. row_of s' i = Some row \<and> row_account row = a \<and> acc_model_catalog a = Some c"
    using act_store_run(3) [OF run, of a] tx(2) [of a] by (auto simp: row_of_def s')
qed

text \<open>What does not touch the accounts.\<close>

interpretation same_row: kept "\<lambda>s. row_of s i = w" for i w .

lemma row_store:
  assumes "\<And>db. cf_pg (snd (f db)) = cf_pg db \<or> (\<exists>k u x. cf_pg (snd (f db)) = log_event k u x (cf_pg db))"
  shows "same_row.keeps i w (si_store f)"
proof (rule same_row.keepsI)
  fix s assume s: "row_of s i = w"
  have "live_row (cf_pg (snd (f (site_tables s)))) i = live_row (gw_db (si_gateway s)) i"
    using assms [of "site_tables s"] by (auto simp: site_tables_def live_row_def log_event_def)
  with s show "row_of (snd (si_store f s)) i = w"
    by (auto simp: si_store_def with_site_def row_of_def Let_def site_tables_def split: list.split fault.split)
qed

lemma row_models: "same_row.keeps i w (si_store (pg_models k))"
  by (rule row_store) (simp add: pg_models_def)

lemma row_put: "same_row.keeps i w (si_store (pg_put_model m))"
  by (rule row_store) (auto simp: pg_put_model_def log_config_def Let_def split: sum.split)

lemma row_add: "same_row.keeps i w (add_models a ms configured)"
  by (induction a ms configured rule: add_models.induct)
    (auto intro!: same_row.keeps_return same_row.keeps_bind row_put)

lemma row_sched: "same_row.keeps i w (si_gate (act_sched f))"
  by (rule same_row.keepsI) (simp add: si_gate_def act_sched_def row_of_def)

lemma row_event: "same_row.keeps i w (si_gate (act_store (\<lambda>db. (Inr (), log_event k u x db))))"
  by (rule same_row.keepsI)
    (auto simp: si_gate_def act_store_def row_of_def live_row_def log_event_def split: prod.split list.split fault.split)

subsection \<open>One synchronization, step by step\<close>

text \<open>The row of the account: as it was, or with the new catalog and nothing else changed.\<close>

definition catalog_written :: "uuid \<Rightarrow> account_model_catalog \<Rightarrow> site \<Rightarrow> site \<Rightarrow> bool" where
  "catalog_written i c s0 s \<longleftrightarrow> (\<exists>row. row_of s0 i = Some row
     \<and> row_of s i = Some (row\<lparr>row_account := (row_account row)\<lparr>acc_model_catalog := Some c\<rparr>\<rparr>))"

definition added :: "discovered_model list res \<Rightarrow> account \<Rightarrow> site \<Rightarrow> site \<Rightarrow> bool" where
  "added result a s0 s \<longleftrightarrow> (isl result \<longrightarrow> cf_models (si_tables s) = cf_models (si_tables s0))
     \<and> (\<forall>models. result = Inr models \<longrightarrow> models_ok (si_tables s0) \<longrightarrow> (\<forall>m\<in>set models. configured_for a m (si_tables s)))"

definition spared :: "discovered_model list res \<Rightarrow> site \<Rightarrow> site \<Rightarrow> bool" where
  "spared result s0 s \<longleftrightarrow> isl result \<longrightarrow> cf_models (si_tables s) = cf_models (si_tables s0)"

lemma added_spared: "added result a s0 s \<Longrightarrow> spared result s0 s"
  by (simp add: added_def spared_def)

lemma runs_adding:
  "runs (\<lambda>s. s = s0)
     (case result of Inl _ \<Rightarrow> act_return ()
      | Inr models \<Rightarrow> act_bind (si_store (pg_models (\<lambda>_. 0 :: nat))) (add_models a models))
     (\<lambda>_ s. row_of s i = row_of s0 i \<and> added result a s0 s) (\<lambda>_ s. row_of s i = row_of s0 i \<and> spared result s0 s)"
proof (cases result)
  case (Inl e)
  then show ?thesis by (auto intro!: runs_return simp: added_def)
next
  case (Inr models)
  let ?m = "act_bind (si_store (pg_models (\<lambda>_. 0 :: nat))) (add_models a models)"
  have "same_row.keeps i w ?m" for w by (intro same_row.keeps_bind row_models row_add)
  then have row: "row_of (snd (?m s0)) i = row_of s0 i" by (rule same_row.keepsD) simp
  have "\<forall>m\<in>set models. configured_for a m (si_tables s')" if run: "?m s0 = (Inr (), s')" and ok: "models_ok (si_tables s0)" for s'
  proof -
    from run obtain configured s1 where list: "si_store (pg_models (\<lambda>_. 0 :: nat)) s0 = (Inr configured, s1)"
      and add: "add_models a models configured s1 = (Inr (), s')" by (auto simp: bind_Inr)
    note s1 = stays_configured [OF stays_list ok list]
    from si_store_run(4) [OF list, of configured] have same: "set configured = set (hvals (cf_models (si_tables s0)))"
      by (force simp: pg_models_def)
    have "\<forall>c\<in>set configured. \<exists>k. hget (cf_models (si_tables s1)) k = Some c"
      using s1 ok unfolding same models_ok_def by (meson hvals_iff)
    from add_models_all [OF add conjunct1 [OF s1] this] show ?thesis .
  qed
  with row Inr show ?thesis
    by (auto simp: runs_def added_def spared_def split: prod.split sum.split)
qed

lemma runs_saving:
  "runs (\<lambda>s. row_of s i = row_of s0 i \<and> added result a s0 s) (si_gate (act_store (pg_save_model_catalog i c)))
     (\<lambda>_ s. catalog_written i c s0 s \<and> added result a s0 s)
     (\<lambda>_ s. (row_of s i = row_of s0 i \<or> catalog_written i c s0 s) \<and> spared result s0 s)"
proof -
  have "case si_gate (act_store (pg_save_model_catalog i c)) s of
      (Inl e, s') \<Rightarrow> (row_of s' i = row_of s0 i \<or> catalog_written i c s0 s') \<and> spared result s0 s'
    | (Inr x, s') \<Rightarrow> catalog_written i c s0 s' \<and> added result a s0 s'"
    if s: "row_of s i = row_of s0 i" "added result a s0 s" for s
  proof -
    obtain r s' where run: "si_gate (act_store (pg_save_model_catalog i c)) s = (r, s')" by fastforce
    note saved = save_catalog_row [OF run]
    have tables: "added result a s0 s'" using s(2) saved(1) by (simp add: added_def)
    have "row_of s' i = row_of s0 i \<or> catalog_written i c s0 s'" using saved(2) s(1) by (auto simp: catalog_written_def)
    moreover have "catalog_written i c s0 s'" if "r = Inr x" for x
      using saved(2) saved(3) [OF that] s(1) by (auto simp: catalog_written_def)
    ultimately show ?thesis using run tables added_spared [OF tables] by (cases r) auto
  qed
  then show ?thesis by (simp add: runs_def)
qed

text \<open>Nothing after it changes the row or the tables.\<close>

lemma runs_after:
  assumes "\<And>w. same_row.keeps i w m" "\<And>s. si_tables (snd (m s)) = si_tables s"
  shows "runs (\<lambda>s. catalog_written i c s0 s \<and> added result a s0 s) (m :: 'x si) (\<lambda>_ s. catalog_written i c s0 s \<and> added result a s0 s)
    (\<lambda>_ s. (row_of s i = row_of s0 i \<or> catalog_written i c s0 s) \<and> spared result s0 s)"
proof -
  have row: "row_of (snd (m s)) i = row_of s i" for s
    using same_row.keepsD [OF assms(1) [of "row_of s i"], of s] by simp
  have "catalog_written i c s0 (snd (m s)) \<and> added result a s0 (snd (m s))" if "catalog_written i c s0 s \<and> added result a s0 s" for s
    using that row [of s] assms(2) [of s] by (simp add: catalog_written_def added_def)
  then show ?thesis
    using added_spared by (fastforce simp: runs_def split: prod.split sum.split)
qed

lemma runs_record:
  "runs (\<lambda>s. s = s0) (record_sync now i result)
     (\<lambda>models s. result = Inr models \<and> (\<exists>a. sched_account (gw_sched (si_gateway s0)) i = Some a
        \<and> catalog_written i (next_catalog now a result) s0 s \<and> added result a s0 s))
     (\<lambda>_ s. (row_of s i = row_of s0 i \<or> (\<exists>a. sched_account (gw_sched (si_gateway s0)) i = Some a
        \<and> catalog_written i (next_catalog now a result) s0 s)) \<and> spared result s0 s)"
    (is "runs _ _ ?Q ?E")
proof -
  let ?known = "\<lambda>a. sched_account (gw_sched (si_gateway s0)) i = Some a"
  let ?c = "\<lambda>a. next_catalog now a result"
  have first: "runs (\<lambda>s. s = s0) (si_gate (current_account i)) (\<lambda>a s. s = s0 \<and> ?known a) ?E"
    by (auto simp: runs_def si_gate_def current_account_def act_bind_def act_read_def act_or_def act_return_def act_fail_def
        spared_def split: option.split)
  have weak: "runs P m R (\<lambda>_ s. row_of s i = row_of s0 i \<and> spared result s0 s) \<Longrightarrow> runs P m R ?E" for P and m :: "'x si" and R
    by (erule runs_conseq) simp_all
  have weak2: "runs P m R (\<lambda>_ s. (row_of s i = row_of s0 i \<or> catalog_written i (?c a) s0 s) \<and> spared result s0 s) \<Longrightarrow> runs P m R ?E"
    if "?known a" for P and m :: "'x si" and R a
    using that by (elim runs_conseq) auto
  have last: "runs (\<lambda>s. catalog_written i (?c a) s0 s \<and> added result a s0 s) (act_res result) ?Q ?E" if "?known a" for a
    using that added_spared by (auto simp: runs_def act_res_def act_fail_def act_return_def split: sum.split)
  have known: "runs (\<lambda>s. P s \<and> b) m R F" if "b \<Longrightarrow> runs P m R F" for P b F and m :: "'x si" and R
    using that by (simp add: runs_def)
  have after: "runs (\<lambda>s. catalog_written i (?c a) s0 s \<and> added result a s0 s) (si_gate (act_sched f))
      (\<lambda>_ s. catalog_written i (?c a) s0 s \<and> added result a s0 s) ?E"
    "runs (\<lambda>s. catalog_written i (?c a) s0 s \<and> added result a s0 s) (si_gate (act_store (\<lambda>db. (Inr (), log_event k u x db))))
      (\<lambda>_ s. catalog_written i (?c a) s0 s \<and> added result a s0 s) ?E" if "?known a" for a f k u x
    using that by (auto intro!: weak2 runs_after row_sched row_event simp: si_gate_def split: prod.split)
  show ?thesis
    unfolding record_sync_def
    apply (rule runs_bind [OF first], rule known)
    apply (rule runs_then [OF weak [OF runs_adding]])
    apply (rule runs_bind [OF weak2 [OF _ runs_saving]], assumption)
    apply (rule runs_then [OF after(1)], assumption)
    apply (rule runs_then [OF after(2)], assumption)
    by (rule last)
qed

text \<open>
  C34. Recording a synchronization of an account's models, whatever the provider answered and
  whatever store calls are lost. A configured model stays as it is, and a model is only configured
  if the provider was asked with success and named it. The account's row is unchanged but, perhaps,
  for its catalog: that of the models found, or, if asking failed, the scheduler's copy of the
  catalog with the time and the error of the attempt. After a success every model found is
  configured, by its name or by its upstream model, and the row holds the catalog of exactly them.
  Where recording itself fails, models found may have been configured without the catalog.
\<close>

theorem sync_updates_catalog:
  assumes run: "record_sync now i result s = (r, s')" and ok: "models_ok (si_tables s)"
  shows "(\<forall>k m. hget (cf_models (si_tables s)) k = Some m \<longrightarrow> hget (cf_models (si_tables s')) k = Some m)
    \<and> (\<forall>k. hget (cf_models (si_tables s')) k \<noteq> None \<longrightarrow> hget (cf_models (si_tables s)) k \<noteq> None
         \<or> (\<exists>models m. result = Inr models \<and> m \<in> set models \<and> k = dm_id m))
    \<and> (row_of s' i = row_of s i
       \<or> (\<exists>a row. sched_account (gw_sched (si_gateway s)) i = Some a \<and> row_of s i = Some row
            \<and> row_of s' i = Some (row\<lparr>row_account := (row_account row)\<lparr>acc_model_catalog := Some
                (case result of
                   Inr models \<Rightarrow> \<lparr>mc_models = models, mc_synced_at = Some now, mc_attempted_at = Some now, mc_error = None\<rparr>
                 | Inl e \<Rightarrow> (case acc_model_catalog a of None \<Rightarrow> catalog_default | Some c \<Rightarrow> c)
                     \<lparr>mc_attempted_at := Some now, mc_error := Some e\<rparr>)\<rparr>\<rparr>)))
    \<and> (isl result \<longrightarrow> cf_models (si_tables s') = cf_models (si_tables s))
    \<and> (\<forall>models. r = Inr models \<longrightarrow> result = Inr models
         \<and> (\<exists>row. row_of s' i = Some row \<and> acc_model_catalog (row_account row) = Some
              \<lparr>mc_models = models, mc_synced_at = Some now, mc_attempted_at = Some now, mc_error = None\<rparr>)
         \<and> (\<exists>a. sched_account (gw_sched (si_gateway s)) i = Some a
              \<and> (\<forall>m\<in>set models. configured_for a m (si_tables s'))))"
proof -
  note kept = conjunct2 [OF stays_configured [OF stays_record ok run]]
  have "only_found (cf_models (si_tables s)) (names_of result) s'"
    using found.keepsD [OF found_record [of _ result], of "cf_models (si_tables s)" s now i] run
    by (simp add: only_found_def)
  then have new: "\<forall>k. hget (cf_models (si_tables s')) k \<noteq> None \<longrightarrow> hget (cf_models (si_tables s)) k \<noteq> None
      \<or> (\<exists>models m. result = Inr models \<and> m \<in> set models \<and> k = dm_id m)"
    by (cases result) (auto simp: only_found_def names_of_def)
  have next_c: "next_catalog now a result = (case result of
        Inr models \<Rightarrow> \<lparr>mc_models = models, mc_synced_at = Some now, mc_attempted_at = Some now, mc_error = None\<rparr>
      | Inl e \<Rightarrow> (case acc_model_catalog a of None \<Rightarrow> catalog_default | Some c \<Rightarrow> c)
          \<lparr>mc_attempted_at := Some now, mc_error := Some e\<rparr>)" for a
    by (simp add: next_catalog_def)
  note all = runs_apply [OF runs_record refl run]
  have row: "row_of s' i = row_of s i \<or> (\<exists>a. sched_account (gw_sched (si_gateway s)) i = Some a
      \<and> catalog_written i (next_catalog now a result) s s')"
    using all by (cases r) auto
  have spare: "spared result s s'" using all added_spared by (cases r) auto
  have success: "result = Inr models
      \<and> (\<exists>row. row_of s' i = Some row \<and> acc_model_catalog (row_account row) = Some
           \<lparr>mc_models = models, mc_synced_at = Some now, mc_attempted_at = Some now, mc_error = None\<rparr>)
      \<and> (\<exists>a. sched_account (gw_sched (si_gateway s)) i = Some a
           \<and> (\<forall>m\<in>set models. configured_for a m (si_tables s')))" if r: "r = Inr models" for models
  proof -
    from all r obtain a where a: "result = Inr models" "sched_account (gw_sched (si_gateway s)) i = Some a"
      "catalog_written i (next_catalog now a result) s s'" "added result a s s'" by auto
    then obtain row where "row_of s' i = Some row" "acc_model_catalog (row_account row) = Some (next_catalog now a result)"
      by (auto simp: catalog_written_def)
    with a ok show ?thesis by (auto simp: next_catalog_def added_def)
  qed
  from row have "row_of s' i = row_of s i
       \<or> (\<exists>a row. sched_account (gw_sched (si_gateway s)) i = Some a \<and> row_of s i = Some row
            \<and> row_of s' i = Some (row\<lparr>row_account := (row_account row)\<lparr>acc_model_catalog := Some (next_catalog now a result)\<rparr>\<rparr>))"
    unfolding catalog_written_def by blast
  from this [unfolded next_c] kept new spare [unfolded spared_def] success show ?thesis by blast
qed

text \<open>
  The copy the handler starts from is the scheduler's, not the row's: where the row is ahead of it,
  as after a save whose acknowledgement was lost, a failed synchronization takes the row's models back.
\<close>

lemma failed_sync_takes_back:
  assumes "gw_faults (si_gateway s) = []" and "sched_account (gw_sched (si_gateway s)) i = Some a"
    and "row_of s i = Some row" and "acc_model_catalog a = Some old"
  shows "\<exists>row'. row_of (snd (record_sync now i (Inl e) s)) i = Some row'
    \<and> map_option mc_models (acc_model_catalog (row_account row')) = Some (mc_models old)"
  using assms
  by (simp add: record_sync_def act_bind_def act_then_def si_gate_def current_account_def act_read_def act_or_def
      act_return_def act_res_def act_fail_def act_store_def pg_save_model_catalog_def act_sched_def row_of_def
      live_row_def put_row_def log_event_def next_catalog_def Let_def split: option.splits if_splits)

text \<open>A first synchronization that finds one model.\<close>

definition ex_found :: discovered_model where
  "ex_found = \<lparr>dm_id = ''m'', dm_display_name = ''m'', dm_context_window = None, dm_raw = None\<rparr>"

definition ex_catalog_site :: site where
  "ex_catalog_site = ex_site\<lparr>si_gateway := ex_gateway ex_s0 []\<rparr>"

lemma ex_synced: "\<exists>s'. record_sync 3 5 (Inr [ex_found]) ex_catalog_site = (Inr [ex_found], s')"
proof -
  let ?g = "ex_gateway ex_s0 []"
  have account: "sched_account ex_s0 5 = Some (ex_account 5)" "live_row ex_db 5 = Some (ex_row 5)"
    using cx_in_step by (simp_all add: in_step_def cx_state_def ex_gateway_def)
  have logged: "live_row (log_event k u x db) j = live_row db j" for k u x db j
    by (simp add: live_row_def log_event_def)
  have spec: "model_spec_validate (new_spec (ex_account 5) ex_found) = Inr ()"
    by (simp add: model_spec_validate_def new_spec_def upstream_ref_def ex_found_def ex_account_def)
  show ?thesis
    by (simp add: record_sync_def act_bind_def act_then_def si_gate_def current_account_def act_read_def act_or_def
        act_return_def act_res_def si_store_def site_tables_def with_site_def pg_models_def pg_put_model_def spec [unfolded new_spec_def]
        model_version_of_def new_spec_def log_config_def act_store_def pg_save_model_catalog_def logged account act_sched_def
        ex_catalog_site_def ex_site_def ex_gateway_def Let_def)
qed

theorem sync_updates_catalog_witness:
  "\<exists>s' row. record_sync 3 5 (Inr [ex_found]) ex_catalog_site = (Inr [ex_found], s') \<and> row_of s' 5 = Some row
     \<and> map_option mc_models (acc_model_catalog (row_account row)) = Some [ex_found]"
proof -
  obtain s' where run: "record_sync 3 5 (Inr [ex_found]) ex_catalog_site = (Inr [ex_found], s')" using ex_synced by blast
  have "models_ok (si_tables ex_catalog_site)" by (simp add: models_ok_def ex_catalog_site_def ex_site_def)
  from sync_updates_catalog [OF run this] run show ?thesis by auto
qed

end
