(* ===== verification/Subscriptions.thy ===== *)
theory Subscriptions
  imports Catalog_Theorems
begin

section \<open>Subscription records\<close>

text \<open>
  \<open>crates/xxgate-codex/src/provider/subscription.rs\<close> and
  \<open>crates/xxgate-server/src/http/subscriptions.rs\<close>: asking the provider, on an administrator's request,
  for the plan of an account, and keeping the answer. The state is the gateway with the tables of
  \<open>Pg_Settings\<close>, the requests sent, the \<open>replies\<close> of the network, and what other operations do
  before each of the steps. Nothing is refreshed here: the stored access token is used as it is.
\<close>

definition saved_kept :: string where
  "saved_kept = uni [0xFF1B, 0x5DF2, 0x4FDD, 0x7559, 0x4E0A, 0x6B21, 0x6210, 0x529F, 0x8BB0, 0x5F55]"

definition err_subscription :: err where
  "err_subscription = error_new 502 ''subscription_invalid_response'' (uni
     [0x4E0A, 0x6E38, 0x672A, 0x63D0, 0x4F9B, 0x53EF, 0x8BC6, 0x522B, 0x7684, 0x5957, 0x9910, 0x4FE1, 0x606F] @ saved_kept)"

definition err_subscription_account :: err where
  "err_subscription_account = error_new 502 ''subscription_account_missing'' (uni
     [0x4E0A, 0x6E38, 0x5957, 0x9910, 0x5217, 0x8868, 0x6CA1, 0x6709, 0x5339, 0x914D, 0x7684, 0x8D26, 0x6237] @ saved_kept)"

subsection \<open>Reading answers (provider/subscription.rs)\<close>

definition PLANS :: "string list" where
  "PLANS = [''free'', ''plus'', ''pro'', ''go'', ''team'', ''business'', ''enterprise'', ''edu'']"

definition plan_of :: "json \<Rightarrow> string option" where
  "plan_of v = filter_option (\<lambda>p. p \<in> set PLANS) (map_option (map ascii_lower \<circ> str_trim) (as_str v))"

definition sub_date :: "(string \<Rightarrow> datetime option) \<Rightarrow> json \<Rightarrow> datetime option res" where
  "sub_date rfc3339 v =
     (if v = JNull \<or> as_str v = Some [] then Inr None
      else case Option.bind (as_str v) rfc3339 of None \<Rightarrow> Inl err_subscription | Some d \<Rightarrow> Inr (Some d))"

definition entry_named :: "string \<Rightarrow> string \<times> json \<Rightarrow> bool" where
  "entry_named upstream entry \<longleftrightarrow>
     (case filter_option (\<lambda>s. s \<noteq> []) (as_str (jindex (jindex (snd entry) ''account'') ''account_id'')) of
        None \<Rightarrow> fst entry | Some s \<Rightarrow> s) = upstream"

definition entry_plan :: "json \<Rightarrow> string option" where
  "entry_plan e =
     (case plan_of (jindex (jindex e ''account'') ''plan_type'') of
        Some p \<Rightarrow> Some p | None \<Rightarrow> plan_of (jindex (jindex e ''entitlement'') ''subscription_plan''))"

definition until_of :: "(string \<Rightarrow> datetime option) \<Rightarrow> string \<Rightarrow> json \<Rightarrow> datetime option res" where
  "until_of rfc3339 plan v = (if plan = ''free'' then Inr None else sub_date rfc3339 v)"

definition accounts_check ::
  "(string \<Rightarrow> datetime option) \<Rightarrow> datetime \<Rightarrow> json \<Rightarrow> string \<Rightarrow> subscription_snapshot res" where
  "accounts_check rfc3339 now v upstream =
     (case jindex v ''accounts'' of
        JObj accounts \<Rightarrow>
          (case List.find (entry_named upstream) accounts of
             None \<Rightarrow> Inl err_subscription_account
           | Some (_, e) \<Rightarrow>
               (case entry_plan e of
                  None \<Rightarrow> Inl err_subscription
                | Some plan \<Rightarrow> res_map (\<lambda>until.
                    \<lparr>sub_upstream_account_id = upstream, sub_plan_type = plan, sub_active_until = until,
                     sub_will_renew = None, sub_last_checked_at = now, sub_source = ''accounts_check''\<rparr>)
                    (until_of rfc3339 plan (jindex (jindex e ''entitlement'') ''expires_at''))))
      | _ \<Rightarrow> Inl err_subscription)"

definition renewal :: "json \<Rightarrow> bool option res" where
  "renewal v =
     (case jget v ''will_renew'' of
        None \<Rightarrow> Inr None
      | Some JNull \<Rightarrow> Inr None
      | Some (JBool b) \<Rightarrow> Inr (Some b)
      | Some _ \<Rightarrow> Inl err_subscription)"

definition read_subscription ::
  "(string \<Rightarrow> datetime option) \<Rightarrow> datetime \<Rightarrow> json \<Rightarrow> string \<Rightarrow> subscription_snapshot res" where
  "read_subscription rfc3339 now v upstream =
     (if (case jget v ''account_id'' of None \<Rightarrow> False | Some i \<Rightarrow> as_str i \<noteq> Some upstream) then Inl err_subscription
      else case plan_of (jindex v ''plan_type'') of
        None \<Rightarrow> Inl err_subscription
      | Some plan \<Rightarrow>
          and_then (renewal v) (\<lambda>renew.
            res_map (\<lambda>until.
              \<lparr>sub_upstream_account_id = upstream, sub_plan_type = plan, sub_active_until = until,
               sub_will_renew = renew, sub_last_checked_at = now, sub_source = ''subscriptions''\<rparr>)
              (until_of rfc3339 plan (jindex v ''active_until''))))"

subsection \<open>Asking (http/subscriptions.rs)\<close>

text \<open>\<open>SubTimeout\<close>: fifteen seconds have passed; \<open>SubCancelled\<close>: the server is shutting down.\<close>

datatype sub_reply = SubAnswer nat header_list "(err + string) list" | SubNoReply err | SubTimeout | SubCancelled

record sub_env =
  se_now :: datetime
  se_rfc3339 :: "string \<Rightarrow> datetime option"
  se_parse :: "string \<Rightarrow> json option"
  se_header_ok :: "string \<Rightarrow> bool"
  se_encode :: "(string \<times> string) list \<Rightarrow> string"
  se_decrypt :: "uuid \<Rightarrow> string \<Rightarrow> credentials res"

record sub_run =
  sr_site :: site
  sr_sent :: "prepared_request list"
  sr_replies :: "sub_reply list"
  sr_others :: "(site \<Rightarrow> site) list"

type_synonym 'a sr = "(sub_run, err, 'a) comp"

definition next_turn :: "sub_run \<Rightarrow> sub_run" where
  "next_turn s =
     (case sr_others s of [] \<Rightarrow> s | f # fs \<Rightarrow> s\<lparr>sr_site := f (sr_site s), sr_others := fs\<rparr>)"

definition on_site :: "'a si \<Rightarrow> 'a sr" where
  "on_site m s0 = (let s = next_turn s0 in case m (sr_site s) of (r, t) \<Rightarrow> (r, s\<lparr>sr_site := t\<rparr>))"

definition send_sub :: "prepared_request \<Rightarrow> sub_reply sr" where
  "send_sub request s0 =
     (let s = next_turn s0 in
      (Inr (case sr_replies s of [] \<Rightarrow> SubTimeout | r # _ \<Rightarrow> r),
       s\<lparr>sr_sent := sr_sent s @ [request], sr_replies := tl (sr_replies s)\<rparr>))"

definition CHECK_PATH :: string where
  "CHECK_PATH = ''/backend-api/accounts/check/v4-2023-04-27''"

definition SUBSCRIPTIONS_PATH :: string where
  "SUBSCRIPTIONS_PATH = ''/backend-api/subscriptions''"

definition subscription_request :: "sub_env \<Rightarrow> account \<Rightarrow> credentials \<Rightarrow> string \<Rightarrow> prepared_request res" where
  "subscription_request env a c path =
     (if \<not> se_header_ok env (''Bearer '' @ cr_access_token c) then Inl (err_invalid ''Invalid access token'')
      else Inr
        \<lparr>pq_method = ''GET'',
         pq_url = ''https://chatgpt.com'' @ path
           @ (if ends_with ''/subscriptions'' path
              then ''?'' @ se_encode env [(''account_id'', acc_upstream_account_id a)] else []),
         pq_headers = [(''authorization'', ''Bearer '' @ cr_access_token c), (''accept'', ''application/json''),
           (''origin'', ''https://chatgpt.com''), (''referer'', ''https://chatgpt.com/'')],
         pq_body = [], pq_account_id = Some (acc_id a), pq_profile_version = acc_version a,
         pq_tls_backend = ''subscription_browser''\<rparr>)"

definition err_sub_challenge :: err where
  "err_sub_challenge = error_new 502 ''subscription_cloudflare_challenge'' (uni [0x5957, 0x9910, 0x67E5, 0x8BE2, 0x88AB]
     @ '' Cloudflare '' @ uni [0x9A8C, 0x8BC1, 0x62E6, 0x622A] @ saved_kept)"

definition err_sub_auth :: err where
  "err_sub_auth = error_new 502 ''subscription_auth_expired'' (uni
     [0x5957, 0x9910, 0x67E5, 0x8BE2, 0x6388, 0x6743, 0x5DF2, 0x5931, 0x6548, 0xFF0C, 0x8BF7, 0x5355, 0x72EC, 0x5237, 0x65B0]
     @ '' Token '' @ uni [0x540E, 0x91CD, 0x8BD5] @ saved_kept)"

definition err_sub_status :: "nat \<Rightarrow> err" where
  "err_sub_status status = error_new 502 ''subscription_upstream_error'' (uni
     [0x5957, 0x9910, 0x67E5, 0x8BE2, 0x5931, 0x8D25, 0xFF08, 0x4E0A, 0x6E38] @ '' HTTP '' @ show_nat status
     @ uni [0xFF09] @ saved_kept)"

definition err_sub_large :: err where
  "err_sub_large = error_new 502 ''subscription_response_too_large'' (uni
     [0x4E0A, 0x6E38, 0x5957, 0x9910, 0x54CD, 0x5E94, 0x8FC7, 0x5927] @ saved_kept)"

definition err_sub_json :: err where
  "err_sub_json = error_new 502 ''subscription_invalid_json'' (uni
     [0x4E0A, 0x6E38, 0x672A, 0x8FD4, 0x56DE, 0x5957, 0x9910] @ '' JSON'' @ uni
     [0xFF0C, 0x53EF, 0x80FD, 0x9700, 0x8981, 0x6D4F, 0x89C8, 0x5668, 0x9A8C, 0x8BC1] @ saved_kept)"

definition err_sub_timeout :: err where
  "err_sub_timeout = error_new 504 ''subscription_timeout'' (uni
     [0x5957, 0x9910, 0x67E5, 0x8BE2, 0x8D85, 0x65F6] @ saved_kept)"

definition err_sub_busy :: err where
  "err_sub_busy = error_new 409 ''subscription_refresh_busy'' (uni
     [0x6B63, 0x5728, 0x67E5, 0x8BE2, 0x5957, 0x9910, 0x4FE1, 0x606F, 0xFF0C, 0x8BF7, 0x7A0D, 0x540E, 0x91CD, 0x8BD5])"

fun sub_body :: "string \<Rightarrow> (err + string) list \<Rightarrow> string res" where
  "sub_body body [] = Inr body"
| "sub_body body (Inl e # cs) = Inl e"
| "sub_body body (Inr c # cs) = (if 1024 * 1024 < length body + length c then Inl err_sub_large else sub_body (body @ c) cs)"

definition sub_answer :: "sub_env \<Rightarrow> sub_reply \<Rightarrow> json res" where
  "sub_answer env reply =
     (case reply of
        SubTimeout \<Rightarrow> Inl err_sub_timeout
      | SubCancelled \<Rightarrow> Inl err_cancelled
      | SubNoReply e \<Rightarrow> Inl e
      | SubAnswer status headers chunks \<Rightarrow>
          if map_of headers ''cf-mitigated'' = Some ''challenge'' then Inl err_sub_challenge
          else if status = 401 then Inl err_sub_auth
          else if \<not> ok_status status then Inl (err_sub_status status)
          else and_then (sub_body [] chunks) (\<lambda>body. ok_or err_sub_json (se_parse env body)))"

definition sub_query :: "sub_env \<Rightarrow> account \<Rightarrow> credentials \<Rightarrow> string \<Rightarrow> json sr" where
  "sub_query env a c path =
     act_bind (act_res (subscription_request env a c path)) (\<lambda>request.
     act_bind (send_sub request) (\<lambda>reply. act_res (sub_answer env reply)))"

definition ask_check :: "sub_env \<Rightarrow> account \<Rightarrow> credentials \<Rightarrow> subscription_snapshot sr" where
  "ask_check env a c =
     act_bind (sub_query env a c CHECK_PATH) (\<lambda>v.
       act_res (accounts_check (se_rfc3339 env) (se_now env) v (acc_upstream_account_id a)))"

definition ask_subscription :: "sub_env \<Rightarrow> account \<Rightarrow> credentials \<Rightarrow> subscription_snapshot sr" where
  "ask_subscription env a c =
     act_bind (sub_query env a c SUBSCRIPTIONS_PATH) (\<lambda>v.
       act_res (read_subscription (se_rfc3339 env) (se_now env) v (acc_upstream_account_id a)))"

definition complete_snapshot :: "subscription_snapshot \<Rightarrow> bool" where
  "complete_snapshot s \<longleftrightarrow> sub_active_until s \<noteq> None \<or> sub_plan_type s = ''free''"

text \<open>The second question is asked when the first answer lacks the date; its failure is the answer then.\<close>

definition second_question ::
  "sub_env \<Rightarrow> account \<Rightarrow> credentials \<Rightarrow> subscription_snapshot res \<Rightarrow> subscription_snapshot sr" where
  "second_question env a c previous =
     act_bind (act_try (ask_subscription env a c)) (\<lambda>r.
       case r of
         Inr s \<Rightarrow> act_return s
       | Inl e \<Rightarrow> act_fail (case previous of
           Inl first \<Rightarrow> if err_code first = ''subscription_cloudflare_challenge'' then first else e
         | Inr _ \<Rightarrow> e))"

definition ask_plan :: "sub_env \<Rightarrow> account \<Rightarrow> credentials \<Rightarrow> subscription_snapshot sr" where
  "ask_plan env a c =
     act_bind (act_try (ask_check env a c)) (\<lambda>checked.
       case checked of
         Inr s \<Rightarrow> if complete_snapshot s then act_return s else second_question env a c checked
       | Inl e \<Rightarrow> if err_code e = ''subscription_auth_expired'' then act_fail e else second_question env a c checked)"

definition refresh_subscription :: "sub_env \<Rightarrow> bool \<Rightarrow> uuid \<Rightarrow> subscription_snapshot sr" where
  "refresh_subscription env busy i =
     (if busy then act_fail err_sub_busy
      else
        act_bind (on_site (si_gate (current_account i))) (\<lambda>a.
        act_bind (on_site (si_gate (act_store (pg_credentials i)))) (\<lambda>text.
        act_bind (act_res (se_decrypt env i text)) (\<lambda>c.
        act_bind (ask_plan env a c) (\<lambda>s.
        act_then (on_site (si_store (pg_save_subscription a s))) (act_return s))))))"

subsection \<open>What a refresh asks and keeps\<close>

definition official :: "prepared_request \<Rightarrow> bool" where
  "official q \<longleftrightarrow> pq_method q = ''GET'' \<and> pq_tls_backend q = ''subscription_browser'' \<and> pq_body q = []
     \<and> (\<exists>rest. pq_url q = ''https://chatgpt.com'' @ CHECK_PATH @ rest
          \<or> pq_url q = ''https://chatgpt.com'' @ SUBSCRIPTIONS_PATH @ rest)"

text \<open>At most \<open>n\<close> questions asked since \<open>s0\<close>; left alone, the records are as they were.\<close>

definition asked :: "nat \<Rightarrow> sub_run \<Rightarrow> sub_run \<Rightarrow> bool" where
  "asked n s0 s \<longleftrightarrow> (\<exists>qs. sr_sent s = sr_sent s0 @ qs \<and> length qs \<le> n \<and> (\<forall>q\<in>set qs. official q))
     \<and> (sr_others s0 = [] \<longrightarrow> sr_others s = [] \<and> cf_subscriptions (si_tables (sr_site s)) = cf_subscriptions (si_tables (sr_site s0)))"

lemma asked_more: "asked n s0 s \<Longrightarrow> n \<le> k \<Longrightarrow> asked k s0 s"
  unfolding asked_def by (meson order_trans)

lemma asked_turn: "asked n s0 s \<Longrightarrow> asked n s0 (next_turn s)"
  by (auto simp: asked_def next_turn_def split: list.split)

lemma runs_site:
  assumes "\<And>t r t'. m t = (r, t') \<Longrightarrow> si_tables t' = si_tables t"
  shows "runs (asked n s0) (on_site m) (\<lambda>_. asked n s0) (\<lambda>_. asked n s0)"
proof -
  have "asked n s0 (snd (on_site m s))" if "asked n s0 s" for s
    using asked_turn [OF that] assms [of "sr_site (next_turn s)"]
    by (auto simp: on_site_def Let_def asked_def split: prod.split)
  then show ?thesis by (simp add: runs_same)
qed

lemma si_gate_tables: "si_gate m t = (r, t') \<Longrightarrow> si_tables t' = si_tables t"
  by (auto simp: si_gate_def split: prod.splits)

lemma request_official: "subscription_request env a c p = Inr q \<Longrightarrow> p \<in> {CHECK_PATH, SUBSCRIPTIONS_PATH} \<Longrightarrow> official q"
  by (auto simp: subscription_request_def official_def split: if_splits)

lemma runs_query:
  assumes "p \<in> {CHECK_PATH, SUBSCRIPTIONS_PATH}"
  shows "runs (asked n s0) (sub_query env a c p) (\<lambda>_. asked (Suc n) s0) (\<lambda>_. asked (Suc n) s0)"
proof -
  have "asked (Suc n) s0 (snd (sub_query env a c p s))" if s: "asked n s0 s" for s
  proof (cases "subscription_request env a c p")
    case (Inl e)
    with asked_more [OF s, of "Suc n"] show ?thesis by (simp add: sub_query_def act_bind_def act_res_def act_fail_def)
  next
    case (Inr q)
    have "official q" by (rule request_official [OF Inr assms])
    moreover have "snd (sub_query env a c p s) = snd (send_sub q s)"
      using Inr by (auto simp: sub_query_def act_bind_def act_res_def act_return_def act_fail_def split: prod.split sum.split)
    moreover obtain qs where "sr_sent (next_turn s) = sr_sent s0 @ qs" "length qs \<le> n" "\<forall>q\<in>set qs. official q"
      using asked_turn [OF s] by (auto simp: asked_def)
    ultimately show ?thesis
      using asked_turn [OF s] by (auto simp: asked_def send_sub_def Let_def intro!: exI [of _ "qs @ [q]"])
  qed
  then show ?thesis by (simp add: runs_same)
qed

text \<open>A snapshot that names the account and a known plan.\<close>

definition snapshot_for :: "account \<Rightarrow> sub_env \<Rightarrow> subscription_snapshot \<Rightarrow> bool" where
  "snapshot_for a env s \<longleftrightarrow> sub_upstream_account_id s = acc_upstream_account_id a \<and> sub_plan_type s \<in> set PLANS
     \<and> sub_last_checked_at s = se_now env \<and> (sub_plan_type s = ''free'' \<longrightarrow> sub_active_until s = None)"

lemma plan_listed: "plan_of v = Some p \<Longrightarrow> p \<in> set PLANS"
  by (auto simp: plan_of_def filter_option_def split: option.splits if_splits)

lemma entry_plan_listed: "entry_plan e = Some p \<Longrightarrow> p \<in> set PLANS"
  by (auto simp: entry_plan_def dest: plan_listed split: option.splits)

lemma snapshots_read:
  "accounts_check rf (se_now env) v (acc_upstream_account_id a) = Inr s \<Longrightarrow> snapshot_for a env s"
  "read_subscription rf (se_now env) v (acc_upstream_account_id a) = Inr s \<Longrightarrow> snapshot_for a env s"
proof -
  assume checked: "accounts_check rf (se_now env) v (acc_upstream_account_id a) = Inr s"
  then obtain e where "entry_plan e = Some (sub_plan_type s)" "sub_upstream_account_id s = acc_upstream_account_id a"
      "sub_last_checked_at s = se_now env" "sub_plan_type s = ''free'' \<longrightarrow> sub_active_until s = None"
    by (fastforce simp: accounts_check_def until_of_def res_map_def split: json.splits option.splits sum.splits if_splits)
  then show "snapshot_for a env s" by (simp add: snapshot_for_def entry_plan_listed)
next
  assume "read_subscription rf (se_now env) v (acc_upstream_account_id a) = Inr s"
  then obtain plan renew until where "plan_of (jindex v ''plan_type'') = Some plan"
      "until_of rf plan (jindex v ''active_until'') = Inr until"
      "s = \<lparr>sub_upstream_account_id = acc_upstream_account_id a, sub_plan_type = plan, sub_active_until = until,
         sub_will_renew = renew, sub_last_checked_at = se_now env, sub_source = ''subscriptions''\<rparr>"
    by (fastforce simp: read_subscription_def res_map_def and_then_def split: option.splits sum.splits if_splits)
  then show "snapshot_for a env s" by (auto simp: snapshot_for_def until_of_def plan_listed)
qed

lemma runs_snapshot:
  assumes "\<And>x. r = Inr x \<Longrightarrow> snapshot_for a env x"
  shows "runs (asked n s0) (act_res r) (\<lambda>x t. asked n s0 t \<and> snapshot_for a env x) (\<lambda>_. asked n s0)"
  using assms by (auto simp: runs_def act_res_def act_return_def act_fail_def split: sum.split)

lemma runs_ask:
  "runs (asked n s0) (ask_check env a c) (\<lambda>s t. asked (Suc n) s0 t \<and> snapshot_for a env s) (\<lambda>_. asked (Suc n) s0)"
  "runs (asked n s0) (ask_subscription env a c) (\<lambda>s t. asked (Suc n) s0 t \<and> snapshot_for a env s) (\<lambda>_. asked (Suc n) s0)"
  unfolding ask_check_def ask_subscription_def
  by (rule runs_bind [OF runs_query], simp, rule runs_snapshot, erule snapshots_read)+

lemma runs_plan:
  "runs (asked 0 s0) (ask_plan env a c) (\<lambda>s t. asked 2 s0 t \<and> snapshot_for a env s) (\<lambda>_. asked 2 s0)"
proof -
  have two: "Suc (Suc 0) = 2" by simp
  have second: "runs (asked 1 s0) (second_question env a c previous) (\<lambda>s t. asked 2 s0 t \<and> snapshot_for a env s) (\<lambda>_. asked 2 s0)"
    for previous
    unfolding second_question_def
    by (rule runs_bind [where R = "\<lambda>r t. asked 2 s0 t \<and> (\<forall>s. r = Inr s \<longrightarrow> snapshot_for a env s)"],
        rule runs_try, rule runs_conseq [OF runs_ask(2) [of 1]])
      (auto simp: two runs_def act_return_def act_fail_def split: sum.split)
  show ?thesis
    unfolding ask_plan_def
  proof (rule runs_bind [where R = "\<lambda>r t. asked 1 s0 t \<and> (\<forall>s. r = Inr s \<longrightarrow> snapshot_for a env s)"])
    show "runs (asked 0 s0) (act_try (ask_check env a c))
        (\<lambda>r t. asked 1 s0 t \<and> (\<forall>s. r = Inr s \<longrightarrow> snapshot_for a env s)) (\<lambda>_. asked 2 s0)"
      by (rule runs_try, rule runs_conseq [OF runs_ask(1) [of 0]]) auto
    show "runs (\<lambda>t. asked 1 s0 t \<and> (\<forall>s. r = Inr s \<longrightarrow> snapshot_for a env s))
        (case r of Inr s \<Rightarrow> if complete_snapshot s then act_return s else second_question env a c r
         | Inl e \<Rightarrow> if err_code e = ''subscription_auth_expired'' then act_fail e else second_question env a c r)
        (\<lambda>s t. asked 2 s0 t \<and> snapshot_for a env s) (\<lambda>_. asked 2 s0)" for r
      by (cases r) (auto intro!: runs_return runs_fail runs_conseq [OF second] intro: asked_more [of "Suc 0"])
  qed
qed

text \<open>Keeping it.\<close>

lemma save_subscription_tx:
  assumes "fst (pg_save_subscription a s db) = Inr ()"
  shows "\<exists>row x. live_row (cf_pg (snd (pg_save_subscription a s db))) (acc_id a) = Some row
    \<and> acc_version (row_account row) = acc_version a \<and> acc_credential_version (row_account row) = acc_credential_version a
    \<and> acc_upstream_account_id (row_account row) = sub_upstream_account_id s
    \<and> hget (cf_subscriptions (snd (pg_save_subscription a s db))) (acc_id a) = Some x
    \<and> sub_last_checked_at s \<le> sub_last_checked_at x \<and> (x = s \<or> hget (cf_subscriptions db) (acc_id a) = Some x)"
  using assms
  by (auto simp: pg_save_subscription_def Let_def log_config_def live_row_def log_event_def split: option.splits if_splits)

lemma save_subscription_fails:
  "fst (pg_save_subscription a s db) = Inl e \<Longrightarrow> cf_subscriptions (snd (pg_save_subscription a s db)) = cf_subscriptions db"
  by (auto simp: pg_save_subscription_def Let_def split: option.splits if_splits)

lemma runs_keep:
  "runs (\<lambda>t. asked 2 s0 t \<and> snapshot_for a env s) (on_site (si_store (pg_save_subscription a s)))
     (\<lambda>_ t. (\<exists>row x. live_row (cf_pg (si_tables (sr_site t))) (acc_id a) = Some row
          \<and> acc_version (row_account row) = acc_version a \<and> acc_credential_version (row_account row) = acc_credential_version a
          \<and> acc_upstream_account_id (row_account row) = sub_upstream_account_id s
          \<and> hget (cf_subscriptions (si_tables (sr_site t))) (acc_id a) = Some x
          \<and> sub_last_checked_at s \<le> sub_last_checked_at x)
        \<and> snapshot_for a env s \<and> (\<exists>qs. sr_sent t = sr_sent s0 @ qs \<and> length qs \<le> 2 \<and> (\<forall>q\<in>set qs. official q)))
     (\<lambda>e t. (\<exists>qs. sr_sent t = sr_sent s0 @ qs \<and> length qs \<le> 2 \<and> (\<forall>q\<in>set qs. official q))
        \<and> (sr_others s0 = [] \<longrightarrow> e = err_storage
           \<or> cf_subscriptions (si_tables (sr_site t)) = cf_subscriptions (si_tables (sr_site s0))))"
    (is "runs _ _ ?Q ?E")
proof -
  have "case on_site (si_store (pg_save_subscription a s)) t0 of (Inl e, t) \<Rightarrow> ?E e t | (Inr x, t) \<Rightarrow> ?Q x t"
    if t0: "asked 2 s0 t0 \<and> snapshot_for a env s" for t0
  proof -
    let ?t = "next_turn t0"
    from asked_turn [of 2 s0 t0] t0 have turn: "asked 2 s0 ?t" by simp
    obtain r w where run: "si_store (pg_save_subscription a s) (sr_site ?t) = (r, w)" by fastforce
    have stepped: "on_site (si_store (pg_save_subscription a s)) t0 = (r, ?t\<lparr>sr_site := w\<rparr>)"
      using run by (simp add: on_site_def Let_def)
    show ?thesis
    proof (cases r)
      case (Inr u)
      from si_store_run(4) [OF run Inr] save_subscription_tx [of a s "site_tables (sr_site ?t)"] turn t0 stepped Inr
      show ?thesis by (auto simp: asked_def)
    next
      case (Inl e)
      have "e = err_storage \<or> cf_subscriptions (si_tables w) = cf_subscriptions (si_tables (sr_site ?t))"
        using run Inl save_subscription_fails [of a s "site_tables (sr_site ?t)"]
        by (auto simp: si_store_def with_site_def site_tables_def Let_def split: list.splits fault.splits)
      with turn stepped Inl show ?thesis by (auto simp: asked_def)
    qed
  qed
  then show ?thesis unfolding runs_def by blast
qed

text \<open>
  A refresh of subscription data asks at most two questions, both read-only and of the two
  official addresses. If it succeeds, the record kept is for the account as it still is: same
  version, same credentials, and the upstream account that was asked for; a record checked later is
  not replaced. If it fails and nothing else interferes, the records are as they were, unless only
  the acknowledgement of the database was lost.
\<close>

lemma subscription_refreshed:
  assumes "refresh_subscription env busy i s = (r, s')"
  shows "(\<exists>qs. sr_sent s' = sr_sent s @ qs \<and> length qs \<le> 2 \<and> (\<forall>q\<in>set qs. official q))
    \<and> (case r of
         Inr snap \<Rightarrow> sub_plan_type snap \<in> set PLANS \<and> (\<exists>(a :: account) row x.
           sub_upstream_account_id snap = acc_upstream_account_id a
           \<and> live_row (cf_pg (si_tables (sr_site s'))) (acc_id a) = Some row
           \<and> acc_version (row_account row) = acc_version a
           \<and> acc_credential_version (row_account row) = acc_credential_version a
           \<and> acc_upstream_account_id (row_account row) = acc_upstream_account_id a
           \<and> hget (cf_subscriptions (si_tables (sr_site s'))) (acc_id a) = Some x
           \<and> sub_last_checked_at snap \<le> sub_last_checked_at x)
       | Inl e \<Rightarrow> sr_others s = [] \<longrightarrow> e = err_storage
           \<or> cf_subscriptions (si_tables (sr_site s')) = cf_subscriptions (si_tables (sr_site s)))"
proof -
  let ?sent = "\<lambda>t. \<exists>qs. sr_sent t = sr_sent s @ qs \<and> length qs \<le> 2 \<and> (\<forall>q\<in>set qs. official q)"
  let ?E = "\<lambda>e t. ?sent t \<and> (sr_others s = [] \<longrightarrow> e = err_storage
    \<or> cf_subscriptions (si_tables (sr_site t)) = cf_subscriptions (si_tables (sr_site s)))"
  let ?Q = "\<lambda>snap t. ?sent t \<and> (\<exists>a :: account. snapshot_for a env snap \<and> (\<exists>row x.
      live_row (cf_pg (si_tables (sr_site t))) (acc_id a) = Some row
      \<and> acc_version (row_account row) = acc_version a \<and> acc_credential_version (row_account row) = acc_credential_version a
      \<and> acc_upstream_account_id (row_account row) = sub_upstream_account_id snap
      \<and> hget (cf_subscriptions (si_tables (sr_site t))) (acc_id a) = Some x \<and> sub_last_checked_at snap \<le> sub_last_checked_at x))"
  have weak: "runs P m R (\<lambda>_. asked n s) \<Longrightarrow> n \<le> 2 \<Longrightarrow> runs P m R ?E" for P R n and m :: "'x sr"
    by (elim runs_conseq) (auto simp: asked_def dest: order_trans)
  have start: "asked 0 s s" by (simp add: asked_def)
  have "runs (asked 0 s) (refresh_subscription env busy i) ?Q ?E"
  proof (cases busy)
    case True
    then show ?thesis
      by (simp add: refresh_subscription_def) (rule weak [of _ _ _ 0], rule runs_fail, simp_all)
  next
    case False
    have res: "runs (asked 0 s) (act_res x) (\<lambda>_. asked 0 s) (\<lambda>_. asked 0 s)" for x :: "credentials res"
      by (auto simp: runs_def act_res_def act_return_def act_fail_def split: sum.split)
    have keep: "runs (\<lambda>t. asked 2 s t \<and> snapshot_for a env snap)
        (act_then (on_site (si_store (pg_save_subscription a snap))) (act_return snap)) ?Q ?E" for a snap
      by (rule runs_then [OF runs_keep]) (auto intro!: runs_return)
    have gate: "runs (asked 0 s) (on_site (si_gate m)) (\<lambda>_. asked 0 s) ?E" for m :: "'x act"
      by (rule weak [OF runs_site]) (erule si_gate_tables, simp)
    show ?thesis
      unfolding refresh_subscription_def if_not_P [OF False]
      by (intro runs_bind [OF gate] runs_bind [OF weak [OF res]] runs_bind [OF weak [OF runs_plan]] keep) simp_all
  qed
  note over = runs_apply [OF this start assms]
  show ?thesis
  proof (cases r)
    case (Inl e)
    with over show ?thesis by simp
  next
    case (Inr snap)
    with over have "?Q snap s'" by simp
    then obtain a row x where sent: "?sent s'" and snap: "snapshot_for a env snap" and kept:
        "live_row (cf_pg (si_tables (sr_site s'))) (acc_id a) = Some row" "acc_version (row_account row) = acc_version a"
        "acc_credential_version (row_account row) = acc_credential_version a"
        "acc_upstream_account_id (row_account row) = sub_upstream_account_id snap"
        "hget (cf_subscriptions (si_tables (sr_site s'))) (acc_id a) = Some x"
        "sub_last_checked_at snap \<le> sub_last_checked_at x" by blast
    have "\<exists>(a :: account) row x. sub_upstream_account_id snap = acc_upstream_account_id a
           \<and> live_row (cf_pg (si_tables (sr_site s'))) (acc_id a) = Some row
           \<and> acc_version (row_account row) = acc_version a
           \<and> acc_credential_version (row_account row) = acc_credential_version a
           \<and> acc_upstream_account_id (row_account row) = acc_upstream_account_id a
           \<and> hget (cf_subscriptions (si_tables (sr_site s'))) (acc_id a) = Some x
           \<and> sub_last_checked_at snap \<le> sub_last_checked_at x"
      by (rule exI [of _ a], rule exI [of _ row], rule exI [of _ x]) (use snap kept in \<open>simp add: snapshot_for_def\<close>)
    with sent snap show ?thesis unfolding Inr sum.case snapshot_for_def by blast
  qed
qed

text \<open>An account on the free plan.\<close>

definition ex_plan :: json where
  "ex_plan = JObj [(''accounts'', JObj [(''u'', JObj [(''account'', JObj [(''plan_type'', JStr ''free'')])])])]"

definition ex_sub_env :: sub_env where
  "ex_sub_env = \<lparr>se_now = 9, se_rfc3339 = (\<lambda>_. None), se_parse = (\<lambda>_. Some ex_plan), se_header_ok = (\<lambda>_. True),
     se_encode = (\<lambda>_. []), se_decrypt = cy_decrypt cy_example\<rparr>"

definition ex_sub_run :: sub_run where
  "ex_sub_run = \<lparr>sr_site = ex_catalog_site, sr_sent = [], sr_replies = [SubAnswer 200 [] []], sr_others = []\<rparr>"

definition ex_snapshot :: subscription_snapshot where
  "ex_snapshot = \<lparr>sub_upstream_account_id = ''u'', sub_plan_type = ''free'', sub_active_until = None, sub_will_renew = None,
     sub_last_checked_at = 9, sub_source = ''accounts_check''\<rparr>"

lemma ex_checked: "accounts_check (\<lambda>_. None) 9 ex_plan ''u'' = Inr ex_snapshot"
proof -
  have "map ascii_lower (str_trim ''free'') = ''free''" by code_simp
  then show ?thesis
    by (simp add: accounts_check_def ex_plan_def ex_snapshot_def jindex_def jget_def entry_named_def filter_option_def
        entry_plan_def plan_of_def PLANS_def until_of_def)
qed

lemma ex_refreshed: "\<exists>s'. refresh_subscription ex_sub_env False 5 ex_sub_run = (Inr ex_snapshot, s')"
proof -
  have account: "sched_account ex_s0 5 = Some (ex_account 5)" "live_row ex_db 5 = Some (ex_row 5)"
    using cx_in_step by (simp_all add: in_step_def cx_state_def ex_gateway_def)
  have fields: "acc_upstream_account_id (ex_account 5) = ''u''" "acc_id (ex_account 5) = 5" "row_account (ex_row 5) = ex_account 5"
    by (simp_all add: ex_account_def)
  have complete: "complete_snapshot ex_snapshot" by (simp add: complete_snapshot_def ex_snapshot_def)
  have upstream: "sub_upstream_account_id ex_snapshot = ''u''" by (simp add: ex_snapshot_def)
  show ?thesis
    by (simp add: refresh_subscription_def act_bind_def act_then_def act_try_def act_return_def act_res_def on_site_def
        next_turn_def si_gate_def current_account_def act_read_def act_or_def act_store_def pg_credentials_def account
        ask_plan_def ask_check_def sub_query_def send_sub_def sub_answer_def subscription_request_def ok_status_def
        ex_sub_run_def ex_sub_env_def cy_example_def ex_catalog_site_def ex_site_def ex_gateway_def ok_or_def
        ex_checked fields complete si_store_def site_tables_def with_site_def pg_save_subscription_def upstream Let_def)
qed

lemma subscription_refreshed_witness:
  "\<exists>s'. refresh_subscription ex_sub_env False 5 ex_sub_run = (Inr ex_snapshot, s') \<and> length (sr_sent s') \<le> 2
     \<and> (\<exists>(a :: account) x. ''u'' = acc_upstream_account_id a
          \<and> hget (cf_subscriptions (si_tables (sr_site s'))) (acc_id a) = Some x \<and> 9 \<le> sub_last_checked_at x)"
proof -
  obtain s' where run: "refresh_subscription ex_sub_env False 5 ex_sub_run = (Inr ex_snapshot, s')" using ex_refreshed by blast
  from subscription_refreshed [OF run] run show ?thesis
    by (auto simp: ex_snapshot_def ex_sub_run_def)
qed

end
