(* ===== verification/Transport.thy ===== *)
theory Transport
  imports Protocol Actions
begin

section \<open>Sending requests upstream\<close>

text \<open>
  \<open>crates/xxgate-transport/src\<close>: \<open>client_pool.rs\<close> and \<open>deadlines.rs\<close>. A client of the crate
  \<open>reqwest\<close> keeps connections and, if asked, cookies; of it the model keeps how it was built and, as
  \<open>hc_made_for\<close>, for which request. Parsing URLs and what the network does are parameters.
\<close>

record http_client =
  hc_number :: nat
  hc_cookies :: bool
  hc_rustls :: bool
  hc_made_for :: prepared_request

record transport_env =
  te_url :: "string \<Rightarrow> url option"
  te_origin :: "string \<Rightarrow> string"
  te_path :: "string \<Rightarrow> string"
  te_id_text :: "uuid \<Rightarrow> string"
  te_builds :: "prepared_request \<Rightarrow> bool"
  te_allow_http :: bool

record pool =
  po_clients :: "(string, int \<times> http_client) hmap"
  po_made :: nat
  po_sent :: "(http_client option \<times> prepared_request) list"

type_synonym 'a pooled = "(pool, err, 'a) comp"

subsection \<open>Clients\<close>

definition client_key :: "transport_env \<Rightarrow> prepared_request \<Rightarrow> string" where
  "client_key env q =
     (case pq_account_id q of None \<Rightarrow> ''control'' | Some i \<Rightarrow> te_id_text env i) @ '':''
     @ te_origin env (pq_url q) @ '':'' @ pq_tls_backend q"

definition err_client_init :: err where
  "err_client_init = error_new 500 ''client_initialization_failed'' ''Unable to initialize upstream HTTP client''"

definition check_url :: "transport_env \<Rightarrow> prepared_request \<Rightarrow> unit res" where
  "check_url env q =
     (case te_url env (pq_url q) of
        None \<Rightarrow> Inl (err_invalid ''Invalid upstream URL'')
      | Some u \<Rightarrow>
          if url_username u \<noteq> [] \<or> url_password u \<noteq> None
             \<or> \<not> (url_scheme u = ''https'' \<or> te_allow_http env \<and> url_scheme u = ''http'')
          then Inl (err_invalid ''Unsupported upstream URL'') else Inr ())"

definition build_client :: "nat \<Rightarrow> prepared_request \<Rightarrow> http_client" where
  "build_client n q =
     \<lparr>hc_number = n, hc_cookies = (pq_account_id q \<noteq> None), hc_rustls = (pq_tls_backend q = ''rustls''), hc_made_for = q\<rparr>"

definition pool_client :: "transport_env \<Rightarrow> prepared_request \<Rightarrow> http_client pooled" where
  "pool_client env q s =
     (case check_url env q of
        Inl e \<Rightarrow> (Inl e, s)
      | Inr _ \<Rightarrow>
          let key = client_key env q;
              build = (if te_builds env q
                then let c = build_client (po_made s) q in
                  (Inr c, s\<lparr>po_clients := hput key (pq_profile_version q, c) (po_clients s), po_made := Suc (po_made s)\<rparr>)
                else (Inl err_client_init, s))
          in case hget (po_clients s) key of
               Some (version, c) \<Rightarrow> if version = pq_profile_version q then (Inr c, s) else build
             | None \<Rightarrow> build)"

subsection \<open>Errors of the transport\<close>

text \<open>The chain of sources of an error, each a passed connect deadline or not.\<close>

record transport_failure =
  tf_chain :: "bool list"
  tf_connect :: bool
  tf_timeout :: bool

definition transport_error :: "transport_failure \<Rightarrow> err" where
  "transport_error f =
     (if True \<in> set (tf_chain f) then error_new 504 ''connect_timeout'' ''Upstream connection timed out''
      else if tf_connect f then error_new 502 ''connect_failed'' ''Unable to connect to the upstream''
      else if tf_timeout f then error_new 504 ''upstream_timeout'' ''Upstream transport timed out''
      else error_new 502 ''transport_failed'' ''Upstream HTTP transport failed'')"

text \<open>What happens to a request: cancelled before an answer, failed, or answered; \<open>None\<close> ends the body at a cancellation.\<close>

datatype exchange = Cancelled | Broken transport_failure | Answered nat header_list "(transport_failure + string) option list"

fun until_cancelled :: "('e \<Rightarrow> err) \<Rightarrow> ('e + string) option list \<Rightarrow> (err + string) list" where
  "until_cancelled f [] = []"
| "until_cancelled f (None # cs) = []"
| "until_cancelled f (Some (Inl e) # cs) = Inl (f e) # until_cancelled f cs"
| "until_cancelled f (Some (Inr b) # cs) = Inr b # until_cancelled f cs"

type_synonym upstream_response = "nat \<times> header_list \<times> (err + string) list"

definition received_response :: "exchange \<Rightarrow> (transport_failure \<Rightarrow> err) \<Rightarrow> (transport_failure \<Rightarrow> err) \<Rightarrow> upstream_response res" where
  "received_response x failed torn =
     (case x of
        Cancelled \<Rightarrow> Inl err_cancelled
      | Broken f \<Rightarrow> Inl (failed f)
      | Answered status headers chunks \<Rightarrow> Inr (status, headers, until_cancelled torn chunks))"

definition go_out :: "http_client option \<Rightarrow> prepared_request \<Rightarrow> unit pooled" where
  "go_out c q s = (Inr (), s\<lparr>po_sent := po_sent s @ [(c, q)]\<rparr>)"

definition pooled_res :: "'a res \<Rightarrow> 'a pooled" where
  "pooled_res r = (case r of Inl e \<Rightarrow> act_fail e | Inr x \<Rightarrow> act_return x)"

subsection \<open>Subscription queries\<close>

definition err_sub_endpoint :: err where
  "err_sub_endpoint = err_invalid ''Unsupported subscription endpoint''"

definition err_sub_client :: err where
  "err_sub_client = error_new 500 ''subscription_client_failed''
     (uni [0x65E0, 0x6CD5, 0x521D, 0x59CB, 0x5316, 0x5957, 0x9910, 0x67E5, 0x8BE2, 0x5BA2, 0x6237, 0x7AEF])"

definition err_sub_transport :: err where
  "err_sub_transport = error_new 502 ''subscription_transport_failed'' (uni
     [0x5957, 0x9910, 0x67E5, 0x8BE2, 0x8FDE, 0x63A5, 0x5931, 0x8D25, 0xFF0C, 0x8BF7, 0x7A0D, 0x540E, 0x91CD, 0x8BD5])"

definition err_sub_read :: err where
  "err_sub_read = error_new 502 ''subscription_body_failed'' (uni
     [0x5957, 0x9910, 0x67E5, 0x8BE2, 0x54CD, 0x5E94, 0x8BFB, 0x53D6, 0x5931, 0x8D25])"

definition subscription_endpoint :: "transport_env \<Rightarrow> prepared_request \<Rightarrow> unit res" where
  "subscription_endpoint env q =
     (case te_url env (pq_url q) of
        None \<Rightarrow> Inl (err_invalid ''Invalid subscription URL'')
      | Some u \<Rightarrow>
          if pq_method q \<noteq> ''GET'' \<or> te_origin env (pq_url q) \<noteq> ''https://chatgpt.com'' \<or> url_username u \<noteq> []
             \<or> url_password u \<noteq> None
             \<or> te_path env (pq_url q) \<notin> {''/backend-api/subscriptions'', ''/backend-api/accounts/check/v4-2023-04-27''}
          then Inl err_sub_endpoint else Inr ())"

text \<open>A client of its own for each query; method, address and headers are sent, no body.\<close>

definition browser_subscription :: "transport_env \<Rightarrow> exchange \<Rightarrow> prepared_request \<Rightarrow> upstream_response pooled" where
  "browser_subscription env x q =
     act_then (pooled_res (subscription_endpoint env q)) (
     act_then (if te_builds env q then act_return () else act_fail err_sub_client) (
     act_then (go_out None (q\<lparr>pq_body := []\<rparr>)) (
       pooled_res (received_response x (\<lambda>_. err_sub_transport) (\<lambda>_. err_sub_read)))))"

definition send_once :: "transport_env \<Rightarrow> exchange \<Rightarrow> prepared_request \<Rightarrow> upstream_response pooled" where
  "send_once env x q =
     (if pq_tls_backend q = ''subscription_browser'' then browser_subscription env x q
      else act_bind (pool_client env q) (\<lambda>c.
           act_then (go_out (Some c) q) (pooled_res (received_response x transport_error transport_error))))"

subsection \<open>Connecting (deadlines.rs)\<close>

text \<open>
  Events while a connection is made, at strictly later and later milliseconds since its start: the
  settings change, or the connection is there. The result is when the wait ended, and with what.
\<close>

datatype 'r connecting = TimeoutSet nat | Connected 'r

fun connect_wait :: "nat \<Rightarrow> (nat \<times> 'r connecting) list \<Rightarrow> nat \<times> 'r option" where
  "connect_wait timeout [] = (timeout, None)"
| "connect_wait timeout ((t, TimeoutSet n) # es) =
     (if timeout < t then (timeout, None)
      else case connect_wait n es of (e, r) \<Rightarrow> (max t e, r))"
| "connect_wait timeout ((t, Connected r) # es) = (if timeout \<le> t then (timeout, None) else (t, Some r))"

text \<open>The timeout in force at a time.\<close>

fun timeout_at :: "nat \<Rightarrow> (nat \<times> 'r connecting) list \<Rightarrow> nat \<Rightarrow> nat" where
  "timeout_at timeout [] t = timeout"
| "timeout_at timeout ((s, TimeoutSet n) # es) t = (if s \<le> t then timeout_at n es t else timeout)"
| "timeout_at timeout ((s, Connected r) # es) t = timeout"

fun rising :: "nat \<Rightarrow> (nat \<times> 'r connecting) list \<Rightarrow> bool" where
  "rising k [] = True"
| "rising k ((t, e) # es) = (k < t \<and> rising t es)"

lemma timeout_before: "rising k es \<Longrightarrow> t \<le> k \<Longrightarrow> timeout_at timeout es t = timeout"
  by (induction timeout es t arbitrary: k rule: timeout_at.induct) auto

text \<open>
  A connection is taken only if it was there before the deadline in force at that moment; and a
  wait given up was at or past the deadline in force then.
\<close>

lemma connect_in_time:
  "rising k es \<Longrightarrow> connect_wait timeout es = (e, Some r) \<Longrightarrow> e < timeout_at timeout es e \<and> k < e"
proof (induction timeout es arbitrary: k e rule: connect_wait.induct)
  case (2 timeout t n es)
  then obtain e1 where rest: "connect_wait n es = (e1, Some r)" "e = max t e1" "\<not> timeout < t"
    by (auto split: if_splits prod.splits)
  from 2(2) have "rising t es" "k < t" by simp_all
  from 2(1) [OF rest(3) this(1) rest(1)] rest(2) \<open>k < t\<close> show ?case by (simp add: max_def)
qed (auto split: if_splits)

lemma connect_given_up:
  "rising k es \<Longrightarrow> connect_wait timeout es = (e, None) \<Longrightarrow> timeout_at timeout es e \<le> e"
proof (induction timeout es arbitrary: k e rule: connect_wait.induct)
  case (2 timeout t n es)
  from 2(2) have rising: "rising t es" by simp
  show ?case
  proof (cases "timeout < t")
    case True
    with 2(3) show ?thesis by auto
  next
    case False
    with 2(3) obtain e1 where rest: "connect_wait n es = (e1, None)" "e = max t e1" by (auto split: prod.splits)
    have "timeout_at n es e1 \<le> e1" by (rule 2(1) [OF False rising rest(1)])
    moreover have "e1 \<le> t \<Longrightarrow> timeout_at n es t = timeout_at n es e1"
      using timeout_before [OF rising] by (metis order_refl)
    ultimately show ?thesis using rest(2) by (auto simp: max_def)
  qed
qed (auto split: if_splits)

subsection \<open>Clients are not shared between accounts\<close>

inductive pool_step :: "transport_env \<Rightarrow> pool \<Rightarrow> pool \<Rightarrow> bool" for env where
  sends: "pool_step env s (snd (send_once env x q s))"

definition pool_new :: "pool \<Rightarrow> bool" where
  "pool_new s \<longleftrightarrow> po_clients s = [] \<and> po_made s = 0 \<and> po_sent s = []"

abbreviation pool_reachable :: "transport_env \<Rightarrow> pool \<Rightarrow> bool" where
  "pool_reachable env \<equiv> reach pool_new (pool_step env)"

text \<open>Texts of identifiers are different, without a colon and not the word for control requests.\<close>

definition id_texts :: "transport_env \<Rightarrow> bool" where
  "id_texts env \<longleftrightarrow> inj (te_id_text env) \<and> (\<forall>i. CHR '':'' \<notin> set (te_id_text env i) \<and> te_id_text env i \<noteq> ''control'')"

definition holder :: "transport_env \<Rightarrow> prepared_request \<Rightarrow> string" where
  "holder env q = (case pq_account_id q of None \<Rightarrow> ''control'' | Some i \<Rightarrow> te_id_text env i)"

lemma holder_inj: "id_texts env \<Longrightarrow> holder env q = holder env p \<Longrightarrow> pq_account_id q = pq_account_id p"
  by (auto simp: id_texts_def holder_def inj_def split: option.splits)

lemma colon_split: "c \<notin> set a \<Longrightarrow> c \<notin> set b \<Longrightarrow> a @ c # x = b @ c # y \<Longrightarrow> a = b \<and> x = y"
proof (induction a arbitrary: b)
  case Nil
  then show ?case by (cases b) auto
next
  case (Cons d a)
  then show ?case by (cases b) auto
qed

lemma key_account:
  assumes "id_texts env" "client_key env q = client_key env p"
  shows "pq_account_id q = pq_account_id p"
proof -
  have free: "CHR '':'' \<notin> set (holder env r)" for r
    using assms(1) by (auto simp: holder_def id_texts_def split: option.split)
  have "client_key env r = holder env r @ CHR '':'' # (te_origin env (pq_url r) @ '':'' @ pq_tls_backend r)" for r
    by (simp add: client_key_def holder_def)
  with assms(2) colon_split [OF free free] have "holder env q = holder env p" by metis
  with holder_inj [OF assms(1)] show ?thesis by blast
qed

text \<open>A client in the pool was made for a request with its key and version; every client has its own number.\<close>

definition well_made :: "http_client \<Rightarrow> bool" where
  "well_made c \<longleftrightarrow> c = build_client (hc_number c) (hc_made_for c)"

lemma well_made_client:
  "well_made (build_client n q)" "hc_made_for (build_client n q) = q"
  "well_made c \<Longrightarrow> hc_cookies c \<longleftrightarrow> pq_account_id (hc_made_for c) \<noteq> None"
proof -
  show "well_made (build_client n q)" "hc_made_for (build_client n q) = q"
    by (simp_all add: well_made_def build_client_def)
  assume "well_made c"
  then have made: "c = build_client (hc_number c) (hc_made_for c)" by (simp only: well_made_def)
  show "hc_cookies c \<longleftrightarrow> pq_account_id (hc_made_for c) \<noteq> None"
    by (subst made) (simp add: build_client_def)
qed

definition carries :: "transport_env \<Rightarrow> http_client option \<Rightarrow> prepared_request \<Rightarrow> bool" where
  "carries env c q \<longleftrightarrow> (case c of
     None \<Rightarrow> pq_tls_backend q = ''subscription_browser'' \<and> pq_method q = ''GET'' \<and> te_origin env (pq_url q) = ''https://chatgpt.com''
   | Some c \<Rightarrow> well_made c \<and> check_url env q = Inr () \<and> client_key env (hc_made_for c) = client_key env q
        \<and> pq_profile_version (hc_made_for c) = pq_profile_version q)"

definition pool_ok :: "transport_env \<Rightarrow> pool \<Rightarrow> bool" where
  "pool_ok env s \<longleftrightarrow>
     (\<forall>k v c. hget (po_clients s) k = Some (v, c) \<longrightarrow>
        well_made c \<and> k = client_key env (hc_made_for c) \<and> v = pq_profile_version (hc_made_for c))
     \<and> (\<forall>(c, q)\<in>set (po_sent s). carries env c q)"

interpretation pooling: kept "pool_ok env" for env .

lemma pool_client_ok:
  assumes ok: "pool_ok env s" and run: "pool_client env q s = (r, s')"
  shows "pool_ok env s' \<and> (\<forall>c. r = Inr c \<longrightarrow> carries env (Some c) q)"
proof (cases "check_url env q")
  case (Inl e)
  with assms show ?thesis by (auto simp: pool_client_def)
next
  case (Inr u)
  let ?c = "build_client (po_made s) q"
  let ?s = "s\<lparr>po_clients := hput (client_key env q) (pq_profile_version q, ?c) (po_clients s), po_made := Suc (po_made s)\<rparr>"
  have built: "pool_ok env ?s" "carries env (Some ?c) q"
    using ok Inr by (auto simp: pool_ok_def carries_def well_made_client)
  have known: "carries env (Some c) q" if "hget (po_clients s) (client_key env q) = Some (pq_profile_version q, c)" for c
    using ok that Inr by (auto simp: pool_ok_def carries_def)
  from run Inr have "(r, s') = (Inr ?c, ?s) \<or> s' = s \<and> (isl r
      \<or> (\<exists>c. r = Inr c \<and> hget (po_clients s) (client_key env q) = Some (pq_profile_version q, c)))"
    by (auto simp: pool_client_def Let_def split: option.splits if_splits)
  with ok built known show ?thesis by auto
qed

lemma runs_pool: "runs (pool_ok env) (pool_client env q) (\<lambda>c s. pool_ok env s \<and> carries env (Some c) q) (\<lambda>_. pool_ok env)"
  using pool_client_ok by (fastforce simp: runs_def split: prod.split sum.split)

lemma runs_go: "runs (\<lambda>s. pool_ok env s \<and> carries env c q) (go_out c q) (\<lambda>_. pool_ok env) (\<lambda>_. pool_ok env)"
  by (auto simp: runs_def go_out_def pool_ok_def)

lemma pooling_res: "pooling.keeps env (pooled_res r)"
  by (simp add: pooled_res_def pooling.keeps_return pooling.keeps_fail split: sum.split)

lemma runs_send: "runs (pool_ok env) (send_once env x q) (\<lambda>_. pool_ok env) (\<lambda>_. pool_ok env)"
proof (cases "pq_tls_backend q = ''subscription_browser''")
  case True
  have endpoint: "runs (pool_ok env) (pooled_res (subscription_endpoint env q))
      (\<lambda>_ s. pool_ok env s \<and> carries env None (q\<lparr>pq_body := []\<rparr>)) (\<lambda>_. pool_ok env)"
    using True
    by (auto simp: runs_def pooled_res_def subscription_endpoint_def act_return_def act_fail_def carries_def
        split: option.split)
  have built: "runs (\<lambda>s. pool_ok env s \<and> b) (if d then act_return () else act_fail e)
      (\<lambda>_ s. pool_ok env s \<and> b) (\<lambda>_. pool_ok env)" for b d e
    by (auto simp: runs_def act_return_def act_fail_def)
  show ?thesis
    unfolding send_once_def browser_subscription_def if_P [OF True]
    by (rule runs_then [OF endpoint runs_then [OF built runs_then [OF runs_go pooling.keeps_runs [OF pooling_res]]]])
next
  case False
  show ?thesis
    unfolding send_once_def if_not_P [OF False]
    by (rule runs_bind [OF runs_pool], rule runs_then [OF runs_go pooling.keeps_runs [OF pooling_res]])
qed

interpretation pools: invariant_system pool_new "pool_step env" "pool_ok env" for env
proof
  show "pool_new s \<Longrightarrow> pool_ok env s" for s by (simp add: pool_new_def pool_ok_def)
  show "pool_step env s t \<Longrightarrow> pool_ok env s \<Longrightarrow> pool_ok env t" for s t
    by (erule pool_step.cases) (auto dest: runsD [OF runs_send])
qed

text \<open>
  C36. Every request that goes out through a pooled client goes over HTTPS, or HTTP where that is
  allowed, with no user name in the address, and through a client that was made for the same account
  at the same version, which keeps cookies exactly for accounts; so no connection and no cookie of one
  account is used for another, nor for the control requests that belong to none.
\<close>

theorem clients_isolated:
  assumes "pool_reachable env s" and "id_texts env" and "(Some c, q) \<in> set (po_sent s)"
  shows "check_url env q = Inr () \<and> pq_account_id (hc_made_for c) = pq_account_id q
    \<and> pq_profile_version (hc_made_for c) = pq_profile_version q
    \<and> (hc_cookies c \<longleftrightarrow> pq_account_id q \<noteq> None)
    \<and> (\<forall>p. (Some c, p) \<in> set (po_sent s) \<longrightarrow> pq_account_id p = pq_account_id q)"
proof -
  have sent: "well_made c \<and> check_url env p = Inr () \<and> client_key env (hc_made_for c) = client_key env p
      \<and> pq_profile_version (hc_made_for c) = pq_profile_version p" if "(Some c, p) \<in> set (po_sent s)" for p
  proof -
    have "\<forall>(c, q)\<in>set (po_sent s). carries env c q"
      using pools.reach_inv [OF assms(1)] unfolding pool_ok_def by blast
    from bspec [OF this that] show ?thesis by (simp add: carries_def)
  qed
  have made: "pq_account_id (hc_made_for c) = pq_account_id p" if "(Some c, p) \<in> set (po_sent s)" for p
    using key_account [OF assms(2)] sent [OF that] by blast
  have "hc_cookies c \<longleftrightarrow> pq_account_id q \<noteq> None"
    using well_made_client(3) sent [OF assms(3)] made [OF assms(3)] by simp
  moreover have "\<forall>p. (Some c, p) \<in> set (po_sent s) \<longrightarrow> pq_account_id p = pq_account_id q"
    using made made [OF assms(3)] by metis
  ultimately show ?thesis using sent [OF assms(3)] made [OF assms(3)] by blast
qed

text \<open>Two accounts of the same upstream.\<close>

definition ex_transport :: transport_env where
  "ex_transport = \<lparr>te_url = (\<lambda>_. Some \<lparr>url_scheme = ''https'', url_host = Some ''x'', url_username = [], url_password = None,
       url_query = None, url_fragment = None\<rparr>),
     te_origin = (\<lambda>_. ''https://x''), te_path = (\<lambda>_. []), te_id_text = show_nat, te_builds = (\<lambda>_. True), te_allow_http = False\<rparr>"

definition ex_out :: "uuid \<Rightarrow> prepared_request" where
  "ex_out i = \<lparr>pq_method = ''POST'', pq_url = ''https://x/responses'', pq_headers = [], pq_body = [], pq_account_id = Some i,
     pq_profile_version = 1, pq_tls_backend = ''rustls''\<rparr>"

definition ex_pool :: pool where
  "ex_pool = snd (send_once ex_transport Cancelled (ex_out 6)
     (snd (send_once ex_transport Cancelled (ex_out 5) \<lparr>po_clients = [], po_made = 0, po_sent = []\<rparr>)))"

lemma ex_id_texts: "id_texts ex_transport"
proof -
  have "inj show_nat" by (metis digits_value_show_nat injI)
  moreover have "\<not> is_digit CHR '':''" "\<not> is_digit CHR ''c''" by code_simp+
  then have "CHR '':'' \<notin> set (show_nat i)" "show_nat i \<noteq> ''control''" for i
    using show_nat_digits [of i] by auto
  ultimately show ?thesis by (simp add: id_texts_def ex_transport_def)
qed

theorem clients_isolated_witness:
  "\<exists>c. (Some c, ex_out 5) \<in> set (po_sent ex_pool) \<and> pq_account_id (hc_made_for c) = Some 5 \<and> hc_cookies c
     \<and> (Some c, ex_out 6) \<notin> set (po_sent ex_pool)"
proof -
  have "pool_reachable ex_transport \<lparr>po_clients = [], po_made = 0, po_sent = []\<rparr>"
    by (rule reach_init) (simp add: pool_new_def)
  then have reach: "pool_reachable ex_transport ex_pool"
    unfolding ex_pool_def by (meson reach_step sends)
  have "show_nat 5 \<noteq> show_nat 6" by (metis digits_value_show_nat numeral_eq_iff semiring_norm(89,90))
  then have "(Some (build_client 0 (ex_out 5)), ex_out 5) \<in> set (po_sent ex_pool)"
    by (simp add: ex_pool_def send_once_def pool_client_def check_url_def ex_transport_def ex_out_def client_key_def
        act_bind_def act_then_def go_out_def pooled_res_def received_response_def act_fail_def Let_def)
  from clients_isolated [OF reach ex_id_texts this] this show ?thesis
    by (auto simp: ex_out_def)
qed

end
