(* ===== verification/Spec2Isabelle.thy ===== *)
theory Spec2Isabelle
  imports Settings Identity_Store Sched_Theorems Account_Theorems Pricing
    Codex_Sent Codex_Wire Codex_Recovery Codex_Quota Codex_Errors Codex_Stream Gateway_Theorems
    Pg_Ledger Memory_Probe Reset_Theorems Oauth_Theorems Key_Theorems Door_Theorems
    Subscriptions Transport
begin

text \<open>
  A model of xxgate, a gateway that lets Codex clients share upstream accounts. Paths below are
  relative to \<open>src/crates\<close>.

  \<^bold>\<open>How a request travels.\<close> A client's HTTP request enters at a public endpoint
  (\<open>xxgate-server/src/http/public.rs\<close>), which finds its key, admits it to memory, reads its body and
  has it parsed (\<open>xxgate-codex\<close>: \<open>ingress.rs\<close>, \<open>identity_input.rs\<close>). The pipeline
  (\<open>xxgate-core/src/application/gateway.rs\<close>) opens a record of it in the database, waits in the
  scheduler (\<open>scheduling.rs\<close>) for an account of the key's group, prepares what is sent upstream
  (\<open>provider/request.rs\<close>), sends it, decodes the response (\<open>provider/events.rs\<close>), recovers once from
  rejected encrypted content, values the usage (\<open>pricing.rs\<close>) and closes the record. Around it,
  administrators and timers change accounts, keys, groups, settings, models and prices, refresh
  credentials, quotas, catalogs and subscriptions, and redeem reset credits; the scheduler, the
  database and the settings in force are the state these share with the pipeline.

  \<^bold>\<open>What models what.\<close>

  \<^item> Shared: \<open>Prelude\<close> (results, hash maps as association lists, \<open>invariant_system\<close>), \<open>Actions\<close>
    (stateful, fallible computations, and \<open>runs\<close>, the rule by which conditions go through them),
    \<open>Growing\<close>, \<open>Rust_Text\<close> (strings are UTF-8 bytes), \<open>Floats\<close>, \<open>Json\<close>.
  \<^item> Values of \<open>xxgate-core\<close>: \<open>Core_Types\<close> (\<open>types\<close>, \<open>clients\<close>, \<open>groups\<close>, \<open>providers\<close>, \<open>accounts\<close>,
    \<open>access\<close>), \<open>Settings\<close>, \<open>Identity\<close>, \<open>Turn_State\<close>, \<open>Protocol\<close>, \<open>Quota\<close>, \<open>Resets\<close>, \<open>Pricing\<close>
    (\<open>pricing\<close>, \<open>usage\<close>).
  \<^item> Scheduler: \<open>Scheduling\<close> has the state behind the mutex of \<open>scheduling.rs\<close> as a record and each
    critical section as a function; \<open>Sched_Select\<close> what one reservation decides; \<open>Sched_World\<close> the
    step relation over live tickets and leases; \<open>Sched_Invariant\<close>, \<open>Sched_Leases\<close>, \<open>Sched_Properties\<close>,
    \<open>Sched_Theorems\<close> its invariant and the exclusion, counting, eligibility and progress it gives.
  \<^item> Pipeline: \<open>Safety_Guard\<close> (\<open>application/safety.rs\<close>) and \<open>Gateway_Run\<close> (\<open>start\<close> to \<open>finalize\<close> of
    \<open>gateway.rs\<close>), in an environment whose every answer may be anything at any time and with a client
    that may leave at any wait. \<open>Gateway_Quiet\<close>, \<open>Gateway_Sends\<close>, \<open>Gateway_Ends\<close>, \<open>Gateway_Theorems\<close>:
    what is sent, recorded and reported on every path.
  \<^item> Accounts: \<open>Gateway_State\<close> (scheduler, database and settings with lost store calls),
    \<open>Account_Control\<close> (\<open>gateway.rs\<close> and \<open>http/admin.rs\<close>: quota observations, reconciliation, editing,
    deletion), \<open>Account_Guard\<close>, \<open>Account_Theorems\<close>: the scheduler never selects what the database has
    switched off, but for an account whose deletion failed.
  \<^item> Database (\<open>xxgate-postgres/src\<close>): \<open>Pg_Store\<close> (\<open>accounts\<close>, \<open>bindings\<close>, \<open>resets\<close>, the safety part of
    \<open>requests\<close>), \<open>Identity_Store\<close> (the identifier map restored from its rows), \<open>Pg_Requests\<close> and
    \<open>Pg_Ledger\<close> (the rows of totals refine a ledger), \<open>Pg_Access\<close> (\<open>access\<close>, \<open>groups\<close>),
    \<open>Pg_Settings\<close> (\<open>settings\<close>, \<open>model_version\<close>, subscriptions).
  \<^item> Codex protocol (\<open>xxgate-codex/src\<close>): \<open>Codex_Wire\<close> (\<open>wire\<close>), \<open>Codex_Ingress\<close> and \<open>Codex_Resolve\<close>
    (\<open>client_source\<close>, \<open>compaction\<close>, \<open>identity_input\<close>), \<open>Codex_Parse\<close> (\<open>ingress\<close>, \<open>search\<close>, \<open>images\<close>,
    \<open>identity_trace\<close>), \<open>Codex_Input\<close> and \<open>Codex_Recovery\<close> (\<open>references\<close>, \<open>search_history\<close>,
    \<open>recovery\<close>), \<open>Codex_Prepare\<close>, \<open>Codex_Upstream\<close>, \<open>Codex_Sent\<close> (\<open>request\<close>: what may be sent),
    \<open>Codex_Events\<close> and \<open>Codex_Stream\<close> (\<open>events\<close>), \<open>Codex_Quota\<close>, \<open>Codex_Errors\<close>.
  \<^item> Calls of the gateway's own: \<open>Codex_Oauth\<close>, \<open>Codex_Authorization\<close>, \<open>Control_Calls\<close>, \<open>Control_Codex\<close>
    (\<open>oauth\<close>, \<open>credentials\<close> and \<open>collect_quotas\<close>), \<open>Reset_Redeem\<close>, \<open>Reset_Journal\<close>, \<open>Reset_Theorems\<close>
    (\<open>application/resets.rs\<close>: a credit is spent at most once per journaled operation), \<open>Oauth_Flows\<close>,
    \<open>Oauth_Theorems\<close> (\<open>http/oauth.rs\<close>, \<open>http/oauth_browser.rs\<close>).
  \<^item> Door: \<open>Admin_Access\<close>, \<open>Admin_Keys\<close>, \<open>Access_Theorems\<close>, \<open>Key_Theorems\<close> (\<open>http/auth.rs\<close>, keys and
    groups of \<open>admin.rs\<close>, \<open>groups.rs\<close>), \<open>Memory\<close> and \<open>Memory_Probe\<close> (\<open>memory.rs\<close>), \<open>Json_Gate\<close>
    (\<open>memory_json.rs\<close>), \<open>Public_Door\<close>, \<open>Door_Theorems\<close> (\<open>http/public.rs\<close>).
  \<^item> Configuration: \<open>Admin_Settings\<close>, \<open>Settings_Theorems\<close> (settings, models, prices and new accounts of
    \<open>admin.rs\<close>), \<open>Discovery_Version\<close> (both \<open>model_version.rs\<close>), \<open>Model_Catalog\<close>, \<open>Catalog_Theorems\<close>,
    \<open>Model_Listing\<close> (\<open>provider/models.rs\<close>, \<open>application/catalog.rs\<close>, \<open>public_models.rs\<close>), \<open>Subscriptions\<close>
    (\<open>provider/subscription.rs\<close>, \<open>http/subscriptions.rs\<close>), \<open>Transport\<close> (\<open>xxgate-transport\<close>).

  \<^bold>\<open>State and concurrency.\<close> What a mutex protects is a record, and what runs while it is held is one
  function. Between two of them other tasks run: as steps of a relation (\<open>wstep\<close>, \<open>control_step\<close>,
  \<open>flow_step\<close>, \<open>reset_step\<close>, \<open>site_step\<close>, \<open>discovery_step\<close>, \<open>pool_step\<close> and the relations of
  \<open>Access_Theorems\<close>), or, inside one operation, as the \<open>turns\<close> or \<open>others\<close> of its state, which may
  also end it where the process dies. A call of the store may be lost before or after it took effect:
  \<open>gw_faults\<close>. The handlers under the lock \<open>mutations\<close> run one after the other. One reading of the
  clock stands for the readings of one operation. Random identifiers and secrets are arguments.

  \<^bold>\<open>How the properties are proved.\<close> A locale \<open>kept\<close> states what a condition must satisfy to go
  through a computation; its extensions (\<open>state_condition\<close>, \<open>front_condition\<close>, \<open>door_condition\<close>,
  \<open>run_condition\<close> and its parents) carry it through the operations of one component once and for all
  and are interpreted on each condition a property needs. \<open>invariant_system\<close> is interpreted on each
  step relation. \<open>mapping_store\<close>, \<open>rollup\<close> and \<open>growing\<close> are the contracts between the pipeline, the
  tables and the identifier map.

  \<^bold>\<open>Numbers, bounds and fuel.\<close> Counters the code only compares are \<open>nat\<close>; row versions are unbounded
  integers; decimals are exact, and
  valuations have at most eight places. The loop of attempts in \<open>Gateway_Run\<close> has fuel two, since a
  recovery is begun only at the first (\<open>BegunAgain\<close> marks a third and is never emitted,
  \<open>sends_guarded\<close>); the rounds of \<open>dispatch_loop\<close> are those in which the client still waits;
  \<open>metadata_fuel\<close> exceeds the length of the text, of which every
  nesting uses some (\<open>preparing_ends\<close>); trimming a suffix has the length as its fuel.

  \<^bold>\<open>Parameters.\<close> Code that is not in the repository is an argument where it is used: reading and
  printing of \<open>serde_json\<close>, \<open>url\<close>, \<open>base64\<close>, dates, the decimal arithmetic of \<open>rust_decimal\<close>,
  \<open>eventsource_stream\<close>, UUIDs, SHA-256, Argon2 and the cipher, form encoding, the collation of the
  database, the HTTP clients. What is relied on of them is a named hypothesis of the lemmas concerned,
  such as \<open>id_texts\<close> in \<open>Transport\<close>.

  \<^bold>\<open>Not modelled.\<close>

  \<^item> Listings, filters and dashboards (\<open>reports.rs\<close>, \<open>account_reports.rs\<close>, \<open>request_errors.rs\<close>, the
    listings of \<open>requests.rs\<close>, \<open>groups.rs\<close> and \<open>admin.rs\<close>): SQL queries, whose meaning is PostgreSQL's.
  \<^item> \<open>http/mod.rs\<close> beyond the guard of administrative requests: the table of routes, static pages and
    security headers.
  \<^item> The probes of memory of macOS and Windows, which call the systems' libraries; log output; the
    channel between the pipeline and the client's connection, which is that of \<open>tokio\<close>.
  \<^item> The deadline of \<open>collect_quotas\<close> and \<open>sync_models\<close> passes in the model only while the upstream is
    waited for, not during the store calls after it.
\<close>

end
